(* ===== verification/Prelude.thy ===== *)
theory Prelude
  imports Main
begin

text \<open>
  Shared vocabulary of the development: the faults that end a C program, the result type
  of code that can hit one of them, a small program logic over that type, and the generic
  facts on lists and maps that the component theories use.
\<close>

section \<open>Faults and results\<close>

text \<open>
  A C function of the program either returns or stops the process. The ways to stop are
  values of \<open>fault\<close>: reading through a null pointer, a failed \<open>g_assert\<close>, touching an
  object after it was freed, indexing outside an array, a GLib call whose documented
  precondition is violated, and a loop that never ends.
\<close>

datatype fault =
    NullDeref
  | AssertFail
  | UseAfterFree
  | OutOfBounds
  | BadArgument
  | Diverges

type_synonym 'a res = "fault + 'a"

definition bind_res :: "'a res \<Rightarrow> ('a \<Rightarrow> 'b res) \<Rightarrow> 'b res" where
  "bind_res m f = (case m of Inl e \<Rightarrow> Inl e | Inr x \<Rightarrow> f x)"

definition guard_res :: "bool \<Rightarrow> fault \<Rightarrow> unit res" where
  "guard_res b e = (if b then Inr () else Inl e)"

definition deref :: "'a option \<Rightarrow> 'a res" where
  "deref p = (case p of None \<Rightarrow> Inl NullDeref | Some x \<Rightarrow> Inr x)"

text \<open>\<open>g_assert(p != NULL)\<close> before a pointer is used.\<close>

definition asserted :: "'a option \<Rightarrow> 'a res" where
  "asserted p = (case p of None \<Rightarrow> Inl AssertFail | Some x \<Rightarrow> Inr x)"

definition live :: "'a option \<Rightarrow> 'a res" where
  "live p = (case p of None \<Rightarrow> Inl UseAfterFree | Some x \<Rightarrow> Inr x)"

text \<open>The fault that ended a computation, if any.\<close>

definition fault_of :: "'a res \<Rightarrow> fault option" where
  "fault_of m = (case m of Inl e \<Rightarrow> Some e | Inr _ \<Rightarrow> None)"

text \<open>A loop over a fixed list whose body can fault: it stops at the first fault.\<close>

fun fold_res :: "('x \<Rightarrow> 's \<Rightarrow> 's res) \<Rightarrow> 'x list \<Rightarrow> 's \<Rightarrow> 's res" where
  "fold_res f [] s = Inr s"
| "fold_res f (x # xs) s = bind_res (f x s) (fold_res f xs)"

lemma bind_res_simps [simp]:
  "bind_res (Inl e) f = Inl e"
  "bind_res (Inr x) f = f x"
  by (simp_all add: bind_res_def)

lemma bind_res_assoc: "bind_res (bind_res m f) g = bind_res m (\<lambda>x. bind_res (f x) g)"
  by (cases m) simp_all

lemma bind_res_Inr_iff [simp]:
  "bind_res m f = Inr y \<longleftrightarrow> (\<exists>x. m = Inr x \<and> f x = Inr y)"
  by (cases m) simp_all

lemma guard_res_simps [simp]:
  "guard_res True e = Inr ()"
  "guard_res False e = Inl e"
  "guard_res b e = Inr u \<longleftrightarrow> b"
  by (simp_all add: guard_res_def)

lemma deref_simps [simp]:
  "deref None = Inl NullDeref"
  "deref (Some x) = Inr x"
  "deref p = Inr x \<longleftrightarrow> p = Some x"
  by (auto simp: deref_def split: option.splits)

lemma asserted_simps [simp]:
  "asserted None = Inl AssertFail"
  "asserted (Some x) = Inr x"
  "asserted p = Inr x \<longleftrightarrow> p = Some x"
  by (auto simp: asserted_def split: option.splits)

lemma live_simps [simp]:
  "live None = Inl UseAfterFree"
  "live (Some x) = Inr x"
  "live p = Inr x \<longleftrightarrow> p = Some x"
  by (auto simp: live_def split: option.splits)

lemma fold_res_append:
  "fold_res f (xs @ ys) s = bind_res (fold_res f xs s) (fold_res f ys)"
proof (induction xs arbitrary: s)
  case (Cons x xs)
  then show ?case by (cases "f x s") simp_all
qed simp

section \<open>A program logic for results\<close>

text \<open>
  \<open>safe F P m\<close>: the computation \<open>m\<close> does not end in a fault of the set \<open>F\<close>, and when it
  returns, its value satisfies \<open>P\<close>. With \<open>F = UNIV\<close> this is total correctness; a smaller
  \<open>F\<close> names the faults that are ruled out while the others stay possible.
\<close>

definition safe :: "fault set \<Rightarrow> ('a \<Rightarrow> bool) \<Rightarrow> 'a res \<Rightarrow> bool" where
  "safe F P m = (case m of Inl e \<Rightarrow> e \<notin> F | Inr x \<Rightarrow> P x)"

named_theorems vcg \<open>one rule per operation: the precondition of a sequence that starts with it\<close>
named_theorems wf_intros \<open>preservation of the well-formedness of the network state\<close>

text \<open>The faults that concern allocated objects.\<close>

abbreviation heap_faults :: "fault set" where
  "heap_faults \<equiv> {UseAfterFree, Diverges}"

lemma safe_simps [simp]:
  "safe F P (Inl e) \<longleftrightarrow> e \<notin> F"
  "safe F P (Inr x) \<longleftrightarrow> P x"
  by (simp_all add: safe_def)

lemma safe_bind:
  assumes "safe F Q m" and "\<And>x. m = Inr x \<Longrightarrow> Q x \<Longrightarrow> safe F P (f x)"
  shows "safe F P (bind_res m f)"
  using assms by (cases m) simp_all

lemma safe_bind_any:
  assumes "safe F (\<lambda>_. True) m" and "\<And>x. m = Inr x \<Longrightarrow> safe F P (f x)"
  shows "safe F P (bind_res m f)"
  using assms by (cases m) simp_all

lemma safe_guard:
  "(\<not> b \<Longrightarrow> e \<notin> F) \<Longrightarrow> (b \<Longrightarrow> P ()) \<Longrightarrow> safe F P (guard_res b e)"
  by (simp add: guard_res_def)

lemma safe_deref:
  "(p = None \<Longrightarrow> NullDeref \<notin> F) \<Longrightarrow> (\<And>x. p = Some x \<Longrightarrow> P x) \<Longrightarrow> safe F P (deref p)"
  by (cases p) simp_all

lemma safe_live:
  "(p = None \<Longrightarrow> UseAfterFree \<notin> F) \<Longrightarrow> (\<And>x. p = Some x \<Longrightarrow> P x) \<Longrightarrow> safe F P (live p)"
  by (cases p) simp_all

lemma safe_if:
  "(b \<Longrightarrow> safe F P x) \<Longrightarrow> (\<not> b \<Longrightarrow> safe F P y) \<Longrightarrow> safe F P (if b then x else y)"
  by simp

lemma safe_case_option:
  "(p = None \<Longrightarrow> safe F P x) \<Longrightarrow> (\<And>a. p = Some a \<Longrightarrow> safe F P (f a)) \<Longrightarrow>
   safe F P (case p of None \<Rightarrow> x | Some a \<Rightarrow> f a)"
  by (cases p) simp_all

text \<open>The same rules for a computation that goes on.\<close>

lemma vcg_guard [vcg]:
  "(\<not> b \<Longrightarrow> e \<notin> F) \<Longrightarrow> (b \<Longrightarrow> safe F P (f ())) \<Longrightarrow> safe F P (bind_res (guard_res b e) f)"
  by (simp add: guard_res_def)

lemma vcg_deref [vcg]:
  "(p = None \<Longrightarrow> NullDeref \<notin> F) \<Longrightarrow> (\<And>x. p = Some x \<Longrightarrow> safe F P (f x)) \<Longrightarrow>
   safe F P (bind_res (deref p) f)"
  by (cases p) simp_all

lemma vcg_asserted [vcg]:
  "(p = None \<Longrightarrow> AssertFail \<notin> F) \<Longrightarrow> (\<And>x. p = Some x \<Longrightarrow> safe F P (f x)) \<Longrightarrow>
   safe F P (bind_res (asserted p) f)"
  by (cases p) simp_all

lemma vcg_live [vcg]:
  "(p = None \<Longrightarrow> UseAfterFree \<notin> F) \<Longrightarrow> (\<And>x. p = Some x \<Longrightarrow> safe F P (f x)) \<Longrightarrow>
   safe F P (bind_res (live p) f)"
  by (cases p) simp_all

lemma vcg_Inr [vcg]: "safe F P (f x) \<Longrightarrow> safe F P (bind_res (Inr x) f)"
  by simp

lemma vcg_return [vcg]: "P x \<Longrightarrow> safe F P (Inr x)"
  by simp

lemma vcg_fault [vcg]: "e \<notin> F \<Longrightarrow> safe F P (Inl e)"
  by simp

lemma vcg_if_bind [vcg]:
  "(b \<Longrightarrow> safe F P (bind_res x f)) \<Longrightarrow> (\<not> b \<Longrightarrow> safe F P (bind_res y f)) \<Longrightarrow>
   safe F P (bind_res (if b then x else y) f)"
  by simp

lemma vcg_assoc [vcg]:
  "safe F P (bind_res m (\<lambda>x. bind_res (f x) g)) \<Longrightarrow> safe F P (bind_res (bind_res m f) g)"
  by (simp add: bind_res_assoc)

lemma vcg_prod [vcg]:
  "(\<And>a b. p = (a, b) \<Longrightarrow> safe F P (f a b)) \<Longrightarrow> safe F P (case p of (a, b) \<Rightarrow> f a b)"
  by (cases p) simp

lemma vcg_prod_bind [vcg]:
  "(\<And>a b. p = (a, b) \<Longrightarrow> safe F P (bind_res (f a b) g)) \<Longrightarrow>
   safe F P (bind_res (case p of (a, b) \<Rightarrow> f a b) g)"
  by (cases p) simp

lemma vcg_let [vcg]: "safe F P (f x) \<Longrightarrow> safe F P (Let x f)"
  by simp

lemmas vcg_branch [vcg] = safe_if safe_case_option

lemma safe_mono:
  "safe F P m \<Longrightarrow> G \<subseteq> F \<Longrightarrow> (\<And>x. P x \<Longrightarrow> Q x) \<Longrightarrow> safe G Q m"
  by (cases m) auto

lemma safe_conj: "safe F P m \<Longrightarrow> safe F Q m \<Longrightarrow> safe F (\<lambda>x. P x \<and> Q x) m"
  by (cases m) simp_all

lemma safe_InrD: "safe F P m \<Longrightarrow> m = Inr x \<Longrightarrow> P x"
  by simp

lemma safe_InlD: "safe F P m \<Longrightarrow> m = Inl e \<Longrightarrow> e \<notin> F"
  by simp

lemma safe_UNIV_iff: "safe UNIV P m \<longleftrightarrow> (\<exists>x. m = Inr x \<and> P x)"
  by (cases m) simp_all

text \<open>The loop rule: an invariant that every iteration keeps holds at the end.\<close>

lemma safe_fold_res:
  assumes "P s" and "\<And>x s. x \<in> set xs \<Longrightarrow> P s \<Longrightarrow> safe F P (f x s)"
  shows "safe F P (fold_res f xs s)"
  using assms
proof (induction xs arbitrary: s)
  case Nil
  then show ?case by simp
next
  case (Cons x xs)
  have "safe F P (f x s)" using Cons.prems by simp
  then show ?case
    using Cons by (auto intro!: safe_bind [where Q = P])
qed

section \<open>Lists and maps\<close>

lemma Ex_bool_simps [simp]: "\<exists>b::bool. b" "Ex Not"
  by auto

lemma remove1_distinct_set [simp]: "distinct xs \<Longrightarrow> set (remove1 x xs) = set xs - {x}"
  by (rule set_remove1_eq)

lemma find_Some_iff_in: "List.find P xs = Some x \<Longrightarrow> x \<in> set xs \<and> P x"
  by (auto simp: find_Some_iff)

lemma dropWhile_neq_hd: "dropWhile P xs = y # ys \<Longrightarrow> \<not> P y"
  by (induction xs) (auto split: if_splits)

lemma takeWhile_append_stop:
  "\<forall>x\<in>set xs. P x \<Longrightarrow> \<not> P y \<Longrightarrow> takeWhile P (xs @ y # ys) = xs"
  by (induction xs) auto

lemma dropWhile_append_stop:
  "\<forall>x\<in>set xs. P x \<Longrightarrow> \<not> P y \<Longrightarrow> dropWhile P (xs @ y # ys) = y # ys"
  by (induction xs) auto

end
