(* ===== verification/Clib.thy ===== *)
theory Clib
  imports Prelude
begin

text \<open>
  The parts of the C library and of GLib's string functions that the program relies on,
  by their documented behaviour. A C string is the list of its bytes without the
  terminating NUL; \<open>None\<close> is the null pointer where a pointer may be null. A \<open>char\<close> of
  the source is signed. \<open>g_strdup\<close> and its kin copy a string and are the identity here;
  \<open>strcmp\<close> used as an equality test is equality of strings.
\<close>

section \<open>Characters\<close>

abbreviation NUL :: char where "NUL \<equiv> CHR 0x00"

definition uchar :: "char \<Rightarrow> int" where
  "uchar c = int (of_char c)"

definition schar :: "char \<Rightarrow> int" where
  "schar c = (if uchar c < 128 then uchar c else uchar c - 256)"

text \<open>What \<open>*s\<close> reads: the first byte, or the terminator of an empty string.\<close>

definition first_char :: "string \<Rightarrow> char" where
  "first_char s = (case s of [] \<Rightarrow> NUL | c # _ \<Rightarrow> c)"

text \<open>What \<open>s[i]\<close> reads for an index up to the terminator.\<close>

definition char_at :: "string \<Rightarrow> nat \<Rightarrow> char" where
  "char_at s i = (if i < length s then s ! i else NUL)"

definition c_str :: "string \<Rightarrow> string" where
  "c_str s = takeWhile (\<lambda>c. c \<noteq> NUL) s"

definition is_space :: "char \<Rightarrow> bool" where
  "is_space c \<longleftrightarrow> c = CHR '' '' \<or> (9 \<le> uchar c \<and> uchar c \<le> 13)"

definition ascii_tolower :: "char \<Rightarrow> char" where
  "ascii_tolower c = (if 65 \<le> uchar c \<and> uchar c \<le> 90 then char_of (of_char c + 32 :: nat) else c)"

section \<open>Searching\<close>

text \<open>
  \<open>strchr\<close> returns the suffix that starts at the first occurrence; searching for NUL
  finds the terminator.
\<close>

definition strchr :: "string \<Rightarrow> char \<Rightarrow> string option" where
  "strchr s c =
     (if c = NUL then Some []
      else case dropWhile (\<lambda>x. x \<noteq> c) s of [] \<Rightarrow> None | t \<Rightarrow> Some t)"

abbreviation has_chr :: "string \<Rightarrow> char \<Rightarrow> bool" where
  "has_chr s c \<equiv> strchr s c \<noteq> None"

definition before_chr :: "char \<Rightarrow> string \<Rightarrow> string" where
  "before_chr c s = takeWhile (\<lambda>x. x \<noteq> c) s"

fun is_prefix_of :: "string \<Rightarrow> string \<Rightarrow> bool" where
  "is_prefix_of [] s = True"
| "is_prefix_of (p # ps) [] = False"
| "is_prefix_of (p # ps) (c # cs) = (p = c \<and> is_prefix_of ps cs)"

text \<open>\<open>strstr\<close> as a truth value.\<close>

fun contains_str :: "string \<Rightarrow> string \<Rightarrow> bool" where
  "contains_str [] p = (p = [])"
| "contains_str (c # cs) p = (is_prefix_of p (c # cs) \<or> contains_str cs p)"

section \<open>Splitting and joining\<close>

text \<open>
  \<open>g_strsplit\<close> with a one-character delimiter: the empty string gives no token, a limit
  below one means no limit, and with a limit the last token keeps the rest.
\<close>

fun split_on :: "char \<Rightarrow> string \<Rightarrow> string list" where
  "split_on d [] = [[]]"
| "split_on d (c # cs) =
     (if c = d then [] # split_on d cs
      else (c # hd (split_on d cs)) # tl (split_on d cs))"

fun split_n :: "char \<Rightarrow> nat \<Rightarrow> string \<Rightarrow> string list" where
  "split_n d 0 s = [s]"
| "split_n d (Suc k) s =
     (if k = 0 then [s]
      else case dropWhile (\<lambda>x. x \<noteq> d) s of
             [] \<Rightarrow> [s]
           | _ # t \<Rightarrow> takeWhile (\<lambda>x. x \<noteq> d) s # split_n d k t)"

definition g_strsplit :: "string \<Rightarrow> char \<Rightarrow> nat \<Rightarrow> string list" where
  "g_strsplit s d k = (if s = [] then [] else if k = 0 then split_on d s else split_n d k s)"

fun g_strjoinv :: "string \<Rightarrow> string list \<Rightarrow> string" where
  "g_strjoinv sep [] = []"
| "g_strjoinv sep [x] = x"
| "g_strjoinv sep (x # y # ys) = x @ sep @ g_strjoinv sep (y # ys)"

text \<open>\<open>g_strstrip\<close>: white space removed at both ends.\<close>

definition g_strstrip :: "string \<Rightarrow> string" where
  "g_strstrip s = rev (dropWhile is_space (rev (dropWhile is_space s)))"

section \<open>Numbers\<close>

definition digit_char :: "nat \<Rightarrow> char" where
  "digit_char n = char_of (48 + n)"

text \<open>\<open>%d\<close>, \<open>%u\<close> and \<open>%03d\<close>.\<close>

fun show_nat :: "nat \<Rightarrow> string" where
  "show_nat n = (if n < 10 then [digit_char n] else show_nat (n div 10) @ [digit_char (n mod 10)])"

declare show_nat.simps [simp del]

definition show_int :: "int \<Rightarrow> string" where
  "show_int i = (if i < 0 then CHR ''-'' # show_nat (nat (- i)) else show_nat (nat i))"

definition show_pad3 :: "nat \<Rightarrow> string" where
  "show_pad3 n = (let s = show_nat n in replicate (3 - length s) (CHR ''0'') @ s)"

definition digit_val :: "char \<Rightarrow> nat option" where
  "digit_val c =
     (let n = of_char c :: nat in
      if 48 \<le> n \<and> n \<le> 57 then Some (n - 48)
      else if 65 \<le> n \<and> n \<le> 70 then Some (n - 55)
      else if 97 \<le> n \<and> n \<le> 102 then Some (n - 87)
      else None)"

definition is_digit_of :: "nat \<Rightarrow> char \<Rightarrow> bool" where
  "is_digit_of b c \<longleftrightarrow> (case digit_val c of None \<Rightarrow> False | Some d \<Rightarrow> d < b)"

fun read_digits :: "nat \<Rightarrow> nat \<Rightarrow> string \<Rightarrow> nat \<times> string" where
  "read_digits b acc [] = (acc, [])"
| "read_digits b acc (c # cs) =
     (if is_digit_of b c then read_digits b (acc * b + the (digit_val c)) cs else (acc, c # cs))"

definition LONG_MAX :: int where "LONG_MAX = 2 ^ 63 - 1"
definition LONG_MIN :: int where "LONG_MIN = - (2 ^ 63)"

text \<open>The radix and the digits that \<open>strtol\<close> reads; base 0 looks for a C prefix.\<close>

definition strtol_radix :: "nat \<Rightarrow> string \<Rightarrow> nat \<times> string" where
  "strtol_radix base s =
     (if base \<noteq> 0 then (base, s)
      else case s of
          z # x # d # r \<Rightarrow>
            (if z = CHR ''0'' \<and> (x = CHR ''x'' \<or> x = CHR ''X'') \<and> is_digit_of 16 d then (16, d # r)
             else if z = CHR ''0'' then (8, s) else (10, s))
        | z # r \<Rightarrow> (if z = CHR ''0'' then (8, s) else (10, s))
        | [] \<Rightarrow> (10, s))"

text \<open>\<open>strtol\<close>: the value, clamped to \<open>long\<close>, and the rest (the whole input without a digit).\<close>

definition strtol :: "nat \<Rightarrow> string \<Rightarrow> int \<times> string" where
  "strtol base s =
     (let t = dropWhile is_space s;
          neg = (first_char t = CHR ''-'');
          u = (if neg \<or> first_char t = CHR ''+'' then tl t else t);
          (b, v) = strtol_radix base u
      in if is_digit_of b (first_char v) then
           (let (n, r) = read_digits b 0 v
            in (max LONG_MIN (min LONG_MAX (if neg then - int n else int n)), r))
         else (0, s))"

definition atol :: "string \<Rightarrow> int" where
  "atol s = fst (strtol 10 s)"

text \<open>\<open>atoi\<close> is \<open>strtol\<close> converted to a 32-bit \<open>int\<close>.\<close>

definition to_int32 :: "int \<Rightarrow> int" where
  "to_int32 v = (v + 2 ^ 31) mod 2 ^ 32 - 2 ^ 31"

definition atoi :: "string \<Rightarrow> int" where
  "atoi s = to_int32 (atol s)"

section \<open>Order of strings\<close>

fun strcmp :: "string \<Rightarrow> string \<Rightarrow> int" where
  "strcmp [] [] = 0"
| "strcmp [] (b # bs) = - uchar b"
| "strcmp (a # as) [] = uchar a"
| "strcmp (a # as) (b # bs) = (if a = b then strcmp as bs else uchar a - uchar b)"

section \<open>Facts\<close>

lemma uchar_range [simp]: "0 \<le> uchar c" "uchar c < 256"
  by (simp_all add: uchar_def)

lemma uchar_inject [simp]: "uchar a = uchar b \<longleftrightarrow> a = b"
  by (simp add: uchar_def)

lemma uchar_eq_0 [simp]: "uchar c = 0 \<longleftrightarrow> c = NUL"
  using uchar_inject [of c NUL] by (simp add: uchar_def)

lemma schar_inject [simp]: "schar a = schar b \<longleftrightarrow> a = b"
proof -
  have "0 \<le> uchar a" "uchar a < 256" "0 \<le> uchar b" "uchar b < 256" by simp_all
  then have "schar a = schar b \<longleftrightarrow> uchar a = uchar b"
    unfolding schar_def by presburger
  then show ?thesis by simp
qed

lemma schar_NUL [simp]: "schar NUL = 0"
  by (simp add: schar_def uchar_def)

lemma schar_eq_0 [simp]: "schar c = 0 \<longleftrightarrow> c = NUL"
  using schar_inject [of c NUL] by simp

lemma uchar_char_of: "n < 256 \<Longrightarrow> uchar (char_of (n :: nat)) = int n"
  by (simp add: uchar_def)

lemma first_char_simps [simp]:
  "first_char [] = NUL"
  "first_char (c # cs) = c"
  by (simp_all add: first_char_def)

lemma c_str_simps [simp]:
  "c_str [] = []"
  "c_str (c # cs) = (if c = NUL then [] else c # c_str cs)"
  by (simp_all add: c_str_def)

lemma c_str_id: "NUL \<notin> set s \<Longrightarrow> c_str s = s"
  by (induction s) auto

lemma strchr_append:
  "c \<noteq> NUL \<Longrightarrow> c \<notin> set p \<Longrightarrow> strchr (p @ c # t) c = Some (c # t)"
  by (induction p) (auto simp: strchr_def)

lemma dropWhile_absent: "c \<notin> set s \<Longrightarrow> dropWhile (\<lambda>x. x \<noteq> c) s = []"
  by (induction s) auto

lemma strchr_None: "c \<noteq> NUL \<Longrightarrow> c \<notin> set s \<Longrightarrow> strchr s c = None"
  by (simp add: strchr_def dropWhile_absent)

lemma has_chr_iff: "has_chr s c \<longleftrightarrow> c = NUL \<or> c \<in> set s"
proof (cases "c \<in> set s")
  case True
  then obtain p t where "s = p @ c # t" "c \<notin> set p" by (meson split_list_first)
  then show ?thesis using strchr_append by (cases "c = NUL") (auto simp: strchr_def)
next
  case False
  then show ?thesis using strchr_None by (cases "c = NUL") (auto simp: strchr_def)
qed

lemma before_chr_append [simp]: "c \<notin> set p \<Longrightarrow> before_chr c (p @ c # t) = p"
  by (induction p) (auto simp: before_chr_def)

lemma before_chr_id [simp]: "c \<notin> set p \<Longrightarrow> before_chr c p = p"
  by (induction p) (auto simp: before_chr_def)

lemma before_chr_notin [simp]: "c \<notin> set (before_chr c s)"
  by (auto simp: before_chr_def dest: set_takeWhileD)

lemma strchr_Some_decomp:
  assumes "strchr s c = Some t" and "c \<noteq> NUL"
  shows "s = before_chr c s @ t \<and> t = c # tl t"
proof -
  have t: "dropWhile (\<lambda>x. x \<noteq> c) s = t" and ne: "t \<noteq> []"
    using assms by (auto simp: strchr_def split: list.splits)
  then obtain y ys where y: "t = y # ys" by (cases t) auto
  then have "y = c" using dropWhile_neq_hd t by fastforce
  moreover have "s = before_chr c s @ t"
    using t by (simp add: before_chr_def flip: t)
  ultimately show ?thesis using y by simp
qed

lemma first_char_dropWhile: "c \<noteq> NUL \<Longrightarrow> first_char (dropWhile (\<lambda>x. x = c) s) \<noteq> c"
  by (induction s) auto

subsection \<open>Splitting and joining\<close>

lemma split_on_nonempty [simp]: "split_on d s \<noteq> []"
  by (cases s) auto

lemma split_on_no_delim: "\<forall>w\<in>set (split_on d s). d \<notin> set w"
proof (induction s)
  case (Cons c cs)
  then show ?case by (cases "split_on d cs") auto
qed simp

lemma join_split_on: "g_strjoinv [d] (split_on d s) = s"
proof (induction s)
  case (Cons c cs)
  obtain w ws where ws: "split_on d cs = w # ws" by (cases "split_on d cs") auto
  then show ?case using Cons.IH by (cases ws) auto
qed simp

lemma split_on_single: "d \<notin> set w \<Longrightarrow> split_on d w = [w]"
  by (induction w) auto

lemma split_on_append: "d \<notin> set w \<Longrightarrow> split_on d (w @ d # s) = w # split_on d s"
  by (induction w) auto

lemma split_on_join:
  "ws \<noteq> [] \<Longrightarrow> \<forall>w\<in>set ws. d \<notin> set w \<Longrightarrow> split_on d (g_strjoinv [d] ws) = ws"
  by (induction "[d]" ws rule: g_strjoinv.induct) (auto simp: split_on_single split_on_append)

subsection \<open>Printing and reading numbers\<close>

lemma is_digit_of_digit_char [simp]: "n < 10 \<Longrightarrow> is_digit_of 10 (digit_char n)"
  by (simp add: is_digit_of_def digit_val_def digit_char_def)

lemma digit_val_digit_char [simp]: "n < 10 \<Longrightarrow> digit_val (digit_char n) = Some n"
  by (simp add: digit_val_def digit_char_def)

lemma show_nat_nonempty [simp]: "show_nat n \<noteq> []"
  by (subst show_nat.simps) simp

lemma show_nat_digits: "c \<in> set (show_nat n) \<Longrightarrow> is_digit_of 10 c"
proof (induction n rule: show_nat.induct)
  case (1 n)
  show ?case
  proof (cases "n < 10")
    case True
    then show ?thesis using "1.prems" by (subst (asm) show_nat.simps) simp
  next
    case False
    then show ?thesis using 1 by (subst (asm) (2) show_nat.simps) auto
  qed
qed

lemma read_digits_append:
  "\<forall>c\<in>set s. is_digit_of b c \<Longrightarrow>
   read_digits b acc (s @ r) = read_digits b (fst (read_digits b acc s)) r"
  by (induction s arbitrary: acc) auto

lemma read_digits_show_nat: "read_digits 10 0 (show_nat n) = (n, [])"
proof (induction n rule: show_nat.induct)
  case (1 n)
  show ?case
  proof (cases "n < 10")
    case True
    then show ?thesis by (subst show_nat.simps) simp
  next
    case False
    then have "read_digits 10 0 (show_nat (n div 10)) = (n div 10, [])" using 1 by simp
    moreover have "read_digits 10 0 (show_nat n) =
        read_digits 10 (fst (read_digits 10 0 (show_nat (n div 10)))) [digit_char (n mod 10)]"
      using False by (subst show_nat.simps) (simp add: read_digits_append show_nat_digits)
    ultimately show ?thesis by simp
  qed
qed

lemma read_digits_show_nat_append:
  "r = [] \<or> \<not> is_digit_of 10 (hd r) \<Longrightarrow> read_digits 10 0 (show_nat n @ r) = (n, r)"
  by (cases r) (auto simp: read_digits_append show_nat_digits read_digits_show_nat)

lemma show_nat_first: "is_digit_of 10 (first_char (show_nat n))"
  using show_nat_digits [of "first_char (show_nat n)" n] by (cases "show_nat n") auto

lemma digit_not_special:
  "is_digit_of 10 c \<Longrightarrow> \<not> is_space c \<and> c \<noteq> CHR ''-'' \<and> c \<noteq> CHR ''+''"
  by (auto simp: is_digit_of_def digit_val_def is_space_def uchar_def Let_def split: if_splits)

lemma strtol_show_int:
  assumes "LONG_MIN \<le> i" "i \<le> LONG_MAX" "r = [] \<or> \<not> is_digit_of 10 (hd r)"
  shows "strtol 10 (show_int i @ r) = (i, r)"
proof -
  let ?n = "nat \<bar>i\<bar>"
  obtain c cs where c: "show_nat ?n = c # cs" by (cases "show_nat ?n") auto
  then have d: "is_digit_of 10 c" using show_nat_first [of ?n] by simp
  have rd: "read_digits 10 0 (c # cs @ r) = (?n, r)"
    using read_digits_show_nat_append [OF assms(3), of ?n] c by simp
  show ?thesis
  proof (cases "i < 0")
    case True
    then have "show_int i = CHR ''-'' # c # cs" using c by (simp add: show_int_def)
    moreover have "\<not> is_space (CHR ''-'')" by (simp add: is_space_def uchar_def)
    ultimately show ?thesis using True d rd assms
      by (simp add: strtol_def strtol_radix_def)
  next
    case False
    then have "show_int i = c # cs" using c by (simp add: show_int_def)
    then show ?thesis using False d rd assms digit_not_special [OF d]
      by (simp add: strtol_def strtol_radix_def)
  qed
qed

lemma atol_show_int: "LONG_MIN \<le> i \<Longrightarrow> i \<le> LONG_MAX \<Longrightarrow> atol (show_int i) = i"
  using strtol_show_int [of i "[]"] by (simp add: atol_def)

lemma to_int32_id: "- (2 ^ 31) \<le> i \<Longrightarrow> i < 2 ^ 31 \<Longrightarrow> to_int32 i = i"
  by (simp add: to_int32_def)

lemma atoi_show_int: "- (2 ^ 31) \<le> i \<Longrightarrow> i < 2 ^ 31 \<Longrightarrow> atoi (show_int i) = i"
  by (simp add: atoi_def atol_show_int LONG_MIN_def LONG_MAX_def to_int32_id)

lemma strcmp_eq_0: "NUL \<notin> set a \<Longrightarrow> NUL \<notin> set b \<Longrightarrow> strcmp a b = 0 \<longleftrightarrow> a = b"
  by (induction a b rule: strcmp.induct) auto

end
