(* ===== verification/Util.thy ===== *)
theory Util
  imports Clib
begin

text \<open>
  \<open>libirc/util.c\<close>: the string comparisons of the program. \<open>base_strcmp\<close> compares
  protocol words, the \<open>str_*cmp\<close> family compares nicknames and channel names under the
  three IRC case mappings. The reference for the latter is equality after folding case;
  the locale \<open>name_eq\<close> states what the clients of a comparison rely on.
\<close>

section \<open>Protocol words\<close>

fun g_ascii_strcasecmp :: "string \<Rightarrow> string \<Rightarrow> int" where
  "g_ascii_strcasecmp (a # as) (b # bs) =
     (if a = NUL \<or> b = NUL then uchar a - uchar b
      else if ascii_tolower a = ascii_tolower b then g_ascii_strcasecmp as bs
      else uchar (ascii_tolower a) - uchar (ascii_tolower b))"
| "g_ascii_strcasecmp as bs = uchar (first_char as) - uchar (first_char bs)"

fun g_ascii_strncasecmp :: "string \<Rightarrow> string \<Rightarrow> nat \<Rightarrow> int" where
  "g_ascii_strncasecmp as bs 0 = 0"
| "g_ascii_strncasecmp (a # as) (b # bs) (Suc n) =
     (if a = NUL \<or> b = NUL then uchar a - uchar b
      else if ascii_tolower a = ascii_tolower b then g_ascii_strncasecmp as bs n
      else uchar (ascii_tolower a) - uchar (ascii_tolower b))"
| "g_ascii_strncasecmp as bs n = uchar (first_char as) - uchar (first_char bs)"

definition base_strcmp :: "string \<Rightarrow> string \<Rightarrow> int" where
  "base_strcmp a b = g_ascii_strcasecmp a b"

definition base_strncmp :: "string \<Rightarrow> string \<Rightarrow> nat \<Rightarrow> int" where
  "base_strncmp a b n = g_ascii_strncasecmp a b n"

text \<open>\<open>!base_strcmp(a, b)\<close>, the way the program uses it.\<close>

abbreviation base_eq :: "string \<Rightarrow> string \<Rightarrow> bool" where
  "base_eq a b \<equiv> base_strcmp a b = 0"

section \<open>Names\<close>

text \<open>
  The loop of \<open>str_cmphelper\<close>, one step per position: it goes on over equal characters
  and over pairs that are the two cases of one letter, and returns the difference of the
  characters it stops at, which are the terminators or the characters after the first
  \<open>len\<close> ones when nothing differed before.
\<close>

fun str_cmphelper :: "string \<Rightarrow> string \<Rightarrow> int \<Rightarrow> int \<Rightarrow> int \<Rightarrow> int \<Rightarrow> int \<Rightarrow> int" where
  "str_cmphelper (a # as) (b # bs) len sh sl eh el =
     (if a \<noteq> NUL \<and> b \<noteq> NUL \<and> 0 < len then
        (if a = b then str_cmphelper as bs (len - 1) sh sl eh el
         else
           let l = (if schar a > schar b then schar b else schar a);
               h = (if schar a > schar b then schar a else schar b)
           in if h < sh \<or> h > eh \<or> l < sl \<or> l > el then schar a - schar b
              else if h - sh \<noteq> l - sl then schar a - schar b
              else str_cmphelper as bs (len - 1) sh sl eh el)
      else schar a - schar b)"
| "str_cmphelper as bs len sh sl eh el = schar (first_char as) - schar (first_char bs)"

definition SIZE_MAX :: int where "SIZE_MAX = 2 ^ 64 - 1"

definition str_asciicmp :: "string \<Rightarrow> string \<Rightarrow> int" where
  "str_asciicmp a b = str_cmphelper a b SIZE_MAX 97 65 122 90"

definition str_strictrfc1459cmp :: "string \<Rightarrow> string \<Rightarrow> int" where
  "str_strictrfc1459cmp a b = str_cmphelper a b SIZE_MAX 97 65 125 93"

definition str_rfc1459cmp :: "string \<Rightarrow> string \<Rightarrow> int" where
  "str_rfc1459cmp a b = str_cmphelper a b SIZE_MAX 97 65 126 94"

definition str_asciincmp :: "string \<Rightarrow> string \<Rightarrow> nat \<Rightarrow> int" where
  "str_asciincmp a b n = str_cmphelper a b (int n) 97 65 122 90"

definition str_strictrfc1459ncmp :: "string \<Rightarrow> string \<Rightarrow> nat \<Rightarrow> int" where
  "str_strictrfc1459ncmp a b n = str_cmphelper a b (int n) 97 65 125 93"

definition str_rfc1459ncmp :: "string \<Rightarrow> string \<Rightarrow> nat \<Rightarrow> int" where
  "str_rfc1459ncmp a b n = str_cmphelper a b (int n) 97 65 126 94"

section \<open>Joining words\<close>

text \<open>
  \<open>list_make_string\<close>: the words separated by single spaces. Each \<open>strncat\<close> is bounded by
  the size of the whole buffer, which the first loop makes large enough, so nothing is cut.
\<close>

fun list_make_string :: "string list \<Rightarrow> string" where
  "list_make_string [] = []"
| "list_make_string (w # ws) = w @ (if ws = [] then [] else CHR '' '' # list_make_string ws)"

section \<open>Reference semantics of the comparisons\<close>

text \<open>Folding case with the letters from 65 to \<open>el\<close> paired with those 32 above.\<close>

definition fold_case :: "int \<Rightarrow> char \<Rightarrow> int" where
  "fold_case el c = (if 65 \<le> schar c \<and> schar c \<le> el then schar c + 32 else schar c)"

definition case_key :: "int \<Rightarrow> string \<Rightarrow> int list" where
  "case_key el s = map (fold_case el) (c_str s)"

lemma fold_case_eq_iff:
  assumes "el \<le> 94" "a \<noteq> b"
  shows "fold_case el a = fold_case el b \<longleftrightarrow>
    (let l = min (schar a) (schar b); h = max (schar a) (schar b)
     in 97 \<le> h \<and> h \<le> el + 32 \<and> 65 \<le> l \<and> l \<le> el \<and> h - 97 = l - 65)"
proof -
  have "schar a \<noteq> schar b" using assms by simp
  with assms(1) show ?thesis
    unfolding fold_case_def Let_def min_def max_def by (simp split: if_splits) arith
qed

lemma str_cmphelper_step:
  assumes "el \<le> 94" "a \<noteq> NUL" "b \<noteq> NUL" "0 < n"
  shows "str_cmphelper (a # as) (b # bs) n 97 65 (el + 32) el =
    (if fold_case el a = fold_case el b then str_cmphelper as bs (n - 1) 97 65 (el + 32) el
     else schar a - schar b)"
proof (cases "a = b")
  case False
  then have "schar a \<noteq> schar b" by simp
  then show ?thesis
    using assms False fold_case_eq_iff [OF assms(1) False]
    by (auto simp: Let_def min_def max_def)
qed (use assms in simp)

text \<open>
  What the helper compares: the first \<open>n\<close> characters with case folded, and then character
  \<open>n\<close> itself, unfolded.
\<close>

definition cmp_key :: "int \<Rightarrow> nat \<Rightarrow> string \<Rightarrow> int list \<times> char" where
  "cmp_key el n s = (case_key el (take n s), char_at (c_str s) n)"

lemma cmp_key_Cons:
  "cmp_key el n (c # cs) =
     (if c = NUL then ([], NUL)
      else if n = 0 then ([], c)
      else (fold_case el c # fst (cmp_key el (n - 1) cs), snd (cmp_key el (n - 1) cs)))"
  by (cases n) (auto simp: cmp_key_def case_key_def c_str_def char_at_def)

lemma cmp_key_Nil [simp]: "cmp_key el n [] = ([], NUL)"
  by (simp add: cmp_key_def case_key_def c_str_def char_at_def)

lemma schar_diff_0 [simp]: "schar a - schar b = 0 \<longleftrightarrow> a = b"
  by (metis eq_iff_diff_eq_0 schar_inject)

lemma str_cmphelper_eq_0_iff:
  assumes "el \<le> 94"
  shows "str_cmphelper a b (int n) 97 65 (el + 32) el = 0 \<longleftrightarrow> cmp_key el n a = cmp_key el n b"
proof (induction a arbitrary: b n)
  case Nil
  then show ?case by (cases b) (auto simp: cmp_key_Cons)
next
  case (Cons a as)
  show ?case
  proof (cases b)
    case b: (Cons c bs)
    show ?thesis
    proof (cases "a = NUL \<or> c = NUL \<or> n = 0")
      case True
      then show ?thesis using b by (auto simp: cmp_key_Cons)
    next
      case False
      then obtain m where n: "n = Suc m" by (cases n) auto
      have "str_cmphelper (a # as) (c # bs) (int n) 97 65 (el + 32) el =
          (if fold_case el a = fold_case el c then str_cmphelper as bs (int m) 97 65 (el + 32) el
           else schar a - schar c)"
        using str_cmphelper_step [OF assms, of a c "int n" as bs] False n by simp
      then show ?thesis
        using False b Cons.IH [of bs m] n
        by (auto simp: cmp_key_Cons prod_eq_iff simp del: str_cmphelper.simps)
    qed
  qed (auto simp: cmp_key_Cons)
qed

lemma cmp_key_long: "length s \<le> n \<Longrightarrow> cmp_key el n s = (case_key el s, NUL)"
  using length_takeWhile_le [of "\<lambda>c. c \<noteq> NUL" s]
  by (simp add: cmp_key_def char_at_def c_str_def)

text \<open>A string in memory is shorter than \<open>SIZE_MAX\<close>: whole names compare by their folded form.\<close>

lemma str_cmps_cmp_key:
  "str_asciicmp a b = 0 \<longleftrightarrow> cmp_key 90 (nat SIZE_MAX) a = cmp_key 90 (nat SIZE_MAX) b"
  "str_strictrfc1459cmp a b = 0 \<longleftrightarrow> cmp_key 93 (nat SIZE_MAX) a = cmp_key 93 (nat SIZE_MAX) b"
  "str_rfc1459cmp a b = 0 \<longleftrightarrow> cmp_key 94 (nat SIZE_MAX) a = cmp_key 94 (nat SIZE_MAX) b"
  using str_cmphelper_eq_0_iff [where n = "nat SIZE_MAX", of 90]
    str_cmphelper_eq_0_iff [where n = "nat SIZE_MAX", of 93]
    str_cmphelper_eq_0_iff [where n = "nat SIZE_MAX", of 94]
  by (simp_all add: SIZE_MAX_def str_asciicmp_def str_strictrfc1459cmp_def str_rfc1459cmp_def)

lemma str_ncmps_cmp_key:
  "str_asciincmp a b n = 0 \<longleftrightarrow> cmp_key 90 n a = cmp_key 90 n b"
  "str_strictrfc1459ncmp a b n = 0 \<longleftrightarrow> cmp_key 93 n a = cmp_key 93 n b"
  "str_rfc1459ncmp a b n = 0 \<longleftrightarrow> cmp_key 94 n a = cmp_key 94 n b"
  using str_cmphelper_eq_0_iff [of 90] str_cmphelper_eq_0_iff [of 93] str_cmphelper_eq_0_iff [of 94]
  by (simp_all add: str_asciincmp_def str_strictrfc1459ncmp_def str_rfc1459ncmp_def)

section \<open>What the clients of a comparison rely on\<close>

text \<open>
  Every lookup of the program walks a list and takes the first element whose name compares
  equal. What makes such a lookup meaningful is that the comparison is an equivalence.
\<close>

locale name_eq =
  fixes eqn :: "'k \<Rightarrow> 'k \<Rightarrow> bool"
  assumes eqn_refl: "eqn x x"
    and eqn_sym: "eqn x y \<Longrightarrow> eqn y x"
    and eqn_trans: "eqn x y \<Longrightarrow> eqn y z \<Longrightarrow> eqn x z"
begin

lemma eqn_cong: "eqn x y \<Longrightarrow> eqn x z \<longleftrightarrow> eqn y z"
  using eqn_sym eqn_trans by blast

text \<open>Two names that compare equal find the same element.\<close>

lemma find_cong:
  "eqn x y \<Longrightarrow> List.find (\<lambda>e. eqn (key e) x) es = List.find (\<lambda>e. eqn (key e) y) es"
proof -
  assume "eqn x y"
  then have "(\<lambda>e. eqn (key e) x) = (\<lambda>e. eqn (key e) y)"
    using eqn_sym eqn_trans by (intro ext) blast
  then show ?thesis by simp
qed

text \<open>An element appended to a list without its name is the one a lookup finds.\<close>

lemma find_append_new:
  assumes "List.find (\<lambda>e. eqn (key e) x) es = None" "eqn (key n) x"
  shows "List.find (\<lambda>e. eqn (key e) x) (es @ [n]) = Some n"
  using assms by (induction es) (auto split: if_splits)

lemma find_append_other:
  assumes "\<not> eqn (key n) x"
  shows "List.find (\<lambda>e. eqn (key e) x) (es @ [n]) = List.find (\<lambda>e. eqn (key e) x) es"
  using assms by (induction es) (auto split: if_splits)

end

section \<open>Protocol words: reference semantics\<close>

lemma base_eq_iff:
  "base_eq a b \<longleftrightarrow> map ascii_tolower (c_str a) = map ascii_tolower (c_str b)"
proof (induction a b rule: g_ascii_strcasecmp.induct)
  case (1 a as b bs)
  then show ?case by (auto simp: base_strcmp_def)
qed (auto simp: base_strcmp_def first_char_def split: list.splits)

interpretation word_eq: name_eq base_eq
  by unfold_locales (auto simp: base_eq_iff)

end
