(* ===== verification/Line.thy ===== *)
theory Line
  imports Util
begin

text \<open>
  \<open>libirc/line.c\<close>: IRC lines, their parser and printer, and the functions that build and
  inspect them. The record keeps the fields of \<open>struct irc_line\<close>; the array \<open>args\<close> with
  its NULL terminator is a list and \<open>argc\<close> its length, which every constructor of a line
  in the program establishes. The main result is that parsing inverts printing, and that
  every line the parser accepts survives being printed and parsed again.
\<close>

section \<open>Lines\<close>

datatype has_endcolon = COLON_UNKNOWN | WITH_COLON | WITHOUT_COLON

record irc_line =
  origin :: "string option"
  args :: "string list"
  endcolon :: has_endcolon

abbreviation argc :: "irc_line \<Rightarrow> nat" where
  "argc l \<equiv> length (args l)"

text \<open>
  Reading \<open>l->args[i]\<close>: an argument, the NULL terminator, or a position past it, which is
  outside the array.
\<close>

definition arg :: "irc_line \<Rightarrow> nat \<Rightarrow> string option res" where
  "arg l i =
     (if i < argc l then Inr (Some (args l ! i))
      else if i = argc l then Inr None
      else Inl OutOfBounds)"

text \<open>Reading an argument that the code then uses as a string.\<close>

definition sarg :: "irc_line \<Rightarrow> nat \<Rightarrow> string res" where
  "sarg l i = bind_res (arg l i) deref"

section \<open>Building lines\<close>

text \<open>The variable arguments of the C function end at the first NULL pointer.\<close>

definition va_strings :: "string option list \<Rightarrow> string list" where
  "va_strings ap = map the (takeWhile (\<lambda>a. a \<noteq> None) ap)"

definition virc_parse_line :: "string option \<Rightarrow> string option list \<Rightarrow> irc_line" where
  "virc_parse_line hostmask ap =
     \<lparr>origin = hostmask, args = va_strings ap, endcolon = COLON_UNKNOWN\<rparr>"

definition irc_parse_line_args :: "string option \<Rightarrow> string option list \<Rightarrow> irc_line" where
  "irc_parse_line_args orig ap = virc_parse_line orig ap"

definition virc_parse_response ::
    "string option \<Rightarrow> string \<Rightarrow> nat \<Rightarrow> string option list \<Rightarrow> irc_line res" where
  "virc_parse_response from to response ap =
     bind_res (guard_res (0 < response) AssertFail) (\<lambda>_.
       let l = virc_parse_line from ap
       in Inr (l\<lparr>args := show_pad3 response # to # args l\<rparr>))"

definition linedup :: "irc_line \<Rightarrow> irc_line" where
  "linedup l = \<lparr>origin = origin l, args = args l, endcolon = endcolon l\<rparr>"

section \<open>Parsing\<close>

text \<open>
  The splitting loop of \<open>irc_parse_line\<close>: \<open>cur\<close> is the argument being read, \<open>done\<close> the
  ones before it. A space ends an argument until a colon follows one; a line end stops.
\<close>

fun parse_args ::
    "string \<Rightarrow> bool \<Rightarrow> string \<Rightarrow> string list \<Rightarrow> has_endcolon \<Rightarrow> string list \<times> has_endcolon" where
  "parse_args [] dosplit cur done ec = (done @ [cur], ec)"
| "parse_args (c # cs) dosplit cur done ec =
     (if c = CHR '' '' \<and> dosplit then
        (if first_char cs = CHR '':'' then parse_args (tl cs) False [] (done @ [cur]) WITH_COLON
         else parse_args cs dosplit [] (done @ [cur]) ec)
      else if c = CHR 0x0D \<or> c = CHR 0x0A then (done @ [cur], ec)
      else parse_args cs dosplit (cur @ [c]) done ec)"

definition parse_body :: "string option \<Rightarrow> string \<Rightarrow> irc_line" where
  "parse_body orig p =
     (let (as, ec) = parse_args p True [] [] WITHOUT_COLON
      in \<lparr>origin = orig, args = as, endcolon = ec\<rparr>)"

definition irc_parse_line :: "string \<Rightarrow> irc_line option" where
  "irc_parse_line d =
     (if first_char d = CHR '':'' then
        (case strchr d (CHR '' '') of
           None \<Rightarrow> None
         | Some p \<Rightarrow>
             Some (parse_body (Some (tl (before_chr (CHR '' '') d)))
                     (dropWhile (\<lambda>c. c = CHR '' '') p)))
      else Some (parse_body None d))"

section \<open>Printing\<close>

definition RPL_no_colon :: "int list" where
  "RPL_no_colon =
     [324, 341, 367, 200, 201, 203, 204, 329, 205, 206, 208, 261, 211, 212, 213, 214, 215, 216,
      218, 219, 241, 242, 243, 244, 221, 4, 333]"

definition requires_colon :: "irc_line \<Rightarrow> bool res" where
  "requires_colon l =
     (if endcolon l = WITH_COLON then Inr True
      else if endcolon l = WITHOUT_COLON then Inr False
      else
        (case args l of
           [] \<Rightarrow> Inl AssertFail
         | a # _ \<Rightarrow>
             (let c = atoi a in
              if base_eq a ''MODE'' then Inr False
              else if base_eq a ''NICK'' then Inr False
              else if base_eq a ''JOIN'' then Inr False
              else if base_eq a ''PART'' \<or> base_eq a ''TOPIC'' then Inr (argc l > 2)
              else Inr (c \<notin> set RPL_no_colon))))"

text \<open>The printing loop from index \<open>i\<close> on; \<open>colon\<close> is what \<open>requires_colon\<close> answers.\<close>

fun print_args :: "bool \<Rightarrow> nat \<Rightarrow> string list \<Rightarrow> string" where
  "print_args colon i [] = []"
| "print_args colon i [a] = (if colon \<and> i \<noteq> 0 then CHR '':'' # a else a)"
| "print_args colon i (a # b # as) = a @ CHR '' '' # print_args colon (Suc i) (b # as)"

definition irc_line_string :: "irc_line \<Rightarrow> string res" where
  "irc_line_string l =
     (if argc l = 0 then Inr []
      else bind_res (requires_colon l) (\<lambda>colon.
        Inr ((case origin l of None \<Rightarrow> [] | Some h \<Rightarrow> CHR '':'' # h @ '' '')
             @ print_args colon 0 (args l))))"

definition irc_line_string_nl :: "irc_line \<Rightarrow> string res" where
  "irc_line_string_nl l =
     bind_res (irc_line_string l) (\<lambda>raw. Inr (raw @ [CHR 0x0D, CHR 0x0A]))"

section \<open>Inspecting and changing lines\<close>

definition line_get_nick :: "irc_line \<Rightarrow> string res" where
  "line_get_nick l =
     (case origin l of
        None \<Rightarrow> Inl AssertFail
      | Some h \<Rightarrow> Inr (before_chr (CHR ''!'') h))"

definition irc_line_respcode :: "irc_line \<Rightarrow> int" where
  "irc_line_respcode l = (case args l of [] \<Rightarrow> 0 | a # _ \<Rightarrow> atoi a)"

definition IRC_MAXLINELEN :: nat where "IRC_MAXLINELEN = 512"

definition line_len :: "irc_line \<Rightarrow> nat" where
  "line_len l = 4 + sum_list (map (\<lambda>a. length a + 1) (args l))"

definition line_add_arg :: "irc_line \<Rightarrow> string \<Rightarrow> bool \<times> irc_line" where
  "line_add_arg l a =
     (if line_len l + length a + 1 > IRC_MAXLINELEN then (False, l)
      else (True, l\<lparr>args := args l @ [a]\<rparr>))"

text \<open>\<open>stime\<close> is the local time of \<open>t\<close> as \<open>strftime\<close> formats it with \<open>%H:%M:%S\<close>.\<close>

definition line_prefix_time :: "irc_line \<Rightarrow> string \<Rightarrow> (bool \<times> irc_line) res" where
  "line_prefix_time l stime =
     bind_res (sarg l 2) (\<lambda>a.
       let action = (first_char a = CHR 0x01) in
       if action \<and> \<not> is_prefix_of ''ACTION'' (tl a) then Inr (False, l)
       else
         let tmp = (if action then CHR 0x01 # ''ACTION ['' @ stime @ '']'' @ drop 7 a
                    else ''['' @ stime @ ''] '' @ a)
         in Inr (True, l\<lparr>args := (args l)[2 := tmp]\<rparr>))"

fun cmp_args :: "string list \<Rightarrow> string list \<Rightarrow> int" where
  "cmp_args (a # as) (b # bs) = (let r = strcmp a b in if r \<noteq> 0 then r else cmp_args as bs)"
| "cmp_args as bs = 0"

definition irc_line_cmp :: "irc_line \<Rightarrow> irc_line \<Rightarrow> int" where
  "irc_line_cmp a b =
     (case (origin a, origin b) of
        (Some _, None) \<Rightarrow> 1
      | (None, Some _) \<Rightarrow> -1
      | (oa, ob) \<Rightarrow>
          (let r = (case (oa, ob) of (Some x, Some y) \<Rightarrow> strcmp x y | _ \<Rightarrow> 0) in
           if r \<noteq> 0 then r
           else
             let r = cmp_args (args a) (args b) in
             if r \<noteq> 0 then r else to_int32 (int (argc a) - int (argc b))))"

section \<open>Well-formed lines\<close>

definition plain :: "string \<Rightarrow> bool" where
  "plain a \<longleftrightarrow> (\<forall>c\<in>set a. c \<noteq> CHR '' '' \<and> c \<noteq> CHR 0x0D \<and> c \<noteq> CHR 0x0A)"

definition one_line :: "string \<Rightarrow> bool" where
  "one_line a \<longleftrightarrow> (\<forall>c\<in>set a. c \<noteq> CHR 0x0D \<and> c \<noteq> CHR 0x0A)"

text \<open>
  The arguments after the command, as they can appear on the wire: all but the last are
  words that do not start with a colon, and the last one is such a word unless it is
  printed after a colon, when it may hold spaces.
\<close>

fun wf_tail :: "bool \<Rightarrow> string list \<Rightarrow> bool" where
  "wf_tail colon [] = True"
| "wf_tail colon [a] =
     (if colon then one_line a else plain a \<and> first_char a \<noteq> CHR '':'')"
| "wf_tail colon (a # b # as) =
     (plain a \<and> first_char a \<noteq> CHR '':'' \<and> wf_tail colon (b # as))"

definition wf_line :: "irc_line \<Rightarrow> bool" where
  "wf_line l \<longleftrightarrow>
     (case args l of
        [] \<Rightarrow> False
      | a # as \<Rightarrow>
          plain a
          \<and> wf_tail (requires_colon l = Inr True) as
          \<and> (case origin l of
               None \<Rightarrow> first_char a \<noteq> CHR '':''
             | Some h \<Rightarrow> CHR '' '' \<notin> set h \<and> (a \<noteq> [] \<or> as = [])))"

text \<open>The line as the parser returns it: only the colon flag is normalised.\<close>

definition norm_colon :: "irc_line \<Rightarrow> irc_line" where
  "norm_colon l =
     l\<lparr>endcolon := (if requires_colon l = Inr True \<and> argc l > 1 then WITH_COLON else WITHOUT_COLON)\<rparr>"

section \<open>Parsing inverts printing\<close>

definition at_end :: "string \<Rightarrow> bool" where
  "at_end r \<longleftrightarrow> r = [] \<or> hd r = CHR 0x0D \<or> hd r = CHR 0x0A"

lemma parse_args_end [simp]: "at_end r \<Longrightarrow> parse_args r d cur done ec = (done @ [cur], ec)"
  by (cases r) (auto simp: at_end_def)

lemma first_char_append_end:
  "at_end r \<Longrightarrow> first_char a \<noteq> CHR '':'' \<Longrightarrow> first_char (a @ r) \<noteq> CHR '':''"
  by (cases a; cases r) (auto simp: at_end_def)

lemma parse_args_plain:
  "plain w \<Longrightarrow> parse_args (w @ r) d cur done ec = parse_args r d (cur @ w) done ec"
  by (induction w arbitrary: cur) (auto simp: plain_def)

lemma parse_args_one_line:
  "one_line w \<Longrightarrow> parse_args (w @ r) False cur done ec = parse_args r False (cur @ w) done ec"
  by (induction w arbitrary: cur) (auto simp: one_line_def)

lemma parse_print_tail:
  assumes "at_end r" "as \<noteq> []" "wf_tail colon as"
  shows "parse_args (CHR '' '' # print_args colon (Suc i) as @ r) True cur done WITHOUT_COLON =
    (done @ cur # as, if colon then WITH_COLON else WITHOUT_COLON)"
  using assms
proof (induction colon as arbitrary: i cur "done" rule: wf_tail.induct)
  case (2 colon a)
  show ?case
  proof (cases colon)
    case True
    then show ?thesis using 2 by (simp add: parse_args_one_line)
  next
    case False
    then have "first_char (a @ r) \<noteq> CHR '':''" "plain a"
      using 2 first_char_append_end by auto
    then show ?thesis using False 2(1) by (simp add: parse_args_plain)
  qed
next
  case (3 colon a b as)
  then have "first_char (a @ CHR '' '' # s) \<noteq> CHR '':''" for s
    by (cases a) auto
  then show ?case using 3 by (simp add: parse_args_plain)
qed simp

lemma parse_print_args:
  assumes "at_end r" "plain a" "wf_tail colon as"
  shows "parse_args (print_args colon 0 (a # as) @ r) True [] [] WITHOUT_COLON =
    (a # as, if colon \<and> as \<noteq> [] then WITH_COLON else WITHOUT_COLON)"
proof (cases as)
  case Nil
  then show ?thesis using assms by (simp add: parse_args_plain)
next
  case (Cons b bs)
  then show ?thesis
    using assms parse_print_tail [OF assms(1), of as colon 0 a "[]"]
    by (simp add: parse_args_plain)
qed

lemma print_args_first:
  assumes "at_end r" "plain a"
  shows "a \<noteq> [] \<or> as = [] \<Longrightarrow>
      dropWhile (\<lambda>c. c = CHR '' '') (print_args colon 0 (a # as) @ r) = print_args colon 0 (a # as) @ r"
    and "first_char a \<noteq> CHR '':'' \<Longrightarrow> first_char (print_args colon 0 (a # as) @ r) \<noteq> CHR '':''"
  using assms by (cases a; cases as; cases r; auto simp: plain_def at_end_def)+

lemma requires_colon_defined:
  assumes "args l \<noteq> []"
  shows "\<exists>b. requires_colon l = Inr b"
  using assms by (cases "args l") (auto simp: requires_colon_def Let_def)

lemma parse_print:
  assumes "wf_line l" "at_end r" "irc_line_string l = Inr s"
  shows "irc_parse_line (s @ r) = Some (norm_colon l)"
proof -
  obtain a as where as: "args l = a # as"
    using assms(1) by (cases "args l") (auto simp: wf_line_def)
  obtain colon where colon: "requires_colon l = Inr colon"
    using requires_colon_defined [of l] as by auto
  let ?p = "print_args colon 0 (a # as) @ r"
  have wf: "plain a" "wf_tail colon as"
    using assms(1) as colon by (auto simp: wf_line_def split: if_splits)
  note body = parse_print_args [OF assms(2) wf]
  show ?thesis
  proof (cases "origin l")
    case None
    then have "s @ r = ?p" using assms(3) as colon by (auto simp: irc_line_string_def)
    moreover have "first_char ?p \<noteq> CHR '':''"
      using print_args_first(2) [OF assms(2) wf(1)] assms(1) as None by (simp add: wf_line_def)
    ultimately show ?thesis
      using body None as colon by (auto simp: irc_parse_line_def parse_body_def norm_colon_def)
  next
    case (Some h)
    then have s: "s @ r = (CHR '':'' # h) @ CHR '' '' # ?p"
      using assms(3) as colon by (auto simp: irc_line_string_def)
    have h: "CHR '' '' \<notin> set (CHR '':'' # h)" and a: "a \<noteq> [] \<or> as = []"
      using assms(1) as Some by (auto simp: wf_line_def)
    have "strchr (s @ r) (CHR '' '') = Some (CHR '' '' # ?p)"
      unfolding s by (rule strchr_append [OF _ h]) simp
    moreover have "before_chr (CHR '' '') (s @ r) = CHR '':'' # h"
      unfolding s by (rule before_chr_append [OF h])
    moreover have "dropWhile (\<lambda>c. c = CHR '' '') ?p = ?p"
      by (rule print_args_first(1) [OF assms(2) wf(1) a])
    ultimately show ?thesis
      using body Some as colon s by (auto simp: irc_parse_line_def parse_body_def norm_colon_def)
  qed
qed

section \<open>What the parser returns\<close>

lemma wf_tail_snoc:
  "wf_tail colon (bs @ [x]) \<longleftrightarrow>
     (\<forall>b\<in>set bs. plain b \<and> first_char b \<noteq> CHR '':'')
     \<and> (if colon then one_line x else plain x \<and> first_char x \<noteq> CHR '':'')"
proof (induction bs)
  case (Cons b bs)
  then show ?case by (cases bs) auto
qed simp

lemma parse_args_after_colon:
  "one_line cur \<Longrightarrow> \<exists>x. parse_args s False cur done ec = (done @ [x], ec) \<and> one_line x"
  by (induction s False cur "done" ec rule: parse_args.induct) (auto simp: one_line_def)

lemma parse_args_wf_tail:
  assumes "parse_args s True cur (d # ds) WITHOUT_COLON = (as, ec)"
    and "\<forall>b\<in>set ds. plain b \<and> first_char b \<noteq> CHR '':''"
    and "plain cur" "first_char cur \<noteq> CHR '':''" "cur = [] \<Longrightarrow> first_char s \<noteq> CHR '':''"
  shows "\<exists>bs. as = d # bs \<and> bs \<noteq> [] \<and> wf_tail (ec = WITH_COLON) bs \<and> ec \<noteq> COLON_UNKNOWN"
  using assms
proof (induction s arbitrary: cur ds)
  case Nil
  then show ?case by (auto simp: wf_tail_snoc)
next
  case (Cons c cs)
  consider (colon) "c = CHR '' ''" "first_char cs = CHR '':''"
    | (space) "c = CHR '' ''" "first_char cs \<noteq> CHR '':''"
    | (stop) "c = CHR 0x0D \<or> c = CHR 0x0A"
    | (char) "c \<noteq> CHR '' ''" "c \<noteq> CHR 0x0D" "c \<noteq> CHR 0x0A" by auto
  then show ?case
  proof cases
    case colon
    obtain x where "parse_args (tl cs) False [] (d # ds @ [cur]) WITH_COLON = (d # ds @ [cur, x], WITH_COLON)"
      "one_line x"
      using parse_args_after_colon [of "[]" "tl cs" "d # ds @ [cur]" WITH_COLON]
      by (auto simp: one_line_def)
    then show ?thesis
      using Cons.prems colon wf_tail_snoc [of True "ds @ [cur]" x] by auto
  next
    case space
    then show ?thesis
      using Cons.prems Cons.IH [of "[]" "ds @ [cur]"] by (auto simp: plain_def)
  next
    case stop
    then show ?thesis using Cons.prems by (auto simp: wf_tail_snoc)
  next
    case char
    moreover have "first_char (cur @ [c]) \<noteq> CHR '':''"
      using Cons.prems(4,5) by (cases cur) auto
    ultimately show ?thesis
      using Cons.prems Cons.IH [of "cur @ [c]" ds] by (auto simp: plain_def)
  qed
qed

lemma parse_args_first:
  assumes "parse_args s True cur [] WITHOUT_COLON = (as, ec)" "plain cur"
  shows "\<exists>a bs. as = a # bs \<and> plain a \<and> wf_tail (ec = WITH_COLON) bs \<and> ec \<noteq> COLON_UNKNOWN
    \<and> (ec = WITH_COLON \<longrightarrow> bs \<noteq> [])
    \<and> (\<exists>u. a = cur @ u \<and> (u = [] \<or> (s \<noteq> [] \<and> hd u = hd s)))
    \<and> (a = [] \<longrightarrow> bs = [] \<or> first_char s = CHR '' '')"
  using assms
proof (induction s arbitrary: cur)
  case Nil
  then show ?case by auto
next
  case (Cons c cs)
  consider (colon) "c = CHR '' ''" "first_char cs = CHR '':''"
    | (space) "c = CHR '' ''" "first_char cs \<noteq> CHR '':''"
    | (stop) "c = CHR 0x0D \<or> c = CHR 0x0A"
    | (char) "c \<noteq> CHR '' ''" "c \<noteq> CHR 0x0D" "c \<noteq> CHR 0x0A" by auto
  then show ?case
  proof cases
    case colon
    obtain x where "parse_args (tl cs) False [] [cur] WITH_COLON = ([cur, x], WITH_COLON)" "one_line x"
      using parse_args_after_colon [of "[]" "tl cs" "[cur]" WITH_COLON] by (auto simp: one_line_def)
    then show ?thesis using Cons.prems colon by auto
  next
    case space
    then show ?thesis
      using Cons.prems parse_args_wf_tail [of cs "[]" cur "[]" as ec] by (auto simp: plain_def)
  next
    case stop
    then show ?thesis using Cons.prems by auto
  next
    case char
    moreover have "plain (cur @ [c])" using Cons.prems char by (auto simp: plain_def)
    ultimately show ?thesis
      using Cons.prems Cons.IH [of "cur @ [c]"] by fastforce
  qed
qed

lemma parsed_requires_colon:
  "endcolon l \<noteq> COLON_UNKNOWN \<Longrightarrow> requires_colon l = Inr (endcolon l = WITH_COLON)"
  by (cases "endcolon l") (auto simp: requires_colon_def)

lemma irc_parse_line_wf:
  assumes "irc_parse_line d = Some l"
  shows "wf_line l \<and> norm_colon l = l"
proof -
  obtain orig p where l: "l = parse_body orig p"
    and orig: "orig = None \<Longrightarrow> first_char p \<noteq> CHR '':''"
      "\<And>h. orig = Some h \<Longrightarrow> CHR '' '' \<notin> set h \<and> first_char p \<noteq> CHR '' ''"
  proof (cases "first_char d = CHR '':''")
    case True
    then obtain p where p: "strchr d (CHR '' '') = Some p"
      and l: "l = parse_body (Some (tl (before_chr (CHR '' '') d))) (dropWhile (\<lambda>c. c = CHR '' '') p)"
      using assms by (auto simp: irc_parse_line_def split: option.splits)
    have "CHR '' '' \<notin> set (tl (before_chr (CHR '' '') d))"
      using before_chr_notin [of "CHR '' ''" d] by (cases "before_chr (CHR '' '') d") auto
    moreover have "first_char (dropWhile (\<lambda>c. c = CHR '' '') p) \<noteq> CHR '' ''"
      by (rule first_char_dropWhile) simp
    ultimately show ?thesis using that [OF l] by simp
  next
    case False
    then show ?thesis using assms that by (auto simp: irc_parse_line_def)
  qed
  obtain as ec where as: "parse_args p True [] [] WITHOUT_COLON = (as, ec)" by fastforce
  obtain a bs where a: "as = a # bs" "plain a" "wf_tail (ec = WITH_COLON) bs" "ec \<noteq> COLON_UNKNOWN"
    "ec = WITH_COLON \<longrightarrow> bs \<noteq> []" "a = [] \<or> (p \<noteq> [] \<and> hd a = hd p)"
    "a = [] \<longrightarrow> bs = [] \<or> first_char p = CHR '' ''"
    using parse_args_first [OF as] by (auto simp: plain_def)
  have lf: "origin l = orig" "args l = a # bs" "endcolon l = ec"
    using l as a(1) by (simp_all add: parse_body_def)
  have rc: "requires_colon l = Inr (ec = WITH_COLON)"
    using parsed_requires_colon [of l] lf a(4) by simp
  have fa: "first_char a = NUL \<or> first_char a = first_char p"
    using a(6) by (cases a; cases p) auto
  have "norm_colon l = l"
    using lf rc a(4,5) by (cases ec) (auto simp: norm_colon_def)
  moreover have "wf_line l"
    using lf rc a fa orig by (cases orig) (auto simp: wf_line_def)
  ultimately show ?thesis by simp
qed

text \<open>The number of arguments is bounded by what \<open>irc_parse_line\<close> allocates.\<close>

definition spaces :: "string \<Rightarrow> nat" where
  "spaces s = length (filter (\<lambda>c. c = CHR '' '') s)"

lemma parse_args_length:
  "length (fst (parse_args s d cur done ec)) \<le> length done + spaces s + 1"
proof (induction s d cur "done" ec rule: parse_args.induct)
  case (2 c cs d cur "done" ec)
  moreover have "spaces (tl cs) \<le> spaces cs" by (cases cs) (auto simp: spaces_def)
  ultimately show ?case by (auto simp: spaces_def)
qed (simp add: spaces_def)

lemma arg_simps [simp]:
  "i < argc l \<Longrightarrow> arg l i = Inr (Some (args l ! i))"
  "i < argc l \<Longrightarrow> sarg l i = Inr (args l ! i)"
  by (simp_all add: arg_def sarg_def)

lemma wf_line_prints: "wf_line l \<Longrightarrow> \<exists>s. irc_line_string l = Inr s"
  using requires_colon_defined [of l]
  by (auto simp: wf_line_def irc_line_string_def split: list.splits)

section \<open>Properties\<close>

text \<open>C5. Printing a well-formed line and parsing what was printed gives the line back, with
  the colon flag settled, whatever line terminator follows; printing never fails.\<close>

theorem line_print_parse:
  assumes "wf_line l" "at_end r"
  shows "\<exists>s. irc_line_string l = Inr s \<and> irc_parse_line (s @ r) = Some (norm_colon l)"
  using wf_line_prints [OF assms(1)] parse_print [OF assms] by blast

theorem line_print_parse_witness:
  "\<exists>s. irc_line_string \<lparr>origin = Some ''a!b@c'', args = [''PRIVMSG'', ''#x'', ''hi there''],
       endcolon = COLON_UNKNOWN\<rparr> = Inr s \<and>
     irc_parse_line (s @ [CHR 0x0D, CHR 0x0A]) =
       Some \<lparr>origin = Some ''a!b@c'', args = [''PRIVMSG'', ''#x'', ''hi there''], endcolon = WITH_COLON\<rparr>"
proof -
  let ?l = "\<lparr>origin = Some ''a!b@c'', args = [''PRIVMSG'', ''#x'', ''hi there''], endcolon = COLON_UNKNOWN\<rparr>"
  have "wf_line ?l" by code_simp
  moreover have "at_end [CHR 0x0D, CHR 0x0A]" by (simp add: at_end_def)
  moreover have "norm_colon ?l = ?l\<lparr>endcolon := WITH_COLON\<rparr>" by code_simp
  ultimately show ?thesis using line_print_parse [of ?l "[CHR 0x0D, CHR 0x0A]"] by simp
qed

text \<open>Every line that the parser accepts survives being sent on: it prints, and the
  printed text parses to the very same line.\<close>

theorem line_parse_print_parse:
  assumes "irc_parse_line d = Some l"
  shows "\<exists>s. irc_line_string l = Inr s \<and> irc_parse_line s = Some l"
proof -
  have wf: "wf_line l" "norm_colon l = l" using irc_parse_line_wf [OF assms] by simp_all
  obtain s where s: "irc_line_string l = Inr s" using wf_line_prints [OF wf(1)] by blast
  have "at_end []" by (simp add: at_end_def)
  from parse_print [OF wf(1) this s] show ?thesis using s wf(2) by auto
qed

theorem line_parse_print_parse_witness:
  "\<exists>s. irc_line_string \<lparr>origin = None, args = [''PING'', ''a b''], endcolon = WITH_COLON\<rparr> = Inr s \<and>
     irc_parse_line s = Some \<lparr>origin = None, args = [''PING'', ''a b''], endcolon = WITH_COLON\<rparr>"
proof -
  have "irc_parse_line ''PING :a b'' =
      Some \<lparr>origin = None, args = [''PING'', ''a b''], endcolon = WITH_COLON\<rparr>" by code_simp
  from line_parse_print_parse [OF this] show ?thesis .
qed

text \<open>The parser never makes more arguments than the line has spaces, plus one: the array
  it allocates by counting the spaces is large enough, for every input.\<close>

theorem parsed_argc_bound: "argc (parse_body orig s) \<le> spaces s + 1"
  using parse_args_length [of s True "[]" "[]" WITHOUT_COLON]
  by (cases "parse_args s True [] [] WITHOUT_COLON") (simp add: parse_body_def)

end
