(* ===== verification/Isupport.thy ===== *)
theory Isupport
  imports Line
begin

text \<open>
  \<open>libirc/isupport.c\<close>: what a network says about itself. The record holds the fields of
  \<open>struct irc_network_info\<close>, in their order and prefixed with \<open>ni_\<close>; a pointer that may
  be NULL is an option. \<open>network_info_parse\<close> reads one token of a 005 line into it,
  \<open>network_info_string\<close> writes the tokens out, and the remaining functions answer the
  questions the rest of the program asks: how names compare, what a channel name is, and
  how status prefixes and modes correspond.
\<close>

section \<open>The record\<close>

datatype casemapping = CASEMAP_UNKNOWN | CASEMAP_RFC1459 | CASEMAP_ASCII | CASEMAP_STRICT_RFC1459

datatype chanmode_type =
    CHANMODE_UNKNOWN | CHANMODE_NICKLIST | CHANMODE_SETTING | CHANMODE_OPT_SETTING | CHANMODE_BOOL

record irc_network_info =
  ni_name :: "string option"
  ni_server :: "string option"
  ni_supported_user_modes :: "string option"
  ni_supported_channel_modes :: "string option"
  ni_casemapping :: casemapping
  ni_prefix :: "string option"
  ni_chantypes :: "string option"
  ni_charset :: "string option"
  ni_chanmodes :: "string list option"
  ni_chanmodes_a :: "string option"
  ni_chanmodes_b :: "string option"
  ni_chanmodes_c :: "string option"
  ni_chanmodes_d :: "string option"
  ni_chanlimit :: "string option"
  ni_maxlist :: "string option"
  ni_elist_mask_search :: bool
  ni_elist_inverse_mask_search :: bool
  ni_elist_usercount_search :: bool
  ni_elist_creation_time_search :: bool
  ni_elist_topic_search :: bool
  ni_extban_prefix :: "string option"
  ni_extban_supported :: "string option"
  ni_idchan :: "string option"
  ni_excepts_mode :: char
  ni_invex_mode :: char
  ni_deaf_mode :: char
  ni_statusmsg :: "string option"
  ni_ircd :: "string option"
  ni_keylen :: int
  ni_ssl :: bool
  ni_silence :: bool
  ni_hcn :: bool
  ni_silence_limit :: int
  ni_channellen :: int
  ni_awaylen :: int
  ni_kicklen :: int
  ni_maxtargets :: int
  ni_nicklen :: int
  ni_userlen :: int
  ni_hostlen :: int
  ni_maxchannels :: int
  ni_topiclen :: int
  ni_maxbans :: int
  ni_maxmodes :: int
  ni_wallchops :: bool
  ni_wallvoices :: bool
  ni_rfc2812 :: bool
  ni_penalty :: bool
  ni_forced_nick_changes :: bool
  ni_safelist :: bool
  ni_userip :: bool
  ni_cprivmsg :: bool
  ni_cnotice :: bool
  ni_knock :: bool
  ni_vchannels :: bool
  ni_whox :: bool
  ni_callerid :: bool
  ni_accept :: bool
  ni_capab :: bool
  ni_maxpara :: int
  ni_namesx :: bool
  ni_securelist :: bool
  ni_watch :: int
  ni_remove :: bool
  ni_map :: bool
  ni_operoverride :: bool
  ni_vbanlist :: bool
  ni_uhnames :: bool
  ni_esilence :: bool

definition DEFAULT_PREFIX :: string where "DEFAULT_PREFIX = ''(ov)@+''"
definition DEFAULT_CHANTYPES :: string where "DEFAULT_CHANTYPES = ''#&''"

definition network_info_init :: irc_network_info where
  "network_info_init =
     \<lparr>ni_name = None, ni_server = None, ni_supported_user_modes = None,
      ni_supported_channel_modes = None, ni_casemapping = CASEMAP_UNKNOWN,
      ni_prefix = Some DEFAULT_PREFIX, ni_chantypes = Some DEFAULT_CHANTYPES,
      ni_charset = None, ni_chanmodes = None, ni_chanmodes_a = None, ni_chanmodes_b = None,
      ni_chanmodes_c = None, ni_chanmodes_d = None, ni_chanlimit = None, ni_maxlist = None,
      ni_elist_mask_search = False, ni_elist_inverse_mask_search = False,
      ni_elist_usercount_search = False, ni_elist_creation_time_search = False,
      ni_elist_topic_search = False, ni_extban_prefix = None, ni_extban_supported = None,
      ni_idchan = None, ni_excepts_mode = NUL, ni_invex_mode = NUL, ni_deaf_mode = NUL,
      ni_statusmsg = None, ni_ircd = None, ni_keylen = 0, ni_ssl = False, ni_silence = False,
      ni_hcn = False, ni_silence_limit = 0, ni_channellen = 0, ni_awaylen = 0, ni_kicklen = 0,
      ni_maxtargets = 0, ni_nicklen = 0, ni_userlen = 0, ni_hostlen = 0, ni_maxchannels = 0,
      ni_topiclen = 0, ni_maxbans = 0, ni_maxmodes = 0, ni_wallchops = False,
      ni_wallvoices = False, ni_rfc2812 = False, ni_penalty = False,
      ni_forced_nick_changes = False, ni_safelist = False, ni_userip = False,
      ni_cprivmsg = False, ni_cnotice = False, ni_knock = False, ni_vchannels = False,
      ni_whox = False, ni_callerid = False, ni_accept = False, ni_capab = False,
      ni_maxpara = 0, ni_namesx = False, ni_securelist = False, ni_watch = 0,
      ni_remove = False, ni_map = False, ni_operoverride = False, ni_vbanlist = False,
      ni_uhnames = False, ni_esilence = False\<rparr>"

section \<open>Reading one token of a 005 line\<close>

definition G_MAXINT :: int where "G_MAXINT = 2 ^ 31 - 1"

text \<open>
  \<open>g_ascii_string_to_signed(val, 10, 0, G_MAXINT, &v, NULL)\<close>: a number and nothing else,
  within the bounds.
\<close>

definition g_ascii_string_to_signed :: "string \<Rightarrow> int \<Rightarrow> int \<Rightarrow> int option" where
  "g_ascii_string_to_signed s lo hi =
     (let (v, r) = strtol 10 s in
      if s = [] \<or> is_space (first_char s) \<or> r \<noteq> [] \<or> v < lo \<or> v > hi then None else Some v)"

text \<open>A numeric parameter: kept when it does not parse; a missing value violates GLib's precondition.\<close>

definition parse_num ::
    "string option \<Rightarrow> (int \<Rightarrow> irc_network_info) \<Rightarrow> irc_network_info \<Rightarrow> irc_network_info res" where
  "parse_num val upd info =
     (case val of
        None \<Rightarrow> Inl BadArgument
      | Some s \<Rightarrow>
          (case g_ascii_string_to_signed s 0 G_MAXINT of
             Some v \<Rightarrow> Inr (upd v)
           | None \<Rightarrow> Inr info))"

text \<open>Modes of CHANMODES that the 004 line did not name are added to it.\<close>

definition add_missing_mode :: "char \<Rightarrow> string \<Rightarrow> string" where
  "add_missing_mode m modes = (if has_chr modes m then modes else modes @ [m])"

definition check_chanmodes_inconsistency :: "irc_network_info \<Rightarrow> irc_network_info" where
  "check_chanmodes_inconsistency info =
     (case (ni_supported_channel_modes info, ni_chanmodes info) of
        (Some modes, Some cms) \<Rightarrow>
          info\<lparr>ni_supported_channel_modes := Some (fold add_missing_mode (concat cms) modes)\<rparr>
      | _ \<Rightarrow> info)"

definition parse_CASEMAPPING :: "string option \<Rightarrow> irc_network_info \<Rightarrow> irc_network_info res" where
  "parse_CASEMAPPING val info =
     (case val of
        None \<Rightarrow> Inl BadArgument
      | Some v \<Rightarrow>
          Inr (info\<lparr>ni_casemapping :=
            (if base_eq v ''rfc1459'' then CASEMAP_RFC1459
             else if base_eq v ''strict-rfc1459'' then CASEMAP_STRICT_RFC1459
             else if base_eq v ''ascii'' then CASEMAP_ASCII
             else CASEMAP_UNKNOWN)\<rparr>))"

definition parse_CHANMODES :: "string option \<Rightarrow> irc_network_info \<Rightarrow> irc_network_info res" where
  "parse_CHANMODES val info =
     (case val of
        None \<Rightarrow> Inl BadArgument
      | Some v \<Rightarrow>
          (let cms = g_strsplit v (CHR '','') 4;
               info' = info\<lparr>ni_chanmodes_a := None, ni_chanmodes_b := None, ni_chanmodes_c := None,
                             ni_chanmodes_d := None, ni_chanmodes := Some cms\<rparr>
           in if length cms \<noteq> 4 then Inr info'
              else Inr (check_chanmodes_inconsistency
                     (info'\<lparr>ni_chanmodes_a := Some (cms ! 0), ni_chanmodes_b := Some (cms ! 1),
                            ni_chanmodes_c := Some (cms ! 2), ni_chanmodes_d := Some (cms ! 3)\<rparr>))))"

text \<open>EXCEPTS, INVEX and DEAF: one mode character, with a default.\<close>

definition parse_mode_char ::
    "string option \<Rightarrow> char \<Rightarrow> (char \<Rightarrow> irc_network_info) \<Rightarrow> irc_network_info \<Rightarrow> irc_network_info" where
  "parse_mode_char val dflt upd info =
     (case val of
        None \<Rightarrow> upd dflt
      | Some v \<Rightarrow> if length v > 1 then info else upd (first_char v))"

definition parse_elist_char :: "char \<Rightarrow> irc_network_info \<Rightarrow> irc_network_info" where
  "parse_elist_char c info =
     (if c = CHR ''M'' then info\<lparr>ni_elist_mask_search := True\<rparr>
      else if c = CHR ''N'' then info\<lparr>ni_elist_inverse_mask_search := True\<rparr>
      else if c = CHR ''T'' then info\<lparr>ni_elist_topic_search := True\<rparr>
      else if c = CHR ''U'' then info\<lparr>ni_elist_usercount_search := True\<rparr>
      else if c = CHR ''C'' then info\<lparr>ni_elist_creation_time_search := True\<rparr>
      else info)"

text \<open>
  EXTBAN: \<open>g_strsplit\<close> of the empty string returns a vector that holds only its NULL
  terminator, so reading the second part is outside of it.
\<close>

definition parse_EXTBAN :: "string option \<Rightarrow> irc_network_info \<Rightarrow> irc_network_info res" where
  "parse_EXTBAN val info =
     (case val of
        None \<Rightarrow> Inr (info\<lparr>ni_extban_prefix := Some ''~'', ni_extban_supported := Some ''cqr''\<rparr>)
      | Some v \<Rightarrow>
          (case g_strsplit v (CHR '','') 2 of
             [] \<Rightarrow> Inl OutOfBounds
           | [a] \<Rightarrow> Inr (info\<lparr>ni_extban_prefix := Some a, ni_extban_supported := None\<rparr>)
           | a # b # _ \<Rightarrow> Inr (info\<lparr>ni_extban_prefix := Some a, ni_extban_supported := Some b\<rparr>)))"

definition parse_PREFIX :: "string option \<Rightarrow> irc_network_info \<Rightarrow> irc_network_info res" where
  "parse_PREFIX val info =
     (case val of
        None \<Rightarrow> Inl NullDeref
      | Some v \<Rightarrow>
          if length v > 0 \<and> (first_char v \<noteq> CHR ''('' \<or> \<not> has_chr v (CHR '')'')) then Inr info
          else Inr (info\<lparr>ni_prefix := Some v\<rparr>))"

text \<open>The chain of comparisons of \<open>network_info_parse\<close>, its second half first.\<close>

definition network_info_parse_tail ::
    "string \<Rightarrow> string option \<Rightarrow> irc_network_info \<Rightarrow> irc_network_info res" where
  "network_info_parse_tail key val info =
     (if base_eq key ''KEYLEN'' then
        (case val of None \<Rightarrow> Inl NullDeref | Some v \<Rightarrow> Inr (info\<lparr>ni_keylen := atoi v\<rparr>))
      else if base_eq key ''SILENCE'' then
        (case val of
           Some v \<Rightarrow> Inr (info\<lparr>ni_silence_limit := atoi v, ni_silence := True\<rparr>)
         | None \<Rightarrow> Inr (info\<lparr>ni_silence := True\<rparr>))
      else if base_eq key ''CHANTYPES'' then Inr (info\<lparr>ni_chantypes := val\<rparr>)
      else if base_eq key ''CHANMODES'' then parse_CHANMODES val info
      else if base_eq key ''CHANLIMIT'' then Inr (info\<lparr>ni_chanlimit := val\<rparr>)
      else if base_eq key ''EXCEPTS'' then
        Inr (parse_mode_char val (CHR ''e'') (\<lambda>c. info\<lparr>ni_excepts_mode := c\<rparr>) info)
      else if base_eq key ''INVEX'' then
        Inr (parse_mode_char val (CHR ''I'') (\<lambda>c. info\<lparr>ni_invex_mode := c\<rparr>) info)
      else if base_eq key ''ELIST'' then
        (case val of None \<Rightarrow> Inl NullDeref | Some v \<Rightarrow> Inr (fold parse_elist_char v info))
      else if base_eq key ''DEAF'' then
        Inr (parse_mode_char val (CHR ''D'') (\<lambda>c. info\<lparr>ni_deaf_mode := c\<rparr>) info)
      else if base_eq key ''EXTBAN'' then parse_EXTBAN val info
      else if base_eq key ''MAXLIST'' then Inr (info\<lparr>ni_maxlist := val\<rparr>)
      else if base_eq key ''IDCHAN'' then Inr (info\<lparr>ni_idchan := val\<rparr>)
      else if base_eq key ''STATUSMSG'' then Inr (info\<lparr>ni_statusmsg := val\<rparr>)
      else if base_eq key ''PREFIX'' then parse_PREFIX val info
      else if base_eq key ''CHARSET'' then Inr (info\<lparr>ni_charset := val\<rparr>)
      else if base_eq key ''NAMESX'' then Inr (info\<lparr>ni_namesx := True\<rparr>)
      else if base_eq key ''SECURELIST'' then Inr (info\<lparr>ni_securelist := True\<rparr>)
      else Inr info)"

definition network_info_parse_pair ::
    "string \<Rightarrow> string option \<Rightarrow> irc_network_info \<Rightarrow> irc_network_info res" where
  "network_info_parse_pair key val info =
     (if base_eq key ''CASEMAPPING'' then parse_CASEMAPPING val info
      else if base_eq key ''NETWORK'' then Inr (info\<lparr>ni_name := val\<rparr>)
      else if base_eq key ''IRCD'' then Inr (info\<lparr>ni_ircd := val\<rparr>)
      else if base_eq key ''NICKLEN'' \<or> base_eq key ''MAXNICKLEN'' then
        parse_num val (\<lambda>v. info\<lparr>ni_nicklen := v\<rparr>) info
      else if base_eq key ''USERLEN'' then
        parse_num val (\<lambda>v. info\<lparr>ni_userlen := v\<rparr>) info
      else if base_eq key ''HOSTLEN'' then
        parse_num val (\<lambda>v. info\<lparr>ni_hostlen := v\<rparr>) info
      else if base_eq key ''OVERRIDE'' then Inr (info\<lparr>ni_operoverride := True\<rparr>)
      else if base_eq key ''CHANNELLEN'' \<or> base_eq key ''MAXCHANNELLEN'' then
        parse_num val (\<lambda>v. info\<lparr>ni_channellen := v\<rparr>) info
      else if base_eq key ''AWAYLEN'' then
        parse_num val (\<lambda>v. info\<lparr>ni_awaylen := v\<rparr>) info
      else if base_eq key ''KICKLEN'' then
        parse_num val (\<lambda>v. info\<lparr>ni_kicklen := v\<rparr>) info
      else if base_eq key ''TOPICLEN'' then
        parse_num val (\<lambda>v. info\<lparr>ni_topiclen := v\<rparr>) info
      else if base_eq key ''WATCH'' then
        parse_num val (\<lambda>v. info\<lparr>ni_watch := v\<rparr>) info
      else if base_eq key ''VBANLIST'' then Inr (info\<lparr>ni_vbanlist := True\<rparr>)
      else if base_eq key ''MAXPARA'' then
        parse_num val (\<lambda>v. info\<lparr>ni_maxpara := v\<rparr>) info
      else if base_eq key ''MAXCHANNELS'' then
        parse_num val (\<lambda>v. info\<lparr>ni_maxchannels := v\<rparr>) info
      else if base_eq key ''MAXTARGETS'' then
        parse_num val (\<lambda>v. info\<lparr>ni_maxtargets := v\<rparr>) info
      else if base_eq key ''REMOVE'' then Inr (info\<lparr>ni_remove := True\<rparr>)
      else if base_eq key ''MAXBANS'' then
        parse_num val (\<lambda>v. info\<lparr>ni_maxbans := v\<rparr>) info
      else if base_eq key ''MODES'' then
        parse_num val (\<lambda>v. info\<lparr>ni_maxmodes := v\<rparr>) info
      else if base_eq key ''WALLCHOPS'' then Inr (info\<lparr>ni_wallchops := True\<rparr>)
      else if base_eq key ''MAP'' then Inr (info\<lparr>ni_map := True\<rparr>)
      else if base_eq key ''SSL'' then Inr (info\<lparr>ni_ssl := True\<rparr>)
      else if base_eq key ''WALLVOICES'' then Inr (info\<lparr>ni_wallvoices := True\<rparr>)
      else if base_eq key ''RFC2812'' then Inr (info\<lparr>ni_rfc2812 := True\<rparr>)
      else if base_eq key ''PENALTY'' then Inr (info\<lparr>ni_penalty := True\<rparr>)
      else if base_eq key ''FNC'' then Inr (info\<lparr>ni_forced_nick_changes := True\<rparr>)
      else if base_eq key ''SAFELIST'' then Inr (info\<lparr>ni_safelist := True\<rparr>)
      else if base_eq key ''USERIP'' then Inr (info\<lparr>ni_userip := True\<rparr>)
      else if base_eq key ''CPRIVMSG'' then Inr (info\<lparr>ni_cprivmsg := True\<rparr>)
      else if base_eq key ''CNOTICE'' then Inr (info\<lparr>ni_cnotice := True\<rparr>)
      else if base_eq key ''KNOCK'' then Inr (info\<lparr>ni_knock := True\<rparr>)
      else if base_eq key ''CAPAB'' then Inr (info\<lparr>ni_capab := True\<rparr>)
      else if base_eq key ''HCN'' then Inr (info\<lparr>ni_hcn := True\<rparr>)
      else if base_eq key ''VCHANNELS'' then Inr (info\<lparr>ni_vchannels := True\<rparr>)
      else if base_eq key ''WHOX'' then Inr (info\<lparr>ni_whox := True\<rparr>)
      else if base_eq key ''CALLERID'' then Inr (info\<lparr>ni_callerid := True\<rparr>)
      else if base_eq key ''ACCEPT'' then Inr (info\<lparr>ni_accept := True\<rparr>)
      else if base_eq key ''ESILENCE'' then Inr (info\<lparr>ni_esilence := True\<rparr>)
      else if base_eq key ''UHNAMES'' then Inr (info\<lparr>ni_uhnames := True\<rparr>)
      else network_info_parse_tail key val info)"

definition network_info_parse :: "irc_network_info \<Rightarrow> string \<Rightarrow> irc_network_info res" where
  "network_info_parse info parameter =
     (case strchr parameter (CHR ''='') of
        None \<Rightarrow> network_info_parse_pair parameter None info
      | Some sep \<Rightarrow> network_info_parse_pair (before_chr (CHR ''='') parameter) (Some (tl sep)) info)"

section \<open>Writing the tokens\<close>

definition tok_flag :: "bool \<Rightarrow> string \<Rightarrow> string list" where
  "tok_flag b name = (if b then [name] else [])"

definition tok_int :: "int \<Rightarrow> string \<Rightarrow> string list" where
  "tok_int v name = (if v \<noteq> 0 then [name @ ''='' @ show_int v] else [])"

definition tok_str :: "string option \<Rightarrow> string \<Rightarrow> string list" where
  "tok_str v name = (case v of Some s \<Rightarrow> [name @ ''='' @ s] | None \<Rightarrow> [])"

definition tok_char :: "char \<Rightarrow> string \<Rightarrow> string list" where
  "tok_char c name = (if c \<noteq> NUL then [name @ ''='' @ [c]] else [])"

definition casemap_token :: "casemapping \<Rightarrow> string" where
  "casemap_token c =
     (case c of
        CASEMAP_STRICT_RFC1459 \<Rightarrow> ''CASEMAPPING=strict-rfc1459''
      | CASEMAP_ASCII \<Rightarrow> ''CASEMAPPING=ascii''
      | _ \<Rightarrow> ''CASEMAPPING=rfc1459'')"

definition info_tokens_1 :: "irc_network_info \<Rightarrow> string list" where
  "info_tokens_1 info =
     tok_str (ni_name info) ''NETWORK'' @
     [casemap_token (ni_casemapping info)] @
     tok_flag (ni_forced_nick_changes info) ''FNC'' @
     tok_flag (ni_map info) ''MAP'' @
     tok_flag (ni_ssl info) ''SSL'' @
     tok_str (ni_charset info) ''CHARSET'' @
     tok_int (ni_nicklen info) ''NICKLEN'' @
     tok_int (ni_userlen info) ''USERLEN'' @
     tok_int (ni_watch info) ''WATCH'' @
     tok_flag (ni_vbanlist info) ''VBANLIST'' @
     tok_flag (ni_operoverride info) ''OVERRIDE'' @
     tok_int (ni_hostlen info) ''HOSTLEN'' @
     tok_int (ni_channellen info) ''CHANNELLEN'' @
     tok_int (ni_awaylen info) ''AWAYLEN'' @
     tok_int (ni_kicklen info) ''KICKLEN'' @
     tok_int (ni_topiclen info) ''TOPICLEN'' @
     tok_int (ni_maxchannels info) ''MAXCHANNELS'' @
     tok_int (ni_maxtargets info) ''MAXTARGETS'' @
     tok_int (ni_maxbans info) ''MAXBANS'' @
     tok_int (ni_maxmodes info) ''MODES'' @
     tok_int (ni_maxpara info) ''MAXPARA'' @
     tok_flag (ni_wallchops info) ''WALLCHOPS'' @
     tok_flag (ni_wallvoices info) ''WALLVOICES'' @
     tok_flag (ni_rfc2812 info) ''RFC2812'' @
     tok_flag (ni_penalty info) ''PENALTY'' @
     tok_flag (ni_remove info) ''REMOVE'' @
     tok_flag (ni_safelist info) ''SAFELIST'' @
     tok_flag (ni_userip info) ''USERIP'' @
     tok_flag (ni_capab info) ''CAPAB'' @
     tok_flag (ni_hcn info) ''HCN''"

text \<open>The ELIST letters, in the order of the source; five letters fit the 100-byte buffer.\<close>

definition elist_letters :: "irc_network_info \<Rightarrow> string" where
  "elist_letters info =
     (if ni_elist_mask_search info then ''M'' else []) @
     (if ni_elist_inverse_mask_search info then ''N'' else []) @
     (if ni_elist_usercount_search info then ''U'' else []) @
     (if ni_elist_creation_time_search info then ''C'' else []) @
     (if ni_elist_topic_search info then ''T'' else [])"

text \<open>A NULL argument of a \<open>%s\<close> directive prints as glibc prints it.\<close>

definition printf_s :: "string option \<Rightarrow> string" where
  "printf_s s = (case s of Some v \<Rightarrow> v | None \<Rightarrow> ''(null)'')"

definition info_tokens_2 :: "irc_network_info \<Rightarrow> string list" where
  "info_tokens_2 info =
     tok_flag (ni_cprivmsg info) ''CPRIVMSG'' @
     tok_flag (ni_cnotice info) ''CNOTICE'' @
     tok_flag (ni_knock info) ''KNOCK'' @
     tok_flag (ni_vchannels info) ''VCHANNELS'' @
     tok_flag (ni_whox info) ''WHOX'' @
     tok_flag (ni_callerid info) ''CALLERID'' @
     tok_flag (ni_accept info) ''ACCEPT'' @
     tok_flag (ni_esilence info) ''ESILENCE'' @
     tok_flag (ni_uhnames info) ''UHNAMES'' @
     tok_int (ni_keylen info) ''KEYLEN'' @
     (if ni_silence info then
        (if ni_silence_limit info \<noteq> 0
         then [''SILENCE='' @ show_int (ni_silence_limit info)] else [''SILENCE''])
      else []) @
     tok_str (ni_chantypes info) ''CHANTYPES'' @
     tok_str (ni_ircd info) ''IRCD'' @
     (case ni_chanmodes info of
        Some cms \<Rightarrow> [''CHANMODES='' @ g_strjoinv '','' cms] | None \<Rightarrow> []) @
     tok_str (ni_chanlimit info) ''CHANLIMIT'' @
     tok_flag (ni_namesx info) ''NAMESX'' @
     tok_flag (ni_securelist info) ''SECURELIST'' @
     tok_char (ni_excepts_mode info) ''EXCEPTS'' @
     tok_str (ni_statusmsg info) ''STATUSMSG'' @
     tok_char (ni_invex_mode info) ''INVEX'' @
     (if elist_letters info \<noteq> [] then [''ELIST='' @ elist_letters info] else []) @
     (case ni_extban_prefix info of
        Some p \<Rightarrow> [''EXTBAN='' @ p @ '','' @ printf_s (ni_extban_supported info)] | None \<Rightarrow> []) @
     tok_char (ni_deaf_mode info) ''DEAF'' @
     tok_str (ni_maxlist info) ''MAXLIST'' @
     tok_str (ni_idchan info) ''IDCHAN'' @
     tok_str (ni_prefix info) ''PREFIX''"

definition network_info_string :: "irc_network_info \<Rightarrow> string" where
  "network_info_string info = list_make_string (info_tokens_1 info @ info_tokens_2 info)"

section \<open>Questions about names, prefixes and modes\<close>

text \<open>The \<open>info\<close> argument of these functions may be NULL, which selects RFC 1459 folding.\<close>

definition ircncmp :: "irc_network_info option \<Rightarrow> string \<Rightarrow> string \<Rightarrow> nat \<Rightarrow> int" where
  "ircncmp n a b len =
     (case (case n of Some i \<Rightarrow> ni_casemapping i | None \<Rightarrow> CASEMAP_UNKNOWN) of
        CASEMAP_ASCII \<Rightarrow> str_asciincmp a b len
      | CASEMAP_STRICT_RFC1459 \<Rightarrow> str_strictrfc1459ncmp a b len
      | _ \<Rightarrow> str_rfc1459ncmp a b len)"

definition irccmp :: "irc_network_info option \<Rightarrow> string \<Rightarrow> string \<Rightarrow> int" where
  "irccmp n a b =
     (case (case n of Some i \<Rightarrow> ni_casemapping i | None \<Rightarrow> CASEMAP_UNKNOWN) of
        CASEMAP_ASCII \<Rightarrow> str_asciicmp a b
      | CASEMAP_STRICT_RFC1459 \<Rightarrow> str_strictrfc1459cmp a b
      | _ \<Rightarrow> str_rfc1459cmp a b)"

text \<open>\<open>strchr\<close> finds the terminator: the empty name counts as a channel name.\<close>

definition is_channelname :: "string option \<Rightarrow> irc_network_info \<Rightarrow> bool res" where
  "is_channelname name n =
     bind_res (guard_res (ni_chantypes n \<noteq> None) AssertFail) (\<lambda>_.
     bind_res (guard_res (name \<noteq> None) AssertFail) (\<lambda>_.
     Inr (has_chr (the (ni_chantypes n)) (first_char (the name)))))"

definition is_prefix :: "char \<Rightarrow> irc_network_info option \<Rightarrow> bool res" where
  "is_prefix p n =
     (if p = NUL then Inr False
      else bind_res (case n of None \<Rightarrow> Inr DEFAULT_PREFIX | Some i \<Rightarrow> deref (ni_prefix i)) (\<lambda>prefix.
        let pref_end = (case strchr prefix (CHR '')'') of None \<Rightarrow> prefix | Some r \<Rightarrow> tl r)
        in Inr (has_chr pref_end p)))"

definition get_charset :: "irc_network_info \<Rightarrow> string option" where
  "get_charset n = ni_charset n"

definition is_channel_mode :: "irc_network_info \<Rightarrow> char \<Rightarrow> bool" where
  "is_channel_mode info mode =
     (case ni_supported_channel_modes info of None \<Rightarrow> False | Some ms \<Rightarrow> has_chr ms mode)"

definition is_user_mode :: "irc_network_info \<Rightarrow> char \<Rightarrow> bool" where
  "is_user_mode info mode =
     (case ni_supported_user_modes info of None \<Rightarrow> False | Some ms \<Rightarrow> has_chr ms mode)"

text \<open>
  The set of modes of a user or a channel, \<open>irc_modes_t\<close>: an array of \<open>MAXMODES\<close> flags that
  is indexed by an unsigned character. An index at or above \<open>MAXMODES\<close> is out of bounds.
\<close>

type_synonym modes = "char \<Rightarrow> bool"

definition MAXMODES :: int where "MAXMODES = 255"

definition modes_clear :: modes where "modes_clear = (\<lambda>_. False)"

definition mode_get :: "modes \<Rightarrow> char \<Rightarrow> bool res" where
  "mode_get ms c = (if uchar c < MAXMODES then Inr (ms c) else Inl OutOfBounds)"

text \<open>
  The loops of the three PREFIX functions: \<open>i\<close> runs over the characters after the closing
  parenthesis, and the mode letter at \<open>i\<close> is read from the text after the opening one.
\<close>

fun prefix_from_modes :: "string \<Rightarrow> string \<Rightarrow> modes \<Rightarrow> char res" where
  "prefix_from_modes prefix [] ms = Inr NUL"
| "prefix_from_modes prefix (p # ps) ms =
     (if p = NUL then Inr NUL
      else bind_res (mode_get ms (first_char prefix)) (\<lambda>b.
        if b then Inr p else prefix_from_modes (tl prefix) ps ms))"

definition get_prefix_from_modes :: "irc_network_info \<Rightarrow> modes \<Rightarrow> char res" where
  "get_prefix_from_modes info ms =
     bind_res (guard_res (ni_prefix info \<noteq> None) AssertFail) (\<lambda>_.
     let prefix = the (ni_prefix info) in
     case strchr prefix (CHR '')'') of
       None \<Rightarrow> Inr NUL
     | Some pref_end \<Rightarrow>
         if first_char prefix \<noteq> CHR ''('' then Inr NUL
         else prefix_from_modes (tl prefix) (tl pref_end) ms)"

fun mode_of_prefix :: "string \<Rightarrow> string \<Rightarrow> char \<Rightarrow> char" where
  "mode_of_prefix mapping [] c = NUL"
| "mode_of_prefix mapping (p # ps) c =
     (if p = NUL then NUL
      else if p = c then first_char mapping
      else mode_of_prefix (tl mapping) ps c)"

definition get_mode_by_prefix :: "char \<Rightarrow> irc_network_info \<Rightarrow> char res" where
  "get_mode_by_prefix p n =
     bind_res (guard_res (ni_prefix n \<noteq> None) AssertFail) (\<lambda>_.
     let mapping = the (ni_prefix n) in
     Inr (case strchr mapping (CHR '')'') of
            None \<Rightarrow> NUL
          | Some pref_end \<Rightarrow>
              if first_char mapping \<noteq> CHR ''('' then NUL
              else mode_of_prefix (tl mapping) (tl pref_end) p))"

fun prefix_of_mode :: "string \<Rightarrow> string \<Rightarrow> char \<Rightarrow> char" where
  "prefix_of_mode prefix [] m = CHR '' ''"
| "prefix_of_mode prefix (p # ps) m =
     (if p = NUL then CHR '' ''
      else if first_char prefix = m then p
      else prefix_of_mode (tl prefix) ps m)"

definition get_prefix_by_mode :: "char \<Rightarrow> irc_network_info \<Rightarrow> char res" where
  "get_prefix_by_mode m n =
     bind_res (guard_res (ni_prefix n \<noteq> None) AssertFail) (\<lambda>_.
     let prefix = the (ni_prefix n) in
     Inr (case strchr prefix (CHR '')'') of
            None \<Rightarrow> CHR '' ''
          | Some pref_end \<Rightarrow>
              if first_char prefix \<noteq> CHR ''('' then CHR '' ''
              else prefix_of_mode (tl prefix) (tl pref_end) m))"

definition default_chanmodes :: "string list" where
  "default_chanmodes = [''beI'', ''k'', ''l'', ''imnpsta'']"

text \<open>
  The class of a channel mode: the position of the group of CHANMODES that holds it. The
  vector of a CHANMODES token with fewer than four groups ends early, in a NULL pointer.
\<close>

definition chanmode_types :: "chanmode_type list" where
  "chanmode_types = [CHANMODE_NICKLIST, CHANMODE_SETTING, CHANMODE_OPT_SETTING, CHANMODE_BOOL]"

fun chanmode_scan :: "string list \<Rightarrow> chanmode_type list \<Rightarrow> char \<Rightarrow> chanmode_type res" where
  "chanmode_scan groups [] m = Inr CHANMODE_UNKNOWN"
| "chanmode_scan [] (t # ts) m = Inl NullDeref"
| "chanmode_scan (g # gs) (t # ts) m =
     (if has_chr g m then Inr t else chanmode_scan gs ts m)"

definition network_chanmode_type :: "char \<Rightarrow> irc_network_info option \<Rightarrow> chanmode_type res" where
  "network_chanmode_type m n =
     (let groups = (case n of
                      None \<Rightarrow> default_chanmodes
                    | Some i \<Rightarrow> (case ni_chanmodes i of None \<Rightarrow> default_chanmodes | Some cms \<Rightarrow> cms))
      in chanmode_scan groups chanmode_types m)"

text \<open>The 005 handler's loop over the arguments 2 to \<open>argc - 2\<close>.\<close>

definition info_handle_005 :: "irc_network_info \<Rightarrow> irc_line \<Rightarrow> irc_network_info res" where
  "info_handle_005 info l =
     bind_res (guard_res (argc l \<ge> 1) AssertFail) (\<lambda>_.
     fold_res (\<lambda>a i. network_info_parse i a) (take (argc l - 3) (drop 2 (args l))) info)"

section \<open>Comparing names is an equivalence\<close>

definition casemap_end :: "irc_network_info option \<Rightarrow> int" where
  "casemap_end n =
     (case (case n of Some i \<Rightarrow> ni_casemapping i | None \<Rightarrow> CASEMAP_UNKNOWN) of
        CASEMAP_ASCII \<Rightarrow> 90 | CASEMAP_STRICT_RFC1459 \<Rightarrow> 93 | _ \<Rightarrow> 94)"

lemma irccmp_cmp_key:
  "irccmp n a b = 0 \<longleftrightarrow>
     cmp_key (casemap_end n) (nat SIZE_MAX) a = cmp_key (casemap_end n) (nat SIZE_MAX) b"
  by (auto simp: irccmp_def casemap_end_def str_cmps_cmp_key
      split: option.splits casemapping.splits)

lemma ircncmp_cmp_key:
  "ircncmp n a b k = 0 \<longleftrightarrow> cmp_key (casemap_end n) k a = cmp_key (casemap_end n) k b"
  by (auto simp: ircncmp_def casemap_end_def str_ncmps_cmp_key
      split: option.splits casemapping.splits)

interpretation irc_eq: name_eq "\<lambda>a b. irccmp n a b = 0" for n
  by unfold_locales (simp_all add: irccmp_cmp_key)

lemma irccmp_refl [simp]: "irccmp n a a = 0"
  by (rule irc_eq.eqn_refl)

section \<open>Pointers that stay set\<close>

text \<open>The parser never resets PREFIX, and CHANTYPES only by a token without a value.\<close>

lemma check_chanmodes_keeps [simp]:
  "ni_prefix (check_chanmodes_inconsistency i) = ni_prefix i"
  "ni_chantypes (check_chanmodes_inconsistency i) = ni_chantypes i"
  by (auto simp: check_chanmodes_inconsistency_def split: option.splits)

lemma parse_elist_keeps [simp]:
  "ni_prefix (fold parse_elist_char v i) = ni_prefix i"
  "ni_chantypes (fold parse_elist_char v i) = ni_chantypes i"
  by (induction v arbitrary: i) (auto simp: parse_elist_char_def)

definition info_ok :: "irc_network_info \<Rightarrow> bool" where
  "info_ok i \<longleftrightarrow> ni_prefix i \<noteq> None \<and> ni_chantypes i \<noteq> None"

lemma network_info_init_ok [simp]: "info_ok network_info_init"
  by (simp add: info_ok_def network_info_init_def)

lemma parse_num_ok:
  "info_ok i \<Longrightarrow> (\<And>v. info_ok (upd v)) \<Longrightarrow> safe {} info_ok (parse_num val upd i)"
  by (auto simp: parse_num_def split: option.splits)

lemma parse_values_ok:
  assumes "info_ok i"
  shows "safe {} info_ok (parse_CASEMAPPING val i)" "safe {} info_ok (parse_CHANMODES val i)"
    "safe {} info_ok (parse_EXTBAN val i)" "safe {} info_ok (parse_PREFIX val i)"
  using assms
  by (auto simp: parse_CASEMAPPING_def parse_CHANMODES_def parse_EXTBAN_def parse_PREFIX_def
      info_ok_def Let_def split: option.splits list.splits)

lemma network_info_parse_tail_ok:
  assumes "info_ok i" and "val = None \<Longrightarrow> \<not> base_eq key ''CHANTYPES''"
  shows "safe {} info_ok (network_info_parse_tail key val i)"
  unfolding network_info_parse_tail_def
  by (intro safe_if parse_values_ok assms(1))
    (use assms in \<open>auto simp: info_ok_def parse_mode_char_def split: option.splits\<close>)

lemma network_info_parse_pair_ok:
  assumes "info_ok i" and "val = None \<Longrightarrow> \<not> base_eq key ''CHANTYPES''"
  shows "safe {} info_ok (network_info_parse_pair key val i)"
  unfolding network_info_parse_pair_def
  by (intro safe_if parse_num_ok parse_values_ok network_info_parse_tail_ok assms)
    (use assms(1) in \<open>simp_all add: info_ok_def\<close>)

section \<open>Prefixes and modes correspond\<close>

text \<open>A PREFIX value as servers send it: as many prefixes as modes, none twice.\<close>

definition prefix_table :: "string \<Rightarrow> string \<Rightarrow> bool" where
  "prefix_table ms ps \<longleftrightarrow>
     length ms = length ps \<and> distinct ms \<and> distinct ps \<and>
     CHR '')'' \<notin> set ms \<and> NUL \<notin> set ms \<and> NUL \<notin> set ps"

lemma mode_of_prefix_nth:
  "length ms = length ps \<Longrightarrow> distinct ps \<Longrightarrow> NUL \<notin> set ps \<Longrightarrow> i < length ps \<Longrightarrow>
   mode_of_prefix (ms @ r) ps (ps ! i) = ms ! i"
proof (induction ms ps arbitrary: i rule: list_induct2')
  case (4 m ms p ps)
  then show ?case by (cases i) (auto simp: first_char_def)
qed auto

lemma prefix_of_mode_nth:
  "length ms = length ps \<Longrightarrow> distinct ms \<Longrightarrow> NUL \<notin> set ps \<Longrightarrow> i < length ms \<Longrightarrow>
   prefix_of_mode (ms @ r) ps (ms ! i) = ps ! i"
proof (induction ms ps arbitrary: i rule: list_induct2')
  case (4 m ms p ps)
  then show ?case by (cases i) (auto simp: first_char_def)
qed auto

lemma prefix_of_mode_unknown:
  "length ms = length ps \<Longrightarrow> m \<notin> set ms \<Longrightarrow> prefix_of_mode (ms @ r) ps m = CHR '' ''"
  by (induction ms ps rule: list_induct2') (auto simp: first_char_def)

lemma strchr_prefix_table:
  assumes "prefix_table ms ps"
  shows "strchr (CHR ''('' # ms @ CHR '')'' # ps) (CHR '')'') = Some (CHR '')'' # ps)"
proof -
  have "\<forall>x\<in>set (CHR ''('' # ms). x \<noteq> CHR '')''" using assms by (auto simp: prefix_table_def)
  from dropWhile_append_stop [OF this, of "CHR '')''" ps]
  show ?thesis by (simp add: strchr_def)
qed

lemma get_mode_by_prefix_nth:
  assumes "prefix_table ms ps" "ni_prefix n = Some (''('' @ ms @ '')'' @ ps)" "i < length ps"
  shows "get_mode_by_prefix (ps ! i) n = Inr (ms ! i)"
  using assms mode_of_prefix_nth [of ms ps i "CHR '')'' # ps"] strchr_prefix_table [OF assms(1)]
  by (simp add: get_mode_by_prefix_def first_char_def prefix_table_def)

lemma get_prefix_by_mode_nth:
  assumes "prefix_table ms ps" "ni_prefix n = Some (''('' @ ms @ '')'' @ ps)" "i < length ps"
  shows "get_prefix_by_mode (ms ! i) n = Inr (ps ! i)"
  using assms prefix_of_mode_nth [of ms ps i "CHR '')'' # ps"] strchr_prefix_table [OF assms(1)]
  by (simp add: get_prefix_by_mode_def first_char_def prefix_table_def)

lemma get_prefix_by_mode_unknown:
  assumes "prefix_table ms ps" "ni_prefix n = Some (''('' @ ms @ '')'' @ ps)" "m \<notin> set ms"
  shows "get_prefix_by_mode m n = Inr (CHR '' '')"
  using assms prefix_of_mode_unknown [of ms ps m "CHR '')'' # ps"] strchr_prefix_table [OF assms(1)]
  by (simp add: get_prefix_by_mode_def first_char_def prefix_table_def)

text \<open>The prefix shown for a user: the first of the table whose mode is set.\<close>

lemma prefix_from_modes_first:
  "length ms = length ps \<Longrightarrow> NUL \<notin> set ps \<Longrightarrow> \<forall>m\<in>set ms. uchar m < MAXMODES \<Longrightarrow>
   prefix_from_modes (ms @ r) ps f =
     Inr (case List.find (\<lambda>(m, p). f m) (zip ms ps) of Some (m, p) \<Rightarrow> p | None \<Rightarrow> NUL)"
  by (induction ms ps rule: list_induct2') (auto simp: first_char_def mode_get_def)

lemma get_prefix_from_modes_first:
  assumes "prefix_table ms ps" "ni_prefix n = Some (''('' @ ms @ '')'' @ ps)"
    and "\<forall>m\<in>set ms. uchar m < MAXMODES"
  shows "get_prefix_from_modes n f =
     Inr (case List.find (\<lambda>(m, p). f m) (zip ms ps) of Some (m, p) \<Rightarrow> p | None \<Rightarrow> NUL)"
  using assms prefix_from_modes_first [of ms ps "CHR '')'' # ps" f] strchr_prefix_table [OF assms(1)]
  by (simp add: get_prefix_from_modes_def first_char_def prefix_table_def)

section \<open>Properties\<close>

text \<open>C32. Two names compare equal exactly when they are equal after folding case by the
  network's mapping, so comparing names is an equivalence. The bound is the address space.\<close>

theorem irccmp_folds_case:
  assumes "length a \<le> nat SIZE_MAX" "length b \<le> nat SIZE_MAX"
  shows "irccmp n a b = 0 \<longleftrightarrow> case_key (casemap_end n) a = case_key (casemap_end n) b"
  using assms by (simp add: irccmp_cmp_key cmp_key_long)

theorem irccmp_folds_case_witness:
  "irccmp None ''Nick[x]'' ''nICK{X}'' = 0 \<longleftrightarrow>
     case_key (casemap_end None) ''Nick[x]'' = case_key (casemap_end None) ''nICK{X}''"
  using irccmp_folds_case [of "''Nick[x]''" "''nICK{X}''" None] by (simp add: SIZE_MAX_def)

text \<open>A bounded comparison of \<open>k\<close> characters looks at one more: it succeeds only when
  character \<open>k\<close> of both strings is the same too, and that one without folding case.\<close>

theorem ircncmp_one_more:
  "ircncmp n a b k = 0 \<longleftrightarrow>
     case_key (casemap_end n) (take k a) = case_key (casemap_end n) (take k b) \<and>
     char_at (c_str a) k = char_at (c_str b) k"
  by (simp add: ircncmp_cmp_key cmp_key_def)

text \<open>For a PREFIX value as servers send it, the prefix of a mode and the mode of a prefix
  are inverse to each other, and a letter outside the table has no prefix.\<close>

theorem prefix_mode_inverse:
  assumes "prefix_table ms ps" "ni_prefix n = Some (''('' @ ms @ '')'' @ ps)"
  shows "(\<forall>i<length ps. get_prefix_by_mode (ms ! i) n = Inr (ps ! i) \<and>
            get_mode_by_prefix (ps ! i) n = Inr (ms ! i)) \<and>
         (\<forall>m. m \<notin> set ms \<longrightarrow> get_prefix_by_mode m n = Inr (CHR '' ''))"
  using get_prefix_by_mode_nth [OF assms] get_mode_by_prefix_nth [OF assms]
    get_prefix_by_mode_unknown [OF assms] by blast

theorem prefix_mode_inverse_witness:
  "get_prefix_by_mode (CHR ''v'') network_info_init = Inr (CHR ''+'') \<and>
   get_mode_by_prefix (CHR ''+'') network_info_init = Inr (CHR ''v'') \<and>
   get_prefix_by_mode (CHR ''x'') network_info_init = Inr (CHR '' '')"
proof -
  have "prefix_table ''ov'' ''@+''" by code_simp
  moreover have "ni_prefix network_info_init = Some (''('' @ ''ov'' @ '')'' @ ''@+'')"
    by (simp add: network_info_init_def DEFAULT_PREFIX_def)
  ultimately have *: "(\<forall>i<length ''@+''. get_prefix_by_mode (''ov'' ! i) network_info_init = Inr (''@+'' ! i) \<and>
        get_mode_by_prefix (''@+'' ! i) network_info_init = Inr (''ov'' ! i)) \<and>
      (\<forall>m. m \<notin> set ''ov'' \<longrightarrow> get_prefix_by_mode m network_info_init = Inr (CHR '' ''))"
    by (rule prefix_mode_inverse)
  show ?thesis using conjunct1 [OF *, THEN spec, of 1] conjunct2 [OF *, THEN spec, of "CHR ''x''"] by simp
qed

text \<open>The prefix shown for a set of modes is the one of the highest mode that is set, in
  the order of the table, and none when no mode of the table is set.\<close>

theorem prefix_from_modes_highest:
  assumes "prefix_table ms ps" "ni_prefix n = Some (''('' @ ms @ '')'' @ ps)"
    "\<forall>m\<in>set ms. uchar m < MAXMODES"
  shows "get_prefix_from_modes n f =
    Inr (case List.find (\<lambda>(m, p). f m) (zip ms ps) of Some (m, p) \<Rightarrow> p | None \<Rightarrow> NUL)"
  using get_prefix_from_modes_first [OF assms] .

theorem prefix_from_modes_highest_witness:
  "get_prefix_from_modes network_info_init (\<lambda>c. c = CHR ''v'' \<or> c = CHR ''o'') = Inr (CHR ''@'')"
proof -
  have "prefix_table ''ov'' ''@+''" by code_simp
  moreover have "ni_prefix network_info_init = Some (''('' @ ''ov'' @ '')'' @ ''@+'')"
    by (simp add: network_info_init_def DEFAULT_PREFIX_def)
  moreover have "\<forall>m\<in>set ''ov''. uchar m < MAXMODES" by code_simp
  ultimately show ?thesis
    using prefix_from_modes_highest [of "''ov''" "''@+''" network_info_init "\<lambda>c. c = CHR ''v'' \<or> c = CHR ''o''"]
    by simp
qed

text \<open>Reading a 005 token never unsets PREFIX, and unsets CHANTYPES only by a CHANTYPES
  token without a value: the pointers that the rest of the program uses unchecked stay set.\<close>

theorem parse_keeps_pointers:
  assumes "info_ok i" "has_chr p (CHR ''='') \<or> \<not> base_eq p ''CHANTYPES''"
    and "network_info_parse i p = Inr j"
  shows "info_ok j"
proof (cases "strchr p (CHR ''='')")
  case None
  then show ?thesis
    using network_info_parse_pair_ok [OF assms(1), of None p] assms(2,3)
    by (simp add: network_info_parse_def)
next
  case (Some r)
  then show ?thesis
    using network_info_parse_pair_ok [OF assms(1), of "Some (tl r)" "before_chr (CHR ''='') p"] assms(3)
    by (simp add: network_info_parse_def)
qed

theorem parse_keeps_pointers_witness:
  "info_ok network_info_init \<and>
   info_ok (network_info_init\<lparr>ni_prefix := Some ''(qaohv)~&@%+''\<rparr>)"
proof -
  have "network_info_parse network_info_init ''PREFIX=(qaohv)~&@%+'' =
      Inr (network_info_init\<lparr>ni_prefix := Some ''(qaohv)~&@%+''\<rparr>)" by code_simp
  moreover have "has_chr ''PREFIX=(qaohv)~&@%+'' (CHR ''='')" by code_simp
  ultimately show ?thesis
    using parse_keeps_pointers [of network_info_init "''PREFIX=(qaohv)~&@%+''"] by simp
qed

end
