(* ===== verification/Nicks.thy ===== *)
theory Nicks
  imports Isupport
begin

text \<open>
  The passive data of \<open>libirc/state.c\<close>: mode sets and their textual form, the identity of a
  user (\<open>struct network_nick\<close>) with the functions that keep nick, user name, host name and
  hostmask together, and the ban, invite and exception lists of a channel.
\<close>

section \<open>Mode sets\<close>

text \<open>\<open>modes_change_mode\<close>: the flag that says whether something changed, and the new set.\<close>

definition modes_change_mode :: "modes \<Rightarrow> bool \<Rightarrow> char \<Rightarrow> (bool \<times> modes) res" where
  "modes_change_mode ms st c =
     bind_res (mode_get ms c) (\<lambda>b.
       if b = st then Inr (False, ms) else Inr (True, ms(c := st)))"

definition modes_set_mode :: "modes \<Rightarrow> char \<Rightarrow> (bool \<times> modes) res" where
  "modes_set_mode ms c = modes_change_mode ms True c"

definition modes_unset_mode :: "modes \<Rightarrow> char \<Rightarrow> (bool \<times> modes) res" where
  "modes_unset_mode ms c = modes_change_mode ms False c"

fun string2mode_loop :: "string \<Rightarrow> bool \<Rightarrow> modes \<Rightarrow> modes res" where
  "string2mode_loop [] action ar = Inr ar"
| "string2mode_loop (c # cs) action ar =
     (if c = NUL then Inr ar
      else if c = CHR ''+'' then string2mode_loop cs True ar
      else if c = CHR ''-'' then string2mode_loop cs False ar
      else bind_res (modes_change_mode ar action c) (\<lambda>(_, ar'). string2mode_loop cs action ar'))"

text \<open>The set is cleared first, also when the string is then refused.\<close>

definition string2mode :: "string option \<Rightarrow> (bool \<times> modes) res" where
  "string2mode m =
     (case m of
        None \<Rightarrow> Inr (True, modes_clear)
      | Some s \<Rightarrow>
          if c_str s = [] then Inr (True, modes_clear)
          else if first_char s \<noteq> CHR ''+'' \<and> first_char s \<noteq> CHR ''-'' then Inr (False, modes_clear)
          else bind_res (string2mode_loop s True modes_clear) (\<lambda>ar. Inr (True, ar)))"

text \<open>
  \<open>mode2string\<close>: the loop stores character 0 too when its flag is set, which then ends the
  string for \<open>strlen\<close> and for the \<open>%s\<close> directive. At most 255 characters are stored in the
  256-byte buffer.
\<close>

definition mode_letters :: "modes \<Rightarrow> string" where
  "mode_letters ms = filter ms (map (char_of :: nat \<Rightarrow> char) [0..<255])"

definition mode2string :: "modes \<Rightarrow> string option" where
  "mode2string ms =
     (let ret = c_str (mode_letters ms) in if ret = [] then None else Some (CHR ''+'' # ret))"

definition is_prefix_mode :: "irc_network_info \<Rightarrow> char \<Rightarrow> bool res" where
  "is_prefix_mode info m =
     bind_res (get_prefix_by_mode m info) (\<lambda>p. Inr (p \<noteq> CHR '' ''))"

section \<open>Users\<close>

type_synonym addr = nat

record network_nick =
  nn_query :: bool
  nn_nick :: "string option"
  nn_fullname :: "string option"
  nn_username :: "string option"
  nn_hostname :: "string option"
  nn_hostmask :: "string option"
  nn_modes :: modes
  nn_server :: "string option"
  nn_channel_nicks :: "addr list"
  nn_hops :: int

definition network_nick_new :: network_nick where
  "network_nick_new =
     \<lparr>nn_query = False, nn_nick = None, nn_fullname = None, nn_username = None,
      nn_hostname = None, nn_hostmask = None, nn_modes = modes_clear, nn_server = None,
      nn_channel_nicks = [], nn_hops = 0\<rparr>"

text \<open>The hostmask \<open>"%s!%s@%s"\<close> of three strings.\<close>

definition make_hostmask :: "string option \<Rightarrow> string option \<Rightarrow> string option \<Rightarrow> string" where
  "make_hostmask n u h = printf_s n @ ''!'' @ printf_s u @ ''@'' @ printf_s h"

text \<open>\<open>!field || strcmp(new, field) != 0\<close>\<close>

definition field_differs :: "string option \<Rightarrow> string \<Rightarrow> bool" where
  "field_differs old new = (case old of None \<Rightarrow> True | Some v \<Rightarrow> strcmp new v \<noteq> 0)"

definition network_nick_set_data ::
    "network_nick \<Rightarrow> string option \<Rightarrow> string option \<Rightarrow> string option \<Rightarrow> network_nick res" where
  "network_nick_set_data n nick username host =
     bind_res (guard_res (nick \<noteq> None) AssertFail) (\<lambda>_.
     let n1 = (if field_differs (nn_nick n) (the nick) then n\<lparr>nn_nick := nick\<rparr> else n) in
     bind_res (guard_res (username \<noteq> None) AssertFail) (\<lambda>_.
     let n2 = (if field_differs (nn_username n) (the username)
               then n1\<lparr>nn_username := username\<rparr> else n1) in
     bind_res (guard_res (host \<noteq> None) AssertFail) (\<lambda>_.
     let n3 = (if field_differs (nn_hostname n) (the host) then n2\<lparr>nn_hostname := host\<rparr> else n2);
         changed = (field_differs (nn_nick n) (the nick) \<or>
                    field_differs (nn_username n) (the username) \<or>
                    field_differs (nn_hostname n) (the host))
     in Inr (if changed then n3\<lparr>nn_hostmask := Some (make_hostmask nick username host)\<rparr> else n3))))"

definition network_nick_set_nick :: "network_nick \<Rightarrow> string \<Rightarrow> network_nick" where
  "network_nick_set_nick n nick =
     (if \<not> field_differs (nn_nick n) nick then n
      else n\<lparr>nn_nick := Some nick,
             nn_hostmask := Some (make_hostmask (Some nick) (nn_username n) (nn_hostname n))\<rparr>)"

text \<open>The next three accept a NULL user and then report failure.\<close>

definition network_nick_set_username ::
    "network_nick option \<Rightarrow> string \<Rightarrow> bool \<times> network_nick option" where
  "network_nick_set_username p username =
     (case p of
        None \<Rightarrow> (False, None)
      | Some n \<Rightarrow>
          if \<not> field_differs (nn_username n) username then (True, Some n)
          else (True, Some (n\<lparr>nn_username := Some username,
                 nn_hostmask := Some (make_hostmask (nn_nick n) (Some username) (nn_hostname n))\<rparr>)))"

definition network_nick_set_hostname ::
    "network_nick option \<Rightarrow> string \<Rightarrow> bool \<times> network_nick option" where
  "network_nick_set_hostname p hostname =
     (case p of
        None \<Rightarrow> (False, None)
      | Some n \<Rightarrow>
          if \<not> field_differs (nn_hostname n) hostname then (True, Some n)
          else (True, Some (n\<lparr>nn_hostname := Some hostname,
                 nn_hostmask := Some (make_hostmask (nn_nick n) (nn_username n) (Some hostname))\<rparr>)))"

text \<open>
  A hostmask sets everything that can be read from it; what follows a missing \<open>!\<close> or \<open>@\<close>
  is left unset, the nick included.
\<close>

definition network_nick_set_hostmask ::
    "network_nick option \<Rightarrow> string option \<Rightarrow> bool \<times> network_nick option" where
  "network_nick_set_hostmask p hm =
     (case (p, hm) of
        (None, _) \<Rightarrow> (False, None)
      | (Some n, None) \<Rightarrow> (False, Some n)
      | (Some n, Some h) \<Rightarrow>
          if \<not> field_differs (nn_hostmask n) h then (True, Some n)
          else
            let n0 = n\<lparr>nn_nick := None, nn_username := None, nn_hostname := None,
                       nn_hostmask := Some h\<rparr>
            in case strchr h (CHR ''!'') of
                 None \<Rightarrow> (False, Some n0)
               | Some t \<Rightarrow>
                   let n1 = n0\<lparr>nn_nick := Some (before_chr (CHR ''!'') h)\<rparr>
                   in case strchr t (CHR ''@'') of
                        None \<Rightarrow> (False, Some n1)
                      | Some u \<Rightarrow>
                          (True, Some (n1\<lparr>nn_username := Some (before_chr (CHR ''@'') (tl t)),
                                          nn_hostname := Some (tl u)\<rparr>)))"

section \<open>Ban, invite and exception lists\<close>

record nicklist_entry =
  be_hostmask :: "string option"
  be_by :: "string option"
  be_time_set :: int

type_synonym nicklist = "nicklist_entry list"

definition nicklist_add_entry ::
    "nicklist \<Rightarrow> string option \<Rightarrow> string option \<Rightarrow> int \<Rightarrow> nicklist" where
  "nicklist_add_entry nl opt_arg by_nick at =
     nl @ [\<lparr>be_hostmask = opt_arg, be_by = by_nick, be_time_set = at\<rparr>]"

text \<open>
  \<open>find_nicklist_entry\<close> returns the entry; here its position, which tells it from an equal
  entry elsewhere in the list.
\<close>

fun find_nicklist_entry :: "nicklist \<Rightarrow> string \<Rightarrow> nat option res" where
  "find_nicklist_entry [] hostmask = Inr None"
| "find_nicklist_entry (be # bes) hostmask =
     bind_res (deref (be_hostmask be)) (\<lambda>h.
       if strcmp h hostmask = 0 then Inr (Some 0)
       else bind_res (find_nicklist_entry bes hostmask) (\<lambda>r. Inr (map_option Suc r)))"

definition nicklist_remove_entry :: "nicklist \<Rightarrow> string \<Rightarrow> (bool \<times> nicklist) res" where
  "nicklist_remove_entry nl hostmask =
     bind_res (find_nicklist_entry nl hostmask) (\<lambda>r.
       case r of
         None \<Rightarrow> Inr (False, nl)
       | Some i \<Rightarrow> Inr (True, take i nl @ drop (Suc i) nl))"

definition free_nicklist :: "nicklist \<Rightarrow> nicklist" where
  "free_nicklist nl = []"

section \<open>Lemmas on mode sets\<close>

text \<open>The modes that have a textual form: not the signs, not NUL, and inside the array.\<close>

definition printable_modes :: "modes \<Rightarrow> bool" where
  "printable_modes ms \<longleftrightarrow> (\<forall>c. ms c \<longrightarrow> c \<noteq> NUL \<and> c \<noteq> CHR ''+'' \<and> c \<noteq> CHR ''-'' \<and> uchar c < MAXMODES)"

lemma modes_change_mode_ok:
  "uchar c < MAXMODES \<Longrightarrow> modes_change_mode ms b c = Inr (ms c \<noteq> b, ms(c := b))"
  by (auto simp: modes_change_mode_def mode_get_def fun_eq_iff)

lemma string2mode_loop_letters:
  assumes "\<forall>c\<in>set cs. c \<noteq> NUL \<and> c \<noteq> CHR ''+'' \<and> c \<noteq> CHR ''-'' \<and> uchar c < MAXMODES"
  shows "string2mode_loop cs True ar = Inr (\<lambda>c. c \<in> set cs \<or> ar c)"
  using assms
proof (induction cs arbitrary: ar)
  case (Cons c cs)
  then show ?case by (auto simp: modes_change_mode_ok fun_eq_iff)
qed simp

lemma set_mode_letters: "set (mode_letters ms) = {c. ms c \<and> uchar c < MAXMODES}"
proof -
  have "c \<in> char_of ` {0..<255::nat}" if "uchar c < MAXMODES" for c
  proof -
    have "(of_char c :: nat) < 255" using that by (auto simp: uchar_def MAXMODES_def)
    then show ?thesis by (metis atLeastLessThan_iff char_of_char image_eqI zero_le)
  qed
  moreover have "uchar (char_of n) < MAXMODES" if "n < 255" for n :: nat
    using that by (simp add: uchar_def MAXMODES_def)
  ultimately show ?thesis by (auto simp: mode_letters_def)
qed

lemma c_str_mode_letters:
  "printable_modes ms \<Longrightarrow> c_str (mode_letters ms) = mode_letters ms"
  unfolding c_str_def by (rule takeWhile_eq_all_conv [THEN iffD2])
    (auto simp: set_mode_letters printable_modes_def)

lemma mode_string_roundtrip:
  assumes "printable_modes ms"
  shows "string2mode (mode2string ms) = Inr (True, ms)"
proof (cases "mode_letters ms = []")
  case True
  then have "ms = modes_clear"
    using set_mode_letters [of ms] assms by (auto simp: fun_eq_iff modes_clear_def printable_modes_def)
  then show ?thesis
    using True assms by (simp add: mode2string_def string2mode_def c_str_def)
next
  case False
  have "string2mode_loop (mode_letters ms) True modes_clear = Inr ms"
    using assms string2mode_loop_letters [of "mode_letters ms" modes_clear]
    by (auto simp: set_mode_letters printable_modes_def modes_clear_def fun_eq_iff)
  moreover have "mode2string ms = Some (CHR ''+'' # mode_letters ms)"
    using False c_str_mode_letters [OF assms] by (simp add: mode2string_def)
  ultimately show ?thesis
    by (simp add: string2mode_def c_str_def first_char_def)
qed

section \<open>Properties\<close>

text \<open>A set of modes written as text and read back is the same set.\<close>

theorem modes_print_parse:
  assumes "printable_modes ms"
  shows "string2mode (mode2string ms) = Inr (True, ms)"
  using assms by (rule mode_string_roundtrip)

theorem modes_print_parse_witness:
  "string2mode (mode2string (\<lambda>c. c = CHR ''i'' \<or> c = CHR ''w'')) =
     Inr (True, \<lambda>c. c = CHR ''i'' \<or> c = CHR ''w'')"
  by (rule modes_print_parse) (auto simp: printable_modes_def uchar_def MAXMODES_def)

text \<open>Setting a user's hostmask from nick, user name and host name, and setting it as one
  string, agree: both leave the three parts and the mask consistent.\<close>

theorem hostmask_consistent:
  assumes "hm = make_hostmask (Some nick) (Some user) (Some host)"
    "CHR ''!'' \<notin> set nick" "CHR ''@'' \<notin> set user" "field_differs (nn_hostmask n) hm"
  shows "network_nick_set_hostmask (Some n) (Some hm) =
    (True, Some (n\<lparr>nn_nick := Some nick, nn_username := Some user, nn_hostname := Some host,
                   nn_hostmask := Some hm\<rparr>))"
proof -
  have hm: "hm = nick @ CHR ''!'' # user @ CHR ''@'' # host"
    by (simp add: assms(1) make_hostmask_def printf_s_def)
  have "strchr (CHR ''!'' # user @ CHR ''@'' # host) (CHR ''@'') = Some (CHR ''@'' # host)"
    using strchr_append [of "CHR ''@''" "CHR ''!'' # user" host] assms(3) by simp
  then show ?thesis
    using assms(2-4) strchr_append [of "CHR ''!''" nick "user @ CHR ''@'' # host"]
    by (simp add: network_nick_set_hostmask_def hm)
qed

theorem hostmask_consistent_witness:
  "network_nick_set_hostmask (Some network_nick_new)
     (Some (make_hostmask (Some ''bob'') (Some ''b'') (Some ''host''))) =
   (True, Some (network_nick_new\<lparr>nn_nick := Some ''bob'', nn_username := Some ''b'',
      nn_hostname := Some ''host'', nn_hostmask := Some (make_hostmask (Some ''bob'') (Some ''b'') (Some ''host''))\<rparr>))"
  using hostmask_consistent [of _ "''bob''" "''b''" "''host''" network_nick_new, OF refl]
  by (simp add: network_nick_new_def field_differs_def)

text \<open>Removing an entry from a ban list takes the first entry with that hostmask and keeps
  all others in order; without such an entry the list is unchanged and FALSE is returned.\<close>

theorem nicklist_remove_first:
  assumes "\<forall>be\<in>set nl. be_hostmask be \<noteq> None"
  shows "nicklist_remove_entry nl h =
    Inr (case List.extract (\<lambda>be. strcmp (the (be_hostmask be)) h = 0) nl of
           None \<Rightarrow> (False, nl) | Some (pre, _, post) \<Rightarrow> (True, pre @ post))"
proof -
  have "find_nicklist_entry nl h =
      Inr (case List.extract (\<lambda>be. strcmp (the (be_hostmask be)) h = 0) nl of
             None \<Rightarrow> None | Some (pre, _, post) \<Rightarrow> Some (length pre))"
    using assms
    by (induction nl) (auto simp: extract_Nil_code extract_Cons_code split: option.splits)
  then show ?thesis
    by (auto simp: nicklist_remove_entry_def extract_Some_iff split: option.splits)
qed

theorem nicklist_remove_first_witness:
  "nicklist_remove_entry (nicklist_add_entry (nicklist_add_entry [] (Some ''a!*@*'') None 1) (Some ''b!*@*'') None 2)
     ''a!*@*'' = Inr (True, nicklist_add_entry [] (Some ''b!*@*'') None 2)"
  using nicklist_remove_first
    [of "nicklist_add_entry (nicklist_add_entry [] (Some ''a!*@*'') None 1) (Some ''b!*@*'') None 2" "''a!*@*''"]
  by (simp add: nicklist_add_entry_def extract_Cons_code)

end
