(* ===== verification/State.thy ===== *)
theory State
  imports Nicks
begin

text \<open>
  The object graph of \<open>libirc/state.c\<close>: channels, users, and the records that put a user on
  a channel, with the functions that look them up, create them and free them. The objects
  live in an explicit store, one map per kind of object, because they point at each other
  and are freed one by one: an address outside the map is freed memory, and reading it is
  the fault \<open>UseAfterFree\<close>. \<open>wf_graph\<close> is the invariant of the graph; every operation
  keeps it and, starting from it, touches no freed object and ends.
\<close>

section \<open>The store\<close>

text \<open>The user \<open>me\<close> is part of the network state itself; all others are allocated.\<close>

datatype nick_ref = Me | Nick addr

record channel_nick =
  cn_modes :: modes
  cn_global_nick :: nick_ref
  cn_channel :: addr
  cn_last_update :: int
  cn_last_flags :: "string option"

text \<open>
  \<open>c_network\<close> says whether the pointer \<open>network\<close> is set; it then points at the state that
  owns the store.
\<close>

record irc_channel_state =
  c_name :: string
  c_topic :: "string option"
  c_topic_set_time :: int
  c_topic_set_by :: "string option"
  c_mode :: char
  c_modes :: modes
  c_creation_time :: int
  c_namreply_started :: bool
  c_banlist_started :: bool
  c_invitelist_started :: bool
  c_exceptlist_started :: bool
  c_mode_received :: bool
  c_nicks :: "addr list"
  c_network :: bool
  c_chanmode_nicklist :: "char \<Rightarrow> nicklist"
  c_chanmode_nicklist_present :: "char \<Rightarrow> bool"
  c_chanmode_option :: "char \<Rightarrow> string option"

record irc_network_state =
  s_channels :: "addr list"
  s_nicks :: "addr list"
  s_me :: network_nick
  s_info :: irc_network_info
  s_is_away :: bool
  s_ch :: "addr \<rightharpoonup> irc_channel_state"
  s_nn :: "addr \<rightharpoonup> network_nick"
  s_cn :: "addr \<rightharpoonup> channel_nick"
  s_next :: addr

definition lookup_nick :: "irc_network_state \<Rightarrow> nick_ref \<Rightarrow> network_nick option" where
  "lookup_nick s r = (case r of Me \<Rightarrow> Some (s_me s) | Nick a \<Rightarrow> s_nn s a)"

definition set_nick_obj :: "irc_network_state \<Rightarrow> nick_ref \<Rightarrow> network_nick \<Rightarrow> irc_network_state" where
  "set_nick_obj s r n =
     (case r of Me \<Rightarrow> s\<lparr>s_me := n\<rparr> | Nick a \<Rightarrow> s\<lparr>s_nn := (s_nn s)(a \<mapsto> n)\<rparr>)"

definition set_channel_obj ::
    "irc_network_state \<Rightarrow> addr \<Rightarrow> irc_channel_state \<Rightarrow> irc_network_state" where
  "set_channel_obj s c ch = s\<lparr>s_ch := (s_ch s)(c \<mapsto> ch)\<rparr>"

definition set_cn_obj :: "irc_network_state \<Rightarrow> addr \<Rightarrow> channel_nick \<Rightarrow> irc_network_state" where
  "set_cn_obj s a cn = s\<lparr>s_cn := (s_cn s)(a \<mapsto> cn)\<rparr>"

text \<open>Reading and updating an object through a pointer.\<close>

definition get_nick :: "irc_network_state \<Rightarrow> nick_ref \<Rightarrow> network_nick res" where
  "get_nick s r = live (lookup_nick s r)"

definition get_channel :: "irc_network_state \<Rightarrow> addr \<Rightarrow> irc_channel_state res" where
  "get_channel s c = live (s_ch s c)"

definition upd_nick ::
    "irc_network_state \<Rightarrow> nick_ref \<Rightarrow> (network_nick \<Rightarrow> network_nick) \<Rightarrow> irc_network_state res" where
  "upd_nick s r f = bind_res (get_nick s r) (\<lambda>n. Inr (set_nick_obj s r (f n)))"

definition upd_channel ::
    "irc_network_state \<Rightarrow> addr \<Rightarrow> (irc_channel_state \<Rightarrow> irc_channel_state) \<Rightarrow> irc_network_state res" where
  "upd_channel s c f = bind_res (get_channel s c) (\<lambda>ch. Inr (set_channel_obj s c (f ch)))"

section \<open>Lookup\<close>

text \<open>The loop of every lookup: the first address whose test succeeds.\<close>

fun find_by :: "('a \<Rightarrow> bool res) \<Rightarrow> 'a list \<Rightarrow> 'a option res" where
  "find_by t [] = Inr None"
| "find_by t (a # as) = bind_res (t a) (\<lambda>b. if b then Inr (Some a) else find_by t as)"

definition channel_named :: "irc_network_state \<Rightarrow> string \<Rightarrow> addr \<Rightarrow> bool res" where
  "channel_named s name a =
     bind_res (get_channel s a) (\<lambda>c. Inr (irccmp (Some (s_info s)) (c_name c) name = 0))"

definition find_channel :: "irc_network_state \<Rightarrow> string option \<Rightarrow> addr option res" where
  "find_channel s name =
     bind_res (guard_res (name \<noteq> None) AssertFail) (\<lambda>_.
     find_by (channel_named s (the name)) (s_channels s))"

definition irc_channel_state_new :: "string \<Rightarrow> irc_channel_state" where
  "irc_channel_state_new name =
     \<lparr>c_name = name, c_topic = None, c_topic_set_time = 0, c_topic_set_by = None, c_mode = NUL,
      c_modes = modes_clear, c_creation_time = 0, c_namreply_started = False,
      c_banlist_started = False, c_invitelist_started = False, c_exceptlist_started = False,
      c_mode_received = False, c_nicks = [], c_network = False,
      c_chanmode_nicklist = (\<lambda>_. []), c_chanmode_nicklist_present = (\<lambda>_. False),
      c_chanmode_option = (\<lambda>_. None)\<rparr>"

definition find_add_channel ::
    "irc_network_state \<Rightarrow> string option \<Rightarrow> (addr \<times> irc_network_state) res" where
  "find_add_channel s name =
     bind_res (find_channel s name) (\<lambda>r.
       case r of
         Some c \<Rightarrow> Inr (c, s)
       | None \<Rightarrow>
           let c = s_next s;
               ch = (irc_channel_state_new (the name))\<lparr>c_network := True\<rparr>
           in Inr (c, s\<lparr>s_next := Suc c, s_ch := (s_ch s)(c \<mapsto> ch),
                        s_channels := s_channels s @ [c]\<rparr>))"

definition cn_named ::
    "irc_network_state \<Rightarrow> irc_network_info option \<Rightarrow> string \<Rightarrow> addr \<Rightarrow> bool res" where
  "cn_named s info name a =
     bind_res (live (s_cn s a)) (\<lambda>cn.
     bind_res (get_nick s (cn_global_nick cn)) (\<lambda>nn.
     bind_res (asserted (nn_nick nn)) (\<lambda>nick.
     Inr (irccmp info nick name = 0))))"

definition find_channel_nick ::
    "irc_network_state \<Rightarrow> addr \<Rightarrow> string option \<Rightarrow> addr option res" where
  "find_channel_nick s c name =
     bind_res (guard_res (name \<noteq> None) AssertFail) (\<lambda>_.
     bind_res (get_channel s c) (\<lambda>ch.
     let info = (if c_network ch then Some (s_info s) else None) in
     bind_res (is_prefix (first_char (the name)) info) (\<lambda>p.
     let realname = (if p then tl (the name) else the name) in
     find_by (cn_named s info realname) (c_nicks ch))))"

definition cn_hostmask_is :: "irc_network_state \<Rightarrow> string \<Rightarrow> addr \<Rightarrow> bool res" where
  "cn_hostmask_is s hm a =
     bind_res (live (s_cn s a)) (\<lambda>cn.
     bind_res (get_nick s (cn_global_nick cn)) (\<lambda>nn.
     bind_res (asserted (nn_hostmask nn)) (\<lambda>h.
     Inr (irccmp (Some (s_info s)) h hm = 0))))"

definition find_channel_nick_hostmask ::
    "irc_network_state \<Rightarrow> addr \<Rightarrow> string option \<Rightarrow> addr option res" where
  "find_channel_nick_hostmask s c hm =
     bind_res (guard_res (hm \<noteq> None) AssertFail) (\<lambda>_.
     bind_res (get_channel s c) (\<lambda>ch.
     bind_res (guard_res (c_network ch) AssertFail) (\<lambda>_.
     find_by (cn_hostmask_is s (the hm)) (c_nicks ch))))"

definition nn_named :: "irc_network_state \<Rightarrow> string \<Rightarrow> addr \<Rightarrow> bool res" where
  "nn_named s name a =
     bind_res (live (s_nn s a)) (\<lambda>nn.
     bind_res (asserted (nn_nick nn)) (\<lambda>nick.
     Inr (irccmp (Some (s_info s)) nick name = 0)))"

definition find_network_nick :: "irc_network_state \<Rightarrow> string option \<Rightarrow> nick_ref option res" where
  "find_network_nick s name =
     bind_res (guard_res (name \<noteq> None) AssertFail) (\<lambda>_.
     bind_res (asserted (nn_nick (s_me s))) (\<lambda>mynick.
     if irccmp (Some (s_info s)) mynick (the name) = 0 then Inr (Some Me)
     else bind_res (find_by (nn_named s (the name)) (s_nicks s)) (\<lambda>r.
       Inr (map_option Nick r))))"

definition find_add_network_nick ::
    "irc_network_state \<Rightarrow> string option \<Rightarrow> (nick_ref \<times> irc_network_state) res" where
  "find_add_network_nick s name =
     bind_res (find_network_nick s name) (\<lambda>r.
       case r of
         Some nd \<Rightarrow> Inr (nd, s)
       | None \<Rightarrow>
           bind_res (is_prefix (first_char (the name)) (Some (s_info s))) (\<lambda>p.
           bind_res (guard_res (\<not> p) AssertFail) (\<lambda>_.
           let a = s_next s;
               nd = network_nick_new\<lparr>nn_nick := name, nn_hops := - 1\<rparr>
           in Inr (Nick a, s\<lparr>s_next := Suc a, s_nn := (s_nn s)(a \<mapsto> nd),
                             s_nicks := s_nicks s @ [a]\<rparr>))))"

text \<open>
  \<open>link_channel_nick\<close>: the end of \<open>find_add_channel_nick\<close>, where the new record is
  entered into the list of its channel and of its user.
\<close>

definition link_channel_nick ::
    "irc_network_state \<Rightarrow> addr \<Rightarrow> channel_nick \<Rightarrow> irc_network_state res" where
  "link_channel_nick s a cn =
     bind_res (upd_channel s (cn_channel cn) (\<lambda>ch. ch\<lparr>c_nicks := c_nicks ch @ [a]\<rparr>)) (\<lambda>s1.
     bind_res (upd_nick s1 (cn_global_nick cn)
                 (\<lambda>nn. nn\<lparr>nn_channel_nicks := nn_channel_nicks nn @ [a]\<rparr>)) (\<lambda>s2.
     Inr (set_cn_obj s2 a cn)))"

definition find_add_channel_nick ::
    "irc_network_state \<Rightarrow> addr \<Rightarrow> string option \<Rightarrow> (addr \<times> irc_network_state) res" where
  "find_add_channel_nick s c name =
     bind_res (guard_res (name \<noteq> None \<and> the name \<noteq> []) AssertFail) (\<lambda>_.
     bind_res (get_channel s c) (\<lambda>ch.
     bind_res (guard_res (c_network ch) AssertFail) (\<lambda>_.
     bind_res (is_prefix (first_char (the name)) (Some (s_info s))) (\<lambda>p.
     let prefix = (if p then first_char (the name) else NUL);
         realname = (if p then tl (the name) else the name) in
     bind_res (find_channel_nick s c (Some realname)) (\<lambda>r.
     case r of
       Some n \<Rightarrow> Inr (n, s)
     | None \<Rightarrow>
         let a = s_next s in
         bind_res (find_add_network_nick (s\<lparr>s_next := Suc a\<rparr>) (Some realname)) (\<lambda>(nd, s1).
         bind_res (if prefix \<noteq> NUL
                   then bind_res (get_mode_by_prefix prefix (s_info s1)) (\<lambda>mode.
                     if mode \<noteq> NUL then bind_res (modes_set_mode modes_clear mode) (\<lambda>(_, ms). Inr ms)
                     else Inr modes_clear)
                   else Inr modes_clear) (\<lambda>ms.
         let cn = \<lparr>cn_modes = ms, cn_global_nick = nd, cn_channel = c, cn_last_update = 0,
                   cn_last_flags = None\<rparr> in
         bind_res (link_channel_nick s1 a cn) (\<lambda>s2.
         Inr (a, s2)))))))))"

section \<open>Freeing\<close>

text \<open>
  \<open>free_channel_nick\<close> and \<open>free_network_nick\<close> call each other, and the latter loops while
  its user has channel records. The fuel counts calls and iterations; running out of it is
  the fault \<open>Diverges\<close>, and the invariant rules it out.
\<close>

fun free_channel_nick_f :: "nat \<Rightarrow> addr \<Rightarrow> irc_network_state \<Rightarrow> irc_network_state res"
  and free_network_nick_f :: "nat \<Rightarrow> bool \<Rightarrow> nick_ref \<Rightarrow> irc_network_state \<Rightarrow> irc_network_state res"
  and free_nick_loop_f :: "nat \<Rightarrow> nick_ref \<Rightarrow> irc_network_state \<Rightarrow> irc_network_state res" where
  "free_channel_nick_f 0 n s = Inl Diverges"
| "free_channel_nick_f (Suc k) n s =
     bind_res (live (s_cn s n)) (\<lambda>cn.
     bind_res (upd_channel s (cn_channel cn) (\<lambda>ch. ch\<lparr>c_nicks := remove1 n (c_nicks ch)\<rparr>)) (\<lambda>s1.
     bind_res (upd_nick s1 (cn_global_nick cn)
                 (\<lambda>nn. nn\<lparr>nn_channel_nicks := remove1 n (nn_channel_nicks nn)\<rparr>)) (\<lambda>s2.
     bind_res (get_nick s2 (cn_global_nick cn)) (\<lambda>nn.
     bind_res (if nn_channel_nicks nn = [] \<and> \<not> nn_query nn
               then bind_res (get_channel s2 (cn_channel cn)) (\<lambda>ch.
                 free_network_nick_f k (c_network ch) (cn_global_nick cn) s2)
               else Inr s2) (\<lambda>s3.
     Inr (s3\<lparr>s_cn := (s_cn s3)(n := None)\<rparr>))))))"
| "free_network_nick_f 0 st r s = Inl Diverges"
| "free_network_nick_f (Suc k) st r s =
     bind_res (guard_res (\<not> st \<or> r \<noteq> Me) AssertFail) (\<lambda>_.
     bind_res (upd_nick s r (\<lambda>nn. nn\<lparr>nn_query := True\<rparr>)) (\<lambda>s1.
     bind_res (free_nick_loop_f k r s1) (\<lambda>s2.
     case r of
       Me \<Rightarrow> Inl BadArgument
     | Nick a \<Rightarrow>
         Inr (s2\<lparr>s_nicks := (if st then remove1 a (s_nicks s2) else s_nicks s2),
                 s_nn := (s_nn s2)(a := None)\<rparr>))))"
| "free_nick_loop_f 0 r s = Inl Diverges"
| "free_nick_loop_f (Suc k) r s =
     bind_res (get_nick s r) (\<lambda>nn.
     case nn_channel_nicks nn of
       [] \<Rightarrow> Inr s
     | n # _ \<Rightarrow> bind_res (free_channel_nick_f k n s) (free_nick_loop_f k r))"

text \<open>The fuel that is enough: every list of live records is shorter than \<open>s_next\<close>.\<close>

definition fuel_for :: "irc_network_state \<Rightarrow> nat" where
  "fuel_for s = s_next s + 5"

definition free_channel_nick :: "addr \<Rightarrow> irc_network_state \<Rightarrow> irc_network_state res" where
  "free_channel_nick n s = free_channel_nick_f (fuel_for s) n s"

definition free_network_nick :: "nick_ref \<Rightarrow> irc_network_state \<Rightarrow> irc_network_state res" where
  "free_network_nick r s = free_network_nick_f (fuel_for s) True r s"

text \<open>\<open>while (nn->channel_nicks) free_channel_nick(...)\<close> of the QUIT handler, for \<open>me\<close>.\<close>

definition free_own_channel_nicks :: "irc_network_state \<Rightarrow> irc_network_state res" where
  "free_own_channel_nicks s = free_nick_loop_f (fuel_for s) Me s"

fun free_names_f :: "nat \<Rightarrow> addr \<Rightarrow> irc_network_state \<Rightarrow> irc_network_state res" where
  "free_names_f 0 c s = Inl Diverges"
| "free_names_f (Suc k) c s =
     bind_res (get_channel s c) (\<lambda>ch.
     case c_nicks ch of
       [] \<Rightarrow> Inr s
     | n # _ \<Rightarrow> bind_res (free_channel_nick n s) (free_names_f k c))"

definition free_names :: "addr \<Rightarrow> irc_network_state \<Rightarrow> irc_network_state res" where
  "free_names c s = free_names_f (fuel_for s) c s"

definition free_channel_state :: "addr \<Rightarrow> irc_network_state \<Rightarrow> irc_network_state res" where
  "free_channel_state c s =
     bind_res (free_names c s) (\<lambda>s1.
     bind_res (get_channel s1 c) (\<lambda>ch.
     Inr (s1\<lparr>s_channels := (if c_network ch then remove1 c (s_channels s1) else s_channels s1),
             s_ch := (s_ch s1)(c := None)\<rparr>)))"

definition network_state_init ::
    "string option \<Rightarrow> string option \<Rightarrow> string option \<Rightarrow> irc_network_state res" where
  "network_state_init nick username hostname =
     bind_res (network_nick_set_data (network_nick_new\<lparr>nn_query := True\<rparr>) nick username hostname) (\<lambda>me.
     Inr \<lparr>s_channels = [], s_nicks = [], s_me = me, s_info = network_info_init, s_is_away = False,
          s_ch = Map.empty, s_nn = Map.empty, s_cn = Map.empty, s_next = 0\<rparr>)"

text \<open>The two loops of \<open>free_network_state\<close>; what is left is the store after the last free.\<close>

fun free_channels_f :: "nat \<Rightarrow> irc_network_state \<Rightarrow> irc_network_state res" where
  "free_channels_f 0 s = Inl Diverges"
| "free_channels_f (Suc k) s =
     (case s_channels s of
        [] \<Rightarrow> Inr s
      | c # _ \<Rightarrow> bind_res (free_channel_state c s) (free_channels_f k))"

fun free_nicks_f :: "nat \<Rightarrow> irc_network_state \<Rightarrow> irc_network_state res" where
  "free_nicks_f 0 s = Inl Diverges"
| "free_nicks_f (Suc k) s =
     (case s_nicks s of
        [] \<Rightarrow> Inr s
      | a # _ \<Rightarrow> bind_res (free_network_nick (Nick a) s) (free_nicks_f k))"

definition free_network_state :: "irc_network_state \<Rightarrow> irc_network_state res" where
  "free_network_state s =
     bind_res (free_channels_f (fuel_for s) s) (\<lambda>s1. free_nicks_f (fuel_for s1) s1)"

end
