(* ===== verification/State_Inv.thy ===== *)
theory State_Inv
  imports State
begin

text \<open>
  The invariant of the object graph and its preservation by the operations of \<open>State\<close>:
  the lists of channels and users are exactly the live objects, a channel record is in the
  list of its channel and of its user and in no other, and the user \<open>me\<close> is never freed.
\<close>

section \<open>The invariant\<close>

definition wf_graph :: "irc_network_state \<Rightarrow> bool" where
  "wf_graph s \<longleftrightarrow>
     distinct (s_channels s) \<and> set (s_channels s) = dom (s_ch s) \<and>
     distinct (s_nicks s) \<and> set (s_nicks s) = dom (s_nn s) \<and>
     (\<forall>a cn. s_cn s a = Some cn \<longrightarrow>
        s_ch s (cn_channel cn) \<noteq> None \<and> lookup_nick s (cn_global_nick cn) \<noteq> None) \<and>
     (\<forall>c ch. s_ch s c = Some ch \<longrightarrow>
        c_network ch \<and> distinct (c_nicks ch) \<and>
        (\<forall>a. a \<in> set (c_nicks ch) \<longleftrightarrow> (\<exists>cn. s_cn s a = Some cn \<and> cn_channel cn = c))) \<and>
     (\<forall>r nn. lookup_nick s r = Some nn \<longrightarrow>
        distinct (nn_channel_nicks nn) \<and>
        (\<forall>a. a \<in> set (nn_channel_nicks nn) \<longleftrightarrow> (\<exists>cn. s_cn s a = Some cn \<and> cn_global_nick cn = r))) \<and>
     (\<forall>a. a \<in> dom (s_ch s) \<union> dom (s_nn s) \<union> dom (s_cn s) \<longrightarrow> a < s_next s) \<and>
     nn_query (s_me s)"

lemma wf_graph_channels:
  assumes "wf_graph s"
  shows "distinct (s_channels s)" "set (s_channels s) = dom (s_ch s)"
  using assms by (auto simp: wf_graph_def)

lemma wf_graph_nicks:
  assumes "wf_graph s"
  shows "distinct (s_nicks s)" "set (s_nicks s) = dom (s_nn s)"
  using assms by (auto simp: wf_graph_def)

lemma wf_graph_cn:
  assumes "wf_graph s" "s_cn s a = Some cn"
  obtains ch nn where "s_ch s (cn_channel cn) = Some ch" "lookup_nick s (cn_global_nick cn) = Some nn"
    "a \<in> set (c_nicks ch)" "a \<in> set (nn_channel_nicks nn)"
proof -
  have "s_ch s (cn_channel cn) \<noteq> None" "lookup_nick s (cn_global_nick cn) \<noteq> None"
    using assms by (simp_all add: wf_graph_def)
  then obtain ch nn where *: "s_ch s (cn_channel cn) = Some ch"
    "lookup_nick s (cn_global_nick cn) = Some nn" by auto
  moreover have "a \<in> set (c_nicks ch)" "a \<in> set (nn_channel_nicks nn)"
    using assms * by (simp_all add: wf_graph_def)
  ultimately show thesis by (rule that)
qed

lemma wf_graph_ch:
  assumes "wf_graph s" "s_ch s c = Some ch"
  shows "c_network ch" "distinct (c_nicks ch)"
    "a \<in> set (c_nicks ch) \<longleftrightarrow> (\<exists>cn. s_cn s a = Some cn \<and> cn_channel cn = c)"
  using assms unfolding wf_graph_def by blast+

lemma wf_graph_nn:
  assumes "wf_graph s" "lookup_nick s r = Some nn"
  shows "distinct (nn_channel_nicks nn)"
    "a \<in> set (nn_channel_nicks nn) \<longleftrightarrow> (\<exists>cn. s_cn s a = Some cn \<and> cn_global_nick cn = r)"
  using assms unfolding wf_graph_def by blast+

lemma wf_graph_bound:
  assumes "wf_graph s"
  shows "s_ch s a = Some ch \<Longrightarrow> a < s_next s" "s_nn s a = Some nn \<Longrightarrow> a < s_next s"
    "s_cn s a = Some cn \<Longrightarrow> a < s_next s"
  using assms by (auto simp: wf_graph_def)

lemma wf_graph_me: "wf_graph s \<Longrightarrow> nn_query (s_me s)"
  by (simp add: wf_graph_def)

lemma lookup_nick_simps [simp]:
  "lookup_nick s Me = Some (s_me s)"
  "lookup_nick s (Nick a) = s_nn s a"
  by (simp_all add: lookup_nick_def)

lemma lookup_set_nick_obj [simp]:
  "lookup_nick (set_nick_obj s r n) r' = (if r' = r then Some n else lookup_nick s r')"
  by (cases r; cases r') (auto simp: set_nick_obj_def)

lemma set_nick_obj_fields [simp]:
  "s_channels (set_nick_obj s r n) = s_channels s" "s_nicks (set_nick_obj s r n) = s_nicks s"
  "s_ch (set_nick_obj s r n) = s_ch s" "s_cn (set_nick_obj s r n) = s_cn s"
  "s_next (set_nick_obj s r n) = s_next s" "s_info (set_nick_obj s r n) = s_info s"
  "s_is_away (set_nick_obj s r n) = s_is_away s"
  by (cases r; simp add: set_nick_obj_def)+

lemma set_channel_obj_fields [simp]:
  "s_channels (set_channel_obj s c ch) = s_channels s" "s_nicks (set_channel_obj s c ch) = s_nicks s"
  "s_ch (set_channel_obj s c ch) = (s_ch s)(c \<mapsto> ch)" "s_cn (set_channel_obj s c ch) = s_cn s"
  "s_next (set_channel_obj s c ch) = s_next s" "s_info (set_channel_obj s c ch) = s_info s"
  "s_me (set_channel_obj s c ch) = s_me s" "s_nn (set_channel_obj s c ch) = s_nn s"
  "lookup_nick (set_channel_obj s c ch) r = lookup_nick s r"
  by (simp_all add: set_channel_obj_def lookup_nick_def split: nick_ref.splits)

lemma set_cn_obj_fields [simp]:
  "s_channels (set_cn_obj s a cn) = s_channels s" "s_nicks (set_cn_obj s a cn) = s_nicks s"
  "s_ch (set_cn_obj s a cn) = s_ch s" "s_cn (set_cn_obj s a cn) = (s_cn s)(a \<mapsto> cn)"
  "s_next (set_cn_obj s a cn) = s_next s" "s_info (set_cn_obj s a cn) = s_info s"
  "s_me (set_cn_obj s a cn) = s_me s" "s_nn (set_cn_obj s a cn) = s_nn s"
  "lookup_nick (set_cn_obj s a cn) r = lookup_nick s r"
  by (simp_all add: set_cn_obj_def lookup_nick_def split: nick_ref.splits)

lemma dom_set_nick_obj [simp]:
  "lookup_nick s r \<noteq> None \<Longrightarrow> dom (s_nn (set_nick_obj s r n)) = dom (s_nn s)"
  by (cases r) (auto simp: set_nick_obj_def)

lemma me_set_nick_obj [simp]:
  "s_me (set_nick_obj s r n) = (if r = Me then n else s_me s)"
  by (cases r) (auto simp: set_nick_obj_def)

lemma lookup_nick_update [simp]:
  "lookup_nick (s\<lparr>s_channels := x\<rparr>) r = lookup_nick s r"
  "lookup_nick (s\<lparr>s_nicks := x\<rparr>) r = lookup_nick s r"
  "lookup_nick (s\<lparr>s_ch := y\<rparr>) r = lookup_nick s r"
  "lookup_nick (s\<lparr>s_cn := z\<rparr>) r = lookup_nick s r"
  "lookup_nick (s\<lparr>s_next := n\<rparr>) r = lookup_nick s r"
  "lookup_nick (s\<lparr>s_info := i\<rparr>) r = lookup_nick s r"
  "lookup_nick (s\<lparr>s_is_away := b\<rparr>) r = lookup_nick s r"
  by (simp_all add: lookup_nick_def split: nick_ref.splits)

section \<open>Updates that keep the links\<close>

lemma wf_set_nick_obj [wf_intros]:
  assumes "wf_graph s" "lookup_nick s r = Some nn" "nn_channel_nicks n = nn_channel_nicks nn"
    and "r = Me \<Longrightarrow> nn_query n"
  shows "wf_graph (set_nick_obj s r n)"
  using assms unfolding wf_graph_def
  by simp

lemma wf_set_channel_obj [wf_intros]:
  assumes "wf_graph s" "s_ch s c = Some ch" "c_nicks ch' = c_nicks ch" "c_network ch' = c_network ch"
  shows "wf_graph (set_channel_obj s c ch')"
  using assms unfolding wf_graph_def by (simp add: insert_absorb domI)

lemma wf_set_cn_obj [wf_intros]:
  assumes "wf_graph s" "s_cn s a = Some cn" "cn_channel cn' = cn_channel cn"
    "cn_global_nick cn' = cn_global_nick cn"
  shows "wf_graph (set_cn_obj s a cn')"
  using assms unfolding wf_graph_def by (auto simp: insert_absorb domI)

lemma wf_set_info [wf_intros]: "wf_graph s \<Longrightarrow> wf_graph (s\<lparr>s_info := i\<rparr>)"
  by (simp add: wf_graph_def)

lemma wf_set_away [wf_intros]: "wf_graph s \<Longrightarrow> wf_graph (s\<lparr>s_is_away := b\<rparr>)"
  by (simp add: wf_graph_def)

lemma wf_next: "wf_graph s \<Longrightarrow> s_next s \<le> n \<Longrightarrow> wf_graph (s\<lparr>s_next := n\<rparr>)"
  by (auto simp: wf_graph_def)

section \<open>Adding objects\<close>

lemma wf_add_channel [wf_intros]:
  assumes "wf_graph s" "c_nicks ch = []" "c_network ch"
  shows "wf_graph (s\<lparr>s_next := Suc (s_next s), s_ch := (s_ch s)(s_next s \<mapsto> ch),
                      s_channels := s_channels s @ [s_next s]\<rparr>)"
proof -
  have new: "s_ch s (s_next s) = None"
    using wf_graph_bound(1) [OF assms(1)] by fastforce
  have "cn_channel cn \<noteq> s_next s" if "s_cn s a = Some cn" for a cn
    using assms(1) that new by (auto elim: wf_graph_cn)
  then show ?thesis
    using assms new unfolding wf_graph_def by (auto simp: less_Suc_eq domIff)
qed

lemma wf_add_nick [wf_intros]:
  assumes "wf_graph s" "nn_channel_nicks nn = []"
  shows "wf_graph (s\<lparr>s_next := Suc (s_next s), s_nn := (s_nn s)(s_next s \<mapsto> nn),
                      s_nicks := s_nicks s @ [s_next s]\<rparr>)"
    (is "wf_graph ?s")
proof -
  have new: "s_nn s (s_next s) = None"
    using wf_graph_bound(2) [OF assms(1)] by fastforce
  have other: "cn_global_nick cn \<noteq> Nick (s_next s)" if "s_cn s a = Some cn" for a cn
    using assms(1) that new by (auto elim!: wf_graph_cn)
  have look: "lookup_nick ?s r = (if r = Nick (s_next s) then Some nn else lookup_nick s r)" for r
    by (cases r) auto
  show ?thesis
    using assms new other unfolding wf_graph_def look
    by (simp add: less_Suc_eq domIff)
qed

text \<open>Entering a new channel record into the lists of its channel and its user.\<close>

lemma wf_link:
  assumes "wf_graph s" "s_ch s (cn_channel cn) = Some ch"
    "lookup_nick s (cn_global_nick cn) = Some nn" "s_cn s a = None" "a < s_next s"
  shows "wf_graph (set_cn_obj (set_nick_obj (set_channel_obj s (cn_channel cn)
       (ch\<lparr>c_nicks := c_nicks ch @ [a]\<rparr>)) (cn_global_nick cn)
       (nn\<lparr>nn_channel_nicks := nn_channel_nicks nn @ [a]\<rparr>)) a cn)"
  using assms unfolding wf_graph_def
  by (simp add: insert_absorb domI) (auto simp: domI)

section \<open>Freeing a channel record\<close>

text \<open>The effect of \<open>free_channel_nick\<close> on the graph, without the calls.\<close>

definition unlink_cn :: "addr \<Rightarrow> channel_nick \<Rightarrow> irc_channel_state \<Rightarrow> network_nick \<Rightarrow>
    irc_network_state \<Rightarrow> irc_network_state" where
  "unlink_cn n cn ch nn s =
     (set_nick_obj (set_channel_obj s (cn_channel cn) (ch\<lparr>c_nicks := remove1 n (c_nicks ch)\<rparr>))
        (cn_global_nick cn) (nn\<lparr>nn_channel_nicks := remove1 n (nn_channel_nicks nn)\<rparr>))
        \<lparr>s_cn := (s_cn s)(n := None)\<rparr>"

definition drop_nick :: "addr \<Rightarrow> irc_network_state \<Rightarrow> irc_network_state" where
  "drop_nick a s = s\<lparr>s_nicks := remove1 a (s_nicks s), s_nn := (s_nn s)(a := None)\<rparr>"

lemma unlink_cn_fields [simp]:
  "s_channels (unlink_cn n cn ch nn s) = s_channels s"
  "s_nicks (unlink_cn n cn ch nn s) = s_nicks s"
  "s_ch (unlink_cn n cn ch nn s) =
     (s_ch s)(cn_channel cn \<mapsto> ch\<lparr>c_nicks := remove1 n (c_nicks ch)\<rparr>)"
  "s_cn (unlink_cn n cn ch nn s) = (s_cn s)(n := None)"
  "s_next (unlink_cn n cn ch nn s) = s_next s"
  "s_info (unlink_cn n cn ch nn s) = s_info s"
  "lookup_nick (unlink_cn n cn ch nn s) r =
     (if r = cn_global_nick cn then Some (nn\<lparr>nn_channel_nicks := remove1 n (nn_channel_nicks nn)\<rparr>)
      else lookup_nick s r)"
  by (simp_all add: unlink_cn_def)

lemma wf_unlink:
  assumes "wf_graph s" "s_cn s n = Some cn" "s_ch s (cn_channel cn) = Some ch"
    "lookup_nick s (cn_global_nick cn) = Some nn"
  shows "wf_graph (unlink_cn n cn ch nn s)"
proof -
  have "dom (s_nn (unlink_cn n cn ch nn s)) = dom (s_nn s)"
    "nn_query (s_me (unlink_cn n cn ch nn s)) = nn_query (s_me s)"
    using assms(4) by (auto simp: unlink_cn_def set_nick_obj_def set_channel_obj_def
        split: nick_ref.splits if_splits)
  then show ?thesis
    using assms unfolding wf_graph_def by (simp add: insert_absorb domI)
qed

lemma wf_drop:
  assumes "wf_graph s" "s_nn s a = Some nn" "nn_channel_nicks nn = []"
  shows "wf_graph (drop_nick a s)"
proof -
  have look: "lookup_nick (drop_nick a s) r = (if r = Nick a then None else lookup_nick s r)" for r
    by (cases r) (auto simp: drop_nick_def)
  have "cn_global_nick cn \<noteq> Nick a" if "s_cn s b = Some cn" for b cn
    using assms that by (auto elim!: wf_graph_cn)
  then show ?thesis
    using assms(1) unfolding wf_graph_def look by (auto simp: drop_nick_def)
qed

text \<open>When \<open>free_channel_nick\<close> frees the user as well.\<close>

definition orphaned :: "addr \<Rightarrow> network_nick \<Rightarrow> bool" where
  "orphaned n nn \<longleftrightarrow> remove1 n (nn_channel_nicks nn) = [] \<and> \<not> nn_query nn"

lemma free_channel_nick_f_eq:
  assumes "wf_graph s" "s_cn s n = Some cn" "s_ch s (cn_channel cn) = Some ch"
    "lookup_nick s (cn_global_nick cn) = Some nn" "3 \<le> k"
  shows "free_channel_nick_f k n s =
    Inr (if orphaned n nn then
           (case cn_global_nick cn of
              Me \<Rightarrow> unlink_cn n cn ch nn s
            | Nick a \<Rightarrow> drop_nick a (unlink_cn n cn ch nn s))
         else unlink_cn n cn ch nn s)"
proof -
  define j where "j = k - 3"
  then have k: "k = Suc (Suc (Suc j))" using assms(5) by simp
  have me: "cn_global_nick cn = Me \<Longrightarrow> \<not> orphaned n nn"
    using wf_graph_me [OF assms(1)] assms(4) by (auto simp: orphaned_def)
  have net: "c_network ch" using wf_graph_ch(1) assms by blast
  show ?thesis
  proof (cases "cn_global_nick cn")
    case Me
    then show ?thesis
      using assms(2-4) me by (auto simp: k upd_channel_def upd_nick_def get_channel_def get_nick_def
          orphaned_def unlink_cn_def set_nick_obj_def set_channel_obj_def)
  next
    case (Nick a)
    then show ?thesis
      using assms(2-4) net by (auto simp: k upd_channel_def upd_nick_def get_channel_def get_nick_def
          orphaned_def unlink_cn_def drop_nick_def set_nick_obj_def set_channel_obj_def)
  qed
qed

text \<open>
  \<open>freed N s s'\<close>: \<open>s'\<close> is \<open>s\<close> without the channel records in \<open>N\<close>. Channels only lose list
  entries; a user that still has a reason to be tracked survives, and no user changes
  otherwise.
\<close>

definition freed :: "addr set \<Rightarrow> irc_network_state \<Rightarrow> irc_network_state \<Rightarrow> bool" where
  "freed N s s' \<longleftrightarrow>
     s_channels s' = s_channels s \<and> s_info s' = s_info s \<and> s_next s' = s_next s \<and>
     s_is_away s' = s_is_away s \<and>
     s_cn s' = s_cn s |` (- N) \<and>
     (\<forall>c. s_ch s' c = map_option (\<lambda>ch. ch\<lparr>c_nicks := filter (\<lambda>a. a \<notin> N) (c_nicks ch)\<rparr>) (s_ch s c)) \<and>
     (\<forall>r nn. lookup_nick s r = Some nn \<longrightarrow> nn_query nn \<longrightarrow>
        lookup_nick s' r = Some (nn\<lparr>nn_channel_nicks := filter (\<lambda>a. a \<notin> N) (nn_channel_nicks nn)\<rparr>)) \<and>
     (\<forall>r nn'. lookup_nick s' r = Some nn' \<longrightarrow>
        (\<exists>nn. lookup_nick s r = Some nn \<and>
          nn' = nn\<lparr>nn_channel_nicks := filter (\<lambda>a. a \<notin> N) (nn_channel_nicks nn)\<rparr>))"

lemma freedD:
  assumes "freed N s s'"
  shows "s_channels s' = s_channels s" "s_info s' = s_info s" "s_next s' = s_next s"
    "s_cn s' = s_cn s |` (- N)"
    "s_ch s' c = map_option (\<lambda>ch. ch\<lparr>c_nicks := filter (\<lambda>a. a \<notin> N) (c_nicks ch)\<rparr>) (s_ch s c)"
  using assms by (simp_all add: freed_def)

lemma freed_queryD:
  assumes "freed N s s'" "lookup_nick s r = Some nn" "nn_query nn"
  shows "lookup_nick s' r = Some (nn\<lparr>nn_channel_nicks := filter (\<lambda>a. a \<notin> N) (nn_channel_nicks nn)\<rparr>)"
  using assms by (simp add: freed_def)

lemma freed_empty: "freed {} s s"
  by (auto simp: freed_def option.map_ident intro!: option.map_ident [symmetric])

lemma freed_trans:
  assumes "freed N s s'" "freed M s' s''"
  shows "freed (N \<union> M) s s''"
proof -
  have ch: "s_ch s'' c =
      map_option (\<lambda>ch. ch\<lparr>c_nicks := filter (\<lambda>a. a \<notin> N \<and> a \<notin> M) (c_nicks ch)\<rparr>) (s_ch s c)" for c
    using assms by (cases "s_ch s c") (simp_all add: freed_def)
  have q: "lookup_nick s'' r =
      Some (nn\<lparr>nn_channel_nicks := filter (\<lambda>a. a \<notin> N \<and> a \<notin> M) (nn_channel_nicks nn)\<rparr>)"
    if "lookup_nick s r = Some nn" "nn_query nn" for r nn
    using assms that by (simp add: freed_def)
  have old: "\<exists>nn. lookup_nick s r = Some nn \<and>
      nn'' = nn\<lparr>nn_channel_nicks := filter (\<lambda>a. a \<notin> N \<and> a \<notin> M) (nn_channel_nicks nn)\<rparr>"
    if l: "lookup_nick s'' r = Some nn''" for r nn''
  proof -
    obtain nn' where "lookup_nick s' r = Some nn'"
      "nn'' = nn'\<lparr>nn_channel_nicks := filter (\<lambda>a. a \<notin> M) (nn_channel_nicks nn')\<rparr>"
      using assms(2) l unfolding freed_def by blast
    moreover then obtain nn where "lookup_nick s r = Some nn"
      "nn' = nn\<lparr>nn_channel_nicks := filter (\<lambda>a. a \<notin> N) (nn_channel_nicks nn)\<rparr>"
      using assms(1) unfolding freed_def by blast
    ultimately show ?thesis by simp
  qed
  show ?thesis
    unfolding freed_def Un_iff de_Morgan_disj Compl_Un using assms(1,2) ch q old
    by (simp add: freed_def)
qed

lemma remove1_filter:
  "distinct xs \<Longrightarrow> remove1 n xs = filter (\<lambda>a. a \<notin> {n}) xs"
  by (simp add: distinct_remove1_removeAll removeAll_filter_not_eq)
    (metis (mono_tags, lifting))

lemma filter_not_in_id: "set xs \<inter> N = {} \<Longrightarrow> filter (\<lambda>a. a \<notin> N) xs = xs"
  by (rule filter_True) auto

lemma freed_unlink:
  assumes "wf_graph s" "s_cn s n = Some cn" "s_ch s (cn_channel cn) = Some ch"
    "lookup_nick s (cn_global_nick cn) = Some nn"
  shows "freed {n} s (unlink_cn n cn ch nn s)"
proof -
  have ch: "remove1 n (c_nicks ch) = filter (\<lambda>a. a \<notin> {n}) (c_nicks ch)"
    using wf_graph_ch(2) [OF assms(1,3)] by (rule remove1_filter)
  have nn: "remove1 n (nn_channel_nicks nn) = filter (\<lambda>a. a \<notin> {n}) (nn_channel_nicks nn)"
    using wf_graph_nn(1) [OF assms(1,4)] by (rule remove1_filter)
  have ch': "filter (\<lambda>a. a \<notin> {n}) (c_nicks h) = c_nicks h"
    if "s_ch s c = Some h" "c \<noteq> cn_channel cn" for c h
    using wf_graph_ch(3) [OF assms(1) that(1)] that(2) assms(2) by (intro filter_not_in_id) auto
  have nn': "filter (\<lambda>a. a \<notin> {n}) (nn_channel_nicks m) = nn_channel_nicks m"
    if "lookup_nick s r = Some m" "r \<noteq> cn_global_nick cn" for r m
    using wf_graph_nn(2) [OF assms(1) that(1)] that(2) assms(2) by (intro filter_not_in_id) auto
  have mapc: "map_option (\<lambda>h. h\<lparr>c_nicks := filter (\<lambda>a. a \<notin> {n}) (c_nicks h)\<rparr>) (s_ch s c) = s_ch s c"
    if "c \<noteq> cn_channel cn" for c
    using ch' that by (cases "s_ch s c") auto
  have away: "s_is_away (unlink_cn n cn ch nn s) = s_is_away s"
    by (simp add: unlink_cn_def set_channel_obj_def)
  show ?thesis
    unfolding freed_def using assms ch nn nn' mapc away
    by (auto simp: restrict_complement_singleton_eq)
qed

lemma freed_drop:
  assumes "freed N s s'" "s_nn s a = Some nn" "\<not> nn_query nn"
  shows "freed N s (drop_nick a s')"
proof -
  have look: "lookup_nick (drop_nick a s') r = (if r = Nick a then None else lookup_nick s' r)" for r
    by (cases r) (auto simp: drop_nick_def)
  have "s_channels (drop_nick a s') = s_channels s'" "s_info (drop_nick a s') = s_info s'"
    "s_next (drop_nick a s') = s_next s'" "s_is_away (drop_nick a s') = s_is_away s'"
    "s_cn (drop_nick a s') = s_cn s'" "s_ch (drop_nick a s') = s_ch s'"
    by (simp_all add: drop_nick_def)
  then show ?thesis
    using assms unfolding freed_def look by auto
qed

lemma free_channel_nick_f_ok:
  assumes "wf_graph s" "s_cn s n = Some cn" "3 \<le> k"
  shows "safe UNIV (\<lambda>s'. wf_graph s' \<and> freed {n} s s') (free_channel_nick_f k n s)"
proof -
  obtain ch nn where g: "s_ch s (cn_channel cn) = Some ch" "lookup_nick s (cn_global_nick cn) = Some nn"
    using wf_graph_cn [OF assms(1,2)] by metis
  note eq = free_channel_nick_f_eq [OF assms(1,2) g assms(3)]
  have u: "wf_graph (unlink_cn n cn ch nn s)" "freed {n} s (unlink_cn n cn ch nn s)"
    using wf_unlink [OF assms(1,2) g] freed_unlink [OF assms(1,2) g] by simp_all
  show ?thesis
  proof (cases "\<exists>a. orphaned n nn \<and> cn_global_nick cn = Nick a")
    case True
    then obtain a where a: "orphaned n nn" "cn_global_nick cn = Nick a" by blast
    have "s_nn (unlink_cn n cn ch nn s) a =
        Some (nn\<lparr>nn_channel_nicks := remove1 n (nn_channel_nicks nn)\<rparr>)"
      using unlink_cn_fields(7) [of n cn ch nn s "Nick a"] a(2) by simp
    then have "wf_graph (drop_nick a (unlink_cn n cn ch nn s))"
      using a u(1) by (auto simp: orphaned_def intro: wf_drop)
    moreover have "freed {n} s (drop_nick a (unlink_cn n cn ch nn s))"
      using a g(2) u(2) by (auto simp: orphaned_def intro: freed_drop)
    ultimately show ?thesis using eq a by simp
  next
    case False
    then show ?thesis using eq u by (auto split: nick_ref.splits)
  qed
qed

lemma free_channel_nick_ok:
  assumes "wf_graph s" "s_cn s n = Some cn"
  shows "safe UNIV (\<lambda>s'. wf_graph s' \<and> freed {n} s s') (free_channel_nick n s)"
  using free_channel_nick_f_ok [OF assms] by (simp add: free_channel_nick_def fuel_for_def)

section \<open>The freeing loops end\<close>

text \<open>A list of distinct addresses below \<open>s_next\<close> is not longer than it: the fuel is enough.\<close>

lemma length_le_bound:
  "distinct xs \<Longrightarrow> \<forall>x\<in>set xs. x < (n::nat) \<Longrightarrow> length xs \<le> n"
  by (metis card_lessThan card_mono distinct_card finite_lessThan lessThan_iff subsetI)

lemma cn_lists_bounded:
  assumes "wf_graph s"
  shows "s_ch s c = Some ch \<Longrightarrow> length (c_nicks ch) \<le> s_next s"
    and "lookup_nick s r = Some nn \<Longrightarrow> length (nn_channel_nicks nn) \<le> s_next s"
    and "length (s_channels s) \<le> s_next s" and "length (s_nicks s) \<le> s_next s"
  using wf_graph_ch [OF assms] wf_graph_nn [OF assms] wf_graph_bound [OF assms]
    wf_graph_channels [OF assms] wf_graph_nicks [OF assms]
  by (auto intro!: length_le_bound)

lemma free_nick_loop_ok:
  assumes "wf_graph s" "lookup_nick s r = Some nn" "nn_query nn" "length (nn_channel_nicks nn) + 3 < k"
  shows "safe UNIV (\<lambda>s'. wf_graph s' \<and> freed (set (nn_channel_nicks nn)) s s') (free_nick_loop_f k r s)"
  using assms
proof (induction "nn_channel_nicks nn" arbitrary: s nn k)
  case Nil
  then show ?case by (cases k) (simp_all add: get_nick_def freed_empty)
next
  case (Cons n ns)
  obtain j where k: "k = Suc j" using Cons.prems(4) by (cases k) auto
  obtain cn where cn: "s_cn s n = Some cn"
    using wf_graph_nn(2) [OF Cons.prems(1,2), of n] Cons.hyps(2) by (metis list.set_intros(1))
  have len: "length ns + 3 < j" using Cons.prems(4) Cons.hyps(2) [symmetric] k by simp
  obtain s1 where s1: "free_channel_nick_f j n s = Inr s1" "wf_graph s1" "freed {n} s s1"
    using free_channel_nick_f_ok [OF Cons.prems(1) cn, of j] len by (auto simp: safe_UNIV_iff)
  let ?nn1 = "nn\<lparr>nn_channel_nicks := filter (\<lambda>a. a \<notin> {n}) (nn_channel_nicks nn)\<rparr>"
  have l1: "lookup_nick s1 r = Some ?nn1"
    using s1(3) Cons.prems(2,3) unfolding freed_def by blast
  have ns: "ns = nn_channel_nicks ?nn1"
    using wf_graph_nn(1) [OF Cons.prems(1,2)] Cons.hyps(2) [symmetric]
    by (auto intro!: filter_True [symmetric])
  have "safe UNIV (\<lambda>s'. wf_graph s' \<and> freed (set (nn_channel_nicks ?nn1)) s1 s') (free_nick_loop_f j r s1)"
    using Cons.hyps(1) [OF ns s1(2) l1] Cons.prems(3) len ns by simp
  then obtain s2 where s2: "free_nick_loop_f j r s1 = Inr s2" "wf_graph s2" "freed (set ns) s1 s2"
    unfolding ns [symmetric] by (auto simp: safe_UNIV_iff)
  have "freed (set (nn_channel_nicks nn)) s s2"
    using freed_trans [OF s1(3) s2(3)] Cons.hyps(2) [symmetric] by simp
  then show ?case
    using Cons.prems(2) Cons.hyps(2) [symmetric] s1(1) s2(1,2) by (simp add: k get_nick_def)
qed

lemma wf_graph_domD:
  assumes "wf_graph s"
  shows "a \<in> set (s_channels s) \<longleftrightarrow> (\<exists>ch. s_ch s a = Some ch)"
    and "a \<in> set (s_nicks s) \<longleftrightarrow> (\<exists>nn. s_nn s a = Some nn)"
  using wf_graph_channels(2) [OF assms] wf_graph_nicks(2) [OF assms] by auto

lemma free_network_nick_f_ok:
  assumes "wf_graph s" "s_nn s a = Some nn" "length (nn_channel_nicks nn) + 4 < k"
  shows "safe UNIV (\<lambda>s'. wf_graph s' \<and> s_channels s' = s_channels s \<and> s_info s' = s_info s \<and>
      s_next s' = s_next s \<and> s_nicks s' = remove1 a (s_nicks s') \<and> s_nn s' a = None \<and>
      s_cn s' = s_cn s |` (- set (nn_channel_nicks nn))) (free_network_nick_f k True (Nick a) s)"
proof -
  obtain j where k: "k = Suc j" using assms(3) by (cases k) auto
  let ?nn = "nn\<lparr>nn_query := True\<rparr>"
  let ?s1 = "set_nick_obj s (Nick a) ?nn"
  have wf1: "wf_graph ?s1" using assms by (auto intro!: wf_set_nick_obj)
  have l1: "lookup_nick ?s1 (Nick a) = Some ?nn" by (simp add: set_nick_obj_def)
  from free_nick_loop_ok [OF wf1 l1, of j] assms(3) k
  obtain s2 where s2: "free_nick_loop_f j (Nick a) ?s1 = Inr s2" "wf_graph s2"
    "freed (set (nn_channel_nicks nn)) ?s1 s2" by (auto simp: safe_UNIV_iff)
  have "filter (\<lambda>x. x \<notin> set (nn_channel_nicks nn)) (nn_channel_nicks nn) = []"
    by (simp add: filter_empty_conv)
  then have l2: "s_nn s2 a = Some (?nn\<lparr>nn_channel_nicks := []\<rparr>)"
    using freed_queryD [OF s2(3) l1] by simp
  then have "wf_graph (drop_nick a s2)" by (intro wf_drop [OF s2(2) l2]) simp
  moreover have "a \<notin> set (remove1 a (s_nicks s2))"
    using wf_graph_nicks(1) [OF s2(2)] by simp
  ultimately show ?thesis
    using assms(2) s2(1,3)
    by (simp add: k upd_nick_def get_nick_def drop_nick_def freedD [OF s2(3)] remove1_idem)
qed

lemma free_network_nick_ok:
  assumes "wf_graph s" "s_nn s a = Some nn"
  shows "safe UNIV (\<lambda>s'. wf_graph s' \<and> s_channels s' = s_channels s \<and> s_info s' = s_info s \<and>
      s_next s' = s_next s \<and> s_nicks s' = remove1 a (s_nicks s') \<and> s_nn s' a = None \<and>
      s_cn s' = s_cn s |` (- set (nn_channel_nicks nn))) (free_network_nick (Nick a) s)"
  using free_network_nick_f_ok [OF assms] cn_lists_bounded(2) [OF assms(1), of "Nick a" nn] assms(2)
  by (simp add: free_network_nick_def fuel_for_def)

lemma free_own_channel_nicks_ok:
  assumes "wf_graph s"
  shows "safe UNIV (\<lambda>s'. wf_graph s' \<and> freed (set (nn_channel_nicks (s_me s))) s s')
    (free_own_channel_nicks s)"
  using free_nick_loop_ok [OF assms, of Me "s_me s"] wf_graph_me [OF assms]
    cn_lists_bounded(2) [OF assms, of Me "s_me s"]
  by (simp add: free_own_channel_nicks_def fuel_for_def)

lemma free_names_f_ok:
  assumes "wf_graph s" "s_ch s c = Some ch" "length (c_nicks ch) < k"
  shows "safe UNIV (\<lambda>s'. wf_graph s' \<and> freed (set (c_nicks ch)) s s') (free_names_f k c s)"
  using assms
proof (induction "c_nicks ch" arbitrary: s ch k)
  case Nil
  then show ?case by (cases k) (simp_all add: get_channel_def freed_empty)
next
  case (Cons n ns)
  obtain j where k: "k = Suc j" using Cons.prems(3) by (cases k) auto
  obtain cn where cn: "s_cn s n = Some cn"
    using wf_graph_ch(3) [OF Cons.prems(1,2), of n] Cons.hyps(2) by (metis list.set_intros(1))
  obtain s1 where s1: "free_channel_nick n s = Inr s1" "wf_graph s1" "freed {n} s s1"
    using free_channel_nick_ok [OF Cons.prems(1) cn] by (auto simp: safe_UNIV_iff)
  let ?ch1 = "ch\<lparr>c_nicks := filter (\<lambda>a. a \<notin> {n}) (c_nicks ch)\<rparr>"
  have l1: "s_ch s1 c = Some ?ch1"
    using s1(3) Cons.prems(2) by (simp add: freed_def)
  have ns: "ns = c_nicks ?ch1"
    using wf_graph_ch(2) [OF Cons.prems(1,2)] Cons.hyps(2) [symmetric]
    by (auto intro!: filter_True [symmetric])
  have "length ns < j" using Cons.prems(3) Cons.hyps(2) [symmetric] k by simp
  then obtain s2 where s2: "free_names_f j c s1 = Inr s2" "wf_graph s2" "freed (set ns) s1 s2"
    using Cons.hyps(1) [OF ns s1(2) l1, of j] unfolding ns [symmetric] by (auto simp: safe_UNIV_iff)
  have "freed (set (c_nicks ch)) s s2"
    using freed_trans [OF s1(3) s2(3)] Cons.hyps(2) [symmetric] by simp
  then show ?case
    using Cons.prems(2) Cons.hyps(2) [symmetric] s1(1) s2(1,2) by (simp add: k get_channel_def)
qed

lemma free_names_ok:
  assumes "wf_graph s" "s_ch s c = Some ch"
  shows "safe UNIV (\<lambda>s'. wf_graph s' \<and> freed (set (c_nicks ch)) s s') (free_names c s)"
  using free_names_f_ok [OF assms] cn_lists_bounded(1) [OF assms] by (simp add: free_names_def fuel_for_def)

lemma wf_remove_channel:
  assumes "wf_graph s" "s_ch s c = Some ch" "c_nicks ch = []"
  shows "wf_graph (s\<lparr>s_channels := remove1 c (s_channels s), s_ch := (s_ch s)(c := None)\<rparr>)"
proof -
  have "cn_channel cn \<noteq> c" if "s_cn s a = Some cn" for a cn
    using assms that by (auto elim!: wf_graph_cn)
  then show ?thesis
    using assms(1) unfolding wf_graph_def by auto
qed

text \<open>
  Freeing a channel takes exactly its address off the list, and the records it held.
\<close>

lemma free_channel_state_ok:
  assumes "wf_graph s" "s_ch s c = Some ch"
  shows "safe UNIV (\<lambda>s'. wf_graph s' \<and> s_channels s' = remove1 c (s_channels s) \<and>
      s_info s' = s_info s \<and> s_next s' = s_next s \<and>
      s_cn s' = s_cn s |` (- set (c_nicks ch))) (free_channel_state c s)"
proof -
  obtain s1 where s1: "free_names c s = Inr s1" "wf_graph s1" "freed (set (c_nicks ch)) s s1"
    using free_names_ok [OF assms] by (auto simp: safe_UNIV_iff)
  have l1: "s_ch s1 c = Some (ch\<lparr>c_nicks := []\<rparr>)"
    using s1(3) assms(2) by (simp add: freed_def filter_empty_conv)
  show ?thesis
    using wf_remove_channel [OF s1(2) l1] wf_graph_ch(1) [OF assms] s1(1) l1
    by (simp add: free_channel_state_def get_channel_def freedD(1-4) [OF s1(3)])
qed

section \<open>Freeing the whole state\<close>

lemma free_channels_f_ok:
  assumes "wf_graph s" "length (s_channels s) < k"
  shows "safe UNIV (\<lambda>s'. wf_graph s' \<and> s_channels s' = [] \<and> s_next s' = s_next s) (free_channels_f k s)"
  using assms
proof (induction k arbitrary: s)
  case (Suc k)
  show ?case
  proof (cases "s_channels s")
    case Nil
    then show ?thesis using Suc.prems by simp
  next
    case (Cons c cs)
    then obtain ch where ch: "s_ch s c = Some ch"
      using wf_graph_domD(1) [OF Suc.prems(1), of c] by auto
    obtain s1 where s1: "free_channel_state c s = Inr s1" "wf_graph s1" "s_next s1 = s_next s"
      "s_channels s1 = remove1 c (s_channels s)"
      using free_channel_state_ok [OF Suc.prems(1) ch] by (auto simp: safe_UNIV_iff)
    have "length (s_channels s1) < k" using s1(4) Cons Suc.prems(2) by simp
    then show ?thesis using Suc.IH [OF s1(2)] s1 Cons by simp
  qed
qed simp

text \<open>Without channels there are no channel records.\<close>

lemma wf_no_channels:
  assumes "wf_graph s" "s_channels s = []"
  shows "s_ch s = Map.empty" "s_cn s = Map.empty"
proof -
  show ch: "s_ch s = Map.empty"
    using wf_graph_channels(2) [OF assms(1)] assms(2) by (metis dom_eq_empty_conv list.set(1))
  have "s_cn s a \<noteq> Some cn" for a cn
    using ch by (auto elim: wf_graph_cn [OF assms(1)])
  then have "s_cn s a = None" for a
    by (meson option.exhaust)
  then show "s_cn s = Map.empty" by auto
qed

lemma free_nicks_f_ok:
  assumes "wf_graph s" "s_channels s = []" "length (s_nicks s) < k"
  shows "safe UNIV (\<lambda>s'. wf_graph s' \<and> s_channels s' = [] \<and> s_nicks s' = []) (free_nicks_f k s)"
  using assms
proof (induction k arbitrary: s)
  case (Suc k)
  show ?case
  proof (cases "s_nicks s")
    case Nil
    then show ?thesis using Suc.prems by simp
  next
    case (Cons a as)
    then obtain nn where nn: "s_nn s a = Some nn"
      using wf_graph_domD(2) [OF Suc.prems(1), of a] by auto
    have "\<forall>x. x \<notin> set (nn_channel_nicks nn)"
      using wf_no_channels(2) [OF Suc.prems(1,2)] wf_graph_nn(2) [OF Suc.prems(1), of "Nick a" nn] nn
      by simp
    then have "nn_channel_nicks nn = []" by (cases "nn_channel_nicks nn") auto
    then have "free_network_nick (Nick a) s = Inr (drop_nick a s)"
      using nn by (simp add: free_network_nick_def fuel_for_def upd_nick_def get_nick_def
          set_nick_obj_def drop_nick_def eval_nat_numeral)
    moreover have "wf_graph (drop_nick a s)"
      using wf_drop [OF Suc.prems(1) nn] \<open>nn_channel_nicks nn = []\<close> by simp
    moreover have "length (s_nicks (drop_nick a s)) < k" "s_channels (drop_nick a s) = []"
      using Cons Suc.prems by (simp_all add: drop_nick_def)
    ultimately show ?thesis using Suc.IH [of "drop_nick a s"] Cons by simp
  qed
qed simp

lemma free_network_state_ok:
  assumes "wf_graph s"
  shows "safe UNIV (\<lambda>s'. s_ch s' = Map.empty \<and> s_nn s' = Map.empty \<and> s_cn s' = Map.empty)
    (free_network_state s)"
proof -
  obtain s1 where s1: "free_channels_f (fuel_for s) s = Inr s1" "wf_graph s1" "s_channels s1 = []"
    using free_channels_f_ok [OF assms, of "fuel_for s"] cn_lists_bounded(3) [OF assms]
    by (auto simp: safe_UNIV_iff fuel_for_def)
  obtain s2 where s2: "free_nicks_f (fuel_for s1) s1 = Inr s2" "wf_graph s2" "s_channels s2 = []"
    "s_nicks s2 = []"
    using free_nicks_f_ok [OF s1(2,3), of "fuel_for s1"] cn_lists_bounded(4) [OF s1(2)]
    by (auto simp: safe_UNIV_iff fuel_for_def)
  have "s_nn s2 = Map.empty"
    using wf_graph_nicks(2) [OF s2(2)] s2(4) by (metis dom_eq_empty_conv list.set(1))
  then show ?thesis
    using s1(1) s2(1) wf_no_channels [OF s2(2,3)] by (simp add: free_network_state_def)
qed

section \<open>Lookups and additions on a well-formed graph\<close>

lemma find_by_safe:
  assumes "\<And>a. a \<in> set xs \<Longrightarrow> safe F (\<lambda>_. True) (t a)"
  shows "safe F (\<lambda>r. \<forall>a. r = Some a \<longrightarrow> a \<in> set xs \<and> t a = Inr True) (find_by t xs)"
  using assms
proof (induction xs)
  case (Cons x xs)
  have "safe F (\<lambda>_. True) (t x)" using Cons.prems by simp
  moreover have "safe F (\<lambda>r. \<forall>a. r = Some a \<longrightarrow> a \<in> set (x # xs) \<and> t a = Inr True) (find_by t xs)"
    using Cons by (auto intro: safe_mono)
  ultimately show ?case by (cases "t x") auto
qed simp

lemma channel_named_safe:
  "s_ch s a = Some ch \<Longrightarrow> channel_named s name a = Inr (irccmp (Some (s_info s)) (c_name ch) name = 0)"
  by (simp add: channel_named_def get_channel_def)

lemma find_channel_ok:
  assumes "wf_graph s" "AssertFail \<in> F \<Longrightarrow> name \<noteq> None"
  shows "safe F (\<lambda>r. \<forall>c. r = Some c \<longrightarrow>
      (\<exists>ch. s_ch s c = Some ch \<and> irccmp (Some (s_info s)) (c_name ch) (the name) = 0)) (find_channel s name)"
proof -
  have "safe F (\<lambda>_. True) (channel_named s n a)" if "a \<in> set (s_channels s)" for a n
    using that wf_graph_domD(1) [OF assms(1)] channel_named_safe by fastforce
  from find_by_safe [OF this]
  have "safe F (\<lambda>r. \<forall>c. r = Some c \<longrightarrow>
      (\<exists>ch. s_ch s c = Some ch \<and> irccmp (Some (s_info s)) (c_name ch) (the name) = 0))
      (find_by (channel_named s (the name)) (s_channels s))"
    by (rule safe_mono) (auto simp: channel_named_def get_channel_def)
  then show ?thesis
    using assms(2) by (auto simp: find_channel_def guard_res_def)
qed

lemma find_add_channel_ok:
  assumes "wf_graph s" "AssertFail \<in> F \<Longrightarrow> name \<noteq> None"
  shows "safe F (\<lambda>(c, s'). wf_graph s' \<and> (\<exists>ch. s_ch s' c = Some ch) \<and> s_channels s' \<noteq> [])
    (find_add_channel s name)"
  unfolding find_add_channel_def
proof (rule safe_bind [OF find_channel_ok [OF assms]], assumption, rule safe_case_option)
  show "safe F (\<lambda>(c, s'). wf_graph s' \<and> (\<exists>ch. s_ch s' c = Some ch) \<and> s_channels s' \<noteq> [])
      (let c = s_next s; ch = (irc_channel_state_new (the name))\<lparr>c_network := True\<rparr>
       in Inr (c, s\<lparr>s_next := Suc c, s_ch := (s_ch s)(c \<mapsto> ch), s_channels := s_channels s @ [c]\<rparr>))"
    using wf_add_channel [OF assms(1)] by (simp add: Let_def irc_channel_state_new_def)
qed (use assms(1) wf_graph_domD(1) [OF assms(1)] in auto)

text \<open>Reading a user on a well-formed graph can only find an unset nick.\<close>

lemma cn_named_safe:
  assumes "wf_graph s" "s_cn s a = Some cn" "AssertFail \<notin> F"
  shows "safe F (\<lambda>_. True) (cn_named s info name a)"
  using assms by (auto simp: cn_named_def get_nick_def asserted_def elim!: wf_graph_cn split: option.splits)

lemma vcg_is_prefix [vcg]:
  "NullDeref \<notin> F \<Longrightarrow> (\<And>p. (p \<Longrightarrow> c \<noteq> NUL) \<Longrightarrow> safe F P (f p)) \<Longrightarrow>
   safe F P (bind_res (is_prefix c info) f)"
  by (auto simp: is_prefix_def Let_def deref_def split: option.splits)

lemma find_channel_nick_ok:
  assumes "wf_graph s" "s_ch s c = Some ch"
  shows "safe heap_faults (\<lambda>r. \<forall>a. r = Some a \<longrightarrow> (\<exists>cn. s_cn s a = Some cn \<and> cn_channel cn = c))
    (find_channel_nick s c name)"
proof -
  have "safe heap_faults (\<lambda>_. True) (cn_named s info n a)" if "a \<in> set (c_nicks ch)" for info n a
    using that wf_graph_ch(3) [OF assms] by (auto intro: cn_named_safe [OF assms(1)])
  from find_by_safe [where xs = "c_nicks ch" and t = "cn_named s info n" for info n, OF this]
    wf_graph_ch(3) [OF assms]
  have "safe heap_faults (\<lambda>r. \<forall>a. r = Some a \<longrightarrow> (\<exists>cn. s_cn s a = Some cn \<and> cn_channel cn = c))
      (find_by (cn_named s info n) (c_nicks ch))" for info n
    by (auto intro: safe_mono)
  then show ?thesis
    using assms(2) unfolding find_channel_nick_def get_channel_def Let_def
    by (intro vcg) auto
qed

lemma find_network_nick_ok:
  assumes "wf_graph s"
  shows "safe heap_faults (\<lambda>r. \<forall>x. r = Some x \<longrightarrow> (\<exists>nn. lookup_nick s x = Some nn))
    (find_network_nick s name)"
proof -
  have "safe heap_faults (\<lambda>_. True) (nn_named s n a)" if "a \<in> set (s_nicks s)" for n a
    using that wf_graph_domD(2) [OF assms] by (auto simp: nn_named_def asserted_def split: option.splits)
  from find_by_safe [where xs = "s_nicks s" and t = "nn_named s n" for n, OF this]
    wf_graph_domD(2) [OF assms]
  have "safe heap_faults (\<lambda>r. \<forall>a. r = Some a \<longrightarrow> (\<exists>nn. s_nn s a = Some nn))
      (find_by (nn_named s n) (s_nicks s))" for n
    by (auto intro: safe_mono)
  then have "safe heap_faults (\<lambda>r. \<forall>x. r = Some x \<longrightarrow> (\<exists>nn. lookup_nick s x = Some nn))
      (bind_res (find_by (nn_named s n) (s_nicks s)) (\<lambda>r. Inr (map_option Nick r)))" for n
    by (rule safe_bind) auto
  then show ?thesis
    unfolding find_network_nick_def
    by (intro vcg) auto
qed

text \<open>
  From here on, one rule per operation: what has to hold before a sequence that starts with
  it. \<open>live_ch s c\<close> and \<open>live_nick s r\<close> say that a pointer may be followed.
\<close>

abbreviation live_ch :: "irc_network_state \<Rightarrow> addr \<Rightarrow> bool" where
  "live_ch s c \<equiv> \<exists>ch. s_ch s c = Some ch"

abbreviation live_nick :: "irc_network_state \<Rightarrow> nick_ref \<Rightarrow> bool" where
  "live_nick s r \<equiv> \<exists>nn. lookup_nick s r = Some nn"

abbreviation live_cn :: "irc_network_state \<Rightarrow> addr \<Rightarrow> bool" where
  "live_cn s a \<equiv> \<exists>cn. s_cn s a = Some cn"

lemma vcg_find_channel [vcg]:
  assumes "wf_graph s" "AssertFail \<in> F \<Longrightarrow> name \<noteq> None"
    and "\<And>r. (\<And>c. r = Some c \<Longrightarrow> live_ch s c) \<Longrightarrow> safe F P (f r)"
  shows "safe F P (bind_res (find_channel s name) f)"
  by (rule safe_bind [OF find_channel_ok [OF assms(1,2)]]) (auto intro: assms(3))

lemma vcg_find_add_channel [vcg]:
  assumes "wf_graph s" "AssertFail \<in> F \<Longrightarrow> name \<noteq> None"
    and "\<And>c s'. wf_graph s' \<Longrightarrow> live_ch s' c \<Longrightarrow> s_channels s' \<noteq> [] \<Longrightarrow> safe F P (f (c, s'))"
  shows "safe F P (bind_res (find_add_channel s name) f)"
  by (rule safe_bind [OF find_add_channel_ok [OF assms(1,2)]]) (auto intro: assms(3))

lemma vcg_find_channel_nick [vcg]:
  assumes "wf_graph s" "live_ch s c"
    and "\<And>r. (\<And>a. r = Some a \<Longrightarrow> live_cn s a) \<Longrightarrow> safe heap_faults P (f r)"
  shows "safe heap_faults P (bind_res (find_channel_nick s c name) f)"
proof -
  obtain ch where ch: "s_ch s c = Some ch" using assms(2) by blast
  show ?thesis
    by (rule safe_bind [OF find_channel_nick_ok [OF assms(1) ch]]) (auto intro!: assms(3))
qed

lemma vcg_find_network_nick [vcg]:
  assumes "wf_graph s"
    and "\<And>r. (\<And>x. r = Some x \<Longrightarrow> live_nick s x) \<Longrightarrow> safe heap_faults P (f r)"
  shows "safe heap_faults P (bind_res (find_network_nick s name) f)"
  by (rule safe_bind [OF find_network_nick_ok [OF assms(1)]]) (auto intro: assms(2))

lemma find_add_network_nick_ok:
  assumes "wf_graph s"
  shows "safe heap_faults (\<lambda>(r, s'). wf_graph s' \<and> live_nick s' r \<and>
      s_ch s' = s_ch s \<and> s_cn s' = s_cn s \<and> s_next s \<le> s_next s' \<and> s_info s' = s_info s)
    (find_add_network_nick s name)"
  unfolding find_add_network_nick_def
  by (intro vcg assms) (use assms wf_add_nick [OF assms] in \<open>auto simp: network_nick_new_def\<close>)

lemma vcg_find_add_network_nick [vcg]:
  assumes "wf_graph s"
    and "\<And>r s'. wf_graph s' \<Longrightarrow> live_nick s' r \<Longrightarrow> s_ch s' = s_ch s \<Longrightarrow>
           s_cn s' = s_cn s \<Longrightarrow> s_next s \<le> s_next s' \<Longrightarrow> s_info s' = s_info s \<Longrightarrow>
           safe heap_faults P (f (r, s'))"
  shows "safe heap_faults P (bind_res (find_add_network_nick s name) f)"
  by (rule safe_bind [OF find_add_network_nick_ok [OF assms(1)]]) (auto intro: assms(2))

lemma link_channel_nick_ok:
  assumes "wf_graph s" "s_ch s (cn_channel cn) = Some ch"
    "lookup_nick s (cn_global_nick cn) = Some nn" "s_cn s a = None" "a < s_next s"
  shows "link_channel_nick s a cn =
     Inr (set_cn_obj (set_nick_obj (set_channel_obj s (cn_channel cn)
       (ch\<lparr>c_nicks := c_nicks ch @ [a]\<rparr>)) (cn_global_nick cn)
       (nn\<lparr>nn_channel_nicks := nn_channel_nicks nn @ [a]\<rparr>)) a cn)"
  using assms by (simp add: link_channel_nick_def upd_channel_def upd_nick_def get_channel_def get_nick_def)

lemma vcg_link_channel_nick [vcg]:
  assumes "wf_graph s" "live_ch s (cn_channel cn)" "live_nick s (cn_global_nick cn)"
    "s_cn s a = None" "a < s_next s"
    and "\<And>s'. wf_graph s' \<Longrightarrow> s_cn s' a = Some cn \<Longrightarrow> (\<And>c. live_ch s' c \<longleftrightarrow> live_ch s c) \<Longrightarrow>
           s_info s' = s_info s \<Longrightarrow> safe F P (f s')"
  shows "safe F P (bind_res (link_channel_nick s a cn) f)"
proof -
  obtain ch nn where g: "s_ch s (cn_channel cn) = Some ch" "lookup_nick s (cn_global_nick cn) = Some nn"
    using assms(2,3) by blast
  show ?thesis
    using wf_link [OF assms(1) g assms(4,5)] g(1)
    by (auto simp: link_channel_nick_ok [OF assms(1) g assms(4,5)] intro!: assms(6) split: if_splits)
qed

lemma vcg_mode_ops [vcg]:
  "OutOfBounds \<notin> F \<Longrightarrow> (\<And>b. safe F P (g b)) \<Longrightarrow> safe F P (bind_res (mode_get ms c) g)"
  "AssertFail \<notin> F \<Longrightarrow> (\<And>m. safe F P (g' m)) \<Longrightarrow> safe F P (bind_res (get_mode_by_prefix p info) g')"
  "OutOfBounds \<notin> F \<Longrightarrow> (\<And>r. safe F P (h r)) \<Longrightarrow> safe F P (bind_res (modes_change_mode ms b c) h)"
  "OutOfBounds \<notin> F \<Longrightarrow> (\<And>r. safe F P (h r)) \<Longrightarrow> safe F P (bind_res (modes_set_mode ms c) h)"
  "OutOfBounds \<notin> F \<Longrightarrow> (\<And>r. safe F P (h r)) \<Longrightarrow> safe F P (bind_res (modes_unset_mode ms c) h)"
  by (auto simp: mode_get_def get_mode_by_prefix_def guard_res_def modes_change_mode_def
      modes_set_mode_def modes_unset_mode_def Let_def)

lemma find_add_channel_nick_ok:
  assumes "wf_graph s" "s_ch s c = Some ch"
  shows "safe heap_faults (\<lambda>(a, s'). wf_graph s' \<and> live_cn s' a \<and>
      (\<forall>x. live_ch s' x \<longleftrightarrow> live_ch s x) \<and> s_info s' = s_info s) (find_add_channel_nick s c name)"
proof -
  have wf1: "wf_graph (s\<lparr>s_next := Suc (s_next s)\<rparr>)" using wf_next [OF assms(1)] by simp
  have new: "s_cn s (s_next s) = None"
    using wf_graph_bound(3) [OF assms(1)] by fastforce
  show ?thesis
    unfolding find_add_channel_nick_def get_channel_def
    by (intro vcg assms wf1) (use assms new in auto)
qed

lemma vcg_find_add_channel_nick [vcg]:
  assumes "wf_graph s" "live_ch s c"
    and "\<And>a s'. wf_graph s' \<Longrightarrow> live_cn s' a \<Longrightarrow> (\<And>x. live_ch s' x \<longleftrightarrow> live_ch s x) \<Longrightarrow>
           s_info s' = s_info s \<Longrightarrow> safe heap_faults P (f (a, s'))"
  shows "safe heap_faults P (bind_res (find_add_channel_nick s c name) f)"
proof -
  obtain ch where "s_ch s c = Some ch" using assms(2) by blast
  show ?thesis
    by (rule safe_bind [OF find_add_channel_nick_ok [OF assms(1) \<open>s_ch s c = Some ch\<close>]])
      (auto intro!: assms(3))
qed

text \<open>Rules for the freeing operations.\<close>

lemma freed_live: "freed N s s' \<Longrightarrow> live_ch s' c \<longleftrightarrow> live_ch s c"
  by (auto simp: freed_def)

lemma vcg_free_channel_nick [vcg]:
  assumes "wf_graph s" "live_cn s n"
    and "\<And>s'. wf_graph s' \<Longrightarrow> (\<And>c. live_ch s' c \<longleftrightarrow> live_ch s c) \<Longrightarrow> safe F P (f s')"
  shows "safe F P (bind_res (free_channel_nick n s) f)"
  using assms(2)
  by (auto simp: safe_UNIV_iff dest!: free_channel_nick_ok [OF assms(1)] intro!: assms(3) [OF _ freed_live])

lemma vcg_free_names [vcg]:
  assumes "wf_graph s" "live_ch s c"
    and "\<And>s'. wf_graph s' \<Longrightarrow> (\<And>c. live_ch s' c \<longleftrightarrow> live_ch s c) \<Longrightarrow> safe F P (f s')"
  shows "safe F P (bind_res (free_names c s) f)"
  using assms(2)
  by (auto simp: safe_UNIV_iff dest!: free_names_ok [OF assms(1)] intro!: assms(3) [OF _ freed_live])

lemma free_channel_state_wf [vcg]:
  assumes "wf_graph s" "live_ch s c"
  shows "safe F wf_graph (free_channel_state c s)"
  using assms(2) by (auto simp: safe_UNIV_iff dest!: free_channel_state_ok [OF assms(1)])

lemma free_network_nick_wf [vcg]:
  assumes "wf_graph s" "r \<noteq> Me" "live_nick s r"
  shows "safe F wf_graph (free_network_nick r s)"
  using assms(2,3) by (cases r) (auto simp: safe_UNIV_iff dest!: free_network_nick_ok [OF assms(1)])

lemma free_own_channel_nicks_wf [vcg]:
  assumes "wf_graph s"
  shows "safe F wf_graph (free_own_channel_nicks s)"
  using free_own_channel_nicks_ok [OF assms] by (auto simp: safe_UNIV_iff)

text \<open>Updates through a pointer to a live object.\<close>

lemma upd_channel_ok:
  assumes "wf_graph s" "live_ch s c" "\<And>x. c_nicks (g x) = c_nicks x" "\<And>x. c_network (g x) = c_network x"
  shows "safe F (\<lambda>s'. wf_graph s' \<and> (\<forall>c. live_ch s' c \<longleftrightarrow> live_ch s c) \<and>
      (\<forall>r. lookup_nick s' r = lookup_nick s r)) (upd_channel s c g)"
proof -
  obtain ch where ch: "s_ch s c = Some ch" using assms(2) by blast
  show ?thesis
    using wf_set_channel_obj [OF assms(1) ch, of "g ch"] ch assms(3,4)
    by (auto simp: upd_channel_def get_channel_def)
qed

lemma vcg_upd_channel [vcg]:
  assumes "wf_graph s" "live_ch s c" "\<And>x. c_nicks (g x) = c_nicks x" "\<And>x. c_network (g x) = c_network x"
    and "\<And>s'. wf_graph s' \<Longrightarrow> (\<And>c. live_ch s' c \<longleftrightarrow> live_ch s c) \<Longrightarrow>
           (\<And>r. lookup_nick s' r = lookup_nick s r) \<Longrightarrow> safe F P (f s')"
  shows "safe F P (bind_res (upd_channel s c g) f)"
  by (rule safe_bind [OF upd_channel_ok [OF assms(1-4)]]) (auto intro!: assms(5))

lemma upd_channel_wf [vcg]:
  assumes "wf_graph s" "live_ch s c" "\<And>x. c_nicks (g x) = c_nicks x" "\<And>x. c_network (g x) = c_network x"
  shows "safe F wf_graph (upd_channel s c g)"
  by (rule safe_mono [OF upd_channel_ok [OF assms]]) auto

lemma upd_nick_ok:
  assumes "wf_graph s" "live_nick s r" "\<And>x. nn_channel_nicks (g x) = nn_channel_nicks x"
    "\<And>x. nn_query x \<Longrightarrow> nn_query (g x)"
  shows "safe F (\<lambda>s'. wf_graph s' \<and> s_ch s' = s_ch s \<and> s_cn s' = s_cn s \<and>
      (\<forall>x. live_nick s' x \<longleftrightarrow> live_nick s x)) (upd_nick s r g)"
proof -
  obtain nn where nn: "lookup_nick s r = Some nn" using assms(2) by blast
  have "wf_graph (set_nick_obj s r (g nn))"
    using assms(3,4) nn wf_graph_me [OF assms(1)] by (intro wf_set_nick_obj [OF assms(1) nn]) auto
  then show ?thesis
    using nn by (auto simp: upd_nick_def get_nick_def)
qed

lemma vcg_upd_nick [vcg]:
  assumes "wf_graph s" "live_nick s r" "\<And>x. nn_channel_nicks (g x) = nn_channel_nicks x"
    "\<And>x. nn_query x \<Longrightarrow> nn_query (g x)"
    and "\<And>s'. wf_graph s' \<Longrightarrow> s_ch s' = s_ch s \<Longrightarrow> s_cn s' = s_cn s \<Longrightarrow>
           (\<And>x. live_nick s' x \<longleftrightarrow> live_nick s x) \<Longrightarrow> safe F P (f s')"
  shows "safe F P (bind_res (upd_nick s r g) f)"
  by (rule safe_bind [OF upd_nick_ok [OF assms(1-4)]]) (auto intro!: assms(5))

lemma upd_nick_wf [vcg]:
  assumes "wf_graph s" "live_nick s r" "\<And>x. nn_channel_nicks (g x) = nn_channel_nicks x"
    "\<And>x. nn_query x \<Longrightarrow> nn_query (g x)"
  shows "safe F wf_graph (upd_nick s r g)"
  by (rule safe_mono [OF upd_nick_ok [OF assms]]) auto

lemma vcg_get_nick [vcg]:
  assumes "live_nick s r" "\<And>nn. lookup_nick s r = Some nn \<Longrightarrow> safe F P (f nn)"
  shows "safe F P (bind_res (get_nick s r) f)"
  using assms by (auto simp: get_nick_def)

lemma vcg_get_channel [vcg]:
  assumes "live_ch s c" "\<And>ch. s_ch s c = Some ch \<Longrightarrow> safe F P (f ch)"
  shows "safe F P (bind_res (get_channel s c) f)"
  using assms by (auto simp: get_channel_def)

lemma set_data_keeps:
  assumes "network_nick_set_data n a b c = Inr m"
  shows "nn_channel_nicks m = nn_channel_nicks n \<and> nn_query m = nn_query n"
  using assms by (auto simp: network_nick_set_data_def Let_def split: if_splits)

lemma wf_network_state_init:
  "safe {} wf_graph (network_state_init nick username hostname)"
proof (cases "network_nick_set_data (network_nick_new\<lparr>nn_query := True\<rparr>) nick username hostname")
  case (Inr me)
  from set_data_keeps [OF this] have "nn_channel_nicks me = []" "nn_query me"
    by (simp_all add: network_nick_new_def)
  then show ?thesis
    unfolding network_state_init_def Inr
    by (auto simp: wf_graph_def lookup_nick_def split: nick_ref.splits)
qed (simp add: network_state_init_def)

end
