(* ===== verification/State_Handlers.thy ===== *)
theory State_Handlers
  imports State_Inv
begin

text \<open>
  The handlers of \<open>libirc/state.c\<close>, one per IRC command that changes the network state, the
  command table and \<open>state_handle_data\<close>. The clock is the argument \<open>now\<close>. Log messages have
  no effect on the state and are left out.
\<close>

section \<open>Joining, leaving, kicking\<close>

text \<open>\<open>CHECK_ORIGIN\<close>: a line without origin is logged and ignored.\<close>

definition check_origin ::
    "irc_network_state \<Rightarrow> irc_line \<Rightarrow> irc_network_state res \<Rightarrow> irc_network_state res" where
  "check_origin s l k = (if origin l = None then Inr s else k)"

definition set_nick_hostmask ::
    "irc_network_state \<Rightarrow> nick_ref \<Rightarrow> string option \<Rightarrow> irc_network_state res" where
  "set_nick_hostmask s r hm =
     upd_nick s r (\<lambda>nn. the (snd (network_nick_set_hostmask (Some nn) hm)))"

definition join_one ::
    "irc_line \<Rightarrow> string \<Rightarrow> string \<Rightarrow> irc_network_state \<Rightarrow> irc_network_state res" where
  "join_one l nick chan s =
     bind_res (find_add_channel s (Some chan)) (\<lambda>(c, s1).
     bind_res (guard_res (s_channels s1 \<noteq> []) AssertFail) (\<lambda>_.
     bind_res (find_add_channel_nick s1 c (Some nick)) (\<lambda>(ni, s2).
     bind_res (live (s_cn s2 ni)) (\<lambda>cn.
     bind_res (set_nick_hostmask s2 (cn_global_nick cn) (origin l)) (\<lambda>s3.
     bind_res (asserted (nn_nick (s_me s3))) (\<lambda>_.
     Inr s3))))))"

definition handle_join :: "int \<Rightarrow> irc_network_state \<Rightarrow> irc_line \<Rightarrow> irc_network_state res" where
  "handle_join now s l =
     check_origin s l
       (bind_res (line_get_nick l) (\<lambda>nick.
        bind_res (sarg l 1) (\<lambda>a1.
        fold_res (join_one l nick) (g_strsplit a1 (CHR '','') 0) s)))"

text \<open>\<open>!irccmp(s->info, nick, s->me.nick)\<close>\<close>

definition is_me :: "irc_network_state \<Rightarrow> string \<Rightarrow> bool res" where
  "is_me s nick =
     bind_res (asserted (nn_nick (s_me s))) (\<lambda>mynick. Inr (irccmp (Some (s_info s)) nick mynick = 0))"

definition part_one :: "string \<Rightarrow> string \<Rightarrow> irc_network_state \<Rightarrow> irc_network_state res" where
  "part_one nick chan s =
     bind_res (find_channel s (Some chan)) (\<lambda>r.
     case r of
       None \<Rightarrow> Inr s
     | Some c \<Rightarrow>
         bind_res (find_channel_nick s c (Some nick)) (\<lambda>rn.
         bind_res (case rn of None \<Rightarrow> Inr s | Some n \<Rightarrow> free_channel_nick n s) (\<lambda>s1.
         bind_res (is_me s1 nick) (\<lambda>me.
         if me then free_channel_state c s1 else Inr s1))))"

definition handle_part :: "int \<Rightarrow> irc_network_state \<Rightarrow> irc_line \<Rightarrow> irc_network_state res" where
  "handle_part now s l =
     check_origin s l
       (bind_res (line_get_nick l) (\<lambda>nick.
        bind_res (sarg l 1) (\<lambda>a1.
        fold_res (part_one nick) (g_strsplit a1 (CHR '','') 0) s)))"

definition kick_one :: "string \<times> string \<Rightarrow> irc_network_state \<Rightarrow> irc_network_state res" where
  "kick_one cn s =
     (case cn of (chan, nick) \<Rightarrow>
        bind_res (find_channel s (Some chan)) (\<lambda>r.
        case r of
          None \<Rightarrow> Inr s
        | Some c \<Rightarrow>
            bind_res (find_channel_nick s c (Some nick)) (\<lambda>rn.
            case rn of
              None \<Rightarrow> Inr s
            | Some n \<Rightarrow>
                bind_res (free_channel_nick n s) (\<lambda>s1.
                bind_res (is_me s1 nick) (\<lambda>me.
                if me then free_channel_state c s1 else Inr s1)))))"

text \<open>The loop stops at the end of the shorter list, which is what \<open>zip\<close> does.\<close>

definition handle_kick :: "int \<Rightarrow> irc_network_state \<Rightarrow> irc_line \<Rightarrow> irc_network_state res" where
  "handle_kick now s l =
     check_origin s l
       (bind_res (line_get_nick l) (\<lambda>_.
        bind_res (sarg l 1) (\<lambda>a1.
        bind_res (sarg l 2) (\<lambda>a2.
        fold_res kick_one
          (zip (g_strsplit a1 (CHR '','') 0) (g_strsplit a2 (CHR '','') 0)) s))))"

section \<open>Topics\<close>

text \<open>The channel is looked up before the origin is checked and used without a NULL test.\<close>

definition handle_topic :: "int \<Rightarrow> irc_network_state \<Rightarrow> irc_line \<Rightarrow> irc_network_state res" where
  "handle_topic now s l =
     bind_res (arg l 1) (\<lambda>a1.
     bind_res (find_channel s a1) (\<lambda>r.
     check_origin s l
       (bind_res (deref r) (\<lambda>c.
        bind_res (arg l 2) (\<lambda>a2.
        bind_res (line_get_nick l) (\<lambda>nick.
        upd_channel s c (\<lambda>ch. ch\<lparr>c_topic := a2, c_topic_set_time := now,
                                  c_topic_set_by := Some nick\<rparr>)))))))"

text \<open>
  The shape of the numeric handlers: find the channel that an argument names, do nothing
  when it is unknown.
\<close>

definition with_channel ::
    "irc_network_state \<Rightarrow> irc_line \<Rightarrow> nat \<Rightarrow> (addr \<Rightarrow> irc_network_state res) \<Rightarrow> irc_network_state res" where
  "with_channel s l i k =
     bind_res (arg l i) (\<lambda>a.
     bind_res (find_channel s a) (\<lambda>r.
     case r of None \<Rightarrow> Inr s | Some c \<Rightarrow> k c))"

definition handle_332 :: "int \<Rightarrow> irc_network_state \<Rightarrow> irc_line \<Rightarrow> irc_network_state res" where
  "handle_332 now s l =
     with_channel s l 2 (\<lambda>c.
       bind_res (arg l 3) (\<lambda>a3. upd_channel s c (\<lambda>ch. ch\<lparr>c_topic := a3\<rparr>)))"

definition handle_333 :: "int \<Rightarrow> irc_network_state \<Rightarrow> irc_line \<Rightarrow> irc_network_state res" where
  "handle_333 now s l =
     with_channel s l 2 (\<lambda>c.
       bind_res (sarg l 4) (\<lambda>a4.
       bind_res (arg l 3) (\<lambda>a3.
       upd_channel s c (\<lambda>ch. ch\<lparr>c_topic_set_time := fst (strtol 0 a4), c_topic_set_by := a3\<rparr>))))"

definition handle_no_topic :: "int \<Rightarrow> irc_network_state \<Rightarrow> irc_line \<Rightarrow> irc_network_state res" where
  "handle_no_topic now s l =
     with_channel s l 1 (\<lambda>c. upd_channel s c (\<lambda>ch. ch\<lparr>c_topic := None\<rparr>))"

section \<open>Names\<close>

definition add_name :: "addr \<Rightarrow> string \<Rightarrow> irc_network_state \<Rightarrow> irc_network_state res" where
  "add_name c name s =
     (if name = [] then Inr s
      else bind_res (find_add_channel_nick s c (Some name)) (\<lambda>(_, s'). Inr s'))"

definition handle_namreply :: "int \<Rightarrow> irc_network_state \<Rightarrow> irc_line \<Rightarrow> irc_network_state res" where
  "handle_namreply now s l =
     with_channel s l 3 (\<lambda>c.
       bind_res (sarg l 4) (\<lambda>a4.
       bind_res (sarg l 2) (\<lambda>a2.
       bind_res (upd_channel s c (\<lambda>ch. ch\<lparr>c_mode := first_char a2\<rparr>)) (\<lambda>s1.
       bind_res (get_channel s1 c) (\<lambda>ch.
       bind_res (if c_namreply_started ch then Inr s1
                 else bind_res (free_names c s1) (\<lambda>s2.
                   upd_channel s2 c (\<lambda>ch. ch\<lparr>c_namreply_started := True\<rparr>))) (\<lambda>s3.
       fold_res (add_name c) (g_strsplit a4 (CHR '' '') 0) s3))))))"

definition handle_end_names :: "int \<Rightarrow> irc_network_state \<Rightarrow> irc_line \<Rightarrow> irc_network_state res" where
  "handle_end_names now s l =
     with_channel s l 2 (\<lambda>c. upd_channel s c (\<lambda>ch. ch\<lparr>c_namreply_started := False\<rparr>))"

section \<open>Ban, invite and exception lists\<close>

text \<open>The first entry of a listing empties the list; later ones are appended.\<close>

definition put_nicklist ::
    "char \<Rightarrow> nicklist \<Rightarrow> irc_channel_state \<Rightarrow> irc_channel_state" where
  "put_nicklist m nl ch = ch\<lparr>c_chanmode_nicklist := (c_chanmode_nicklist ch)(m := nl)\<rparr>"

definition restarted_nicklist :: "bool \<Rightarrow> char \<Rightarrow> irc_channel_state \<Rightarrow> nicklist" where
  "restarted_nicklist started m ch =
     (if started then c_chanmode_nicklist ch m else free_nicklist (c_chanmode_nicklist ch m))"

definition handle_invitelist_entry ::
    "int \<Rightarrow> irc_network_state \<Rightarrow> irc_line \<Rightarrow> irc_network_state res" where
  "handle_invitelist_entry now s l =
     with_channel s l 2 (\<lambda>c.
       bind_res (arg l 3) (\<lambda>a3.
       upd_channel s c (\<lambda>ch.
         (put_nicklist (CHR ''I'')
            (nicklist_add_entry (restarted_nicklist (c_invitelist_started ch) (CHR ''I'') ch) a3 None 0)
            ch)\<lparr>c_invitelist_started := True\<rparr>)))"

definition end_nicklist :: "char \<Rightarrow> irc_channel_state \<Rightarrow> irc_channel_state" where
  "end_nicklist m ch =
     ch\<lparr>c_chanmode_nicklist_present := (c_chanmode_nicklist_present ch)(m := True)\<rparr>"

definition handle_end_invitelist ::
    "int \<Rightarrow> irc_network_state \<Rightarrow> irc_line \<Rightarrow> irc_network_state res" where
  "handle_end_invitelist now s l =
     with_channel s l 2 (\<lambda>c.
       upd_channel s c (\<lambda>ch. end_nicklist (CHR ''I'') (ch\<lparr>c_invitelist_started := False\<rparr>)))"

definition handle_exceptlist_entry ::
    "int \<Rightarrow> irc_network_state \<Rightarrow> irc_line \<Rightarrow> irc_network_state res" where
  "handle_exceptlist_entry now s l =
     with_channel s l 2 (\<lambda>c.
       bind_res (arg l 3) (\<lambda>a3.
       upd_channel s c (\<lambda>ch.
         (put_nicklist (CHR ''e'')
            (nicklist_add_entry (restarted_nicklist (c_exceptlist_started ch) (CHR ''e'') ch) a3 None 0)
            ch)\<lparr>c_exceptlist_started := True\<rparr>)))"

definition handle_end_exceptlist ::
    "int \<Rightarrow> irc_network_state \<Rightarrow> irc_line \<Rightarrow> irc_network_state res" where
  "handle_end_exceptlist now s l =
     with_channel s l 2 (\<lambda>c.
       upd_channel s c (\<lambda>ch. end_nicklist (CHR ''e'') (ch\<lparr>c_exceptlist_started := False\<rparr>)))"

text \<open>A ban has a setter and a time when the server sends them.\<close>

definition handle_banlist_entry ::
    "int \<Rightarrow> irc_network_state \<Rightarrow> irc_line \<Rightarrow> irc_network_state res" where
  "handle_banlist_entry now s l =
     with_channel s l 2 (\<lambda>c.
       bind_res (arg l 3) (\<lambda>a3.
       bind_res (arg l 4) (\<lambda>a4.
       bind_res (if a4 = None then Inr 0
                 else bind_res (arg l 5) (\<lambda>a5.
                   Inr (case a5 of None \<Rightarrow> 0 | Some t \<Rightarrow> atol t))) (\<lambda>at.
       upd_channel s c (\<lambda>ch.
         (put_nicklist (CHR ''b'')
            (nicklist_add_entry (restarted_nicklist (c_banlist_started ch) (CHR ''b'') ch) a3 a4 at)
            ch)\<lparr>c_banlist_started := True\<rparr>)))))"

definition handle_end_banlist ::
    "int \<Rightarrow> irc_network_state \<Rightarrow> irc_line \<Rightarrow> irc_network_state res" where
  "handle_end_banlist now s l =
     with_channel s l 2 (\<lambda>c.
       upd_channel s c (\<lambda>ch. end_nicklist (CHR ''b'') (ch\<lparr>c_banlist_started := False\<rparr>)))"

section \<open>Users: WHO, QUIT, NICK, PRIVMSG, USERHOST\<close>

definition handle_whoreply :: "int \<Rightarrow> irc_network_state \<Rightarrow> irc_line \<Rightarrow> irc_network_state res" where
  "handle_whoreply now s l =
     bind_res (arg l 6) (\<lambda>a6.
     bind_res (find_add_network_nick s a6) (\<lambda>(r, s1).
     bind_res (get_nick s1 r) (\<lambda>nn.
     bind_res (arg l 3) (\<lambda>a3.
     bind_res (arg l 4) (\<lambda>a4.
     bind_res (network_nick_set_data nn a6 a3 a4) (\<lambda>nn1.
     bind_res (sarg l 8) (\<lambda>a8.
     bind_res (arg l 5) (\<lambda>a5.
     let hops = fst (strtol 10 a8);
         rest = snd (strtol 10 a8);
         fullname = (if first_char rest = CHR '' '' then tl rest else rest);
         nn2 = nn1\<lparr>nn_hops := to_int32 hops,
                   nn_fullname := (case nn_fullname nn1 of None \<Rightarrow> Some fullname | Some f \<Rightarrow> Some f),
                   nn_server := a5\<rparr>;
         s2 = set_nick_obj s1 r nn2 in
     with_channel s2 l 2 (\<lambda>c.
     bind_res (find_channel_nick s2 c (nn_nick nn2)) (\<lambda>rn.
     case rn of
       None \<Rightarrow> Inr s2
     | Some a \<Rightarrow>
         bind_res (arg l 7) (\<lambda>a7.
         bind_res (live (s_cn s2 a)) (\<lambda>cn.
         Inr (set_cn_obj s2 a (cn\<lparr>cn_last_flags := a7, cn_last_update := now\<rparr>))))))))))))))"

definition handle_end_who :: "int \<Rightarrow> irc_network_state \<Rightarrow> irc_line \<Rightarrow> irc_network_state res" where
  "handle_end_who now s l = Inr s"

definition handle_nowaway :: "int \<Rightarrow> irc_network_state \<Rightarrow> irc_line \<Rightarrow> irc_network_state res" where
  "handle_nowaway now s l = Inr (s\<lparr>s_is_away := True\<rparr>)"

definition handle_unaway :: "int \<Rightarrow> irc_network_state \<Rightarrow> irc_line \<Rightarrow> irc_network_state res" where
  "handle_unaway now s l = Inr (s\<lparr>s_is_away := False\<rparr>)"

definition handle_quit :: "int \<Rightarrow> irc_network_state \<Rightarrow> irc_line \<Rightarrow> irc_network_state res" where
  "handle_quit now s l =
     check_origin s l
       (bind_res (line_get_nick l) (\<lambda>nick.
        bind_res (find_network_nick s (Some nick)) (\<lambda>r.
        case r of
          None \<Rightarrow> Inr s
        | Some x \<Rightarrow> if x = Me then free_own_channel_nicks s else free_network_nick x s)))"

definition handle_privmsg :: "int \<Rightarrow> irc_network_state \<Rightarrow> irc_line \<Rightarrow> irc_network_state res" where
  "handle_privmsg now s l =
     check_origin s l
       (bind_res (sarg l 1) (\<lambda>a1.
        bind_res (is_me s a1) (\<lambda>me.
        if \<not> me then Inr s
        else
          bind_res (line_get_nick l) (\<lambda>nick.
          bind_res (find_add_network_nick s (Some nick)) (\<lambda>(r, s1).
          upd_nick s1 r (\<lambda>nn. nn\<lparr>nn_query := True\<rparr>))))))"

definition handle_nick :: "int \<Rightarrow> irc_network_state \<Rightarrow> irc_line \<Rightarrow> irc_network_state res" where
  "handle_nick now s l =
     check_origin s l
       (bind_res (line_get_nick l) (\<lambda>nick.
        bind_res (find_add_network_nick s (Some nick)) (\<lambda>(r, s1).
        bind_res (sarg l 1) (\<lambda>a1.
        upd_nick s1 r (\<lambda>nn. network_nick_set_nick nn a1)))))"

text \<open>
  A USERHOST reply: each word \<open>nick=+user@host\<close>. The sign after the equals sign is skipped
  unread, so a word that ends there is read past its end.
\<close>

definition userhost_one :: "string \<Rightarrow> irc_network_state \<Rightarrow> irc_network_state res" where
  "userhost_one user s =
     (let tmp = g_strsplit user (CHR ''='') 2 in
      if length tmp > 1 then
        bind_res (find_add_network_nick s (Some (tmp ! 0))) (\<lambda>(r, s1).
        bind_res (guard_res (tmp ! 1 \<noteq> []) OutOfBounds) (\<lambda>_.
        set_nick_hostmask s1 r (Some (tmp ! 0 @ ''!'' @ tl (tmp ! 1)))))
      else Inr s)"

definition handle_302 :: "int \<Rightarrow> irc_network_state \<Rightarrow> irc_line \<Rightarrow> irc_network_state res" where
  "handle_302 now s l =
     bind_res (sarg l 2) (\<lambda>a2.
     fold_res userhost_one (g_strsplit (g_strstrip a2) (CHR '' '') 0) s)"

section \<open>Modes\<close>

text \<open>\<open>channel_state_change_mode\<close> returns how many arguments it used, or \<open>-1\<close> to give up.\<close>

definition channel_state_change_mode ::
    "int \<Rightarrow> irc_network_state \<Rightarrow> nick_ref option \<Rightarrow> addr \<Rightarrow> bool \<Rightarrow> char \<Rightarrow> string option \<Rightarrow>
     (int \<times> irc_network_state) res" where
  "channel_state_change_mode now s by_ref c st m opt_arg =
     bind_res (network_chanmode_type m (Some (s_info s))) (\<lambda>cmt.
     if cmt = CHANMODE_NICKLIST then
       (case opt_arg of
          None \<Rightarrow> Inr (- 1, s)
        | Some a \<Rightarrow>
            bind_res (get_channel s c) (\<lambda>ch.
            bind_res (guard_res (uchar m < MAXMODES) OutOfBounds) (\<lambda>_.
            if c_chanmode_nicklist_present ch m then
              (if st then
                 bind_res (case by_ref of
                             None \<Rightarrow> Inr None
                           | Some r \<Rightarrow> bind_res (get_nick s r) (\<lambda>nn. Inr (nn_nick nn))) (\<lambda>by_nick.
                 bind_res (upd_channel s c (\<lambda>ch. put_nicklist m
                   (nicklist_add_entry (c_chanmode_nicklist ch m) (Some a) by_nick now) ch)) (\<lambda>s1.
                 Inr (1, s1)))
               else
                 bind_res (nicklist_remove_entry (c_chanmode_nicklist ch m) a) (\<lambda>(_, nl).
                 bind_res (upd_channel s c (put_nicklist m nl)) (\<lambda>s1.
                 Inr (1, s1))))
            else Inr (1, s))))
     else if cmt = CHANMODE_OPT_SETTING \<or> cmt = CHANMODE_SETTING then
       (if st then
          (case opt_arg of
             None \<Rightarrow> Inr (- 1, s)
           | Some a \<Rightarrow>
               bind_res (guard_res (uchar m < MAXMODES) OutOfBounds) (\<lambda>_.
               bind_res (upd_channel s c
                 (\<lambda>ch. ch\<lparr>c_chanmode_option := (c_chanmode_option ch)(m := Some a)\<rparr>)) (\<lambda>s1.
               Inr (1, s1))))
        else
          bind_res (guard_res (uchar m < MAXMODES) OutOfBounds) (\<lambda>_.
          bind_res (upd_channel s c
            (\<lambda>ch. ch\<lparr>c_chanmode_option := (c_chanmode_option ch)(m := None)\<rparr>)) (\<lambda>s1.
          Inr (0, s1))))
     else
       bind_res (is_prefix_mode (s_info s) m) (\<lambda>pm.
       if pm then
         (case opt_arg of
            None \<Rightarrow> Inr (- 1, s)
          | Some a \<Rightarrow>
              bind_res (find_channel_nick s c (Some a)) (\<lambda>rn.
              case rn of
                None \<Rightarrow> Inr (- 1, s)
              | Some n \<Rightarrow>
                  bind_res (live (s_cn s n)) (\<lambda>cn.
                  bind_res (modes_change_mode (cn_modes cn) st m) (\<lambda>(_, ms).
                  Inr (1, set_cn_obj s n (cn\<lparr>cn_modes := ms\<rparr>))))))
       else if cmt = CHANMODE_BOOL then
         bind_res (get_channel s c) (\<lambda>ch.
         bind_res (modes_change_mode (c_modes ch) st m) (\<lambda>(_, ms).
         bind_res (upd_channel s c (\<lambda>ch. ch\<lparr>c_modes := ms\<rparr>)) (\<lambda>s1.
         Inr (0, s1))))
       else Inr (1, s)))"

text \<open>The loop over the mode string; \<open>i\<close> is the index of the next argument.\<close>

fun channel_mode_loop ::
    "int \<Rightarrow> irc_line \<Rightarrow> nick_ref option \<Rightarrow> addr \<Rightarrow> bool \<Rightarrow> nat \<Rightarrow> string \<Rightarrow>
     irc_network_state \<Rightarrow> irc_network_state res" where
  "channel_mode_loop now l by_ref c t i [] s = Inr s"
| "channel_mode_loop now l by_ref c t i (m # ms) s =
     (if m = NUL then Inr s
      else if m = CHR ''+'' then channel_mode_loop now l by_ref c True i ms s
      else if m = CHR ''-'' then channel_mode_loop now l by_ref c False i ms s
      else
        bind_res (arg l i) (\<lambda>a.
        bind_res (channel_state_change_mode now s by_ref c t m a) (\<lambda>(ret, s1).
        if ret = - 1 then Inr s1
        else
          bind_res (guard_res (\<not> ret > 1) AssertFail) (\<lambda>_.
          channel_mode_loop now l by_ref c t (if a \<noteq> None then i + nat ret else i) ms s1))))"

fun user_mode_loop :: "bool \<Rightarrow> string \<Rightarrow> modes \<Rightarrow> modes res" where
  "user_mode_loop t [] ar = Inr ar"
| "user_mode_loop t (m # ms) ar =
     (if m = NUL then Inr ar
      else if m = CHR ''+'' then user_mode_loop True ms ar
      else if m = CHR ''-'' then user_mode_loop False ms ar
      else bind_res (modes_change_mode ar t m) (\<lambda>(_, ar'). user_mode_loop t ms ar'))"

definition handle_mode :: "int \<Rightarrow> irc_network_state \<Rightarrow> irc_line \<Rightarrow> irc_network_state res" where
  "handle_mode now s l =
     bind_res (arg l 1) (\<lambda>a1.
     bind_res (is_channelname a1 (s_info s)) (\<lambda>chan.
     if chan then
       with_channel s l 1 (\<lambda>c.
         bind_res (line_get_nick l) (\<lambda>by_name.
         bind_res (find_network_nick s (Some by_name)) (\<lambda>by_ref.
         bind_res (sarg l 2) (\<lambda>a2.
         channel_mode_loop now l by_ref c True 3 a2 s))))
     else
       bind_res (find_add_network_nick s a1) (\<lambda>(r, s1).
       bind_res (sarg l 2) (\<lambda>a2.
       bind_res (get_nick s1 r) (\<lambda>nn.
       bind_res (user_mode_loop True a2 (nn_modes nn)) (\<lambda>ms.
       upd_nick s1 r (\<lambda>nn. nn\<lparr>nn_modes := ms\<rparr>)))))))"

text \<open>The 221 reply: the code passes argument 1, the nick, to \<open>string2mode\<close>.\<close>

definition handle_umodeis :: "int \<Rightarrow> irc_network_state \<Rightarrow> irc_line \<Rightarrow> irc_network_state res" where
  "handle_umodeis now s l =
     bind_res (arg l 1) (\<lambda>a1.
     bind_res (string2mode a1) (\<lambda>(_, ms).
     upd_nick s Me (\<lambda>nn. nn\<lparr>nn_modes := ms\<rparr>)))"

definition handle_324 :: "int \<Rightarrow> irc_network_state \<Rightarrow> irc_line \<Rightarrow> irc_network_state res" where
  "handle_324 now s l =
     with_channel s l 2 (\<lambda>c.
       bind_res (arg l 3) (\<lambda>a3.
       bind_res (string2mode a3) (\<lambda>(_, ms).
       upd_channel s c (\<lambda>ch. ch\<lparr>c_modes := ms, c_mode_received := True\<rparr>))))"

definition handle_329 :: "int \<Rightarrow> irc_network_state \<Rightarrow> irc_line \<Rightarrow> irc_network_state res" where
  "handle_329 now s l =
     with_channel s l 2 (\<lambda>c.
       bind_res (sarg l 3) (\<lambda>a3. upd_channel s c (\<lambda>ch. ch\<lparr>c_creation_time := atol a3\<rparr>)))"

section \<open>Registration replies\<close>

definition handle_001 :: "int \<Rightarrow> irc_network_state \<Rightarrow> irc_line \<Rightarrow> irc_network_state res" where
  "handle_001 now s l =
     bind_res (arg l 1) (\<lambda>a1. upd_nick s Me (\<lambda>nn. nn\<lparr>nn_nick := a1\<rparr>))"

definition handle_004 :: "int \<Rightarrow> irc_network_state \<Rightarrow> irc_line \<Rightarrow> irc_network_state res" where
  "handle_004 now s l =
     bind_res (arg l 4) (\<lambda>a4.
     bind_res (arg l 5) (\<lambda>a5.
     bind_res (arg l 2) (\<lambda>a2.
     Inr (s\<lparr>s_info := (s_info s)\<lparr>ni_supported_user_modes := a4, ni_supported_channel_modes := a5,
                                  ni_server := a2\<rparr>\<rparr>))))"

definition handle_005 :: "int \<Rightarrow> irc_network_state \<Rightarrow> irc_line \<Rightarrow> irc_network_state res" where
  "handle_005 now s l =
     bind_res (info_handle_005 (s_info s) l) (\<lambda>i. Inr (s\<lparr>s_info := i\<rparr>))"

section \<open>Dispatch\<close>

type_synonym handler = "int \<Rightarrow> irc_network_state \<Rightarrow> irc_line \<Rightarrow> irc_network_state res"

definition irc_commands :: "(string \<times> nat \<times> handler) list" where
  "irc_commands =
     [(''JOIN'', 1, handle_join), (''PART'', 1, handle_part), (''KICK'', 2, handle_kick),
      (''QUIT'', 0, handle_quit), (''TOPIC'', 2, handle_topic), (''NICK'', 1, handle_nick),
      (''PRIVMSG'', 2, handle_privmsg), (''MODE'', 2, handle_mode), (''001'', 1, handle_001),
      (''004'', 5, handle_004), (''005'', 3, handle_005), (''221'', 1, handle_umodeis),
      (''302'', 2, handle_302), (''324'', 3, handle_324), (''329'', 3, handle_329),
      (''332'', 3, handle_332), (''333'', 3, handle_333), (''331'', 1, handle_no_topic),
      (''353'', 4, handle_namreply), (''366'', 2, handle_end_names),
      (''367'', 2, handle_banlist_entry), (''368'', 2, handle_end_banlist),
      (''346'', 2, handle_invitelist_entry), (''347'', 2, handle_end_invitelist),
      (''348'', 2, handle_exceptlist_entry), (''349'', 2, handle_end_exceptlist),
      (''352'', 8, handle_whoreply), (''315'', 1, handle_end_who), (''306'', 1, handle_nowaway),
      (''305'', 1, handle_unaway)]"

text \<open>
  The first command of the table with the name of the line. It needs the arguments 0 to
  \<open>min_args\<close>: the scan for a NULL among them stops at the terminator, position \<open>argc\<close>.
\<close>

definition state_handle_data ::
    "int \<Rightarrow> irc_network_state \<Rightarrow> irc_line \<Rightarrow> (bool \<times> irc_network_state) res" where
  "state_handle_data now s l =
     (if args l = [] then Inr (False, s)
      else case List.find (\<lambda>(command, _, _). base_eq command (args l ! 0)) irc_commands of
        None \<Rightarrow> Inr (False, s)
      | Some (_, min_args, handler) \<Rightarrow>
          if argc l \<le> min_args then Inr (False, s)
          else bind_res (handler now s l) (\<lambda>s'. Inr (True, s')))"

text \<open>
  The USERHOST handler trims argument 2 of the line in place, so the line that is passed on
  afterwards is this one.
\<close>

definition state_handle_data_line :: "irc_line \<Rightarrow> irc_line" where
  "state_handle_data_line l =
     (if args l \<noteq> [] \<and> base_eq ''302'' (args l ! 0) \<and> argc l > 2
      then l\<lparr>args := (args l)[2 := g_strstrip (args l ! 2)]\<rparr> else l)"

definition line_from_nick :: "irc_network_info \<Rightarrow> irc_line \<Rightarrow> string option \<Rightarrow> bool res" where
  "line_from_nick info l nick =
     bind_res (line_get_nick l) (\<lambda>line_nick.
     bind_res (asserted nick) (\<lambda>n. Inr (irccmp (Some info) n line_nick = 0)))"

end
