(* ===== verification/State_Safety.thy ===== *)
theory State_Safety
  imports State_Handlers
begin

text \<open>
  Memory safety of the network state: no line, well-formed or not, makes a handler read an
  object that was freed or loop forever, and every handler keeps the invariant of the
  object graph. The step relation \<open>tracks\<close> and its reachable states carry this to any
  sequence of lines.
\<close>

section \<open>Steps that touch no object\<close>

lemma vcg_args [vcg]:
  "OutOfBounds \<notin> F \<Longrightarrow> (\<And>a. safe F P (f a)) \<Longrightarrow> safe F P (bind_res (arg l i) f)"
  "OutOfBounds \<notin> F \<Longrightarrow> NullDeref \<notin> F \<Longrightarrow> (\<And>a. safe F P (g a)) \<Longrightarrow> safe F P (bind_res (sarg l i) g)"
  "AssertFail \<notin> F \<Longrightarrow> (\<And>a. safe F P (g a)) \<Longrightarrow> safe F P (bind_res (line_get_nick l) g)"
  by (auto simp: arg_def sarg_def line_get_nick_def guard_res_def deref_def split: option.splits)

lemma vcg_is_me [vcg]:
  "AssertFail \<notin> F \<Longrightarrow> (\<And>b. safe F P (f b)) \<Longrightarrow> safe F P (bind_res (is_me s nick) f)"
  by (auto simp: is_me_def asserted_def split: option.splits)

lemma chanmode_scan_safe: "NullDeref \<notin> F \<Longrightarrow> safe F (\<lambda>_. True) (chanmode_scan gs ts m)"
  by (induction gs ts m rule: chanmode_scan.induct) auto

lemma find_nicklist_entry_safe: "NullDeref \<notin> F \<Longrightarrow> safe F (\<lambda>_. True) (find_nicklist_entry nl h)"
  by (induction nl) (auto intro!: vcg intro: safe_bind)

lemma string2mode_loop_safe: "OutOfBounds \<notin> F \<Longrightarrow> safe F (\<lambda>_. True) (string2mode_loop cs a ar)"
  by (induction cs a ar rule: string2mode_loop.induct) (auto intro!: vcg)

lemma user_mode_loop_safe: "OutOfBounds \<notin> F \<Longrightarrow> safe F (\<lambda>_. True) (user_mode_loop t ms ar)"
  by (induction t ms ar rule: user_mode_loop.induct) (auto intro!: vcg)

lemma vcg_mode_strings [vcg]:
  "OutOfBounds \<notin> F \<Longrightarrow> (\<And>r. safe F P (f r)) \<Longrightarrow> safe F P (bind_res (string2mode m) f)"
  "OutOfBounds \<notin> F \<Longrightarrow> (\<And>r. safe F P (g r)) \<Longrightarrow> safe F P (bind_res (user_mode_loop t ms ar) g)"
  using string2mode_loop_safe [of F] user_mode_loop_safe [of F]
  by (auto simp: string2mode_def intro!: vcg safe_bind_any split: option.splits)

lemma vcg_info [vcg]:
  "AssertFail \<notin> F \<Longrightarrow> (\<And>r. safe F P (f r)) \<Longrightarrow> safe F P (bind_res (is_channelname n info) f)"
  "AssertFail \<notin> F \<Longrightarrow> (\<And>r. safe F P (f r)) \<Longrightarrow> safe F P (bind_res (is_prefix_mode info m) f)"
  "NullDeref \<notin> F \<Longrightarrow> (\<And>r. safe F P (g r)) \<Longrightarrow> safe F P (bind_res (network_chanmode_type m i) g)"
  "NullDeref \<notin> F \<Longrightarrow> (\<And>r. safe F P (h r)) \<Longrightarrow> safe F P (bind_res (nicklist_remove_entry nl a) h)"
  using chanmode_scan_safe [of F] find_nicklist_entry_safe [of F]
  by (auto simp: is_channelname_def is_prefix_mode_def get_prefix_by_mode_def network_chanmode_type_def
      nicklist_remove_entry_def Let_def guard_res_def intro!: vcg safe_bind_any split: option.splits)

lemma parse_pair_safe:
  "safe heap_faults (\<lambda>_. True) (network_info_parse i p)"
proof -
  have num: "safe heap_faults (\<lambda>_. True) (parse_num v u j)" for v u j
    by (auto simp: parse_num_def split: option.splits)
  have vals: "safe heap_faults (\<lambda>_. True) (parse_CASEMAPPING v j)"
    "safe heap_faults (\<lambda>_. True) (parse_CHANMODES v j)" "safe heap_faults (\<lambda>_. True) (parse_EXTBAN v j)"
    "safe heap_faults (\<lambda>_. True) (parse_PREFIX v j)" for v j
    by (auto simp: parse_CASEMAPPING_def parse_CHANMODES_def parse_EXTBAN_def parse_PREFIX_def Let_def
        split: option.splits list.splits)
  have "safe heap_faults (\<lambda>_. True) (network_info_parse_tail k v j)" for k v j
    unfolding network_info_parse_tail_def by (intro safe_if vals) (auto split: option.splits)
  then have "safe heap_faults (\<lambda>_. True) (network_info_parse_pair k v j)" for k v j
    unfolding network_info_parse_pair_def by (intro safe_if vals num) auto
  then show ?thesis by (auto simp: network_info_parse_def split: option.splits)
qed

lemma info_handle_005_safe: "safe heap_faults (\<lambda>_. True) (info_handle_005 i l)"
  unfolding info_handle_005_def by (intro vcg safe_fold_res) (auto intro: parse_pair_safe)

section \<open>Combinators of the handlers\<close>

lemma check_origin_safe [vcg]:
  "P s \<Longrightarrow> safe F P k \<Longrightarrow> safe F P (check_origin s l k)"
  by (simp add: check_origin_def)

lemma with_channel_safe [vcg]:
  assumes "wf_graph s" "P s" "\<And>c. live_ch s c \<Longrightarrow> safe heap_faults P (k c)"
  shows "safe heap_faults P (with_channel s l i k)"
  unfolding with_channel_def by (intro vcg assms(1)) (use assms(2,3) in auto)

lemma set_hostmask_keeps [simp]:
  "nn_channel_nicks (the (snd (network_nick_set_hostmask (Some nn) hm))) = nn_channel_nicks nn"
  "nn_query (the (snd (network_nick_set_hostmask (Some nn) hm))) = nn_query nn"
  by (auto simp: network_nick_set_hostmask_def Let_def split: option.splits)

lemma set_nick_keeps [simp]:
  "nn_channel_nicks (network_nick_set_nick nn a) = nn_channel_nicks nn"
  "nn_query (network_nick_set_nick nn a) = nn_query nn"
  by (auto simp: network_nick_set_nick_def)

lemma put_nicklist_keeps [simp]:
  "c_nicks (put_nicklist m nl ch) = c_nicks ch" "c_network (put_nicklist m nl ch) = c_network ch"
  "c_nicks (end_nicklist m ch) = c_nicks ch" "c_network (end_nicklist m ch) = c_network ch"
  by (simp_all add: put_nicklist_def end_nicklist_def)

lemma cn_nick_live:
  assumes "wf_graph s" "s_cn s a = Some cn"
  shows "live_nick s (cn_global_nick cn)"
  using assms by (auto elim: wf_graph_cn)

section \<open>Every handler\<close>

lemma join_one_safe: "wf_graph s \<Longrightarrow> safe heap_faults wf_graph (join_one l nick chan s)"
  unfolding join_one_def set_nick_hostmask_def
  by (intro vcg) (auto dest: cn_nick_live)

lemma handle_join_safe: "wf_graph s \<Longrightarrow> safe heap_faults wf_graph (handle_join now s l)"
  unfolding handle_join_def by (intro vcg safe_fold_res join_one_safe) auto

lemma part_one_safe: "wf_graph s \<Longrightarrow> safe heap_faults wf_graph (part_one nick chan s)"
  unfolding part_one_def
  by (intro vcg) (auto split: option.split intro!: vcg)

lemma handle_part_safe: "wf_graph s \<Longrightarrow> safe heap_faults wf_graph (handle_part now s l)"
  unfolding handle_part_def by (intro vcg safe_fold_res part_one_safe) auto

lemma kick_one_safe: "wf_graph s \<Longrightarrow> safe heap_faults wf_graph (kick_one cn s)"
  unfolding kick_one_def by (intro vcg) auto

lemma handle_kick_safe: "wf_graph s \<Longrightarrow> safe heap_faults wf_graph (handle_kick now s l)"
  unfolding handle_kick_def by (intro vcg safe_fold_res kick_one_safe) auto

lemma topic_handlers_safe:
  assumes "wf_graph s"
  shows "safe heap_faults wf_graph (handle_topic now s l)"
    "safe heap_faults wf_graph (handle_332 now s l)"
    "safe heap_faults wf_graph (handle_333 now s l)"
    "safe heap_faults wf_graph (handle_no_topic now s l)"
  unfolding handle_topic_def handle_332_def handle_333_def handle_no_topic_def
  by ((intro vcg assms); (use assms in auto))+

lemma add_names_safe:
  assumes "wf_graph s" "live_ch s c"
  shows "safe heap_faults wf_graph (fold_res (add_name c) names s)"
proof -
  have "safe heap_faults (\<lambda>s. wf_graph s \<and> live_ch s c) (add_name c n s)"
    if "wf_graph s \<and> live_ch s c" for n s
    unfolding add_name_def using that by (intro vcg) auto
  then have "safe heap_faults (\<lambda>s. wf_graph s \<and> live_ch s c) (fold_res (add_name c) names s)"
    using assms by (intro safe_fold_res) auto
  then show ?thesis by (rule safe_mono) auto
qed

lemma names_handlers_safe:
  assumes "wf_graph s"
  shows "safe heap_faults wf_graph (handle_namreply now s l)"
    "safe heap_faults wf_graph (handle_end_names now s l)"
  unfolding handle_namreply_def handle_end_names_def
  by ((intro vcg add_names_safe assms); (use assms in auto))+

lemma nicklist_handlers_safe:
  assumes "wf_graph s"
  shows "safe heap_faults wf_graph (handle_invitelist_entry now s l)"
    "safe heap_faults wf_graph (handle_end_invitelist now s l)"
    "safe heap_faults wf_graph (handle_exceptlist_entry now s l)"
    "safe heap_faults wf_graph (handle_end_exceptlist now s l)"
    "safe heap_faults wf_graph (handle_banlist_entry now s l)"
    "safe heap_faults wf_graph (handle_end_banlist now s l)"
  unfolding handle_invitelist_entry_def handle_end_invitelist_def handle_exceptlist_entry_def
    handle_end_exceptlist_def handle_banlist_entry_def handle_end_banlist_def
  by ((intro vcg assms); (use assms in auto))+

lemma vcg_set_data [vcg]:
  assumes "AssertFail \<notin> F"
    and "\<And>m. nn_channel_nicks m = nn_channel_nicks n \<Longrightarrow> nn_query m = nn_query n \<Longrightarrow> safe F P (f m)"
  shows "safe F P (bind_res (network_nick_set_data n a b c) f)"
proof (cases "network_nick_set_data n a b c")
  case (Inr m)
  then show ?thesis using set_data_keeps [OF Inr] assms(2) by simp
qed (use assms(1) in \<open>auto simp: network_nick_set_data_def Let_def guard_res_def split: if_splits\<close>)

lemma handle_whoreply_safe:
  assumes "wf_graph s"
  shows "safe heap_faults wf_graph (handle_whoreply now s l)"
  unfolding handle_whoreply_def
  by (intro vcg assms) (auto intro!: wf_set_nick_obj wf_set_cn_obj dest: wf_graph_me)

lemma user_handlers_safe:
  assumes "wf_graph s"
  shows "safe heap_faults wf_graph (handle_quit now s l)"
    "safe heap_faults wf_graph (handle_privmsg now s l)"
    "safe heap_faults wf_graph (handle_nick now s l)"
    "safe heap_faults wf_graph (handle_nowaway now s l)"
    "safe heap_faults wf_graph (handle_unaway now s l)"
    "safe heap_faults wf_graph (handle_end_who now s l)"
  unfolding handle_quit_def handle_privmsg_def handle_nick_def handle_nowaway_def handle_unaway_def
    handle_end_who_def
  by ((intro vcg assms wf_intros); (use assms in auto))+

lemma userhost_one_safe: "wf_graph s \<Longrightarrow> safe heap_faults wf_graph (userhost_one u s)"
  unfolding userhost_one_def set_nick_hostmask_def by (intro vcg) auto

lemma handle_302_safe: "wf_graph s \<Longrightarrow> safe heap_faults wf_graph (handle_302 now s l)"
  unfolding handle_302_def by (intro vcg safe_fold_res userhost_one_safe) auto

text \<open>The mode change keeps the channel, and the user who made it, alive for the next one.\<close>

definition mode_inv :: "nick_ref option \<Rightarrow> addr \<Rightarrow> irc_network_state \<Rightarrow> bool" where
  "mode_inv by_ref c s \<longleftrightarrow> wf_graph s \<and> live_ch s c \<and> (\<forall>r. by_ref = Some r \<longrightarrow> live_nick s r)"

lemma channel_state_change_mode_safe:
  assumes "mode_inv by_ref c s"
  shows "safe heap_faults (\<lambda>(_, s'). mode_inv by_ref c s')
    (channel_state_change_mode now s by_ref c st m opt_arg)"
proof -
  have wf: "wf_graph s" and c: "live_ch s c" and by_ref: "\<And>r. by_ref = Some r \<Longrightarrow> live_nick s r"
    using assms by (auto simp: mode_inv_def)
  have by_nick: "safe heap_faults (\<lambda>_. True) (case by_ref of None \<Rightarrow> Inr None
      | Some r \<Rightarrow> bind_res (get_nick s r) (\<lambda>nn. Inr (nn_nick nn)))"
    using by_ref by (auto intro!: vcg split: option.split)
  show ?thesis
    unfolding channel_state_change_mode_def
    by (intro vcg wf c safe_bind_any [OF by_nick])
      (use c by_ref wf in \<open>auto simp: mode_inv_def intro!: wf_set_cn_obj\<close>)
qed

lemma channel_mode_loop_safe:
  "mode_inv by_ref c s \<Longrightarrow> safe heap_faults wf_graph (channel_mode_loop now l by_ref c t i ms s)"
proof (induction now l by_ref c t i ms s rule: channel_mode_loop.induct)
  case (2 now l by_ref c t i m ms s)
  show ?case
    unfolding channel_mode_loop.simps
    by (intro vcg safe_bind [OF channel_state_change_mode_safe [OF "2.prems"]])
      (use 2 in \<open>auto simp: mode_inv_def\<close>)
qed (simp add: mode_inv_def)

lemma mode_handlers_safe:
  assumes "wf_graph s"
  shows "safe heap_faults wf_graph (handle_mode now s l)"
    "safe heap_faults wf_graph (handle_umodeis now s l)"
    "safe heap_faults wf_graph (handle_324 now s l)"
    "safe heap_faults wf_graph (handle_329 now s l)"
  unfolding handle_mode_def handle_umodeis_def handle_324_def handle_329_def
  by ((intro vcg assms channel_mode_loop_safe); (use assms in \<open>auto simp: mode_inv_def\<close>))+

lemma registration_handlers_safe:
  assumes "wf_graph s"
  shows "safe heap_faults wf_graph (handle_001 now s l)"
    "safe heap_faults wf_graph (handle_004 now s l)"
    "safe heap_faults wf_graph (handle_005 now s l)"
  unfolding handle_001_def handle_004_def handle_005_def
  by ((intro vcg safe_bind_any [OF info_handle_005_safe] wf_intros assms); (use assms in auto))+

lemmas handlers_safe = handle_join_safe handle_part_safe handle_kick_safe topic_handlers_safe
  names_handlers_safe nicklist_handlers_safe handle_whoreply_safe user_handlers_safe handle_302_safe
  mode_handlers_safe registration_handlers_safe

section \<open>Any line, any sequence of lines\<close>

lemma irc_commands_safe:
  assumes "wf_graph s" "(command, n, h) \<in> set irc_commands"
  shows "safe heap_faults wf_graph (h now s l)"
  using assms(2) handlers_safe [OF assms(1)] by (auto simp: irc_commands_def)

lemma state_handle_data_safe:
  assumes "wf_graph s"
  shows "safe heap_faults (\<lambda>(_, s'). wf_graph s') (state_handle_data now s l)"
  unfolding state_handle_data_def
  by (intro vcg safe_bind [OF irc_commands_safe [OF assms]])
    (use assms in \<open>auto dest: find_Some_iff_in\<close>)

text \<open>
  One step of the tracker: a line is handled without a fault. \<open>reachable\<close> are the states
  that a fresh state gets to by handling lines.
\<close>

inductive tracks :: "irc_network_state \<Rightarrow> irc_network_state \<Rightarrow> bool" where
  track: "state_handle_data now s l = Inr (b, s') \<Longrightarrow> tracks s s'"

inductive reachable :: "irc_network_state \<Rightarrow> bool" where
  init: "network_state_init nick username hostname = Inr s \<Longrightarrow> reachable s"
| step: "reachable s \<Longrightarrow> tracks s s' \<Longrightarrow> reachable s'"

inductive_simps tracks_iff: "tracks s s'"

lemma reachable_wf: "reachable s \<Longrightarrow> wf_graph s"
proof (induction rule: reachable.induct)
  case (init nick username hostname s)
  then show ?case using wf_network_state_init [of nick username hostname] by simp
next
  case (step s s')
  then obtain now l b where "state_handle_data now s l = Inr (b, s')" by (auto simp: tracks_iff)
  then show ?case using state_handle_data_safe [OF step.IH, of now l] by simp
qed

end
