(* ===== verification/State_Spec.thy ===== *)
theory State_Spec
  imports State_Safety
begin

text \<open>
  What the tracker promises, beyond the integrity of its graph: lookups find what was added,
  a JOIN line puts the user on the channel, PART, KICK and QUIT take exactly the named user
  off. The theorems show that the handlers return, for users whose nicks are set.
\<close>

section \<open>Lookups as searches\<close>

definition named :: "irc_network_state \<Rightarrow> bool" where
  "named s \<longleftrightarrow> (\<forall>r nn. lookup_nick s r = Some nn \<longrightarrow> nn_nick nn \<noteq> None)"

lemma namedD: "named s \<Longrightarrow> lookup_nick s r = Some nn \<Longrightarrow> \<exists>n. nn_nick nn = Some n"
  unfolding named_def by simp

lemma wf_next_free:
  assumes "wf_graph s"
  shows "s_ch s (s_next s) = None" "s_nn s (s_next s) = None" "s_cn s (s_next s) = None"
  using wf_graph_bound [OF assms, of "s_next s"] by (fastforce intro: option.exhaust)+

lemma find_by_find:
  "(\<And>a. a \<in> set xs \<Longrightarrow> t a = Inr (p a)) \<Longrightarrow> find_by t xs = Inr (List.find p xs)"
  by (induction xs) auto

text \<open>The name of a channel and the nick of a user, by address.\<close>

definition ch_name :: "irc_network_state \<Rightarrow> addr \<Rightarrow> string" where
  "ch_name s c = c_name (the (s_ch s c))"

definition nick_name :: "irc_network_state \<Rightarrow> nick_ref \<Rightarrow> string" where
  "nick_name s r = the (nn_nick (the (lookup_nick s r)))"

definition cn_nick :: "irc_network_state \<Rightarrow> addr \<Rightarrow> string" where
  "cn_nick s a = nick_name s (cn_global_nick (the (s_cn s a)))"

definition same_name :: "irc_network_state \<Rightarrow> string \<Rightarrow> string \<Rightarrow> bool" where
  "same_name s a b \<longleftrightarrow> irccmp (Some (s_info s)) a b = 0"

interpretation sn: name_eq "same_name s" for s
  by unfold_locales (auto simp: same_name_def irc_eq.eqn_sym intro: irc_eq.eqn_trans)

lemma find_channel_find:
  assumes "wf_graph s"
  shows "find_channel s (Some name) = Inr (List.find (\<lambda>c. same_name s (ch_name s c) name) (s_channels s))"
proof -
  have "channel_named s name c = Inr (same_name s (ch_name s c) name)" if "c \<in> set (s_channels s)" for c
    using that wf_graph_domD(1) [OF assms]
    by (auto simp: channel_named_def get_channel_def ch_name_def same_name_def)
  then show ?thesis by (simp add: find_channel_def find_by_find)
qed

text \<open>A name without a status prefix, as it is looked up on a channel.\<close>

definition bare_nick :: "irc_network_state \<Rightarrow> string \<Rightarrow> bool" where
  "bare_nick s n \<longleftrightarrow> n \<noteq> [] \<and> is_prefix (first_char n) (Some (s_info s)) = Inr False"

lemma find_channel_nick_find:
  assumes "wf_graph s" "named s" "s_ch s c = Some ch" "bare_nick s n"
  shows "find_channel_nick s c (Some n) = Inr (List.find (\<lambda>a. same_name s (cn_nick s a) n) (c_nicks ch))"
proof -
  have net: "c_network ch" using wf_graph_ch(1) [OF assms(1,3)] .
  have "cn_named s (Some (s_info s)) n a = Inr (same_name s (cn_nick s a) n)" if a: "a \<in> set (c_nicks ch)" for a
  proof -
    obtain cn where cn: "s_cn s a = Some cn" using a wf_graph_ch(3) [OF assms(1,3)] by blast
    obtain nn where nn: "lookup_nick s (cn_global_nick cn) = Some nn" using cn_nick_live [OF assms(1) cn] by blast
    obtain nick where "nn_nick nn = Some nick" using namedD [OF assms(2) nn] by blast
    with cn nn show ?thesis
      by (simp add: cn_named_def get_nick_def cn_nick_def nick_name_def same_name_def)
  qed
  then show ?thesis
    using assms(3,4) net by (simp add: find_channel_nick_def get_channel_def bare_nick_def find_by_find)
qed

lemma find_network_nick_find:
  assumes "wf_graph s" "named s"
  shows "find_network_nick s (Some n) =
    Inr (List.find (\<lambda>r. same_name s (nick_name s r) n) (Me # map Nick (s_nicks s)))"
proof -
  obtain mynick where me: "nn_nick (s_me s) = Some mynick"
    using namedD [OF assms(2), of Me "s_me s"] by auto
  have nn: "nn_named s n a = Inr (same_name s (nick_name s (Nick a)) n)" if a: "a \<in> set (s_nicks s)" for a
  proof -
    obtain nn where nn: "s_nn s a = Some nn" using a wf_graph_domD(2) [OF assms(1)] by blast
    obtain nick where "nn_nick nn = Some nick" using namedD [OF assms(2), of "Nick a" nn] nn by auto
    with nn show ?thesis by (simp add: nn_named_def nick_name_def same_name_def)
  qed
  have map: "map_option Nick (List.find (\<lambda>a. P (Nick a)) as) = List.find P (map Nick as)" for P as
    by (induction as) auto
  show ?thesis
    using me by (simp add: find_network_nick_def find_by_find [OF nn] nick_name_def same_name_def flip: map)
qed

section \<open>Channels\<close>

lemma find_add_channel_cases:
  assumes "wf_graph s" "find_add_channel s (Some n) = Inr (c, s')"
  shows "(s' = s \<and> find_channel s (Some n) = Inr (Some c)) \<or>
    (find_channel s (Some n) = Inr None \<and> c = s_next s \<and>
     s' = s\<lparr>s_next := Suc c, s_ch := (s_ch s)(c \<mapsto> (irc_channel_state_new n)\<lparr>c_network := True\<rparr>),
            s_channels := s_channels s @ [c]\<rparr>)"
  using assms(2) by (auto simp: find_add_channel_def Let_def split: option.splits)

lemma find_add_channel_lookup:
  assumes "wf_graph s" "find_add_channel s (Some n) = Inr (c, s')"
  shows "find_channel s' (Some n') =
    (if same_name s n' n then Inr (Some c) else find_channel s (Some n'))"
proof -
  consider "s' = s" "find_channel s (Some n) = Inr (Some c)"
    | "find_channel s (Some n) = Inr None" "c = s_next s"
      "s' = s\<lparr>s_next := Suc c, s_ch := (s_ch s)(c \<mapsto> (irc_channel_state_new n)\<lparr>c_network := True\<rparr>),
            s_channels := s_channels s @ [c]\<rparr>"
    using find_add_channel_cases [OF assms] by blast
  then show ?thesis
  proof cases
    case 1
    then show ?thesis
      using sn.find_cong [of s n' n "ch_name s" "s_channels s"] by (simp add: find_channel_find [OF assms(1)])
  next
    case 2
    have wf': "wf_graph s'"
      using wf_add_channel [OF assms(1), of "(irc_channel_state_new n)\<lparr>c_network := True\<rparr>"] 2
      by (simp add: irc_channel_state_new_def)
    have same: "same_name s' = same_name s" using 2 by (simp add: same_name_def fun_eq_iff)
    have chs: "s_channels s' = s_channels s @ [c]" using 2(3) by simp
    have new: "ch_name s' c = n" using 2 by (simp add: ch_name_def irc_channel_state_new_def)
    have "c \<notin> set (s_channels s)"
      using wf_next_free(1) [OF assms(1)] 2(2) wf_graph_domD(1) [OF assms(1)] by auto
    then have old: "ch_name s' x = ch_name s x" if "x \<in> set (s_channels s)" for x
      using that 2(3) by (auto simp: ch_name_def)
    have find_old: "List.find (\<lambda>x. same_name s (ch_name s' x) m) (s_channels s) =
        List.find (\<lambda>x. same_name s (ch_name s x) m) (s_channels s)" for m
      using old by (intro find_cong) auto
    have none: "List.find (\<lambda>x. same_name s (ch_name s' x) n') (s_channels s) = None" if "same_name s n' n"
      using 2(1) sn.find_cong [OF that, of "ch_name s" "s_channels s"]
      by (simp add: find_old find_channel_find [OF assms(1)])
    show ?thesis
    proof (cases "same_name s n' n")
      case True
      then show ?thesis
        using sn.find_append_new [of s "ch_name s'" n' "s_channels s" c] none new sn.eqn_sym
        by (simp add: find_channel_find [OF wf'] same chs)
    next
      case False
      then have "\<not> same_name s (ch_name s' c) n'" using new sn.eqn_sym by auto
      then show ?thesis
        using sn.find_append_other [of s "ch_name s'" c n' "s_channels s"] False
        by (simp add: find_channel_find [OF wf'] find_channel_find [OF assms(1)] same chs find_old)
    qed
  qed
qed

section \<open>Users and their channel records\<close>

text \<open>What an operation that adds a user leaves as it was.\<close>

definition same_channels :: "irc_network_state \<Rightarrow> irc_network_state \<Rightarrow> bool" where
  "same_channels s s' \<longleftrightarrow>
     s_info s' = s_info s \<and> s_channels s' = s_channels s \<and> (\<forall>c. ch_name s' c = ch_name s c)"

lemma same_channels_find:
  assumes "same_channels s s'" "wf_graph s" "wf_graph s'"
  shows "find_channel s' (Some n) = find_channel s (Some n)"
  using assms(1)
  by (simp add: find_channel_find [OF assms(2)] find_channel_find [OF assms(3)] same_channels_def
      same_name_def)

lemma same_channels_trans [trans]:
  "same_channels s s' \<Longrightarrow> same_channels s' s'' \<Longrightarrow> same_channels s s''"
  by (simp add: same_channels_def)

lemma same_channels_bare: "same_channels s s' \<Longrightarrow> bare_nick s' n = bare_nick s n"
  by (simp add: same_channels_def bare_nick_def)

lemma same_channels_name: "same_channels s s' \<Longrightarrow> same_name s' = same_name s"
  by (simp add: same_channels_def same_name_def fun_eq_iff)

definition grows :: "irc_network_state \<Rightarrow> irc_network_state \<Rightarrow> bool" where
  "grows s s' \<longleftrightarrow>
     (\<forall>a cn. s_cn s a = Some cn \<longrightarrow> s_cn s' a = Some cn) \<and>
     (\<forall>r. live_nick s r \<longrightarrow> live_nick s' r \<and> nick_name s' r = nick_name s r)"

lemma grows_refl [simp]: "grows s s" by (simp add: grows_def)

lemma grows_trans [trans]: "grows s s' \<Longrightarrow> grows s' s'' \<Longrightarrow> grows s s''"
  unfolding grows_def by metis

lemma find_add_network_nick_total:
  assumes "wf_graph s" "named s" "bare_nick s n"
  obtains r s' where "find_add_network_nick s (Some n) = Inr (r, s')" "wf_graph s'" "named s'"
    "s_info s' = s_info s" "s_channels s' = s_channels s" "s_ch s' = s_ch s" "s_cn s' = s_cn s"
    "s_next s \<le> s_next s'" "live_nick s' r" "same_name s (nick_name s' r) n" "grows s s'"
proof (cases "List.find (\<lambda>r. same_name s (nick_name s r) n) (Me # map Nick (s_nicks s))")
  case None
  let ?nd = "network_nick_new\<lparr>nn_nick := Some n, nn_hops := - 1\<rparr>"
  let ?s = "s\<lparr>s_next := Suc (s_next s), s_nn := (s_nn s)(s_next s \<mapsto> ?nd), s_nicks := s_nicks s @ [s_next s]\<rparr>"
  have wf: "wf_graph ?s"
    using wf_add_nick [OF assms(1), of ?nd] by (simp add: network_nick_new_def)
  have look: "lookup_nick ?s r = (if r = Nick (s_next s) then Some ?nd else lookup_nick s r)" for r
    by (cases r) auto
  have nm: "named ?s" using assms(2) unfolding named_def look by auto
  have eq: "find_add_network_nick s (Some n) = Inr (Nick (s_next s), ?s)"
    using None assms(3)
    by (simp add: find_add_network_nick_def find_network_nick_find [OF assms(1,2)] bare_nick_def Let_def)
  have "nick_name ?s (Nick (s_next s)) = n" by (simp add: nick_name_def look)
  moreover have "grows s ?s"
    unfolding grows_def nick_name_def look using wf_next_free(2) [OF assms(1)] by auto
  ultimately show ?thesis
    using that [OF eq wf nm] sn.eqn_refl by (simp add: look)
next
  case (Some r)
  then have "find_add_network_nick s (Some n) = Inr (r, s)"
    by (simp add: find_add_network_nick_def find_network_nick_find [OF assms(1,2)])
  moreover have "live_nick s r" "same_name s (nick_name s r) n"
    using find_Some_iff_in [OF Some] wf_graph_domD(2) [OF assms(1)] by auto
  ultimately show ?thesis using that [of r s] assms by simp
qed

text \<open>Entering a record keeps the names of users and channels.\<close>

lemma link_keeps:
  fixes s a cn ch nn
  defines "s' \<equiv> set_cn_obj (set_nick_obj (set_channel_obj s (cn_channel cn)
       (ch\<lparr>c_nicks := c_nicks ch @ [a]\<rparr>)) (cn_global_nick cn)
       (nn\<lparr>nn_channel_nicks := nn_channel_nicks nn @ [a]\<rparr>)) a cn"
  assumes "s_ch s (cn_channel cn) = Some ch" "lookup_nick s (cn_global_nick cn) = Some nn"
  shows "nick_name s' r = nick_name s r" "ch_name s' c = ch_name s c" "named s \<Longrightarrow> named s'"
    "same_channels s s'" "s_cn s a = None \<Longrightarrow> grows s s'"
proof -
  show nick: "nick_name s' r = nick_name s r" for r
    using assms(3) by (simp add: s'_def nick_name_def)
  show ch: "ch_name s' c = ch_name s c" for c
    using assms(2) by (simp add: s'_def ch_name_def)
  show "same_channels s s'" using ch by (simp add: same_channels_def s'_def)
  show "named s'" if "named s"
    using that namedD [OF that assms(3)] by (auto simp: named_def s'_def)
  show "grows s s'" if "s_cn s a = None"
    using that nick by (auto simp: grows_def s'_def)
qed

lemma find_add_channel_nick_total:
  assumes "wf_graph s" "named s" "s_ch s c = Some ch" "bare_nick s n"
  obtains a s' cn where "find_add_channel_nick s c (Some n) = Inr (a, s')" "wf_graph s'" "named s'"
    "same_channels s s'" "live_ch s' c" "s_cn s' a = Some cn" "cn_channel cn = c"
    "same_name s (cn_nick s' a) n" "grows s s'"
proof (cases "List.find (\<lambda>a. same_name s (cn_nick s a) n) (c_nicks ch)")
  case (Some a)
  have "find_add_channel_nick s c (Some n) = Inr (a, s)"
    using assms(3,4) Some wf_graph_ch(1) [OF assms(1,3)]
    by (simp add: find_add_channel_nick_def get_channel_def bare_nick_def
        find_channel_nick_find [OF assms])
  moreover have "a \<in> set (c_nicks ch)" "same_name s (cn_nick s a) n"
    using find_Some_iff_in [OF Some] by auto
  ultimately show ?thesis
    using that assms wf_graph_ch(3) [OF assms(1,3), of a] by (force simp: same_channels_def)
next
  case None
  let ?s0 = "s\<lparr>s_next := Suc (s_next s)\<rparr>"
  have wf0: "wf_graph ?s0" using wf_next [OF assms(1)] by simp
  have nm0: "named ?s0" using assms(2) by (simp add: named_def)
  have bare0: "bare_nick ?s0 n" using assms(4) by (simp add: bare_nick_def)
  obtain r s1 where s1: "find_add_network_nick ?s0 (Some n) = Inr (r, s1)" "wf_graph s1" "named s1"
    "s_info s1 = s_info s" "s_channels s1 = s_channels s" "s_ch s1 = s_ch s" "s_cn s1 = s_cn s"
    "Suc (s_next s) \<le> s_next s1" "live_nick s1 r" "same_name s (nick_name s1 r) n" "grows ?s0 s1"
    using find_add_network_nick_total [OF wf0 nm0 bare0] by (auto simp: same_name_def)
  let ?cn = "\<lparr>cn_modes = modes_clear, cn_global_nick = r, cn_channel = c, cn_last_update = 0,
              cn_last_flags = None\<rparr>"
  obtain nn where nn: "lookup_nick s1 (cn_global_nick ?cn) = Some nn" using s1(9) by auto
  have ch1: "s_ch s1 (cn_channel ?cn) = Some ch" using assms(3) s1(6) by simp
  have free1: "s_cn s1 (s_next s) = None" using wf_next_free(3) [OF assms(1)] s1(7) by simp
  have lt: "s_next s < s_next s1" using s1(8) by simp
  let ?s2 = "set_cn_obj (set_nick_obj (set_channel_obj s1 (cn_channel ?cn)
       (ch\<lparr>c_nicks := c_nicks ch @ [s_next s]\<rparr>)) (cn_global_nick ?cn)
       (nn\<lparr>nn_channel_nicks := nn_channel_nicks nn @ [s_next s]\<rparr>)) (s_next s) ?cn"
  note link = link_channel_nick_ok [OF s1(2) ch1 nn free1 lt] wf_link [OF s1(2) ch1 nn free1 lt]
  note keeps = link_keeps [OF ch1 nn, of "s_next s"]
  have eq: "find_add_channel_nick s c (Some n) = Inr (s_next s, ?s2)"
    using assms(3,4) None wf_graph_ch(1) [OF assms(1,3)] s1(1) link(1)
    by (simp add: find_add_channel_nick_def get_channel_def bare_nick_def
        find_channel_nick_find [OF assms] Let_def)
  have "same_channels s s1" using s1(4-6) by (simp add: same_channels_def ch_name_def)
  then have "same_channels s ?s2" using keeps(4) by (rule same_channels_trans)
  moreover have "cn_nick ?s2 (s_next s) = nick_name s1 r" using keeps(1) by (simp add: cn_nick_def)
  moreover have "grows s ?s2"
  proof -
    have "grows s s1" using s1(11) by (simp add: grows_def nick_name_def)
    then show ?thesis using keeps(5) [OF free1] by (rule grows_trans)
  qed
  ultimately show ?thesis
    using that [OF eq link(2) keeps(3) [OF s1(3)]] s1(10) by simp
qed

section \<open>JOIN\<close>

text \<open>The origin of a line sent for a user.\<close>

definition user_origin :: "irc_line \<Rightarrow> string \<Rightarrow> bool" where
  "user_origin l nick \<longleftrightarrow> (\<exists>rest. origin l = Some (nick @ ''!'' @ rest)) \<and> CHR ''!'' \<notin> set nick"

lemma user_origin_nick: "user_origin l nick \<Longrightarrow> line_get_nick l = Inr nick"
  by (auto simp: user_origin_def line_get_nick_def strchr_append before_chr_append)

lemma set_hostmask_nick:
  assumes "user_origin l nick"
  shows "nn_nick (the (snd (network_nick_set_hostmask (Some nn) (origin l)))) \<in> {nn_nick nn, Some nick}"
  using assms
  by (auto simp: user_origin_def network_nick_set_hostmask_def strchr_append before_chr_append Let_def
      split: option.splits)

lemma set_nick_obj_keeps:
  assumes "lookup_nick s r = Some nn" "nn_nick nn' = Some x"
  shows "nick_name (set_nick_obj s r nn') q = (if q = r then x else nick_name s q)"
    "named s \<Longrightarrow> named (set_nick_obj s r nn')" "same_channels s (set_nick_obj s r nn')"
  using assms by (auto simp: nick_name_def named_def same_channels_def ch_name_def)

definition on_channel :: "irc_network_state \<Rightarrow> string \<Rightarrow> string \<Rightarrow> bool" where
  "on_channel s nick chan \<longleftrightarrow>
     (\<exists>c a. find_channel s (Some chan) = Inr (Some c) \<and> find_channel_nick s c (Some nick) = Inr (Some a))"

lemma on_channel_iff:
  assumes "wf_graph s" "named s" "bare_nick s nick"
  shows "on_channel s nick chan \<longleftrightarrow> (\<exists>c a cn. find_channel s (Some chan) = Inr (Some c) \<and>
    s_cn s a = Some cn \<and> cn_channel cn = c \<and> same_name s (cn_nick s a) nick)"
proof
  assume "on_channel s nick chan"
  then obtain c a where ca: "find_channel s (Some chan) = Inr (Some c)"
    "find_channel_nick s c (Some nick) = Inr (Some a)" by (auto simp: on_channel_def)
  have "c \<in> set (s_channels s)"
    using ca(1) by (auto simp: find_channel_find [OF assms(1)] dest: find_Some_iff_in)
  then obtain ch where ch: "s_ch s c = Some ch" using wf_graph_domD(1) [OF assms(1)] by blast
  have "a \<in> set (c_nicks ch)" "same_name s (cn_nick s a) nick"
    using ca(2) by (auto simp: find_channel_nick_find [OF assms(1,2) ch assms(3)] dest: find_Some_iff_in)
  then show "\<exists>c a cn. find_channel s (Some chan) = Inr (Some c) \<and> s_cn s a = Some cn \<and>
      cn_channel cn = c \<and> same_name s (cn_nick s a) nick"
    using ca(1) wf_graph_ch(3) [OF assms(1) ch] by blast
next
  assume "\<exists>c a cn. find_channel s (Some chan) = Inr (Some c) \<and> s_cn s a = Some cn \<and>
      cn_channel cn = c \<and> same_name s (cn_nick s a) nick"
  then obtain c a cn where ca: "find_channel s (Some chan) = Inr (Some c)" "s_cn s a = Some cn"
    "cn_channel cn = c" "same_name s (cn_nick s a) nick" by blast
  obtain ch where ch: "s_ch s c = Some ch" "a \<in> set (c_nicks ch)"
    using wf_graph_cn [OF assms(1) ca(2)] ca(3) by metis
  have "List.find (\<lambda>a. same_name s (cn_nick s a) nick) (c_nicks ch) \<noteq> None"
    using ch(2) ca(4) by (auto simp: find_None_iff)
  then show "on_channel s nick chan"
    using ca(1) find_channel_nick_find [OF assms(1,2) ch(1) assms(3)] by (auto simp: on_channel_def)
qed

lemma join_one_adds:
  assumes "wf_graph s" "named s" "bare_nick s nick" "user_origin l nick"
  obtains s' where "join_one l nick chan s = Inr s'" "wf_graph s'" "named s'" "bare_nick s' nick"
    "on_channel s' nick chan" "\<And>chan'. on_channel s nick chan' \<Longrightarrow> on_channel s' nick chan'"
proof -
  have "safe UNIV (\<lambda>(c, s'). wf_graph s' \<and> live_ch s' c \<and> s_channels s' \<noteq> []) (find_add_channel s (Some chan))"
    using find_add_channel_ok [OF assms(1)] by simp
  then obtain c s1 ch where s1: "find_add_channel s (Some chan) = Inr (c, s1)"
    and wf1: "wf_graph s1" and ch1: "s_ch s1 c = Some ch" and ne: "s_channels s1 \<noteq> []"
    by (auto simp: safe_UNIV_iff)
  have same1: "s_info s1 = s_info s" "s_cn s1 = s_cn s" "lookup_nick s1 r = lookup_nick s r" for r
    using find_add_channel_cases [OF assms(1) s1] by auto
  have nm1: "named s1" using assms(2) by (simp add: named_def same1)
  have bare1: "bare_nick s1 nick" using assms(3) by (simp add: bare_nick_def same1)
  note f1 = find_add_channel_lookup [OF assms(1) s1]
  obtain a s2 cn where s2: "find_add_channel_nick s1 c (Some nick) = Inr (a, s2)" "wf_graph s2" "named s2"
    "same_channels s1 s2" "s_cn s2 a = Some cn" "cn_channel cn = c" "same_name s1 (cn_nick s2 a) nick"
    "grows s1 s2"
    using find_add_channel_nick_total [OF wf1 nm1 ch1 bare1] by metis
  obtain nn where nn: "lookup_nick s2 (cn_global_nick cn) = Some nn" using cn_nick_live [OF s2(2,5)] by blast
  let ?nn = "the (snd (network_nick_set_hostmask (Some nn) (origin l)))"
  let ?s3 = "set_nick_obj s2 (cn_global_nick cn) ?nn"
  obtain x where x: "nn_nick ?nn = Some x" "x = nick_name s2 (cn_global_nick cn) \<or> x = nick"
    using set_hostmask_nick [OF assms(4), of nn] namedD [OF s2(3) nn] nn by (auto simp: nick_name_def)
  note keeps = set_nick_obj_keeps [OF nn x(1)]
  have wf3: "wf_graph ?s3"
    by (rule wf_set_nick_obj [OF s2(2) nn]) (use nn wf_graph_me [OF s2(2)] in auto)
  have nm3: "named ?s3" using keeps(2) s2(3) .
  have sc3: "same_channels s1 ?s3" using s2(4) keeps(3) by (rule same_channels_trans)
  have sn3: "same_name ?s3 = same_name s"
    using same_channels_name [OF sc3] same1(1) by (simp add: same_name_def fun_eq_iff)
  have bare3: "bare_nick ?s3 nick" using bare1 same_channels_bare [OF sc3] by simp
  obtain m where "nn_nick (s_me ?s3) = Some m" using namedD [OF nm3, of Me] by auto
  then have eq: "join_one l nick chan s = Inr ?s3"
    using s1 s2(1,5) nn ne by (simp add: join_one_def set_nick_hostmask_def upd_nick_def get_nick_def)
  have xnick: "same_name s x nick"
    using x(2) s2(5,7) same1(1) sn.eqn_refl by (auto simp: cn_nick_def same_name_def)
  have cnk: "same_name s (cn_nick ?s3 b) nick" if "same_name s (cn_nick s2 b) nick" for b
    using that xnick by (simp add: cn_nick_def keeps(1))
  have fch: "find_channel ?s3 (Some m) = find_channel s1 (Some m)" for m
    using same_channels_find [OF sc3 wf1 wf3] .
  have "on_channel ?s3 nick chan"
    unfolding on_channel_iff [OF wf3 nm3 bare3] sn3 fch
    using f1 [of chan] s2(5-7) cnk [of a] same1(1) by (auto simp: sn.eqn_refl same_name_def)
  moreover have "on_channel ?s3 nick chan'" if on: "on_channel s nick chan'" for chan'
  proof -
    obtain d b cb where db: "find_channel s (Some chan') = Inr (Some d)" "s_cn s b = Some cb"
      "cn_channel cb = d" "same_name s (cn_nick s b) nick"
      using on unfolding on_channel_iff [OF assms(1-3)] by blast
    have "find_channel s1 (Some chan') = Inr (Some d)"
    proof (cases "same_name s chan' chan")
      case True
      then have "find_channel s (Some chan) = Inr (Some d)"
        using db(1) sn.find_cong [OF True, of "ch_name s" "s_channels s"]
        by (simp add: find_channel_find [OF assms(1)])
      then have "c = d" using find_add_channel_cases [OF assms(1) s1] by auto
      then show ?thesis using f1 [of chan'] True by simp
    qed (use f1 db(1) in simp)
    moreover have "s_cn s2 b = Some cb" using s2(8) db(2) same1(2) by (simp add: grows_def)
    moreover have "cn_nick s2 b = cn_nick s b"
      using s2(8) db(2) same1 cn_nick_live [OF assms(1) db(2)] \<open>s_cn s2 b = Some cb\<close>
      by (auto simp: grows_def cn_nick_def nick_name_def)
    ultimately show ?thesis
      unfolding on_channel_iff [OF wf3 nm3 bare3] sn3 fch
      using db(3,4) cnk [of b] by auto
  qed
  ultimately show ?thesis using that [OF eq wf3 nm3 bare3] by simp
qed

lemma join_all_adds:
  assumes "wf_graph s" "named s" "bare_nick s nick" "user_origin l nick"
  shows "\<exists>s'. fold_res (join_one l nick) chans s = Inr s' \<and> wf_graph s' \<and> named s' \<and>
    (\<forall>chan. chan \<in> set chans \<or> on_channel s nick chan \<longrightarrow> on_channel s' nick chan)"
  using assms
proof (induction chans arbitrary: s)
  case (Cons chan chans)
  obtain s1 where s1: "join_one l nick chan s = Inr s1" "wf_graph s1" "named s1" "bare_nick s1 nick"
    "on_channel s1 nick chan" "\<And>chan'. on_channel s nick chan' \<Longrightarrow> on_channel s1 nick chan'"
    using join_one_adds [OF Cons.prems] by metis
  show ?case using Cons.IH [OF s1(2-4) Cons.prems(4)] s1 by auto
qed auto

section \<open>Leaving\<close>

text \<open>PART by another user takes the record that the lookup finds, and no other, off.\<close>

lemma part_one_other:
  assumes "wf_graph s" "named s" "find_channel s (Some chan) = Inr (Some c)"
    "find_channel_nick s c (Some nick) = Inr (Some a)" "is_me s nick = Inr False"
  obtains s' where "part_one nick chan s = Inr s'" "wf_graph s'" "freed {a} s s'"
proof -
  have "c \<in> set (s_channels s)"
    using assms(3) by (auto simp: find_channel_find [OF assms(1)] dest: find_Some_iff_in)
  then obtain ch where ch: "s_ch s c = Some ch" using wf_graph_domD(1) [OF assms(1)] by blast
  obtain cn where cn: "s_cn s a = Some cn"
    using find_channel_nick_ok [OF assms(1) ch, of "Some nick"] assms(4) by auto
  obtain s1 where s1: "free_channel_nick a s = Inr s1" "wf_graph s1" "freed {a} s s1"
    using free_channel_nick_ok [OF assms(1) cn] by (auto simp: safe_UNIV_iff)
  have "nn_nick (s_me s1) = nn_nick (s_me s)" "s_info s1 = s_info s"
    using freed_queryD [OF s1(3), of Me] wf_graph_me [OF assms(1)] freedD(2) [OF s1(3)] by simp_all
  then have "is_me s1 nick = Inr False" using assms(5) by (simp add: is_me_def)
  then show ?thesis
    using that s1 assms(3,4) by (simp add: part_one_def)
qed

text \<open>PART by the user itself forgets the channel and every record of it.\<close>

lemma part_one_me:
  assumes "wf_graph s" "named s" "find_channel s (Some chan) = Inr (Some c)" "s_ch s c = Some ch"
    "find_channel_nick s c (Some nick) = Inr r" "is_me s nick = Inr True"
  obtains s' where "part_one nick chan s = Inr s'" "wf_graph s'"
    "s_channels s' = remove1 c (s_channels s)" "s_cn s' = s_cn s |` (- set (c_nicks ch))"
proof -
  have "\<exists>s1 N. (case r of None \<Rightarrow> Inr s | Some n \<Rightarrow> free_channel_nick n s) = Inr s1 \<and> wf_graph s1 \<and>
      freed N s s1 \<and> N \<subseteq> set (c_nicks ch)"
  proof (cases r)
    case None
    then show ?thesis using assms(1) freed_empty [of s] by auto
  next
    case (Some a)
    obtain cn where cn: "s_cn s a = Some cn" "cn_channel cn = c"
      using find_channel_nick_ok [OF assms(1,4), of "Some nick"] assms(5) Some by auto
    have "a \<in> set (c_nicks ch)" using cn wf_graph_ch(3) [OF assms(1,4)] by blast
    then show ?thesis
      using free_channel_nick_ok [OF assms(1) cn(1)] Some by (auto simp: safe_UNIV_iff)
  qed
  then obtain s1 N where s1: "(case r of None \<Rightarrow> Inr s | Some n \<Rightarrow> free_channel_nick n s) = Inr s1"
    "wf_graph s1" "freed N s s1" "N \<subseteq> set (c_nicks ch)" by blast
  have "nn_nick (s_me s1) = nn_nick (s_me s)" "s_info s1 = s_info s"
    using freed_queryD [OF s1(3), of Me] wf_graph_me [OF assms(1)] freedD(2) [OF s1(3)] by simp_all
  then have me: "is_me s1 nick = Inr True" using assms(6) by (simp add: is_me_def)
  have ch1: "s_ch s1 c = Some (ch\<lparr>c_nicks := filter (\<lambda>a. a \<notin> N) (c_nicks ch)\<rparr>)"
    using freedD(5) [OF s1(3), of c] assms(4) by simp
  obtain s2 where s2: "free_channel_state c s1 = Inr s2" "wf_graph s2"
    "s_channels s2 = remove1 c (s_channels s1)" "s_cn s2 = s_cn s1 |` (- (set (c_nicks ch) - N))"
    using free_channel_state_ok [OF s1(2) ch1] by (auto simp: safe_UNIV_iff set_diff_eq)
  have "s_cn s2 = s_cn s |` (- set (c_nicks ch))"
  proof -
    have "- N \<inter> - (set (c_nicks ch) - N) = - set (c_nicks ch)" using s1(4) by auto
    then show ?thesis using s2(4) freedD(4) [OF s1(3)] by simp
  qed
  then show ?thesis
    using that [of s2] s2 s1(1) me freedD(1) [OF s1(3)] assms(3,5) by (simp add: part_one_def)
qed

text \<open>QUIT of another user: the user and all its records are gone, the other records stay.\<close>

lemma handle_quit_other:
  assumes "wf_graph s" "named s" "line_get_nick l = Inr nick"
    "find_network_nick s (Some nick) = Inr (Some (Nick a))" "s_nn s a = Some nn"
  obtains s' where "handle_quit now s l = Inr s'" "wf_graph s'" "s_nn s' a = None"
    "s_cn s' = s_cn s |` (- set (nn_channel_nicks nn))" "s_channels s' = s_channels s"
proof -
  obtain s' where "free_network_nick (Nick a) s = Inr s'" "wf_graph s'" "s_nn s' a = None"
    "s_cn s' = s_cn s |` (- set (nn_channel_nicks nn))" "s_channels s' = s_channels s"
    using free_network_nick_ok [OF assms(1,5)] by (auto simp: safe_UNIV_iff)
  moreover have "origin l \<noteq> None" using assms(3) by (auto simp: line_get_nick_def split: option.splits)
  ultimately show ?thesis
    using that [of s'] assms(3,4) by (auto simp: handle_quit_def check_origin_def)
qed

section \<open>A session\<close>

text \<open>A fresh state, the lines of a short session, and the states they lead to.\<close>

definition demo_init :: irc_network_state where
  "demo_init =
     (case network_state_init (Some ''me'') (Some ''user'') (Some ''host'') of Inr s \<Rightarrow> s)"

definition demo_line :: "string \<Rightarrow> string list \<Rightarrow> irc_line" where
  "demo_line from as = \<lparr>origin = Some from, args = as, endcolon = COLON_UNKNOWN\<rparr>"

definition demo_joined :: irc_network_state where
  "demo_joined =
     (case handle_join 0 demo_init (demo_line ''bob!b@h'' [''JOIN'', ''#c,#d'']) of Inr s \<Rightarrow> s)"

definition demo_own :: irc_network_state where
  "demo_own =
     (case handle_join 0 demo_joined (demo_line ''me!user@host'' [''JOIN'', ''#c'']) of Inr s \<Rightarrow> s)"

lemma demo_init_eq: "network_state_init (Some ''me'') (Some ''user'') (Some ''host'') = Inr demo_init"
  by (simp add: demo_init_def network_state_init_def network_nick_set_data_def network_nick_new_def
      field_differs_def)

lemma demo_init_wf: "wf_graph demo_init"
  using wf_network_state_init [of "Some ''me''" "Some ''user''" "Some ''host''"] demo_init_eq by simp

lemma demo_init_named: "named demo_init"
  by (auto simp: named_def demo_init_def network_state_init_def network_nick_set_data_def
      network_nick_new_def field_differs_def lookup_nick_def split: nick_ref.splits)

lemma demo_joined_props:
  "handle_join 0 demo_init (demo_line ''bob!b@h'' [''JOIN'', ''#c,#d'']) = Inr demo_joined"
  "wf_graph demo_joined" "named demo_joined"
proof -
  have bare: "bare_nick demo_init ''bob''" by code_simp
  have org: "user_origin (demo_line ''bob!b@h'' [''JOIN'', ''#c,#d'']) ''bob''"
    by (simp add: user_origin_def demo_line_def)
  have chans: "g_strsplit ''#c,#d'' (CHR '','') 0 = [''#c'', ''#d'']" by code_simp
  from join_all_adds [OF demo_init_wf demo_init_named bare org, of "[''#c'', ''#d'']"]
  obtain s' where s': "fold_res (join_one (demo_line ''bob!b@h'' [''JOIN'', ''#c,#d'']) ''bob'')
      [''#c'', ''#d''] demo_init = Inr s'" "wf_graph s'" "named s'" by blast
  then have eq: "handle_join 0 demo_init (demo_line ''bob!b@h'' [''JOIN'', ''#c,#d'']) = Inr s'"
    using user_origin_nick [OF org] chans
    by (simp add: handle_join_def check_origin_def demo_line_def sarg_def arg_def)
  then have "demo_joined = s'" by (simp add: demo_joined_def)
  with eq s' show "handle_join 0 demo_init (demo_line ''bob!b@h'' [''JOIN'', ''#c,#d'']) = Inr demo_joined"
    "wf_graph demo_joined" "named demo_joined" by simp_all
qed

section \<open>Properties\<close>

text \<open>C1. Memory safety of the tracker. Whatever line a server sends, in a state with an intact
  object graph: no handler follows a pointer to a freed channel, user or channel record, none
  runs forever, and the graph is intact afterwards.\<close>

theorem handle_data_memory_safe:
  assumes "wf_graph s"
  shows "state_handle_data now s l \<noteq> Inl UseAfterFree \<and> state_handle_data now s l \<noteq> Inl Diverges \<and>
    (\<forall>b s'. state_handle_data now s l = Inr (b, s') \<longrightarrow> wf_graph s')"
  using state_handle_data_safe [OF assms, of now l] by auto

theorem handle_data_memory_safe_witness:
  "wf_graph demo_joined \<and>
   state_handle_data 0 demo_joined (demo_line ''bob!b@h'' [''QUIT'']) \<noteq> Inl UseAfterFree"
  using handle_data_memory_safe [OF demo_joined_props(2), of 0 "demo_line ''bob!b@h'' [''QUIT'']"]
    demo_joined_props(2) by simp

text \<open>C6. Every state that a fresh network state reaches by handling lines, in any order and
  number, has an intact object graph.\<close>

theorem reachable_states_wf:
  assumes "reachable s"
  shows "wf_graph s"
  using assms by (rule reachable_wf)

theorem reachable_states_wf_witness: "reachable demo_joined \<and> wf_graph demo_joined"
proof -
  have "List.find (\<lambda>(command, _, _). base_eq command ''JOIN'') irc_commands = Some (''JOIN'', 1, handle_join)"
    by (simp add: irc_commands_def base_strcmp_def)
  then have "state_handle_data 0 demo_init (demo_line ''bob!b@h'' [''JOIN'', ''#c,#d'']) = Inr (True, demo_joined)"
    using demo_joined_props(1) by (simp add: state_handle_data_def demo_line_def)
  then have "tracks demo_init demo_joined" by (rule track)
  with reachable.init [OF demo_init_eq] have "reachable demo_joined" by (rule reachable.step)
  then show ?thesis using reachable_states_wf by blast
qed

text \<open>C15. Freeing the whole state ends, touches nothing twice, and leaves no object behind:
  no channel, no user and no channel record stays allocated.\<close>

theorem free_network_state_complete:
  assumes "wf_graph s"
  shows "\<exists>s'. free_network_state s = Inr s' \<and>
    s_ch s' = Map.empty \<and> s_nn s' = Map.empty \<and> s_cn s' = Map.empty"
  using free_network_state_ok [OF assms] by (simp add: safe_UNIV_iff)

theorem free_network_state_complete_witness:
  "\<exists>s'. free_network_state demo_joined = Inr s' \<and>
    s_ch s' = Map.empty \<and> s_nn s' = Map.empty \<and> s_cn s' = Map.empty"
  by (rule free_network_state_complete [OF demo_joined_props(2)])

text \<open>A channel that was looked up or added is found again under every spelling of its
  name, and no other name is found differently than before.\<close>

theorem find_add_channel_found:
  assumes "wf_graph s" "find_add_channel s (Some n) = Inr (c, s')"
  shows "find_channel s' (Some n') =
    (if irccmp (Some (s_info s)) n' n = 0 then Inr (Some c) else find_channel s (Some n'))"
  using find_add_channel_lookup [OF assms] by (simp add: same_name_def)

theorem find_add_channel_found_witness:
  "find_channel (snd (projr (find_add_channel demo_joined (Some ''#new'')))) (Some ''#NEW'') = Inr (Some 5)"
proof -
  have eq: "find_add_channel demo_joined (Some ''#new'') =
      Inr (5, snd (projr (find_add_channel demo_joined (Some ''#new''))))"
  proof -
    have "safe UNIV (\<lambda>r. True) (find_add_channel demo_joined (Some ''#new''))"
      using find_add_channel_ok [OF demo_joined_props(2), of UNIV "Some ''#new''"]
      by (auto intro: safe_mono)
    then obtain r where r: "find_add_channel demo_joined (Some ''#new'') = Inr r" by (auto simp: safe_UNIV_iff)
    have "fst (projr (find_add_channel demo_joined (Some ''#new''))) = 5" by code_simp
    then show ?thesis using r by (cases r) simp
  qed
  have "irccmp (Some (s_info demo_joined)) ''#NEW'' ''#new'' = 0" by code_simp
  then show ?thesis using find_add_channel_found [OF demo_joined_props(2) eq, of "''#NEW''"] by simp
qed



text \<open>A PART line of another user frees exactly the record that the lookup finds; channels,
  users that are still tracked and all other records stay as they were.\<close>

theorem part_frees_one_record:
  assumes "wf_graph s" "named s" "line_get_nick l = Inr nick" "1 < argc l"
    "g_strsplit (args l ! 1) (CHR '','') 0 = [chan]" "find_channel s (Some chan) = Inr (Some c)"
    "find_channel_nick s c (Some nick) = Inr (Some a)" "is_me s nick = Inr False"
  shows "\<exists>s'. handle_part now s l = Inr s' \<and> wf_graph s' \<and> freed {a} s s'"
proof -
  obtain s' where "part_one nick chan s = Inr s'" "wf_graph s'" "freed {a} s s'"
    using part_one_other [OF assms(1,2,6-8)] .
  moreover have "origin l \<noteq> None" using assms(3) by (auto simp: line_get_nick_def split: option.splits)
  ultimately show ?thesis
    using assms(3-5) by (auto simp: handle_part_def check_origin_def)
qed

theorem part_frees_one_record_witness:
  "\<exists>s'. handle_part 0 demo_joined (demo_line ''bob!b@h'' [''PART'', ''#c'']) = Inr s' \<and> wf_graph s' \<and>
     freed {1} demo_joined s'"
proof (rule part_frees_one_record [OF demo_joined_props(2,3)])
  let ?l = "demo_line ''bob!b@h'' [''PART'', ''#c'']"
  show "line_get_nick ?l = Inr ''bob''" by code_simp
  show "1 < argc ?l" by (simp add: demo_line_def)
  show "g_strsplit (args ?l ! 1) (CHR '','') 0 = [''#c'']" by code_simp
  show "find_channel demo_joined (Some ''#c'') = Inr (Some 0)" by code_simp
  show "find_channel_nick demo_joined 0 (Some ''bob'') = Inr (Some 1)" by code_simp
  show "is_me demo_joined ''bob'' = Inr False" by code_simp
qed

text \<open>C35. When the user itself parts a channel, the channel leaves the list and every record of
  it is freed, while the records of other channels stay.\<close>

theorem own_part_forgets_channel:
  assumes "wf_graph s" "named s" "line_get_nick l = Inr nick" "1 < argc l"
    "g_strsplit (args l ! 1) (CHR '','') 0 = [chan]" "find_channel s (Some chan) = Inr (Some c)"
    "s_ch s c = Some ch" "find_channel_nick s c (Some nick) = Inr r" "is_me s nick = Inr True"
  shows "\<exists>s'. handle_part now s l = Inr s' \<and> wf_graph s' \<and>
    s_channels s' = remove1 c (s_channels s) \<and> s_cn s' = s_cn s |` (- set (c_nicks ch))"
proof -
  obtain s' where "part_one nick chan s = Inr s'" "wf_graph s'"
    "s_channels s' = remove1 c (s_channels s)" "s_cn s' = s_cn s |` (- set (c_nicks ch))"
    using part_one_me [OF assms(1,2,6-9)] .
  moreover have "origin l \<noteq> None" using assms(3) by (auto simp: line_get_nick_def split: option.splits)
  ultimately show ?thesis
    using assms(3-5) by (auto simp: handle_part_def check_origin_def)
qed

theorem own_part_forgets_channel_witness:
  "\<exists>s'. handle_part 0 demo_joined (demo_line ''me!user@host'' [''PART'', ''#d'']) = Inr s' \<and> wf_graph s' \<and>
     s_channels s' = remove1 3 (s_channels demo_joined)"
proof -
  let ?l = "demo_line ''me!user@host'' [''PART'', ''#d'']"
  have c: "find_channel demo_joined (Some ''#d'') = Inr (Some 3)" by code_simp
  then have "3 \<in> set (s_channels demo_joined)"
    by (auto simp: find_channel_find [OF demo_joined_props(2)] dest: find_Some_iff_in)
  then obtain ch where ch: "s_ch demo_joined 3 = Some ch"
    using wf_graph_domD(1) [OF demo_joined_props(2)] by blast
  have "line_get_nick ?l = Inr ''me''" "g_strsplit (args ?l ! 1) (CHR '','') 0 = [''#d'']"
    "find_channel_nick demo_joined 3 (Some ''me'') = Inr None" "is_me demo_joined ''me'' = Inr True"
    by code_simp+
  then show ?thesis
    using own_part_forgets_channel [OF demo_joined_props(2,3), of ?l "''me''" "''#d''" 3 ch None 0] c ch
    by (auto simp: demo_line_def)
qed

text \<open>C34. A QUIT line of another user frees that user and exactly its channel records, on
  whatever number of channels; the list of channels and all other records stay.\<close>

theorem quit_frees_user:
  assumes "wf_graph s" "named s" "line_get_nick l = Inr nick"
    "find_network_nick s (Some nick) = Inr (Some (Nick a))" "s_nn s a = Some nn"
  shows "\<exists>s'. handle_quit now s l = Inr s' \<and> wf_graph s' \<and> s_nn s' a = None \<and>
    s_cn s' = s_cn s |` (- set (nn_channel_nicks nn)) \<and> s_channels s' = s_channels s"
  using handle_quit_other [OF assms] by metis

theorem quit_frees_user_witness:
  "\<exists>s'. handle_quit 0 demo_joined (demo_line ''bob!b@h'' [''QUIT'']) = Inr s' \<and> wf_graph s' \<and>
     s_nn s' 2 = None"
proof -
  have f: "find_network_nick demo_joined (Some ''bob'') = Inr (Some (Nick 2))" by code_simp
  then have "live_nick demo_joined (Nick 2)"
    using find_network_nick_ok [OF demo_joined_props(2), of "Some ''bob''"] by simp
  then obtain nn where "s_nn demo_joined 2 = Some nn" by auto
  moreover have "line_get_nick (demo_line ''bob!b@h'' [''QUIT'']) = Inr ''bob''" by code_simp
  ultimately show ?thesis using quit_frees_user [OF demo_joined_props(2,3) _ f] by blast
qed

end
