(* ===== verification/Numerics.thy ===== *)
theory Numerics
  imports Main
begin

text \<open>
  The reply and error codes of \<open>libirc/irc.h\<close>, by the names the program uses.
\<close>

abbreviation ERR_NOSUCHNICK :: int where "ERR_NOSUCHNICK \<equiv> 401"
abbreviation ERR_NOSUCHSERVER :: int where "ERR_NOSUCHSERVER \<equiv> 402"
abbreviation ERR_NOSUCHCHANNEL :: int where "ERR_NOSUCHCHANNEL \<equiv> 403"
abbreviation ERR_CANNOTSENDTOCHAN :: int where "ERR_CANNOTSENDTOCHAN \<equiv> 404"
abbreviation ERR_TOOMANYCHANNELS :: int where "ERR_TOOMANYCHANNELS \<equiv> 405"
abbreviation ERR_WASNOSUCHNICK :: int where "ERR_WASNOSUCHNICK \<equiv> 406"
abbreviation ERR_TOOMANYTARGETS :: int where "ERR_TOOMANYTARGETS \<equiv> 407"
abbreviation ERR_NOSUCHSERVICE :: int where "ERR_NOSUCHSERVICE \<equiv> 408"
abbreviation ERR_NOORIGIN :: int where "ERR_NOORIGIN \<equiv> 409"
abbreviation ERR_NORECIPIENT :: int where "ERR_NORECIPIENT \<equiv> 411"
abbreviation ERR_NOTEXTTOSEND :: int where "ERR_NOTEXTTOSEND \<equiv> 412"
abbreviation ERR_NOTOPLEVEL :: int where "ERR_NOTOPLEVEL \<equiv> 413"
abbreviation ERR_WILDTOPLEVEL :: int where "ERR_WILDTOPLEVEL \<equiv> 414"
abbreviation ERR_BADMASK :: int where "ERR_BADMASK \<equiv> 415"
abbreviation ERR_TOOMANYMATCHES :: int where "ERR_TOOMANYMATCHES \<equiv> 416"
abbreviation ERR_UNKNOWNCOMMAND :: int where "ERR_UNKNOWNCOMMAND \<equiv> 421"
abbreviation ERR_NOMOTD :: int where "ERR_NOMOTD \<equiv> 422"
abbreviation ERR_NOADMININFO :: int where "ERR_NOADMININFO \<equiv> 423"
abbreviation ERR_FILEERROR :: int where "ERR_FILEERROR \<equiv> 424"
abbreviation ERR_NONICKNAMEGIVEN :: int where "ERR_NONICKNAMEGIVEN \<equiv> 431"
abbreviation ERR_ERRONEUSNICKNAME :: int where "ERR_ERRONEUSNICKNAME \<equiv> 432"
abbreviation ERR_NICKNAMEINUSE :: int where "ERR_NICKNAMEINUSE \<equiv> 433"
abbreviation ERR_NICKCOLLISION :: int where "ERR_NICKCOLLISION \<equiv> 436"
abbreviation ERR_UNAVAILRESOURCE :: int where "ERR_UNAVAILRESOURCE \<equiv> 437"
abbreviation ERR_NICKTOOFAST :: int where "ERR_NICKTOOFAST \<equiv> 438"
abbreviation ERR_USERNOTINCHANNEL :: int where "ERR_USERNOTINCHANNEL \<equiv> 441"
abbreviation ERR_NOTONCHANNEL :: int where "ERR_NOTONCHANNEL \<equiv> 442"
abbreviation ERR_USERONCHANNEL :: int where "ERR_USERONCHANNEL \<equiv> 443"
abbreviation ERR_NOLOGIN :: int where "ERR_NOLOGIN \<equiv> 444"
abbreviation ERR_SUMMONDISABLED :: int where "ERR_SUMMONDISABLED \<equiv> 445"
abbreviation ERR_USERSDISABLED :: int where "ERR_USERSDISABLED \<equiv> 446"
abbreviation ERR_NOTREGISTERED :: int where "ERR_NOTREGISTERED \<equiv> 451"
abbreviation ERR_NEEDMOREPARAMS :: int where "ERR_NEEDMOREPARAMS \<equiv> 461"
abbreviation ERR_ALREADYREGISTERED :: int where "ERR_ALREADYREGISTERED \<equiv> 462"
abbreviation ERR_NOPERMFORHOST :: int where "ERR_NOPERMFORHOST \<equiv> 463"
abbreviation ERR_PASSWDMISMATCH :: int where "ERR_PASSWDMISMATCH \<equiv> 464"
abbreviation ERR_YOUREBANNEDCREEP :: int where "ERR_YOUREBANNEDCREEP \<equiv> 465"
abbreviation ERR_YOUWILLBEBANNED :: int where "ERR_YOUWILLBEBANNED \<equiv> 466"
abbreviation ERR_KEYSET :: int where "ERR_KEYSET \<equiv> 467"
abbreviation ERR_FORWARDING :: int where "ERR_FORWARDING \<equiv> 470"
abbreviation ERR_CHANNELISFULL :: int where "ERR_CHANNELISFULL \<equiv> 471"
abbreviation ERR_UNKNOWNMODE :: int where "ERR_UNKNOWNMODE \<equiv> 472"
abbreviation ERR_INVITEONLYCHAN :: int where "ERR_INVITEONLYCHAN \<equiv> 473"
abbreviation ERR_BANNEDFROMCHAN :: int where "ERR_BANNEDFROMCHAN \<equiv> 474"
abbreviation ERR_BADCHANNELKEY :: int where "ERR_BADCHANNELKEY \<equiv> 475"
abbreviation ERR_BADCHANMASK :: int where "ERR_BADCHANMASK \<equiv> 476"
abbreviation ERR_NOCHANMODES :: int where "ERR_NOCHANMODES \<equiv> 477"
abbreviation ERR_NEEDREGGEDNICK :: int where "ERR_NEEDREGGEDNICK \<equiv> 477"
abbreviation ERR_BANLISTFULL :: int where "ERR_BANLISTFULL \<equiv> 478"
abbreviation ERR_ILLEGALCHANNELNAME :: int where "ERR_ILLEGALCHANNELNAME \<equiv> 479"
abbreviation ERR_NOPRIVILEGES :: int where "ERR_NOPRIVILEGES \<equiv> 481"
abbreviation ERR_CHANOPPRIVSNEEDED :: int where "ERR_CHANOPPRIVSNEEDED \<equiv> 482"
abbreviation ERR_CANTKILLSERVER :: int where "ERR_CANTKILLSERVER \<equiv> 483"
abbreviation ERR_RESTRICTED :: int where "ERR_RESTRICTED \<equiv> 484"
abbreviation ERR_UNIQOPPRIVSNEEDED :: int where "ERR_UNIQOPPRIVSNEEDED \<equiv> 485"
abbreviation ERR_NO_OP_SPLIT :: int where "ERR_NO_OP_SPLIT \<equiv> 487"
abbreviation ERR_NOOPERHOST :: int where "ERR_NOOPERHOST \<equiv> 491"
abbreviation ERR_UMODEUNKNOWNFLAG :: int where "ERR_UMODEUNKNOWNFLAG \<equiv> 501"
abbreviation ERR_USERSDONTMATCH :: int where "ERR_USERSDONTMATCH \<equiv> 502"
abbreviation ERR_BLOCKING_NOTID :: int where "ERR_BLOCKING_NOTID \<equiv> 505"
abbreviation ERR_BADCHARENCODING :: int where "ERR_BADCHARENCODING \<equiv> 980"
abbreviation RPL_WELCOME :: int where "RPL_WELCOME \<equiv> 1"
abbreviation RPL_YOURHOST :: int where "RPL_YOURHOST \<equiv> 2"
abbreviation RPL_CREATED :: int where "RPL_CREATED \<equiv> 3"
abbreviation RPL_MYINFO :: int where "RPL_MYINFO \<equiv> 4"
abbreviation RPL_BOUNCE :: int where "RPL_BOUNCE \<equiv> 5"
abbreviation RPL_SNOMASK :: int where "RPL_SNOMASK \<equiv> 8"
abbreviation RPL_CAPAB :: int where "RPL_CAPAB \<equiv> 290"
abbreviation RPL_USERHOST :: int where "RPL_USERHOST \<equiv> 302"
abbreviation RPL_ISON :: int where "RPL_ISON \<equiv> 303"
abbreviation RPL_AWAY :: int where "RPL_AWAY \<equiv> 301"
abbreviation RPL_UNAWAY :: int where "RPL_UNAWAY \<equiv> 305"
abbreviation RPL_NOWAWAY :: int where "RPL_NOWAWAY \<equiv> 306"
abbreviation RPL_WHOISIP :: int where "RPL_WHOISIP \<equiv> 307"
abbreviation RPL_WHOISSERVEROPERATOR :: int where "RPL_WHOISSERVEROPERATOR \<equiv> 308"
abbreviation RPL_WHOISNETWORKSERVICE :: int where "RPL_WHOISNETWORKSERVICE \<equiv> 309"
abbreviation RPL_WHOISUSER :: int where "RPL_WHOISUSER \<equiv> 311"
abbreviation RPL_WHOISSERVER :: int where "RPL_WHOISSERVER \<equiv> 312"
abbreviation RPL_WHOISOPERATOR :: int where "RPL_WHOISOPERATOR \<equiv> 313"
abbreviation RPL_WHOISIDLE :: int where "RPL_WHOISIDLE \<equiv> 317"
abbreviation RPL_ENDOFWHOIS :: int where "RPL_ENDOFWHOIS \<equiv> 318"
abbreviation RPL_WHOISCHANNELS :: int where "RPL_WHOISCHANNELS \<equiv> 319"
abbreviation RPL_WHOISIDENTIFIED :: int where "RPL_WHOISIDENTIFIED \<equiv> 320"
abbreviation RPL_WHOISOPERPRIVS :: int where "RPL_WHOISOPERPRIVS \<equiv> 326"
abbreviation RPL_CHANNEL_HOMEPAGE :: int where "RPL_CHANNEL_HOMEPAGE \<equiv> 328"
abbreviation RPL_WHOWASUSER :: int where "RPL_WHOWASUSER \<equiv> 314"
abbreviation RPL_WHOWAS_TIME :: int where "RPL_WHOWAS_TIME \<equiv> 330"
abbreviation RPL_WHOISACCOUNT :: int where "RPL_WHOISACCOUNT \<equiv> 330"
abbreviation RPL_ENDOFWHOWAS :: int where "RPL_ENDOFWHOWAS \<equiv> 369"
abbreviation RPL_LISTSTART :: int where "RPL_LISTSTART \<equiv> 321"
abbreviation RPL_LIST :: int where "RPL_LIST \<equiv> 322"
abbreviation RPL_LISTEND :: int where "RPL_LISTEND \<equiv> 323"
abbreviation RPL_UNIQOPIS :: int where "RPL_UNIQOPIS \<equiv> 325"
abbreviation RPL_CHANNELMODEIS :: int where "RPL_CHANNELMODEIS \<equiv> 324"
abbreviation RPL_CREATIONTIME :: int where "RPL_CREATIONTIME \<equiv> 329"
abbreviation RPL_NOTOPIC :: int where "RPL_NOTOPIC \<equiv> 331"
abbreviation RPL_TOPIC :: int where "RPL_TOPIC \<equiv> 332"
abbreviation RPL_TOPICWHOTIME :: int where "RPL_TOPICWHOTIME \<equiv> 333"
abbreviation RPL_WHOISACTUALLY :: int where "RPL_WHOISACTUALLY \<equiv> 338"
abbreviation RPL_INVITING :: int where "RPL_INVITING \<equiv> 341"
abbreviation RPL_SUMMONING :: int where "RPL_SUMMONING \<equiv> 342"
abbreviation RPL_INVITELIST :: int where "RPL_INVITELIST \<equiv> 346"
abbreviation RPL_ENDOFINVITELIST :: int where "RPL_ENDOFINVITELIST \<equiv> 347"
abbreviation RPL_EXCEPTLIST :: int where "RPL_EXCEPTLIST \<equiv> 348"
abbreviation RPL_ENDOFEXCEPTLIST :: int where "RPL_ENDOFEXCEPTLIST \<equiv> 349"
abbreviation RPL_VERSION :: int where "RPL_VERSION \<equiv> 351"
abbreviation RPL_WHOREPLY :: int where "RPL_WHOREPLY \<equiv> 352"
abbreviation RPL_ENDOFWHO :: int where "RPL_ENDOFWHO \<equiv> 315"
abbreviation RPL_NAMREPLY :: int where "RPL_NAMREPLY \<equiv> 353"
abbreviation RPL_WHOSPCRPL :: int where "RPL_WHOSPCRPL \<equiv> 354"
abbreviation RPL_ENDOFNAMES :: int where "RPL_ENDOFNAMES \<equiv> 366"
abbreviation RPL_LINKS :: int where "RPL_LINKS \<equiv> 364"
abbreviation RPL_ENDOFLINKS :: int where "RPL_ENDOFLINKS \<equiv> 365"
abbreviation RPL_BANLIST :: int where "RPL_BANLIST \<equiv> 367"
abbreviation RPL_ENDOFBANLIST :: int where "RPL_ENDOFBANLIST \<equiv> 368"
abbreviation RPL_INFO :: int where "RPL_INFO \<equiv> 371"
abbreviation RPL_ENDOFINFO :: int where "RPL_ENDOFINFO \<equiv> 374"
abbreviation RPL_MOTDSTART :: int where "RPL_MOTDSTART \<equiv> 375"
abbreviation RPL_MOTD :: int where "RPL_MOTD \<equiv> 372"
abbreviation RPL_ENDOFMOTD :: int where "RPL_ENDOFMOTD \<equiv> 376"
abbreviation RPL_YOUREOPER :: int where "RPL_YOUREOPER \<equiv> 381"
abbreviation RPL_REHASHING :: int where "RPL_REHASHING \<equiv> 382"
abbreviation RPL_YOURESERVICE :: int where "RPL_YOURESERVICE \<equiv> 383"
abbreviation RPL_TIME :: int where "RPL_TIME \<equiv> 391"
abbreviation RPL_USERSSTART :: int where "RPL_USERSSTART \<equiv> 392"
abbreviation RPL_USERS :: int where "RPL_USERS \<equiv> 393"
abbreviation RPL_ENDOFUSERS :: int where "RPL_ENDOFUSERS \<equiv> 394"
abbreviation RPL_NOUSERS :: int where "RPL_NOUSERS \<equiv> 395"
abbreviation RPL_HIDINGHOST :: int where "RPL_HIDINGHOST \<equiv> 396"
abbreviation RPL_TRACELINK :: int where "RPL_TRACELINK \<equiv> 200"
abbreviation RPL_TRACECONNECTING :: int where "RPL_TRACECONNECTING \<equiv> 201"
abbreviation RPL_TRACEHANDSHAKE :: int where "RPL_TRACEHANDSHAKE \<equiv> 202"
abbreviation RPL_TRACEUNKNOWN :: int where "RPL_TRACEUNKNOWN \<equiv> 203"
abbreviation RPL_TRACEOPERATOR :: int where "RPL_TRACEOPERATOR \<equiv> 204"
abbreviation RPL_TRACEUSER :: int where "RPL_TRACEUSER \<equiv> 205"
abbreviation RPL_TRACESERVER :: int where "RPL_TRACESERVER \<equiv> 206"
abbreviation RPL_TRACESERVICE :: int where "RPL_TRACESERVICE \<equiv> 207"
abbreviation RPL_TRACENEWTYPE :: int where "RPL_TRACENEWTYPE \<equiv> 208"
abbreviation RPL_TRACECLASS :: int where "RPL_TRACECLASS \<equiv> 209"
abbreviation RPL_TRACERECONNECT :: int where "RPL_TRACERECONNECT \<equiv> 210"
abbreviation RPL_TRACELOG :: int where "RPL_TRACELOG \<equiv> 261"
abbreviation RPL_TRACEEND :: int where "RPL_TRACEEND \<equiv> 262"
abbreviation RPL_STATSLINKINFO :: int where "RPL_STATSLINKINFO \<equiv> 211"
abbreviation RPL_STATSCOMMANDS :: int where "RPL_STATSCOMMANDS \<equiv> 212"
abbreviation RPL_STATSCLINE :: int where "RPL_STATSCLINE \<equiv> 213"
abbreviation RPL_STATSNLINE :: int where "RPL_STATSNLINE \<equiv> 214"
abbreviation RPL_STATSILINE :: int where "RPL_STATSILINE \<equiv> 215"
abbreviation RPL_STATSKLINE :: int where "RPL_STATSKLINE \<equiv> 216"
abbreviation RPL_STATSYLINE :: int where "RPL_STATSYLINE \<equiv> 218"
abbreviation RPL_ENDOFSTATS :: int where "RPL_ENDOFSTATS \<equiv> 219"
abbreviation RPL_STATSLLINE :: int where "RPL_STATSLLINE \<equiv> 241"
abbreviation RPL_STATSUPTIME :: int where "RPL_STATSUPTIME \<equiv> 242"
abbreviation RPL_STATSOLINE :: int where "RPL_STATSOLINE \<equiv> 243"
abbreviation RPL_STATSHLINE :: int where "RPL_STATSHLINE \<equiv> 244"
abbreviation RPL_STATSTLINE :: int where "RPL_STATSTLINE \<equiv> 250"
abbreviation RPL_UMODEIS :: int where "RPL_UMODEIS \<equiv> 221"
abbreviation RPL_SERVLIST :: int where "RPL_SERVLIST \<equiv> 234"
abbreviation RPL_SERVLISTEND :: int where "RPL_SERVLISTEND \<equiv> 235"
abbreviation RPL_LUSERCLIENT :: int where "RPL_LUSERCLIENT \<equiv> 251"
abbreviation RPL_LUSEROP :: int where "RPL_LUSEROP \<equiv> 252"
abbreviation RPL_LUSERUNKNOWN :: int where "RPL_LUSERUNKNOWN \<equiv> 253"
abbreviation RPL_LUSERCHANNELS :: int where "RPL_LUSERCHANNELS \<equiv> 254"
abbreviation RPL_LUSERME :: int where "RPL_LUSERME \<equiv> 255"
abbreviation RPL_ADMINME :: int where "RPL_ADMINME \<equiv> 256"
abbreviation RPL_ADMINLOC1 :: int where "RPL_ADMINLOC1 \<equiv> 257"
abbreviation RPL_ADMINLOC2 :: int where "RPL_ADMINLOC2 \<equiv> 258"
abbreviation RPL_ADMINLOC3 :: int where "RPL_ADMINLOC3 \<equiv> 259"
abbreviation RPL_TRYAGAIN :: int where "RPL_TRYAGAIN \<equiv> 263"
abbreviation RPL_LOCALUSERS :: int where "RPL_LOCALUSERS \<equiv> 265"
abbreviation RPL_GLOBALUSERS :: int where "RPL_GLOBALUSERS \<equiv> 266"
abbreviation RPL_WHOISSSL :: int where "RPL_WHOISSSL \<equiv> 275"
abbreviation RPL_STATSQLINE :: int where "RPL_STATSQLINE \<equiv> 217"
abbreviation RPL_STATSPLINE :: int where "RPL_STATSPLINE \<equiv> 249"
abbreviation ERR_BADCOMMAND :: int where "ERR_BADCOMMAND \<equiv> 900"
abbreviation RPL_LOGGEDINAS :: int where "RPL_LOGGEDINAS \<equiv> 901"
abbreviation ERR_ALREADYAUTHENTICATED :: int where "ERR_ALREADYAUTHENTICATED \<equiv> 909"
abbreviation ERR_AUTHENTICATIONFAILED :: int where "ERR_AUTHENTICATIONFAILED \<equiv> 910"
abbreviation ERR_AUTHENTICATIONSUSPENDED :: int where "ERR_AUTHENTICATIONSUSPENDED \<equiv> 911"
abbreviation ERR_UNKNOWNPACKAGE :: int where "ERR_UNKNOWNPACKAGE \<equiv> 912"

end
