(* ===== verification/Redirect.thy ===== *)
theory Redirect
  imports Line Numerics
begin

text \<open>
  \<open>libirc/redirect.c\<close> and \<open>src/redirect.c\<close>: which client gets a reply. Every command a client
  sends is recorded in the query stack with the replies that may answer it; a numeric from
  the server goes to the oldest recorded command that it can answer, and an end reply or an
  error takes that command off the stack. The entries hold references to the clients; the
  calls of \<open>ref_userdata\<close> and \<open>unref_userdata\<close> are part of every operation's result.
\<close>

section \<open>The table of commands\<close>

datatype query_handler = Handle_default | Handle_topic

text \<open>The arrays as they are initialised, with their terminating 0.\<close>

record query =
  q_name :: "string option"
  q_replies :: "int list"
  q_end_replies :: "int list"
  q_errors :: "int list"
  q_handle :: query_handler

definition mk_query ::
    "string \<Rightarrow> int list \<Rightarrow> int list \<Rightarrow> int list \<Rightarrow> query_handler \<Rightarrow> query" where
  "mk_query name rs es errs h =
     \<lparr>q_name = Some name, q_replies = rs, q_end_replies = es, q_errors = errs, q_handle = h\<rparr>"

definition queries_1 :: "query list" where
  "queries_1 =
     [mk_query ''WHOIS''
         [RPL_WHOISUSER, RPL_WHOISCHANNELS, RPL_AWAY, RPL_WHOISIDLE, RPL_WHOISCHANNELS,
           RPL_WHOISIP, RPL_WHOISSERVER, RPL_WHOISOPERATOR, RPL_WHOISACTUALLY, RPL_WHOISSSL,
           RPL_WHOISACCOUNT, RPL_WHOISIDENTIFIED, RPL_WHOISSERVEROPERATOR,
           RPL_WHOISNETWORKSERVICE, RPL_WHOISOPERPRIVS, ERR_NOSUCHNICK, 0]
         [RPL_ENDOFWHOIS, RPL_TRYAGAIN, 0]
         [ERR_NOSUCHSERVER, ERR_NONICKNAMEGIVEN, 0]
         Handle_default,
      mk_query ''WHO''
         [RPL_WHOREPLY, RPL_WHOSPCRPL, 0]
         [RPL_ENDOFWHO, RPL_TRYAGAIN, 0]
         [ERR_NOSUCHSERVER, 0]
         Handle_default,
      mk_query ''NAMES''
         [RPL_NAMREPLY, 0]
         [RPL_ENDOFNAMES, RPL_TRYAGAIN, 0]
         [ERR_TOOMANYMATCHES, ERR_NOSUCHSERVER, 0]
         Handle_default,
      mk_query ''LIST''
         [RPL_LIST, RPL_LISTSTART, 0]
         [RPL_LISTEND, RPL_TRYAGAIN, 0]
         [ERR_TOOMANYMATCHES, ERR_NOSUCHSERVER, 0]
         Handle_default,
      mk_query ''TOPIC''
         [0]
         [RPL_NOTOPIC, RPL_TOPIC, RPL_TRYAGAIN, 0]
         [ERR_NOTONCHANNEL, ERR_NEEDMOREPARAMS, ERR_CHANOPPRIVSNEEDED, ERR_NOCHANMODES, 0]
         Handle_topic,
      mk_query ''WHOWAS''
         [RPL_WHOWASUSER, RPL_WHOISSERVER, RPL_WHOWAS_TIME, ERR_WASNOSUCHNICK, 0]
         [RPL_ENDOFWHOWAS, RPL_TRYAGAIN, 0]
         [ERR_NONICKNAMEGIVEN, 0]
         Handle_default,
      mk_query ''STATS''
         [RPL_STATSCLINE, RPL_STATSILINE, RPL_STATSQLINE, RPL_STATSPLINE, RPL_STATSLINKINFO,
           RPL_STATSCOMMANDS, RPL_STATSHLINE, RPL_STATSNLINE, RPL_STATSKLINE, RPL_STATSLLINE,
           RPL_STATSUPTIME, RPL_STATSOLINE, RPL_STATSTLINE, 0]
         [RPL_TRYAGAIN, RPL_ENDOFSTATS, 0]
         [ERR_NOSUCHSERVER, 0]
         Handle_default,
      mk_query ''VERSION''
         [0]
         [RPL_VERSION, RPL_TRYAGAIN, 0]
         [ERR_NOSUCHSERVER, 0]
         Handle_default,
      mk_query ''LINKS''
         [RPL_LINKS, 0]
         [RPL_ENDOFLINKS, RPL_TRYAGAIN, 0]
         [ERR_NOSUCHSERVER, 0]
         Handle_default,
      mk_query ''TIME''
         [0]
         [RPL_TIME, RPL_TRYAGAIN, 0]
         [ERR_NOSUCHSERVER, 0]
         Handle_default,
      mk_query ''TRACE''
         [RPL_TRACELINK, RPL_TRACECONNECTING, RPL_TRACEUNKNOWN, RPL_TRACEUSER, RPL_TRACECLASS,
           RPL_TRACEHANDSHAKE, RPL_TRACEOPERATOR, RPL_TRACESERVER, RPL_TRACENEWTYPE, 0]
         [RPL_TRYAGAIN, 0]
         [ERR_NOSUCHSERVER, 0]
         Handle_default,
      mk_query ''SUMMON''
         [0]
         [RPL_SUMMONING, RPL_TRYAGAIN, 0]
         [ERR_NORECIPIENT, ERR_FILEERROR, ERR_NOLOGIN, ERR_NOSUCHSERVER, 0]
         Handle_default,
      mk_query ''USERS''
         [RPL_USERSSTART, RPL_USERS, RPL_NOUSERS, 0]
         [RPL_ENDOFUSERS, RPL_TRYAGAIN, 0]
         [ERR_NOSUCHSERVER, ERR_FILEERROR, ERR_USERSDISABLED, 0]
         Handle_default,
      mk_query ''USERHOST''
         [0]
         [RPL_USERHOST, RPL_TRYAGAIN, 0]
         [ERR_NEEDMOREPARAMS, 0]
         Handle_default,
      mk_query ''ISON''
         [0]
         [RPL_ISON, RPL_TRYAGAIN, 0]
         [ERR_NEEDMOREPARAMS, 0]
         Handle_default,
      mk_query ''JOIN''
         [0]
         [RPL_TRYAGAIN, 0]
         [ERR_NEEDMOREPARAMS, ERR_BANNEDFROMCHAN, ERR_INVITEONLYCHAN, ERR_BADCHANNELKEY,
           ERR_CHANNELISFULL, ERR_BADCHANMASK, ERR_FORWARDING, ERR_NOSUCHCHANNEL,
           ERR_ILLEGALCHANNELNAME, ERR_TOOMANYCHANNELS, 0]
         Handle_default]"

definition queries_2 :: "query list" where
  "queries_2 =
     [mk_query ''PART''
         [0]
         [RPL_TRYAGAIN, 0]
         [ERR_NEEDMOREPARAMS, ERR_NOSUCHCHANNEL, ERR_NOTONCHANNEL, 0]
         Handle_default,
      mk_query ''NICK''
         [0]
         [RPL_TRYAGAIN, 0]
         [ERR_NONICKNAMEGIVEN, ERR_ERRONEUSNICKNAME, ERR_NICKNAMEINUSE, ERR_UNAVAILRESOURCE,
           ERR_RESTRICTED, ERR_NICKCOLLISION, ERR_NICKTOOFAST, 0]
         Handle_default,
      mk_query ''PASS''
         [0]
         [0]
         [ERR_NEEDMOREPARAMS, ERR_ALREADYREGISTERED, 0]
         Handle_default,
      mk_query ''USER''
         [0]
         [RPL_TRYAGAIN, 0]
         [ERR_NEEDMOREPARAMS, ERR_ALREADYREGISTERED, 0]
         Handle_default,
      mk_query ''QUIT''
         [0]
         [RPL_TRYAGAIN, 0]
         [0]
         Handle_default,
      mk_query ''OPER''
         [0]
         [RPL_YOUREOPER, RPL_TRYAGAIN, 0]
         [ERR_NEEDMOREPARAMS, ERR_NOOPERHOST, ERR_PASSWDMISMATCH, 0]
         Handle_default,
      mk_query ''MODE''
         [RPL_BANLIST, RPL_EXCEPTLIST, RPL_INVITELIST, 0]
         [RPL_UMODEIS, RPL_CHANNELMODEIS, RPL_ENDOFBANLIST, RPL_ENDOFEXCEPTLIST,
           RPL_ENDOFINVITELIST, RPL_UNIQOPIS, RPL_TRYAGAIN, 0]
         [ERR_NEEDMOREPARAMS, ERR_UMODEUNKNOWNFLAG, ERR_USERSDONTMATCH, ERR_USERNOTINCHANNEL,
           ERR_KEYSET, ERR_CHANOPPRIVSNEEDED, ERR_UNKNOWNMODE, ERR_NOCHANMODES,
           ERR_NOSUCHCHANNEL, ERR_ILLEGALCHANNELNAME, 0]
         Handle_default,
      mk_query ''SERVICE''
         [0]
         [RPL_YOURESERVICE, RPL_YOURHOST, RPL_MYINFO, RPL_TRYAGAIN, 0]
         [ERR_ALREADYREGISTERED, ERR_NEEDMOREPARAMS, ERR_ERRONEUSNICKNAME, 0]
         Handle_default,
      mk_query ''SQUIT''
         [0]
         [RPL_TRYAGAIN, 0]
         [ERR_NOPRIVILEGES, ERR_NEEDMOREPARAMS, ERR_NOSUCHSERVER, 0]
         Handle_default,
      mk_query ''INVITE''
         [0]
         [RPL_INVITING, RPL_AWAY, RPL_TRYAGAIN, 0]
         [ERR_NEEDMOREPARAMS, ERR_NOTONCHANNEL, ERR_NOSUCHNICK, ERR_CHANOPPRIVSNEEDED,
           ERR_USERONCHANNEL, 0]
         Handle_default,
      mk_query ''KICK''
         [0]
         [RPL_TRYAGAIN, 0]
         [ERR_NEEDMOREPARAMS, ERR_BADCHANMASK, ERR_USERNOTINCHANNEL, ERR_NOSUCHCHANNEL,
           ERR_CHANOPPRIVSNEEDED, ERR_NOTONCHANNEL, 0]
         Handle_default,
      mk_query ''PRIVMSG''
         [0]
         [RPL_AWAY, RPL_TRYAGAIN, 0]
         [ERR_NORECIPIENT, ERR_NOTEXTTOSEND, ERR_CANNOTSENDTOCHAN, ERR_NOTOPLEVEL,
           ERR_TOOMANYTARGETS, ERR_WILDTOPLEVEL, ERR_NOSUCHNICK, ERR_NOSUCHCHANNEL,
           ERR_BLOCKING_NOTID, 0]
         Handle_default,
      mk_query ''NICKSERV''
         [0]
         [RPL_TRYAGAIN, 0]
         [ERR_NOTEXTTOSEND, 0]
         Handle_default,
      mk_query ''CHANSERV''
         [0]
         [RPL_TRYAGAIN, 0]
         [ERR_NOTEXTTOSEND, 0]
         Handle_default,
      mk_query ''MOTD''
         [RPL_MOTDSTART, RPL_MOTD, 0]
         [RPL_ENDOFMOTD, RPL_TRYAGAIN, 0]
         [ERR_NOMOTD, 0]
         Handle_default]"

definition queries_3 :: "query list" where
  "queries_3 =
     [mk_query ''LUSERS''
         [RPL_LUSERCLIENT, RPL_LUSEROP, RPL_LUSERUNKNOWN, RPL_LUSERCHANNELS, RPL_LUSERME,
           RPL_STATSTLINE, 0]
         [RPL_TRYAGAIN, 0]
         [ERR_NOSUCHSERVER, 0]
         Handle_default,
      mk_query ''CONNECT''
         [0]
         [RPL_TRYAGAIN, 0]
         [ERR_NOSUCHSERVER, ERR_NEEDMOREPARAMS, ERR_NOPRIVILEGES, 0]
         Handle_default,
      mk_query ''ADMIN''
         [RPL_ADMINME, RPL_ADMINLOC2, RPL_ADMINLOC1, RPL_ADMINLOC3, 0]
         [RPL_TRYAGAIN, 0]
         [ERR_NOSUCHSERVER, 0]
         Handle_default,
      mk_query ''INFO''
         [RPL_INFO, 0]
         [RPL_TRYAGAIN, RPL_ENDOFINFO, 0]
         [ERR_NOSUCHSERVER, 0]
         Handle_default,
      mk_query ''SERVLIST''
         [RPL_SERVLIST, 0]
         [RPL_TRYAGAIN, RPL_SERVLISTEND, 0]
         [0]
         Handle_default,
      mk_query ''SQUERY''
         [0]
         [RPL_AWAY, RPL_TRYAGAIN, 0]
         [ERR_NORECIPIENT, ERR_NOTEXTTOSEND, ERR_CANNOTSENDTOCHAN, ERR_NOTOPLEVEL,
           ERR_TOOMANYTARGETS, ERR_WILDTOPLEVEL, ERR_NOSUCHNICK, 0]
         Handle_default,
      mk_query ''KILL''
         [0]
         [RPL_TRYAGAIN, 0]
         [ERR_NOPRIVILEGES, ERR_NEEDMOREPARAMS, ERR_NOSUCHNICK, ERR_CANTKILLSERVER, 0]
         Handle_default,
      mk_query ''AWAY''
         [0]
         [RPL_UNAWAY, RPL_NOWAWAY, RPL_TRYAGAIN, 0]
         [0]
         Handle_default,
      mk_query ''REHASH''
         [0]
         [RPL_REHASHING, RPL_TRYAGAIN, 0]
         [ERR_NOPRIVILEGES, 0]
         Handle_default,
      mk_query ''DIE''
         [0]
         [RPL_TRYAGAIN, 0]
         [ERR_NOPRIVILEGES, 0]
         Handle_default,
      mk_query ''RESTART''
         [0]
         [RPL_TRYAGAIN, 0]
         [ERR_NOPRIVILEGES, 0]
         Handle_default,
      mk_query ''PING''
         [0]
         [RPL_TRYAGAIN, 0]
         [ERR_NOORIGIN, 0]
         Handle_default,
      mk_query ''WALLOPS''
         [0]
         [RPL_TRYAGAIN, 0]
         [ERR_NEEDMOREPARAMS, 0]
         Handle_default,
      mk_query ''PONG''
         [0]
         [RPL_TRYAGAIN, 0]
         [ERR_NOORIGIN, ERR_NOSUCHSERVER, 0]
         Handle_default,
      mk_query ''NOTICE''
         [0]
         [RPL_TRYAGAIN, 0]
         [0]
         Handle_default,
      mk_query ''AUTH''
         [0]
         [RPL_TRYAGAIN, 0]
         [ERR_NEEDMOREPARAMS, ERR_ALREADYAUTHENTICATED, ERR_ALREADYREGISTERED,
           ERR_AUTHENTICATIONFAILED, ERR_AUTHENTICATIONSUSPENDED, ERR_BADCOMMAND,
           ERR_UNKNOWNPACKAGE, 0]
         Handle_default,
      mk_query ''CAPAB''
         [0]
         [RPL_CAPAB, 0]
         [ERR_NEEDMOREPARAMS, 0]
         Handle_default]"

definition queries :: "query list" where
  "queries = queries_1 @ queries_2 @ queries_3"

definition unknown_query :: query where
  "unknown_query =
     \<lparr>q_name = None, q_replies = [0], q_end_replies = [RPL_TRYAGAIN, 0],
      q_errors = [ERR_UNKNOWNCOMMAND, 0], q_handle = Handle_default\<rparr>"

text \<open>The scan of an array of 20 codes: up to the first 0, or to its end.\<close>

fun is_reply_from :: "nat \<Rightarrow> int list \<Rightarrow> int \<Rightarrow> bool" where
  "is_reply_from i [] r = False"
| "is_reply_from i (x # xs) r =
     (if i < 20 \<and> x \<noteq> 0 then (if x = r then True else is_reply_from (Suc i) xs r) else False)"

definition is_reply :: "int list \<Rightarrow> int \<Rightarrow> bool" where
  "is_reply replies r = is_reply_from 0 replies r"

definition find_query :: "string \<Rightarrow> query option" where
  "find_query name =
     List.find (\<lambda>q. case q_name q of None \<Rightarrow> False | Some n \<Rightarrow> base_eq n name) queries"

section \<open>The stack\<close>

record 'u query_stack_entry =
  e_query :: query
  e_userdata :: 'u
  e_time :: int

record 'u query_stack =
  qs_entries :: "'u query_stack_entry list"

datatype 'u ref_call = Ref_userdata 'u | Unref_userdata 'u

definition new_query_stack :: "'u query_stack" where
  "new_query_stack = \<lparr>qs_entries = []\<rparr>"

definition accepts :: "query \<Rightarrow> int \<Rightarrow> bool" where
  "accepts q n \<longleftrightarrow> is_reply (q_replies q) n \<or> is_reply (q_errors q) n \<or> is_reply (q_end_replies q) n"

definition query_stack_free_entry :: "'u query_stack_entry \<Rightarrow> 'u ref_call list" where
  "query_stack_free_entry e = [Unref_userdata (e_userdata e)]"

text \<open>The loop over the entries: what is returned, the entries left, the calls made.\<close>

fun match_entries ::
    "int \<Rightarrow> 'u query_stack_entry list \<Rightarrow>
     'u option \<times> 'u query_stack_entry list \<times> 'u ref_call list" where
  "match_entries n [] = (None, [], [])"
| "match_entries n (e # es) =
     (if accepts (e_query e) n then
        (if is_reply (q_replies (e_query e)) n then (Some (e_userdata e), e # es, [])
         else (Some (e_userdata e), es, query_stack_free_entry e))
      else
        (let (ret, es', cs) = match_entries n es in (ret, e # es', cs)))"

definition query_stack_match_response ::
    "'u query_stack \<Rightarrow> irc_line \<Rightarrow> ('u option \<times> 'u query_stack \<times> 'u ref_call list) res" where
  "query_stack_match_response stack l =
     bind_res (guard_res (args l \<noteq> []) AssertFail) (\<lambda>_.
     let (ret, es, cs) = match_entries (irc_line_respcode l) (qs_entries stack)
     in Inr (ret, stack\<lparr>qs_entries := es\<rparr>, cs))"

definition query_stack_clear :: "'u query_stack \<Rightarrow> 'u query_stack \<times> 'u ref_call list" where
  "query_stack_clear stack =
     (stack\<lparr>qs_entries := []\<rparr>, concat (map query_stack_free_entry (qs_entries stack)))"

definition handle_default ::
    "int \<Rightarrow> 'u query_stack \<Rightarrow> 'u \<Rightarrow> query \<Rightarrow> 'u query_stack \<times> 'u ref_call list" where
  "handle_default now stack userdata q =
     (stack\<lparr>qs_entries := qs_entries stack @
        [\<lparr>e_query = q, e_userdata = userdata, e_time = now\<rparr>]\<rparr>, [Ref_userdata userdata])"

text \<open>A TOPIC line with a new topic has no reply to wait for.\<close>

definition handle_topic ::
    "int \<Rightarrow> irc_line \<Rightarrow> 'u query_stack \<Rightarrow> 'u \<Rightarrow> query \<Rightarrow> ('u query_stack \<times> 'u ref_call list) res" where
  "handle_topic now l stack userdata q =
     bind_res (arg l 2) (\<lambda>a2.
     if a2 \<noteq> None then Inr (stack, []) else Inr (handle_default now stack userdata q))"

definition query_stack_record ::
    "int \<Rightarrow> 'u query_stack \<Rightarrow> 'u \<Rightarrow> irc_line \<Rightarrow> (bool \<times> 'u query_stack \<times> 'u ref_call list) res" where
  "query_stack_record now stack userdata l =
     bind_res (guard_res (args l \<noteq> []) AssertFail) (\<lambda>_.
     let (ret, q) = (case find_query (args l ! 0) of
                       None \<Rightarrow> (False, unknown_query) | Some q \<Rightarrow> (True, q)) in
     bind_res (case q_handle q of
                 Handle_default \<Rightarrow> Inr (handle_default now stack userdata q)
               | Handle_topic \<Rightarrow> handle_topic now l stack userdata q) (\<lambda>(stack', cs).
     Inr (ret, stack', cs)))"

section \<open>Redirecting a reply\<close>

definition response_all :: "int list" where
  "response_all =
     [RPL_NOWAWAY, RPL_UNAWAY, ERR_NO_OP_SPLIT, RPL_HIDINGHOST, ERR_NEEDREGGEDNICK, RPL_UMODEIS,
      RPL_SNOMASK, RPL_LUSERCLIENT, RPL_LUSEROP, RPL_LUSERUNKNOWN, RPL_LUSERCHANNELS, RPL_LUSERME,
      ERR_NO_OP_SPLIT, RPL_LOCALUSERS, RPL_GLOBALUSERS, RPL_NAMREPLY, RPL_ENDOFNAMES, RPL_TOPIC,
      RPL_TOPICWHOTIME, RPL_CHANNEL_HOMEPAGE, RPL_CREATIONTIME, RPL_LOGGEDINAS]"

definition response_none :: "int list" where
  "response_none = [ERR_NOMOTD, RPL_MOTDSTART, RPL_MOTD, RPL_ENDOFMOTD]"

text \<open>The handlers of these codes only log, and answer TRUE.\<close>

definition response_handler :: "int list" where
  "response_handler =
     [ERR_PASSWDMISMATCH, ERR_ALREADYREGISTERED, ERR_NOPERMFORHOST, ERR_NOTREGISTERED,
      ERR_YOUREBANNEDCREEP]"

text \<open>Where \<open>redirect_response\<close> sends the line.\<close>

datatype 'u delivery = To_client 'u | To_all | To_none

definition redirect_response ::
    "'u query_stack \<Rightarrow> irc_line \<Rightarrow> (bool \<times> 'u delivery \<times> 'u query_stack \<times> 'u ref_call list) res" where
  "redirect_response stack l =
     bind_res (query_stack_match_response stack l) (\<lambda>(ret, stack', cs).
     case ret of
       Some c \<Rightarrow> Inr (True, To_client c, stack', cs)
     | None \<Rightarrow>
         let n = irc_line_respcode l in
         if n \<in> set response_all then Inr (False, To_all, stack', cs)
         else if n \<in> set response_none then Inr (True, To_none, stack', cs)
         else if n \<in> set response_handler then Inr (True, To_none, stack', cs)
         else Inr (False, To_all, stack', cs))"

section \<open>Matching against a list of outstanding requests\<close>

text \<open>
  The contract between the stack and its queries: a code that keeps a request open is one
  that answers it. With this, matching is a first-in first-out selection among the requests
  that the code answers.
\<close>

locale request_list =
  fixes answers :: "'q \<Rightarrow> 'n \<Rightarrow> bool"
    and keeps_open :: "'q \<Rightarrow> 'n \<Rightarrow> bool"
  assumes keeps_open_answers: "keeps_open q n \<Longrightarrow> answers q n"
begin

text \<open>The reference selection.\<close>

definition select :: "('e \<Rightarrow> 'q) \<Rightarrow> 'n \<Rightarrow> 'e list \<Rightarrow> 'e option \<times> 'e list" where
  "select qof n es =
     (case List.extract (\<lambda>e. answers (qof e) n) es of
        None \<Rightarrow> (None, es)
      | Some (pre, e, post) \<Rightarrow> (Some e, if keeps_open (qof e) n then es else pre @ post))"

lemma select_oldest:
  assumes "select qof n es = (Some e, es')"
  obtains pre post where "es = pre @ e # post" "answers (qof e) n"
    "\<forall>x\<in>set pre. \<not> answers (qof x) n" "es' = (if keeps_open (qof e) n then es else pre @ post)"
  using assms by (auto simp: select_def extract_Some_iff split: option.splits if_splits)

lemma select_none:
  "select qof n es = (None, es') \<longleftrightarrow> es' = es \<and> (\<forall>x\<in>set es. \<not> answers (qof x) n)"
  by (auto simp: select_def extract_None_iff extract_Some_iff split: option.splits)

end

interpretation qs: request_list accepts "\<lambda>q n. is_reply (q_replies q) n"
  by unfold_locales (simp add: accepts_def)

section \<open>Lemmas\<close>

lemma is_reply_from_iff:
  "i + length xs \<le> 20 \<Longrightarrow> is_reply_from i xs r \<longleftrightarrow> r \<in> set (takeWhile (\<lambda>x. x \<noteq> 0) xs)"
  by (induction xs arbitrary: i) auto

lemma is_reply_iff:
  "length xs \<le> 20 \<Longrightarrow> is_reply xs r \<longleftrightarrow> r \<in> set (takeWhile (\<lambda>x. x \<noteq> 0) xs)"
  using is_reply_from_iff [of 0 xs r] by (simp add: is_reply_def)

lemma match_entries_select:
  "match_entries n es =
     (let (r, es') = qs.select e_query n es in
      (map_option e_userdata r, es',
       case r of None \<Rightarrow> []
       | Some e \<Rightarrow> if is_reply (q_replies (e_query e)) n then [] else [Unref_userdata (e_userdata e)]))"
  by (induction es)
    (auto simp: qs.select_def query_stack_free_entry_def extract_Nil_code extract_Cons_code
      split: option.splits)

section \<open>References\<close>

text \<open>The references that a sequence of calls adds to a client, and those the entries hold.\<close>

fun refs_added :: "'u \<Rightarrow> 'u ref_call list \<Rightarrow> int" where
  "refs_added u [] = 0"
| "refs_added u (Ref_userdata v # cs) = (if v = u then 1 else 0) + refs_added u cs"
| "refs_added u (Unref_userdata v # cs) = (if v = u then - 1 else 0) + refs_added u cs"

definition refs_held :: "'u \<Rightarrow> 'u query_stack \<Rightarrow> int" where
  "refs_held u stack = int (length (filter (\<lambda>e. e_userdata e = u) (qs_entries stack)))"

lemma refs_added_append [simp]: "refs_added u (xs @ ys) = refs_added u xs + refs_added u ys"
  by (induction u xs rule: refs_added.induct) auto

text \<open>The operations of the stack as one step relation: what it does and the calls it makes.\<close>

inductive stack_step :: "'u query_stack \<Rightarrow> 'u ref_call list \<Rightarrow> 'u query_stack \<Rightarrow> bool" where
  record_query: "query_stack_record now s u l = Inr (b, s', cs) \<Longrightarrow> stack_step s cs s'"
| match_response: "query_stack_match_response s l = Inr (r, s', cs) \<Longrightarrow> stack_step s cs s'"
| clear_stack: "query_stack_clear s = (s', cs) \<Longrightarrow> stack_step s cs s'"

inductive stack_run :: "'u query_stack \<Rightarrow> 'u ref_call list \<Rightarrow> 'u query_stack \<Rightarrow> bool" where
  run_nil: "stack_run s [] s"
| run_step: "stack_run s cs s' \<Longrightarrow> stack_step s' ds s'' \<Longrightarrow> stack_run s (cs @ ds) s''"

inductive_cases stack_stepE: "stack_step s cs s'"

lemma refs_match_entries:
  "match_entries n es = (r, es', cs) \<Longrightarrow>
   int (length (filter (\<lambda>e. e_userdata e = u) es')) =
     int (length (filter (\<lambda>e. e_userdata e = u) es)) + refs_added u cs"
proof (induction es arbitrary: r es' cs)
  case (Cons e es)
  then show ?case
    by (cases "match_entries n es") (auto simp: query_stack_free_entry_def split: if_splits)
qed simp

lemma refs_clear:
  "refs_added u (concat (map query_stack_free_entry es)) =
     - int (length (filter (\<lambda>e. e_userdata e = u) es))"
  by (induction es) (auto simp: query_stack_free_entry_def)

lemma refs_record:
  "query_stack_record now s v l = Inr (b, s', cs) \<Longrightarrow> refs_held u s' = refs_held u s + refs_added u cs"
  by (auto simp: query_stack_record_def handle_topic_def handle_default_def refs_held_def Let_def
      split: option.splits query_handler.splits if_splits)

lemma refs_match:
  assumes "query_stack_match_response s l = Inr (r, s', cs)"
  shows "refs_held u s' = refs_held u s + refs_added u cs"
proof -
  obtain es where "match_entries (irc_line_respcode l) (qs_entries s) = (r, es, cs)"
    "s' = s\<lparr>qs_entries := es\<rparr>"
    using assms by (auto simp: query_stack_match_response_def Let_def split: prod.splits)
  then show ?thesis using refs_match_entries [of _ "qs_entries s"] by (auto simp: refs_held_def)
qed

lemma refs_clear_stack:
  "query_stack_clear s = (s', cs) \<Longrightarrow> refs_held u s' = refs_held u s + refs_added u cs"
  by (auto simp: query_stack_clear_def refs_held_def refs_clear)

lemma stack_step_refs:
  "stack_step s cs s' \<Longrightarrow> refs_held u s' = refs_held u s + refs_added u cs"
  by (erule stack_stepE) (simp_all add: refs_record refs_match refs_clear_stack)

lemma stack_run_refs: "stack_run s cs s' \<Longrightarrow> refs_held u s' = refs_held u s + refs_added u cs"
  by (induction rule: stack_run.induct) (auto simp: stack_step_refs)

text \<open>The table: every array is closed by a 0 within its 20 elements.\<close>

definition closed_array :: "int list \<Rightarrow> bool" where
  "closed_array xs \<longleftrightarrow> xs \<noteq> [] \<and> length xs \<le> 20 \<and> last xs = 0 \<and> (\<forall>x\<in>set (butlast xs). x \<noteq> 0)"

lemma queries_closed:
  "\<forall>q\<in>set (unknown_query # queries).
     closed_array (q_replies q) \<and> closed_array (q_end_replies q) \<and> closed_array (q_errors q)"
  by (simp add: queries_def queries_1_def queries_2_def queries_3_def unknown_query_def mk_query_def
      closed_array_def)

lemma closed_array_takeWhile:
  "closed_array xs \<Longrightarrow> set (takeWhile (\<lambda>x. x \<noteq> 0) xs) = set xs - {0}"
proof -
  assume c: "closed_array xs"
  then obtain ys where ys: "xs = ys @ [0]" "\<forall>y\<in>set ys. y \<noteq> 0"
    unfolding closed_array_def by (metis append_butlast_last_id)
  then show ?thesis by (auto simp: takeWhile_append)
qed

lemma is_reply_closed:
  assumes "closed_array xs"
  shows "is_reply xs r \<longleftrightarrow> r \<in> set xs \<and> r \<noteq> 0"
proof -
  have "length xs \<le> 20" using assms by (simp add: closed_array_def)
  then show ?thesis
    using closed_array_takeWhile [OF assms] is_reply_iff [of xs r] by simp
qed

section \<open>Properties\<close>

text \<open>C16. A reply goes to the oldest recorded command that it can answer; that command is taken
  off the stack, and its client released, exactly when the code is not an intermediate reply.
  The order of the other commands does not change. A reply that answers none changes nothing.\<close>

theorem match_oldest_query:
  assumes "args l \<noteq> []" "qs_entries s = pre @ e # post" "accepts (e_query e) (irc_line_respcode l)"
    "\<forall>x\<in>set pre. \<not> accepts (e_query x) (irc_line_respcode l)"
  shows "query_stack_match_response s l =
    (if is_reply (q_replies (e_query e)) (irc_line_respcode l)
     then Inr (Some (e_userdata e), s, [])
     else Inr (Some (e_userdata e), s\<lparr>qs_entries := pre @ post\<rparr>, [Unref_userdata (e_userdata e)]))"
proof -
  have "List.extract (\<lambda>x. accepts (e_query x) (irc_line_respcode l)) (qs_entries s) = Some (pre, e, post)"
    using assms(2-4) by (simp add: extract_Some_iff)
  then show ?thesis
    using assms(1,2)
    by (simp add: query_stack_match_response_def match_entries_select qs.select_def Let_def)
qed

theorem match_oldest_query_witness:
  "\<exists>e1 e2. e_userdata e1 = (1::nat) \<and> e_userdata e2 = (2::nat) \<and>
     query_stack_match_response \<lparr>qs_entries = [e1, e2]\<rparr>
       \<lparr>origin = None, args = [''318'', ''me'', ''bob''], endcolon = COLON_UNKNOWN\<rparr> =
     Inr (Some 1, \<lparr>qs_entries = [e2]\<rparr>, [Unref_userdata 1])"
proof -
  let ?q = "mk_query ''WHOIS'' [RPL_WHOISUSER, 0] [RPL_ENDOFWHOIS, RPL_TRYAGAIN, 0] [0] Handle_default"
  let ?e1 = "\<lparr>e_query = ?q, e_userdata = 1::nat, e_time = 0\<rparr>" and ?e2 = "\<lparr>e_query = ?q, e_userdata = 2::nat, e_time = 0\<rparr>"
  let ?l = "\<lparr>origin = None, args = [''318'', ''me'', ''bob''], endcolon = COLON_UNKNOWN\<rparr>"
  have "accepts ?q (irc_line_respcode ?l)" "\<not> is_reply (q_replies ?q) (irc_line_respcode ?l)"
    by code_simp+
  then have "query_stack_match_response \<lparr>qs_entries = [?e1, ?e2]\<rparr> ?l =
      Inr (Some 1, \<lparr>qs_entries = [?e2]\<rparr>, [Unref_userdata 1])"
    using match_oldest_query [of ?l "\<lparr>qs_entries = [?e1, ?e2]\<rparr>" "[]" ?e1 "[?e2]"] by simp
  then show ?thesis by (intro exI [of _ ?e1] exI [of _ ?e2]) simp
qed

text \<open>C7. References are balanced over every sequence of recording, matching and clearing: the
  references taken minus those released are those the stack still holds, for every client.\<close>

theorem query_stack_refs_balanced:
  assumes "stack_run new_query_stack cs s"
  shows "refs_added u cs = refs_held u s"
  using stack_run_refs [OF assms, of u] by (simp add: new_query_stack_def refs_held_def)

theorem query_stack_refs_balanced_witness:
  "\<exists>s. stack_run new_query_stack [Ref_userdata (7::nat)] s \<and> refs_held 7 s = 1"
proof -
  let ?l = "\<lparr>origin = None, args = [''WHOIS'', ''bob''], endcolon = COLON_UNKNOWN\<rparr>"
  have q: "\<exists>q. find_query ''WHOIS'' = Some q \<and> q_handle q = Handle_default"
    by (simp add: find_query_def queries_def queries_1_def mk_query_def base_strcmp_def)
  then obtain s where "query_stack_record 0 new_query_stack (7::nat) ?l = Inr (True, s, [Ref_userdata 7])"
    by (auto simp: query_stack_record_def handle_default_def)
  then have "stack_step new_query_stack [Ref_userdata (7::nat)] s" by (rule record_query)
  with run_nil have run: "stack_run new_query_stack ([] @ [Ref_userdata (7::nat)]) s" by (rule run_step)
  then show ?thesis using query_stack_refs_balanced [OF run, of 7] by auto
qed

text \<open>The command table is well formed: in every entry the three arrays end in a 0 within
  their 20 elements, so the scan finds every code that is written there and nothing else.\<close>

theorem query_table_scan_exact:
  assumes "q \<in> set (unknown_query # queries)"
  shows "accepts q r \<longleftrightarrow> r \<noteq> 0 \<and> r \<in> set (q_replies q) \<union> set (q_errors q) \<union> set (q_end_replies q)"
  using bspec [OF queries_closed assms] by (auto simp: accepts_def is_reply_closed)

theorem query_table_scan_exact_witness:
  "accepts unknown_query ERR_UNKNOWNCOMMAND \<longleftrightarrow> ERR_UNKNOWNCOMMAND \<noteq> (0::int) \<and> ERR_UNKNOWNCOMMAND \<in>
     set (q_replies unknown_query) \<union> set (q_errors unknown_query) \<union> set (q_end_replies unknown_query)"
  by (rule query_table_scan_exact) simp

end
