(* ===== verification/Hooks.thy ===== *)
theory Hooks
  imports Line
begin

text \<open>
  \<open>src/hooks.c\<close>: the chains of filters that every line passes through, and the hooks that
  may refuse a new client. A filter is called with the network, the line, the direction and
  its own data; the functions are parameters of the model, as values of the type \<open>'f\<close> in the
  entries and an evaluation function where the chain is run. The two chains \<open>log_filters\<close>
  and \<open>server_filters\<close> are values of the same type.
\<close>

section \<open>Filters\<close>

datatype data_direction = TO_SERVER | FROM_SERVER

record 'f filter_data =
  fd_name :: string
  fd_priority :: int
  fd_function :: 'f

text \<open>The difference of two \<open>int\<close> priorities, at its width.\<close>

definition filter_cmp :: "'f filter_data \<Rightarrow> 'f filter_data \<Rightarrow> int" where
  "filter_cmp a b = to_int32 (fd_priority a - fd_priority b)"

text \<open>
  \<open>g_list_insert_sorted\<close>: the new element goes in front of the first one that it does not
  compare greater than.
\<close>

fun g_list_insert_sorted :: "'a list \<Rightarrow> 'a \<Rightarrow> ('a \<Rightarrow> 'a \<Rightarrow> int) \<Rightarrow> 'a list" where
  "g_list_insert_sorted [] d cmp = [d]"
| "g_list_insert_sorted (x # xs) d cmp =
     (if cmp d x > 0 then x # g_list_insert_sorted xs d cmp else d # x # xs)"

definition add_filter_ex ::
    "'f filter_data list \<Rightarrow> string \<Rightarrow> 'f \<Rightarrow> int \<Rightarrow> 'f filter_data list" where
  "add_filter_ex cls name f prio =
     g_list_insert_sorted cls \<lparr>fd_name = name, fd_priority = prio, fd_function = f\<rparr> filter_cmp"

fun del_filter_ex :: "'f filter_data list \<Rightarrow> string \<Rightarrow> 'f filter_data list" where
  "del_filter_ex [] name = []"
| "del_filter_ex (d # ds) name =
     (if strcmp (fd_name d) name = 0 then ds else d # del_filter_ex ds name)"

text \<open>
  Running a chain: the functions work on a state \<open>'s\<close> of their own and say whether to go
  on. The result is the answer of the chain and the state after the last call made.
\<close>

fun filter_class_execute ::
    "('f \<Rightarrow> data_direction \<Rightarrow> irc_line \<Rightarrow> 's \<Rightarrow> bool \<times> 's) \<Rightarrow> 'f filter_data list \<Rightarrow>
     data_direction \<Rightarrow> irc_line \<Rightarrow> 's \<Rightarrow> bool \<times> 's" where
  "filter_class_execute ev [] dir l s = (True, s)"
| "filter_class_execute ev (d # ds) dir l s =
     (case ev (fd_function d) dir l s of
        (False, s') \<Rightarrow> (False, s')
      | (True, s') \<Rightarrow> filter_class_execute ev ds dir l s')"

record 'f filter_lists =
  log_filters :: "'f filter_data list"
  server_filters :: "'f filter_data list"

definition add_log_filter where
  "add_log_filter name f prio fl = fl\<lparr>log_filters := add_filter_ex (log_filters fl) name f prio\<rparr>"

definition del_log_filter where
  "del_log_filter name fl = fl\<lparr>log_filters := del_filter_ex (log_filters fl) name\<rparr>"

definition run_log_filter where
  "run_log_filter ev fl l dir s = filter_class_execute ev (log_filters fl) dir l s"

definition add_server_filter where
  "add_server_filter name f prio fl =
     fl\<lparr>server_filters := add_filter_ex (server_filters fl) name f prio\<rparr>"

definition del_server_filter where
  "del_server_filter name fl = fl\<lparr>server_filters := del_filter_ex (server_filters fl) name\<rparr>"

definition run_server_filter where
  "run_server_filter ev fl l dir s = filter_class_execute ev (server_filters fl) dir l s"

section \<open>Hooks for new clients\<close>

record 'h new_client_hook_data =
  hd_name :: string
  hd_hook :: 'h

definition add_new_client_hook ::
    "'h new_client_hook_data list \<Rightarrow> string \<Rightarrow> 'h \<Rightarrow> 'h new_client_hook_data list" where
  "add_new_client_hook hs name h = hs @ [\<lparr>hd_name = name, hd_hook = h\<rparr>]"

fun del_new_client_hook ::
    "'h new_client_hook_data list \<Rightarrow> string \<Rightarrow> 'h new_client_hook_data list" where
  "del_new_client_hook [] name = []"
| "del_new_client_hook (d # ds) name =
     (if strcmp (hd_name d) name = 0 then ds else d # del_new_client_hook ds name)"

fun new_client_hook_execute ::
    "('h \<Rightarrow> 's \<Rightarrow> bool \<times> 's) \<Rightarrow> 'h new_client_hook_data list \<Rightarrow> 's \<Rightarrow> bool \<times> 's" where
  "new_client_hook_execute ev [] s = (True, s)"
| "new_client_hook_execute ev (d # ds) s =
     (case ev (hd_hook d) s of
        (False, s') \<Rightarrow> (False, s')
      | (True, s') \<Rightarrow> new_client_hook_execute ev ds s')"

section \<open>Chains that stop at the first refusal\<close>

text \<open>
  Filters and hooks follow one contract: the elements are called in order, the first that
  refuses ends the chain, and the chain accepts when all accept.
\<close>

locale veto_chain =
  fixes call :: "'d \<Rightarrow> 's \<Rightarrow> bool \<times> 's"
    and run :: "'d list \<Rightarrow> 's \<Rightarrow> bool \<times> 's"
  assumes run_Nil: "run [] s = (True, s)"
    and run_refuse: "call d s = (False, s') \<Longrightarrow> run (d # ds) s = (False, s')"
    and run_accept: "call d s = (True, s') \<Longrightarrow> run (d # ds) s = run ds s'"
begin

lemma run_append: "run (xs @ ys) s = (case run xs s of (False, s') \<Rightarrow> (False, s') | (True, s') \<Rightarrow> run ys s')"
proof (induction xs arbitrary: s)
  case (Cons x xs)
  obtain b s' where c: "call x s = (b, s')" by (cases "call x s")
  show ?case
  proof (cases b)
    case True
    then show ?thesis using c Cons.IH by (simp add: run_accept)
  next
    case False
    then show ?thesis using c by (simp add: run_refuse)
  qed
qed (simp add: run_Nil)

text \<open>A chain refuses because of one element, all before it having accepted.\<close>

lemma run_refused:
  assumes "run ds s = (False, s')"
  obtains pre d post s1 where "ds = pre @ d # post" "run pre s = (True, s1)" "call d s1 = (False, s')"
  using assms
proof (induction ds arbitrary: s thesis)
  case Nil
  then show ?case by (simp add: run_Nil)
next
  case (Cons x xs)
  obtain b t where c: "call x s = (b, t)" by (cases "call x s")
  show ?case
  proof (cases b)
    case False
    then have "call x s = (False, s')" using c Cons.prems(2) run_refuse by force
    then show ?thesis using Cons.prems(1) [of "[]" x xs s] run_Nil by simp
  next
    case True
    then have r: "run xs t = (False, s')" using c Cons.prems(2) run_accept by force
    show ?thesis
    proof (rule Cons.IH [OF _ r])
      fix pre d post s1
      assume "xs = pre @ d # post" "run pre t = (True, s1)" "call d s1 = (False, s')"
      then show thesis
        using Cons.prems(1) [of "x # pre" d post s1] True c run_accept by simp
    qed
  qed
qed

end

interpretation fc: veto_chain "\<lambda>d s. ev (fd_function d) dir l s" "\<lambda>ds s. filter_class_execute ev ds dir l s"
  for ev dir l
  by unfold_locales simp_all

interpretation nch: veto_chain "\<lambda>d s. ev (hd_hook d) s" "new_client_hook_execute ev" for ev
  by unfold_locales simp_all

section \<open>The order of the chain\<close>

text \<open>Priorities whose differences fit into an \<open>int\<close>.\<close>

definition small_prio :: "int \<Rightarrow> bool" where
  "small_prio p \<longleftrightarrow> - (2 ^ 30) \<le> p \<and> p < 2 ^ 30"

lemma filter_cmp_small:
  "small_prio (fd_priority a) \<Longrightarrow> small_prio (fd_priority b) \<Longrightarrow>
   filter_cmp a b = fd_priority a - fd_priority b"
  by (simp add: filter_cmp_def small_prio_def to_int32_id)

definition by_priority :: "'f filter_data list \<Rightarrow> bool" where
  "by_priority ds \<longleftrightarrow> sorted (map fd_priority ds) \<and> (\<forall>d\<in>set ds. small_prio (fd_priority d))"

lemma insert_sorted_position:
  assumes "by_priority ds" "small_prio (fd_priority d)"
  shows "g_list_insert_sorted ds d filter_cmp =
    takeWhile (\<lambda>x. fd_priority x < fd_priority d) ds @ d #
    dropWhile (\<lambda>x. fd_priority x < fd_priority d) ds"
  using assms by (induction ds) (auto simp: by_priority_def filter_cmp_small)

lemma dropWhile_prio_ge:
  "sorted (map fd_priority ds) \<Longrightarrow> x \<in> set (dropWhile (\<lambda>x. fd_priority x < p) ds) \<Longrightarrow> p \<le> fd_priority x"
  by (induction ds) (auto split: if_splits)

lemma by_priority_insert:
  assumes "by_priority ds" "small_prio (fd_priority d)"
  shows "by_priority (g_list_insert_sorted ds d filter_cmp)"
  using assms
proof (induction ds)
  case (Cons x xs)
  have set: "set (g_list_insert_sorted xs d filter_cmp) = insert d (set xs)" for xs
    by (induction xs) auto
  show ?case using Cons by (auto simp: by_priority_def filter_cmp_small set)
qed (simp add: by_priority_def)

lemma by_priority_del: "by_priority ds \<Longrightarrow> by_priority (del_filter_ex ds name)"
proof (induction ds)
  case (Cons d ds)
  have "set (del_filter_ex ds name) \<subseteq> set ds" by (induction ds) auto
  then show ?case using Cons by (auto simp: by_priority_def)
qed simp

section \<open>Properties\<close>

text \<open>C36. A filter chain stays sorted by priority under adding and deleting; a new filter runs
  after every filter of lower priority and before every one of its own or a higher priority.\<close>

theorem filter_chain_sorted:
  assumes "by_priority ds" "small_prio prio"
  shows "by_priority (add_filter_ex ds name f prio) \<and> by_priority (del_filter_ex ds name) \<and>
    add_filter_ex ds name f prio =
      takeWhile (\<lambda>x. fd_priority x < prio) ds @
      \<lparr>fd_name = name, fd_priority = prio, fd_function = f\<rparr> #
      dropWhile (\<lambda>x. fd_priority x < prio) ds"
  using by_priority_insert [OF assms(1), of "\<lparr>fd_name = name, fd_priority = prio, fd_function = f\<rparr>"]
    insert_sorted_position [OF assms(1), of "\<lparr>fd_name = name, fd_priority = prio, fd_function = f\<rparr>"]
    by_priority_del [OF assms(1), of name] assms(2)
  by (simp add: add_filter_ex_def)

theorem filter_chain_sorted_witness:
  "by_priority (add_filter_ex (add_filter_ex [] ''log'' (0::nat) 1000) ''nickserv'' 1 1)"
proof -
  have nil: "by_priority ([] :: nat filter_data list)" by (simp add: by_priority_def)
  have p: "small_prio 1000" "small_prio 1" by (simp_all add: small_prio_def)
  note first = conjunct1 [OF filter_chain_sorted [OF nil p(1), of "''log''" 0]]
  show ?thesis by (rule conjunct1 [OF filter_chain_sorted [OF first p(2)]])
qed

text \<open>A chain of filters refuses a line exactly because one filter does: all filters before
  it were run and accepted, and none after it is run.\<close>

theorem filter_chain_first_veto:
  assumes "filter_class_execute ev ds dir l s = (False, s')"
  shows "\<exists>pre d post s1. ds = pre @ d # post \<and> filter_class_execute ev pre dir l s = (True, s1) \<and>
    ev (fd_function d) dir l s1 = (False, s')"
  using fc.run_refused [OF assms] by metis

theorem filter_chain_first_veto_witness:
  "\<exists>pre d post s1. [\<lparr>fd_name = ''a'', fd_priority = 0, fd_function = True\<rparr>,
        \<lparr>fd_name = ''b'', fd_priority = 1, fd_function = False\<rparr>] = pre @ d # post \<and>
     filter_class_execute (\<lambda>f dir l n. (f, ''x'' @ n)) pre FROM_SERVER
        \<lparr>origin = None, args = [''PING''], endcolon = COLON_UNKNOWN\<rparr> [] = (True, s1) \<and>
     (fd_function d, ''x'' @ s1) = (False, ''xx'')"
proof (rule filter_chain_first_veto)
  show "filter_class_execute (\<lambda>f dir l n. (f, ''x'' @ n))
      [\<lparr>fd_name = ''a'', fd_priority = 0, fd_function = True\<rparr>,
       \<lparr>fd_name = ''b'', fd_priority = 1, fd_function = False\<rparr>] FROM_SERVER
      \<lparr>origin = None, args = [''PING''], endcolon = COLON_UNKNOWN\<rparr> [] = (False, ''xx'')"
    by simp
qed

end
