(* ===== verification/Url.thy ===== *)
theory Url
  imports Clib
begin

text \<open>
  \<open>libirc/url.c\<close>: IRC URLs, written and read. Reading a URL that was written gives the
  server, the encryption flag and the port back, with a port given by its service name
  replaced by its number.
\<close>

definition IRC_PORT :: string where "IRC_PORT = ''6667''"
definition IRCS_PORT :: string where "IRCS_PORT = ''994''"

definition irc_create_url :: "string \<Rightarrow> string \<Rightarrow> bool \<Rightarrow> string" where
  "irc_create_url server port ssl =
     (if ssl \<and> (''ircs'' = port \<or> ''994'' = port) then ''ircs://'' @ server
      else if \<not> ssl \<and> (''ircd'' = port \<or> ''6667'' = port) then ''irc://'' @ server
      else (if ssl then ''ircs'' else ''irc'') @ ''://'' @ server @ '':'' @ port)"

record parsed_url =
  url_server :: "string option"
  url_port :: "string option"
  url_ssl :: bool

text \<open>The part of the URL after the scheme; a colon counts only before the first slash.\<close>

definition parse_hostport :: "string \<Rightarrow> bool \<Rightarrow> parsed_url" where
  "parse_hostport url ssl =
     (let host = before_chr (CHR ''/'') url in
      if has_chr host (CHR '':'') then
        \<lparr>url_server = Some (before_chr (CHR '':'') url),
         url_port = map_option tl (strchr url (CHR '':'')), url_ssl = ssl\<rparr>
      else
        \<lparr>url_server = Some (if has_chr url (CHR ''/'') then host else url),
         url_port = Some (if ssl then IRCS_PORT else IRC_PORT), url_ssl = ssl\<rparr>)"

definition irc_parse_url :: "string \<Rightarrow> bool \<times> parsed_url" where
  "irc_parse_url url =
     (if is_prefix_of ''irc://'' url then (True, parse_hostport (drop 6 url) False)
      else if is_prefix_of ''ircs://'' url then (True, parse_hostport (drop 7 url) True)
      else if contains_str url ''://'' then
        (False, \<lparr>url_server = None, url_port = None, url_ssl = False\<rparr>)
      else (True, parse_hostport url False))"

definition canonical_port :: "string \<Rightarrow> bool \<Rightarrow> string" where
  "canonical_port port ssl =
     (if ssl \<and> port = ''ircs'' then ''994'' else if \<not> ssl \<and> port = ''ircd'' then ''6667'' else port)"

lemma parse_hostport_plain:
  assumes "CHR '':'' \<notin> set s" "CHR ''/'' \<notin> set s"
  shows "parse_hostport s ssl =
    \<lparr>url_server = Some s, url_port = Some (if ssl then IRCS_PORT else IRC_PORT), url_ssl = ssl\<rparr>"
  using assms by (simp add: parse_hostport_def strchr_None)

lemma parse_hostport_port:
  assumes "CHR '':'' \<notin> set s" "CHR ''/'' \<notin> set s"
  shows "parse_hostport (s @ CHR '':'' # p) ssl =
    \<lparr>url_server = Some s, url_port = Some p, url_ssl = ssl\<rparr>"
proof -
  have "before_chr (CHR ''/'') (s @ CHR '':'' # p) = s @ CHR '':'' # before_chr (CHR ''/'') p"
    using assms by (induction s) (auto simp: before_chr_def)
  then show ?thesis using assms by (simp add: parse_hostport_def strchr_append)
qed

lemma irc_parse_url_scheme:
  "irc_parse_url (''irc://'' @ x) = (True, parse_hostport x False)"
  "irc_parse_url (''ircs://'' @ x) = (True, parse_hostport x True)"
  by (simp_all add: irc_parse_url_def)

lemma irc_create_url_cases:
  "irc_create_url s p ssl =
     (if ssl then ''ircs://'' else ''irc://'') @ s @
     (if p = (if ssl then ''ircs'' else ''ircd'') \<or> p = (if ssl then IRCS_PORT else IRC_PORT)
      then [] else CHR '':'' # p)"
  by (auto simp: irc_create_url_def IRC_PORT_def IRCS_PORT_def)

section \<open>Properties\<close>

text \<open>A URL made from a server name and a port parses back to them and to the same choice
  of TLS; the two symbolic port names come back as their numbers.\<close>

theorem url_create_parse:
  assumes "CHR '':'' \<notin> set server" "CHR ''/'' \<notin> set server"
  shows "irc_parse_url (irc_create_url server port ssl) =
    (True, \<lparr>url_server = Some server, url_port = Some (canonical_port port ssl), url_ssl = ssl\<rparr>)"
proof -
  have "irc_parse_url (irc_create_url server port ssl) =
      (True, parse_hostport (server @
        (if port = (if ssl then ''ircs'' else ''ircd'') \<or> port = (if ssl then IRCS_PORT else IRC_PORT)
         then [] else CHR '':'' # port)) ssl)"
    unfolding irc_create_url_cases
    using irc_parse_url_scheme by (cases ssl) (simp_all only: if_True if_False)
  moreover have "canonical_port port ssl =
      (if port = (if ssl then ''ircs'' else ''ircd'') \<or> port = (if ssl then IRCS_PORT else IRC_PORT)
       then (if ssl then IRCS_PORT else IRC_PORT) else port)"
    by (auto simp: canonical_port_def IRC_PORT_def IRCS_PORT_def)
  ultimately show ?thesis
    using parse_hostport_plain [OF assms, of ssl] parse_hostport_port [OF assms, of port ssl] by simp
qed

theorem url_create_parse_witness:
  "irc_parse_url (irc_create_url ''irc.example.org'' ''7000'' True) =
    (True, \<lparr>url_server = Some ''irc.example.org'', url_port = Some ''7000'', url_ssl = True\<rparr>)"
  using url_create_parse [of "''irc.example.org''" "''7000''" True] by (simp add: canonical_port_def)

end
