(* ===== verification/Transport.thy ===== *)
theory Transport
  imports Line
begin

text \<open>
  \<open>libirc/transport.c\<close> and \<open>libirc/transport_ioc.c\<close>: sending lines over a non-blocking GLib
  channel. A line that cannot be written at once waits in a queue, and a watch of the main
  loop writes the queue out when the channel is ready. GLib itself is a parameter: the record
  \<open>giochannel\<close> holds the operations on a channel of an arbitrary type. The calls that the
  transport makes to its owner, and the writes it completes, are returned as events.
  The theorems show that lines leave in the order they were handed over, that none is lost
  or repeated, and that a queue that is not empty always has a watch.
\<close>

section \<open>Channels\<close>

datatype io_status = IO_ERROR | IO_NORMAL | IO_EOF | IO_AGAIN

text \<open>
  What the code uses of GLib: writing bytes, with the status, the number of bytes taken and
  the channel afterwards; flushing; reading a line.
\<close>

record 'c giochannel =
  write_chars :: "'c \<Rightarrow> string \<Rightarrow> io_status \<times> nat \<times> 'c"
  flush :: "'c \<Rightarrow> io_status \<times> 'c"
  read_line :: "'c \<Rightarrow> io_status \<times> string \<times> 'c"

text \<open>A conversion between character sets, \<open>None\<close> for \<open>(GIConv)-1\<close>; it may reject a text.\<close>

type_synonym giconv = "(string \<Rightarrow> string option) option"

definition irc_send_line ::
    "'c giochannel \<Rightarrow> giconv \<Rightarrow> 'c \<Rightarrow> irc_line \<Rightarrow> (io_status \<times> 'c) res" where
  "irc_send_line io iconv c l =
     bind_res (irc_line_string_nl l) (\<lambda>raw.
     case (case iconv of None \<Rightarrow> Some raw | Some f \<Rightarrow> f raw) of
       None \<Rightarrow> Inr (IO_ERROR, c)
     | Some cvrt \<Rightarrow>
         let (ret, bytes_written, c') = write_chars io c cvrt in
         bind_res (guard_res (ret \<noteq> IO_AGAIN \<or> bytes_written = 0) AssertFail) (\<lambda>_.
         Inr (ret, c')))"

text \<open>
  Reading: a text that cannot be converted is parsed as it is, and reported as an error. The
  parser returns NULL for a line that has only an origin.
\<close>

definition irc_recv_line ::
    "'c giochannel \<Rightarrow> giconv \<Rightarrow> 'c \<Rightarrow> io_status \<times> irc_line option \<times> 'c" where
  "irc_recv_line io iconv c =
     (let (status, raw, c') = read_line io c in
      if status \<noteq> IO_NORMAL then (status, None, c')
      else case iconv of
        None \<Rightarrow> (status, irc_parse_line raw, c')
      | Some f \<Rightarrow>
          (case f raw of
             None \<Rightarrow> (IO_ERROR, irc_parse_line raw, c')
           | Some cvrt \<Rightarrow> (status, irc_parse_line cvrt, c')))"

section \<open>Transports\<close>

text \<open>
  The data of the channel backend. \<open>d_watches\<close> are the sources that the main loop holds for
  this transport and \<open>d_next_watch\<close> the identifier it hands out next; an identifier 0 in
  \<open>outgoing_id\<close> means that there is no watch for writing.
\<close>

record 'c irc_transport_data_iochannel =
  incoming :: "'c option"
  pending_disconnect :: bool
  incoming_id :: nat
  outgoing_id :: nat
  incoming_iconv :: giconv
  outgoing_iconv :: giconv
  pending_lines :: "irc_line list"
  d_watches :: "nat list"
  d_next_watch :: nat

record 'c irc_transport =
  backend_data :: "'c irc_transport_data_iochannel"
  charset :: "string option"
  last_line_sent :: int

text \<open>
  Events: a write that was attempted and left the queue, with its status, and the callbacks.
\<close>

datatype transport_event =
    Sent irc_line io_status
  | Cb_log irc_line
  | Cb_hangup
  | Cb_disconnect
  | Cb_recv "irc_line option"
  | Cb_charset_error
  | Cb_error

definition irc_transport_new_iochannel :: "'c \<Rightarrow> 'c irc_transport" where
  "irc_transport_new_iochannel c =
     \<lparr>backend_data =
        \<lparr>incoming = Some c, pending_disconnect = False, incoming_id = 0, outgoing_id = 0,
         incoming_iconv = None, outgoing_iconv = None, pending_lines = [], d_watches = [],
         d_next_watch = 1\<rparr>,
      charset = None, last_line_sent = 0\<rparr>"

definition with_data ::
    "'c irc_transport \<Rightarrow> 'c irc_transport_data_iochannel \<Rightarrow> 'c irc_transport" where
  "with_data tr d = tr\<lparr>backend_data := d\<rparr>"

definition irc_transport_iochannel_is_connected :: "'c irc_transport_data_iochannel \<Rightarrow> bool" where
  "irc_transport_iochannel_is_connected d \<longleftrightarrow> incoming d \<noteq> None \<and> \<not> pending_disconnect d"

text \<open>\<open>g_io_add_watch\<close> registers a source; \<open>g_source_remove\<close> drops one if it is there.\<close>

definition add_out_watch ::
    "'c irc_transport_data_iochannel \<Rightarrow> 'c irc_transport_data_iochannel" where
  "add_out_watch d =
     d\<lparr>outgoing_id := d_next_watch d, d_watches := d_watches d @ [d_next_watch d],
       d_next_watch := Suc (d_next_watch d)\<rparr>"

definition really_disconnect ::
    "'c irc_transport_data_iochannel \<Rightarrow> 'c irc_transport_data_iochannel res" where
  "really_disconnect d =
     bind_res (guard_res (incoming d \<noteq> None) BadArgument) (\<lambda>_.
     let ws = remove1 (incoming_id d) (d_watches d) in
     Inr (d\<lparr>d_watches := (if outgoing_id d \<noteq> 0 then remove1 (outgoing_id d) ws else ws),
           incoming := None\<rparr>))"

definition irc_transport_iochannel_disconnect ::
    "'c irc_transport_data_iochannel \<Rightarrow> 'c irc_transport_data_iochannel res" where
  "irc_transport_iochannel_disconnect d =
     (let d1 = d\<lparr>pending_disconnect := True\<rparr> in
      if outgoing_id d1 = 0 then really_disconnect d1 else Inr d1)"

definition irc_transport_iochannel_send_line ::
    "int \<Rightarrow> 'c giochannel \<Rightarrow> 'c irc_transport \<Rightarrow> irc_line \<Rightarrow>
     (bool \<times> 'c irc_transport \<times> transport_event list) res" where
  "irc_transport_iochannel_send_line now io tr l =
     (let d = backend_data tr in
      if outgoing_id d \<noteq> 0 then
        Inr (True, with_data tr (d\<lparr>pending_lines := pending_lines d @ [linedup l]\<rparr>), [])
      else
        bind_res (asserted (incoming d)) (\<lambda>c.
        bind_res (irc_send_line io (outgoing_iconv d) c l) (\<lambda>(status, c1).
        let d1 = d\<lparr>incoming := Some c1\<rparr> in
        if status = IO_EOF then Inr (False, with_data tr d1, [Sent l status, Cb_hangup])
        else if status = IO_ERROR then Inr (False, with_data tr d1, [Sent l status, Cb_log l])
        else
          let d2 = (if status = IO_AGAIN
                    then (add_out_watch d1)\<lparr>pending_lines := pending_lines d1 @ [linedup l]\<rparr>
                    else d1);
              tr2 = (if status = IO_NORMAL then tr\<lparr>last_line_sent := now\<rparr> else tr);
              evs = (if status = IO_AGAIN then [] else [Sent l status]);
              fstatus = fst (flush io c1);
              c2 = snd (flush io c1);
              d3 = d2\<lparr>incoming := Some c2\<rparr> in
          bind_res (guard_res (fstatus \<noteq> IO_EOF) AssertFail) (\<lambda>_.
          if fstatus = IO_AGAIN then Inr (True, with_data tr2 (add_out_watch d3), evs)
          else if fstatus = IO_ERROR then Inr (False, with_data tr2 d3, evs @ [Cb_log l])
          else Inr (True, with_data tr2 d3, evs)))))"

text \<open>
  The loop of \<open>transport_send_queue\<close> over the pending lines: how it is left, the channel, the
  lines still pending, whether a line was written normally, and the events.
\<close>

datatype queue_exit = Q_again | Q_eof | Q_empty

fun send_pending ::
    "'c giochannel \<Rightarrow> giconv \<Rightarrow> 'c \<Rightarrow> irc_line list \<Rightarrow>
     (queue_exit \<times> 'c \<times> irc_line list \<times> bool \<times> transport_event list) res" where
  "send_pending io iconv c [] = Inr (Q_empty, c, [], False, [])"
| "send_pending io iconv c (l # ls) =
     bind_res (irc_send_line io iconv c l) (\<lambda>(status, c1).
     if status = IO_AGAIN then Inr (Q_again, c1, l # ls, False, [])
     else if status = IO_EOF then Inr (Q_eof, c1, ls, False, [Sent l status, Cb_hangup])
     else
       let evs = (if status = IO_ERROR then [Sent l status, Cb_log l] else [Sent l status]);
           fstatus = fst (flush io c1); c2 = snd (flush io c1) in
       bind_res (guard_res (fstatus \<noteq> IO_EOF) AssertFail) (\<lambda>_.
       if fstatus = IO_AGAIN then Inr (Q_again, c2, ls, status = IO_NORMAL, evs)
       else
         bind_res (send_pending io iconv c2 ls) (\<lambda>(ex, c3, rest, sent, evs').
         Inr (ex, c3, rest, sent \<or> status = IO_NORMAL,
              evs @ (if fstatus = IO_ERROR then [Cb_log l] else []) @ evs'))))"

definition transport_send_queue ::
    "int \<Rightarrow> 'c giochannel \<Rightarrow> 'c irc_transport \<Rightarrow>
     (bool \<times> 'c irc_transport \<times> transport_event list) res" where
  "transport_send_queue now io tr =
     (let d = backend_data tr in
      bind_res (asserted (incoming d)) (\<lambda>c.
      let c1 = snd (flush io c); ret = (fst (flush io c) = IO_AGAIN) in
      bind_res (send_pending io (outgoing_iconv d) c1 (pending_lines d)) (\<lambda>(ex, c2, rest, sent, evs).
      let tr1 = (if sent then tr\<lparr>last_line_sent := now\<rparr> else tr);
          d1 = d\<lparr>incoming := Some c2, pending_lines := rest\<rparr> in
      case ex of
        Q_again \<Rightarrow> Inr (True, with_data tr1 d1, evs)
      | Q_eof \<Rightarrow> Inr (False, with_data tr1 (d1\<lparr>outgoing_id := 0\<rparr>), evs)
      | Q_empty \<Rightarrow>
          if ret then Inr (True, with_data tr1 d1, evs)
          else
            bind_res (if pending_disconnect d1 then really_disconnect (d1\<lparr>outgoing_id := 0\<rparr>)
                      else Inr (d1\<lparr>outgoing_id := 0\<rparr>)) (\<lambda>d2.
            Inr (False, with_data tr1 d2, evs)))))"

section \<open>The operations of \<open>transport.c\<close>\<close>

definition transport_send_line ::
    "int \<Rightarrow> 'c giochannel \<Rightarrow> 'c irc_transport \<Rightarrow> irc_line \<Rightarrow>
     (bool \<times> 'c irc_transport \<times> transport_event list) res" where
  "transport_send_line now io tr l =
     (if \<not> irc_transport_iochannel_is_connected (backend_data tr) then Inr (False, tr, [])
      else irc_transport_iochannel_send_line now io tr l)"

definition transport_send_args ::
    "int \<Rightarrow> 'c giochannel \<Rightarrow> 'c irc_transport \<Rightarrow> string option list \<Rightarrow>
     (bool \<times> 'c irc_transport \<times> transport_event list) res" where
  "transport_send_args now io tr ap = transport_send_line now io tr (virc_parse_line None ap)"

definition transport_send_response ::
    "int \<Rightarrow> 'c giochannel \<Rightarrow> 'c irc_transport \<Rightarrow> string option \<Rightarrow> string \<Rightarrow> nat \<Rightarrow>
     string option list \<Rightarrow> (bool \<times> 'c irc_transport \<times> transport_event list) res" where
  "transport_send_response now io tr from to response ap =
     bind_res (virc_parse_response from to response ap) (transport_send_line now io tr)"

definition irc_transport_disconnect ::
    "'c irc_transport \<Rightarrow> ('c irc_transport \<times> transport_event list) res" where
  "irc_transport_disconnect tr =
     (if \<not> irc_transport_iochannel_is_connected (backend_data tr) then Inr (tr, [])
      else
        bind_res (irc_transport_iochannel_disconnect (backend_data tr)) (\<lambda>d.
        Inr (with_data tr d, [Cb_disconnect])))"

text \<open>
  Freeing the backend asserts that a disconnect was asked for. \<open>iconv_open\<close> is the library
  call that finds a conversion by the name of a character set.
\<close>

definition free_irc_transport :: "'c irc_transport \<Rightarrow> unit res" where
  "free_irc_transport tr = guard_res (pending_disconnect (backend_data tr)) AssertFail"

definition irc_transport_iochannel_set_charset ::
    "(string \<Rightarrow> string \<Rightarrow> (string \<Rightarrow> string option) option) \<Rightarrow> 'c irc_transport_data_iochannel \<Rightarrow>
     string option \<Rightarrow> bool \<times> 'c irc_transport_data_iochannel" where
  "irc_transport_iochannel_set_charset iconv_open d name =
     (case name of
        None \<Rightarrow> (True, d\<lparr>outgoing_iconv := None, incoming_iconv := None\<rparr>)
      | Some n \<Rightarrow>
          (case iconv_open n ''UTF-8'' of
             None \<Rightarrow> (False, d)
           | Some out \<Rightarrow>
               let d1 = d\<lparr>outgoing_iconv := Some out\<rparr> in
               case iconv_open ''UTF-8'' n of
                 None \<Rightarrow> (False, d1)
               | Some inc \<Rightarrow> (True, d1\<lparr>incoming_iconv := Some inc\<rparr>)))"

definition transport_set_charset ::
    "(string \<Rightarrow> string \<Rightarrow> (string \<Rightarrow> string option) option) \<Rightarrow> 'c irc_transport \<Rightarrow> string option \<Rightarrow>
     bool \<times> 'c irc_transport" where
  "transport_set_charset iconv_open tr name =
     (let (ok, d) = irc_transport_iochannel_set_charset iconv_open (backend_data tr) name in
      if \<not> ok then (False, with_data tr d)
      else (True, (with_data tr d)\<lparr>charset := name\<rparr>))"

text \<open>The owner's callbacks start to be called: a watch for reading is registered.\<close>

definition irc_transport_set_callbacks :: "'c irc_transport \<Rightarrow> 'c irc_transport" where
  "irc_transport_set_callbacks tr =
     (let d = backend_data tr in
      with_data tr (d\<lparr>incoming_id := d_next_watch d, d_watches := d_watches d @ [d_next_watch d],
                     d_next_watch := Suc (d_next_watch d)\<rparr>))"

section \<open>Receiving\<close>

text \<open>
  The owner's callback \<open>recv\<close> works on the state of the owner, from which the conversion is
  read before every line. The loop goes on while lines can be read and the owner accepts them;
  \<open>None\<close> as status says that the owner refused one. The fuel bounds the number of lines.
\<close>

fun receive_lines ::
    "nat \<Rightarrow> 'c giochannel \<Rightarrow> ('s \<Rightarrow> giconv) \<Rightarrow> (irc_line option \<Rightarrow> 's \<Rightarrow> (bool \<times> 's) res) \<Rightarrow>
     'c \<Rightarrow> 's \<Rightarrow> (io_status option \<times> 'c \<times> 's) res" where
  "receive_lines 0 io iconv recv c s = Inl Diverges"
| "receive_lines (Suc k) io iconv recv c s =
     (let (status, l, c1) = irc_recv_line io (iconv s) c in
      if status \<noteq> IO_NORMAL then Inr (Some status, c1, s)
      else
        bind_res (recv l s) (\<lambda>(ret, s1).
        if ret then receive_lines k io iconv recv c1 s1 else Inr (None, c1, s1)))"

text \<open>
  What becomes of the status that ended the loop. \<open>illegal\<close> tells whether the error is an
  illegal byte sequence of a conversion, \<open>error_ret\<close> is the value of the owner's error callback.
\<close>

definition handle_recv_status ::
    "io_status \<Rightarrow> bool \<Rightarrow> bool \<Rightarrow> bool \<times> transport_event list" where
  "handle_recv_status status illegal error_ret =
     (if status = IO_EOF then (False, [Cb_hangup])
      else if status \<noteq> IO_AGAIN then
        (if illegal then (True, [Cb_charset_error]) else (error_ret, [Cb_error]))
      else (True, []))"

record gio_condition =
  cond_in :: bool
  cond_hup :: bool
  cond_err :: bool

definition handle_transport_receive ::
    "nat \<Rightarrow> 'c giochannel \<Rightarrow> ('s \<Rightarrow> giconv) \<Rightarrow> (irc_line option \<Rightarrow> 's \<Rightarrow> (bool \<times> 's) res) \<Rightarrow>
     bool \<Rightarrow> bool \<Rightarrow> gio_condition \<Rightarrow> 'c \<Rightarrow> 's \<Rightarrow> (bool \<times> transport_event list \<times> 'c \<times> 's) res" where
  "handle_transport_receive k io iconv recv illegal error_ret cond c s =
     (if cond_err cond then Inr (False, [Cb_error], c, s)
      else if cond_in cond then
        bind_res (receive_lines k io iconv recv c s) (\<lambda>(st, c1, s1).
        case st of
          None \<Rightarrow> Inr (False, [], c1, s1)
        | Some status \<Rightarrow>
            let (ret, evs) = handle_recv_status status illegal error_ret in Inr (ret, evs, c1, s1))
      else if cond_hup cond then Inr (False, [Cb_hangup], c, s)
      else Inr (True, [], c, s))"

section \<open>Runs of a transport\<close>

text \<open>
  What happens to a transport: its owner sends a line or disconnects it, or the main loop
  dispatches one of its watches for writing. The owners answer a hangup by disconnecting the
  transport. \<open>transport_step\<close> returns the lines that were taken over and the events.
\<close>

datatype transport_op = Op_send irc_line | Op_dispatch nat | Op_disconnect

definition on_hangup ::
    "'c irc_transport \<Rightarrow> transport_event list \<Rightarrow> ('c irc_transport \<times> transport_event list) res" where
  "on_hangup tr evs =
     (if Cb_hangup \<in> set evs
      then bind_res (irc_transport_disconnect tr) (\<lambda>(tr', evs'). Inr (tr', evs @ evs'))
      else Inr (tr, evs))"

definition dispatch_watch ::
    "int \<Rightarrow> 'c giochannel \<Rightarrow> nat \<Rightarrow> 'c irc_transport \<Rightarrow>
     ('c irc_transport \<times> transport_event list) res" where
  "dispatch_watch now io w tr =
     bind_res (transport_send_queue now io tr) (\<lambda>(ret, tr1, evs).
     let d1 = backend_data tr1;
         tr2 = (if ret then tr1 else with_data tr1 (d1\<lparr>d_watches := remove1 w (d_watches d1)\<rparr>)) in
     on_hangup tr2 evs)"

definition transport_step ::
    "int \<Rightarrow> 'c giochannel \<Rightarrow> transport_op \<Rightarrow> 'c irc_transport \<Rightarrow>
     ('c irc_transport \<times> irc_line list \<times> transport_event list) res" where
  "transport_step now io op tr =
     (case op of
        Op_send l \<Rightarrow>
          bind_res (transport_send_line now io tr l) (\<lambda>(_, tr1, evs).
          bind_res (on_hangup tr1 evs) (\<lambda>(tr2, evs2).
          Inr (tr2, if irc_transport_iochannel_is_connected (backend_data tr) then [l] else [], evs2)))
      | Op_dispatch w \<Rightarrow>
          bind_res (dispatch_watch now io w tr) (\<lambda>(tr1, evs). Inr (tr1, [], evs))
      | Op_disconnect \<Rightarrow>
          bind_res (irc_transport_disconnect tr) (\<lambda>(tr1, evs). Inr (tr1, [], evs)))"

text \<open>The lines whose writing was settled, in order.\<close>

fun settled :: "transport_event list \<Rightarrow> irc_line list" where
  "settled [] = []"
| "settled (Sent l s # evs) = l # settled evs"
| "settled (_ # evs) = settled evs"

text \<open>The main loop only dispatches watches for writing that are registered.\<close>

definition op_enabled :: "'c irc_transport_data_iochannel \<Rightarrow> transport_op \<Rightarrow> bool" where
  "op_enabled d op =
     (case op of Op_dispatch w \<Rightarrow> w \<in> set (d_watches d) \<and> w \<noteq> incoming_id d | _ \<Rightarrow> True)"

inductive transport_runs ::
    "'c giochannel \<Rightarrow> 'c irc_transport \<Rightarrow> irc_line list \<Rightarrow> transport_event list \<Rightarrow> 'c irc_transport \<Rightarrow> bool"
  for io tr where
  runs_nil: "transport_runs io tr [] [] tr"
| runs_step:
    "transport_runs io tr acc evs tr1 \<Longrightarrow> op_enabled (backend_data tr1) op \<Longrightarrow>
     transport_step now io op tr1 = Inr (tr2, acc', evs') \<Longrightarrow>
     transport_runs io tr (acc @ acc') (evs @ evs') tr2"

text \<open>
  The invariant: while the transport is connected, lines wait only if a watch was asked for;
  that watch is registered with the main loop.
\<close>

definition transport_inv :: "'c irc_transport_data_iochannel \<Rightarrow> bool" where
  "transport_inv d \<longleftrightarrow>
     (irc_transport_iochannel_is_connected d \<longrightarrow> pending_lines d \<noteq> [] \<longrightarrow> outgoing_id d \<noteq> 0) \<and>
     (incoming d \<noteq> None \<longrightarrow> outgoing_id d \<noteq> 0 \<longrightarrow> outgoing_id d \<in> set (d_watches d)) \<and>
     (incoming d = None \<longrightarrow> pending_disconnect d) \<and>
     (outgoing_id d \<noteq> 0 \<longrightarrow> outgoing_id d \<noteq> incoming_id d) \<and>
     (outgoing_id d < d_next_watch d) \<and> incoming_id d < d_next_watch d \<and> 0 < d_next_watch d"

section \<open>Order and progress\<close>

lemma linedup_id [simp]: "linedup l = l"
  by (simp add: linedup_def)

lemma with_data_sel [simp]:
  "backend_data (with_data tr d) = d" "charset (with_data tr d) = charset tr"
  "last_line_sent (with_data tr d) = last_line_sent tr"
  by (simp_all add: with_data_def)

lemma settled_append [simp]: "settled (a @ b) = settled a @ settled b"
  by (induction a rule: settled.induct) simp_all

lemma send_pending_settled:
  "send_pending io iconv c ls = Inr (ex, c', rest, sent, evs) \<Longrightarrow> settled evs @ rest = ls"
  by (induction ls arbitrary: c ex c' rest sent evs)
    (auto simp: Let_def split: if_split_asm prod.split_asm)

lemma send_pending_exit:
  "send_pending io iconv c ls = Inr (ex, c', rest, sent, evs) \<Longrightarrow>
    (ex = Q_empty \<longrightarrow> rest = []) \<and> (Cb_hangup \<in> set evs \<longleftrightarrow> ex = Q_eof)"
  by (induction ls arbitrary: c ex c' rest sent evs)
    (auto simp: Let_def split: if_split_asm prod.split_asm)

lemma disconnect_settled:
  "irc_transport_disconnect tr = Inr (tr', evs) \<Longrightarrow>
    settled evs = [] \<and> pending_lines (backend_data tr') = pending_lines (backend_data tr)"
  by (auto simp: irc_transport_disconnect_def irc_transport_iochannel_disconnect_def
      really_disconnect_def Let_def split: if_splits)

lemma on_hangup_settled:
  "on_hangup tr evs = Inr (tr', evs') \<Longrightarrow>
    settled evs' = settled evs \<and> pending_lines (backend_data tr') = pending_lines (backend_data tr)"
  by (auto simp: on_hangup_def dest: disconnect_settled split: if_split_asm prod.split_asm)

lemma really_disconnect_fields:
  "really_disconnect d = Inr d' \<Longrightarrow>
    pending_lines d' = pending_lines d \<and> incoming d' = None \<and> outgoing_id d' = outgoing_id d \<and>
    pending_disconnect d' = pending_disconnect d \<and> incoming_id d' = incoming_id d \<and>
    d_next_watch d' = d_next_watch d"
  by (auto simp: really_disconnect_def Let_def)

text \<open>How a dispatched queue leaves the data of the transport.\<close>

lemma transport_send_queueE:
  assumes "transport_send_queue now io tr = Inr (ret, tr', evs)"
  obtains c st c1 ex c2 rest sent where "incoming (backend_data tr) = Some c" "flush io c = (st, c1)"
    "send_pending io (outgoing_iconv (backend_data tr)) c1 (pending_lines (backend_data tr)) =
       Inr (ex, c2, rest, sent, evs)"
    "ret \<longleftrightarrow> ex = Q_again \<or> ex = Q_empty \<and> st = IO_AGAIN"
    "ret \<Longrightarrow> backend_data tr' = (backend_data tr)\<lparr>incoming := Some c2, pending_lines := rest\<rparr>"
    "\<not> ret \<Longrightarrow> ex = Q_eof \<or> \<not> pending_disconnect (backend_data tr) \<Longrightarrow>
      backend_data tr' = (backend_data tr)\<lparr>incoming := Some c2, pending_lines := rest, outgoing_id := 0\<rparr>"
    "\<not> ret \<Longrightarrow> ex = Q_empty \<Longrightarrow> pending_disconnect (backend_data tr) \<Longrightarrow>
      really_disconnect ((backend_data tr)\<lparr>incoming := Some c2, pending_lines := rest, outgoing_id := 0\<rparr>) =
        Inr (backend_data tr')"
proof -
  obtain c where c: "incoming (backend_data tr) = Some c"
    using assms by (auto simp: transport_send_queue_def Let_def)
  obtain st c1 where f: "flush io c = (st, c1)" by (cases "flush io c")
  obtain ex c2 rest sent evs0 where p:
    "send_pending io (outgoing_iconv (backend_data tr)) c1 (pending_lines (backend_data tr)) =
       Inr (ex, c2, rest, sent, evs0)"
    using assms c f by (auto simp: transport_send_queue_def Let_def)
  show ?thesis
    using assms c f p
    by (intro that [OF c f, of ex c2 rest sent])
      (auto simp: transport_send_queue_def Let_def split: queue_exit.splits if_splits)
qed

lemma send_queue_settled:
  assumes "transport_send_queue now io tr = Inr (ret, tr', evs)"
  shows "settled evs @ pending_lines (backend_data tr') = pending_lines (backend_data tr)"
  using assms
proof (rule transport_send_queueE)
  fix c st c1 ex c2 rest sent
  assume p: "send_pending io (outgoing_iconv (backend_data tr)) c1 (pending_lines (backend_data tr)) =
       Inr (ex, c2, rest, sent, evs)"
    and d: "ret \<longleftrightarrow> ex = Q_again \<or> ex = Q_empty \<and> st = IO_AGAIN"
    "ret \<Longrightarrow> backend_data tr' = (backend_data tr)\<lparr>incoming := Some c2, pending_lines := rest\<rparr>"
    "\<not> ret \<Longrightarrow> ex = Q_eof \<or> \<not> pending_disconnect (backend_data tr) \<Longrightarrow>
      backend_data tr' = (backend_data tr)\<lparr>incoming := Some c2, pending_lines := rest, outgoing_id := 0\<rparr>"
    "\<not> ret \<Longrightarrow> ex = Q_empty \<Longrightarrow> pending_disconnect (backend_data tr) \<Longrightarrow>
      really_disconnect ((backend_data tr)\<lparr>incoming := Some c2, pending_lines := rest, outgoing_id := 0\<rparr>) =
        Inr (backend_data tr')"
  have "pending_lines (backend_data tr') = rest"
  proof (cases "\<not> ret \<and> ex = Q_empty \<and> pending_disconnect (backend_data tr)")
    case True
    then show ?thesis using really_disconnect_fields [OF d(4)] by simp
  next
    case False
    then have "ret \<or> ex = Q_eof \<or> \<not> pending_disconnect (backend_data tr)"
      using d(1) by (cases ex) auto
    then show ?thesis using d(2,3) by (cases ret) auto
  qed
  then show ?thesis using send_pending_settled [OF p] by simp
qed

lemma send_line_settled:
  assumes "transport_send_line now io tr l = Inr (ret, tr', evs)" "transport_inv (backend_data tr)"
  shows "settled evs @ pending_lines (backend_data tr') = pending_lines (backend_data tr) @
    (if irc_transport_iochannel_is_connected (backend_data tr) then [l] else [])"
  using assms
  by (auto simp: transport_send_line_def irc_transport_iochannel_send_line_def transport_inv_def
      add_out_watch_def Let_def split: prod.split_asm if_split_asm)

text \<open>One step keeps what is settled and what waits, in order.\<close>

lemma transport_step_settled:
  assumes "transport_step now io op tr = Inr (tr', acc, evs)" "transport_inv (backend_data tr)"
  shows "settled evs @ pending_lines (backend_data tr') = pending_lines (backend_data tr) @ acc"
proof (cases op)
  case (Op_send l)
  then show ?thesis
    using assms send_line_settled [OF _ assms(2)]
    by (fastforce simp: transport_step_def dest: on_hangup_settled split: prod.split_asm)
next
  case (Op_dispatch w)
  then show ?thesis
    using assms
    by (auto simp: transport_step_def dispatch_watch_def Let_def dest!: send_queue_settled on_hangup_settled
        split: prod.split_asm if_split_asm)
next
  case Op_disconnect
  then show ?thesis
    using assms by (auto simp: transport_step_def dest: disconnect_settled split: prod.split_asm)
qed

text \<open>The invariant is kept.\<close>

lemma inv_disconnect:
  assumes "transport_inv (backend_data tr)" "irc_transport_disconnect tr = Inr (tr', evs)"
  shows "transport_inv (backend_data tr')"
  using assms
  by (auto simp: irc_transport_disconnect_def irc_transport_iochannel_disconnect_def transport_inv_def
      irc_transport_iochannel_is_connected_def Let_def dest!: really_disconnect_fields split: if_splits)

lemma inv_on_hangup:
  assumes "transport_inv (backend_data tr) \<or>
      (Cb_hangup \<in> set evs \<and> transport_inv ((backend_data tr)\<lparr>pending_lines := []\<rparr>))"
    "on_hangup tr evs = Inr (tr', evs')"
  shows "transport_inv (backend_data tr')"
proof (cases "Cb_hangup \<in> set evs")
  case False
  then show ?thesis using assms by (simp add: on_hangup_def)
next
  case True
  then obtain e where d: "irc_transport_disconnect tr = Inr (tr', e)"
    using assms(2) by (auto simp: on_hangup_def)
  then show ?thesis
    using assms(1)
    by (auto simp: irc_transport_disconnect_def irc_transport_iochannel_disconnect_def transport_inv_def
        irc_transport_iochannel_is_connected_def Let_def dest!: really_disconnect_fields split: if_splits)
qed

lemma inv_add_out_watch:
  assumes "transport_inv d" "incoming d \<noteq> None"
  shows "transport_inv (add_out_watch d)"
  using assms
  by (auto simp: transport_inv_def irc_transport_iochannel_is_connected_def add_out_watch_def)

lemma inv_incoming: "transport_inv d \<Longrightarrow> incoming d \<noteq> None \<Longrightarrow> transport_inv (d\<lparr>incoming := Some c\<rparr>)"
  by (simp add: transport_inv_def irc_transport_iochannel_is_connected_def)

lemma inv_pending: "transport_inv d \<Longrightarrow> outgoing_id d \<noteq> 0 \<Longrightarrow> transport_inv (d\<lparr>pending_lines := ls\<rparr>)"
  by (simp add: transport_inv_def irc_transport_iochannel_is_connected_def)

lemma add_out_watch_fields [simp]:
  "incoming (add_out_watch d) = incoming d" "pending_lines (add_out_watch d) = pending_lines d"
  "outgoing_id (add_out_watch d) = d_next_watch d"
  by (simp_all add: add_out_watch_def)

lemma inv_next: "transport_inv d \<Longrightarrow> d_next_watch d \<noteq> 0"
  by (simp add: transport_inv_def)

lemma inv_send_line:
  assumes "transport_inv (backend_data tr)" "transport_send_line now io tr l = Inr (ret, tr', evs)"
  shows "transport_inv (backend_data tr')"
proof -
  let ?d = "backend_data tr"
  consider "\<not> irc_transport_iochannel_is_connected ?d" | "irc_transport_iochannel_is_connected ?d" "outgoing_id ?d \<noteq> 0"
    | "irc_transport_iochannel_is_connected ?d" "outgoing_id ?d = 0" by blast
  then show ?thesis
  proof cases
    case 1
    then show ?thesis using assms by (simp add: transport_send_line_def)
  next
    case 2
    then show ?thesis
      using assms
      by (auto simp: transport_send_line_def irc_transport_iochannel_send_line_def inv_pending Let_def)
  next
    case con: 3
    obtain c where c: "incoming ?d = Some c" using con(1) by (auto simp: irc_transport_iochannel_is_connected_def)
    obtain status c1 where 3: "irc_send_line io (outgoing_iconv ?d) c l = Inr (status, c1)"
      using assms(2) con c
      by (auto simp: transport_send_line_def irc_transport_iochannel_send_line_def Let_def)
    define d1 where "d1 = ?d\<lparr>incoming := Some c1\<rparr>"
    have d1: "transport_inv d1" "incoming d1 \<noteq> None"
      using inv_incoming [OF assms(1)] c by (simp_all add: d1_def)
    define d2 where "d2 = (if status = IO_AGAIN
        then (add_out_watch d1)\<lparr>pending_lines := pending_lines d1 @ [l]\<rparr> else d1)"
    have d2: "transport_inv d2" "incoming d2 \<noteq> None"
      using d1 inv_add_out_watch [OF d1] inv_next [OF d1(1)] by (auto simp: d2_def intro: inv_pending)
    define d3 where "d3 = d2\<lparr>incoming := Some (snd (flush io c1))\<rparr>"
    have d3: "transport_inv d3" "transport_inv (add_out_watch d3)"
      using inv_incoming [OF d2] inv_add_out_watch [of d3] by (simp_all add: d3_def)
    have "backend_data tr' \<in> {d1, d3, add_out_watch d3}"
      using assms(2) 3 con c
      by (auto simp: transport_send_line_def irc_transport_iochannel_send_line_def Let_def
          d1_def d2_def d3_def split: if_split_asm)
    then show ?thesis using d1(1) d3 by auto
  qed
qed

lemma inv_dispatch:
  assumes "transport_inv (backend_data tr)" "dispatch_watch now io w tr = Inr (tr', evs)"
  shows "transport_inv (backend_data tr')"
proof -
  let ?d = "backend_data tr"
  obtain ret tr1 evs1 where q: "transport_send_queue now io tr = Inr (ret, tr1, evs1)"
    and h: "on_hangup (if ret then tr1 else with_data tr1
        ((backend_data tr1)\<lparr>d_watches := remove1 w (d_watches (backend_data tr1))\<rparr>)) evs1 = Inr (tr', evs)"
    using assms(2) by (auto simp: dispatch_watch_def Let_def)
  from q show ?thesis
  proof (rule transport_send_queueE)
    fix c st c1 ex c2 rest sent
    assume c: "incoming ?d = Some c"
      and p: "send_pending io (outgoing_iconv ?d) c1 (pending_lines ?d) = Inr (ex, c2, rest, sent, evs1)"
      and d: "ret \<longleftrightarrow> ex = Q_again \<or> ex = Q_empty \<and> st = IO_AGAIN"
      "ret \<Longrightarrow> backend_data tr1 = ?d\<lparr>incoming := Some c2, pending_lines := rest\<rparr>"
      "\<not> ret \<Longrightarrow> ex = Q_eof \<or> \<not> pending_disconnect ?d \<Longrightarrow>
        backend_data tr1 = ?d\<lparr>incoming := Some c2, pending_lines := rest, outgoing_id := 0\<rparr>"
      "\<not> ret \<Longrightarrow> ex = Q_empty \<Longrightarrow> pending_disconnect ?d \<Longrightarrow>
        really_disconnect (?d\<lparr>incoming := Some c2, pending_lines := rest, outgoing_id := 0\<rparr>) =
          Inr (backend_data tr1)"
    note ex = send_pending_exit [OF p]
    have pend: "pending_lines ?d = [] \<Longrightarrow> rest = []" using send_pending_settled [OF p] by simp
    show ?thesis
    proof (rule inv_on_hangup [OF _ h])
      show "transport_inv (backend_data (if ret then tr1 else with_data tr1
            ((backend_data tr1)\<lparr>d_watches := remove1 w (d_watches (backend_data tr1))\<rparr>))) \<or>
        (Cb_hangup \<in> set evs1 \<and> transport_inv ((backend_data (if ret then tr1 else with_data tr1
            ((backend_data tr1)\<lparr>d_watches := remove1 w (d_watches (backend_data tr1))\<rparr>)))\<lparr>pending_lines := []\<rparr>))"
      proof (cases ret)
        case True
        then show ?thesis
          using assms(1) c d(2) pend by (auto simp: transport_inv_def irc_transport_iochannel_is_connected_def)
      next
        case False
        show ?thesis
        proof (cases "ex = Q_eof \<or> \<not> pending_disconnect ?d")
          case True
          then show ?thesis
            using False assms(1) c d(3) ex d(1)
            by (cases ex) (auto simp: transport_inv_def irc_transport_iochannel_is_connected_def)
        next
          case nf: False
          then have "ex = Q_empty" using d(1) False by (cases ex) auto
          then show ?thesis
            using False nf assms(1) really_disconnect_fields [OF d(4)]
            by (auto simp: transport_inv_def irc_transport_iochannel_is_connected_def)
        qed
      qed
    qed
  qed
qed

lemma inv_step:
  assumes "transport_inv (backend_data tr)" "transport_step now io op tr = Inr (tr', acc, evs)"
  shows "transport_inv (backend_data tr')"
proof (cases op)
  case (Op_send l)
  then obtain ret tr1 e1 where "transport_send_line now io tr l = Inr (ret, tr1, e1)"
    "on_hangup tr1 e1 = Inr (tr', evs)"
    using assms(2) by (auto simp: transport_step_def split: prod.split_asm)
  then show ?thesis using inv_on_hangup inv_send_line [OF assms(1)] by blast
next
  case (Op_dispatch w)
  then show ?thesis
    using assms by (auto simp: transport_step_def dest: inv_dispatch split: prod.split_asm)
next
  case Op_disconnect
  then show ?thesis
    using assms by (auto simp: transport_step_def dest: inv_disconnect split: prod.split_asm)
qed

lemma runs_inv_settled:
  assumes "transport_runs io tr acc evs tr'" "transport_inv (backend_data tr)"
  shows "transport_inv (backend_data tr') \<and>
    settled evs @ pending_lines (backend_data tr') = pending_lines (backend_data tr) @ acc"
  using assms
proof (induction rule: transport_runs.induct)
  case (runs_step acc evs tr1 op now tr2 acc' evs')
  then show ?case
    using inv_step [OF _ runs_step.hyps(3)] transport_step_settled [OF runs_step.hyps(3)]
    by (metis append.assoc settled_append)
qed simp

text \<open>What GLib documents of a channel: a flush does not report the end of the file.\<close>

definition channel_ok :: "'c giochannel \<Rightarrow> bool" where
  "channel_ok io \<longleftrightarrow>
     (\<forall>c s. fst (write_chars io c s) = IO_AGAIN \<longrightarrow> fst (snd (write_chars io c s)) = 0) \<and>
     (\<forall>c. fst (flush io c) \<noteq> IO_EOF)"

text \<open>A channel that takes everything from now on.\<close>

coinductive channel_ready :: "'c giochannel \<Rightarrow> 'c \<Rightarrow> bool" for io where
  ready: "(\<And>s. fst (write_chars io c s) = IO_NORMAL) \<Longrightarrow>
    (\<And>s. channel_ready io (snd (snd (write_chars io c s)))) \<Longrightarrow>
    fst (flush io c) = IO_NORMAL \<Longrightarrow> channel_ready io (snd (flush io c)) \<Longrightarrow> channel_ready io c"

inductive_cases channel_readyE: "channel_ready io c"

lemma line_string_nl_total: "\<exists>raw. irc_line_string_nl l = Inr raw"
proof (cases "args l")
  case Nil
  then show ?thesis by (simp add: irc_line_string_nl_def irc_line_string_def)
next
  case (Cons a as)
  then have "requires_colon l \<noteq> Inl e" for e by (simp add: requires_colon_def Let_def)
  then obtain b where "requires_colon l = Inr b" by (cases "requires_colon l") auto
  then show ?thesis using Cons by (simp add: irc_line_string_nl_def irc_line_string_def)
qed

lemma irc_send_line_total:
  assumes "channel_ok io"
  shows "\<exists>st c'. irc_send_line io iconv c l = Inr (st, c')"
proof -
  obtain raw where raw: "irc_line_string_nl l = Inr raw" using line_string_nl_total by blast
  have "\<exists>st c'. (let (ret, bytes_written, c') = write_chars io c s in
      bind_res (guard_res (ret \<noteq> IO_AGAIN \<or> bytes_written = 0) AssertFail) (\<lambda>_. Inr (ret, c'))) = Inr (st, c')" for s
  proof -
    obtain ret n c' where w: "write_chars io c s = (ret, n, c')" by (cases "write_chars io c s")
    then have "ret \<noteq> IO_AGAIN \<or> n = 0" using assms unfolding channel_ok_def by (metis fst_conv snd_conv)
    then show ?thesis using w by simp
  qed
  then show ?thesis using raw by (auto simp: irc_send_line_def split: option.split)
qed

lemma transport_send_total:
  assumes "channel_ok io"
  shows "\<exists>ret tr' evs. transport_send_line now io tr l = Inr (ret, tr', evs)"
proof (cases "irc_transport_iochannel_is_connected (backend_data tr) \<and> outgoing_id (backend_data tr) = 0")
  let ?d = "backend_data tr"
  case True
  then obtain c where c: "incoming ?d = Some c" by (auto simp: irc_transport_iochannel_is_connected_def)
  obtain st c1 where s: "irc_send_line io (outgoing_iconv ?d) c l = Inr (st, c1)"
    using irc_send_line_total [OF assms] by blast
  have "fst (flush io c1) \<noteq> IO_EOF" using assms by (simp add: channel_ok_def)
  then show ?thesis
    using True c s by (simp add: transport_send_line_def irc_transport_iochannel_send_line_def Let_def)
qed (auto simp: transport_send_line_def irc_transport_iochannel_send_line_def Let_def)

lemma irc_send_line_ready:
  assumes "channel_ready io c"
  obtains c' where "irc_send_line io None c l = Inr (IO_NORMAL, c')" "channel_ready io c'"
proof -
  obtain raw where raw: "irc_line_string_nl l = Inr raw" using line_string_nl_total by blast
  obtain st n c' where w: "write_chars io c raw = (st, n, c')" by (cases "write_chars io c raw")
  have "fst (write_chars io c raw) = IO_NORMAL" "channel_ready io (snd (snd (write_chars io c raw)))"
    using assms by (auto elim: channel_readyE)
  then show ?thesis using that [of c'] raw w by (simp add: irc_send_line_def)
qed

lemma send_pending_ready:
  assumes "channel_ready io c"
  shows "\<exists>c' sent. send_pending io None c ls =
    Inr (Q_empty, c', [], sent, map (\<lambda>l. Sent l IO_NORMAL) ls)"
  using assms
proof (induction ls arbitrary: c)
  case (Cons l ls)
  obtain c1 where c1: "irc_send_line io None c l = Inr (IO_NORMAL, c1)" "channel_ready io c1"
    using irc_send_line_ready [OF Cons.prems] .
  then have f: "fst (flush io c1) = IO_NORMAL" "channel_ready io (snd (flush io c1))"
    by (auto elim: channel_readyE)
  obtain c' sent where "send_pending io None (snd (flush io c1)) ls =
      Inr (Q_empty, c', [], sent, map (\<lambda>l. Sent l IO_NORMAL) ls)"
    using Cons.IH [OF f(2)] by blast
  then show ?case using c1(1) f(1) by (intro exI [of _ c'] exI [of _ True]) simp
qed simp

section \<open>A transport at work\<close>

text \<open>
  A channel for examples: it answers from a script and collects what it takes. Without a
  script it takes everything.
\<close>

type_synonym script_channel = "io_status list \<times> string list"

definition script_io :: "script_channel giochannel" where
  "script_io =
     \<lparr>write_chars = (\<lambda>(sc, out) s.
        case sc of
          [] \<Rightarrow> (IO_NORMAL, length s, [], out @ [s])
        | IO_NORMAL # sc' \<Rightarrow> (IO_NORMAL, length s, sc', out @ [s])
        | st # sc' \<Rightarrow> (st, 0, sc', out)),
      flush = (\<lambda>(sc, out).
        case sc of
          [] \<Rightarrow> (IO_NORMAL, [], out)
        | st # sc' \<Rightarrow> (if st = IO_EOF then IO_NORMAL else st, sc', out)),
      read_line = (\<lambda>(sc, out). (IO_EOF, [], sc, out))\<rparr>"

definition demo_msg :: "string \<Rightarrow> irc_line" where
  "demo_msg t = \<lparr>origin = None, args = [''PRIVMSG'', ''#c'', t], endcolon = COLON_UNKNOWN\<rparr>"

fun transport_exec ::
    "'c giochannel \<Rightarrow> transport_op list \<Rightarrow> 'c irc_transport \<Rightarrow>
     ('c irc_transport \<times> irc_line list \<times> transport_event list) res" where
  "transport_exec io [] tr = Inr (tr, [], [])"
| "transport_exec io (op # ops) tr =
     bind_res (transport_step 0 io op tr) (\<lambda>(tr1, acc, evs).
     bind_res (transport_exec io ops tr1) (\<lambda>(tr2, acc', evs').
     Inr (tr2, acc @ acc', evs @ evs')))"

lemma channel_ok_script: "channel_ok script_io"
  by (auto simp: channel_ok_def script_io_def split: list.splits io_status.splits)

lemma script_ready: "channel_ready script_io ([], out)"
  by (coinduction arbitrary: out) (auto simp: script_io_def)

lemma exec_sends_run:
  assumes "transport_exec io (map Op_send ls) tr1 = Inr (tr2, acc, evs)" "transport_runs io tr acc0 evs0 tr1"
  shows "transport_runs io tr (acc0 @ acc) (evs0 @ evs) tr2"
  using assms
proof (induction ls arbitrary: tr1 acc evs acc0 evs0)
  case (Cons l ls)
  then obtain tr' acc1 evs1 acc2 evs2 where s: "transport_step 0 io (Op_send l) tr1 = Inr (tr', acc1, evs1)"
    "transport_exec io (map Op_send ls) tr' = Inr (tr2, acc2, evs2)" "acc = acc1 @ acc2" "evs = evs1 @ evs2"
    by auto
  have "transport_runs io tr (acc0 @ acc1) (evs0 @ evs1) tr'"
    by (rule runs_step [OF Cons.prems(2) _ s(1)]) (simp add: op_enabled_def)
  from Cons.IH [OF s(2) this] s(3,4) show ?case by simp
qed simp

lemma inv_new: "transport_inv (backend_data (irc_transport_new_iochannel c))"
  by (simp add: transport_inv_def irc_transport_new_iochannel_def)

text \<open>The transport after two lines that met a full channel.\<close>

definition demo_fresh :: "script_channel irc_transport" where
  "demo_fresh = irc_transport_new_iochannel ([IO_AGAIN, IO_NORMAL], [])"

definition demo_waiting :: "script_channel irc_transport" where
  "demo_waiting =
     (case transport_exec script_io (map Op_send [demo_msg ''a'', demo_msg ''b'']) demo_fresh of
        Inr (tr, _, _) \<Rightarrow> tr)"

lemma demo_waiting_exec:
  "transport_exec script_io (map Op_send [demo_msg ''a'', demo_msg ''b'']) demo_fresh =
     Inr (demo_waiting, [demo_msg ''a'', demo_msg ''b''], [])"
proof -
  let ?m = "transport_exec script_io (map Op_send [demo_msg ''a'', demo_msg ''b'']) demo_fresh"
  have "case ?m of Inl _ \<Rightarrow> False | Inr (_, acc, evs) \<Rightarrow> acc = [demo_msg ''a'', demo_msg ''b''] \<and> evs = []"
    by code_simp
  then show ?thesis unfolding demo_waiting_def by (auto split: sum.splits prod.splits)
qed

lemma demo_waiting_run:
  "transport_runs script_io demo_fresh [demo_msg ''a'', demo_msg ''b''] [] demo_waiting"
  using exec_sends_run [OF demo_waiting_exec runs_nil] by simp

lemma demo_waiting_props:
  "irc_transport_iochannel_is_connected (backend_data demo_waiting)"
  "pending_lines (backend_data demo_waiting) = [demo_msg ''a'', demo_msg ''b'']"
  "outgoing_id (backend_data demo_waiting) = 1"
  "outgoing_iconv (backend_data demo_waiting) = None"
  "incoming (backend_data demo_waiting) = Some ([], [])"
proof -
  show "irc_transport_iochannel_is_connected (backend_data demo_waiting)"
    "outgoing_id (backend_data demo_waiting) = 1"
    "pending_lines (backend_data demo_waiting) = [demo_msg ''a'', demo_msg ''b'']"
    "incoming (backend_data demo_waiting) = Some ([], [])"
    by code_simp+
  have "case outgoing_iconv (backend_data demo_waiting) of None \<Rightarrow> True | Some _ \<Rightarrow> False" by code_simp
  then show "outgoing_iconv (backend_data demo_waiting) = None" by (simp split: option.splits)
qed

section \<open>Properties\<close>



text \<open>C31. No line is stuck. While the transport is connected and lines wait, the main loop
  holds the watch that will write them, and as soon as the channel takes what is written, one
  dispatch of that watch writes all of them in order and leaves the queue empty.\<close>

theorem transport_progress:
  assumes "transport_runs io (irc_transport_new_iochannel c) acc evs tr"
    "irc_transport_iochannel_is_connected (backend_data tr)" "pending_lines (backend_data tr) \<noteq> []"
    "outgoing_iconv (backend_data tr) = None"
  shows "op_enabled (backend_data tr) (Op_dispatch (outgoing_id (backend_data tr))) \<and>
    (channel_ready io (the (incoming (backend_data tr))) \<longrightarrow>
      (\<exists>tr'. transport_step now io (Op_dispatch (outgoing_id (backend_data tr))) tr =
          Inr (tr', [], map (\<lambda>l. Sent l IO_NORMAL) (pending_lines (backend_data tr))) \<and>
        pending_lines (backend_data tr') = []))"
proof (intro conjI impI)
  let ?d = "backend_data tr"
  have inv: "transport_inv ?d" using runs_inv_settled [OF assms(1) inv_new] by simp
  then show "op_enabled ?d (Op_dispatch (outgoing_id ?d))"
    using assms(2,3) by (auto simp: transport_inv_def op_enabled_def irc_transport_iochannel_is_connected_def)
  assume ready0: "channel_ready io (the (incoming ?d))"
  obtain c where c: "incoming ?d = Some c" "\<not> pending_disconnect ?d"
    using assms(2) by (auto simp: irc_transport_iochannel_is_connected_def)
  have f: "fst (flush io c) = IO_NORMAL" and ready: "channel_ready io (snd (flush io c))"
    using ready0 c(1) by (auto elim: channel_readyE)
  obtain tr1 where q: "transport_send_queue now io tr =
      Inr (False, tr1, map (\<lambda>l. Sent l IO_NORMAL) (pending_lines ?d))" "pending_lines (backend_data tr1) = []"
    using send_pending_ready [OF ready, of "pending_lines ?d"] c f assms(4)
    by (auto simp: transport_send_queue_def Let_def)
  have "Cb_hangup \<notin> set (map (\<lambda>l. Sent l IO_NORMAL) ls)" for ls by auto
  then show "\<exists>tr'. transport_step now io (Op_dispatch (outgoing_id ?d)) tr =
      Inr (tr', [], map (\<lambda>l. Sent l IO_NORMAL) (pending_lines ?d)) \<and> pending_lines (backend_data tr') = []"
    using q by (simp add: transport_step_def dispatch_watch_def on_hangup_def Let_def)
qed

theorem transport_progress_witness:
  "\<exists>tr'. transport_step 0 script_io (Op_dispatch 1) demo_waiting =
     Inr (tr', [], [Sent (demo_msg ''a'') IO_NORMAL, Sent (demo_msg ''b'') IO_NORMAL]) \<and>
     pending_lines (backend_data tr') = []"
  using transport_progress [OF demo_waiting_run [unfolded demo_fresh_def], of 0] demo_waiting_props
    script_ready [of "[]"] by simp

text \<open>Sending and disconnecting return: over a channel that keeps to the documentation of
  GLib, no run brings the transport into a state where handing over a line or disconnecting
  stops the program.\<close>

theorem transport_send_returns:
  assumes "transport_runs io (irc_transport_new_iochannel c) acc evs tr" "channel_ok io"
  shows "(\<exists>ret tr' evs'. transport_send_line now io tr l = Inr (ret, tr', evs')) \<and>
    (\<exists>tr' evs'. irc_transport_disconnect tr = Inr (tr', evs'))"
proof
  let ?d = "backend_data tr"
  show "\<exists>tr' evs'. irc_transport_disconnect tr = Inr (tr', evs')"
    by (auto simp: irc_transport_disconnect_def irc_transport_iochannel_is_connected_def
        irc_transport_iochannel_disconnect_def really_disconnect_def Let_def)
  show "\<exists>ret tr' evs'. transport_send_line now io tr l = Inr (ret, tr', evs')"
    by (rule transport_send_total [OF assms(2)])
qed

theorem transport_send_returns_witness:
  "\<exists>ret tr' evs'. transport_send_line 0 script_io demo_waiting (demo_msg ''c'') = Inr (ret, tr', evs')"
  using transport_send_returns [OF demo_waiting_run [unfolded demo_fresh_def] channel_ok_script] by blast

text \<open>A fault of the queue: when both the write and the flush of one line report that the
  channel is full, two watches are registered and only the second is remembered. If the owner
  then disconnects, the first watch drains the queue and drops the channel, and the dispatch of
  the second fails the assertion of \<open>transport_send_queue\<close>.\<close>

theorem stale_watch_aborts:
  "fault_of (transport_exec script_io
     [Op_send (demo_msg ''a''), Op_disconnect, Op_dispatch 1, Op_dispatch 2]
     (irc_transport_new_iochannel ([IO_AGAIN, IO_AGAIN], []))) = Some AssertFail"
  by code_simp

end
