(* ===== verification/Client.thy ===== *)
theory Client
  imports State_Spec Transport Numerics
begin

text \<open>
  \<open>libirc/client.c\<close>: the connection with one client. A client has a transport, the details it
  logs in with, and a network state of its own that follows the lines it is sent. The
  functions that describe a network to a client read another network state, which is an
  argument here. Callbacks that only report are recorded in the field \<open>cl_calls\<close>, so the lines
  that a client was sent can be read off it; the callbacks that act on the client are
  parameters. Functions return whether sending succeeded, as in the code, and stop at the
  first line that cannot be sent.
\<close>

section \<open>Clients\<close>

record irc_login_details =
  ld_password :: "string option"
  ld_nick :: "string option"
  ld_username :: "string option"
  ld_mode :: "string option"
  ld_unused :: "string option"
  ld_realname :: "string option"

text \<open>Callbacks without a result for the client: \<open>process_to_client\<close> and \<open>disconnect\<close>.\<close>

datatype client_call = To_client irc_line | Lost_client

text \<open>
  \<open>cl_ping\<close> says whether the ping timer is installed, \<open>cl_pending\<close> whether the client is on
  the list \<open>pending_clients\<close>, and \<open>cl_exited\<close> that \<open>exit\<close> was called.
\<close>

record 'c irc_client =
  cl_references :: int
  cl_network :: "addr option"
  cl_description :: string
  cl_ping :: bool
  cl_last_ping :: int
  cl_last_pong :: int
  cl_connect_time :: int
  cl_login_details :: irc_login_details
  cl_client_hostname :: string
  cl_default_origin :: "string option"
  cl_exit_on_close :: bool
  cl_connected :: bool
  cl_authenticated :: bool
  cl_state :: "irc_network_state option"
  cl_transport :: "'c irc_transport"
  cl_pending :: bool
  cl_exited :: bool
  cl_calls :: "client_call list"

type_synonym 'c sending = "'c irc_client \<Rightarrow> (bool \<times> 'c irc_client) res"

definition record_call :: "client_call \<Rightarrow> 'c irc_client \<Rightarrow> 'c irc_client" where
  "record_call x c = c\<lparr>cl_calls := cl_calls c @ [x]\<rparr>"

text \<open>\<open>if (!send(...)) return FALSE;\<close> and a loop of such statements.\<close>

definition and_then :: "(bool \<times> 'c irc_client) res \<Rightarrow> 'c sending \<Rightarrow> (bool \<times> 'c irc_client) res" where
  "and_then m k = bind_res m (\<lambda>(ok, c). if ok then k c else Inr (False, c))"

fun send_each :: "('x \<Rightarrow> 'c sending) \<Rightarrow> 'x list \<Rightarrow> 'c sending" where
  "send_each f [] c = Inr (True, c)"
| "send_each f (x # xs) c = and_then (f x c) (send_each f xs)"

definition client_get_own_hostmask :: "'c irc_client \<Rightarrow> string option" where
  "client_get_own_hostmask c =
     (case cl_state c of None \<Rightarrow> None | Some s \<Rightarrow> nn_hostmask (s_me s))"

definition client_get_default_target :: "'c irc_client \<Rightarrow> string" where
  "client_get_default_target c =
     (case cl_state c of
        None \<Rightarrow> ''*''
      | Some s \<Rightarrow> (case nn_nick (s_me s) of None \<Rightarrow> ''*'' | Some n \<Rightarrow> n))"

section \<open>Disconnecting and sending\<close>

text \<open>
  Disconnecting marks the client first, so the calls that the transport makes back to
  \<open>client_disconnect\<close> while the last line is sent, or while it is closed, do nothing.
\<close>

definition client_disconnect ::
    "int \<Rightarrow> 'c giochannel \<Rightarrow> 'c irc_client \<Rightarrow> string option \<Rightarrow> 'c irc_client res" where
  "client_disconnect now io c reason =
     (if \<not> cl_connected c then Inr c
      else
        let c1 = record_call Lost_client (c\<lparr>cl_connected := False, cl_ping := False, cl_pending := False\<rparr>) in
        bind_res (transport_send_args now io (cl_transport c1) [Some ''ERROR'', reason]) (\<lambda>(_, tr1, evs).
        bind_res (on_hangup tr1 evs) (\<lambda>(tr2, _).
        bind_res (irc_transport_disconnect tr2) (\<lambda>(tr3, _).
        Inr (c1\<lparr>cl_transport := tr3, cl_exited := cl_exited c1 \<or> cl_exit_on_close c1\<rparr>)))))"

text \<open>The callbacks of the transport that change the client.\<close>

definition on_transport_events ::
    "int \<Rightarrow> 'c giochannel \<Rightarrow> transport_event list \<Rightarrow> 'c irc_client \<Rightarrow> 'c irc_client res" where
  "on_transport_events now io evs c =
     (if Cb_hangup \<in> set evs then
        bind_res (irc_transport_disconnect (cl_transport c)) (\<lambda>(tr, evs').
        let c1 = c\<lparr>cl_transport := tr\<rparr> in
        if Cb_disconnect \<in> set evs' then client_disconnect now io c1 (Some ''Hangup from client'')
        else Inr c1)
      else Inr c)"

text \<open>The client's own state handles the line, which may trim an argument of it.\<close>

definition track_line :: "int \<Rightarrow> 'c irc_client \<Rightarrow> irc_line \<Rightarrow> ('c irc_client \<times> irc_line) res" where
  "track_line now c l =
     (case cl_state c of
        None \<Rightarrow> Inr (c, l)
      | Some s \<Rightarrow>
          bind_res (state_handle_data now s l) (\<lambda>(_, s').
          Inr (c\<lparr>cl_state := Some s'\<rparr>, state_handle_data_line l)))"

definition client_send_line ::
    "int \<Rightarrow> 'c giochannel \<Rightarrow> 'c irc_client \<Rightarrow> irc_line \<Rightarrow> (bool \<times> 'c irc_client) res" where
  "client_send_line now io c l =
     (if \<not> cl_connected c then Inr (False, c)
      else
        bind_res (track_line now (record_call (To_client l) c) l) (\<lambda>(c2, l2).
        bind_res (transport_send_line now io (cl_transport c2) l2) (\<lambda>(ret, tr, evs).
        bind_res (on_transport_events now io evs (c2\<lparr>cl_transport := tr\<rparr>)) (\<lambda>c3.
        Inr (ret, c3)))))"

definition client_send_response ::
    "int \<Rightarrow> 'c giochannel \<Rightarrow> 'c irc_client \<Rightarrow> int \<Rightarrow> string option list \<Rightarrow> (bool \<times> 'c irc_client) res" where
  "client_send_response now io c response ap =
     bind_res (guard_res (0 < response) AssertFail) (\<lambda>_.
     bind_res (virc_parse_response (cl_default_origin c) (client_get_default_target c)
                 (nat response) ap) (\<lambda>l.
     client_send_line now io c l))"

definition client_send_args_ex ::
    "int \<Rightarrow> 'c giochannel \<Rightarrow> 'c irc_client \<Rightarrow> string option \<Rightarrow> string option list \<Rightarrow>
     (bool \<times> 'c irc_client) res" where
  "client_send_args_ex now io c hm ap = client_send_line now io c (virc_parse_line hm ap)"

definition client_send_args ::
    "int \<Rightarrow> 'c giochannel \<Rightarrow> 'c irc_client \<Rightarrow> string option list \<Rightarrow> (bool \<times> 'c irc_client) res" where
  "client_send_args now io c ap = client_send_line now io c (virc_parse_line (cl_default_origin c) ap)"

definition on_transport_error ::
    "int \<Rightarrow> 'c giochannel \<Rightarrow> 'c irc_client \<Rightarrow> string option \<Rightarrow> (bool \<times> 'c irc_client) res" where
  "on_transport_error now io c message =
     bind_res (client_disconnect now io c
                 (Some (case message of None \<Rightarrow> ''Unknown error'' | Some m \<Rightarrow> m))) (\<lambda>c'.
     Inr (False, c'))"

definition on_transport_charset_error ::
    "int \<Rightarrow> 'c giochannel \<Rightarrow> 'c irc_client \<Rightarrow> string option \<Rightarrow> 'c irc_client res" where
  "on_transport_charset_error now io c error_msg =
     bind_res (client_send_response now io c ERR_BADCHARENCODING
                 [Some ''*'', charset (cl_transport c), error_msg]) (\<lambda>(_, c'). Inr c')"

definition client_ping :: "int \<Rightarrow> 'c giochannel \<Rightarrow> 'c sending" where
  "client_ping now io c =
     (let c1 = c\<lparr>cl_last_ping := now\<rparr>;
          name = (case cl_state c1 of
                    None \<Rightarrow> ''PinglCtrlproxy''
                  | Some s \<Rightarrow> (case ni_name (s_info s) of None \<Rightarrow> ''PinglCtrlproxy'' | Some n \<Rightarrow> n))
      in client_send_args_ex now io c1 None [Some ''PING'', Some name])"

definition client_send_motd :: "int \<Rightarrow> 'c giochannel \<Rightarrow> string list option \<Rightarrow> 'c sending" where
  "client_send_motd now io lines c =
     (case lines of
        None \<Rightarrow> client_send_response now io c ERR_NOMOTD [Some ''No MOTD file'']
      | Some ls \<Rightarrow>
          and_then (client_send_response now io c RPL_MOTDSTART [Some ''Start of MOTD'']) (\<lambda>c1.
          and_then (send_each (\<lambda>x c. client_send_response now io c RPL_MOTD [Some x]) ls c1) (\<lambda>c2.
          client_send_response now io c2 RPL_ENDOFMOTD [Some ''End of MOTD''])))"

section \<open>Logging in\<close>

record 'c irc_client_callbacks =
  cb_process_from_client :: "'c irc_client \<Rightarrow> irc_line \<Rightarrow> (bool \<times> 'c irc_client) res"
  cb_welcome :: "'c sending"
  cb_on_connect :: "'c irc_client \<Rightarrow> string \<Rightarrow> int \<Rightarrow> 'c irc_client res"

definition ignore_result :: "(bool \<times> 'c irc_client) res \<Rightarrow> (bool \<times> 'c irc_client) res" where
  "ignore_result m = bind_res m (\<lambda>(_, c). Inr (True, c))"

definition need_more_params ::
    "int \<Rightarrow> 'c giochannel \<Rightarrow> irc_line \<Rightarrow> 'c sending" where
  "need_more_params now io l c =
     ignore_result (client_send_response now io c ERR_NEEDMOREPARAMS
       [Some (args l ! 0), Some ''Not enough parameters''])"

definition process_from_pending_client ::
    "int \<Rightarrow> 'c giochannel \<Rightarrow> 'c irc_client_callbacks \<Rightarrow> 'c irc_client \<Rightarrow> irc_line \<Rightarrow>
     (bool \<times> 'c irc_client) res" where
  "process_from_pending_client now io cb c l =
     bind_res (sarg l 0) (\<lambda>a0.
     let ld = cl_login_details c in
     if base_eq a0 ''NICK'' then
       (if argc l < 2 then need_more_params now io l c
        else Inr (True, c\<lparr>cl_login_details := ld\<lparr>ld_nick := Some (args l ! 1)\<rparr>\<rparr>))
     else if base_eq a0 ''USER'' then
       (if argc l < 5 then need_more_params now io l c
        else Inr (True, c\<lparr>cl_login_details := ld\<lparr>ld_username := Some (args l ! 1),
               ld_mode := Some (args l ! 2), ld_unused := Some (args l ! 3),
               ld_realname := Some (args l ! 4)\<rparr>\<rparr>))
     else if base_eq a0 ''PASS'' then
       bind_res (arg l 1) (\<lambda>a1. Inr (True, c\<lparr>cl_login_details := ld\<lparr>ld_password := a1\<rparr>\<rparr>))
     else if base_eq a0 ''CONNECT'' then
       (if argc l < 2 then need_more_params now io l c
        else
          bind_res (arg l 2) (\<lambda>a2.
          let port = (case a2 of None \<Rightarrow> 6667 | Some p \<Rightarrow> atoi p) mod 65536 in
          bind_res (cb_on_connect cb c (args l ! 1) port) (\<lambda>c'. Inr (True, c'))))
     else
       ignore_result (client_send_response now io c ERR_NOTREGISTERED
         [Some ''Register first'', cl_default_origin c]))"

text \<open>A line from the client; NULL and empty lines are dropped.\<close>

definition on_transport_receive_line ::
    "int \<Rightarrow> 'c giochannel \<Rightarrow> 'c irc_client_callbacks \<Rightarrow> 'c irc_client \<Rightarrow> irc_line option \<Rightarrow>
     (bool \<times> 'c irc_client) res" where
  "on_transport_receive_line now io cb c ol =
     (case ol of
        None \<Rightarrow> Inr (True, c)
      | Some l \<Rightarrow>
          if argc l = 0 then Inr (True, c)
          else if cl_authenticated c then cb_process_from_client cb c l
          else
            and_then (process_from_pending_client now io cb c l) (\<lambda>c1.
            let ld = cl_login_details c1 in
            bind_res (if ld_nick ld \<noteq> None \<and> ld_username ld \<noteq> None \<and> cl_state c1 = None
                      then bind_res (network_state_init (ld_nick ld) (ld_username ld)
                                       (Some (cl_client_hostname c1))) (\<lambda>s.
                        Inr (c1\<lparr>cl_state := Some s\<rparr>))
                      else Inr c1) (\<lambda>c2.
            if cl_state c2 = None then Inr (True, c2)
            else
              and_then (cb_welcome cb (c2\<lparr>cl_pending := False\<rparr>)) (\<lambda>c3.
              Inr (True, c3\<lparr>cl_authenticated := True\<rparr>)))))"

text \<open>
  A new client. \<open>peer\<close> is the host name that the operating system reports for the other end,
  if any; nothing was read from the channel yet. The default character set is NULL, which is
  always accepted.
\<close>

definition irc_client_new ::
    "int \<Rightarrow> 'c irc_transport \<Rightarrow> string option \<Rightarrow> string option \<Rightarrow> string \<Rightarrow> 'c irc_client" where
  "irc_client_new now transport peer default_origin desc =
     \<lparr>cl_references = 1, cl_network = None, cl_description = desc, cl_ping = True, cl_last_ping = 0,
      cl_last_pong = 0, cl_connect_time = now,
      cl_login_details = \<lparr>ld_password = None, ld_nick = None, ld_username = None, ld_mode = None,
        ld_unused = None, ld_realname = None\<rparr>,
      cl_client_hostname = (case peer of None \<Rightarrow> ''UNKNOWN'' | Some h \<Rightarrow> h),
      cl_default_origin = default_origin, cl_exit_on_close = False, cl_connected = True,
      cl_authenticated = False, cl_state = None,
      cl_transport = snd (transport_set_charset (\<lambda>_ _. None) (irc_transport_set_callbacks transport) None),
      cl_pending = True, cl_exited = False, cl_calls = []\<rparr>"

text \<open>
  The clients in the order they were created; the pending ones among them are the list
  \<open>pending_clients\<close>. The loop takes its head until none is left.
\<close>

fun disconnect_first_pending ::
    "int \<Rightarrow> 'c giochannel \<Rightarrow> string option \<Rightarrow> 'c irc_client list \<Rightarrow> 'c irc_client list option res" where
  "disconnect_first_pending now io reason [] = Inr None"
| "disconnect_first_pending now io reason (c # cs) =
     (if cl_pending c
      then bind_res (client_disconnect now io c reason) (\<lambda>c'. Inr (Some (c' # cs)))
      else bind_res (disconnect_first_pending now io reason cs) (\<lambda>r. Inr (map_option (Cons c) r)))"

fun kill_pending_clients ::
    "nat \<Rightarrow> int \<Rightarrow> 'c giochannel \<Rightarrow> string option \<Rightarrow> 'c irc_client list \<Rightarrow> 'c irc_client list res" where
  "kill_pending_clients 0 now io reason cs = Inl Diverges"
| "kill_pending_clients (Suc k) now io reason cs =
     bind_res (disconnect_first_pending now io reason cs) (\<lambda>r.
     case r of None \<Rightarrow> Inr cs | Some cs' \<Rightarrow> kill_pending_clients k now io reason cs')"

section \<open>References\<close>

definition free_client :: "'c irc_client \<Rightarrow> unit res" where
  "free_client c =
     bind_res (guard_res (\<not> cl_connected c) AssertFail) (\<lambda>_.
     bind_res (case cl_state c of None \<Rightarrow> Inr () | Some s \<Rightarrow> bind_res (free_network_state s) (\<lambda>_. Inr ())) (\<lambda>_.
     free_irc_transport (cl_transport c)))"

definition client_ref :: "'c irc_client \<Rightarrow> 'c irc_client" where
  "client_ref c = c\<lparr>cl_references := cl_references c + 1\<rparr>"

text \<open>The result is \<open>None\<close> when the client was freed.\<close>

definition client_unref :: "'c irc_client \<Rightarrow> 'c irc_client option res" where
  "client_unref c =
     (let c1 = c\<lparr>cl_references := cl_references c - 1\<rparr> in
      if cl_references c1 = 0 then bind_res (free_client c1) (\<lambda>_. Inr None) else Inr (Some c1))"

end
