(* ===== verification/Client_State.thy ===== *)
theory Client_State
  imports Client
begin

text \<open>
  The second half of \<open>libirc/client.c\<close>: describing a network state to a client. The state that
  is described, \<open>s\<close>, is never the client's own state, so it does not change while lines are
  sent; a channel is the address of a channel of \<open>s\<close>.
\<close>

section \<open>Topics, names, bans and modes of a channel\<close>

definition client_send_topic ::
    "int \<Rightarrow> 'c giochannel \<Rightarrow> irc_channel_state \<Rightarrow> bool \<Rightarrow> 'c sending" where
  "client_send_topic now io ch explicit c =
     and_then
       (case c_topic ch of
          Some t \<Rightarrow> client_send_response now io c RPL_TOPIC [Some (c_name ch), Some t]
        | None \<Rightarrow>
            if explicit then client_send_response now io c RPL_NOTOPIC [Some (c_name ch), Some ''No topic set'']
            else Inr (True, c)) (\<lambda>c1.
     case c_topic_set_by ch of
       None \<Rightarrow> Inr (True, c1)
     | Some by_nick \<Rightarrow>
         if c_topic_set_time ch = 0 then Inr (True, c1)
         else client_send_response now io c1 RPL_TOPICWHOTIME
                [Some (c_name ch), Some by_nick, Some (show_int (c_topic_set_time ch))])"

text \<open>
  The list of names: each user, with the prefix of its highest mode, is added to the current
  353 line; when it does not fit, the line is sent and a new one is started, whose first name
  carries the colon of the last argument. \<open>l\<close> is the line that is being filled.
\<close>

definition names_arg ::
    "irc_network_state \<Rightarrow> 'c irc_client \<Rightarrow> addr \<Rightarrow> string option res" where
  "names_arg s c a =
     bind_res (live (s_cn s a)) (\<lambda>n.
     bind_res (asserted (cl_state c)) (\<lambda>cs.
     bind_res (get_prefix_from_modes (s_info cs) (cn_modes n)) (\<lambda>prefix.
     bind_res (get_nick s (cn_global_nick n)) (\<lambda>nn.
     Inr (if prefix = NUL then nn_nick nn else Some (prefix # printf_s (nn_nick nn)))))))"

definition new_names_line :: "irc_channel_state \<Rightarrow> 'c irc_client \<Rightarrow> string \<Rightarrow> irc_line res" where
  "new_names_line ch c a =
     (let l = (irc_parse_line_args (cl_default_origin c)
                 [Some ''353'', Some (client_get_default_target c), Some (c_str [c_mode ch]),
                  Some (c_name ch)])\<lparr>endcolon := WITHOUT_COLON\<rparr>;
          (fits, l') = line_add_arg l (CHR '':'' # a) in
      bind_res (guard_res fits AssertFail) (\<lambda>_. Inr l'))"

fun send_names ::
    "int \<Rightarrow> 'c giochannel \<Rightarrow> irc_network_state \<Rightarrow> irc_channel_state \<Rightarrow> irc_line option \<Rightarrow> addr list \<Rightarrow>
     'c irc_client \<Rightarrow> (bool \<times> irc_line option \<times> 'c irc_client) res" where
  "send_names now io s ch ol [] c = Inr (True, ol, c)"
| "send_names now io s ch ol (a # as) c =
     bind_res (names_arg s c a) (\<lambda>x.
     case ol of
       None \<Rightarrow>
         bind_res (new_names_line ch c (printf_s x)) (\<lambda>l'. send_names now io s ch (Some l') as c)
     | Some l \<Rightarrow>
         bind_res (deref x) (\<lambda>y.
         let (fits, l1) = line_add_arg l y in
         if fits then send_names now io s ch (Some l1) as c
         else
           bind_res (client_send_line now io c l) (\<lambda>(ret, c1).
           bind_res (new_names_line ch c1 y) (\<lambda>l'.
           if ret then send_names now io s ch (Some l') as c1 else Inr (False, Some l', c1)))))"

definition client_send_nameslist ::
    "int \<Rightarrow> 'c giochannel \<Rightarrow> irc_network_state \<Rightarrow> irc_channel_state \<Rightarrow> 'c sending" where
  "client_send_nameslist now io s ch c =
     bind_res (send_names now io s ch None (c_nicks ch) c) (\<lambda>(ok, ol, c1).
     if \<not> ok then Inr (False, c1)
     else
       and_then (case ol of None \<Rightarrow> Inr (True, c1) | Some l \<Rightarrow> client_send_line now io c1 l) (\<lambda>c2.
       client_send_response now io c2 RPL_ENDOFNAMES [Some (c_name ch), Some ''End of /NAMES list'']))"

definition client_send_banlist ::
    "int \<Rightarrow> 'c giochannel \<Rightarrow> irc_channel_state \<Rightarrow> 'c sending" where
  "client_send_banlist now io ch c =
     and_then (send_each (\<lambda>be c. client_send_response now io c RPL_BANLIST
                            [Some (c_name ch), be_hostmask be])
                 (c_chanmode_nicklist ch (CHR ''b'')) c) (\<lambda>c1.
     client_send_response now io c1 RPL_ENDOFBANLIST [Some (c_name ch), Some ''End of channel ban list''])"

text \<open>The options of the modes of the type that takes an argument only when it is set.\<close>

fun mode_options :: "irc_channel_state \<Rightarrow> 'c irc_client \<Rightarrow> string \<Rightarrow> string list res" where
  "mode_options ch c [] = Inr []"
| "mode_options ch c (m # ms) =
     bind_res (deref (cl_state c)) (\<lambda>cs.
     bind_res (network_chanmode_type m (Some (s_info cs))) (\<lambda>t.
     bind_res (mode_options ch c ms) (\<lambda>opts.
     case c_chanmode_option ch m of
       Some x \<Rightarrow> Inr (if t = CHANMODE_OPT_SETTING then x # opts else opts)
     | None \<Rightarrow> Inr opts)))"

definition client_send_channel_mode ::
    "int \<Rightarrow> 'c giochannel \<Rightarrow> irc_channel_state \<Rightarrow> 'c sending" where
  "client_send_channel_mode now io ch c =
     and_then
       (case mode2string (c_modes ch) of
          None \<Rightarrow> Inr (True, c)
        | Some mode \<Rightarrow>
            bind_res (mode_options ch c mode) (\<lambda>opts.
            client_send_line now io c
              \<lparr>origin = cl_default_origin c,
               args = [show_pad3 (nat RPL_CHANNELMODEIS), client_get_default_target c, c_name ch, mode] @ opts,
               endcolon = COLON_UNKNOWN\<rparr>)) (\<lambda>c1.
     if c_creation_time ch > 0
     then client_send_response now io c1 RPL_CREATIONTIME
            [Some (c_name ch), Some (show_int (c_creation_time ch))]
     else Inr (True, c1))"

definition client_send_luserchannels :: "int \<Rightarrow> 'c giochannel \<Rightarrow> int \<Rightarrow> 'c sending" where
  "client_send_luserchannels now io num c =
     client_send_response now io c RPL_LUSERCHANNELS
       [Some (show_int (num mod 2 ^ 32)), Some ''channels formed'']"

section \<open>Whole states\<close>

definition client_send_channel_state ::
    "int \<Rightarrow> 'c giochannel \<Rightarrow> irc_network_state \<Rightarrow> irc_channel_state \<Rightarrow> 'c sending" where
  "client_send_channel_state now io s ch c =
     and_then (client_send_args_ex now io c (client_get_own_hostmask c) [Some ''JOIN'', Some (c_name ch)]) (\<lambda>c1.
     and_then (client_send_topic now io ch False c1) (\<lambda>c2.
     client_send_nameslist now io s ch c2))"

definition client_send_state :: "int \<Rightarrow> 'c giochannel \<Rightarrow> irc_network_state \<Rightarrow> 'c sending" where
  "client_send_state now io s c =
     and_then
       (case cl_state c of
          None \<Rightarrow> Inr (True, c)
        | Some cs \<Rightarrow>
            bind_res (deref (nn_nick (s_me s))) (\<lambda>nick.
            bind_res (deref (nn_nick (s_me cs))) (\<lambda>own.
            if strcmp nick own \<noteq> 0
            then client_send_args_ex now io c (nn_hostmask (s_me cs)) [Some ''NICK'', Some nick]
            else Inr (True, c)))) (\<lambda>c1.
     and_then (send_each (\<lambda>a c. bind_res (get_channel s a) (\<lambda>ch. client_send_channel_state now io s ch c))
                 (s_channels s) c1) (\<lambda>c2.
     case mode2string (nn_modes (s_me s)) of
       None \<Rightarrow> Inr (True, c2)
     | Some mode \<Rightarrow> client_send_args_ex now io c2 (nn_nick (s_me s)) [Some ''MODE'', Some mode]))"

definition send_user_gone ::
    "int \<Rightarrow> 'c giochannel \<Rightarrow> irc_network_state \<Rightarrow> irc_network_state \<Rightarrow> addr \<Rightarrow> addr \<Rightarrow> 'c sending" where
  "send_user_gone now io old new ns a c =
     bind_res (live (s_cn old a)) (\<lambda>on.
     bind_res (get_nick old (cn_global_nick on)) (\<lambda>gn.
     bind_res (find_channel_nick_hostmask new ns (nn_hostmask gn)) (\<lambda>r.
     bind_res (get_channel new ns) (\<lambda>nch.
     case r of
       None \<Rightarrow> client_send_args_ex now io c (nn_hostmask gn) [Some ''PART'', Some (c_name nch)]
     | Some n \<Rightarrow>
         bind_res (live (s_cn new n)) (\<lambda>nn.
         bind_res (get_nick new (cn_global_nick nn)) (\<lambda>ngn.
         client_send_args_ex now io c (nn_hostmask gn) [Some ''NICK'', nn_nick ngn]))))))"

definition send_user_new ::
    "int \<Rightarrow> 'c giochannel \<Rightarrow> irc_network_state \<Rightarrow> addr \<Rightarrow> irc_network_state \<Rightarrow> addr \<Rightarrow> 'c sending" where
  "send_user_new now io old os new a c =
     bind_res (live (s_cn new a)) (\<lambda>nn.
     bind_res (get_nick new (cn_global_nick nn)) (\<lambda>gn.
     bind_res (find_channel_nick old os (nn_nick gn)) (\<lambda>r.
     case r of
       None \<Rightarrow>
         bind_res (get_channel new (cn_channel nn)) (\<lambda>ch.
         client_send_args_ex now io c (nn_hostmask gn) [Some ''JOIN'', Some (c_name ch)])
     | Some _ \<Rightarrow> Inr (True, c))))"

definition modes_differ :: "modes \<Rightarrow> modes \<Rightarrow> bool" where
  "modes_differ a b \<longleftrightarrow> list_ex (\<lambda>m. a m \<noteq> b m) (map char_of [0..<255::nat])"

definition client_send_channel_state_diff ::
    "int \<Rightarrow> 'c giochannel \<Rightarrow> irc_network_state \<Rightarrow> addr \<Rightarrow> irc_network_state \<Rightarrow> addr \<Rightarrow> 'c sending" where
  "client_send_channel_state_diff now io old os new ns c =
     bind_res (get_channel old os) (\<lambda>och.
     bind_res (get_channel new ns) (\<lambda>nch.
     and_then (send_each (send_user_gone now io old new ns) (c_nicks och) c) (\<lambda>c1.
     and_then (send_each (send_user_new now io old os new) (c_nicks nch) c1) (\<lambda>c2.
     and_then (if c_topic och \<noteq> c_topic nch
               then client_send_args_ex now io c2 (c_topic_set_by nch)
                      [Some ''TOPIC'', Some (c_name nch), c_topic nch]
               else Inr (True, c2)) (\<lambda>c3.
     if modes_differ (c_modes och) (c_modes nch)
     then client_send_args now io c3 [Some ''MODE'', Some (c_name nch), mode2string (c_modes nch)]
     else Inr (True, c3))))))"

definition client_send_state_diff ::
    "int \<Rightarrow> 'c giochannel \<Rightarrow> irc_network_state \<Rightarrow> irc_network_state \<Rightarrow> 'c sending" where
  "client_send_state_diff now io old new c =
     and_then (send_each (\<lambda>a c.
         bind_res (get_channel old a) (\<lambda>os.
         bind_res (find_channel new (Some (c_name os))) (\<lambda>r.
         case r of
           Some ns \<Rightarrow> client_send_channel_state_diff now io old a new ns c
         | None \<Rightarrow> client_send_args_ex now io c (client_get_own_hostmask c)
                     [Some ''PART'', Some (c_name os)]))) (s_channels old) c) (\<lambda>c1.
     send_each (\<lambda>a c.
         bind_res (get_channel new a) (\<lambda>ns.
         bind_res (find_channel old (Some (c_name ns))) (\<lambda>r.
         case r of
           None \<Rightarrow> client_send_channel_state now io new ns c
         | Some _ \<Rightarrow> Inr (True, c)))) (s_channels new) c1)"

text \<open>The functions over a list of clients; the clients are returned with the result.\<close>

fun clients_send_state ::
    "int \<Rightarrow> 'c giochannel \<Rightarrow> irc_network_state \<Rightarrow> 'c irc_client list \<Rightarrow> (bool \<times> 'c irc_client list) res" where
  "clients_send_state now io s [] = Inr (True, [])"
| "clients_send_state now io s (c # cs) =
     bind_res (client_send_state now io s c) (\<lambda>(ok, c').
     if \<not> ok then Inr (False, c' # cs)
     else bind_res (clients_send_state now io s cs) (\<lambda>(ok', cs'). Inr (ok', c' # cs')))"

section \<open>Netsplits\<close>

definition client_send_nick_quit ::
    "int \<Rightarrow> 'c giochannel \<Rightarrow> network_nick \<Rightarrow> string \<Rightarrow> 'c sending" where
  "client_send_nick_quit now io gn reason c =
     client_send_args_ex now io c
       (Some (case nn_hostmask gn of
                None \<Rightarrow> printf_s (nn_nick gn) @ ''!~UNKNOWN@UNKNOWN''
              | Some h \<Rightarrow> h)) [Some ''QUIT'', Some reason]"

text \<open>
  The loop runs while the client's own state has users: every QUIT line that is sent is
  handled by that state and should remove its user. The fuel counts iterations.
\<close>

fun netsplit_loop :: "nat \<Rightarrow> int \<Rightarrow> 'c giochannel \<Rightarrow> string \<Rightarrow> 'c sending" where
  "netsplit_loop 0 now io reason c = Inl Diverges"
| "netsplit_loop (Suc k) now io reason c =
     bind_res (deref (cl_state c)) (\<lambda>s.
     case s_nicks s of
       [] \<Rightarrow> Inr (True, c)
     | a # _ \<Rightarrow>
         bind_res (live (s_nn s a)) (\<lambda>gn.
         and_then (client_send_nick_quit now io gn reason c) (netsplit_loop k now io reason)))"

definition client_send_netsplit ::
    "nat \<Rightarrow> int \<Rightarrow> 'c giochannel \<Rightarrow> string option \<Rightarrow> string option \<Rightarrow> 'c sending" where
  "client_send_netsplit k now io my_name lost_server c =
     (if cl_state c = None then Inr (False, c)
      else netsplit_loop k now io (printf_s my_name @ '' '' @ printf_s lost_server) c)"

text \<open>The function returns FALSE in every case.\<close>

fun clients_send_netsplit ::
    "nat \<Rightarrow> int \<Rightarrow> 'c giochannel \<Rightarrow> string option \<Rightarrow> string option \<Rightarrow> 'c irc_client list \<Rightarrow>
     (bool \<times> 'c irc_client list) res" where
  "clients_send_netsplit k now io my_name lost_server [] = Inr (False, [])"
| "clients_send_netsplit k now io my_name lost_server (c # cs) =
     bind_res (client_send_netsplit k now io my_name lost_server c) (\<lambda>(ok, c').
     if \<not> ok then Inr (False, c' # cs)
     else bind_res (clients_send_netsplit k now io my_name lost_server cs) (\<lambda>(ok', cs').
       Inr (ok', c' # cs')))"

end
