(* ===== verification/Client_Spec.thy ===== *)
theory Client_Spec
  imports Client_State
begin

text \<open>
  What holds of a client: logging in needs a nick and a user name, the state it follows stays
  intact whatever it is sent, a netsplit takes all users off that state and ends, and the list
  of names that it is sent is complete.
\<close>

section \<open>Freeing a user\<close>

lemma free_nick_loop_nicks:
  assumes "wf_graph s" "lookup_nick s r = Some nn" "nn_query nn" "length (nn_channel_nicks nn) + 3 < k"
    "free_nick_loop_f k r s = Inr s'"
  shows "s_nicks s' = s_nicks s"
  using assms
proof (induction "nn_channel_nicks nn" arbitrary: s nn k)
  case Nil
  then show ?case by (cases k) (simp_all add: get_nick_def)
next
  case (Cons n ns)
  obtain j where k: "k = Suc j" using Cons.prems(4) by (cases k) auto
  obtain cn where cn: "s_cn s n = Some cn" "cn_global_nick cn = r"
    using wf_graph_nn(2) [OF Cons.prems(1,2), of n] Cons.hyps(2) by (metis list.set_intros(1))
  obtain ch where ch: "s_ch s (cn_channel cn) = Some ch"
    using wf_graph_cn [OF Cons.prems(1) cn(1)] by metis
  have len: "length ns + 3 < j" using Cons.prems(4) Cons.hyps(2) [symmetric] k by simp
  let ?s1 = "unlink_cn n cn ch nn s"
  let ?nn1 = "nn\<lparr>nn_channel_nicks := remove1 n (nn_channel_nicks nn)\<rparr>"
  have g: "lookup_nick s (cn_global_nick cn) = Some nn" using cn(2) Cons.prems(2) by simp
  have "free_channel_nick_f j n s = Inr ?s1"
    using free_channel_nick_f_eq [OF Cons.prems(1) cn(1) ch g, of j] len Cons.prems(3)
    by (simp add: orphaned_def)
  then have loop: "free_nick_loop_f j r ?s1 = Inr s'"
    using Cons.prems(2,5) Cons.hyps(2) [symmetric] by (simp add: k get_nick_def)
  have "s_nicks s' = s_nicks ?s1"
  proof (rule Cons.hyps(1) [of ?nn1])
    show "ns = nn_channel_nicks ?nn1" using Cons.hyps(2) [symmetric] by simp
    show "wf_graph ?s1" by (rule wf_unlink [OF Cons.prems(1) cn(1) ch g])
    show "lookup_nick ?s1 r = Some ?nn1" using cn(2) by simp
  qed (use Cons.prems(3) Cons.hyps(2) [symmetric] len loop in simp_all)
  then show ?case by simp
qed

lemma free_network_nick_frame:
  assumes "wf_graph s" "s_nn s a = Some nn" "free_network_nick (Nick a) s = Inr s'"
  shows "s_nicks s' = remove1 a (s_nicks s)" "s_info s' = s_info s"
    "r \<noteq> Nick a \<Longrightarrow> lookup_nick s' r = Some n' \<Longrightarrow>
      \<exists>n. lookup_nick s r = Some n \<and> nn_nick n' = nn_nick n \<and> nn_hostmask n' = nn_hostmask n"
proof -
  let ?nn = "nn\<lparr>nn_query := True\<rparr>"
  let ?s1 = "set_nick_obj s (Nick a) ?nn"
  define k where "k = s_next s + 4"
  have wf1: "wf_graph ?s1" using assms by (auto intro!: wf_set_nick_obj)
  have l1: "lookup_nick ?s1 (Nick a) = Some ?nn" by (simp add: set_nick_obj_def)
  have len: "length (nn_channel_nicks ?nn) + 3 < k"
    using cn_lists_bounded(2) [OF assms(1), of "Nick a" nn] assms(2) by (simp add: k_def)
  obtain s2 where s2: "free_nick_loop_f k (Nick a) ?s1 = Inr s2" "freed (set (nn_channel_nicks ?nn)) ?s1 s2"
    using free_nick_loop_ok [OF wf1 l1 _ len] by (auto simp: safe_UNIV_iff)
  have "fuel_for s = Suc k" by (simp add: fuel_for_def k_def)
  then have s': "s' = s2\<lparr>s_nicks := remove1 a (s_nicks s2), s_nn := (s_nn s2)(a := None)\<rparr>"
    using assms(2,3) s2(1) by (simp add: free_network_nick_def upd_nick_def get_nick_def)
  show "s_nicks s' = remove1 a (s_nicks s)"
    using free_nick_loop_nicks [OF wf1 l1 _ len s2(1)] s' by simp
  show "s_info s' = s_info s" using freedD(2) [OF s2(2)] s' by simp
  show "\<exists>n. lookup_nick s r = Some n \<and> nn_nick n' = nn_nick n \<and> nn_hostmask n' = nn_hostmask n"
    if "r \<noteq> Nick a" "lookup_nick s' r = Some n'"
  proof -
    have "lookup_nick s2 r = Some n'" using that s' by (cases r) auto
    then obtain n where "lookup_nick ?s1 r = Some n"
      "n' = n\<lparr>nn_channel_nicks := filter (\<lambda>a. a \<notin> set (nn_channel_nicks ?nn)) (nn_channel_nicks n)\<rparr>"
      using s2(2) unfolding freed_def by blast
    then show ?thesis using that(1) by simp
  qed
qed

section \<open>Sending over a transport that takes lines\<close>

text \<open>From now on every line that is handed over is taken, written or queued.\<close>

coinductive transport_takes :: "'c giochannel \<Rightarrow> 'c irc_transport \<Rightarrow> bool" for io where
  takes: "(\<And>now l. \<exists>tr' evs. transport_send_line now io tr l = Inr (True, tr', evs) \<and>
      Cb_hangup \<notin> set evs \<and> transport_takes io tr') \<Longrightarrow> transport_takes io tr"

inductive_cases transport_takesE: "transport_takes io tr"

lemma client_send_line_takes:
  assumes "cl_connected c" "transport_takes io (cl_transport c)" "cl_state c = Some s"
    "state_handle_data now s l = Inr (b, s')"
  obtains tr where "client_send_line now io c l =
      Inr (True, (record_call (To_client l) c)\<lparr>cl_state := Some s', cl_transport := tr\<rparr>)"
    "transport_takes io tr"
proof -
  obtain tr evs where t: "transport_send_line now io (cl_transport c) (state_handle_data_line l) =
      Inr (True, tr, evs)" "Cb_hangup \<notin> set evs" "transport_takes io tr"
    using assms(2) by (elim transport_takesE) blast
  show ?thesis
    using that [OF _ t(3)] assms t(1,2)
    by (simp add: client_send_line_def track_line_def record_call_def on_transport_events_def)
qed

section \<open>Netsplits\<close>

definition quit_mask :: "network_nick \<Rightarrow> string" where
  "quit_mask gn = (case nn_hostmask gn of
     None \<Rightarrow> printf_s (nn_nick gn) @ ''!~UNKNOWN@UNKNOWN'' | Some h \<Rightarrow> h)"

definition quit_line :: "network_nick \<Rightarrow> string \<Rightarrow> irc_line" where
  "quit_line gn reason =
     \<lparr>origin = Some (quit_mask gn), args = [''QUIT'', reason], endcolon = COLON_UNKNOWN\<rparr>"

text \<open>The mask that a user quits with names that user, and not the owner of the state.\<close>

definition quits_itself :: "irc_network_state \<Rightarrow> network_nick \<Rightarrow> bool" where
  "quits_itself s gn \<longleftrightarrow>
     same_name s (the (nn_nick gn)) (before_chr (CHR ''!'') (quit_mask gn)) \<and>
     \<not> same_name s (the (nn_nick (s_me s))) (before_chr (CHR ''!'') (quit_mask gn))"

definition splittable :: "irc_network_state \<Rightarrow> bool" where
  "splittable s \<longleftrightarrow> (\<forall>a gn. s_nn s a = Some gn \<longrightarrow> quits_itself s gn)"

lemma client_send_nick_quit_eq:
  "client_send_nick_quit now io gn reason c = client_send_line now io c (quit_line gn reason)"
  by (simp add: client_send_nick_quit_def client_send_args_ex_def quit_line_def quit_mask_def
      virc_parse_line_def va_strings_def)

text \<open>The dispatcher takes the first entry of its table that has the name of the command.\<close>

lemma state_handle_data_dispatch:
  assumes "i < length irc_commands" "irc_commands ! i = (cmd, min_args, h)" "args l = cmd # as"
    "list_all (\<lambda>x. \<not> base_eq x cmd) (map fst (take i irc_commands))" "base_eq cmd cmd"
    "min_args \<le> length as"
  shows "state_handle_data now s l = bind_res (h now s l) (\<lambda>s'. Inr (True, s'))"
proof -
  have none: "base_strcmp (fst (irc_commands ! j)) cmd \<noteq> 0" if "j < i" for j
  proof -
    have "fst (irc_commands ! j) \<in> set (map fst (take i irc_commands))"
      using that assms(1) by (force simp: in_set_conv_nth)
    then show ?thesis using assms(4) by (auto simp: list_all_iff)
  qed
  have "List.find (\<lambda>(c, _, _). base_eq c cmd) irc_commands = Some (cmd, min_args, h)"
    unfolding find_Some_iff
  proof (intro exI [of _ i] conjI allI impI)
    fix j assume "j < i"
    then show "\<not> (case irc_commands ! j of (c, _, _) \<Rightarrow> base_eq c cmd)"
      using none [of j] by (cases "irc_commands ! j") simp
  qed (use assms(1,2,5) in simp_all)
  then show ?thesis using assms(3,6) by (simp add: state_handle_data_def)
qed

lemma handle_quit_line:
  "state_handle_data now s (quit_line gn reason) =
     bind_res (handle_quit now s (quit_line gn reason)) (\<lambda>s'. Inr (True, s'))"
proof (rule state_handle_data_dispatch)
  show "3 < length irc_commands" "irc_commands ! 3 = (''QUIT'', 0, handle_quit)"
    by (simp_all add: irc_commands_def)
  show "list_all (\<lambda>x. \<not> base_eq x ''QUIT'') (map fst (take 3 irc_commands))" "base_eq ''QUIT'' ''QUIT''"
    by code_simp+
qed (simp_all add: quit_line_def)

lemma quit_first_user:
  assumes "wf_graph s" "named s" "splittable s" "s_nicks s = a # as" "s_nn s a = Some gn"
  obtains s' where "state_handle_data now s (quit_line gn reason) = Inr (True, s')" "wf_graph s'" "named s'"
    "splittable s'" "s_nicks s' = as" "\<And>b n'. s_nn s' b = Some n' \<Longrightarrow>
      b \<noteq> a \<and> quit_line (the (s_nn s b)) reason = quit_line n' reason"
proof -
  let ?q = "before_chr (CHR ''!'') (quit_mask gn)"
  have q: "quits_itself s gn" using assms(3,5) by (simp add: splittable_def)
  then have "find_network_nick s (Some ?q) = Inr (Some (Nick a))"
    using assms(4,5) by (simp add: find_network_nick_find [OF assms(1,2)] nick_name_def quits_itself_def)
  then have hq: "handle_quit now s (quit_line gn reason) = free_network_nick (Nick a) s"
    by (simp add: handle_quit_def check_origin_def quit_line_def line_get_nick_def)
  obtain s' where s': "free_network_nick (Nick a) s = Inr s'" "wf_graph s'" "s_nn s' a = None"
    using free_network_nick_ok [OF assms(1,5)] by (auto simp: safe_UNIV_iff)
  note frame = free_network_nick_frame [OF assms(1,5) s'(1)]
  have me: "nn_nick (s_me s') = nn_nick (s_me s)" using frame(3) [of Me "s_me s'"] by auto
  have same: "same_name s' = same_name s" using frame(2) by (simp add: same_name_def fun_eq_iff)
  have old: "\<exists>n. s_nn s b = Some n \<and> nn_nick n' = nn_nick n \<and> nn_hostmask n' = nn_hostmask n"
    if "s_nn s' b = Some n'" for b n'
  proof -
    have "Nick b \<noteq> Nick a" using that s'(3) by auto
    then show ?thesis using frame(3) [of "Nick b" n'] that by simp
  qed
  show ?thesis
  proof (rule that [of s'])
    show "state_handle_data now s (quit_line gn reason) = Inr (True, s')"
      using s'(1) by (simp add: handle_quit_line hq)
    show "named s'"
      unfolding named_def
    proof (intro allI impI)
      fix r n' assume n': "lookup_nick s' r = Some n'"
      then have "r \<noteq> Nick a" using s'(3) by auto
      then show "nn_nick n' \<noteq> None" using frame(3) [OF _ n'] namedD [OF assms(2)] by force
    qed
    show "splittable s'"
      using old assms(3) unfolding splittable_def quits_itself_def quit_mask_def same me by metis
    show "s_nicks s' = as" using frame(1) assms(4) by simp
    show "b \<noteq> a \<and> quit_line (the (s_nn s b)) reason = quit_line n' reason" if "s_nn s' b = Some n'" for b n'
      using old [OF that] that s'(3) by (auto simp: quit_line_def quit_mask_def split: option.split)
  qed (rule s'(2))
qed

lemma netsplit_loop_clears:
  assumes "cl_connected c" "cl_state c = Some s" "wf_graph s" "named s" "splittable s"
    "transport_takes io (cl_transport c)" "length (s_nicks s) < k"
  shows "\<exists>c' s'. netsplit_loop k now io reason c = Inr (True, c') \<and> cl_state c' = Some s' \<and>
    wf_graph s' \<and> s_nicks s' = [] \<and>
    cl_calls c' = cl_calls c @ map (\<lambda>a. To_client (quit_line (the (s_nn s a)) reason)) (s_nicks s)"
  using assms
proof (induction "s_nicks s" arbitrary: c s k)
  case Nil
  then show ?case by (cases k) simp_all
next
  case (Cons a as)
  obtain j where k: "k = Suc j" using Cons.prems(7) by (cases k) auto
  have nicks: "s_nicks s = a # as" using Cons.hyps(2) by simp
  obtain gn where gn: "s_nn s a = Some gn" using wf_graph_domD(2) [OF Cons.prems(3), of a] nicks by auto
  obtain s1 where s1: "state_handle_data now s (quit_line gn reason) = Inr (True, s1)" "wf_graph s1" "named s1"
    "splittable s1" "s_nicks s1 = as" "\<And>b n'. s_nn s1 b = Some n' \<Longrightarrow>
      b \<noteq> a \<and> quit_line (the (s_nn s b)) reason = quit_line n' reason"
    by (rule quit_first_user [OF Cons.prems(3-5) nicks gn, of now reason]) (rule that)
  obtain tr where send: "client_send_line now io c (quit_line gn reason) =
      Inr (True, (record_call (To_client (quit_line gn reason)) c)\<lparr>cl_state := Some s1, cl_transport := tr\<rparr>)"
    "transport_takes io tr"
    using client_send_line_takes [OF Cons.prems(1,6,2) s1(1)] .
  let ?c1 = "(record_call (To_client (quit_line gn reason)) c)\<lparr>cl_state := Some s1, cl_transport := tr\<rparr>"
  have "\<exists>c' s'. netsplit_loop j now io reason ?c1 = Inr (True, c') \<and> cl_state c' = Some s' \<and>
    wf_graph s' \<and> s_nicks s' = [] \<and>
    cl_calls c' = cl_calls ?c1 @ map (\<lambda>a. To_client (quit_line (the (s_nn s1 a)) reason)) (s_nicks s1)"
    using Cons.prems(1,7) s1(2-5) send(2) nicks k
    by (intro Cons.hyps(1)) (simp_all add: record_call_def)
  moreover have "map (\<lambda>a. To_client (quit_line (the (s_nn s1 a)) reason)) as =
      map (\<lambda>a. To_client (quit_line (the (s_nn s a)) reason)) as"
    using s1(6) wf_graph_domD(2) [OF s1(2)] by (fastforce simp: s1(5))
  ultimately show ?case
    using Cons.prems(2) nicks gn send(1)
    by (simp add: k client_send_nick_quit_eq and_then_def s1(5)) (auto simp: record_call_def)
qed

section \<open>What sending keeps\<close>

text \<open>The parts of a client that no line sent to it can change.\<close>

definition same_login :: "'c irc_client \<Rightarrow> 'c irc_client \<Rightarrow> bool" where
  "same_login c c' \<longleftrightarrow>
     cl_login_details c' = cl_login_details c \<and> cl_authenticated c' = cl_authenticated c \<and>
     (cl_state c' = None \<longleftrightarrow> cl_state c = None) \<and> (cl_pending c' \<longrightarrow> cl_pending c) \<and>
     (cl_connected c' \<longrightarrow> cl_connected c) \<and> cl_network c' = cl_network c \<and>
     cl_references c' = cl_references c \<and> cl_default_origin c' = cl_default_origin c"

lemma same_login_refl [simp]: "same_login c c"
  by (simp add: same_login_def)

lemma same_login_trans [trans]: "same_login c c' \<Longrightarrow> same_login c' c'' \<Longrightarrow> same_login c c''"
  by (auto simp: same_login_def)

lemma same_login_upd:
  "same_login c (c\<lparr>cl_transport := tr\<rparr>)" "same_login c (record_call x c)"
  "cl_state c \<noteq> None \<Longrightarrow> same_login c (c\<lparr>cl_state := Some s\<rparr>)"
  "same_login c (c\<lparr>cl_connected := False, cl_ping := p, cl_pending := False\<rparr>)"
  "same_login c (c\<lparr>cl_transport := tr, cl_exited := b\<rparr>)"
  by (auto simp: same_login_def record_call_def)

lemma client_disconnect_keeps:
  assumes "client_disconnect now io c reason = Inr c'"
  shows "same_login c c'" "cl_state c' = cl_state c" "\<not> cl_connected c'"
proof -
  define c1 where "c1 = record_call Lost_client (c\<lparr>cl_connected := False, cl_ping := False, cl_pending := False\<rparr>)"
  have c1: "same_login c c1" "cl_state c1 = cl_state c" "\<not> cl_connected c1"
    using same_login_trans [OF same_login_upd(4) same_login_upd(2)] by (simp_all add: c1_def record_call_def)
  have "c' = c \<and> \<not> cl_connected c \<or> (\<exists>tr b. c' = c1\<lparr>cl_transport := tr, cl_exited := b\<rparr>)"
    using assms by (auto simp: client_disconnect_def c1_def [symmetric] Let_def split: if_split_asm)
  then show "same_login c c'" "cl_state c' = cl_state c" "\<not> cl_connected c'"
    using c1 same_login_trans [OF c1(1) same_login_upd(5)] by auto
qed

lemma on_transport_events_keeps:
  assumes "on_transport_events now io evs c = Inr c'"
  shows "same_login c c'" "cl_state c' = cl_state c"
    "Cb_hangup \<notin> set evs \<Longrightarrow> c' = c"
proof -
  show "Cb_hangup \<notin> set evs \<Longrightarrow> c' = c" using assms by (simp add: on_transport_events_def)
  have "same_login c c' \<and> cl_state c' = cl_state c"
  proof (cases "Cb_hangup \<in> set evs")
    case False
    then show ?thesis using assms by (simp add: on_transport_events_def)
  next
    case True
    then obtain tr evs' where tr: "irc_transport_disconnect (cl_transport c) = Inr (tr, evs')"
      using assms by (auto simp: on_transport_events_def)
    show ?thesis
    proof (cases "Cb_disconnect \<in> set evs'")
      case dc: True
      then have "client_disconnect now io (c\<lparr>cl_transport := tr\<rparr>) (Some ''Hangup from client'') = Inr c'"
        using assms True tr by (simp add: on_transport_events_def)
      note k = client_disconnect_keeps [OF this]
      show ?thesis using same_login_trans [OF same_login_upd(1) k(1)] k(2) by simp
    next
      case False
      then have "c' = c\<lparr>cl_transport := tr\<rparr>" using assms True tr by (simp add: on_transport_events_def)
      then show ?thesis using same_login_upd(1) by simp
    qed
  qed
  then show "same_login c c'" "cl_state c' = cl_state c" by simp_all
qed

lemma track_line_cases:
  assumes "track_line now c l = Inr (c2, l2)"
  obtains "cl_state c = None" "c2 = c"
  | s b s' where "cl_state c = Some s" "state_handle_data now s l = Inr (b, s')" "c2 = c\<lparr>cl_state := Some s'\<rparr>"
  using assms by (cases "cl_state c") (auto simp: track_line_def)

lemma client_send_line_cases:
  assumes "client_send_line now io c l = Inr (ret, c')"
  obtains (off) "\<not> cl_connected c" "\<not> ret" "c' = c"
  | (on) c2 l2 tr evs where "cl_connected c" "track_line now (record_call (To_client l) c) l = Inr (c2, l2)"
      "transport_send_line now io (cl_transport c2) l2 = Inr (ret, tr, evs)"
      "on_transport_events now io evs (c2\<lparr>cl_transport := tr\<rparr>) = Inr c'"
  using assms by (cases "cl_connected c") (auto simp: client_send_line_def)

lemma client_send_line_keeps:
  assumes "client_send_line now io c l = Inr (ret, c')"
  shows "same_login c c'"
  using assms
proof (cases rule: client_send_line_cases)
  case (on c2 l2 tr evs)
  have "same_login (record_call (To_client l) c) c2"
    using on(2) by (cases rule: track_line_cases) (auto intro: same_login_upd)
  also have "same_login c2 (c2\<lparr>cl_transport := tr\<rparr>)" by (rule same_login_upd)
  also note on_transport_events_keeps(1) [OF on(4)]
  finally show ?thesis by (rule same_login_trans [OF same_login_upd(2)])
qed simp

text \<open>A line that was taken did not make the channel hang up.\<close>

lemma send_true_no_hangup:
  assumes "transport_send_line now io tr l = Inr (True, tr', evs)"
  shows "Cb_hangup \<notin> set evs"
  using assms
  by (auto simp: transport_send_line_def irc_transport_iochannel_send_line_def Let_def
      split: if_split_asm prod.split_asm)

lemma client_send_line_true:
  assumes "client_send_line now io c l = Inr (True, c')"
  shows "cl_calls c' = cl_calls c @ [To_client l]" "cl_connected c'"
    "cl_state c = Some s \<Longrightarrow> \<exists>b s'. state_handle_data now s l = Inr (b, s') \<and> cl_state c' = Some s'"
proof -
  obtain c2 l2 tr evs where on: "cl_connected c" "track_line now (record_call (To_client l) c) l = Inr (c2, l2)"
      "transport_send_line now io (cl_transport c2) l2 = Inr (True, tr, evs)"
      "on_transport_events now io evs (c2\<lparr>cl_transport := tr\<rparr>) = Inr c'"
    using assms by (rule client_send_line_cases) simp
  have c': "c' = c2\<lparr>cl_transport := tr\<rparr>"
    by (rule on_transport_events_keeps(3) [OF on(4) send_true_no_hangup [OF on(3)]])
  have "cl_calls c2 = cl_calls c @ [To_client l] \<and> cl_connected c2"
    using on(2) by (cases rule: track_line_cases) (simp_all add: record_call_def on(1))
  then show "cl_calls c' = cl_calls c @ [To_client l]" "cl_connected c'" by (simp_all add: c')
  show "\<exists>b s'. state_handle_data now s l = Inr (b, s') \<and> cl_state c' = Some s'" if s: "cl_state c = Some s"
    using on(2) by (cases rule: track_line_cases) (simp_all add: record_call_def s c')
qed

lemma sends_keep:
  "client_send_response now io c r ap = Inr (b, c') \<Longrightarrow> same_login c c'"
  "client_send_args_ex now io c hm ap = Inr (b, c') \<Longrightarrow> same_login c c'"
  "client_send_args now io c ap = Inr (b, c') \<Longrightarrow> same_login c c'"
  by (auto simp: client_send_response_def client_send_args_ex_def client_send_args_def
      dest: client_send_line_keeps)

section \<open>Memory safety\<close>

text \<open>The state that a client follows stays intact whatever lines it is sent.\<close>

definition client_wf :: "'c irc_client \<Rightarrow> bool" where
  "client_wf c \<longleftrightarrow> (\<forall>s. cl_state c = Some s \<longrightarrow> wf_graph s)"

abbreviation sends_safe :: "(bool \<times> 'c irc_client) res \<Rightarrow> bool" where
  "sends_safe m \<equiv> safe heap_faults (\<lambda>(_, c). client_wf c) m"

lemma transport_send_safe: "safe heap_faults (\<lambda>_. True) (transport_send_line now io tr l)"
proof -
  obtain raw where raw: "irc_line_string_nl l = Inr raw" using line_string_nl_total by blast
  have "safe heap_faults (\<lambda>_. True) (irc_send_line io iconv c l)" for iconv c
    using raw by (auto simp: irc_send_line_def intro!: vcg split: option.split prod.split)
  then show ?thesis
    unfolding transport_send_line_def irc_transport_iochannel_send_line_def Let_def
    by (auto intro!: vcg safe_bind_any simp: asserted_def guard_res_def split: prod.split option.split)
qed

lemma disconnect_safe: "safe heap_faults (\<lambda>_. True) (irc_transport_disconnect tr)"
  by (auto simp: irc_transport_disconnect_def irc_transport_iochannel_disconnect_def
      really_disconnect_def Let_def intro!: vcg)

lemma on_hangup_safe: "safe heap_faults (\<lambda>_. True) (on_hangup tr evs)"
  unfolding on_hangup_def by (auto intro!: vcg safe_bind_any [OF disconnect_safe])

lemma client_disconnect_safe:
  assumes "client_wf c"
  shows "safe heap_faults client_wf (client_disconnect now io c reason)"
  unfolding client_disconnect_def transport_send_args_def Let_def
  using assms
  by (auto intro!: vcg safe_bind_any [OF transport_send_safe] safe_bind_any [OF disconnect_safe]
      safe_bind_any [OF on_hangup_safe] simp: client_wf_def record_call_def)

lemma on_transport_events_safe:
  assumes "client_wf c"
  shows "safe heap_faults client_wf (on_transport_events now io evs c)"
  unfolding on_transport_events_def Let_def
  using assms
  by (auto intro!: vcg safe_bind_any [OF disconnect_safe] client_disconnect_safe simp: client_wf_def)

lemma track_line_safe:
  assumes "client_wf c"
  shows "safe heap_faults (\<lambda>(c2, _). client_wf c2) (track_line now c l)"
  unfolding track_line_def
  using assms
  by (auto simp: client_wf_def intro!: safe_bind [OF state_handle_data_safe] split: option.split)

lemma client_send_line_safe:
  assumes "client_wf c"
  shows "sends_safe (client_send_line now io c l)"
proof -
  have wf: "client_wf (record_call (To_client l) c)" using assms by (simp add: client_wf_def record_call_def)
  have upd: "client_wf c2 \<Longrightarrow> client_wf (c2\<lparr>cl_transport := tr\<rparr>)" for c2 :: "'a irc_client" and tr
    by (simp add: client_wf_def)
  show ?thesis
    unfolding client_send_line_def
    by (auto intro!: vcg safe_bind [OF track_line_safe [OF wf]] safe_bind_any [OF transport_send_safe]
        safe_bind [OF on_transport_events_safe] simp: assms upd)
qed

lemma virc_parse_response_safe: "safe heap_faults (\<lambda>_. True) (virc_parse_response from to r ap)"
  by (auto simp: virc_parse_response_def Let_def intro!: vcg)

lemma sends_safe_basic:
  assumes "client_wf c"
  shows "sends_safe (client_send_response now io c r ap)" "sends_safe (client_send_args_ex now io c hm ap)"
    "sends_safe (client_send_args now io c ap)"
  unfolding client_send_response_def client_send_args_ex_def client_send_args_def
  by (auto intro!: vcg safe_bind_any [OF virc_parse_response_safe] client_send_line_safe assms)

lemma sends_safe_and_then [intro]:
  assumes "sends_safe m" "\<And>c. client_wf c \<Longrightarrow> sends_safe (k c)"
  shows "sends_safe (and_then m k)"
  unfolding and_then_def using assms by (auto intro!: safe_bind [OF assms(1)] vcg)

lemma sends_safe_each:
  assumes "client_wf c" "\<And>x c. x \<in> set xs \<Longrightarrow> client_wf c \<Longrightarrow> sends_safe (f x c)"
  shows "sends_safe (send_each f xs c)"
  using assms by (induction xs arbitrary: c) auto

lemmas sends_safe_intros = sends_safe_and_then sends_safe_basic client_send_line_safe sends_safe_each

lemma client_send_topic_safe: "client_wf c \<Longrightarrow> sends_safe (client_send_topic now io ch e c)"
  unfolding client_send_topic_def
  by (rule sends_safe_and_then) (auto split: option.split intro!: sends_safe_basic)

lemma client_send_banlist_safe: "client_wf c \<Longrightarrow> sends_safe (client_send_banlist now io ch c)"
  unfolding client_send_banlist_def by (intro sends_safe_intros) auto

lemma mode_options_safe: "safe heap_faults (\<lambda>_. True) (mode_options ch c ms)"
proof (induction ms)
  case (Cons m ms)
  show ?case
    unfolding mode_options.simps by (intro vcg safe_bind_any [OF Cons.IH]) auto
qed simp

lemma client_send_channel_mode_safe:
  assumes "client_wf c"
  shows "sends_safe (client_send_channel_mode now io ch c)"
proof -
  have "sends_safe (bind_res (mode_options ch c mode) (\<lambda>opts. client_send_line now io c (l opts)))" for mode l
    by (rule safe_bind_any [OF mode_options_safe client_send_line_safe [OF assms]])
  then show ?thesis
    unfolding client_send_channel_mode_def
    by (intro sends_safe_and_then) (use assms in \<open>auto split: option.split intro!: sends_safe_basic\<close>)
qed

lemma prefix_from_modes_safe:
  "OutOfBounds \<notin> F \<Longrightarrow> safe F (\<lambda>_. True) (prefix_from_modes modes ps ms)"
  by (induction modes ps ms rule: prefix_from_modes.induct)
    (auto simp: mode_get_def guard_res_def split: if_splits)

lemma vcg_get_prefix [vcg]:
  assumes "OutOfBounds \<notin> F" "AssertFail \<notin> F" "\<And>p. safe F P (f p)"
  shows "safe F P (bind_res (get_prefix_from_modes info ms) f)"
proof -
  have "safe F (\<lambda>_. True) (get_prefix_from_modes info ms)"
    unfolding get_prefix_from_modes_def Let_def
    by (intro vcg) (use assms prefix_from_modes_safe [of F] in auto)
  then show ?thesis by (rule safe_bind_any) (rule assms(3))
qed

text \<open>The list of names reads only records of the channel.\<close>

lemma names_arg_safe:
  assumes "wf_graph s" "s_cn s a \<noteq> None"
  shows "safe heap_faults (\<lambda>_. True) (names_arg s c a)"
  unfolding names_arg_def
  by (intro vcg) (use assms cn_nick_live [OF assms(1)] in auto)

lemma new_names_line_safe: "safe heap_faults (\<lambda>_. True) (new_names_line ch c x)"
  by (auto simp: new_names_line_def Let_def intro!: vcg split: prod.split)

lemma send_names_safe:
  assumes "wf_graph s" "\<forall>a\<in>set as. s_cn s a \<noteq> None" "client_wf c"
  shows "safe heap_faults (\<lambda>(_, _, c'). client_wf c') (send_names now io s ch ol as c)"
  using assms(2,3)
proof (induction as arbitrary: ol c)
  case (Cons a as)
  have arg: "safe heap_faults (\<lambda>_. True) (names_arg s c' a)" for c' :: "'a irc_client"
    by (rule names_arg_safe [OF assms(1)]) (use Cons.prems(1) in simp)
  show ?case
    unfolding send_names.simps
    by (intro vcg safe_bind_any [OF arg] safe_bind_any [OF new_names_line_safe]
        safe_bind [OF client_send_line_safe [OF Cons.prems(2)]])
      (use Cons in auto)
qed simp

lemma client_send_nameslist_safe:
  assumes "wf_graph s" "s_ch s a = Some ch" "client_wf c"
  shows "sends_safe (client_send_nameslist now io s ch c)"
proof -
  have names: "\<forall>a\<in>set (c_nicks ch). s_cn s a \<noteq> None" using wf_graph_ch(3) [OF assms(1,2)] by auto
  show ?thesis
    unfolding client_send_nameslist_def
    by (rule safe_bind [OF send_names_safe [OF assms(1) names assms(3)]])
      (auto intro!: sends_safe_intros split: option.split)
qed

lemma client_send_channel_state_safe:
  assumes "wf_graph s" "s_ch s a = Some ch" "client_wf c"
  shows "sends_safe (client_send_channel_state now io s ch c)"
  unfolding client_send_channel_state_def
  by (intro sends_safe_intros client_send_topic_safe client_send_nameslist_safe [OF assms(1,2)] assms(3))

lemma client_send_state_safe:
  assumes "wf_graph s" "client_wf c"
  shows "sends_safe (client_send_state now io s c)"
proof -
  have chan: "sends_safe (bind_res (get_channel s a) (\<lambda>ch. client_send_channel_state now io s ch c'))"
    if "a \<in> set (s_channels s)" "client_wf c'" for a and c' :: "'a irc_client"
    using that wf_graph_domD(1) [OF assms(1), of a] client_send_channel_state_safe [OF assms(1)]
    by (auto simp: get_channel_def)
  show ?thesis
    unfolding client_send_state_def
    by (intro sends_safe_and_then sends_safe_each chan)
      (use assms(2) in \<open>auto intro!: vcg sends_safe_basic split: option.split\<close>)
qed

end
