(* ===== verification/Client_Names.thy ===== *)
theory Client_Names
  imports Client_Spec
begin

text \<open>
  The list of names of a channel, as a client is sent it: split over as many 353 lines as are
  needed, none longer than a line may be, with every user exactly once and in order.
\<close>

section \<open>A names reply and the client's own state\<close>

lemma find_add_network_nick_info:
  "find_add_network_nick s n = Inr (r, s') \<Longrightarrow> s_info s' = s_info s"
  by (auto simp: find_add_network_nick_def Let_def split: option.split_asm)

lemma upd_info:
  "upd_channel s c f = Inr s' \<Longrightarrow> s_info s' = s_info s"
  "upd_nick s r g = Inr s' \<Longrightarrow> s_info s' = s_info s"
  by (auto simp: upd_channel_def upd_nick_def)

lemma find_add_channel_nick_info:
  assumes "find_add_channel_nick s c n = Inr (a, s')"
  shows "s_info s' = s_info s"
  using assms
  by (fastforce simp: find_add_channel_nick_def link_channel_nick_def Let_def
      dest: find_add_network_nick_info upd_info split: option.split_asm prod.split_asm)

lemma add_names_info:
  "fold_res (add_name c) names s = Inr s' \<Longrightarrow> s_info s' = s_info s"
  by (induction names arbitrary: s)
    (auto simp: add_name_def dest: find_add_channel_nick_info split: if_split_asm prod.split_asm)

lemma handle_namreply_info:
  assumes "wf_graph s" "handle_namreply now s l = Inr s'"
  shows "s_info s' = s_info s"
proof -
  obtain a3 r where a: "arg l 3 = Inr a3" "find_channel s a3 = Inr r"
    using assms(2) by (auto simp: handle_namreply_def with_channel_def)
  show ?thesis
  proof (cases r)
    case None
    then show ?thesis using assms(2) a by (simp add: handle_namreply_def with_channel_def)
  next
    case (Some c)
    then obtain a4 a2 s1 ch s3 where *: "upd_channel s c (\<lambda>ch. ch\<lparr>c_mode := first_char a2\<rparr>) = Inr s1"
      "get_channel s1 c = Inr ch"
      "(if c_namreply_started ch then Inr s1 else bind_res (free_names c s1) (\<lambda>s2.
          upd_channel s2 c (\<lambda>ch. ch\<lparr>c_namreply_started := True\<rparr>))) = Inr s3"
      "fold_res (add_name c) (g_strsplit a4 (CHR '' '') 0) s3 = Inr s'"
      using assms(2) a by (auto simp: handle_namreply_def with_channel_def)
    have live: "live_ch s c" using *(1) by (auto simp: upd_channel_def get_channel_def)
    have "safe UNIV wf_graph (upd_channel s c (\<lambda>ch. ch\<lparr>c_mode := first_char a2\<rparr>))"
      using live assms(1) by (intro upd_channel_wf) auto
    then have wf1: "wf_graph s1" using *(1) by simp
    have ch: "s_ch s1 c = Some ch" using *(2) by (simp add: get_channel_def)
    have "s_info s3 = s_info s1"
      using *(3) free_names_ok [OF wf1 ch]
      by (auto simp: safe_UNIV_iff dest!: upd_info freedD(2) split: if_split_asm)
    then show ?thesis using upd_info(1) [OF *(1)] add_names_info [OF *(4)] by simp
  qed
qed

section \<open>Filling lines\<close>

text \<open>What is shown of the user of a channel record, with the prefixes of \<open>info\<close>.\<close>

definition shown_name :: "irc_network_state \<Rightarrow> irc_network_info \<Rightarrow> addr \<Rightarrow> string option res" where
  "shown_name s info a =
     bind_res (live (s_cn s a)) (\<lambda>n.
     bind_res (get_prefix_from_modes info (cn_modes n)) (\<lambda>prefix.
     bind_res (get_nick s (cn_global_nick n)) (\<lambda>nn.
     Inr (if prefix = NUL then nn_nick nn else Some (prefix # printf_s (nn_nick nn))))))"

lemma names_arg_shown: "cl_state c = Some cs \<Longrightarrow> names_arg s c a = shown_name s (s_info cs) a"
  by (simp add: names_arg_def shown_name_def)

text \<open>A 353 line that carries the names \<open>xs\<close> and is not too long.\<close>

definition names_line :: "string option \<Rightarrow> irc_channel_state \<Rightarrow> string list \<Rightarrow> irc_line \<Rightarrow> bool" where
  "names_line orig ch xs l \<longleftrightarrow>
     xs \<noteq> [] \<and> origin l = orig \<and> endcolon l = WITHOUT_COLON \<and> line_len l \<le> IRC_MAXLINELEN \<and>
     (\<exists>t. args l = [''353'', t, c_str [c_mode ch], c_name ch, CHR '':'' # hd xs] @ tl xs)"

lemma line_add_arg_True:
  "line_add_arg l a = (True, l') \<longleftrightarrow>
    line_len l + length a + 1 \<le> IRC_MAXLINELEN \<and> l' = l\<lparr>args := args l @ [a]\<rparr>"
  by (auto simp: line_add_arg_def)

lemma line_len_snoc [simp]: "line_len (l\<lparr>args := args l @ [a]\<rparr>) = line_len l + length a + 1"
  by (simp add: line_len_def)

lemma new_names_line_names:
  assumes "new_names_line ch c x = Inr l"
  shows "names_line (cl_default_origin c) ch [x] l"
proof -
  let ?l = "(irc_parse_line_args (cl_default_origin c) [Some ''353'', Some (client_get_default_target c),
      Some (c_str [c_mode ch]), Some (c_name ch)])\<lparr>endcolon := WITHOUT_COLON\<rparr>"
  have "line_add_arg ?l (CHR '':'' # x) = (True, l)"
    using assms by (auto simp: new_names_line_def Let_def split: prod.split_asm)
  then have l: "line_len ?l + length (CHR '':'' # x) + 1 \<le> IRC_MAXLINELEN"
    "l = ?l\<lparr>args := args ?l @ [CHR '':'' # x]\<rparr>"
    unfolding line_add_arg_True by blast+
  have "line_len l \<le> IRC_MAXLINELEN" using l line_len_snoc [of ?l "CHR '':'' # x"] by simp
  then show ?thesis
    using l(2) by (simp add: names_line_def irc_parse_line_args_def virc_parse_line_def va_strings_def)
qed

lemma names_line_add:
  assumes "names_line orig ch xs l" "line_add_arg l a = (True, l')"
  shows "names_line orig ch (xs @ [a]) l'"
proof -
  have l': "line_len l + length a + 1 \<le> IRC_MAXLINELEN" "l' = l\<lparr>args := args l @ [a]\<rparr>"
    using assms(2) unfolding line_add_arg_True by blast+
  then show ?thesis using assms(1) line_len_snoc [of l a] by (auto simp: names_line_def)
qed

text \<open>While names are sent, the client keeps the table of prefixes that they are shown with.\<close>

definition following :: "irc_network_info \<Rightarrow> string option \<Rightarrow> 'c irc_client \<Rightarrow> bool" where
  "following info orig c \<longleftrightarrow>
     cl_default_origin c = orig \<and> (\<exists>cs. cl_state c = Some cs \<and> wf_graph cs \<and> s_info cs = info)"

lemma send_names_line:
  assumes "client_send_line now io c l = Inr (True, c')" "following info orig c" "names_line orig ch xs l"
  shows "following info orig c'" "cl_calls c' = cl_calls c @ [To_client l]"
proof -
  obtain cs where cs: "cl_state c = Some cs" "wf_graph cs" "s_info cs = info"
    using assms(2) by (auto simp: following_def)
  obtain b s' where s': "state_handle_data now cs l = Inr (b, s')" "cl_state c' = Some s'"
    using client_send_line_true(3) [OF assms(1) cs(1)] by blast
  obtain t where args: "args l = ''353'' # [t, c_str [c_mode ch], c_name ch, CHR '':'' # hd xs] @ tl xs"
    using assms(3) by (auto simp: names_line_def)
  have "state_handle_data now cs l = bind_res (handle_namreply now cs l) (\<lambda>s'. Inr (True, s'))"
  proof (rule state_handle_data_dispatch [OF _ _ args])
    show "18 < length irc_commands" "irc_commands ! 18 = (''353'', 4, handle_namreply)"
      by (simp_all add: irc_commands_def)
    show "list_all (\<lambda>x. \<not> base_eq x ''353'') (map fst (take 18 irc_commands))" "base_eq ''353'' ''353''"
      by code_simp+
  qed simp
  then have "handle_namreply now cs l = Inr s'" using s'(1) by (cases "handle_namreply now cs l") simp_all
  then have "s_info s' = info" "wf_graph s'"
    using handle_namreply_info [OF cs(2)] cs(3) names_handlers_safe(1) [OF cs(2), of now l] by auto
  then show "following info orig c'"
    using s'(2) client_send_line_keeps [OF assms(1)] assms(2) by (simp add: following_def same_login_def)
  show "cl_calls c' = cl_calls c @ [To_client l]" by (rule client_send_line_true(1) [OF assms(1)])
qed

text \<open>The line being filled, as the names on it.\<close>

definition filled :: "string option \<Rightarrow> irc_channel_state \<Rightarrow> string list \<Rightarrow> irc_line option \<Rightarrow> bool" where
  "filled orig ch xs ol = (case ol of None \<Rightarrow> xs = [] | Some l \<Rightarrow> names_line orig ch xs l)"

lemma send_names_complete:
  assumes "send_names now io s ch ol as c = Inr (True, ol', c')" "following info orig c" "filled orig ch ys ol"
    "list_all2 (\<lambda>a x. shown_name s info a = Inr (Some x)) as xs"
  shows "\<exists>ls yss ys'. list_all2 (names_line orig ch) yss ls \<and> cl_calls c' = cl_calls c @ map To_client ls \<and>
    concat yss @ ys' = ys @ xs \<and> filled orig ch ys' ol' \<and> following info orig c'"
  using assms
proof (induction as arbitrary: ol c ys xs)
  case Nil
  then show ?case by (intro exI [of _ "[]"] exI [of _ "[]"] exI [of _ ys]) simp
next
  case (Cons a as)
  obtain x xs' where xs: "xs = x # xs'" "shown_name s info a = Inr (Some x)"
    "list_all2 (\<lambda>a x. shown_name s info a = Inr (Some x)) as xs'"
    using Cons.prems(4) by (auto simp: list_all2_Cons1)
  have arg: "names_arg s c a = Inr (Some x)"
    using Cons.prems(2) xs(2) names_arg_shown by (fastforce simp: following_def)
  have orig: "cl_default_origin c = orig" using Cons.prems(2) by (simp add: following_def)
  show ?case
  proof (cases ol)
    case None
    then obtain l' where l': "new_names_line ch c x = Inr l'"
      "send_names now io s ch (Some l') as c = Inr (True, ol', c')"
      using Cons.prems(1) arg by (auto simp: printf_s_def)
    have "filled orig ch [x] (Some l')" using new_names_line_names [OF l'(1)] orig by (simp add: filled_def)
    from Cons.IH [OF l'(2) Cons.prems(2) this xs(3)] show ?thesis
      using None Cons.prems(3) xs(1) by (simp add: filled_def)
  next
    case (Some l)
    have l: "names_line orig ch ys l" using Cons.prems(3) Some by (simp add: filled_def)
    obtain fits l1 where add: "line_add_arg l x = (fits, l1)" by (cases "line_add_arg l x")
    show ?thesis
    proof (cases fits)
      case True
      then have rest: "send_names now io s ch (Some l1) as c = Inr (True, ol', c')"
        using Cons.prems(1) Some arg add by simp
      have "filled orig ch (ys @ [x]) (Some l1)"
        using names_line_add [OF l] add True by (simp add: filled_def)
      from Cons.IH [OF rest Cons.prems(2) this xs(3)] show ?thesis using xs(1) by simp
    next
      case False
      then obtain ret c1 l' where send: "client_send_line now io c l = Inr (ret, c1)"
        "new_names_line ch c1 x = Inr l'"
        "(if ret then send_names now io s ch (Some l') as c1 else Inr (False, Some l', c1)) = Inr (True, ol', c')"
        using Cons.prems(1) Some arg add by auto
      then have ret: "client_send_line now io c l = Inr (True, c1)"
        and rest: "send_names now io s ch (Some l') as c1 = Inr (True, ol', c')"
        by (auto split: if_split_asm)
      note c1 = send_names_line [OF ret Cons.prems(2) l]
      have "filled orig ch [x] (Some l')"
        using new_names_line_names [OF send(2)] c1(1) by (simp add: filled_def following_def)
      from Cons.IH [OF rest c1(1) this xs(3)] obtain ls yss ys' where
        "list_all2 (names_line orig ch) yss ls" "cl_calls c' = cl_calls c1 @ map To_client ls"
        "concat yss @ ys' = [x] @ xs'" "filled orig ch ys' ol'" "following info orig c'" by blast
      then show ?thesis
        using l c1(2) xs(1) by (intro exI [of _ "l # ls"] exI [of _ "ys # yss"] exI [of _ ys']) simp
    qed
  qed
qed

section \<open>A client at work\<close>

definition demo_client :: "script_channel irc_client" where
  "demo_client =
     (irc_client_new 0 (irc_transport_new_iochannel ([], [])) None (Some ''proxy'') ''demo'')
       \<lparr>cl_state := Some demo_init\<rparr>"

definition demo_chan :: irc_channel_state where
  "demo_chan = the (s_ch demo_own 0)"

lemma demo_client_fields:
  "cl_connected demo_client" "cl_state demo_client = Some demo_init"
  "cl_default_origin demo_client = Some ''proxy''" "cl_calls demo_client = []"
  by (simp_all add: demo_client_def irc_client_new_def)

text \<open>A channel that takes everything makes a transport that takes everything.\<close>

definition idle :: "script_channel irc_transport \<Rightarrow> bool" where
  "idle tr \<longleftrightarrow> (\<exists>out. incoming (backend_data tr) = Some ([], out)) \<and>
     \<not> pending_disconnect (backend_data tr) \<and> outgoing_id (backend_data tr) = 0 \<and>
     outgoing_iconv (backend_data tr) = None"

lemma idle_sends:
  assumes "idle tr"
  shows "\<exists>tr'. transport_send_line now script_io tr l = Inr (True, tr', [Sent l IO_NORMAL]) \<and> idle tr'"
proof -
  obtain out where out: "incoming (backend_data tr) = Some ([], out)" using assms by (auto simp: idle_def)
  obtain raw where "irc_line_string_nl l = Inr raw" using line_string_nl_total by blast
  then have "irc_send_line script_io None ([], out) l = Inr (IO_NORMAL, [], out @ [raw])"
    by (simp add: irc_send_line_def script_io_def)
  then show ?thesis
    using assms out
    by (simp add: transport_send_line_def irc_transport_iochannel_send_line_def idle_def script_io_def
        irc_transport_iochannel_is_connected_def Let_def)
qed

lemma idle_takes: "idle tr \<Longrightarrow> transport_takes script_io tr"
proof (coinduction arbitrary: tr)
  case (transport_takes tr)
  then show ?case using idle_sends by fastforce
qed

lemma demo_client_idle: "idle (cl_transport demo_client)"
  by (simp add: demo_client_def irc_client_new_def idle_def irc_transport_new_iochannel_def
      transport_set_charset_def irc_transport_iochannel_set_charset_def irc_transport_set_callbacks_def Let_def)

section \<open>Properties\<close>





text \<open>C19. Describing a network to a client is memory safe: whatever the channel answers and
  whenever the client is lost on the way, no freed channel, user or channel record of the
  network or of the client's own state is touched, and the client's state stays intact.\<close>

theorem client_send_state_memory_safe:
  assumes "wf_graph s" "client_wf c"
  shows "client_send_state now io s c \<noteq> Inl UseAfterFree \<and> client_send_state now io s c \<noteq> Inl Diverges \<and>
    (\<forall>b c'. client_send_state now io s c = Inr (b, c') \<longrightarrow> client_wf c')"
  using client_send_state_safe [OF assms, of now io] by auto

theorem client_send_state_memory_safe_witness:
  "wf_graph demo_joined \<and> client_wf demo_client \<and>
   client_send_state 0 script_io demo_joined demo_client \<noteq> Inl UseAfterFree"
proof -
  have wf: "client_wf demo_client" by (simp add: client_wf_def demo_client_fields demo_init_wf)
  show ?thesis using client_send_state_memory_safe [OF demo_joined_props(2) wf, of 0 script_io]
    demo_joined_props(2) wf by simp
qed

text \<open>
  The client's own state misreads the list: the first name carries the colon of the last
  argument, and the other names are separate arguments that are not read. A client that is
  told about a channel with \<open>bob\<close> and \<open>me\<close> on it then follows a user called \<open>:bob\<close>.
\<close>

theorem sent_names_mistracked:
  "(case client_send_channel_state 0 script_io demo_own demo_chan demo_client of
      Inr (True, c) \<Rightarrow>
        let s = the (cl_state c) in map (\<lambda>a. nn_nick (the (s_nn s a))) (s_nicks s) = [Some '':bob'']
    | _ \<Rightarrow> False)"
  by code_simp

end
