(* ===== verification/Cache.thy ===== *)
theory Cache
  imports Client_Names
begin

text \<open>
  \<open>src/cache.c\<close>: answering the queries of a client from the state of the network instead of
  asking the server. A handler returns TRUE when it answered; otherwise the line goes to the
  server. The theorems show that a query that is passed on was not also answered, with the one
  exception that the code makes, and that a WHO reply is only taken from records that are
  fresh.
\<close>

section \<open>The handlers\<close>

record cache_settings =
  max_who_age :: int

type_synonym 'c cache_handler =
  "int \<Rightarrow> 'c giochannel \<Rightarrow> 'c irc_client \<Rightarrow> irc_network_state option \<Rightarrow> irc_line \<Rightarrow> cache_settings \<Rightarrow>
   (bool \<times> 'c irc_client) res"

text \<open>\<open>find_channel\<close> asserts that there is a state.\<close>

definition cached_channel ::
    "irc_network_state option \<Rightarrow> irc_line \<Rightarrow> (irc_network_state \<times> irc_channel_state) option res" where
  "cached_channel net l =
     bind_res (asserted net) (\<lambda>s.
     bind_res (arg l 1) (\<lambda>a1.
     bind_res (find_channel s a1) (\<lambda>r.
     case r of
       None \<Rightarrow> Inr None
     | Some a \<Rightarrow> bind_res (get_channel s a) (\<lambda>ch. Inr (Some (s, ch))))))"

text \<open>Only queries for a single name are answered.\<close>

definition easy_query :: "irc_line \<Rightarrow> bool res" where
  "easy_query l =
     (if argc l < 2 then Inr False
      else bind_res (sarg l 1) (\<lambda>a1. Inr (strchr a1 (CHR '','') = None)))"

fun cache_mode_loop ::
    "int \<Rightarrow> 'c giochannel \<Rightarrow> irc_channel_state \<Rightarrow> string \<Rightarrow> 'c sending" where
  "cache_mode_loop now io ch [] c = Inr (True, c)"
| "cache_mode_loop now io ch (m # ms) c =
     (if m = CHR ''b''
      then bind_res (client_send_banlist now io ch c) (\<lambda>(_, c1). cache_mode_loop now io ch ms c1)
      else Inr (False, c))"

definition client_try_cache_mode :: "'c cache_handler" where
  "client_try_cache_mode now io c net l settings =
     bind_res (easy_query l) (\<lambda>easy.
     if \<not> easy then Inr (False, c)
     else if argc l = 3 then
       bind_res (cached_channel net l) (\<lambda>r.
       case r of
         None \<Rightarrow> Inr (False, c)
       | Some (s, ch) \<Rightarrow> bind_res (sarg l 2) (\<lambda>a2. cache_mode_loop now io ch a2 c))
     else if argc l = 2 then
       bind_res (cached_channel net l) (\<lambda>r.
       case r of
         None \<Rightarrow> Inr (False, c)
       | Some (s, ch) \<Rightarrow>
           if \<not> c_mode_received ch then Inr (False, c)
           else ignore_result (client_send_channel_mode now io ch c))
     else Inr (False, c))"

definition client_try_cache_topic :: "'c cache_handler" where
  "client_try_cache_topic now io c net l settings =
     bind_res (easy_query l) (\<lambda>easy.
     if \<not> easy then Inr (False, c)
     else
       bind_res (arg l 2) (\<lambda>a2.
       if a2 \<noteq> None then Inr (False, c)
       else
         bind_res (cached_channel net l) (\<lambda>r.
         case r of
           None \<Rightarrow> Inr (False, c)
         | Some (s, ch) \<Rightarrow> ignore_result (client_send_topic now io ch True c))))"

definition client_try_cache_userhost :: "'c cache_handler" where
  "client_try_cache_userhost now io c net l settings = Inr (False, c)"

text \<open>A record is fresh when it was updated less than the maximal age ago.\<close>

definition fresh :: "int \<Rightarrow> int \<Rightarrow> channel_nick \<Rightarrow> bool" where
  "fresh now max_age cn \<longleftrightarrow> cn_last_update cn \<noteq> 0 \<and> \<not> cn_last_update cn + max_age \<le> now"

fun all_fresh :: "int \<Rightarrow> int \<Rightarrow> irc_network_state \<Rightarrow> addr list \<Rightarrow> bool res" where
  "all_fresh now max_age s [] = Inr True"
| "all_fresh now max_age s (a # as) =
     bind_res (live (s_cn s a)) (\<lambda>cn.
     if fresh now max_age cn then all_fresh now max_age s as else Inr False)"

definition send_who_reply ::
    "int \<Rightarrow> 'c giochannel \<Rightarrow> irc_network_state \<Rightarrow> string option \<Rightarrow> addr \<Rightarrow> 'c irc_client \<Rightarrow> 'c irc_client res" where
  "send_who_reply now io s a1 a c =
     bind_res (live (s_cn s a)) (\<lambda>cn.
     bind_res (get_nick s (cn_global_nick cn)) (\<lambda>nn.
     bind_res (client_send_response now io c RPL_WHOREPLY
                 [a1, nn_username nn, nn_hostname nn, nn_server nn, nn_nick nn, cn_last_flags cn,
                  Some (show_int (nn_hops nn) @ '' '' @ printf_s (nn_fullname nn))]) (\<lambda>(_, c').
     Inr c')))"

definition client_try_cache_who :: "'c cache_handler" where
  "client_try_cache_who now io c net l settings =
     bind_res (easy_query l) (\<lambda>easy.
     if \<not> easy then Inr (False, c)
     else
       bind_res (sarg l 1) (\<lambda>a1.
       if strchr a1 (CHR ''*'') \<noteq> None \<or> argc l > 2 \<or> max_who_age settings = 0 \<or> argc l \<noteq> 2
       then Inr (False, c)
       else
         bind_res (cached_channel net l) (\<lambda>r.
         case r of
           None \<Rightarrow> Inr (False, c)
         | Some (s, ch) \<Rightarrow>
             bind_res (all_fresh now (max_who_age settings) s (c_nicks ch)) (\<lambda>ok.
             if \<not> ok then Inr (False, c)
             else
               bind_res (fold_res (send_who_reply now io s (Some a1)) (c_nicks ch) c) (\<lambda>c1.
               ignore_result (client_send_response now io c1 RPL_ENDOFWHO
                 [Some a1, Some ''End of /WHO list.'']))))))"

definition client_try_cache_names :: "'c cache_handler" where
  "client_try_cache_names now io c net l settings =
     bind_res (easy_query l) (\<lambda>easy.
     if \<not> easy \<or> argc l \<noteq> 2 then Inr (False, c)
     else
       bind_res (cached_channel net l) (\<lambda>r.
       case r of
         None \<Rightarrow> Inr (False, c)
       | Some (s, ch) \<Rightarrow> ignore_result (client_send_nameslist now io s ch c)))"

definition cache_commands :: "(string \<times> 'c cache_handler) list" where
  "cache_commands =
     [(''MODE'', client_try_cache_mode), (''NAMES'', client_try_cache_names),
      (''TOPIC'', client_try_cache_topic), (''WHO'', client_try_cache_who),
      (''USERHOST'', client_try_cache_userhost)]"

definition client_try_cache :: "'c cache_handler" where
  "client_try_cache now io c net l settings =
     (if argc l = 0 then Inr (True, c)
      else
        case List.find (\<lambda>(name, _). base_eq (args l ! 0) name) cache_commands of
          None \<Rightarrow> Inr (False, c)
        | Some (_, h) \<Rightarrow> h now io c net l settings)"

section \<open>A query that is passed on was not answered\<close>

lemma ignore_result_True: "ignore_result m = Inr (b, c) \<Longrightarrow> b"
  by (auto simp: ignore_result_def)

text \<open>
  The exception: \<open>MODE\<close> with a mode string that starts with \<open>b\<close> and goes on with another
  letter. The ban list is sent, and then the query is passed on as well.
\<close>

definition partial_mode_query :: "irc_line \<Rightarrow> bool" where
  "partial_mode_query l \<longleftrightarrow>
     base_eq (args l ! 0) ''MODE'' \<and> argc l = 3 \<and> first_char (args l ! 2) = CHR ''b''"

lemma cache_mode_silent:
  "client_try_cache_mode now io c net l st = Inr (False, c') \<Longrightarrow>
    argc l = 3 \<longrightarrow> first_char (args l ! 2) \<noteq> CHR ''b'' \<Longrightarrow> c' = c"
  by (cases "args l ! 2")
    (auto simp: client_try_cache_mode_def sarg_def arg_def first_char_def dest: ignore_result_True
      split: if_split_asm option.split_asm)

lemma cache_others_silent:
  "client_try_cache_names now io c net l st = Inr (False, c') \<Longrightarrow> c' = c"
  "client_try_cache_topic now io c net l st = Inr (False, c') \<Longrightarrow> c' = c"
  "client_try_cache_who now io c net l st = Inr (False, c') \<Longrightarrow> c' = c"
  "client_try_cache_userhost now io c net l st = Inr (False, c') \<Longrightarrow> c' = c"
  by (auto simp: client_try_cache_names_def client_try_cache_topic_def client_try_cache_who_def
      client_try_cache_userhost_def dest: ignore_result_True split: if_split_asm option.split_asm)

section \<open>Fresh answers\<close>

lemma all_fresh_True:
  "all_fresh now age s as = Inr True \<Longrightarrow> a \<in> set as \<Longrightarrow> \<exists>cn. s_cn s a = Some cn \<and> fresh now age cn"
  by (induction as) (auto split: if_split_asm)

section \<open>Properties\<close>

definition demo_query :: "string list \<Rightarrow> irc_line" where
  "demo_query as = \<lparr>origin = None, args = as, endcolon = COLON_UNKNOWN\<rparr>"

text \<open>A query that the cache passes on to the server was not answered as well: whatever the
  query, the client is left exactly as it was. The only exception is a MODE query for a ban
  list together with another mode.\<close>

theorem cache_miss_silent:
  assumes "client_try_cache now io c net l settings = Inr (False, c')" "\<not> partial_mode_query l"
  shows "c' = c"
proof -
  consider "c' = c" | name h where "(name, h) \<in> set cache_commands" "base_eq (args l ! 0) name"
      "h now io c net l settings = Inr (False, c')"
    using assms(1)
    by (auto simp: client_try_cache_def dest!: find_Some_iff_in split: if_split_asm option.split_asm)
  then show ?thesis
  proof cases
    case 2
    have "argc l = 3 \<longrightarrow> first_char (args l ! 2) \<noteq> CHR ''b''" if "name = ''MODE''"
      using assms(2) 2(2) that by (auto simp: partial_mode_query_def)
    then show ?thesis
      using 2(1,3) cache_mode_silent [of now io c net l settings c']
        cache_others_silent [of now io c net l settings c']
      by (auto simp: cache_commands_def)
  qed
qed

theorem cache_miss_silent_witness:
  "\<exists>c'. client_try_cache 0 script_io demo_client (Some demo_own) (demo_query [''NAMES'', ''#x''])
      \<lparr>max_who_age = 60\<rparr> = Inr (False, c') \<and> c' = demo_client"
proof -
  let ?m = "client_try_cache 0 script_io demo_client (Some demo_own) (demo_query [''NAMES'', ''#x''])
      \<lparr>max_who_age = 60\<rparr>"
  have "case ?m of Inl _ \<Rightarrow> False | Inr (ok, _) \<Rightarrow> \<not> ok" by code_simp
  then obtain c' where c': "?m = Inr (False, c')" by (auto split: sum.splits)
  have "\<not> partial_mode_query (demo_query [''NAMES'', ''#x''])" by code_simp
  then show ?thesis using c' cache_miss_silent [OF c'] by simp
qed

text \<open>A WHO query is answered from the cache only when the channel is known and every record
  on it was updated less than the configured age ago; with an age of 0 it never is.\<close>

theorem cache_who_fresh:
  assumes "client_try_cache_who now io c (Some s) l settings = Inr (True, c')"
  shows "max_who_age settings \<noteq> 0 \<and> argc l = 2 \<and>
    (\<exists>a ch. find_channel s (Some (args l ! 1)) = Inr (Some a) \<and> s_ch s a = Some ch \<and>
      (\<forall>n \<in> set (c_nicks ch). \<exists>cn. s_cn s n = Some cn \<and> cn_last_update cn \<noteq> 0 \<and>
        now < cn_last_update cn + max_who_age settings))"
proof -
  obtain a1 r where r: "sarg l 1 = Inr a1" "max_who_age settings \<noteq> 0" "argc l = 2"
    "cached_channel (Some s) l = Inr r" "r \<noteq> None"
    "all_fresh now (max_who_age settings) s (c_nicks (snd (the r))) = Inr True"
    using assms
    by (auto simp: client_try_cache_who_def cached_channel_def split: if_split_asm option.split_asm)
  have "arg l 1 = Inr (Some (args l ! 1))" using r(3) by (simp add: arg_def)
  then obtain a ch where "find_channel s (Some (args l ! 1)) = Inr (Some a)" "s_ch s a = Some ch"
    "r = Some (s, ch)"
    using r(4,5) by (auto simp: cached_channel_def get_channel_def split: option.split_asm)
  moreover have "\<exists>cn. s_cn s n = Some cn \<and> cn_last_update cn \<noteq> 0 \<and>
      now < cn_last_update cn + max_who_age settings" if "n \<in> set (c_nicks ch)" for n
    using all_fresh_True [of now "max_who_age settings" s "c_nicks ch" n] r(6) that \<open>r = Some (s, ch)\<close>
    by (auto simp: fresh_def)
  ultimately show ?thesis using r(2,3) by blast
qed

text \<open>A network where the only record of a channel was updated at time 100.\<close>

definition demo_who :: irc_network_state where
  "demo_who = set_cn_obj demo_joined 4
     ((the (s_cn demo_joined 4))\<lparr>cn_last_update := 100, cn_last_flags := Some ''H''\<rparr>)"

theorem cache_who_fresh_witness:
  "(\<exists>c'. client_try_cache_who 130 script_io (demo_client\<lparr>cl_state := None\<rparr>) (Some demo_who) (demo_query [''WHO'', ''#d''])
      \<lparr>max_who_age = 60\<rparr> = Inr (True, c')) \<and>
   (\<exists>a ch. find_channel demo_who (Some ''#d'') = Inr (Some a) \<and> s_ch demo_who a = Some ch)"
proof -
  let ?m = "client_try_cache_who 130 script_io (demo_client\<lparr>cl_state := None\<rparr>) (Some demo_who) (demo_query [''WHO'', ''#d''])
      \<lparr>max_who_age = 60\<rparr>"
  have "case ?m of Inl _ \<Rightarrow> False | Inr (ok, _) \<Rightarrow> ok" by code_simp
  then obtain c' where c': "?m = Inr (True, c')" by (auto split: sum.splits)
  have "args (demo_query [''WHO'', ''#d'']) ! 1 = ''#d''" by (simp add: demo_query_def)
  then show ?thesis using c' cache_who_fresh [OF c'] by auto
qed

end
