(* ===== verification/Ctcp.thy ===== *)
theory Ctcp
  imports Client_Names Redirect
begin

text \<open>
  \<open>src/ctcp.c\<close> and \<open>src/ctcp_redirect.c\<close>: CTCP requests. Requests from other users are answered
  by the proxy itself while no client is there; the requests of clients are kept in a queue,
  so that an answer can be given to the client that asked. Lines for the server are returned
  as a list; they are sent with \<open>network_send_args\<close> by the code.
\<close>

section \<open>Answering requests (\<open>ctcp.c\<close>)\<close>

abbreviation CTCP_DELIM :: char where "CTCP_DELIM \<equiv> CHR 0x01"

text \<open>The variable arguments up to the first NULL, joined and delimited.\<close>

definition toarg :: "string option list \<Rightarrow> string res" where
  "toarg ap =
     (let list = va_strings ap in
      bind_res (guard_res (list \<noteq> []) AssertFail) (\<lambda>_.
      Inr (CTCP_DELIM # g_strjoinv '' '' list @ [CTCP_DELIM])))"

text \<open>
  \<open>network_send_args\<close> builds a line without origin. A request is answered to the nick that
  sent it.
\<close>

definition ctcp_reply :: "string \<Rightarrow> string option list \<Rightarrow> irc_line list res" where
  "ctcp_reply nick ap =
     bind_res (toarg ap) (\<lambda>msg. Inr [virc_parse_line None [Some ''NOTICE'', Some nick, Some msg]])"

definition ctcp_send :: "string \<Rightarrow> string option list \<Rightarrow> irc_line list res" where
  "ctcp_send nick ap =
     bind_res (toarg ap) (\<lambda>msg. Inr [virc_parse_line None [Some ''PRIVMSG'', Some nick, Some msg]])"

text \<open>
  What the answers are made of and does not come from the sources: the time as \<open>ctime\<close> prints
  it, the version of the program, the name and release of the system; and the full name that
  the network state has for the owner.
\<close>

record ctcp_env =
  env_ctime :: string
  env_version :: string
  env_sysname :: string
  env_release :: string
  env_fullname :: "string option"

type_synonym ctcp_fn = "ctcp_env \<Rightarrow> string \<Rightarrow> string list \<Rightarrow> irc_line list res"

definition handle_time :: ctcp_fn where
  "handle_time env nick as =
     ctcp_reply nick [Some ''TIME'', Some (before_chr (CHR 0x0A) (env_ctime env))]"

definition handle_finger :: ctcp_fn where
  "handle_finger env nick as = ctcp_reply nick [Some ''FINGER'', env_fullname env]"

definition handle_source :: ctcp_fn where
  "handle_source env nick as =
     ctcp_reply nick [Some ''SOURCE'', Some ''www.ctrlproxy.org:pub/ctrlproxy:ctrlproxy-latest.tar.gz'']"

definition handle_version :: ctcp_fn where
  "handle_version env nick as =
     ctcp_reply nick [Some ''VERSION'',
       Some (''ctrlproxy:'' @ env_version env @ '':'' @ env_sysname env @ '' '' @ env_release env)]"

definition handle_ping :: ctcp_fn where
  "handle_ping env nick as = ctcp_reply nick [Some ''PING'', if length as > 1 then Some (as ! 1) else None]"

text \<open>The names of the built-in requests, then those that were registered.\<close>

definition builtin_names :: "string list" where
  "builtin_names = [''VERSION'', ''CLIENTINFO'', ''SOURCE'', ''PING'', ''FINGER'', ''TIME'', ''ACTION'']"

type_synonym ctcp_handlers = "(string \<times> ctcp_fn option) list"

definition handle_clientinfo :: "ctcp_handlers \<Rightarrow> ctcp_fn" where
  "handle_clientinfo cmds env nick as =
     ctcp_reply nick [Some ''CLIENTINFO'', Some (g_strjoinv '' '' (builtin_names @ map fst cmds))]"

definition builtins :: "ctcp_handlers \<Rightarrow> ctcp_handlers" where
  "builtins cmds =
     [(''VERSION'', Some handle_version), (''CLIENTINFO'', Some (handle_clientinfo cmds)),
      (''SOURCE'', Some handle_source), (''PING'', Some handle_ping), (''FINGER'', Some handle_finger),
      (''TIME'', Some handle_time), (''ACTION'', None)]"

definition ctcp_register_handler :: "ctcp_handlers \<Rightarrow> string \<times> ctcp_fn option \<Rightarrow> ctcp_handlers" where
  "ctcp_register_handler cmds h = cmds @ [h]"

text \<open>The loop over handlers: \<open>strcasecmp\<close> reads both strings, so a missing name is a fault.\<close>

fun find_ctcp :: "ctcp_handlers \<Rightarrow> string option \<Rightarrow> ctcp_fn option option res" where
  "find_ctcp [] name = Inr None"
| "find_ctcp ((n, f) # hs) name =
     bind_res (deref name) (\<lambda>x.
     if g_ascii_strcasecmp n x = 0 then Inr (Some f) else find_ctcp hs name)"

definition ctcp_process_request ::
    "ctcp_handlers \<Rightarrow> ctcp_env \<Rightarrow> irc_line \<Rightarrow> (bool \<times> irc_line list) res" where
  "ctcp_process_request cmds env l =
     bind_res (line_get_nick l) (\<lambda>nick.
     bind_res (sarg l 2) (\<lambda>a2.
     bind_res (guard_res (a2 \<noteq> []) OutOfBounds) (\<lambda>_.
     case strchr (tl a2) CTCP_DELIM of
       None \<Rightarrow> Inr (False, [])
     | Some _ \<Rightarrow>
         let data = before_chr CTCP_DELIM (tl a2);
             as = g_strsplit data (CHR '' '') 0;
             name = (case as of [] \<Rightarrow> None | x # _ \<Rightarrow> Some x);
             run = (\<lambda>f. case f of
                          None \<Rightarrow> Inr (True, [])
                        | Some fn \<Rightarrow> bind_res (fn env nick as) (\<lambda>ls. Inr (True, ls))) in
         bind_res (find_ctcp cmds name) (\<lambda>r.
         case r of
           Some f \<Rightarrow> run f
         | None \<Rightarrow>
             bind_res (find_ctcp (builtins cmds) name) (\<lambda>r'.
             case r' of
               Some f \<Rightarrow> run f
             | None \<Rightarrow> bind_res (ctcp_reply nick [Some ''ERRMSG'']) (\<lambda>ls. Inr (False, ls)))))))"

section \<open>Giving answers back (\<open>ctcp_redirect.c\<close>)\<close>

text \<open>The text before the last occurrence of a character.\<close>

definition before_last :: "char \<Rightarrow> string \<Rightarrow> string option" where
  "before_last c s =
     (if c \<in> set s then Some (rev (tl (dropWhile (\<lambda>x. x \<noteq> c) (rev s)))) else None)"

definition get_ctcp_command :: "string \<Rightarrow> string option res" where
  "get_ctcp_command data =
     bind_res (guard_res (first_char data = CTCP_DELIM) AssertFail) (\<lambda>_.
     let tmp = tl data in
     case strchr tmp (CHR '' '') of
       Some _ \<Rightarrow> Inr (Some (before_chr (CHR '' '') tmp))
     | None \<Rightarrow> Inr (before_last CTCP_DELIM tmp))"

record ctcp_request =
  rq_client :: addr
  rq_destination :: "string option"
  rq_command :: string

definition ctcp_client_request_record ::
    "irc_network_info \<Rightarrow> ctcp_request list \<Rightarrow> addr \<Rightarrow> irc_line \<Rightarrow> (bool \<times> ctcp_request list) res" where
  "ctcp_client_request_record info queue c l =
     bind_res (sarg l 2) (\<lambda>a2.
     bind_res (get_ctcp_command a2) (\<lambda>command.
     case command of
       None \<Rightarrow> Inr (False, queue)
     | Some cmd \<Rightarrow>
         bind_res (arg l 1) (\<lambda>a1.
         bind_res (is_channelname a1 info) (\<lambda>chan.
         Inr (True, queue @ [\<lparr>rq_client = c, rq_destination = (if chan then None else a1),
                              rq_command = cmd\<rparr>])))))"

text \<open>
  \<open>network_of\<close> is the network of each client that is still allocated: the queue holds no
  references, so a client in it may have been freed.
\<close>

definition request_matches ::
    "(addr \<rightharpoonup> addr option) \<Rightarrow> addr \<Rightarrow> string \<Rightarrow> string \<Rightarrow> ctcp_request \<Rightarrow> bool res" where
  "request_matches network_of n nick command req =
     bind_res (live (network_of (rq_client req))) (\<lambda>net.
     Inr (net = Some n \<and>
          (case rq_destination req of None \<Rightarrow> True | Some d \<Rightarrow> strcmp d nick = 0) \<and>
          strcmp (rq_command req) command = 0))"

fun find_request ::
    "(ctcp_request \<Rightarrow> bool res) \<Rightarrow> ctcp_request list \<Rightarrow> (ctcp_request option \<times> ctcp_request list) res" where
  "find_request t [] = Inr (None, [])"
| "find_request t (r # rs) =
     bind_res (t r) (\<lambda>b.
     if b then Inr (Some r, rs)
     else bind_res (find_request t rs) (\<lambda>(x, rs'). Inr (x, r # rs')))"

text \<open>The result: the return value, the client that is sent the line, and the queue.\<close>

definition ctcp_network_redirect_response ::
    "(addr \<rightharpoonup> addr option) \<Rightarrow> addr \<Rightarrow> ctcp_request list \<Rightarrow> irc_line \<Rightarrow>
     (bool \<times> addr option \<times> ctcp_request list) res" where
  "ctcp_network_redirect_response network_of n queue l =
     bind_res (sarg l 2) (\<lambda>a2.
     bind_res (get_ctcp_command a2) (\<lambda>command.
     bind_res (line_get_nick l) (\<lambda>nick.
     case command of
       None \<Rightarrow> Inr (False, None, queue)
     | Some cmd \<Rightarrow>
         bind_res (find_request (request_matches network_of n nick cmd) queue) (\<lambda>(r, queue').
         Inr (True, map_option rq_client r, queue')))))"

section \<open>Requests\<close>

text \<open>What a built-in handler answers: one notice to the sender, with the name of the request.\<close>

definition answers_with :: "string \<Rightarrow> string \<Rightarrow> irc_line list res \<Rightarrow> bool" where
  "answers_with nick name r \<longleftrightarrow>
     (\<exists>rest. r = Inr [virc_parse_line None [Some ''NOTICE'', Some nick,
                       Some (CTCP_DELIM # name @ rest @ [CTCP_DELIM])]])"

lemma answers_withI:
  "r = Inr [virc_parse_line None [Some ''NOTICE'', Some nick,
             Some (CTCP_DELIM # name @ ext @ [CTCP_DELIM])]] \<Longrightarrow> answers_with nick name r"
  by (auto simp: answers_with_def)

lemma ctcp_reply_one: "answers_with nick n (ctcp_reply nick [Some n])"
  by (rule answers_withI [where ext = "[]"])
    (simp add: ctcp_reply_def toarg_def va_strings_def Let_def)

lemma ctcp_reply_two: "answers_with nick n (ctcp_reply nick [Some n, a])"
  by (rule answers_withI [where ext = "case a of None \<Rightarrow> [] | Some x \<Rightarrow> CHR '' '' # x"])
    (auto simp: ctcp_reply_def toarg_def va_strings_def Let_def split: option.splits)

lemmas ctcp_handler_defs =
  handle_version_def handle_clientinfo_def handle_source_def handle_ping_def handle_finger_def
  handle_time_def

lemma find_ctcp_spec:
  "find_ctcp hs (Some x) = Inr (map_option snd (List.find (\<lambda>h. g_ascii_strcasecmp (fst h) x = 0) hs))"
  by (induction hs) auto

lemma builtin_answers:
  "(n, Some f) \<in> set (builtins cmds) \<Longrightarrow> answers_with nick n (f env nick as)"
  by (auto simp: builtins_def ctcp_handler_defs ctcp_reply_two)

lemma builtins_names: "map fst (builtins cmds) = builtin_names"
  by (simp add: builtins_def builtin_names_def)

lemma builtins_None: "(n, f) \<in> set (builtins cmds) \<Longrightarrow> f = None \<longleftrightarrow> n = ''ACTION''"
  by (auto simp: builtins_def)

text \<open>A request between delimiters, with its name: what the two loops find.\<close>

lemma ctcp_process_request_named:
  assumes "origin l = Some h" and "2 < argc l"
    and "args l ! 2 = CTCP_DELIM # data @ CTCP_DELIM # rest"
    and "CTCP_DELIM \<notin> set data" and "g_strsplit data (CHR '' '') 0 = x # xs"
  shows "ctcp_process_request [] env l =
     (case List.find (\<lambda>b. g_ascii_strcasecmp (fst b) x = 0) (builtins []) of
        None \<Rightarrow> bind_res (ctcp_reply (before_chr (CHR ''!'') h) [Some ''ERRMSG''])
                  (\<lambda>ls. Inr (False, ls))
      | Some (n, None) \<Rightarrow> Inr (True, [])
      | Some (n, Some f) \<Rightarrow>
          bind_res (f env (before_chr (CHR ''!'') h) (x # xs)) (\<lambda>ls. Inr (True, ls)))"
proof -
  have "sarg l 2 = Inr (CTCP_DELIM # data @ CTCP_DELIM # rest)"
    using assms by (simp add: sarg_def arg_def)
  moreover have "strchr (data @ CTCP_DELIM # rest) CTCP_DELIM = Some (CTCP_DELIM # rest)"
    using assms by (intro strchr_append) auto
  ultimately show ?thesis
    using assms
    by (auto simp: ctcp_process_request_def line_get_nick_def find_ctcp_spec Let_def
        split: option.splits)
qed

lemma find_fst_map:
  "List.find (\<lambda>n. P n) (map fst xs) = map_option fst (List.find (\<lambda>x. P (fst x)) xs)"
  by (induction xs) auto

text \<open>
  A CTCP request from another user, with text between the delimiters, is answered by at
  most one line: a notice to the nick that sent the request, again between delimiters, that
  starts with the name of a built-in request, or with ERRMSG for a name that is none of them.
  The result says whether the name, compared without regard to case, is one of the built-in
  names; only ACTION is known and gets no answer.
\<close>

theorem ctcp_request_answered:
  assumes "origin l = Some h" and "2 < argc l"
    and "args l ! 2 = CTCP_DELIM # data @ CTCP_DELIM # rest"
    and "CTCP_DELIM \<notin> set data" and "g_strsplit data (CHR '' '') 0 = name # as"
  shows "case List.find (\<lambda>n. g_ascii_strcasecmp n name = 0) builtin_names of
       None \<Rightarrow> \<exists>ls. ctcp_process_request [] env l = Inr (False, ls) \<and>
                 answers_with (before_chr (CHR ''!'') h) ''ERRMSG'' (Inr ls)
     | Some n \<Rightarrow> \<exists>ls. ctcp_process_request [] env l = Inr (True, ls) \<and>
                 (if n = ''ACTION'' then ls = []
                  else answers_with (before_chr (CHR ''!'') h) n (Inr ls))"
proof (cases "List.find (\<lambda>b. g_ascii_strcasecmp (fst b) name = 0) (builtins [])")
  case None
  have "answers_with (before_chr (CHR ''!'') h) ''ERRMSG'' (ctcp_reply (before_chr (CHR ''!'') h) [Some ''ERRMSG''])"
    by (rule ctcp_reply_one)
  then show ?thesis
    using None find_fst_map [of _ "builtins []"] ctcp_process_request_named [OF assms, of env]
    by (auto simp: builtins_names answers_with_def)
next
  case (Some b)
  obtain n f where b: "b = (n, f)" by (cases b)
  have "(n, f) \<in> set (builtins [])" using Some b by (auto simp: find_Some_iff)
  then show ?thesis
    using Some b find_fst_map [of _ "builtins []"] ctcp_process_request_named [OF assms, of env]
      builtin_answers [of n _ "[]" "before_chr (CHR ''!'') h" env "name # as"]
      builtins_None [of n f "[]"]
    by (cases f) (force simp: builtins_names answers_with_def)+
qed


definition demo_env :: ctcp_env where
  "demo_env = \<lparr>env_ctime = ''Mon'', env_version = ''3.1'', env_sysname = ''Linux'',
               env_release = ''6'', env_fullname = None\<rparr>"

definition ctcp_line :: "string \<Rightarrow> irc_line" where
  "ctcp_line text = virc_parse_line (Some ''bob!b@h'') [Some ''PRIVMSG'', Some ''me'', Some text]"

theorem ctcp_request_answered_witness:
  "\<exists>ls. ctcp_process_request [] demo_env (ctcp_line (CTCP_DELIM # ''ping 12'' @ [CTCP_DELIM])) =
          Inr (True, ls) \<and> answers_with ''bob'' ''PING'' (Inr ls)"
proof -
  let ?l = "ctcp_line (CTCP_DELIM # ''ping 12'' @ [CTCP_DELIM])"
  have "origin ?l = Some ''bob!b@h''" "2 < argc ?l"
    "args ?l ! 2 = CTCP_DELIM # ''ping 12'' @ CTCP_DELIM # []" "CTCP_DELIM \<notin> set ''ping 12''"
    "g_strsplit ''ping 12'' (CHR '' '') 0 = [''ping'', ''12'']"
    by code_simp+
  from ctcp_request_answered [OF this, of demo_env]
  have "case List.find (\<lambda>n. g_ascii_strcasecmp n ''ping'' = 0) builtin_names of
       None \<Rightarrow> True
     | Some n \<Rightarrow> \<exists>ls. ctcp_process_request [] demo_env ?l = Inr (True, ls) \<and>
                 (if n = ''ACTION'' then ls = []
                  else answers_with (before_chr (CHR ''!'') ''bob!b@h'') n (Inr ls))"
    by (auto split: option.splits)
  moreover have "List.find (\<lambda>n. g_ascii_strcasecmp n ''ping'' = 0) builtin_names = Some ''PING''"
    "before_chr (CHR ''!'') ''bob!b@h'' = ''bob''"
    by code_simp+
  ultimately show ?thesis by simp
qed

text \<open>
  A message whose text is two delimiters with nothing between them stops the program: the
  empty text is split into no words, and the missing first word is compared with the name of
  the first handler. Any user of the network can send such a message.
\<close>

theorem ctcp_empty_request_crashes:
  assumes "origin l = Some h" and "2 < argc l"
    and "args l ! 2 = CTCP_DELIM # CTCP_DELIM # rest"
  shows "ctcp_process_request cmds env l = Inl NullDeref"
proof -
  have "sarg l 2 = Inr (CTCP_DELIM # CTCP_DELIM # rest)"
    using assms by (simp add: sarg_def arg_def)
  moreover have "strchr (CTCP_DELIM # rest) CTCP_DELIM = Some (CTCP_DELIM # rest)"
    using strchr_append [of CTCP_DELIM "[]" rest] by simp
  ultimately show ?thesis
    using assms by (cases cmds) (auto simp: ctcp_process_request_def line_get_nick_def
        before_chr_def g_strsplit_def builtins_def Let_def)
qed

theorem ctcp_empty_request_crashes_witness:
  "ctcp_process_request [] demo_env (ctcp_line [CTCP_DELIM, CTCP_DELIM]) = Inl NullDeref"
  by (rule ctcp_empty_request_crashes [of _ "''bob!b@h''" "[]"]; code_simp)

section \<open>Redirected answers\<close>

text \<open>Which requests an answer to a command from a nick belongs to; none stays open after it.\<close>

definition request_answers :: "(addr \<times> ctcp_request) \<Rightarrow> (addr \<times> string \<times> string) \<Rightarrow> bool" where
  "request_answers e a =
     (case (e, a) of ((net, r), (n, nick, cmd)) \<Rightarrow>
        net = n \<and> strcmp (rq_command r) cmd = 0 \<and>
        (case rq_destination r of None \<Rightarrow> True | Some d \<Rightarrow> strcmp d nick = 0))"

interpretation cq: request_list request_answers "\<lambda>_ _. False"
  by unfold_locales simp

text \<open>Every client of the queue is still allocated and has the network that the map gives.\<close>

definition clients_known :: "(addr \<rightharpoonup> addr option) \<Rightarrow> (addr \<Rightarrow> addr) \<Rightarrow> ctcp_request list \<Rightarrow> bool" where
  "clients_known network_of net queue \<longleftrightarrow>
     (\<forall>r\<in>set queue. network_of (rq_client r) = Some (Some (net (rq_client r))))"

lemma request_matches_known:
  "network_of (rq_client r) = Some (Some (net (rq_client r))) \<Longrightarrow>
   request_matches network_of n nick cmd r =
     Inr (request_answers (net (rq_client r), r) (n, nick, cmd))"
  by (auto simp: request_matches_def request_answers_def)

lemma find_request_select:
  assumes "clients_known network_of net queue"
  shows "find_request (request_matches network_of n nick cmd) queue =
         Inr (cq.select (\<lambda>r. (net (rq_client r), r)) (n, nick, cmd) queue)"
  using assms
  by (induction queue)
    (auto simp: clients_known_def request_matches_known cq.select_def extract_Nil_code
      extract_Cons_code split: option.splits)

text \<open>
  C38. An answer from the network goes to the client whose request is the oldest that it fits:
  a request of this network, to this nick or to a channel, with the same command. Only that
  request leaves the queue; when none fits, nobody is sent the line and the queue stays.
\<close>

theorem ctcp_response_to_oldest:
  fixes n :: addr
  assumes "clients_known network_of net queue" and "origin l = Some h" and "2 < argc l"
    and "get_ctcp_command (args l ! 2) = Inr (Some cmd)"
  defines "fits \<equiv> \<lambda>r. request_answers (net (rq_client r), r) (n, before_chr (CHR ''!'') h, cmd)"
  shows "\<exists>dest queue'. ctcp_network_redirect_response network_of n queue l = Inr (True, dest, queue') \<and>
     (case dest of
        None \<Rightarrow> queue' = queue \<and> (\<forall>r\<in>set queue. \<not> fits r)
      | Some c \<Rightarrow> \<exists>pre r post. queue = pre @ r # post \<and> queue' = pre @ post \<and> rq_client r = c \<and>
                    fits r \<and> (\<forall>x\<in>set pre. \<not> fits x))"
proof -
  let ?nick = "before_chr (CHR ''!'') h"
  obtain r queue' where s:
    "cq.select (\<lambda>r. (net (rq_client r), r)) (n, ?nick, cmd) queue = (r, queue')" (is "?sel = _")
    by (cases ?sel)
  have "sarg l 2 = Inr (args l ! 2)" using assms by (simp add: sarg_def arg_def)
  then have "ctcp_network_redirect_response network_of n queue l = Inr (True, map_option rq_client r, queue')"
    using assms s
    by (simp add: ctcp_network_redirect_response_def line_get_nick_def find_request_select)
  moreover have "queue' = queue \<and> (\<forall>r\<in>set queue. \<not> fits r)" if "r = None"
    using s that by (simp add: cq.select_none fits_def)
  moreover have "\<exists>pre r post. queue = pre @ r # post \<and> queue' = pre @ post \<and> rq_client r = rq_client e \<and>
                    fits r \<and> (\<forall>x\<in>set pre. \<not> fits x)" if "r = Some e" for e
    using s unfolding that fits_def by (elim cq.select_oldest) auto
  ultimately show ?thesis by (cases r) auto
qed

definition demo_queue :: "ctcp_request list" where
  "demo_queue =
     [\<lparr>rq_client = 1, rq_destination = Some ''eve'', rq_command = ''PING''\<rparr>,
      \<lparr>rq_client = 2, rq_destination = Some ''bob'', rq_command = ''PING''\<rparr>]"

theorem ctcp_response_to_oldest_witness:
  "\<exists>pre r post. demo_queue = pre @ r # post \<and> rq_client r = 2 \<and>
     ctcp_network_redirect_response (\<lambda>c. Some (Some 9)) 9 demo_queue
       (ctcp_line (CTCP_DELIM # ''PING 12'' @ [CTCP_DELIM])) = Inr (True, Some 2, pre @ post)"
proof -
  let ?l = "ctcp_line (CTCP_DELIM # ''PING 12'' @ [CTCP_DELIM])"
  let ?m = "ctcp_network_redirect_response (\<lambda>c. Some (Some 9)) 9 demo_queue ?l"
  have l: "origin ?l = Some ''bob!b@h''" "2 < argc ?l"
    "get_ctcp_command (args ?l ! 2) = Inr (Some ''PING'')"
    by code_simp+
  have "?m = Inr (True, Some 2, [hd demo_queue])" by code_simp
  then show ?thesis
    using ctcp_response_to_oldest [of "\<lambda>c. Some (Some 9)" "\<lambda>_. 9" demo_queue, OF _ l, of 9]
    by (auto simp: clients_known_def)
qed

text \<open>
  The queue keeps the address of a client and no reference to it: an answer that arrives
  after the client at the head of the queue was freed reads the freed client.
\<close>

lemma ctcp_response_freed_client:
  assumes "ctcp_client_request_record info [] c l = Inr (True, queue)"
    and "network_of c = None" and "origin l' = Some h" and "2 < argc l'"
    and "get_ctcp_command (args l' ! 2) = Inr (Some cmd)"
  shows "ctcp_network_redirect_response network_of n queue l' = Inl UseAfterFree"
proof -
  obtain r where "queue = [r]" "rq_client r = c"
    using assms(1) by (auto simp: ctcp_client_request_record_def split: option.splits)
  moreover have "sarg l' 2 = Inr (args l' ! 2)" using assms by (simp add: sarg_def arg_def)
  ultimately show ?thesis
    using assms by (simp add: ctcp_network_redirect_response_def line_get_nick_def request_matches_def)
qed

end
