(* ===== verification/Connection.thy ===== *)
theory Connection
  imports Client
begin

text \<open>
  \<open>libirc/connection.c\<close>: the connection of one network with its server. A network is a state
  machine driven by the main loop: timers, the watch on a socket that is being connected, and
  the events of its transport. The record \<open>irc_network\<close> is extensible: the program that owns
  the networks adds its own fields, on which its callbacks work. The outcome of every system
  and library call is a field of the environment \<open>net_env\<close>.
\<close>

section \<open>Networks\<close>

datatype irc_network_connection_state =
    NOT_CONNECTED
  | RECONNECT_PENDING
  | CONNECTING
  | CONNECTED
  | LOGIN_SENT
  | MOTD_RECVD

datatype network_type = NETWORK_TCP | NETWORK_PROGRAM | NETWORK_IOCHANNEL | NETWORK_VIRTUAL

record tcp_server_config =
  ts_host :: string
  ts_port :: string
  ts_ssl :: bool
  ts_bind_address :: "string option"
  ts_password :: "string option"

text \<open>The servers are objects: the connection points to one of them.\<close>

record channel_config =
  cc_name :: string
  cc_key :: "string option"
  cc_autojoin :: bool

record network_config =
  nc_name :: "string option"
  nc_autoconnect :: bool
  nc_implicit :: bool
  nc_type :: network_type
  nc_servers :: "(addr \<times> tcp_server_config) list"
  nc_program_location :: string
  nc_virtual_name :: "string option"
  nc_reconnect_interval :: int
  nc_nick :: "string option"
  nc_username :: "string option"
  nc_fullname :: "string option"
  nc_password :: "string option"
  nc_autocmd :: "string list"
  nc_channels :: "channel_config list"
  nc_disable_cache :: bool
  nc_ignore_first_nick :: bool

text \<open>The sources that the main loop holds for a network, with their identifiers.\<close>

datatype 'c net_source = Reconnect_timer | Ping_timer | Connect_watch 'c

text \<open>
  \<open>struct irc_network\<close> and its connection. The two members of the union are fields of their
  own: no code path of a virtual network touches the TCP member. \<open>n_local_name\<close> and
  \<open>n_remote_name\<close> tell whether the socket names are allocated, \<open>n_linestack\<close> whether the
  network has a line stack, \<open>n_ops\<close> is the kind of a virtual network. \<open>n_dangling\<close> are the
  watches of transports that were freed, and \<open>n_lines\<close> the lines handed to the server.
\<close>

record 'c irc_network =
  n_name :: "string option"
  n_config :: network_config
  n_references :: int
  n_reconnect_id :: nat
  n_reconnect_interval :: int
  n_external_state :: "irc_network_state option"
  n_info :: irc_network_info
  n_state :: irc_network_connection_state
  n_last_line_recvd :: int
  n_transport :: "'c irc_transport option"
  n_current_server :: "addr option"
  n_remote_name :: bool
  n_local_name :: bool
  n_last_disconnect_reason :: "string option"
  n_ping_id :: nat
  n_connect_id :: nat
  n_ops :: "string option"
  n_linestack :: bool
  n_sources :: "(nat \<times> 'c net_source) list"
  n_next_source :: nat
  n_dangling :: "nat list"
  n_lines :: "irc_line list"

record 'n virtual_network_ops =
  v_name :: string
  v_init :: "('n \<Rightarrow> (bool \<times> 'n) res) option"
  v_to_server :: "'n \<Rightarrow> addr option \<Rightarrow> irc_line \<Rightarrow> (bool \<times> 'n) res"
  v_fini :: "('n \<Rightarrow> 'n res) option"

text \<open>What trying one address of a server gives.\<close>

datatype 'c dial = No_socket | Refused | In_progress 'c | Connected_at_once 'c

record ('c, 'n) net_env =
  e_now :: int
  e_io :: "'c giochannel"
  e_hostname :: "string option"
  e_iconv_open :: "string \<Rightarrow> string \<Rightarrow> (string \<Rightarrow> string option) option"
  e_virtual_network_ops :: "string \<rightharpoonup> 'n virtual_network_ops"
  e_getaddrinfo :: "tcp_server_config \<Rightarrow> 'c dial list option"
  e_ssl_wrap :: "'c \<Rightarrow> string \<Rightarrow> 'c option"
  e_sock_error :: "'c \<Rightarrow> string"
  e_set_encoding :: "'c \<Rightarrow> bool"
  e_set_flags :: "'c \<Rightarrow> bool"
  e_piped_child :: "string \<Rightarrow> 'c option"
  cb_get_login_details :: "'n \<Rightarrow> irc_login_details res"
  cb_process_to_server :: "'n \<Rightarrow> irc_line \<Rightarrow> (bool \<times> 'n) res"
  cb_disconnect :: "('n \<Rightarrow> 'n res) option"
  cb_state_set :: "('n \<Rightarrow> 'n res) option"

type_synonym ('c, 'a) net = "('c, 'a) irc_network_scheme"
type_synonym ('c, 'a) env = "('c, ('c, 'a) net) net_env"

definition register_virtual_network ::
    "'n virtual_network_ops \<Rightarrow> (string \<rightharpoonup> 'n virtual_network_ops) \<Rightarrow> (string \<rightharpoonup> 'n virtual_network_ops)" where
  "register_virtual_network ops table = table(v_name ops \<mapsto> ops)"

definition find_virtual_network :: "(string \<rightharpoonup> 'n virtual_network_ops) \<Rightarrow> string \<Rightarrow> 'n virtual_network_ops option" where
  "find_virtual_network table name = table name"

definition unregister_virtual_networks :: "string \<rightharpoonup> 'n virtual_network_ops" where
  "unregister_virtual_networks = Map.empty"

definition DEFAULT_RECONNECT_INTERVAL :: int where "DEFAULT_RECONNECT_INTERVAL = 60"
definition MIN_SILENT_TIME :: int where "MIN_SILENT_TIME = 60"
definition MAX_SILENT_TIME :: int where "MAX_SILENT_TIME = 2 * MIN_SILENT_TIME"

text \<open>
  The interval is unsigned in the configuration, where - 1 (the largest value) asks for the
  default, and signed in the network.
\<close>

definition irc_network_new :: "network_config \<Rightarrow> 'c irc_network" where
  "irc_network_new nc =
     \<lparr>n_name = nc_name nc, n_config = nc, n_references = 1, n_reconnect_id = 0,
      n_reconnect_interval =
        (if nc_reconnect_interval nc = 0xFFFFFFFF then DEFAULT_RECONNECT_INTERVAL
         else if nc_reconnect_interval nc < 0x80000000 then nc_reconnect_interval nc
         else nc_reconnect_interval nc - 0x100000000),
      n_external_state = None,
      n_info = network_info_init\<lparr>ni_ircd := Some ''ctrlproxy'', ni_forced_nick_changes := True\<rparr>,
      n_state = NOT_CONNECTED, n_last_line_recvd = 0, n_transport = None, n_current_server = None,
      n_remote_name = False, n_local_name = False, n_last_disconnect_reason = None, n_ping_id = 0,
      n_connect_id = 0, n_ops = None, n_linestack = False, n_sources = [], n_next_source = 1,
      n_dangling = [], n_lines = []\<rparr>"

text \<open>Registering and removing sources; removing one that is not there only gives a warning.\<close>

definition add_source :: "'c net_source \<Rightarrow> ('c, 'a) net \<Rightarrow> nat \<times> ('c, 'a) net" where
  "add_source src n =
     (n_next_source n,
      n\<lparr>n_sources := n_sources n @ [(n_next_source n, src)], n_next_source := Suc (n_next_source n)\<rparr>)"

definition g_source_remove :: "nat \<Rightarrow> ('c, 'a) net \<Rightarrow> ('c, 'a) net" where
  "g_source_remove i n = n\<lparr>n_sources := filter (\<lambda>(j, _). j \<noteq> i) (n_sources n)\<rparr>"

definition network_report_disconnect :: "string \<Rightarrow> ('c, 'a) net \<Rightarrow> ('c, 'a) net" where
  "network_report_disconnect reason n = n\<lparr>n_last_disconnect_reason := Some reason\<rparr>"

definition network_set_charset :: "('c, 'a) env \<Rightarrow> ('c, 'a) net \<Rightarrow> string option \<Rightarrow> (bool \<times> ('c, 'a) net) res" where
  "network_set_charset env n name =
     bind_res (deref (n_transport n)) (\<lambda>tr.
     let (ok, tr') = transport_set_charset (e_iconv_open env) tr name in
     Inr (ok, n\<lparr>n_transport := Some tr'\<rparr>))"

text \<open>The next server after the current one, the first after the last.\<close>

definition network_get_next_tcp_server :: "('c, 'a) net \<Rightarrow> addr option" where
  "network_get_next_tcp_server n =
     (let servers = map fst (nc_servers (n_config n));
          rest = (case n_current_server n of
                    None \<Rightarrow> []
                  | Some a \<Rightarrow> tl (dropWhile (\<lambda>x. x \<noteq> a) servers)) in
      case rest of x # _ \<Rightarrow> Some x | [] \<Rightarrow> (case servers of x # _ \<Rightarrow> Some x | [] \<Rightarrow> None))"

definition irc_network_select_next_server :: "('c, 'a) net \<Rightarrow> ('c, 'a) net" where
  "irc_network_select_next_server n =
     (if nc_type (n_config n) \<noteq> NETWORK_TCP then n
      else n\<lparr>n_current_server := network_get_next_tcp_server n\<rparr>)"

section \<open>Sending, closing and reconnecting\<close>

text \<open>
  A hangup that the transport reports while a line is sent makes the network reconnect, which
  closes the connection, which sends a line. The functions take what happens on a hangup as
  the argument \<open>hup\<close>; \<open>reconnect\<close> ties the knot and bounds the depth of the recursion.
\<close>

definition network_send_line_direct ::
    "(('c, 'a) net \<Rightarrow> ('c, 'a) net res) \<Rightarrow> ('c, 'a) env \<Rightarrow> ('c, 'a) net \<Rightarrow> addr option \<Rightarrow> irc_line \<Rightarrow>
     (bool \<times> ('c, 'a) net) res" where
  "network_send_line_direct hup env n c ol =
     (let l = ol\<lparr>origin := None\<rparr> in
      if nc_type (n_config n) = NETWORK_VIRTUAL then
        bind_res (asserted (n_ops n)) (\<lambda>name.
        bind_res (asserted (find_virtual_network (e_virtual_network_ops env) name)) (\<lambda>ops.
        v_to_server ops (n\<lparr>n_lines := n_lines n @ [l]\<rparr>) c l))
      else
        case n_transport n of
          None \<Rightarrow> Inr (False, n)
        | Some tr \<Rightarrow>
            bind_res (transport_send_line (e_now env) (e_io env) tr l) (\<lambda>(ret, tr', evs).
            let n1 = n\<lparr>n_transport := Some tr', n_lines := n_lines n @ [l]\<rparr> in
            if Cb_hangup \<in> set evs then bind_res (hup n1) (\<lambda>n2. Inr (ret, n2))
            else Inr (ret, n1)))"

definition network_send_line ::
    "(('c, 'a) net \<Rightarrow> ('c, 'a) net res) \<Rightarrow> ('c, 'a) env \<Rightarrow> ('c, 'a) net \<Rightarrow> addr option \<Rightarrow> irc_line \<Rightarrow>
     (bool \<times> ('c, 'a) net) res" where
  "network_send_line hup env n c ol =
     (let from = (case origin ol of
                    Some h \<Rightarrow> Some h
                  | None \<Rightarrow> (case n_external_state n of None \<Rightarrow> None | Some s \<Rightarrow> nn_hostmask (s_me s))) in
      case from of
        None \<Rightarrow> network_send_line_direct hup env n c ol
      | Some h \<Rightarrow>
          bind_res (cb_process_to_server env n (ol\<lparr>origin := Some h\<rparr>)) (\<lambda>(pass, n1).
          if \<not> pass then Inr (True, n1) else network_send_line_direct hup env n1 c ol))"

definition network_send_args ::
    "(('c, 'a) net \<Rightarrow> ('c, 'a) net res) \<Rightarrow> ('c, 'a) env \<Rightarrow> ('c, 'a) net \<Rightarrow> string option list \<Rightarrow>
     (bool \<times> ('c, 'a) net) res" where
  "network_send_args hup env n ap = network_send_line hup env n None (virc_parse_line None ap)"

definition free_tcp_names :: "('c, 'a) net \<Rightarrow> ('c, 'a) net" where
  "free_tcp_names n = n\<lparr>n_local_name := False, n_remote_name := False\<rparr>"

text \<open>The first half of \<open>close_server\<close>: a connection that is only planned or under way is given up.\<close>

definition abandon_connect :: "('c, 'a) net \<Rightarrow> ('c, 'a) net" where
  "abandon_connect n =
     (let n1 = (if n_state n = RECONNECT_PENDING
                then (g_source_remove (n_reconnect_id n) n)\<lparr>n_reconnect_id := 0, n_state := NOT_CONNECTED\<rparr>
                else n) in
      if n_state n1 = CONNECTING then
        let n2 = (g_source_remove (n_connect_id n1) n1)\<lparr>n_connect_id := 0, n_state := NOT_CONNECTED\<rparr> in
        if nc_type (n_config n2) = NETWORK_TCP then free_tcp_names n2 else n2
      else n1)"

text \<open>
  The transport is disconnected and freed. What its data still has registered with the main
  loop stays registered.
\<close>

definition drop_transport :: "('c, 'a) net \<Rightarrow> ('c, 'a) net res" where
  "drop_transport n =
     bind_res (deref (n_transport n)) (\<lambda>tr.
     bind_res (irc_transport_disconnect tr) (\<lambda>(tr1, _).
     let n1 = (if 0 < n_ping_id n then (g_source_remove (n_ping_id n) n)\<lparr>n_ping_id := 0\<rparr> else n);
         n2 = free_tcp_names n1 in
     bind_res (free_irc_transport tr1) (\<lambda>_.
     Inr (n2\<lparr>n_transport := None, n_dangling := n_dangling n2 @ d_watches (backend_data tr1)\<rparr>))))"

definition drop_virtual :: "('c, 'a) env \<Rightarrow> ('c, 'a) net \<Rightarrow> ('c, 'a) net res" where
  "drop_virtual env n =
     (case Option.bind (n_ops n) (find_virtual_network (e_virtual_network_ops env)) of
        None \<Rightarrow> Inr n
      | Some ops \<Rightarrow> (case v_fini ops of None \<Rightarrow> Inr n | Some f \<Rightarrow> f n))"

definition call_optional :: "('n \<Rightarrow> 'n res) option \<Rightarrow> 'n \<Rightarrow> 'n res" where
  "call_optional f n = (case f of None \<Rightarrow> Inr n | Some g \<Rightarrow> g n)"

definition close_server_with ::
    "(('c, 'a) net \<Rightarrow> ('c, 'a) net res) \<Rightarrow> ('c, 'a) env \<Rightarrow> ('c, 'a) net \<Rightarrow> (bool \<times> ('c, 'a) net) res" where
  "close_server_with hup env n =
     (let n0 = abandon_connect n in
      if n_state n0 = NOT_CONNECTED then Inr (False, n0)
      else
        bind_res (network_send_args hup env n0 [Some ''QUIT'']) (\<lambda>(_, n1).
        bind_res (call_optional (cb_disconnect env) n1) (\<lambda>n2.
        bind_res (case n_external_state n2 of
                    None \<Rightarrow> Inr n2
                  | Some s \<Rightarrow>
                      bind_res (free_network_state s) (\<lambda>_. Inr (n2\<lparr>n_external_state := None\<rparr>))) (\<lambda>n3.
        bind_res (if nc_type (n_config n3) = NETWORK_VIRTUAL then drop_virtual env n3
                  else drop_transport n3) (\<lambda>n4.
        Inr (True, n4\<lparr>n_state := NOT_CONNECTED\<rparr>))))))"

definition connect_virtual :: "('c, 'a) env \<Rightarrow> ('c, 'a) net \<Rightarrow> (bool \<times> ('c, 'a) net) res" where
  "connect_virtual env n =
     bind_res (asserted (nc_virtual_name (n_config n))) (\<lambda>name.
     case find_virtual_network (e_virtual_network_ops env) name of
       None \<Rightarrow> Inr (False, n\<lparr>n_ops := None\<rparr>)
     | Some ops \<Rightarrow>
         let n1 = n\<lparr>n_ops := Some name\<rparr> in
         bind_res (cb_get_login_details env n1) (\<lambda>details.
         bind_res (network_state_init (ld_nick details) (ld_username details) (e_hostname env)) (\<lambda>s.
         bind_res (call_optional (cb_state_set env) (n1\<lparr>n_external_state := Some s\<rparr>)) (\<lambda>n2.
         let n3 = n2\<lparr>n_state := MOTD_RECVD\<rparr> in
         case v_init ops of None \<Rightarrow> Inr (True, n3) | Some init \<Rightarrow> init n3))))"

text \<open>In the last branch the network is a virtual one, which \<open>connect_server\<close> connects at once.\<close>

definition reconnect_with ::
    "(('c, 'a) net \<Rightarrow> ('c, 'a) net res) \<Rightarrow> ('c, 'a) env \<Rightarrow> ('c, 'a) net \<Rightarrow> ('c, 'a) net res" where
  "reconnect_with hup env n =
     bind_res (guard_res (n_state n \<noteq> RECONNECT_PENDING) AssertFail) (\<lambda>_.
     bind_res (close_server_with hup env n) (\<lambda>(_, n1).
     if nc_type (n_config n1) = NETWORK_VIRTUAL then
       bind_res (connect_virtual env n1) (\<lambda>(_, n2). Inr n2)
     else
       let n2 = (if nc_type (n_config n1) = NETWORK_TCP
                 then n1\<lparr>n_current_server := network_get_next_tcp_server n1\<rparr> else n1);
           (i, n3) = add_source Reconnect_timer n2 in
       Inr (n3\<lparr>n_state := RECONNECT_PENDING, n_reconnect_id := i\<rparr>)))"

definition hangup_reason :: string where
  "hangup_reason = ''Hangup from server, scheduling reconnect''"

text \<open>
  \<open>on_transport_hup\<close> reports and reconnects. The depth of hangups within hangups is bounded by
  \<open>k\<close>; a deeper recursion runs out of stack.
\<close>

primrec on_transport_hup :: "nat \<Rightarrow> ('c, 'a) env \<Rightarrow> ('c, 'a) net \<Rightarrow> ('c, 'a) net res" where
  "on_transport_hup 0 env n = Inl Diverges"
| "on_transport_hup (Suc k) env n =
     reconnect_with (on_transport_hup k env) env (network_report_disconnect hangup_reason n)"

definition reconnect :: "nat \<Rightarrow> ('c, 'a) env \<Rightarrow> ('c, 'a) net \<Rightarrow> ('c, 'a) net res" where
  "reconnect k env = reconnect_with (on_transport_hup k env) env"

definition close_server :: "nat \<Rightarrow> ('c, 'a) env \<Rightarrow> ('c, 'a) net \<Rightarrow> (bool \<times> ('c, 'a) net) res" where
  "close_server k env = close_server_with (on_transport_hup k env) env"

definition on_transport_error :: "nat \<Rightarrow> ('c, 'a) env \<Rightarrow> string \<Rightarrow> ('c, 'a) net \<Rightarrow> ('c, 'a) net res" where
  "on_transport_error k env msg n =
     reconnect k env (network_report_disconnect (''Error from server: '' @ msg @ '', scheduling reconnect'') n)"

section \<open>Connecting\<close>

text \<open>A string that \<open>server_send_login\<close> asserts to be there and not empty.\<close>

definition filled :: "string option \<Rightarrow> bool" where
  "filled x = (case x of None \<Rightarrow> False | Some s \<Rightarrow> s \<noteq> [])"

definition server_send_login :: "nat \<Rightarrow> ('c, 'a) env \<Rightarrow> ('c, 'a) net \<Rightarrow> ('c, 'a) net res" where
  "server_send_login k env n =
     (let send = network_send_args (on_transport_hup k env) env in
      bind_res (cb_get_login_details env n) (\<lambda>ld.
      bind_res (network_state_init (ld_nick ld) (ld_username ld) (e_hostname env)) (\<lambda>s.
      bind_res (call_optional (cb_state_set env) (n\<lparr>n_state := LOGIN_SENT, n_external_state := Some s\<rparr>)) (\<lambda>n1.
      bind_res (guard_res (n_linestack n1) AssertFail) (\<lambda>_.
      bind_res (case ld_password ld of
                  None \<Rightarrow> Inr n1
                | Some pw \<Rightarrow> bind_res (send n1 [Some ''PASS'', Some pw]) (\<lambda>(_, n'). Inr n')) (\<lambda>n2.
      bind_res (guard_res (filled (ld_nick ld)) AssertFail) (\<lambda>_.
      bind_res (send n2 [Some ''NICK'', ld_nick ld]) (\<lambda>(_, n3).
      bind_res (guard_res (filled (ld_username ld) \<and> filled (ld_mode ld) \<and> filled (ld_unused ld) \<and>
                           filled (ld_realname ld)) AssertFail) (\<lambda>_.
      bind_res (send n3 [Some ''USER'', ld_username ld, ld_mode ld, ld_unused ld, ld_realname ld]) (\<lambda>(_, n4).
      Inr n4))))))))))"

definition network_set_iochannel ::
    "nat \<Rightarrow> ('c, 'a) env \<Rightarrow> ('c, 'a) net \<Rightarrow> 'c \<Rightarrow> (bool \<times> ('c, 'a) net) res" where
  "network_set_iochannel k env n ioc =
     bind_res (guard_res (nc_type (n_config n) \<noteq> NETWORK_VIRTUAL) AssertFail) (\<lambda>_.
     if \<not> e_set_encoding env ioc then Inr (False, n)
     else if \<not> e_set_flags env ioc then Inr (False, n)
     else
       let tr = irc_transport_set_callbacks (irc_transport_new_iochannel ioc) in
       bind_res (server_send_login k env (n\<lparr>n_transport := Some tr\<rparr>)) (\<lambda>n1. Inr (True, n1)))"

definition server_finish_connect ::
    "nat \<Rightarrow> ('c, 'a) env \<Rightarrow> ('c, 'a) net \<Rightarrow> 'c \<Rightarrow> bool \<Rightarrow> gio_condition \<Rightarrow> ('c, 'a) net res" where
  "server_finish_connect k env n ioc out cond =
     (if cond_err cond then
        reconnect k env (network_report_disconnect (''Error connecting: '' @ e_sock_error env ioc) n)
      else if out then
        bind_res (network_set_iochannel k env (n\<lparr>n_state := CONNECTED, n_connect_id := 0\<rparr>) ioc) (\<lambda>(ok, n1).
        if \<not> ok then Inr n1
        else
          let (i, n2) = add_source Ping_timer (n1\<lparr>n_last_line_recvd := e_now env\<rparr>) in
          Inr (n2\<lparr>n_ping_id := i\<rparr>))
      else if cond_hup cond then
        reconnect k env (network_report_disconnect ''Server closed connection'' n)
      else Inr n)"

text \<open>The loop over the addresses of a server, and whether the connection is complete.\<close>

fun try_addresses :: "'c dial list \<Rightarrow> ('c \<times> bool) option" where
  "try_addresses [] = None"
| "try_addresses (No_socket # ds) = try_addresses ds"
| "try_addresses (Refused # ds) = try_addresses ds"
| "try_addresses (In_progress c # ds) = Some (c, False)"
| "try_addresses (Connected_at_once c # ds) = Some (c, True)"

definition ready_to_write :: gio_condition where
  "ready_to_write = \<lparr>cond_in = False, cond_hup = False, cond_err = False\<rparr>"

definition connect_current_tcp_server ::
    "nat \<Rightarrow> ('c, 'a) env \<Rightarrow> ('c, 'a) net \<Rightarrow> (bool \<times> ('c, 'a) net) res" where
  "connect_current_tcp_server k env n =
     (let n0 = (case n_current_server n of
                  None \<Rightarrow> n\<lparr>n_current_server := network_get_next_tcp_server n\<rparr>
                | Some _ \<Rightarrow> n) in
      case n_current_server n0 of
        None \<Rightarrow> Inr (False, n0\<lparr>n_config := (n_config n0)\<lparr>nc_autoconnect := False\<rparr>\<rparr>)
      | Some a \<Rightarrow>
          bind_res (live (map_of (nc_servers (n_config n0)) a)) (\<lambda>cs.
          case e_getaddrinfo env cs of
            None \<Rightarrow> Inr (False, n0)
          | Some addrs \<Rightarrow>
              bind_res (guard_res (\<not> n_local_name n0) AssertFail) (\<lambda>_.
              bind_res (guard_res (\<not> n_remote_name n0) AssertFail) (\<lambda>_.
              case try_addresses addrs of
                None \<Rightarrow> Inr (False, n0)
              | Some (sock, finished) \<Rightarrow>
                  let n1 = n0\<lparr>n_remote_name := True, n_local_name := True\<rparr> in
                  case (if ts_ssl cs then e_ssl_wrap env sock (ts_host cs) else Some sock) of
                    None \<Rightarrow>
                      bind_res (reconnect k env (network_report_disconnect
                          (''Couldn't connect via server '' @ ts_host cs @ '':'' @ ts_port cs) n1)) (\<lambda>n2.
                      Inr (False, n2))
                  | Some ioc \<Rightarrow>
                      let n2 = n1\<lparr>n_state := CONNECTING\<rparr> in
                      if \<not> finished then
                        let (i, n3) = add_source (Connect_watch ioc) n2 in
                        Inr (True, n3\<lparr>n_connect_id := i\<rparr>)
                      else
                        bind_res (server_finish_connect k env n2 ioc True ready_to_write) (\<lambda>n3.
                        Inr (True, n3))))))"

text \<open>The part of the path of a program after the last slash names its network.\<close>

definition connect_program :: "nat \<Rightarrow> ('c, 'a) env \<Rightarrow> ('c, 'a) net \<Rightarrow> (bool \<times> ('c, 'a) net) res" where
  "connect_program k env n =
     bind_res (guard_res (nc_type (n_config n) = NETWORK_PROGRAM) AssertFail) (\<lambda>_.
     let location = nc_program_location (n_config n) in
     case e_piped_child env location of
       None \<Rightarrow> Inr (False, n)
     | Some ioc \<Rightarrow>
         bind_res (network_set_iochannel k env n ioc) (\<lambda>(ok, n1).
         if \<not> ok then Inr (False, n1)
         else Inr (True,
           case n_name n1 of
             Some _ \<Rightarrow> n1
           | None \<Rightarrow> n1\<lparr>n_name := Some (rev (takeWhile (\<lambda>c. c \<noteq> CHR ''/'') (rev location)))\<rparr>)))"

definition connect_server :: "nat \<Rightarrow> ('c, 'a) env \<Rightarrow> ('c, 'a) net \<Rightarrow> (bool \<times> ('c, 'a) net) res" where
  "connect_server k env n =
     (case nc_type (n_config n) of
        NETWORK_TCP \<Rightarrow> connect_current_tcp_server k env n
      | NETWORK_PROGRAM \<Rightarrow> connect_program k env n
      | NETWORK_VIRTUAL \<Rightarrow> connect_virtual env n
      | NETWORK_IOCHANNEL \<Rightarrow> Inl AssertFail)"

definition connect_network :: "nat \<Rightarrow> ('c, 'a) env \<Rightarrow> ('c, 'a) net \<Rightarrow> (bool \<times> ('c, 'a) net) res" where
  "connect_network k env n =
     bind_res (guard_res (n_state n = NOT_CONNECTED \<or> n_state n = RECONNECT_PENDING) AssertFail) (\<lambda>_.
     connect_server k env n)"

definition disconnect_network :: "nat \<Rightarrow> ('c, 'a) env \<Rightarrow> ('c, 'a) net \<Rightarrow> (bool \<times> ('c, 'a) net) res" where
  "disconnect_network k env n =
     (if n_state n = NOT_CONNECTED then Inr (False, n) else close_server k env n)"

fun autoconnect_networks :: "nat \<Rightarrow> ('c, 'a) env \<Rightarrow> ('c, 'a) net list \<Rightarrow> ('c, 'a) net list res" where
  "autoconnect_networks k env [] = Inr []"
| "autoconnect_networks k env (n # ns) =
     bind_res (if nc_autoconnect (n_config n)
               then bind_res (connect_network k env n) (\<lambda>(_, n'). Inr n') else Inr n) (\<lambda>n1.
     bind_res (autoconnect_networks k env ns) (\<lambda>ns'. Inr (n1 # ns')))"

definition find_network :: "('c, 'a) net list \<Rightarrow> string \<Rightarrow> ('c, 'a) net option" where
  "find_network networks name =
     List.find (\<lambda>n. case n_name n of None \<Rightarrow> False | Some x \<Rightarrow> g_ascii_strcasecmp x name = 0) networks"

section \<open>Timers\<close>

text \<open>\<open>time()\<close> differences are kept in a \<open>gint\<close>; both stamps are recent, so none is cut off.\<close>

definition ping_server :: "nat \<Rightarrow> ('c, 'a) env \<Rightarrow> ('c, 'a) net \<Rightarrow> ('c, 'a) net res" where
  "ping_server k env n =
     (let silent_time = e_now env - n_last_line_recvd n in
      if silent_time > MAX_SILENT_TIME then
        reconnect k env (network_report_disconnect (''Ping timeout ('' @ show_int silent_time @ '' seconds)'') n)
      else if silent_time > MIN_SILENT_TIME then
        bind_res (network_send_args (on_transport_hup k env) env n [Some ''PING'', Some ''ctrlproxy'']) (\<lambda>(_, n1).
        Inr n1)
      else Inr n)"

definition delayed_connect_server :: "nat \<Rightarrow> ('c, 'a) env \<Rightarrow> ('c, 'a) net \<Rightarrow> (bool \<times> ('c, 'a) net) res" where
  "delayed_connect_server k env n =
     bind_res (connect_server k env n) (\<lambda>(_, n1). Inr (n_state n1 = RECONNECT_PENDING, n1))"

section \<open>Receiving on virtual networks\<close>

type_synonym ('c, 'a) receiver = "('c, 'a) net \<Rightarrow> irc_line \<Rightarrow> (bool \<times> ('c, 'a) net) res"

definition virtual_network_recv_line ::
    "('c, 'a) receiver \<Rightarrow> ('c, 'a) env \<Rightarrow> ('c, 'a) net \<Rightarrow> irc_line \<Rightarrow> (bool \<times> ('c, 'a) net) res" where
  "virtual_network_recv_line process_from_server env n l =
     process_from_server n (if origin l = None then l\<lparr>origin := e_hostname env\<rparr> else l)"

definition virtual_network_recv_args ::
    "('c, 'a) receiver \<Rightarrow> ('c, 'a) env \<Rightarrow> ('c, 'a) net \<Rightarrow> string option \<Rightarrow> string option list \<Rightarrow>
     (bool \<times> ('c, 'a) net) res" where
  "virtual_network_recv_args rcv env n orig ap = virtual_network_recv_line rcv env n (virc_parse_line orig ap)"

definition virtual_network_recv_response ::
    "('c, 'a) receiver \<Rightarrow> ('c, 'a) env \<Rightarrow> ('c, 'a) net \<Rightarrow> nat \<Rightarrow> string option list \<Rightarrow>
     (bool \<times> ('c, 'a) net) res" where
  "virtual_network_recv_response rcv env n num ap =
     bind_res (guard_res (nc_type (n_config n) = NETWORK_VIRTUAL) AssertFail) (\<lambda>_.
     let l = virc_parse_line (n_name n) ap;
         nick = (case n_external_state n of
                   None \<Rightarrow> ''*''
                 | Some s \<Rightarrow> (case nn_nick (s_me s) of None \<Rightarrow> ''*'' | Some x \<Rightarrow> x)) in
     virtual_network_recv_line rcv env n (l\<lparr>args := show_pad3 num # nick # args l\<rparr>))"

definition irc_network_ref :: "('c, 'a) net \<Rightarrow> ('c, 'a) net" where
  "irc_network_ref n = n\<lparr>n_references := n_references n + 1\<rparr>"

text \<open>\<open>None\<close>: the last reference is gone and the network is freed.\<close>

definition irc_network_unref :: "('c, 'a) net \<Rightarrow> ('c, 'a) net option" where
  "irc_network_unref n =
     (let n1 = n\<lparr>n_references := n_references n - 1\<rparr> in
      if n_references n1 = 0 then None else Some n1)"

end
