(* ===== verification/Connection_Spec.thy ===== *)
theory Connection_Spec
  imports Connection
begin

text \<open>
  The state machine of a connection: the events of the main loop as steps, the invariant that
  relates the state of a network to the resources it holds, and its preservation. What the
  connection relies on (the channels, the system calls, the callbacks of the program) is the
  locale \<open>network_env\<close>.
\<close>

section \<open>Events\<close>

text \<open>
  \<open>Ev_source\<close> dispatches a source of the network: a socket is writable or not and has a
  condition, and a timer whose function returns nothing may be kept or not. \<open>Ev_flush\<close>
  dispatches a watch for writing of the transport, \<open>Ev_dangling\<close> one of a freed transport.
\<close>

datatype net_event =
    Ev_source nat bool gio_condition bool
  | Ev_flush nat
  | Ev_dangling nat
  | Ev_hangup
  | Ev_error string
  | Ev_connect
  | Ev_disconnect
  | Ev_next_server
  | Ev_send irc_line

definition dispatch_source ::
    "nat \<Rightarrow> ('c, 'a) env \<Rightarrow> nat \<times> 'c net_source \<Rightarrow> bool \<Rightarrow> gio_condition \<Rightarrow> bool \<Rightarrow> ('c, 'a) net \<Rightarrow>
     ('c, 'a) net res" where
  "dispatch_source k env s out cond keep n =
     (case snd s of
        Reconnect_timer \<Rightarrow>
          bind_res (delayed_connect_server k env n) (\<lambda>(again, n1).
          Inr (if again then n1 else g_source_remove (fst s) n1))
      | Ping_timer \<Rightarrow>
          bind_res (ping_server k env n) (\<lambda>n1. Inr (if keep then n1 else g_source_remove (fst s) n1))
      | Connect_watch ioc \<Rightarrow>
          bind_res (server_finish_connect k env n ioc out cond) (\<lambda>n1. Inr (g_source_remove (fst s) n1)))"

definition dispatch_flush :: "nat \<Rightarrow> ('c, 'a) env \<Rightarrow> nat \<Rightarrow> ('c, 'a) net \<Rightarrow> ('c, 'a) net res" where
  "dispatch_flush k env w n =
     bind_res (live (n_transport n)) (\<lambda>tr.
     bind_res (transport_send_queue (e_now env) (e_io env) tr) (\<lambda>(ret, tr1, evs).
     let d1 = backend_data tr1;
         tr2 = (if ret then tr1 else with_data tr1 (d1\<lparr>d_watches := remove1 w (d_watches d1)\<rparr>));
         n1 = n\<lparr>n_transport := Some tr2\<rparr> in
     if Cb_hangup \<in> set evs then on_transport_hup k env n1 else Inr n1))"

definition net_step :: "nat \<Rightarrow> ('c, 'a) env \<Rightarrow> net_event \<Rightarrow> ('c, 'a) net \<Rightarrow> ('c, 'a) net res" where
  "net_step k env ev n =
     (case ev of
        Ev_source i out cond keep \<Rightarrow>
          (case map_of (n_sources n) i of
             None \<Rightarrow> Inr n
           | Some src \<Rightarrow> dispatch_source k env (i, src) out cond keep n)
      | Ev_flush w \<Rightarrow> dispatch_flush k env w n
      | Ev_dangling w \<Rightarrow> if w \<in> set (n_dangling n) then Inl UseAfterFree else Inr n
      | Ev_hangup \<Rightarrow> on_transport_hup (Suc k) env n
      | Ev_error msg \<Rightarrow> on_transport_error k env msg n
      | Ev_connect \<Rightarrow> bind_res (connect_network k env n) (\<lambda>(_, n1). Inr n1)
      | Ev_disconnect \<Rightarrow> bind_res (disconnect_network k env n) (\<lambda>(_, n1). Inr n1)
      | Ev_next_server \<Rightarrow> Inr (irc_network_select_next_server n)
      | Ev_send l \<Rightarrow> bind_res (network_send_line (on_transport_hup k env) env n None l) (\<lambda>(_, n1). Inr n1))"

text \<open>
  When the program gives rise to an event: the watch on a socket asks for these conditions, a
  transport has events while it is there, callers
  of \<open>connect_network\<close> see to it that the network is not connected, lines are sent to a
  network that is logged in or logging in.
\<close>

definition ev_enabled :: "net_event \<Rightarrow> ('c, 'a) net \<Rightarrow> bool" where
  "ev_enabled ev n =
     (case ev of
        Ev_source i out cond keep \<Rightarrow> out \<or> cond_err cond \<or> cond_hup cond
      | Ev_flush w \<Rightarrow> n_transport n \<noteq> None
      | Ev_hangup \<Rightarrow> n_transport n \<noteq> None
      | Ev_error msg \<Rightarrow> n_transport n \<noteq> None
      | Ev_connect \<Rightarrow> n_state n = NOT_CONNECTED
      | Ev_send l \<Rightarrow> n_external_state n \<noteq> None
      | Ev_dangling w \<Rightarrow> n_dangling n = []
      | _ \<Rightarrow> True)"

section \<open>The invariant\<close>

definition tr_ok :: "'c irc_transport \<Rightarrow> bool" where
  "tr_ok tr \<longleftrightarrow> irc_transport_iochannel_is_connected (backend_data tr) \<and> transport_inv (backend_data tr)"

definition disconnected :: "('c, 'a) net \<Rightarrow> bool" where
  "disconnected n \<longleftrightarrow> n_transport n = None \<and> n_external_state n = None \<and> n_ping_id n = 0"

definition names_set :: "bool \<Rightarrow> ('c, 'a) net \<Rightarrow> bool" where
  "names_set b n \<longleftrightarrow> n_local_name n = b \<and> n_remote_name n = b"

definition online :: "('c, 'a) net \<Rightarrow> bool" where
  "online n \<longleftrightarrow>
     (\<exists>tr. n_transport n = Some tr \<and> tr_ok tr) \<and> (\<exists>s. n_external_state n = Some s \<and> wf_graph s) \<and>
     n_linestack n \<and> names_set (nc_type (n_config n) = NETWORK_TCP) n"

text \<open>The resources of each state, and the sources that belong to it.\<close>

definition resources :: "('c, 'a) net \<Rightarrow> bool" where
  "resources n =
     (case n_state n of
        NOT_CONNECTED \<Rightarrow> disconnected n \<and> names_set False n
      | RECONNECT_PENDING \<Rightarrow> disconnected n \<and> names_set False n
      | CONNECTING \<Rightarrow>
          disconnected n \<and> names_set True n \<and> nc_type (n_config n) = NETWORK_TCP \<and> n_current_server n \<noteq> None
      | CONNECTED \<Rightarrow> False
      | LOGIN_SENT \<Rightarrow> online n
      | MOTD_RECVD \<Rightarrow> online n)"

definition own_sources :: "('c, 'a) net \<Rightarrow> (nat \<times> 'c net_source) list \<Rightarrow> bool" where
  "own_sources n ss =
     (case n_state n of
        NOT_CONNECTED \<Rightarrow> ss = []
      | RECONNECT_PENDING \<Rightarrow> ss = [(n_reconnect_id n, Reconnect_timer)]
      | CONNECTING \<Rightarrow> \<exists>c. ss = [(n_connect_id n, Connect_watch c)]
      | _ \<Rightarrow> ss = [] \<or> 0 < n_ping_id n \<and> ss = [(n_ping_id n, Ping_timer)])"

definition server_known :: "('c, 'a) net \<Rightarrow> bool" where
  "server_known n \<longleftrightarrow> (\<forall>a. n_current_server n = Some a \<longrightarrow> a \<in> fst ` set (nc_servers (n_config n)))"

definition conn_basic :: "('c, 'a) net \<Rightarrow> bool" where
  "conn_basic n \<longleftrightarrow>
     nc_type (n_config n) \<in> {NETWORK_TCP, NETWORK_PROGRAM} \<and> server_known n \<and>
     list_all (\<lambda>s. fst s < n_next_source n) (n_sources n) \<and> 0 < n_next_source n"

definition conn_inv :: "('c, 'a) net \<Rightarrow> bool" where
  "conn_inv n \<longleftrightarrow> conn_basic n \<and> resources n \<and> own_sources n (n_sources n)"

text \<open>What a callback of the program, or sending a line, leaves as it is.\<close>

definition kept :: "('c, 'a) net \<Rightarrow> ('c, 'a) net \<Rightarrow> bool" where
  "kept n n' \<longleftrightarrow>
     n_config n' = n_config n \<and> n_state n' = n_state n \<and> n_remote_name n' = n_remote_name n \<and>
     n_local_name n' = n_local_name n \<and> n_ping_id n' = n_ping_id n \<and> n_connect_id n' = n_connect_id n \<and>
     n_reconnect_id n' = n_reconnect_id n \<and> n_sources n' = n_sources n \<and>
     n_next_source n' = n_next_source n \<and> n_current_server n' = n_current_server n \<and>
     (case n_transport n' of None \<Rightarrow> n_transport n = None | Some tr \<Rightarrow> n_transport n \<noteq> None \<and> tr_ok tr) \<and>
     (case n_external_state n' of
        None \<Rightarrow> n_external_state n = None
      | Some s \<Rightarrow> n_external_state n \<noteq> None \<and> wf_graph s)"

text \<open>What \<open>server_send_login\<close> asserts about the login details.\<close>

definition complete_login :: "irc_login_details \<Rightarrow> bool" where
  "complete_login ld \<longleftrightarrow>
     filled (ld_nick ld) \<and> filled (ld_username ld) \<and> filled (ld_mode ld) \<and> filled (ld_unused ld) \<and>
     filled (ld_realname ld)"

section \<open>Sources and frames\<close>

lemma kept_fields:
  assumes "kept n n'"
  shows "n_config n' = n_config n" "n_state n' = n_state n" "n_remote_name n' = n_remote_name n"
    "n_local_name n' = n_local_name n" "n_ping_id n' = n_ping_id n" "n_connect_id n' = n_connect_id n"
    "n_reconnect_id n' = n_reconnect_id n" "n_sources n' = n_sources n"
    "n_next_source n' = n_next_source n" "n_current_server n' = n_current_server n"
  using assms by (simp_all add: kept_def)

lemma kept_trans: "kept a b \<Longrightarrow> kept b c \<Longrightarrow> kept a c"
  by (auto simp: kept_def split: option.splits)

lemma kept_right: "kept a b \<Longrightarrow> kept b b"
  by (auto simp: kept_def split: option.splits)

lemma kept_present:
  assumes "kept n n'"
  shows "n_external_state n' = None \<longleftrightarrow> n_external_state n = None"
    "n_transport n' = None \<longleftrightarrow> n_transport n = None"
    "n_transport n' = Some tr \<Longrightarrow> tr_ok tr" "n_external_state n' = Some s \<Longrightarrow> wf_graph s"
  using assms by (auto simp: kept_def split: option.splits)

lemma kept_online: "kept n n' \<Longrightarrow> online n \<Longrightarrow> n_linestack n' \<Longrightarrow> online n'"
  by (auto simp: kept_def online_def names_set_def split: option.splits)

lemma online_kept: "online n \<Longrightarrow> kept n n"
  by (auto simp: kept_def online_def)

lemma list_all_less_Suc: "list_all (\<lambda>s. fst s < k) ss \<Longrightarrow> list_all (\<lambda>s. fst s < Suc k) ss"
  by (auto simp: list_all_iff)

lemma conn_basic_cong:
  "n_config n' = n_config n \<Longrightarrow> n_current_server n' = n_current_server n \<Longrightarrow> n_sources n' = n_sources n \<Longrightarrow>
   n_next_source n' = n_next_source n \<Longrightarrow> conn_basic n' = conn_basic n"
  by (simp add: conn_basic_def server_known_def)

lemma kept_basic: "kept n n' \<Longrightarrow> conn_basic n \<Longrightarrow> conn_basic n'"
  using conn_basic_cong [of n' n] kept_fields [of n n'] by blast

lemma kept_inv:
  assumes "kept n n'" "conn_inv n" "n_linestack n'"
  shows "conn_inv n'"
proof -
  have "resources n'"
    using assms kept_fields [OF assms(1)] kept_present(1,2) [OF assms(1)] kept_online [OF assms(1)]
    by (auto simp: conn_inv_def resources_def disconnected_def names_set_def
        split: irc_network_connection_state.splits)
  moreover have "own_sources n' (n_sources n')"
    using assms(2) kept_fields [OF assms(1)]
    by (cases "n_state n") (simp_all add: conn_inv_def own_sources_def)
  ultimately show ?thesis using kept_basic [OF assms(1)] assms(2) by (simp add: conn_inv_def)
qed

lemma kept_report [simp]: "kept n (network_report_disconnect r n') \<longleftrightarrow> kept n n'"
  by (simp add: kept_def network_report_disconnect_def)

lemma inv_report [simp]: "conn_inv (network_report_disconnect r n) \<longleftrightarrow> conn_inv n"
  by (cases "n_state n") (simp_all add: conn_inv_def conn_basic_def server_known_def resources_def
      own_sources_def disconnected_def online_def names_set_def network_report_disconnect_def)

lemma report_state [simp]:
  "n_state (network_report_disconnect r n) = n_state n"
  "n_transport (network_report_disconnect r n) = n_transport n"
  "n_next_source (network_report_disconnect r n) = n_next_source n"
  by (simp_all add: network_report_disconnect_def)

lemma next_server_known:
  assumes "network_get_next_tcp_server n = Some a"
  shows "a \<in> fst ` set (nc_servers (n_config n))"
proof -
  let ?ss = "map fst (nc_servers (n_config n))"
  define rest where "rest = (case n_current_server n of
    None \<Rightarrow> [] | Some a \<Rightarrow> tl (dropWhile (\<lambda>x. x \<noteq> a) ?ss))"
  have "set (tl (dropWhile (\<lambda>x. x \<noteq> b) xs)) \<subseteq> set xs" for b and xs :: "addr list"
    by (induction xs) auto
  from this [of _ ?ss] have "set rest \<subseteq> set ?ss" by (cases "n_current_server n") (auto simp: rest_def)
  moreover have "(case rest of x # _ \<Rightarrow> Some x | [] \<Rightarrow> (case ?ss of x # _ \<Rightarrow> Some x | [] \<Rightarrow> None)) = Some a"
    using assms by (simp add: network_get_next_tcp_server_def rest_def Let_def)
  ultimately have "a \<in> set ?ss" by (cases rest; cases ?ss) auto
  then show ?thesis by simp
qed

text \<open>While logged in, the only source is the ping timer.\<close>

definition ping_only :: "('c, 'a) net \<Rightarrow> bool" where
  "ping_only n \<longleftrightarrow> n_sources n = [] \<or> 0 < n_ping_id n \<and> n_sources n = [(n_ping_id n, Ping_timer)]"

lemma network_state_init_ok:
  assumes "AssertFail \<in> F \<longrightarrow> nick \<noteq> None \<and> username \<noteq> None \<and> hostname \<noteq> None"
  shows "safe F wf_graph (network_state_init nick username hostname)"
  using wf_network_state_init [of nick username hostname] assms
  by (cases nick; cases username; cases hostname)
    (auto simp: network_state_init_def network_nick_set_data_def Let_def guard_res_def)

lemma disconnect_total:
  assumes "tr_ok tr"
  shows "\<exists>tr' evs. irc_transport_disconnect tr = Inr (tr', evs) \<and> pending_disconnect (backend_data tr')"
  using assms
  by (cases "outgoing_id (backend_data tr) = 0")
    (auto simp: tr_ok_def irc_transport_disconnect_def irc_transport_iochannel_disconnect_def
      irc_transport_iochannel_is_connected_def really_disconnect_def Let_def)

lemma conn_basic_upd [simp]:
  "conn_basic (n\<lparr>n_external_state := x\<rparr>) = conn_basic n"
  "conn_basic (n\<lparr>n_state := st\<rparr>) = conn_basic n"
  "conn_basic (n\<lparr>n_transport := t\<rparr>) = conn_basic n"
  "conn_basic (n\<lparr>n_connect_id := i\<rparr>) = conn_basic n"
  "conn_basic (n\<lparr>n_ping_id := i\<rparr>) = conn_basic n"
  "conn_basic (n\<lparr>n_last_line_recvd := j\<rparr>) = conn_basic n"
  by (simp_all add: conn_basic_def server_known_def)

section \<open>What a connection relies on\<close>

text \<open>
  The contract with the surroundings. \<open>F\<close> are the faults under consideration: the callbacks
  promise not to end in one of them. Channels keep to the documentation of GLib and never
  report the end of the file when written to; the wrapping by TLS and the settings of a new
  channel succeed.
\<close>

locale network_env =
  fixes F :: "fault set" and env :: "('c, 'a) env"
  assumes channel: "channel_ok (e_io env)"
    and write_no_eof: "fst (write_chars (e_io env) c t) \<noteq> IO_EOF"
    and tls_wraps: "e_ssl_wrap env c h \<noteq> None"
    and encoding_set: "e_set_encoding env c"
    and flags_set: "e_set_flags env c"
    and hostname_known: "e_hostname env \<noteq> None"
    and login_details: "conn_basic n \<Longrightarrow> nc_type (n_config n) = NETWORK_TCP \<Longrightarrow> n_current_server n \<noteq> None \<Longrightarrow>
      safe F (\<lambda>ld. AssertFail \<in> F \<longrightarrow> complete_login ld) (cb_get_login_details env n)"
    and login_details_program: "conn_basic n \<Longrightarrow> nc_type (n_config n) = NETWORK_PROGRAM \<Longrightarrow>
      safe F (\<lambda>ld. AssertFail \<in> F \<longrightarrow> complete_login ld) (cb_get_login_details env n)"
    and to_server: "kept n n \<Longrightarrow> n_external_state n \<noteq> None \<Longrightarrow> n_linestack n \<Longrightarrow>
      safe F (\<lambda>(_, n'). kept n n' \<and> n_linestack n') (cb_process_to_server env n l)"
    and on_disconnect: "cb_disconnect env = Some f \<Longrightarrow> kept n n \<Longrightarrow> n_external_state n \<noteq> None \<Longrightarrow>
      n_linestack n \<Longrightarrow> safe F (kept n) (f n)"
    and on_state_set: "kept n n \<Longrightarrow> n_external_state n \<noteq> None \<Longrightarrow>
      safe F (\<lambda>n'. kept n n' \<and> n_linestack n') (call_optional (cb_state_set env) n)"
begin

lemma irc_send_line_no_eof: "irc_send_line (e_io env) iconv c l = Inr (st, c') \<Longrightarrow> st \<noteq> IO_EOF"
  using write_no_eof [of c]
  by (auto simp: irc_send_line_def case_prod_beta Let_def split: option.split_asm)

lemma transport_send_ok:
  assumes "tr_ok tr"
  obtains ret tr' evs where "transport_send_line now (e_io env) tr l = Inr (ret, tr', evs)"
    "Cb_hangup \<notin> set evs" "tr_ok tr'"
proof (cases "outgoing_id (backend_data tr) = 0")
  case False
  have con: "irc_transport_iochannel_is_connected (backend_data tr)" using assms by (simp add: tr_ok_def)
  let ?tr = "with_data tr ((backend_data tr)\<lparr>pending_lines := pending_lines (backend_data tr) @ [l]\<rparr>)"
  have send: "transport_send_line now (e_io env) tr l = Inr (True, ?tr, [])"
    using False con by (simp add: transport_send_line_def irc_transport_iochannel_send_line_def Let_def)
  have "transport_inv (backend_data ?tr)"
    using inv_send_line [OF _ send] assms unfolding tr_ok_def by blast
  then show ?thesis
    using that [OF send] con by (simp add: tr_ok_def irc_transport_iochannel_is_connected_def)
next
  case True
  have con: "irc_transport_iochannel_is_connected (backend_data tr)" "transport_inv (backend_data tr)"
    using assms by (simp_all add: tr_ok_def)
  then obtain c where c: "incoming (backend_data tr) = Some c" "\<not> pending_disconnect (backend_data tr)"
    by (auto simp: irc_transport_iochannel_is_connected_def)
  obtain st c1 where st: "irc_send_line (e_io env) (outgoing_iconv (backend_data tr)) c l = Inr (st, c1)"
    using irc_send_line_total [OF channel] by blast
  have "st \<noteq> IO_EOF" "fst (flush (e_io env) c1) \<noteq> IO_EOF"
    using irc_send_line_no_eof [OF st] channel by (simp_all add: channel_ok_def)
  note st = st this
  obtain ret tr' evs where send: "transport_send_line now (e_io env) tr l = Inr (ret, tr', evs)"
    using transport_send_total [OF channel] by blast
  have "Cb_hangup \<notin> set evs" "incoming (backend_data tr') \<noteq> None" "\<not> pending_disconnect (backend_data tr')"
    using send True con(1) c st
    by (auto simp: transport_send_line_def irc_transport_iochannel_send_line_def Let_def add_out_watch_def
        split: if_split_asm)
  then show ?thesis
    using that [OF send] inv_send_line [OF con(2) send]
    by (simp add: tr_ok_def irc_transport_iochannel_is_connected_def)
qed

lemma send_direct_ok:
  assumes "kept n n" "nc_type (n_config n) \<noteq> NETWORK_VIRTUAL" "n_linestack n"
  shows "safe F (\<lambda>(_, n'). kept n n' \<and> n_linestack n') (network_send_line_direct hup env n c l)"
proof (cases "n_transport n")
  case (Some tr)
  then have "tr_ok tr" using assms(1) by (simp add: kept_def)
  from transport_send_ok [OF this, of "e_now env" "l\<lparr>origin := None\<rparr>"] obtain ret tr' evs where
    "transport_send_line (e_now env) (e_io env) tr (l\<lparr>origin := None\<rparr>) = Inr (ret, tr', evs)"
    "Cb_hangup \<notin> set evs" "tr_ok tr'" .
  then show ?thesis using assms Some by (simp add: network_send_line_direct_def kept_def Let_def)
qed (use assms in \<open>simp add: network_send_line_direct_def Let_def\<close>)

lemma send_line_ok:
  assumes "kept n n" "n_external_state n \<noteq> None" "n_linestack n" "nc_type (n_config n) \<noteq> NETWORK_VIRTUAL"
  shows "safe F (\<lambda>(_, n'). kept n n' \<and> n_linestack n') (network_send_line hup env n c l)"
proof -
  have via: "safe F (\<lambda>(_, n'). kept n n' \<and> n_linestack n')
    (bind_res (cb_process_to_server env n l') (\<lambda>(pass, n1).
       if \<not> pass then Inr (True, n1) else network_send_line_direct hup env n1 c l))" for l'
  proof (rule safe_bind [OF to_server [OF assms(1-3)]], clarsimp)
    fix n1 assume n1: "kept n n1" "n_linestack n1"
    have "safe F (\<lambda>(_, n'). kept n1 n' \<and> n_linestack n') (network_send_line_direct hup env n1 c l)"
      using send_direct_ok [OF kept_right [OF n1(1)]] n1 assms(4) kept_fields(1) [OF n1(1)] by simp
    then show "safe F (\<lambda>(_, n'). kept n n' \<and> n_linestack n') (network_send_line_direct hup env n1 c l)"
      by (rule safe_mono) (auto dest: kept_trans [OF n1(1)])
  qed
  show ?thesis
    using via send_direct_ok [OF assms(1,4,3)]
    by (auto simp: network_send_line_def Let_def split: option.splits)
qed

lemma send_args_ok:
  assumes "kept n n" "n_external_state n \<noteq> None" "n_linestack n" "nc_type (n_config n) \<noteq> NETWORK_VIRTUAL"
  shows "safe F (\<lambda>(_, n'). kept n n' \<and> n_linestack n') (network_send_args hup env n ap)"
  unfolding network_send_args_def by (rule send_line_ok [OF assms])

section \<open>Closing and reconnecting\<close>

lemma drop_transport_ok:
  assumes "n_transport n = Some tr" "tr_ok tr" "conn_basic n" "ping_only n" "n_external_state n = None"
  shows "\<exists>n'. drop_transport n = Inr n' \<and> conn_inv (n'\<lparr>n_state := NOT_CONNECTED\<rparr>) \<and>
    n_next_source n' = n_next_source n"
proof -
  obtain tr' evs where tr': "irc_transport_disconnect tr = Inr (tr', evs)" "pending_disconnect (backend_data tr')"
    using disconnect_total [OF assms(2)] by blast
  then show ?thesis
    using assms
    by (auto simp: drop_transport_def free_irc_transport_def free_tcp_names_def g_source_remove_def
        conn_inv_def conn_basic_def server_known_def resources_def own_sources_def disconnected_def
        names_set_def ping_only_def Let_def)
qed

lemma abandon_ok:
  assumes "conn_inv n"
  shows "conn_inv (abandon_connect n)"
    "n_state (abandon_connect n) \<in> {NOT_CONNECTED, LOGIN_SENT, MOTD_RECVD}"
    "n_next_source (abandon_connect n) = n_next_source n"
  using assms
  by (cases "n_state n"; auto simp: abandon_connect_def conn_inv_def conn_basic_def server_known_def
      resources_def own_sources_def disconnected_def names_set_def g_source_remove_def free_tcp_names_def
      Let_def)+

lemma close_online:
  assumes "kept n0 n1" "n_linestack n1" "online n0" "conn_basic n0" "ping_only n0"
  shows "safe F (\<lambda>(_, n'). conn_inv n' \<and> n_state n' = NOT_CONNECTED \<and> n_next_source n' = n_next_source n0)
    (bind_res (call_optional (cb_disconnect env) n1) (\<lambda>n2.
     bind_res (case n_external_state n2 of
                 None \<Rightarrow> Inr n2
               | Some s \<Rightarrow> bind_res (free_network_state s) (\<lambda>_. Inr (n2\<lparr>n_external_state := None\<rparr>))) (\<lambda>n3.
     bind_res (if nc_type (n_config n3) = NETWORK_VIRTUAL then drop_virtual env n3
               else drop_transport n3) (\<lambda>n4.
     Inr (True, n4\<lparr>n_state := NOT_CONNECTED\<rparr>)))))"
proof (rule safe_bind [where Q = "kept n0"])
  have ext: "n_external_state n0 \<noteq> None" "n_transport n0 \<noteq> None" using assms(3) by (auto simp: online_def)
  show "safe F (kept n0) (call_optional (cb_disconnect env) n1)"
  proof (cases "cb_disconnect env")
    case (Some f)
    have "safe F (kept n1) (f n1)"
      using on_disconnect [OF Some kept_right [OF assms(1)]] assms(2) kept_present(1) [OF assms(1)] ext by simp
    then have "safe F (kept n0) (f n1)" by (rule safe_mono) (auto intro: kept_trans [OF assms(1)])
    then show ?thesis by (simp add: call_optional_def Some)
  qed (use assms in \<open>simp add: call_optional_def\<close>)
  fix n2 assume n2: "kept n0 n2"
  obtain s where s: "n_external_state n2 = Some s" "wf_graph s"
    using kept_present(1,4) [OF n2] ext by fastforce
  obtain s' where free: "free_network_state s = Inr s'"
    using free_network_state_ok [OF s(2)] by (auto simp: safe_UNIV_iff)
  obtain tr where tr: "n_transport n2 = Some tr" "tr_ok tr"
    using kept_present(2,3) [OF n2] ext by fastforce
  have "ping_only (n2\<lparr>n_external_state := None\<rparr>)"
    using assms(5) kept_fields [OF n2] by (simp add: ping_only_def)
  then obtain n4 where "drop_transport (n2\<lparr>n_external_state := None\<rparr>) = Inr n4"
    "conn_inv (n4\<lparr>n_state := NOT_CONNECTED\<rparr>)" "n_next_source n4 = n_next_source n0"
    using drop_transport_ok [of "n2\<lparr>n_external_state := None\<rparr>" tr] tr kept_basic [OF n2 assms(4)]
      kept_fields(9) [OF n2] by auto
  moreover have "nc_type (n_config n2) \<noteq> NETWORK_VIRTUAL"
    using kept_fields(1) [OF n2] assms(4) by (auto simp: conn_basic_def)
  ultimately show "safe F (\<lambda>(_, n'). conn_inv n' \<and> n_state n' = NOT_CONNECTED \<and> n_next_source n' = n_next_source n0)
    (bind_res (case n_external_state n2 of
                 None \<Rightarrow> Inr n2
               | Some s \<Rightarrow> bind_res (free_network_state s) (\<lambda>_. Inr (n2\<lparr>n_external_state := None\<rparr>))) (\<lambda>n3.
     bind_res (if nc_type (n_config n3) = NETWORK_VIRTUAL then drop_virtual env n3
               else drop_transport n3) (\<lambda>n4.
     Inr (True, n4\<lparr>n_state := NOT_CONNECTED\<rparr>))))"
    by (simp add: s(1) free)
qed

lemma close_server_ok:
  assumes "conn_inv n"
  shows "safe F (\<lambda>(_, n'). conn_inv n' \<and> n_state n' = NOT_CONNECTED \<and> n_next_source n' = n_next_source n)
    (close_server_with hup env n)"
proof (cases "n_state (abandon_connect n) = NOT_CONNECTED")
  case True
  then show ?thesis using abandon_ok [OF assms] by (simp add: close_server_with_def Let_def)
next
  case False
  let ?n0 = "abandon_connect n"
  have inv: "conn_basic ?n0" "online ?n0" "ping_only ?n0"
    using abandon_ok [OF assms] False by (auto simp: conn_inv_def resources_def own_sources_def ping_only_def)
  have send: "safe F (\<lambda>(_, n'). kept ?n0 n' \<and> n_linestack n') (network_send_args hup env ?n0 [Some ''QUIT''])"
    using inv by (intro send_args_ok online_kept) (auto simp: online_def conn_basic_def)
  show ?thesis
    unfolding close_server_with_def Let_def if_not_P [OF False]
    by (rule safe_bind [OF send])
      (auto intro: close_online [OF _ _ inv(2,1,3), unfolded abandon_ok(3) [OF assms]])
qed

lemma reconnect_ok:
  assumes "conn_inv n" "n_state n \<noteq> RECONNECT_PENDING"
  shows "safe F (\<lambda>n'. conn_inv n' \<and> n_state n' = RECONNECT_PENDING \<and> n_reconnect_id n' = n_next_source n)
    (reconnect_with hup env n)"
proof -
  have sched: "conn_inv ((snd (add_source Reconnect_timer n2))\<lparr>n_state := RECONNECT_PENDING,
             n_reconnect_id := fst (add_source Reconnect_timer n2)\<rparr>)"
    if "conn_inv n1" "n_state n1 = NOT_CONNECTED"
      "n2 = n1 \<or> n2 = n1\<lparr>n_current_server := network_get_next_tcp_server n1\<rparr>" for n1 n2
    using that next_server_known [of n1]
    by (auto simp: add_source_def conn_inv_def conn_basic_def server_known_def resources_def
        own_sources_def disconnected_def names_set_def list_all_less_Suc)
  have "safe F (\<lambda>n'. conn_inv n' \<and> n_state n' = RECONNECT_PENDING \<and> n_reconnect_id n' = n_next_source n1)
     (if nc_type (n_config n1) = NETWORK_VIRTUAL then
       bind_res (connect_virtual env n1) (\<lambda>(_, n2). Inr n2)
     else
       let n2 = (if nc_type (n_config n1) = NETWORK_TCP
                 then n1\<lparr>n_current_server := network_get_next_tcp_server n1\<rparr> else n1);
           (i, n3) = add_source Reconnect_timer n2 in
       Inr (n3\<lparr>n_state := RECONNECT_PENDING, n_reconnect_id := i\<rparr>))"
    if n1: "conn_inv n1" "n_state n1 = NOT_CONNECTED" for n1
  proof -
    have "nc_type (n_config n1) \<noteq> NETWORK_VIRTUAL" using n1 by (auto simp: conn_inv_def conn_basic_def)
    then show ?thesis using sched [OF n1] by (simp add: Let_def case_prod_beta) (simp add: add_source_def)
  qed
  then show ?thesis
    unfolding reconnect_with_def using assms(2)
    by (simp, intro safe_bind [OF close_server_ok [OF assms(1)]]) fastforce
qed

section \<open>Connecting\<close>

text \<open>A connection attempt starts from a network without resources, whatever sources it has.\<close>

definition unconnected :: "('c, 'a) net \<Rightarrow> bool" where
  "unconnected n \<longleftrightarrow> conn_basic n \<and> disconnected n \<and> names_set False n"

text \<open>
  What an attempt leads to: everything is as before, or there is a new state with its
  resources and one new source.
\<close>

definition stays :: "('c, 'a) net \<Rightarrow> ('c, 'a) net \<Rightarrow> bool" where
  "stays n n' \<longleftrightarrow>
     n_state n' = n_state n \<and> n_reconnect_id n' = n_reconnect_id n \<and> n_sources n' = n_sources n \<and>
     n_next_source n' = n_next_source n \<and> nc_type (n_config n') = nc_type (n_config n) \<and> unconnected n'"

definition moves :: "('c, 'a) net \<Rightarrow> ('c, 'a) net \<Rightarrow> bool" where
  "moves n n' \<longleftrightarrow>
     conn_basic n' \<and> resources n' \<and> n_state n' \<noteq> RECONNECT_PENDING \<and> n_state n' \<noteq> NOT_CONNECTED \<and>
     (\<exists>own. own_sources n' own \<and> n_sources n' = n_sources n @ own \<and> list_all (\<lambda>s. n_next_source n \<le> fst s) own)"

text \<open>Sending the login: the network is online, and its sources are those it had.\<close>

definition fresh_login :: "('c, 'a) net \<Rightarrow> ('c, 'a) net \<Rightarrow> bool" where
  "fresh_login n n' \<longleftrightarrow>
     (\<exists>tr. n_transport n' = Some tr \<and> tr_ok tr) \<and> (\<exists>s. n_external_state n' = Some s \<and> wf_graph s) \<and>
     n_linestack n' \<and> n_state n' = LOGIN_SENT \<and> n_config n' = n_config n \<and>
     n_local_name n' = n_local_name n \<and> n_remote_name n' = n_remote_name n \<and>
     n_sources n' = n_sources n \<and> n_next_source n' = n_next_source n \<and>
     n_current_server n' = n_current_server n \<and> n_ping_id n' = n_ping_id n"

lemma kept_fresh_login:
  assumes "kept (n\<lparr>n_transport := Some tr, n_state := LOGIN_SENT, n_external_state := Some s\<rparr>) n'" "n_linestack n'"
  shows "fresh_login n n'"
  using assms kept_fields [OF assms(1)] kept_present [OF assms(1)] by (auto simp: fresh_login_def)

lemma send_login_ok:
  assumes "conn_basic n" "n_transport n = Some tr" "tr_ok tr"
    "nc_type (n_config n) = NETWORK_TCP \<longrightarrow> n_current_server n \<noteq> None"
  shows "safe F (\<lambda>n'. \<exists>s. kept (n\<lparr>n_state := LOGIN_SENT, n_external_state := Some s\<rparr>) n' \<and> n_linestack n')
    (server_send_login k env n)"
proof -
  have ty: "nc_type (n_config n) \<noteq> NETWORK_VIRTUAL" using assms(1) by (auto simp: conn_basic_def)
  have login: "safe F (\<lambda>ld. AssertFail \<in> F \<longrightarrow> complete_login ld) (cb_get_login_details env n)"
    using login_details [OF assms(1)] login_details_program [OF assms(1)] assms
    by (auto simp: conn_basic_def)
  have body: "safe F (\<lambda>n'. kept n0 n' \<and> n_linestack n')
     (bind_res (guard_res (n_linestack n1) AssertFail) (\<lambda>_.
      bind_res (case ld_password ld of
                  None \<Rightarrow> Inr n1
                | Some pw \<Rightarrow> bind_res (network_send_args (on_transport_hup k env) env n1 [Some ''PASS'', Some pw])
                    (\<lambda>(_, n'). Inr n')) (\<lambda>n2.
      bind_res (guard_res (filled (ld_nick ld)) AssertFail) (\<lambda>_.
      bind_res (network_send_args (on_transport_hup k env) env n2 [Some ''NICK'', ld_nick ld]) (\<lambda>(_, n3).
      bind_res (guard_res (filled (ld_username ld) \<and> filled (ld_mode ld) \<and> filled (ld_unused ld) \<and>
                           filled (ld_realname ld)) AssertFail) (\<lambda>_.
      bind_res (network_send_args (on_transport_hup k env) env n3
        [Some ''USER'', ld_username ld, ld_mode ld, ld_unused ld, ld_realname ld]) (\<lambda>(_, n4).
      Inr n4)))))))"
    if n0: "nc_type (n_config n0) \<noteq> NETWORK_VIRTUAL" "n_external_state n0 \<noteq> None"
      and n1: "kept n0 n1" "n_linestack n1" and ld: "AssertFail \<in> F \<longrightarrow> complete_login ld" for n0 n1 ld
  proof -
    have send: "safe F (\<lambda>(_, n'). kept n0 n' \<and> n_linestack n') (network_send_args hup env m ap)"
      if m: "kept n0 m" "n_linestack m" for m ap hup
      using send_args_ok [OF kept_right [OF m(1)], of hup ap] m n0 kept_present(1) [OF m(1)] kept_fields(1) [OF m(1)]
      by (auto elim!: safe_mono dest: kept_trans [OF m(1)])
    show ?thesis
      using n1 ld
      by (auto simp: complete_login_def intro!: vcg_guard vcg_assoc safe_bind [OF send] split: option.split)
  qed
  show ?thesis
    unfolding server_send_login_def Let_def
  proof (rule safe_bind [OF login], rule safe_bind [OF network_state_init_ok], goal_cases)
    case (1 ld)
    then show ?case using hostname_known by (auto simp: complete_login_def filled_def split: option.splits)
  next
    case (2 ld s)
    let ?n0 = "n\<lparr>n_state := LOGIN_SENT, n_external_state := Some s\<rparr>"
    have n0: "kept ?n0 ?n0" "n_external_state ?n0 \<noteq> None" "nc_type (n_config ?n0) \<noteq> NETWORK_VIRTUAL"
      using 2 assms ty by (simp_all add: kept_def)
    show ?case
      by (rule safe_bind [OF on_state_set [OF n0(1,2)]], rule safe_mono [OF body [OF n0(3,2)]])
        (use 2 in auto)
  qed
qed

text \<open>A new channel: the transport is fresh, and the login follows.\<close>

lemma new_transport_ok: "tr_ok (irc_transport_set_callbacks (irc_transport_new_iochannel c))"
  by (simp add: tr_ok_def irc_transport_set_callbacks_def irc_transport_new_iochannel_def transport_inv_def
      irc_transport_iochannel_is_connected_def with_data_def Let_def)

lemma set_iochannel_ok:
  assumes "conn_basic n" "nc_type (n_config n) = NETWORK_TCP \<longrightarrow> n_current_server n \<noteq> None"
  shows "safe F (\<lambda>(ok, n'). ok \<and> fresh_login n n') (network_set_iochannel k env n ioc)"
proof -
  let ?tr = "irc_transport_set_callbacks (irc_transport_new_iochannel ioc)"
  have "nc_type (n_config n) \<noteq> NETWORK_VIRTUAL" using assms(1) by (auto simp: conn_basic_def)
  moreover have "safe F (\<lambda>n'. \<exists>s. kept (n\<lparr>n_transport := Some ?tr, n_state := LOGIN_SENT, n_external_state := Some s\<rparr>) n' \<and>
      n_linestack n') (server_send_login k env (n\<lparr>n_transport := Some ?tr\<rparr>))"
    using assms new_transport_ok [of ioc] by (intro send_login_ok [where tr = ?tr]) simp_all
  then have "safe F (fresh_login n) (server_send_login k env (n\<lparr>n_transport := Some ?tr\<rparr>))"
    by (rule safe_mono) (auto intro: kept_fresh_login)
  ultimately show ?thesis
    unfolding network_set_iochannel_def Let_def using encoding_set flags_set
    by (auto intro!: safe_bind elim!: safe_mono)
qed

lemma finish_connect_ok:
  assumes "conn_basic n" "nc_type (n_config n) = NETWORK_TCP" "names_set True n" "n_current_server n \<noteq> None"
    "\<not> cond_err cond"
  shows "safe F (\<lambda>n'. conn_basic n' \<and> resources n' \<and> n_state n' = LOGIN_SENT \<and>
      n_ping_id n' = n_next_source n \<and> n_sources n' = n_sources n @ [(n_next_source n, Ping_timer)])
    (server_finish_connect k env n ioc True cond)"
proof -
  have set: "safe F (\<lambda>(ok, n'). ok \<and> fresh_login (n\<lparr>n_state := CONNECTED, n_connect_id := 0\<rparr>) n')
    (network_set_iochannel k env (n\<lparr>n_state := CONNECTED, n_connect_id := 0\<rparr>) ioc)"
    using assms by (intro set_iochannel_ok) simp_all
  show ?thesis
    unfolding server_finish_connect_def using assms
    by (auto simp: add_source_def fresh_login_def names_set_def conn_basic_def server_known_def
        resources_def online_def list_all_less_Suc intro!: safe_bind [OF set])
qed

text \<open>A socket that was opened: connected at once, or watched until it is.\<close>

lemma opened_ok:
  assumes "unconnected n0" "nc_type (n_config n0) = NETWORK_TCP" "n_current_server n0 \<noteq> None"
    "n2 = n0\<lparr>n_remote_name := True, n_local_name := True, n_state := CONNECTING\<rparr>"
  shows "safe F (\<lambda>(_, n'). moves n0 n')
    (if \<not> finished then
       let (i, n3) = add_source (Connect_watch ioc) n2 in Inr (True, n3\<lparr>n_connect_id := i\<rparr>)
     else bind_res (server_finish_connect k env n2 ioc True ready_to_write) (\<lambda>n3. Inr (True, n3)))"
proof (cases finished)
  case True
  have n2: "conn_basic n2" "names_set True n2" "nc_type (n_config n2) = NETWORK_TCP" "n_current_server n2 \<noteq> None"
    "0 < n_next_source n0"
    using assms by (auto simp: unconnected_def conn_basic_def server_known_def names_set_def)
  have "safe F (\<lambda>(_, n'). moves n0 n')
      (bind_res (server_finish_connect k env n2 ioc True ready_to_write) (\<lambda>n3. Inr (True, n3)))"
    by (rule safe_bind [OF finish_connect_ok [OF n2(1,3,2,4)]])
      (use n2(5) assms(4) in \<open>auto simp: ready_to_write_def moves_def own_sources_def\<close>)
  then show ?thesis using True by simp
next
  case False
  then show ?thesis
    using assms
    by (auto simp: add_source_def moves_def unconnected_def conn_basic_def server_known_def resources_def
        own_sources_def disconnected_def names_set_def list_all_less_Suc)
qed

lemma connect_tcp_ok:
  assumes "unconnected n" "nc_type (n_config n) = NETWORK_TCP"
  shows "safe F (\<lambda>(_, n'). stays n n' \<or> moves n n') (connect_current_tcp_server k env n)"
proof -
  define n0 where "n0 = (case n_current_server n of
      None \<Rightarrow> n\<lparr>n_current_server := network_get_next_tcp_server n\<rparr> | Some _ \<Rightarrow> n)"
  have n0: "stays n n0" "nc_type (n_config n0) = NETWORK_TCP"
    using assms next_server_known [of n]
    by (auto simp: n0_def unconnected_def stays_def conn_basic_def server_known_def
        disconnected_def names_set_def split: option.splits)
  have u: "unconnected n0" using n0(1) by (simp add: stays_def)
  show ?thesis
  proof (cases "n_current_server n0")
    case None
    then show ?thesis
      using n0
      by (auto simp: connect_current_tcp_server_def n0_def [symmetric] Let_def stays_def unconnected_def
          conn_basic_def server_known_def disconnected_def names_set_def)
  next
    case (Some a)
    then obtain cs where cs: "map_of (nc_servers (n_config n0)) a = Some cs"
      using u by (force simp: unconnected_def conn_basic_def server_known_def map_of_eq_None_iff
          simp flip: not_None_eq)
    have opened: "safe F (\<lambda>(_, n'). stays n n' \<or> moves n n')
       (if \<not> finished then
          let (i, n3) = add_source (Connect_watch ioc) n2 in Inr (True, n3\<lparr>n_connect_id := i\<rparr>)
        else bind_res (server_finish_connect k env n2 ioc True ready_to_write) (\<lambda>n3. Inr (True, n3)))"
      if n2: "n2 = n0\<lparr>n_remote_name := True, n_local_name := True, n_state := CONNECTING\<rparr>" for n2 ioc finished
      using opened_ok [OF u n0(2) _ n2, of finished ioc k] Some n0(1)
      by (auto elim!: safe_mono simp: stays_def moves_def)
    show ?thesis
      using n0 u cs Some opened [OF refl]
      by (auto simp: tls_wraps connect_current_tcp_server_def n0_def [symmetric] Let_def unconnected_def names_set_def
          split: option.split)
  qed
qed

lemma connect_program_ok:
  assumes "unconnected n" "nc_type (n_config n) = NETWORK_PROGRAM"
  shows "safe F (\<lambda>(_, n'). stays n n' \<or> moves n n') (connect_program k env n)"
proof -
  have "conn_basic n" using assms by (simp add: unconnected_def)
  then have set: "safe F (\<lambda>(ok, n'). ok \<and> fresh_login n n') (network_set_iochannel k env n ioc)" for ioc
    using assms by (intro set_iochannel_ok) simp_all
  have "moves n n1" "moves n (n1\<lparr>n_name := x\<rparr>)" if "fresh_login n n1" for n1 x
    using that assms
    by (auto simp: fresh_login_def moves_def unconnected_def conn_basic_def server_known_def resources_def
        online_def own_sources_def disconnected_def names_set_def)
  moreover have "stays n n" using assms by (simp add: stays_def)
  ultimately show ?thesis
    using assms unfolding connect_program_def Let_def
    by (auto intro!: safe_bind [OF set] split: option.split)
qed

lemma connect_server_ok:
  assumes "unconnected n"
  shows "safe F (\<lambda>(_, n'). stays n n' \<or> moves n n') (connect_server k env n)"
  using assms connect_tcp_ok connect_program_ok
  by (cases "nc_type (n_config n)") (auto simp: connect_server_def unconnected_def conn_basic_def)

section \<open>Events keep the invariant\<close>

lemma inv_unconnected:
  "conn_inv n \<Longrightarrow> n_state n \<in> {NOT_CONNECTED, RECONNECT_PENDING} \<Longrightarrow> unconnected n"
  by (auto simp: conn_inv_def unconnected_def resources_def)

lemma stays_inv:
  assumes "stays n n'" "conn_inv n" "n_state n \<in> {NOT_CONNECTED, RECONNECT_PENDING}"
  shows "conn_inv n'"
  using assms by (auto simp: stays_def conn_inv_def unconnected_def resources_def own_sources_def)

text \<open>Removing a source that is not, or is no longer, one of the state.\<close>

lemma remove_old_inv:
  assumes "conn_basic n" "resources n" "n_sources n = ss @ own" "own_sources n own"
    "ss = [] \<or> ss = [(i, src)]" "list_all (\<lambda>s. fst s \<noteq> i) own"
  shows "conn_inv (g_source_remove i n)"
proof -
  have "filter (\<lambda>(j, _). j \<noteq> i) own = own" using assms(6) by (auto simp: filter_id_conv list_all_iff)
  then have "n_sources (g_source_remove i n) = own" using assms(3,5) by (auto simp: g_source_remove_def)
  moreover have "conn_basic (g_source_remove i n)"
    using assms(1) by (auto simp: conn_basic_def server_known_def g_source_remove_def list_all_iff)
  moreover have "resources (g_source_remove i n)" "own_sources (g_source_remove i n) own"
    using assms(2,4) by (cases "n_state n"; simp add: resources_def own_sources_def g_source_remove_def
        disconnected_def names_set_def online_def)+
  ultimately show ?thesis by (simp add: conn_inv_def)
qed

lemma moves_inv:
  assumes "moves n n'" "n_sources n = ss" "ss = [] \<or> ss = [(i, src)]" "i < n_next_source n"
  shows "conn_inv (g_source_remove i n')"
proof -
  obtain own where "own_sources n' own" "n_sources n' = ss @ own" "list_all (\<lambda>s. n_next_source n \<le> fst s) own"
    "conn_basic n'" "resources n'"
    using assms(1,2) by (auto simp: moves_def)
  then show ?thesis using assms(3,4) by (intro remove_old_inv [of n' ss own i src]) (auto simp: list_all_iff)
qed

lemma g_source_remove_none [simp]: "n_sources n = [] \<Longrightarrow> g_source_remove i n = n"
  by (simp add: g_source_remove_def)

lemma reconnect_remove_inv:
  assumes "conn_inv n'" "n_state n' = RECONNECT_PENDING" "n_reconnect_id n' = k" "i < k"
  shows "conn_inv (g_source_remove i n')"
  using assms by (intro remove_old_inv [of n' "[]" "n_sources n'" i undefined])
    (auto simp: conn_inv_def own_sources_def)

lemma source_bound: "conn_basic n \<Longrightarrow> map_of (n_sources n) i = Some src \<Longrightarrow> i < n_next_source n"
  by (auto simp: conn_basic_def list_all_iff dest!: map_of_SomeD)

lemma dispatch_reconnect_ok:
  assumes "conn_inv n" "map_of (n_sources n) i = Some Reconnect_timer"
  shows "safe F conn_inv (dispatch_source k env (i, Reconnect_timer) out cond keep n)"
proof -
  have st: "n_state n = RECONNECT_PENDING" "n_sources n = [(i, Reconnect_timer)]"
    using assms by (auto simp: conn_inv_def own_sources_def resources_def
        split: irc_network_connection_state.splits if_splits)
  have i: "i < n_next_source n" using source_bound assms by (auto simp: conn_inv_def)
  have "n_state n1 \<noteq> RECONNECT_PENDING" if "moves n n1" for n1 using that by (simp add: moves_def)
  moreover have "n_state n1 = RECONNECT_PENDING \<and> conn_inv n1" if "stays n n1" for n1
    using stays_inv [OF that assms(1)] that st by (simp add: stays_def)
  ultimately show ?thesis
    using moves_inv [OF _ st(2) _ i] inv_unconnected [OF assms(1)] st(1)
    unfolding dispatch_source_def delayed_connect_server_def
    by (auto intro!: vcg_assoc safe_bind [OF connect_server_ok])
qed

lemma dispatch_connect_ok:
  assumes "conn_inv n" "map_of (n_sources n) i = Some (Connect_watch ioc)" "out \<or> cond_err cond \<or> cond_hup cond"
  shows "safe F conn_inv (dispatch_source k env (i, Connect_watch ioc) out cond keep n)"
proof -
  have st: "n_state n = CONNECTING" "n_sources n = [(i, Connect_watch ioc)]"
    using assms by (auto simp: conn_inv_def own_sources_def resources_def
        split: irc_network_connection_state.splits if_splits)
  have i: "i < n_next_source n" using source_bound assms by (auto simp: conn_inv_def)
  have rec: "safe F conn_inv (bind_res (reconnect k env (network_report_disconnect r n))
      (\<lambda>n1. Inr (g_source_remove i n1)))" for r
    unfolding reconnect_def using assms(1) st(1) reconnect_remove_inv [OF _ _ _ i]
    by (intro safe_bind [OF reconnect_ok]) auto
  have fin: "safe F conn_inv (bind_res (server_finish_connect k env n ioc True cond)
      (\<lambda>n1. Inr (g_source_remove i n1)))" if "\<not> cond_err cond"
  proof (rule safe_bind [OF finish_connect_ok])
    fix n1 assume n1: "conn_basic n1 \<and> resources n1 \<and> n_state n1 = LOGIN_SENT \<and>
      n_ping_id n1 = n_next_source n \<and> n_sources n1 = n_sources n @ [(n_next_source n, Ping_timer)]"
    have "conn_inv (g_source_remove i n1)"
      using n1 st(2) i by (intro remove_old_inv [of n1 "n_sources n"]) (auto simp: own_sources_def)
    then show "safe F conn_inv (Inr (g_source_remove i n1))" by simp
  qed (use assms(1) st(1) that in \<open>auto simp: conn_inv_def resources_def\<close>)
  show ?thesis
    using rec fin assms(3)
    by (cases "cond_err cond"; cases out)
      (auto simp: dispatch_source_def server_finish_connect_def [of k env n ioc out]
        server_finish_connect_def [of k env n ioc False] server_finish_connect_def [of k env n ioc True] split: if_splits)
qed

lemma dispatch_ping_ok:
  assumes "conn_inv n" "map_of (n_sources n) i = Some Ping_timer"
  shows "safe F conn_inv (dispatch_source k env (i, Ping_timer) out cond keep n)"
proof -
  have st: "n_state n = LOGIN_SENT \<or> n_state n = MOTD_RECVD" "n_sources n = [(i, Ping_timer)]"
    using assms by (auto simp: conn_inv_def own_sources_def resources_def
        split: irc_network_connection_state.splits if_splits)
  have i: "i < n_next_source n" using source_bound assms by (auto simp: conn_inv_def)
  let ?done = "\<lambda>n1. Inr (if keep then n1 else g_source_remove i n1)"
  have rec: "safe F conn_inv (bind_res (reconnect k env (network_report_disconnect r n)) ?done)" for r
    unfolding reconnect_def using assms(1) st(1) reconnect_remove_inv [OF _ _ _ i]
    by (intro safe_bind [OF reconnect_ok]) auto
  have on: "online n" "conn_basic n" using assms(1) st(1) by (auto simp: conn_inv_def resources_def)
  have drop: "conn_inv (g_source_remove i n1)" if "conn_inv n1" "kept n n1" for n1
    using that st kept_fields [OF that(2)]
    by (intro remove_old_inv [of n1 "n_sources n1" "[]" i Ping_timer]) (auto simp: conn_inv_def own_sources_def)
  have send: "safe F conn_inv (bind_res (network_send_args hup env n ap) (\<lambda>r. ?done (snd r)))" for hup ap
  proof (rule safe_bind [OF send_args_ok [OF online_kept [OF on(1)]]])
    fix r assume "case r of (_, n1) \<Rightarrow> kept n n1 \<and> n_linestack n1"
    then show "safe F conn_inv (?done (snd r))"
      using kept_inv [OF _ assms(1)] drop by auto
  qed (use on in \<open>auto simp: online_def conn_basic_def\<close>)
  have "safe F conn_inv (?done n)" using drop [OF assms(1) online_kept [OF on(1)]] assms(1) by simp
  then show ?thesis
    using rec send
    by (auto simp: dispatch_source_def ping_server_def Let_def bind_res_assoc case_prod_beta)
qed

lemma send_pending_total:
  "\<exists>ex c' rest sent evs. send_pending (e_io env) iconv c ls = Inr (ex, c', rest, sent, evs) \<and> ex \<noteq> Q_eof"
proof (induction ls arbitrary: c)
  case (Cons l ls)
  obtain st c1 where st: "irc_send_line (e_io env) iconv c l = Inr (st, c1)"
    using irc_send_line_total [OF channel] by blast
  have "st \<noteq> IO_EOF" "fst (flush (e_io env) c1) \<noteq> IO_EOF"
    using irc_send_line_no_eof [OF st] channel by (simp_all add: channel_ok_def)
  moreover obtain ex c' rest sent evs where
    "send_pending (e_io env) iconv (snd (flush (e_io env) c1)) ls = Inr (ex, c', rest, sent, evs)" "ex \<noteq> Q_eof"
    using Cons.IH by blast
  ultimately show ?case using st by (simp add: Let_def)
qed simp

lemma send_queue_ok:
  assumes "tr_ok tr"
  obtains ret tr1 evs where "transport_send_queue now (e_io env) tr = Inr (ret, tr1, evs)"
    "Cb_hangup \<notin> set evs" "incoming (backend_data tr1) \<noteq> None" "\<not> pending_disconnect (backend_data tr1)"
proof -
  let ?d = "backend_data tr"
  obtain c where c: "incoming ?d = Some c" "\<not> pending_disconnect ?d"
    using assms by (auto simp: tr_ok_def irc_transport_iochannel_is_connected_def)
  obtain ex c' rest sent evs where p: "send_pending (e_io env) (outgoing_iconv ?d)
      (snd (flush (e_io env) c)) (pending_lines ?d) = Inr (ex, c', rest, sent, evs)" "ex \<noteq> Q_eof"
    using send_pending_total by blast
  then have "Cb_hangup \<notin> set evs" using send_pending_exit [OF p(1)] by simp
  moreover have "\<exists>ret tr1. transport_send_queue now (e_io env) tr = Inr (ret, tr1, evs) \<and>
      incoming (backend_data tr1) \<noteq> None \<and> \<not> pending_disconnect (backend_data tr1)"
    using c p by (cases ex; cases "fst (flush (e_io env) c) = IO_AGAIN") (simp_all add: transport_send_queue_def Let_def)
  ultimately show ?thesis using that by blast
qed

lemma dispatch_flush_ok:
  assumes "conn_inv n" "n_transport n \<noteq> None"
  shows "safe F conn_inv (dispatch_flush k env w n)"
proof -
  have on: "online n" using assms
    by (auto simp: conn_inv_def resources_def disconnected_def split: irc_network_connection_state.splits)
  then obtain tr where tr: "n_transport n = Some tr" "tr_ok tr" "n_linestack n" by (auto simp: online_def)
  obtain ret tr1 evs where q: "transport_send_queue (e_now env) (e_io env) tr = Inr (ret, tr1, evs)"
    "Cb_hangup \<notin> set evs" "incoming (backend_data tr1) \<noteq> None" "\<not> pending_disconnect (backend_data tr1)"
    using send_queue_ok [OF tr(2)] .
  let ?d1 = "backend_data tr1"
  let ?tr2 = "if ret then tr1 else with_data tr1 (?d1\<lparr>d_watches := remove1 w (d_watches ?d1)\<rparr>)"
  have "dispatch_watch (e_now env) (e_io env) w tr = Inr (?tr2, evs)"
    using q by (simp add: dispatch_watch_def on_hangup_def Let_def)
  then have "transport_inv (backend_data ?tr2)" using inv_dispatch tr(2) unfolding tr_ok_def by blast
  then have "tr_ok ?tr2" using q(3,4) by (auto simp: tr_ok_def irc_transport_iochannel_is_connected_def)
  then have "kept n (n\<lparr>n_transport := Some ?tr2\<rparr>)" using online_kept [OF on] tr by (simp add: kept_def)
  then have "conn_inv (n\<lparr>n_transport := Some ?tr2\<rparr>)" by (rule kept_inv) (use assms(1) tr in simp_all)
  then show ?thesis using tr(1) q(1,2) by (simp add: dispatch_flush_def Let_def)
qed

lemma inv_online:
  "conn_inv n \<Longrightarrow> n_transport n \<noteq> None \<or> n_external_state n \<noteq> None \<Longrightarrow>
   online n \<and> conn_basic n \<and> n_state n \<noteq> RECONNECT_PENDING"
  by (auto simp: conn_inv_def resources_def disconnected_def split: irc_network_connection_state.splits)

lemma next_server_inv:
  assumes "conn_inv n"
  shows "conn_inv (irc_network_select_next_server n)"
proof -
  have "network_get_next_tcp_server n \<noteq> None" if "n_current_server n \<noteq> None"
    using that assms
    by (auto simp: network_get_next_tcp_server_def conn_inv_def conn_basic_def server_known_def Let_def
        split: list.splits)
  then show ?thesis
    using assms next_server_known [of n]
    by (cases "n_state n")
      (auto simp: irc_network_select_next_server_def conn_inv_def conn_basic_def server_known_def
        resources_def own_sources_def disconnected_def names_set_def online_def)
qed

theorem net_step_ok:
  assumes "conn_inv n" "ev_enabled ev n"
  shows "safe F conn_inv (net_step k env ev n)"
proof (cases ev)
  case (Ev_source i out cond keep)
  then have "safe F conn_inv (dispatch_source k env (i, src) out cond keep n)"
    if "map_of (n_sources n) i = Some src" for src
    using that assms dispatch_reconnect_ok dispatch_ping_ok dispatch_connect_ok
    by (cases src) (simp_all add: ev_enabled_def)
  then show ?thesis using assms(1) Ev_source by (simp add: net_step_def split: option.split)
next
  case (Ev_flush w)
  then show ?thesis using assms dispatch_flush_ok by (simp add: net_step_def ev_enabled_def)
next
  case (Ev_dangling w)
  then show ?thesis using assms by (simp add: net_step_def ev_enabled_def)
next
  case Ev_hangup
  then show ?thesis
    using assms inv_online [OF assms(1)] 
    by (auto simp: net_step_def ev_enabled_def intro!: safe_mono [OF reconnect_ok])
next
  case (Ev_error msg)
  then show ?thesis
    using assms inv_online [OF assms(1)]
    by (auto simp: net_step_def ev_enabled_def on_transport_error_def reconnect_def intro!: safe_mono [OF reconnect_ok])
next
  case Ev_connect
  have "safe F conn_inv (bind_res (connect_server k env n) (\<lambda>(_, n1). Inr n1))"
    if st: "n_state n = NOT_CONNECTED"
  proof (rule safe_bind [OF connect_server_ok [OF inv_unconnected [OF assms(1)]]])
    fix r assume r: "case r of (_, n') \<Rightarrow> stays n n' \<or> moves n n'"
    have "n_sources n = []" "0 < n_next_source n"
      using assms(1) st by (auto simp: conn_inv_def own_sources_def conn_basic_def)
    then have "conn_inv (snd r)"
      using r stays_inv [OF _ assms(1)] st
      by (cases r) (auto simp: moves_def conn_inv_def)
    then show "safe F conn_inv (case r of (_, n1) \<Rightarrow> Inr n1)" by (simp add: case_prod_beta)
  qed (simp add: st)
  then show ?thesis
    using assms Ev_connect by (simp add: net_step_def ev_enabled_def connect_network_def)
next
  case Ev_disconnect
  then show ?thesis
    using assms
    by (auto simp: net_step_def disconnect_network_def close_server_def intro!: safe_bind [OF close_server_ok])
next
  case Ev_next_server
  then show ?thesis using next_server_inv [OF assms(1)] by (simp add: net_step_def)
next
  case (Ev_send l)
  then have on: "online n" "conn_basic n" using inv_online [OF assms(1)] assms(2) by (auto simp: ev_enabled_def)
  show ?thesis
    using on Ev_send kept_inv [OF _ assms(1)]
    by (auto simp: net_step_def online_def conn_basic_def intro!: safe_bind [OF send_line_ok] online_kept)
qed

end

section \<open>Runs\<close>

text \<open>
  The events of the main loop one after the other. Each may find other surroundings (another
  time, other answers of the system), as long as they keep to the contract.
\<close>

inductive net_runs :: "fault set \<Rightarrow> ('c, 'a) net \<Rightarrow> ('c, 'a) net \<Rightarrow> bool" for F n where
  start: "net_runs F n n"
| event: "net_runs F n n1 \<Longrightarrow> network_env F env \<Longrightarrow> ev_enabled ev n1 \<Longrightarrow> net_step k env ev n1 = Inr n2 \<Longrightarrow>
    net_runs F n n2"

lemma net_runs_inv: "net_runs F n n' \<Longrightarrow> conn_inv n \<Longrightarrow> conn_inv n'"
proof (induction rule: net_runs.induct)
  case (event n1 env ev k n2)
  have "safe F conn_inv (net_step k env ev n1)"
    using network_env.net_step_ok [OF event.hyps(2)] event by blast
  then show ?case using event.hyps(4) by simp
qed

lemma new_network_inv: "nc_type nc \<in> {NETWORK_TCP, NETWORK_PROGRAM} \<Longrightarrow> conn_inv (irc_network_new nc)"
  by (auto simp: irc_network_new_def conn_inv_def conn_basic_def server_known_def resources_def
      own_sources_def disconnected_def names_set_def)


text \<open>A channel that takes every write, and callbacks that do what is asked of them and no more.\<close>

definition steady_io :: "string list giochannel" where
  "steady_io = \<lparr>write_chars = (\<lambda>c t. (IO_NORMAL, length t, c @ [t])), flush = (\<lambda>c. (IO_NORMAL, c)),
                read_line = (\<lambda>c. (IO_AGAIN, [], c))\<rparr>"

definition demo_login :: irc_login_details where
  "demo_login = \<lparr>ld_password = None, ld_nick = Some ''me'', ld_username = Some ''user'', ld_mode = Some ''a'',
                 ld_unused = Some ''a'', ld_realname = Some ''Me''\<rparr>"

definition demo_net_env :: "'c giochannel \<Rightarrow> 'c dial list \<Rightarrow> ('c, unit) env" where
  "demo_net_env io dials =
     \<lparr>e_now = 0, e_io = io, e_hostname = Some ''proxy'', e_iconv_open = (\<lambda>_ _. None),
      e_virtual_network_ops = Map.empty, e_getaddrinfo = (\<lambda>_. Some dials), e_ssl_wrap = (\<lambda>c _. Some c),
      e_sock_error = (\<lambda>_. ''error''), e_set_encoding = (\<lambda>_. True), e_set_flags = (\<lambda>_. True),
      e_piped_child = (\<lambda>_. None), cb_get_login_details = (\<lambda>_. Inr demo_login),
      cb_process_to_server = (\<lambda>n _. Inr (True, n)), cb_disconnect = None,
      cb_state_set = Some (\<lambda>n. Inr (n\<lparr>n_linestack := True\<rparr>))\<rparr>"

definition demo_config :: network_config where
  "demo_config = \<lparr>nc_name = Some ''net'', nc_autoconnect = True, nc_implicit = False, nc_type = NETWORK_TCP,
     nc_servers = [(0, \<lparr>ts_host = ''h'', ts_port = ''6667'', ts_ssl = False, ts_bind_address = None,
                       ts_password = None\<rparr>)],
     nc_program_location = [], nc_virtual_name = None, nc_reconnect_interval = 60, nc_nick = None,
     nc_username = None, nc_fullname = None, nc_password = None, nc_autocmd = [], nc_channels = [],
     nc_disable_cache = False, nc_ignore_first_nick = False\<rparr>"

lemma demo_network_env: "network_env UNIV (demo_net_env steady_io dials)"
  by unfold_locales
    (auto simp: demo_net_env_def steady_io_def channel_ok_def demo_login_def complete_login_def filled_def
      call_optional_def kept_def)


text \<open>
  A timer that reconnects over TLS stops the program when the channel cannot be wrapped:
  the attempt calls \<open>reconnect\<close> while a reconnection is still recorded as pending, and the
  assertion there fails.
\<close>

theorem tls_failure_aborts:
  assumes "conn_inv n" and "n_state n = RECONNECT_PENDING" and "nc_type (n_config n) = NETWORK_TCP"
    and "n_current_server n = Some a" and "map_of (nc_servers (n_config n)) a = Some cs" and "ts_ssl cs"
    and "e_getaddrinfo env cs = Some addrs" and "try_addresses addrs = Some (sock, finished)"
    and "e_ssl_wrap env sock (ts_host cs) = None"
  shows "net_step k env (Ev_source (n_reconnect_id n) out cond keep) n = Inl AssertFail"
proof -
  have "n_sources n = [(n_reconnect_id n, Reconnect_timer)]" "\<not> n_local_name n" "\<not> n_remote_name n"
    using assms(1,2) by (auto simp: conn_inv_def own_sources_def resources_def names_set_def)
  then show ?thesis
    using assms(2-)
    by (simp add: net_step_def dispatch_source_def delayed_connect_server_def connect_server_def
        connect_current_tcp_server_def reconnect_def reconnect_with_def network_report_disconnect_def Let_def)
qed

definition demo_tls_config :: network_config where
  "demo_tls_config = demo_config\<lparr>nc_servers := [(0, \<lparr>ts_host = ''h'', ts_port = ''6697'', ts_ssl = True,
     ts_bind_address = None, ts_password = None\<rparr>)]\<rparr>"

definition demo_pending :: "string list irc_network" where
  "demo_pending = (irc_network_new demo_tls_config)\<lparr>n_state := RECONNECT_PENDING, n_reconnect_id := 1,
     n_current_server := Some 0, n_sources := [(1, Reconnect_timer)], n_next_source := 2\<rparr>"

lemma demo_pending_inv: "conn_inv demo_pending"
  by (auto simp: demo_pending_def demo_tls_config_def demo_config_def irc_network_new_def conn_inv_def
      conn_basic_def server_known_def resources_def own_sources_def disconnected_def names_set_def)

theorem tls_failure_aborts_witness:
  "net_step 0 ((demo_net_env steady_io [Connected_at_once []])\<lparr>e_ssl_wrap := \<lambda>_ _. None\<rparr>)
     (Ev_source 1 False ready_to_write False) demo_pending = Inl AssertFail"
  using tls_failure_aborts [OF demo_pending_inv,
      where k = 0 and env = "(demo_net_env steady_io [Connected_at_once []])\<lparr>e_ssl_wrap := \<lambda>_ _. None\<rparr>"
        and cond = ready_to_write and keep = False and out = False]
  by (simp add: demo_pending_def demo_tls_config_def demo_config_def irc_network_new_def demo_net_env_def)

text \<open>
  A connection that is closed while lines wait to be written leaves a watch behind: the
  transport is freed, but the watch for writing stays registered, and its dispatch works on
  freed memory. Here the server accepts the connection but takes no data before the network is
  disconnected.
\<close>

theorem close_leaves_watch:
  "fault_of
     (bind_res (net_step 0 (demo_net_env script_io [Connected_at_once ([IO_AGAIN], [])]) Ev_connect
                  (irc_network_new demo_config)) (\<lambda>n1.
      bind_res (net_step 0 (demo_net_env script_io []) Ev_disconnect n1) (\<lambda>n2.
      net_step 0 (demo_net_env script_io []) (Ev_dangling 2) n2))) = Some UseAfterFree"
  by code_simp

end
