(* ===== verification/Forward.thy ===== *)
theory Forward
  imports Connection_Spec Cache Ctcp Hooks
begin

text \<open>
  The part of \<open>src/client.c\<close> through which lines of a network reach its clients: replacing the
  mask of the owner by the one a client knows, sending to all clients, and what happens when a
  client is lost. The record \<open>proxy_network\<close> adds to a network what the program keeps for it.
\<close>

section \<open>Networks of the proxy\<close>

text \<open>
  The clients of all networks are objects in \<open>pn_heap\<close>; \<open>pn_clients\<close> is the list of this network.
  \<open>pn_ctcp_requests\<close> and \<open>pn_nickserv\<close> are parts of the global state that networks work on.
  \<open>pn_stack\<close> collects what was handed to the line stack.
\<close>

record keyfile_entry =
  kf_nick :: string
  kf_pass :: "string option"
  kf_network :: "string option"

record 'c proxy_network = "'c irc_network" +
  pn_heap :: "addr \<rightharpoonup> 'c irc_client"
  pn_clients :: "addr list"
  pn_queries :: "addr query_stack option"
  pn_ctcp_requests :: "ctcp_request list"
  pn_linestack_errors :: nat
  pn_stack :: "(irc_line \<times> data_direction) list"
  pn_nickserv :: "keyfile_entry list"
  pn_nickattempt :: "string option"

record ctrlproxy_config =
  cf_admin_user :: "string option"
  cf_report_time_always :: bool
  cf_client_charset :: "string option"
  cf_motd_file :: "string option"
  cf_cache :: cache_settings
  cf_default_username :: "string option"
  cf_default_realname :: "string option"
  cf_default_nick :: "string option"
  cf_learn_nickserv :: bool

text \<open>
  The surroundings: the clock, channels, the configuration, and the outcome of calls into the
  system and into the line stack. \<open>ps_report_time\<close> is the time that is put in front of messages,
  \<open>ps_user_name\<close> and \<open>ps_real_name\<close> are those of the user that runs the program. The filters
  are lists as in \<open>Hooks\<close>, run by \<open>ps_filter\<close>.
\<close>

record ('c, 'f) proxy_sys =
  ps_now :: int
  ps_io :: "'c giochannel"
  ps_hostname :: "string option"
  ps_config :: ctrlproxy_config
  ps_report_time :: string
  ps_user_name :: string
  ps_real_name :: "string option"
  ps_ctcp :: ctcp_env
  ps_ctcp_handlers :: ctcp_handlers
  ps_filters :: "'f filter_lists"
  ps_filter :: "'f \<Rightarrow> data_direction \<Rightarrow> irc_line \<Rightarrow> 'c proxy_network \<Rightarrow> bool \<times> 'c proxy_network"
  ps_linestack_insert :: "irc_line \<Rightarrow> data_direction \<Rightarrow> bool"
  ps_lose_client :: "addr \<Rightarrow> 'c proxy_network \<Rightarrow> 'c proxy_network"
  ps_netsplit_fuel :: nat

section \<open>Masks\<close>

text \<open>\<open>irccmp\<close> asserts that it is given two strings.\<close>

definition irccmp_asserted :: "irc_network_info \<Rightarrow> string option \<Rightarrow> string option \<Rightarrow> int res" where
  "irccmp_asserted info a b =
     bind_res (asserted a) (\<lambda>x. bind_res (asserted b) (\<lambda>y. Inr (irccmp (Some info) x y)))"

text \<open>
  One word of a USERHOST reply. A word that ends at the equals sign has the terminator as the
  character after it, and the text built with it ends there.
\<close>

definition userhost_word :: "irc_network_info \<Rightarrow> network_nick \<Rightarrow> network_nick \<Rightarrow> string \<Rightarrow> string res" where
  "userhost_word info old new w =
     (case g_strsplit w (CHR ''='') 2 of
        u # h # _ \<Rightarrow>
          bind_res (irccmp_asserted info (Some u) (nn_nick old)) (\<lambda>d.
          Inr (if d = 0
               then u @ ''='' @ (case h of
                      [] \<Rightarrow> []
                    | c # _ \<Rightarrow> c # printf_s (nn_username new) @ ''@'' @ printf_s (nn_hostname new))
               else w))
      | _ \<Rightarrow> Inr w)"

fun map_res :: "('x \<Rightarrow> 'y res) \<Rightarrow> 'x list \<Rightarrow> 'y list res" where
  "map_res f [] = Inr []"
| "map_res f (x # xs) = bind_res (f x) (\<lambda>y. bind_res (map_res f xs) (\<lambda>ys. Inr (y # ys)))"

text \<open>
  User and host of the owner in a reply. A missing name would be put into the line as NULL and
  followed when the line is printed; the model stops at once.
\<close>

definition replace_user_host :: "network_nick \<Rightarrow> irc_line \<Rightarrow> irc_line option res" where
  "replace_user_host new l =
     bind_res (deref (nn_hostname new)) (\<lambda>h.
     bind_res (deref (nn_username new)) (\<lambda>u.
     Inr (Some (l\<lparr>args := (args l)[4 := h, 3 := u]\<rparr>))))"

definition irc_line_replace_hostmask ::
    "irc_line \<Rightarrow> irc_network_info \<Rightarrow> network_nick \<Rightarrow> network_nick \<Rightarrow> irc_line option res" where
  "irc_line_replace_hostmask l info old new =
     bind_res (irccmp_asserted info (nn_hostmask old) (nn_hostmask new)) (\<lambda>same.
     if same = 0 then Inr None
     else
       bind_res (if origin l \<noteq> None then line_from_nick info l (nn_nick old) else Inr False) (\<lambda>own.
       if own then Inr (Some (l\<lparr>origin := nn_hostmask new\<rparr>))
       else
         let code = irc_line_respcode l in
         if code = RPL_USERHOST then
           bind_res (sarg l 2) (\<lambda>a2.
           bind_res (deref (nn_hostname old)) (\<lambda>h.
           if contains_str a2 h then
             bind_res (map_res (userhost_word info old new)
                         (g_strsplit (g_strstrip a2) (CHR '' '') 0)) (\<lambda>users.
             Inr (Some (l\<lparr>args := (args l)[2 := g_strjoinv '' '' users]\<rparr>)))
           else Inr None))
         else if code = RPL_WHOREPLY then
           (if argc l \<ge> 6 then
              bind_res (arg l 6) (\<lambda>a6.
              bind_res (irccmp_asserted info a6 (nn_nick old)) (\<lambda>d.
              if d = 0 then replace_user_host new l else Inr None))
            else Inr None)
         else if code = RPL_WHOISUSER \<or> code = RPL_WHOWASUSER then
           (if argc l \<ge> 4 then
              bind_res (arg l 2) (\<lambda>a2.
              bind_res (irccmp_asserted info a2 (nn_nick old)) (\<lambda>d.
              if d = 0 then replace_user_host new l else Inr None))
            else Inr None)
         else Inr None))"

section \<open>Sending to clients\<close>

text \<open>
  After an operation on a client: when it disconnected the client, \<open>handle_client_disconnect\<close>
  has run the hooks and taken the client off the list of its network.
\<close>

definition handle_client_disconnect ::
    "('c, 'f) proxy_sys \<Rightarrow> addr \<Rightarrow> 'c proxy_network \<Rightarrow> 'c proxy_network" where
  "handle_client_disconnect sys a n =
     (let n1 = ps_lose_client sys a n in n1\<lparr>pn_clients := remove1 a (pn_clients n1)\<rparr>)"

definition put_client ::
    "('c, 'f) proxy_sys \<Rightarrow> addr \<Rightarrow> 'c irc_client \<Rightarrow> 'c irc_client \<Rightarrow> 'c proxy_network \<Rightarrow> 'c proxy_network" where
  "put_client sys a before after n =
     (let n1 = n\<lparr>pn_heap := (pn_heap n)(a \<mapsto> after)\<rparr> in
      if cl_connected before \<and> \<not> cl_connected after then handle_client_disconnect sys a n1 else n1)"

text \<open>Running a function of \<open>libirc/client.c\<close> on a client of the heap.\<close>

definition on_client ::
    "('c, 'f) proxy_sys \<Rightarrow> addr \<Rightarrow> 'c sending \<Rightarrow> 'c proxy_network \<Rightarrow> (bool \<times> 'c proxy_network) res" where
  "on_client sys a f n =
     bind_res (live (pn_heap n a)) (\<lambda>c.
     bind_res (f c) (\<lambda>(ok, c'). Inr (ok, put_client sys a c c' n)))"

definition client_forward_from_server ::
    "('c, 'f) proxy_sys \<Rightarrow> addr \<Rightarrow> irc_line \<Rightarrow> 'c proxy_network \<Rightarrow> (bool \<times> 'c proxy_network) res" where
  "client_forward_from_server sys a l n =
     bind_res (live (pn_heap n a)) (\<lambda>c.
     bind_res (case n_external_state n of
                 None \<Rightarrow> Inr None
               | Some s \<Rightarrow>
                   bind_res (deref (cl_state c)) (\<lambda>cs.
                   irc_line_replace_hostmask l (n_info n) (s_me s) (s_me cs))) (\<lambda>nl.
     on_client sys a (\<lambda>c. client_send_line (ps_now sys) (ps_io sys) c
                            (case nl of None \<Rightarrow> l | Some l' \<Rightarrow> l')) n))"

text \<open>
  The loop of \<open>clients_send\<close> reads the link of the list after sending: when the client was
  taken off the list meanwhile, the link is freed memory.
\<close>

fun clients_send_loop ::
    "('c, 'f) proxy_sys \<Rightarrow> irc_line \<Rightarrow> addr option \<Rightarrow> addr list \<Rightarrow> 'c proxy_network \<Rightarrow> 'c proxy_network res" where
  "clients_send_loop sys l exception [] n = Inr n"
| "clients_send_loop sys l exception (a # as) n =
     (if Some a = exception then clients_send_loop sys l exception as n
      else
        bind_res (client_forward_from_server sys a l n) (\<lambda>(_, n1).
        bind_res (guard_res (a \<in> set (pn_clients n1)) UseAfterFree) (\<lambda>_.
        clients_send_loop sys l exception as n1)))"

definition clients_send ::
    "('c, 'f) proxy_sys \<Rightarrow> irc_line \<Rightarrow> addr option \<Rightarrow> 'c proxy_network \<Rightarrow> 'c proxy_network res" where
  "clients_send sys l exception n = clients_send_loop sys l exception (pn_clients n) n"

definition clients_send_args_ex ::
    "('c, 'f) proxy_sys \<Rightarrow> string option \<Rightarrow> string option list \<Rightarrow> 'c proxy_network \<Rightarrow> 'c proxy_network res" where
  "clients_send_args_ex sys hostmask ap n = clients_send sys (virc_parse_line hostmask ap) None n"

text \<open>Calls that the query stack makes for its clients.\<close>

fun apply_refs :: "addr ref_call list \<Rightarrow> 'c proxy_network \<Rightarrow> 'c proxy_network res" where
  "apply_refs [] n = Inr n"
| "apply_refs (Ref_userdata a # cs) n =
     bind_res (live (pn_heap n a)) (\<lambda>c.
     apply_refs cs (n\<lparr>pn_heap := (pn_heap n)(a \<mapsto> client_ref c)\<rparr>))"
| "apply_refs (Unref_userdata a # cs) n =
     bind_res (live (pn_heap n a)) (\<lambda>c.
     bind_res (client_unref c) (\<lambda>r.
     apply_refs cs (n\<lparr>pn_heap := (pn_heap n)(a := r)\<rparr>)))"

end
