(* ===== verification/Network.thy ===== *)
theory Network
  imports Forward
begin

text \<open>
  \<open>src/network.c\<close> and \<open>src/nickserv.c\<close>: what the proxy does with the lines of a network. These
  are the callbacks of the connection of \<open>Connection\<close>; \<open>proxy_env\<close> puts them into its
  environment.
\<close>

section \<open>Network information\<close>

definition network_update_isupport :: "irc_network_info \<Rightarrow> irc_network_info \<Rightarrow> irc_network_info" where
  "network_update_isupport net_info remote_info =
     net_info\<lparr>
       ni_name := (if ni_name remote_info \<noteq> None then ni_name remote_info else ni_name net_info),
       ni_prefix := (if ni_prefix remote_info \<noteq> None then ni_prefix remote_info else ni_prefix net_info),
       ni_chantypes := (if ni_chantypes remote_info \<noteq> None then ni_chantypes remote_info
                        else ni_chantypes net_info),
       ni_casemapping := (if ni_casemapping remote_info \<noteq> CASEMAP_UNKNOWN then ni_casemapping remote_info
                          else ni_casemapping net_info),
       ni_supported_user_modes :=
         (if ni_supported_user_modes remote_info \<noteq> None then ni_supported_user_modes remote_info
          else ni_supported_user_modes net_info),
       ni_supported_channel_modes :=
         (if ni_supported_channel_modes remote_info \<noteq> None then ni_supported_channel_modes remote_info
          else ni_supported_channel_modes net_info)\<rparr>"

section \<open>Callbacks\<close>

definition get_login_details :: "('c, 'f) proxy_sys \<Rightarrow> 'c proxy_network \<Rightarrow> irc_login_details res" where
  "get_login_details sys n =
     (let nc = n_config n; cf = ps_config sys;
          user = (case nc_username nc of
                    Some u \<Rightarrow> Some u
                  | None \<Rightarrow> (case cf_default_username cf of Some u \<Rightarrow> Some u | None \<Rightarrow> Some (ps_user_name sys)));
          real = (case nc_fullname nc of
                    Some r \<Rightarrow> Some r
                  | None \<Rightarrow>
                      (case cf_default_realname cf of
                         Some r \<Rightarrow> Some r
                       | None \<Rightarrow> if Connection.filled (ps_real_name sys) then ps_real_name sys else user));
          nick = (case nc_nick nc of
                    Some x \<Rightarrow> Some x
                  | None \<Rightarrow> (case cf_default_nick cf of Some x \<Rightarrow> Some x | None \<Rightarrow> Some (ps_user_name sys))) in
      bind_res (if nc_type nc = NETWORK_TCP then
                  bind_res (deref (n_current_server n)) (\<lambda>a.
                  bind_res (live (map_of (nc_servers nc) a)) (\<lambda>cs. Inr (ts_password cs)))
                else Inr None) (\<lambda>server_pass.
      Inr \<lparr>ld_password = (case server_pass of Some p \<Rightarrow> Some p | None \<Rightarrow> nc_password nc),
           ld_nick = nick, ld_username = user, ld_mode = Some ''a'', ld_unused = Some ''a'',
           ld_realname = real\<rparr>))"

text \<open>Putting a line into the line stack, if there is one.\<close>

definition stack_insert ::
    "('c, 'f) proxy_sys \<Rightarrow> irc_line \<Rightarrow> data_direction \<Rightarrow> 'c proxy_network \<Rightarrow> bool \<times> 'c proxy_network" where
  "stack_insert sys l dir n =
     (if ps_linestack_insert sys l dir then (True, n\<lparr>pn_stack := pn_stack n @ [(l, dir)]\<rparr>) else (False, n))"

definition process_to_server ::
    "('c, 'f) proxy_sys \<Rightarrow> 'c proxy_network \<Rightarrow> irc_line \<Rightarrow> (bool \<times> 'c proxy_network) res" where
  "process_to_server sys n l =
     (let (pass, n1) = run_server_filter (ps_filter sys) (ps_filters sys) l TO_SERVER n in
      if \<not> pass then Inr (False, n1)
      else
        let n2 = snd (run_log_filter (ps_filter sys) (ps_filters sys) l TO_SERVER n1) in
        bind_res (guard_res (n_linestack n2) AssertFail) (\<lambda>_.
        Inr (True, snd (stack_insert sys l TO_SERVER n2))))"

text \<open>Running a function of \<open>libirc/client.c\<close> on all clients of the network.\<close>

fun heap_values :: "(addr \<rightharpoonup> 'c irc_client) \<Rightarrow> addr list \<Rightarrow> 'c irc_client list res" where
  "heap_values h [] = Inr []"
| "heap_values h (a # as) =
     bind_res (live (h a)) (\<lambda>c. bind_res (heap_values h as) (\<lambda>cs. Inr (c # cs)))"

fun put_clients ::
    "('c, 'f) proxy_sys \<Rightarrow> addr list \<Rightarrow> 'c irc_client list \<Rightarrow> 'c irc_client list \<Rightarrow> 'c proxy_network \<Rightarrow>
     'c proxy_network" where
  "put_clients sys (a # as) (b # bs) (c # cs) n = put_clients sys as bs cs (put_client sys a b c n)"
| "put_clients sys _ _ _ n = n"

definition on_clients ::
    "('c, 'f) proxy_sys \<Rightarrow> ('c irc_client list \<Rightarrow> (bool \<times> 'c irc_client list) res) \<Rightarrow> 'c proxy_network \<Rightarrow>
     (bool \<times> 'c proxy_network) res" where
  "on_clients sys f n =
     bind_res (heap_values (pn_heap n) (pn_clients n)) (\<lambda>cs.
     bind_res (f cs) (\<lambda>(ok, cs'). Inr (ok, put_clients sys (pn_clients n) cs cs' n)))"

text \<open>
  The configuration of the channels is updated from the state before it goes away; the model
  keeps the configuration as it is. The query stack releases its clients.
\<close>

definition drop_queries :: "'c proxy_network \<Rightarrow> 'c proxy_network res" where
  "drop_queries n =
     (case pn_queries n of
        None \<Rightarrow> Inr n
      | Some q \<Rightarrow>
          bind_res (apply_refs (snd (query_stack_clear q)) n) (\<lambda>n1. Inr (n1\<lparr>pn_queries := None\<rparr>)))"

definition handle_network_disconnect :: "('c, 'f) proxy_sys \<Rightarrow> 'c proxy_network \<Rightarrow> 'c proxy_network res" where
  "handle_network_disconnect sys n =
     bind_res (if n_state n = MOTD_RECVD then
                 bind_res (deref (n_external_state n)) (\<lambda>s.
                 bind_res (on_clients sys (clients_send_netsplit (ps_netsplit_fuel sys) (ps_now sys) (ps_io sys)
                             (ps_hostname sys) (ni_server (s_info s))) n) (\<lambda>(_, n1). Inr n1))
               else Inr n) (\<lambda>n1.
     bind_res (drop_queries n1) (\<lambda>n2.
     Inr (n2\<lparr>n_linestack := False\<rparr>)))"

definition handle_network_state_set :: "'c proxy_network \<Rightarrow> 'c proxy_network res" where
  "handle_network_state_set n = Inr (n\<lparr>n_linestack := True, pn_queries := Some new_query_stack\<rparr>)"

definition proxy_env ::
    "('c, 'f) proxy_sys \<Rightarrow> ('c, 'c proxy_network) net_env \<Rightarrow> ('c, 'c proxy_network) net_env" where
  "proxy_env sys env =
     env\<lparr>e_now := ps_now sys, e_io := ps_io sys, e_hostname := ps_hostname sys,
         cb_get_login_details := get_login_details sys, cb_process_to_server := process_to_server sys,
         cb_disconnect := Some (handle_network_disconnect sys), cb_state_set := Some handle_network_state_set\<rparr>"

section \<open>Nick services (\<open>nickserv.c\<close>)\<close>

text \<open>The first entry for a nick that is for all networks or for this one.\<close>

fun nickserv_find :: "irc_network_info \<Rightarrow> string option \<Rightarrow> string option \<Rightarrow> keyfile_entry list \<Rightarrow> string option res" where
  "nickserv_find info name nick [] = Inr None"
| "nickserv_find info name nick (e # es) =
     bind_res (irccmp_asserted info (Some (kf_nick e)) nick) (\<lambda>d.
     if d \<noteq> 0 then nickserv_find info name nick es
     else case kf_network e of
       None \<Rightarrow> Inr (kf_pass e)
     | Some net \<Rightarrow>
         bind_res (deref name) (\<lambda>nm.
         if g_ascii_strcasecmp net nm = 0 then Inr (kf_pass e) else nickserv_find info name nick es))"

definition nickserv_find_nick :: "'c proxy_network \<Rightarrow> string option \<Rightarrow> string option res" where
  "nickserv_find_nick n nick = nickserv_find (n_info n) (n_name n) nick (pn_nickserv n)"

definition nickserv_nick :: string where
  "nickserv_nick = ''NickServ''"

text \<open>
  Sending for this network: \<open>k\<close> bounds the depth of hangups, and the environment has the
  callbacks of this theory.
\<close>

type_synonym ('c, 'f) proxy = "('c, 'f) proxy_sys \<times> ('c, 'c proxy_network) net_env \<times> nat"

definition send_args ::
    "('c, 'f) proxy \<Rightarrow> string option list \<Rightarrow> 'c proxy_network \<Rightarrow> 'c proxy_network res" where
  "send_args p ap n =
     (case p of (sys, env, k) \<Rightarrow>
        bind_res (network_send_args (on_transport_hup k (proxy_env sys env)) (proxy_env sys env) n ap)
          (\<lambda>(_, n'). Inr n'))"

definition send_line ::
    "('c, 'f) proxy \<Rightarrow> addr option \<Rightarrow> irc_line \<Rightarrow> 'c proxy_network \<Rightarrow> (bool \<times> 'c proxy_network) res" where
  "send_line p c l n =
     (case p of (sys, env, k) \<Rightarrow>
        network_send_line (on_transport_hup k (proxy_env sys env)) (proxy_env sys env) n c l)"

definition nickserv_identify_me ::
    "('c, 'f) proxy \<Rightarrow> string option \<Rightarrow> 'c proxy_network \<Rightarrow> 'c proxy_network res" where
  "nickserv_identify_me p nick n =
     bind_res (deref (n_external_state n)) (\<lambda>s.
     if nn_modes (s_me s) (CHR ''R'') then Inr n
     else
       bind_res (nickserv_find_nick n nick) (\<lambda>pass.
       case pass of
         None \<Rightarrow> Inr n
       | Some pw \<Rightarrow> send_args p [Some ''PRIVMSG'', Some nickserv_nick, Some (''IDENTIFY '' @ pw)] n))"

text \<open>Whether an entry is the one to be updated with a new password.\<close>

definition nickserv_entry_matches :: "'c proxy_network \<Rightarrow> irc_network_state \<Rightarrow> string option \<Rightarrow> keyfile_entry \<Rightarrow> bool res" where
  "nickserv_entry_matches n s newpass e =
     (case kf_network e of
        Some net \<Rightarrow>
          bind_res (deref (n_name n)) (\<lambda>nm.
          if g_ascii_strcasecmp net nm \<noteq> 0 then Inr False
          else bind_res (deref (nn_nick (s_me s))) (\<lambda>nick. Inr (g_ascii_strcasecmp (kf_nick e) nick = 0)))
      | None \<Rightarrow>
          bind_res (irccmp_asserted (s_info s) (Some (kf_nick e)) (nn_nick (s_me s))) (\<lambda>d.
          if d \<noteq> 0 then Inr False
          else
            bind_res (deref (kf_pass e)) (\<lambda>old.
            bind_res (deref newpass) (\<lambda>new. Inr (strcmp old new = 0)))))"

text \<open>Updating the first entry that matches; the result tells whether there was one.\<close>

fun nickserv_update ::
    "(keyfile_entry \<Rightarrow> bool res) \<Rightarrow> string option \<Rightarrow> keyfile_entry list \<Rightarrow> keyfile_entry list option res" where
  "nickserv_update t newpass [] = Inr None"
| "nickserv_update t newpass (e # es) =
     bind_res (t e) (\<lambda>b.
     if b then
       (case kf_pass e of
          None \<Rightarrow> Inr (Some (e\<lparr>kf_pass := newpass\<rparr> # es))
        | Some old \<Rightarrow>
            bind_res (deref newpass) (\<lambda>new.
            Inr (Some ((if strcmp old new \<noteq> 0 then e\<lparr>kf_pass := newpass\<rparr> else e) # es))))
     else bind_res (nickserv_update t newpass es) (\<lambda>r. Inr (map_option (Cons e) r)))"

definition cache_nickserv_pass ::
    "ctrlproxy_config \<Rightarrow> string option \<Rightarrow> 'c proxy_network \<Rightarrow> 'c proxy_network res" where
  "cache_nickserv_pass cf newpass n =
     (if \<not> cf_learn_nickserv cf then Inr n
      else
        bind_res (deref (n_external_state n)) (\<lambda>s.
        bind_res (nickserv_update (nickserv_entry_matches n s newpass) newpass (pn_nickserv n)) (\<lambda>r.
        case r of
          Some es \<Rightarrow> Inr (n\<lparr>pn_nickserv := es\<rparr>)
        | None \<Rightarrow>
            bind_res (deref (nn_nick (s_me s))) (\<lambda>nick.
            Inr (n\<lparr>pn_nickserv := \<lparr>kf_nick = nick, kf_pass = newpass, kf_network = n_name n\<rparr> # pn_nickserv n\<rparr>)))))"

text \<open>
  The server filter of \<open>nickserv.c\<close>, one statement after the other. Its tests stop at the first
  that fails, and comparing a missing argument fails an assertion.
\<close>

definition words_equal :: "irc_network_info \<Rightarrow> irc_line \<Rightarrow> nat \<Rightarrow> string \<Rightarrow> bool res" where
  "words_equal info l i w =
     bind_res (arg l i) (\<lambda>a. bind_res (irccmp_asserted info a (Some w)) (\<lambda>d. Inr (d = 0)))"

definition and_res :: "bool res \<Rightarrow> bool res \<Rightarrow> bool res" where
  "and_res a b = bind_res a (\<lambda>x. if x then b else Inr False)"

definition or_res :: "bool res \<Rightarrow> bool res \<Rightarrow> bool res" where
  "or_res a b = bind_res a (\<lambda>x. if x then Inr True else b)"

definition nickserv_confirm ::
    "('c, 'f) proxy \<Rightarrow> data_direction \<Rightarrow> irc_line \<Rightarrow> 'c proxy_network \<Rightarrow> 'c proxy_network res" where
  "nickserv_confirm p dir l n =
     bind_res (and_res (Inr (dir = FROM_SERVER)) (and_res (words_equal (n_info n) l 0 ''NICK'')
         (case pn_nickattempt n of None \<Rightarrow> Inr False | Some x \<Rightarrow> words_equal (n_info n) l 1 x))) (\<lambda>b.
     if b then bind_res (arg l 1) (\<lambda>a1. nickserv_identify_me p a1 n) else Inr n)"

definition nickserv_attempt :: "data_direction \<Rightarrow> irc_line \<Rightarrow> 'c proxy_network \<Rightarrow> 'c proxy_network res" where
  "nickserv_attempt dir l n =
     bind_res (and_res (Inr (dir = TO_SERVER)) (words_equal (n_info n) l 0 ''NICK'')) (\<lambda>b.
     if b then bind_res (arg l 1) (\<lambda>a1. Inr (n\<lparr>pn_nickattempt := a1\<rparr>)) else Inr n)"

definition nickserv_learn_message ::
    "ctrlproxy_config \<Rightarrow> data_direction \<Rightarrow> irc_line \<Rightarrow> 'c proxy_network \<Rightarrow> 'c proxy_network res" where
  "nickserv_learn_message cf dir l n =
     bind_res (and_res (Inr (dir = TO_SERVER)) (and_res
         (or_res (words_equal (n_info n) l 0 ''PRIVMSG'') (words_equal (n_info n) l 0 ''NOTICE''))
         (and_res (words_equal (n_info n) l 1 nickserv_nick)
            (bind_res (arg l 2) (\<lambda>a2. bind_res (asserted a2) (\<lambda>t.
             Inr (ircncmp (Some (n_info n)) t ''IDENTIFY '' 9 = 0))))))) (\<lambda>b.
     if b then bind_res (sarg l 2) (\<lambda>t. cache_nickserv_pass cf (Some (drop 9 t)) n) else Inr n)"

definition nickserv_learn_command ::
    "ctrlproxy_config \<Rightarrow> data_direction \<Rightarrow> irc_line \<Rightarrow> 'c proxy_network \<Rightarrow> 'c proxy_network res" where
  "nickserv_learn_command cf dir l n =
     bind_res (and_res (Inr (dir = TO_SERVER)) (and_res (words_equal (n_info n) l 0 ''NS'')
         (words_equal (n_info n) l 1 ''IDENTIFY''))) (\<lambda>b.
     if b then bind_res (arg l 2) (\<lambda>a2. cache_nickserv_pass cf a2 n) else Inr n)"

definition nickserv_ghost ::
    "('c, 'f) proxy \<Rightarrow> data_direction \<Rightarrow> irc_line \<Rightarrow> 'c proxy_network \<Rightarrow> 'c proxy_network res" where
  "nickserv_ghost p dir l n =
     bind_res (if dir = FROM_SERVER then bind_res (sarg l 0) (\<lambda>a0. Inr (atol a0 = ERR_NICKNAMEINUSE))
               else Inr False) (\<lambda>b.
     if \<not> b then Inr n
     else
       bind_res (nickserv_find_nick n (pn_nickattempt n)) (\<lambda>pass.
       case (pn_nickattempt n, pass) of
         (Some nick, Some pw) \<Rightarrow>
           bind_res (send_args p [Some ''PRIVMSG'', Some nickserv_nick,
                                  Some (''GHOST '' @ nick @ '' '' @ pw)] n) (\<lambda>n1.
           send_args p [Some ''NICK'', Some nick] n1)
       | _ \<Rightarrow> Inr n))"

definition nickserv_log_data ::
    "('c, 'f) proxy \<Rightarrow> data_direction \<Rightarrow> irc_line \<Rightarrow> 'c proxy_network \<Rightarrow> (bool \<times> 'c proxy_network) res" where
  "nickserv_log_data p dir l n =
     (let cf = ps_config (fst p) in
      bind_res (nickserv_confirm p dir l n) (\<lambda>n1.
      bind_res (nickserv_attempt dir l n1) (\<lambda>n2.
      bind_res (nickserv_learn_message cf dir l n2) (\<lambda>n3.
      bind_res (nickserv_learn_command cf dir l n3) (\<lambda>n4.
      bind_res (nickserv_ghost p dir l n4) (\<lambda>n5. Inr (True, n5)))))))"

section \<open>Lines from the server\<close>

definition network_process_ctcp_request ::
    "('c, 'f) proxy \<Rightarrow> irc_line \<Rightarrow> 'c proxy_network \<Rightarrow> 'c proxy_network res" where
  "network_process_ctcp_request p l n =
     (let sys = fst p in
      if pn_clients n = [] then
        bind_res (ctcp_process_request (ps_ctcp_handlers sys) (ps_ctcp sys) l) (\<lambda>(_, replies).
        fold_res (\<lambda>r n. bind_res (send_line p None r n) (\<lambda>(_, n'). Inr n')) replies n)
      else clients_send sys l None n)"

text \<open>The nick is taken: another one is tried, and assumed.\<close>

definition retry_nick :: "('c, 'f) proxy \<Rightarrow> irc_line \<Rightarrow> 'c proxy_network \<Rightarrow> 'c proxy_network res" where
  "retry_nick p l n =
     bind_res (arg l 2) (\<lambda>a2.
     let tmp = printf_s a2 @ ''_'' in
     bind_res (send_args p [Some ''NICK'', Some tmp] n) (\<lambda>n1.
     bind_res (deref (n_external_state n1)) (\<lambda>s.
     Inr (n1\<lparr>n_external_state := Some (s\<lparr>s_me := network_nick_set_nick (s_me s) tmp\<rparr>)\<rparr>))))"

text \<open>The automatic commands are parsed; one without a command is NULL and fails an assertion.\<close>

definition send_autocmd :: "('c, 'f) proxy \<Rightarrow> string \<Rightarrow> 'c proxy_network \<Rightarrow> 'c proxy_network res" where
  "send_autocmd p cmd n =
     bind_res (asserted (irc_parse_line cmd)) (\<lambda>l. bind_res (send_line p None l n) (\<lambda>(_, n'). Inr n'))"

definition rejoin :: "('c, 'f) proxy \<Rightarrow> channel_config \<Rightarrow> 'c proxy_network \<Rightarrow> 'c proxy_network res" where
  "rejoin p c n = (if cc_autojoin c then send_args p [Some ''JOIN'', Some (cc_name c), cc_key c] n else Inr n)"

definition own_nick :: "'c proxy_network \<Rightarrow> string option res" where
  "own_nick n = bind_res (deref (n_external_state n)) (\<lambda>s. Inr (nn_nick (s_me s)))"

definition logged_in :: "('c, 'f) proxy \<Rightarrow> 'c proxy_network \<Rightarrow> 'c proxy_network res" where
  "logged_in p n =
     (case p of (sys, env, k) \<Rightarrow>
        let n1 = n\<lparr>n_state := MOTD_RECVD, n_config := (n_config n)\<lparr>nc_implicit := False\<rparr>\<rparr> in
        bind_res (network_set_charset (proxy_env sys env) n1 (get_charset (n_info n1))) (\<lambda>(_, n2).
        bind_res (deref (n_external_state n2)) (\<lambda>s.
        let n3 = n2\<lparr>n_info := network_update_isupport (n_info n2) (s_info s)\<rparr> in
        bind_res (nickserv_identify_me p (nn_nick (s_me s)) n3) (\<lambda>n4.
        bind_res (deref (n_external_state n4)) (\<lambda>s4.
        bind_res (on_clients sys (clients_send_state (ps_now sys) (ps_io sys) s4) n4) (\<lambda>(_, n5).
        bind_res (own_nick n5) (\<lambda>nick.
        bind_res (send_args p [Some ''USERHOST'', nick] n5) (\<lambda>n6.
        bind_res (fold_res (send_autocmd p) (nc_autocmd (n_config n6)) n6) (\<lambda>n7.
        fold_res (rejoin p) (nc_channels (n_config n7)) n7)))))))))"

text \<open>The special treatment of some lines, by their command or number.\<close>

definition react ::
    "('c, 'f) proxy \<Rightarrow> irc_line \<Rightarrow> string \<Rightarrow> 'c proxy_network \<Rightarrow> 'c proxy_network res" where
  "react p l a0 n =
     (let response = irc_line_respcode l in
      if base_eq a0 ''ERROR'' then Inr n
      else if response = ERR_NICKNAMEINUSE \<and> n_state n = LOGIN_SENT then retry_nick p l n
      else if response = RPL_ENDOFMOTD \<or> response = ERR_NOMOTD then logged_in p n
      else Inr n)"

definition deliver_reply ::
    "('c, 'f) proxy \<Rightarrow> irc_line \<Rightarrow> 'c proxy_network \<Rightarrow> (bool \<times> 'c proxy_network) res" where
  "deliver_reply p l n =
     (let sys = fst p in
      bind_res (deref (pn_queries n)) (\<lambda>q.
      bind_res (redirect_response q l) (\<lambda>(ret, dest, q', cs).
      bind_res (apply_refs cs (n\<lparr>pn_queries := Some q'\<rparr>)) (\<lambda>n1.
      case dest of
        Redirect.To_client a \<Rightarrow>
          bind_res (on_client sys a (\<lambda>c. client_send_line (ps_now sys) (ps_io sys) c l) n1) (\<lambda>(_, n2).
          Inr (ret, n2))
      | To_all \<Rightarrow> bind_res (clients_send sys l None n1) (\<lambda>n2. Inr (ret, n2))
      | To_none \<Rightarrow> Inr (ret, n1)))))"

definition network_of :: "'c proxy_network \<Rightarrow> addr \<rightharpoonup> addr option" where
  "network_of n a = map_option cl_network (pn_heap n a)"

text \<open>A message while nobody is connected: CTCP requests and answers. \<open>me\<close> is this network.\<close>

definition unattended :: "('c, 'f) proxy \<Rightarrow> addr \<Rightarrow> irc_line \<Rightarrow> string \<Rightarrow> 'c proxy_network \<Rightarrow> 'c proxy_network res" where
  "unattended p me l a0 n =
     (let ctcp = argc l > 2 \<and> first_char (args l ! 2) = CTCP_DELIM in
      if base_eq a0 ''PRIVMSG'' \<and> ctcp \<and> base_strncmp (args l ! 2) (CTCP_DELIM # ''ACTION'') 7 \<noteq> 0
      then network_process_ctcp_request p l n
      else if base_eq a0 ''NOTICE'' \<and> ctcp then
        bind_res (ctcp_network_redirect_response (network_of n) me (pn_ctcp_requests n) l) (\<lambda>(_, dest, q).
        let n1 = n\<lparr>pn_ctcp_requests := q\<rparr>; sys = fst p in
        case dest of
          None \<Rightarrow> Inr n1
        | Some a \<Rightarrow>
            bind_res (on_client sys a (\<lambda>c. client_send_line (ps_now sys) (ps_io sys) c l) n1) (\<lambda>(_, n2).
            Inr n2))
      else Inr n)"

definition attended :: "('c, 'f) proxy \<Rightarrow> irc_line \<Rightarrow> string \<Rightarrow> 'c proxy_network \<Rightarrow> 'c proxy_network res" where
  "attended p l a0 n =
     (let sys = fst p; (pass, n1) = run_server_filter (ps_filter sys) (ps_filters sys) l FROM_SERVER n in
      if \<not> pass then Inr n1
      else if a0 = ''PRIVMSG'' \<and> cf_report_time_always (ps_config sys) then
        bind_res (line_prefix_time l (ps_report_time sys)) (\<lambda>(_, nl). clients_send sys nl None n1)
      else clients_send sys l None n1)"

definition record_line :: "('c, 'f) proxy \<Rightarrow> irc_line \<Rightarrow> 'c proxy_network \<Rightarrow> 'c proxy_network" where
  "record_line p l n =
     (let (ok, n1) = stack_insert (fst p) l FROM_SERVER n in
      if \<not> ok then n1\<lparr>pn_linestack_errors := Suc (pn_linestack_errors n1)\<rparr>
      else if pn_linestack_errors n1 > 0 then n1\<lparr>pn_linestack_errors := 0\<rparr> else n1)"

definition distribute ::
    "('c, 'f) proxy \<Rightarrow> addr \<Rightarrow> irc_line \<Rightarrow> string \<Rightarrow> 'c proxy_network \<Rightarrow> 'c proxy_network res" where
  "distribute p me l a0 n =
     (if n_state n \<noteq> MOTD_RECVD then Inr n
      else
        bind_res (if irc_line_respcode l \<noteq> 0
                  then bind_res (deliver_reply p l n) (\<lambda>(ret, n1). Inr (\<not> ret, n1))
                  else if pn_clients n = [] then bind_res (unattended p me l a0 n) (\<lambda>n1. Inr (True, n1))
                  else bind_res (attended p l a0 n) (\<lambda>n1. Inr (True, n1))) (\<lambda>(store, n1).
        Inr (if store \<and> n_linestack n1 then record_line p l n1 else n1)))"

definition process_from_server ::
    "('c, 'f) proxy \<Rightarrow> addr \<Rightarrow> 'c proxy_network \<Rightarrow> irc_line \<Rightarrow> (bool \<times> 'c proxy_network) res" where
  "process_from_server p me n l0 =
     (let sys = fst p in
      if argc l0 = 0 then Inr (True, n)
      else
        let n0 = n\<lparr>n_last_line_recvd := ps_now sys\<rparr> in
        case n_external_state n0 of
          None \<Rightarrow> Inr (False, n0)
        | Some _ \<Rightarrow>
            let n1 = snd (run_log_filter (ps_filter sys) (ps_filters sys) l0 FROM_SERVER n0) in
            bind_res (asserted (n_external_state n1)) (\<lambda>s.
            bind_res (state_handle_data (ps_now sys) s l0) (\<lambda>(_, s').
            let n2 = n1\<lparr>n_external_state := Some s'\<rparr>; l = state_handle_data_line l0 in
            bind_res (sarg l 0) (\<lambda>a0.
            if base_eq a0 ''PING'' then
              bind_res (arg l 1) (\<lambda>a1. bind_res (send_args p [Some ''PONG'', a1] n2) (\<lambda>n3. Inr (True, n3)))
            else if base_eq a0 ''PONG'' then Inr (True, n2)
            else
              bind_res (react p l a0 n2) (\<lambda>n3.
              bind_res (distribute p me l a0 n3) (\<lambda>n4. Inr (True, n4)))))))"

section \<open>Lines from clients, networks by name\<close>

definition network_forward_line ::
    "('c, 'f) proxy \<Rightarrow> addr \<Rightarrow> irc_line \<Rightarrow> bool \<Rightarrow> 'c proxy_network \<Rightarrow> (bool \<times> 'c proxy_network) res" where
  "network_forward_line p c l is_private n =
     (let sys = fst p in
      bind_res (sarg l 0) (\<lambda>a0.
      bind_res (if \<not> is_private \<and> (base_eq a0 ''PRIVMSG'' \<or> base_eq a0 ''NOTICE'') then
                  bind_res (deref (n_external_state n)) (\<lambda>s.
                  let nl = l\<lparr>origin := nn_hostmask (s_me s)\<rparr> in
                  bind_res (if cf_report_time_always (ps_config sys)
                            then bind_res (line_prefix_time nl (ps_report_time sys)) (\<lambda>(_, nl'). Inr nl')
                            else Inr nl) (\<lambda>nl'.
                  clients_send sys nl' (Some c) n))
                else Inr n) (\<lambda>n1.
      bind_res (deref (pn_queries n1)) (\<lambda>q.
      bind_res (query_stack_record (ps_now sys) q c l) (\<lambda>(_, q', cs).
      bind_res (apply_refs cs (n1\<lparr>pn_queries := Some q'\<rparr>)) (\<lambda>n2.
      send_line p None l n2))))))"

text \<open>
  Whether a network goes by a host name and port: by its own name, or by one of its servers,
  whose port is a number or the name of a service. \<open>getservbyname\<close> gives the port of a service.
\<close>

definition server_matches :: "(string \<Rightarrow> int option) \<Rightarrow> string \<Rightarrow> int \<Rightarrow> tcp_server_config \<Rightarrow> bool" where
  "server_matches getservbyname hostname port sv \<longleftrightarrow>
     g_ascii_strcasecmp (ts_host sv) hostname = 0 \<and>
     (g_ascii_strcasecmp (ts_port sv) (show_int port) = 0 \<or> getservbyname (ts_port sv) = Some port)"

definition network_matches :: "(string \<Rightarrow> int option) \<Rightarrow> string \<Rightarrow> int \<Rightarrow> ('c, 'a) net \<Rightarrow> bool" where
  "network_matches getservbyname hostname port n \<longleftrightarrow>
     (case n_name n of None \<Rightarrow> False | Some x \<Rightarrow> g_ascii_strcasecmp x hostname = 0) \<or>
     nc_type (n_config n) = NETWORK_TCP \<and>
     (\<exists>sv\<in>set (nc_servers (n_config n)). server_matches getservbyname hostname port (snd sv))"

definition proxy_network_new :: "network_config \<Rightarrow> 'c proxy_network" where
  "proxy_network_new nc =
     irc_network.extend (irc_network_new nc)
       \<lparr>pn_heap = Map.empty, pn_clients = [], pn_queries = None, pn_ctcp_requests = [],
        pn_linestack_errors = 0, pn_stack = [], pn_nickserv = [], pn_nickattempt = None\<rparr>"

text \<open>A network is loaded once: one with the same name is used again.\<close>

definition load_network ::
    "ctrlproxy_config \<Rightarrow> 'c proxy_network list \<Rightarrow> network_config \<Rightarrow> ('c proxy_network \<times> 'c proxy_network list) res" where
  "load_network cf networks sc =
     bind_res (if networks = [] then Inr None
               else bind_res (deref (nc_name sc)) (\<lambda>name. Inr (find_network networks name))) (\<lambda>found.
     case found of
       Some net \<Rightarrow> Inr (net, networks)
     | None \<Rightarrow>
         let net = proxy_network_new sc;
             net1 = net\<lparr>n_info := (n_info net)\<lparr>ni_charset := cf_client_charset cf\<rparr>\<rparr> in
         Inr (net1, networks @ [net1]))"

fun load_networks ::
    "ctrlproxy_config \<Rightarrow> network_config list \<Rightarrow> 'c proxy_network list \<Rightarrow> 'c proxy_network list res" where
  "load_networks cf [] networks = Inr networks"
| "load_networks cf (nc # ncs) networks =
     bind_res (load_network cf networks nc) (\<lambda>(_, networks'). load_networks cf ncs networks')"

text \<open>The configuration of a network that is created for a host name; \<open>a\<close> is its new server.\<close>

definition implicit_config :: "addr \<Rightarrow> string \<Rightarrow> int \<Rightarrow> irc_login_details option \<Rightarrow> network_config" where
  "implicit_config a hostname port login =
     \<lparr>nc_name = Some hostname, nc_autoconnect = False, nc_implicit = True, nc_type = NETWORK_TCP,
      nc_servers = [(a, \<lparr>ts_host = hostname, ts_port = show_int port, ts_ssl = False,
                        ts_bind_address = None, ts_password = None\<rparr>)],
      nc_program_location = [], nc_virtual_name = None, nc_reconnect_interval = 0xFFFFFFFF,
      nc_nick = Option.bind login ld_nick, nc_username = Option.bind login ld_username,
      nc_fullname = Option.bind login ld_realname, nc_password = Option.bind login ld_password,
      nc_autocmd = [], nc_channels = [], nc_disable_cache = False, nc_ignore_first_nick = False\<rparr>"

definition find_network_by_hostname ::
    "(string \<Rightarrow> int option) \<Rightarrow> ctrlproxy_config \<Rightarrow> addr \<Rightarrow> 'c proxy_network list \<Rightarrow> string \<Rightarrow> int \<Rightarrow> bool \<Rightarrow>
     irc_login_details option \<Rightarrow> ('c proxy_network option \<times> 'c proxy_network list) res" where
  "find_network_by_hostname getservbyname cf a networks hostname port create login =
     (case List.find (network_matches getservbyname hostname port) networks of
        Some n \<Rightarrow> Inr (Some n, networks)
      | None \<Rightarrow>
          if create then
            bind_res (load_network cf networks (implicit_config a hostname port login)) (\<lambda>(n, networks').
            Inr (Some n, networks'))
          else Inr (None, networks))"

text \<open>All clients of a network are disconnected, and the reference of the list is dropped.\<close>

definition unload_network ::
    "('c, 'f) proxy_sys \<Rightarrow> 'c proxy_network \<Rightarrow> 'c proxy_network option res" where
  "unload_network sys n =
     bind_res (fold_res (\<lambda>a n.
         bind_res (on_client sys a (\<lambda>c. bind_res (client_disconnect (ps_now sys) (ps_io sys) c
             (Some ''Server exiting'')) (\<lambda>c'. Inr (True, c'))) n) (\<lambda>(_, n'). Inr n')) (pn_clients n) n) (\<lambda>n1.
     Inr (irc_network_unref n1))"

end
