(* ===== verification/Proxy.thy ===== *)
theory Proxy
  imports Network
begin

text \<open>
  \<open>src/client.c\<close>: what the proxy does with the lines of a client, and how a client that has
  logged in is welcomed. A client is given by its address in the heap of the network.
\<close>

section \<open>Lines from clients\<close>

text \<open>Answering a client with a reply or a line.\<close>

definition respond ::
    "('c, 'f) proxy \<Rightarrow> addr \<Rightarrow> int \<Rightarrow> string option list \<Rightarrow> 'c proxy_network \<Rightarrow> 'c proxy_network res" where
  "respond p a response ap n =
     (let sys = fst p in
      bind_res (on_client sys a (\<lambda>c. client_send_response (ps_now sys) (ps_io sys) c response ap) n) (\<lambda>(_, n').
      Inr n'))"

definition disconnect_client ::
    "('c, 'f) proxy \<Rightarrow> addr \<Rightarrow> string \<Rightarrow> 'c proxy_network \<Rightarrow> 'c proxy_network res" where
  "disconnect_client p a reason n =
     (let sys = fst p in
      bind_res (on_client sys a (\<lambda>c. bind_res (client_disconnect (ps_now sys) (ps_io sys) c (Some reason))
          (\<lambda>c'. Inr (True, c'))) n) (\<lambda>(_, n'). Inr n'))"

definition handle_offline_command ::
    "('c, 'f) proxy \<Rightarrow> addr \<Rightarrow> irc_line \<Rightarrow> string \<Rightarrow> 'c proxy_network \<Rightarrow> 'c proxy_network res" where
  "handle_offline_command p a l reason n =
     bind_res (sarg l 0) (\<lambda>a0.
     if base_eq a0 ''PRIVMSG'' \<or> base_eq a0 ''NOTICE'' then
       bind_res (arg l 1) (\<lambda>a1. respond p a ERR_NOSUCHNICK [a1, Some reason] n)
     else if base_eq a0 ''JOIN'' then
       bind_res (arg l 1) (\<lambda>a1. respond p a ERR_NOSUCHCHANNEL [a1, Some reason] n)
     else if base_eq a0 ''PART'' then
       bind_res (arg l 1) (\<lambda>a1. respond p a ERR_NOTONCHANNEL [a1, Some reason] n)
     else respond p a ERR_UNKNOWNCOMMAND [Some a0, Some reason] n)"

text \<open>
  What a line is about, in the order of the tests of \<open>process_from_client\<close>. The comparison of a
  missing argument with the name of the administration user violates what GLib asks for.
\<close>

datatype client_line_kind =
    Line_quit | Line_ping | Line_pong | Line_register | Line_admin nat | Line_ctcp_request
  | Line_ctcp_answer | Line_empty | Line_other

definition is_ctcp :: "irc_line \<Rightarrow> bool" where
  "is_ctcp l \<longleftrightarrow> argc l > 2 \<and> first_char (args l ! 2) = CTCP_DELIM"

definition line_kind :: "ctrlproxy_config \<Rightarrow> irc_line \<Rightarrow> string \<Rightarrow> client_line_kind res" where
  "line_kind cf l a0 =
     (let rest =
        (if base_eq a0 ''PRIVMSG'' \<and> is_ctcp l \<and> base_strncmp (args l ! 2) (CTCP_DELIM # ''ACTION'') 7 \<noteq> 0
         then Line_ctcp_request
         else if base_eq a0 ''NOTICE'' \<and> is_ctcp l then Line_ctcp_answer
         else if base_eq a0 [] then Line_empty
         else Line_other) in
      if base_eq a0 ''QUIT'' then Inr Line_quit
      else if base_eq a0 ''PING'' then Inr Line_ping
      else if base_eq a0 ''PONG'' then Inr Line_pong
      else if base_eq a0 ''USER'' \<or> base_eq a0 ''PASS'' then Inr Line_register
      else if base_eq a0 ''CTRLPROXY'' then Inr (Line_admin 1)
      else
        case cf_admin_user cf of
          None \<Rightarrow> Inr rest
        | Some admin \<Rightarrow>
            if base_eq a0 ''PRIVMSG'' then
              bind_res (arg l 1) (\<lambda>a1.
              case a1 of
                None \<Rightarrow> Inl BadArgument
              | Some x \<Rightarrow> Inr (if base_eq x admin then Line_admin 2 else rest))
            else Inr rest)"

text \<open>The administration interface acts on the network; it is a parameter.\<close>

type_synonym 'c admin_fn = "addr \<Rightarrow> irc_line \<Rightarrow> nat \<Rightarrow> 'c proxy_network \<Rightarrow> 'c proxy_network res"

definition forward_other ::
    "('c, 'f) proxy \<Rightarrow> addr \<Rightarrow> irc_line \<Rightarrow> 'c proxy_network \<Rightarrow> 'c proxy_network res" where
  "forward_other p a l n =
     (let sys = fst p in
      if n_state n = MOTD_RECVD then
        bind_res (if nc_disable_cache (n_config n) then Inr (False, n)
                  else on_client sys a (\<lambda>c. client_try_cache (ps_now sys) (ps_io sys) c (n_external_state n) l
                         (cf_cache (ps_config sys))) n) (\<lambda>(answered, n1).
        if answered then Inr n1
        else bind_res (network_forward_line p a l False n1) (\<lambda>(_, n2). Inr n2))
      else if n_state n = NOT_CONNECTED then
        handle_offline_command p a l
          (''Currently not connected to server...'' @
           (case n_last_disconnect_reason n of None \<Rightarrow> [] | Some r \<Rightarrow> '' ('' @ r @ '')'')) n
      else Inr n)"

text \<open>The branches of \<open>process_from_client\<close>; all but the first tell the transport to go on.\<close>

definition act_on_line ::
    "('c, 'f) proxy \<Rightarrow> 'c admin_fn \<Rightarrow> addr \<Rightarrow> 'c irc_client \<Rightarrow> irc_line \<Rightarrow> string \<Rightarrow> client_line_kind \<Rightarrow>
     'c proxy_network \<Rightarrow> 'c proxy_network res" where
  "act_on_line p admin a c l a0 kind n =
     (let sys = fst p in
      case kind of
        Line_quit \<Rightarrow> disconnect_client p a ''Client exiting'' n
      | Line_ping \<Rightarrow>
          bind_res (arg l 1) (\<lambda>a1.
          bind_res (on_client sys a (\<lambda>c. client_send_args (ps_now sys) (ps_io sys) c
              [Some ''PONG'', n_name n, a1]) n) (\<lambda>(_, n1). Inr n1))
      | Line_pong \<Rightarrow>
          if argc l < 2
          then respond p a ERR_NEEDMOREPARAMS [Some a0, Some ''Not enough parameters''] n
          else Inr (n\<lparr>pn_heap := (pn_heap n)(a \<mapsto> c\<lparr>cl_last_pong := ps_now sys\<rparr>)\<rparr>)
      | Line_register \<Rightarrow> respond p a ERR_ALREADYREGISTERED [Some ''Please register only once per session''] n
      | Line_admin i \<Rightarrow> admin a l i n
      | Line_ctcp_request \<Rightarrow>
          bind_res (ctcp_client_request_record (n_info n) (pn_ctcp_requests n) a l) (\<lambda>(_, q).
          bind_res (network_forward_line p a l True (n\<lparr>pn_ctcp_requests := q\<rparr>)) (\<lambda>(_, n1). Inr n1))
      | Line_ctcp_answer \<Rightarrow> bind_res (network_forward_line p a l True n) (\<lambda>(_, n1). Inr n1)
      | Line_empty \<Rightarrow> Inr n
      | Line_other \<Rightarrow> forward_other p a l n)"

definition process_from_client ::
    "('c, 'f) proxy \<Rightarrow> 'c admin_fn \<Rightarrow> addr \<Rightarrow> irc_line \<Rightarrow> 'c proxy_network \<Rightarrow> (bool \<times> 'c proxy_network) res" where
  "process_from_client p admin a l0 n =
     bind_res (live (pn_heap n a)) (\<lambda>c.
     bind_res (deref (cl_state c)) (\<lambda>cs.
     let l = l0\<lparr>origin := nn_hostmask (s_me cs)\<rparr> in
     bind_res (arg l 0) (\<lambda>a0'. bind_res (asserted a0') (\<lambda>a0.
     bind_res (line_kind (ps_config (fst p)) l a0) (\<lambda>kind.
     bind_res (act_on_line p admin a c l a0 kind n) (\<lambda>n1. Inr (kind \<noteq> Line_quit, n1)))))))"

section \<open>Welcoming a client\<close>

definition ALLMODES :: string where
  "ALLMODES = ''aAbBcCdDeEfFgGhHiIjJkKlLmMnNoOpPqQrRsStTuUvVwWxXyYzZ''"

text \<open>
  \<open>get_motd_lines\<close> reads a file; its result is a parameter. \<open>version\<close> is the version of the
  program. The author's name in the third reply has a letter outside ASCII, written with its
  bytes.
\<close>

definition created_text :: string where
  "created_text = ''Ctrlproxy (c) 2002-2009 Jelmer Vernoo'' @ [CHR 0xC4, CHR 0xB3] @ '' <jelmer@jelmer.uk>''"

definition welcome_replies ::
    "('c, 'f) proxy \<Rightarrow> string \<Rightarrow> addr \<Rightarrow> 'c proxy_network \<Rightarrow> 'c proxy_network res" where
  "welcome_replies p version a n =
     bind_res (live (pn_heap n a)) (\<lambda>c.
     let online = (n_external_state n \<noteq> None);
         modes = (\<lambda>m. if online \<and> m \<noteq> None then m else Some ALLMODES) in
     bind_res (respond p a RPL_WELCOME [Some ''Welcome to the ctrlproxy''] n) (\<lambda>n1.
     bind_res (respond p a RPL_YOURHOST
                 [Some (''Host '' @ printf_s (cl_default_origin c) @ '' is running ctrlproxy'')] n1) (\<lambda>n2.
     bind_res (respond p a RPL_CREATED [Some created_text] n2) (\<lambda>n3.
     bind_res (respond p a RPL_MYINFO [n_name n3, Some version, modes (ni_supported_user_modes (n_info n3)),
                 modes (ni_supported_channel_modes (n_info n3))] n3) (\<lambda>n4.
     respond p a RPL_BOUNCE [Some (network_info_string (n_info n4)), Some ''are supported on this server''] n4)))))"

definition welcome_counts ::
    "('c, 'f) proxy \<Rightarrow> string list option \<Rightarrow> addr \<Rightarrow> 'c proxy_network \<Rightarrow> 'c proxy_network res" where
  "welcome_counts p motd a n =
     (let sys = fst p in
      bind_res (case n_external_state n of
                  None \<Rightarrow> Inr n
                | Some s \<Rightarrow>
                    bind_res (on_client sys a (client_send_luserchannels (ps_now sys) (ps_io sys)
                        (int (length (s_channels s)))) n) (\<lambda>(_, n'). Inr n')) (\<lambda>n1.
      bind_res (respond p a RPL_LUSERME
                  [Some (''I have '' @ show_int (int (length (pn_clients n1))) @ '' clients'')] n1) (\<lambda>n2.
      bind_res (on_client sys a (client_send_motd (ps_now sys) (ps_io sys)
          (case cf_motd_file (ps_config sys) of
             None \<Rightarrow> None | Some f \<Rightarrow> if f = [] then None else motd)) n2) (\<lambda>(_, n3). Inr n3))))"

text \<open>The client is told the nick it has on the network, and the network the one it wants.\<close>

definition welcome_nick :: "('c, 'f) proxy \<Rightarrow> addr \<Rightarrow> 'c proxy_network \<Rightarrow> 'c proxy_network res" where
  "welcome_nick p a n =
     (let sys = fst p in
      bind_res (live (pn_heap n a)) (\<lambda>c.
      bind_res (asserted (cl_state c)) (\<lambda>cs.
      case n_external_state n of
        None \<Rightarrow> Inr n
      | Some s \<Rightarrow>
          bind_res (irccmp_asserted (s_info cs) (nn_nick (s_me cs)) (nn_nick (s_me s))) (\<lambda>d.
          if d = 0 then Inr n
          else
            bind_res (on_client sys a (\<lambda>c. client_send_args_ex (ps_now sys) (ps_io sys) c
                (nn_hostmask (s_me cs)) [Some ''NICK'', nn_nick (s_me s)]) n) (\<lambda>(_, n1).
            if nc_ignore_first_nick (n_config n1) then Inr n1
            else send_args p [Some ''NICK'', ld_nick (cl_login_details c)] n1)))))"

text \<open>
  \<open>hook\<close> is the result of the hooks for new clients, \<open>repl\<close> what \<open>client_replicate\<close> does; the
  client has this network.
\<close>

definition welcome_client ::
    "('c, 'f) proxy \<Rightarrow> string \<Rightarrow> string list option \<Rightarrow> (addr \<Rightarrow> 'c proxy_network \<Rightarrow> bool \<times> 'c proxy_network) \<Rightarrow>
     (addr \<Rightarrow> 'c proxy_network \<Rightarrow> 'c proxy_network res) \<Rightarrow> addr \<Rightarrow> 'c proxy_network \<Rightarrow>
     (bool \<times> 'c proxy_network) res" where
  "welcome_client p version motd hook repl a n =
     bind_res (welcome_replies p version a (n\<lparr>pn_clients := pn_clients n @ [a]\<rparr>)) (\<lambda>n1.
     bind_res (welcome_counts p motd a n1) (\<lambda>n2.
     bind_res (welcome_nick p a n2) (\<lambda>n3.
     let (ok, n4) = hook a n3 in
     if \<not> ok then
       bind_res (disconnect_client p a ''Refused by client connect hook'' n4) (\<lambda>n5. Inr (False, n5))
     else bind_res (repl a n4) (\<lambda>n5. Inr (True, n5)))))"

end
