(* ===== verification/Network_Spec.thy ===== *)
theory Network_Spec
  imports Proxy
begin

text \<open>
  Properties of the proxy between its clients and a network: the callbacks of
  \<open>Network\<close> keep the contract of the connection, lines of clients reach the server and replies
  come back to whoever asked, and masks are replaced where a client would see a foreign one.
\<close>

section \<open>The callbacks leave the connection alone\<close>

definition calm :: "('c, 'a) net \<Rightarrow> ('c, 'a) net \<Rightarrow> bool" where
  "calm n n' \<longleftrightarrow> kept n n' \<and> n_linestack n' = n_linestack n"

lemma calm_trans: "calm a b \<Longrightarrow> calm b c \<Longrightarrow> calm a c"
  by (auto simp: calm_def intro: kept_trans)

lemma calm_right: "calm a b \<Longrightarrow> calm b b"
  by (auto simp: calm_def intro: kept_right)

lemma calm_kept: "calm a b \<Longrightarrow> kept b b"
  by (auto simp: calm_def intro: kept_right)

lemma calm_refl: "kept n n \<Longrightarrow> calm n n"
  by (simp add: calm_def)

text \<open>The fields that the program adds are not looked at by the connection.\<close>

lemma calm_upd [simp]:
  "calm m (n\<lparr>pn_heap := h\<rparr>) = calm m n"
  "calm m (n\<lparr>pn_clients := cs\<rparr>) = calm m n"
  "calm m (n\<lparr>pn_queries := q\<rparr>) = calm m n"
  "calm m (n\<lparr>pn_stack := s\<rparr>) = calm m n"
  "calm m (n\<lparr>pn_ctcp_requests := r\<rparr>) = calm m n"
  "calm m (n\<lparr>pn_linestack_errors := i\<rparr>) = calm m n"
  by (simp_all add: calm_def kept_def)

text \<open>
  The surroundings of the program: channels and the calls that set up a connection work as
  documented, and filters and hooks may use the network but leave its connection as it is.
\<close>

locale proxy_system =
  fixes sys :: "('c, 'f) proxy_sys" and env :: "('c, 'c proxy_network) net_env"
  assumes sys_channel: "channel_ok (ps_io sys)"
    and sys_no_eof: "fst (write_chars (ps_io sys) c t) \<noteq> IO_EOF"
    and sys_tls: "e_ssl_wrap env c h \<noteq> None"
    and sys_encoding: "e_set_encoding env c"
    and sys_flags: "e_set_flags env c"
    and sys_hostname: "ps_hostname sys \<noteq> None"
    and filters_calm: "kept n n \<Longrightarrow> calm n (snd (ps_filter sys f dir l n))"
    and hooks_calm: "kept n n \<Longrightarrow> calm n (ps_lose_client sys a n)"
begin

lemma filter_chain_calm:
  "kept n n \<Longrightarrow> calm n (snd (filter_class_execute (ps_filter sys) ds dir l n))"
proof (induction ds arbitrary: n)
  case Nil
  then show ?case by (simp add: calm_refl)
next
  case (Cons d ds)
  obtain b n1 where d: "ps_filter sys (fd_function d) dir l n = (b, n1)" by fastforce
  have "calm n n1" using filters_calm [OF Cons.prems, of "fd_function d" dir l] d by simp
  then show ?case
    using Cons.IH [of n1] d by (auto simp: calm_def intro: kept_trans kept_right split: bool.split)
qed

lemma put_client_calm: "calm m n \<Longrightarrow> calm m (put_client sys a b c n)"
proof -
  assume n: "calm m n"
  have "calm m (ps_lose_client sys a (n\<lparr>pn_heap := h\<rparr>))" for h
  proof -
    have h: "calm m (n\<lparr>pn_heap := h\<rparr>)" using n by simp
    show ?thesis by (rule calm_trans [OF h hooks_calm [OF calm_kept [OF h]]])
  qed
  then show ?thesis
    using n by (simp add: put_client_def handle_client_disconnect_def Let_def)
qed

lemma put_clients_calm: "calm m n \<Longrightarrow> calm m (put_clients sys as bs cs n)"
proof (induction as arbitrary: bs cs n)
  case (Cons a as)
  then show ?case by (cases bs; cases cs) (simp_all add: put_client_calm)
qed simp

lemma on_client_calm: "calm m n \<Longrightarrow> safe {} (\<lambda>(_, n'). calm m n') (on_client sys a f n)"
  unfolding on_client_def
  by (rule safe_bind_any [OF _ safe_bind_any]) (auto simp: put_client_calm safe_def split: sum.split)

lemma on_clients_calm: "calm m n \<Longrightarrow> safe {} (\<lambda>(_, n'). calm m n') (on_clients sys f n)"
  unfolding on_clients_def
  by (rule safe_bind_any [OF _ safe_bind_any]) (auto simp: put_clients_calm safe_def split: sum.split)

lemma apply_refs_calm: "calm m n \<Longrightarrow> safe {} (calm m) (apply_refs cs n)"
proof (induction cs n rule: apply_refs.induct)
  case (2 a cs n)
  then show ?case by (cases "pn_heap n a") simp_all
next
  case (3 a cs n)
  then show ?case
    by (cases "pn_heap n a"; cases "client_unref (the (pn_heap n a))") simp_all
qed simp

lemma drop_queries_calm: "calm m n \<Longrightarrow> safe {} (calm m) (drop_queries n)"
  unfolding drop_queries_def
  by (auto intro!: safe_bind [OF apply_refs_calm] split: option.split)

lemma to_server_calm:
  assumes "kept n n" "n_linestack n"
  shows "safe F (\<lambda>(_, n'). kept n n' \<and> n_linestack n') (process_to_server sys n l)"
proof -
  obtain b n1 where n1: "run_server_filter (ps_filter sys) (ps_filters sys) l TO_SERVER n = (b, n1)"
    by fastforce
  have c1: "calm n n1"
    using filter_chain_calm [OF assms(1), of "server_filters (ps_filters sys)" TO_SERVER l] n1
    by (simp add: run_server_filter_def)
  let ?n2 = "snd (run_log_filter (ps_filter sys) (ps_filters sys) l TO_SERVER n1)"
  have "calm n1 ?n2"
    unfolding run_log_filter_def by (rule filter_chain_calm [OF calm_kept [OF c1]])
  then have c2: "calm n ?n2" by (rule calm_trans [OF c1])
  then have "calm n (snd (stack_insert sys l TO_SERVER ?n2))" by (simp add: stack_insert_def)
  then show ?thesis
    using n1 c1 c2 assms(2) by (simp add: process_to_server_def calm_def)
qed

lemma network_disconnect_kept:
  assumes "kept n n"
  shows "safe {} (kept n) (handle_network_disconnect sys n)"
proof -
  have "safe {} (calm n) (if n_state n = MOTD_RECVD then
      bind_res (deref (n_external_state n)) (\<lambda>s.
      bind_res (on_clients sys (clients_send_netsplit (ps_netsplit_fuel sys) (ps_now sys) (ps_io sys)
                  (ps_hostname sys) (ni_server (s_info s))) n) (\<lambda>(_, n1). Inr n1))
      else Inr n)"
    by (auto simp: calm_refl [OF assms] intro!: safe_bind_any [where m = "deref _"]
        safe_bind [OF on_clients_calm [OF calm_refl [OF assms]]] safe_deref)
  then show ?thesis
    unfolding handle_network_disconnect_def
    by (rule safe_bind) (auto intro!: safe_bind [OF drop_queries_calm] simp: calm_def kept_def)
qed

end

text \<open>The callbacks of the proxy are ones that a connection can rely on.\<close>

sublocale proxy_system \<subseteq> conn: network_env "{}" "proxy_env sys env"
proof
  show "channel_ok (e_io (proxy_env sys env))" by (simp add: proxy_env_def sys_channel)
next
  fix n :: "'c proxy_network" and l
  assume "kept n n" "n_linestack n"
  then show "safe {} (\<lambda>(_, n'). kept n n' \<and> n_linestack n') (cb_process_to_server (proxy_env sys env) n l)"
    using to_server_calm by (simp add: proxy_env_def)
next
  fix n :: "'c proxy_network" and f
  assume "cb_disconnect (proxy_env sys env) = Some f" "kept n n"
  then show "safe {} (kept n) (f n)"
    using network_disconnect_kept [of n] by (auto simp: proxy_env_def)
next
  fix n :: "'c proxy_network"
  assume "kept n n"
  then show "safe {} (\<lambda>n'. kept n n' \<and> n_linestack n') (call_optional (cb_state_set (proxy_env sys env)) n)"
    by (simp add: proxy_env_def call_optional_def handle_network_state_set_def kept_def)
qed (auto simp: proxy_env_def sys_no_eof sys_tls sys_encoding sys_flags sys_hostname safe_def split: sum.split)

section \<open>Lines in both directions keep the invariant of the connection\<close>

lemma inv_kept: "conn_inv n \<Longrightarrow> kept n n"
  by (cases "n_state n") (auto simp: conn_inv_def resources_def disconnected_def online_def kept_def)

lemma inv_calm:
  assumes "calm n n'" "conn_inv n"
  shows "conn_inv n'"
proof (cases "n_linestack n'")
  case True
  then show ?thesis using assms kept_inv by (auto simp: calm_def)
next
  case False
  then show ?thesis
    using assms kept_fields [of n n'] kept_present [of n n'] kept_basic [of n n']
    by (cases "n_state n")
      (auto simp: calm_def conn_inv_def resources_def disconnected_def names_set_def online_def own_sources_def)
qed

lemma inv_upd [simp]:
  "conn_inv (n\<lparr>pn_heap := h\<rparr>) = conn_inv n"
  "conn_inv (n\<lparr>pn_clients := cs\<rparr>) = conn_inv n"
  "conn_inv (n\<lparr>pn_queries := q\<rparr>) = conn_inv n"
  "conn_inv (n\<lparr>pn_stack := s\<rparr>) = conn_inv n"
  "conn_inv (n\<lparr>pn_ctcp_requests := r\<rparr>) = conn_inv n"
  "conn_inv (n\<lparr>pn_linestack_errors := i\<rparr>) = conn_inv n"
  "conn_inv (n\<lparr>pn_nickserv := ks\<rparr>) = conn_inv n"
  "conn_inv (n\<lparr>pn_nickattempt := x\<rparr>) = conn_inv n"
  "conn_inv (n\<lparr>n_info := ni\<rparr>) = conn_inv n"
  "conn_inv (n\<lparr>n_last_line_recvd := t\<rparr>) = conn_inv n"
  by (cases "n_state n";
      simp add: conn_inv_def conn_basic_def server_known_def resources_def own_sources_def disconnected_def
        names_set_def online_def)+

lemma inv_new_state:
  assumes "conn_inv n" "n_external_state n = Some s" "wf_graph s'"
  shows "conn_inv (n\<lparr>n_external_state := Some s'\<rparr>)"
proof -
  have "calm n (n\<lparr>n_external_state := Some s'\<rparr>)"
    using inv_kept [OF assms(1)] assms(2,3) by (simp add: calm_def kept_def)
  then show ?thesis by (rule inv_calm [OF _ assms(1)])
qed

lemma inv_state: "conn_inv n \<Longrightarrow> n_external_state n = Some s \<Longrightarrow> wf_graph s"
  using inv_kept by (fastforce simp: kept_def)

lemma wf_set_me_nick: "wf_graph s \<Longrightarrow> wf_graph (s\<lparr>s_me := network_nick_set_nick (s_me s) x\<rparr>)"
  using wf_set_nick_obj [of s Me "s_me s" "network_nick_set_nick (s_me s) x"] wf_graph_me [of s]
  by (simp add: set_nick_obj_def)

lemma set_charset_tr_ok: "tr_ok tr \<Longrightarrow> tr_ok (snd (transport_set_charset ic tr name))"
  by (auto simp: tr_ok_def transport_set_charset_def irc_transport_iochannel_set_charset_def transport_inv_def
      irc_transport_iochannel_is_connected_def Let_def split: option.splits prod.splits)

lemma set_charset_calm:
  assumes "network_set_charset env n name = Inr (ok, n')" "kept n n"
  shows "calm n n'"
proof -
  obtain tr where tr: "n_transport n = Some tr"
    and n': "n' = n\<lparr>n_transport := Some (snd (transport_set_charset (e_iconv_open env) tr name))\<rparr>"
    using assms(1) by (auto simp: network_set_charset_def case_prod_beta)
  have "tr_ok tr" using assms(2) tr by (simp add: kept_def)
  then show ?thesis using assms(2) tr set_charset_tr_ok by (simp add: n' calm_def kept_def)
qed

lemma inv_motd:
  assumes "conn_inv n" "n_external_state n \<noteq> None"
  shows "conn_inv (n\<lparr>n_state := MOTD_RECVD, n_config := (n_config n)\<lparr>nc_implicit := b\<rparr>\<rparr>)"
  using assms
  by (cases "n_state n")
    (auto simp: conn_inv_def conn_basic_def server_known_def resources_def own_sources_def disconnected_def
      names_set_def online_def)

context proxy_system
begin

lemma conn_env: "network_env {} (proxy_env sys env)"
  by (rule conn.network_env_axioms)

lemma on_client_inv: "on_client sys a f n = Inr (b, n') \<Longrightarrow> conn_inv n \<Longrightarrow> conn_inv n'"
  using safe_InrD [OF on_client_calm [OF calm_refl [OF inv_kept]]] inv_calm by fastforce

lemma on_clients_inv: "on_clients sys f n = Inr (b, n') \<Longrightarrow> conn_inv n \<Longrightarrow> conn_inv n'"
  using safe_InrD [OF on_clients_calm [OF calm_refl [OF inv_kept]]] inv_calm by fastforce

lemma apply_refs_inv: "apply_refs cs n = Inr n' \<Longrightarrow> conn_inv n \<Longrightarrow> conn_inv n'"
  using safe_InrD [OF apply_refs_calm [OF calm_refl [OF inv_kept]]] inv_calm by fastforce

lemma filters_inv:
  "run_server_filter (ps_filter sys) fl l dir n = (b, n') \<Longrightarrow> conn_inv n \<Longrightarrow> conn_inv n'"
  "conn_inv n \<Longrightarrow> conn_inv (snd (run_log_filter (ps_filter sys) fl l dir n))"
  using inv_calm [OF filter_chain_calm [OF inv_kept, of n]]
  unfolding run_server_filter_def run_log_filter_def by (metis snd_conv, blast)

lemma forward_inv: "client_forward_from_server sys a l n = Inr (b, n') \<Longrightarrow> conn_inv n \<Longrightarrow> conn_inv n'"
  by (auto simp: client_forward_from_server_def dest: on_client_inv)

lemma clients_send_inv: "clients_send sys l ex n = Inr n' \<Longrightarrow> conn_inv n \<Longrightarrow> conn_inv n'"
proof -
  have "clients_send_loop sys l ex as n = Inr n' \<Longrightarrow> conn_inv n \<Longrightarrow> conn_inv n'" for as
    by (induction as arbitrary: n) (auto dest: forward_inv split: if_splits)
  then show "clients_send sys l ex n = Inr n' \<Longrightarrow> conn_inv n \<Longrightarrow> conn_inv n'"
    by (simp add: clients_send_def)
qed

text \<open>Sending, with and without a connection.\<close>

lemma send_line_inv:
  assumes "send_line (sys, env, k) c l n = Inr (b, n')" "conn_inv n"
  shows "conn_inv n'"
proof (cases "n_external_state n")
  case (Some s)
  then have on: "online n" "conn_basic n"
    using conn.inv_online [OF assms(2)] by auto
  then have "kept n n'" "n_linestack n'"
    using conn.send_line_ok [OF online_kept [OF on(1)], of "on_transport_hup k (proxy_env sys env)" c l] assms(1) Some
    by (auto simp: send_line_def online_def conn_basic_def)
  then show ?thesis using kept_inv assms(2) by blast
next
  case None
  have off: "n_transport m = None" "nc_type (n_config m) \<noteq> NETWORK_VIRTUAL"
    if "conn_inv m" "n_external_state m = None" for m :: "'c proxy_network"
    using that by (cases "n_state m"; auto simp: conn_inv_def conn_basic_def resources_def disconnected_def online_def)+
  have sent: "conn_inv m'" if "network_send_line_direct hup (proxy_env sys env) m c l = Inr (b, m')"
    "conn_inv m" "n_external_state m = None" for hup m m'
    using that off [OF that(2,3)] by (simp add: network_send_line_direct_def Let_def)
  have pass: "conn_inv m \<and> n_external_state m = None"
    if "process_to_server sys n l' = Inr (r, m)" for l' r m
  proof -
    have k: "calm n (snd (filter_class_execute (ps_filter sys) ds dir l' n))" for ds dir
      by (rule filter_chain_calm [OF inv_kept [OF assms(2)]])
    have "calm n m"
      using that k [of "server_filters (ps_filters sys)" TO_SERVER]
        calm_trans [OF k filter_chain_calm [OF calm_kept [OF k]]]
      by (auto simp: process_to_server_def run_server_filter_def run_log_filter_def stack_insert_def case_prod_beta
          Let_def split: if_splits)
    then show ?thesis
      using inv_calm [OF _ assms(2)] None kept_present(1) [of n m] by (auto simp: calm_def)
  qed
  show ?thesis
  proof (cases "origin l")
    case None': None
    then show ?thesis using assms sent None by (simp add: send_line_def network_send_line_def)
  next
    case (Some h)
    then obtain r m where "process_to_server sys n (l\<lparr>origin := Some h\<rparr>) = Inr (r, m)"
      "if r then network_send_line_direct (on_transport_hup k (proxy_env sys env)) (proxy_env sys env) m c l = Inr (b, n')
       else n' = m"
      using assms(1) by (auto simp: send_line_def network_send_line_def proxy_env_def split: if_splits)
    then show ?thesis using pass [of _ r m] sent [of _ m n'] by (auto split: if_splits)
  qed
qed

lemma send_args_inv: "send_args (sys, env, k) ap n = Inr n' \<Longrightarrow> conn_inv n \<Longrightarrow> conn_inv n'"
  by (auto simp: send_args_def network_send_args_def dest!: send_line_inv [unfolded send_line_def prod.case])

text \<open>What the program does when a line arrives, from either side.\<close>

lemma fold_inv:
  "fold_res f xs n = Inr n' \<Longrightarrow> conn_inv n \<Longrightarrow> (\<And>x m m'. f x m = Inr m' \<Longrightarrow> conn_inv m \<Longrightarrow> conn_inv m') \<Longrightarrow> conn_inv n'"
  by (induction xs arbitrary: n) auto

lemma identify_inv: "nickserv_identify_me (sys, env, k) nick n = Inr n' \<Longrightarrow> conn_inv n \<Longrightarrow> conn_inv n'"
  by (auto simp: nickserv_identify_me_def dest: send_args_inv split: if_splits option.splits)

lemma retry_nick_inv: "retry_nick (sys, env, k) l n = Inr n' \<Longrightarrow> conn_inv n \<Longrightarrow> conn_inv n'"
  by (auto simp: retry_nick_def Let_def dest!: send_args_inv
      intro!: inv_new_state wf_set_me_nick dest: inv_state)

lemma logged_in_inv:
  assumes "logged_in (sys, env, k) n = Inr n'" "conn_inv n" "n_external_state n \<noteq> None"
  shows "conn_inv n'"
proof -
  let ?n1 = "n\<lparr>n_state := MOTD_RECVD, n_config := (n_config n)\<lparr>nc_implicit := False\<rparr>\<rparr>"
  have n1: "conn_inv ?n1" by (rule inv_motd [OF assms(2,3)])
  have "conn_inv m" if "network_set_charset (proxy_env sys env) ?n1 x = Inr (b, m)" for x b m
    by (rule inv_calm [OF set_charset_calm [OF that inv_kept [OF n1]] n1])
  moreover have "conn_inv m'" if "fold_res (send_autocmd (sys, env, k)) xs m = Inr m'" "conn_inv m" for xs m m'
    using that by (rule fold_inv) (auto simp: send_autocmd_def dest: send_line_inv)
  moreover have "conn_inv m'" if "fold_res (rejoin (sys, env, k)) xs m = Inr m'" "conn_inv m" for xs m m'
    using that by (rule fold_inv) (auto simp: rejoin_def dest: send_args_inv split: if_splits)
  ultimately show ?thesis
    using assms(1)
    by (auto simp: logged_in_def Let_def dest!: on_clients_inv send_args_inv identify_inv)
qed

lemma react_inv:
  "react (sys, env, k) l a0 n = Inr n' \<Longrightarrow> conn_inv n \<Longrightarrow> n_external_state n \<noteq> None \<Longrightarrow> conn_inv n'"
  by (auto simp: react_def Let_def dest: retry_nick_inv logged_in_inv split: if_splits)

lemma deliver_reply_inv:
  assumes "deliver_reply (sys, env, k) l n = Inr (b, n')" "conn_inv n"
  shows "conn_inv n'"
proof -
  obtain q ret dest q' cs n1 where r: "redirect_response q l = Inr (ret, dest, q', cs)"
    "apply_refs cs (n\<lparr>pn_queries := Some q'\<rparr>) = Inr n1"
    and d: "(case dest of
        Redirect.To_client a \<Rightarrow>
          bind_res (on_client sys a (\<lambda>c. client_send_line (ps_now sys) (ps_io sys) c l) n1) (\<lambda>(_, n2). Inr (ret, n2))
      | To_all \<Rightarrow> bind_res (clients_send sys l None n1) (\<lambda>n2. Inr (ret, n2))
      | To_none \<Rightarrow> Inr (ret, n1)) = Inr (b, n')"
    using assms(1) by (auto simp: deliver_reply_def Let_def)
  have "conn_inv n1" using apply_refs_inv [OF r(2)] assms(2) by simp
  then show ?thesis using d by (cases dest) (auto dest: on_client_inv clients_send_inv)
qed

lemma unattended_inv: "unattended (sys, env, k) me l a0 n = Inr n' \<Longrightarrow> conn_inv n \<Longrightarrow> conn_inv n'"
  by (auto simp: unattended_def network_process_ctcp_request_def Let_def
      dest!: on_client_inv dest: clients_send_inv send_line_inv elim!: fold_inv
      split: if_split_asm option.split_asm)

lemma attended_inv: "attended (sys, env, k) l a0 n = Inr n' \<Longrightarrow> conn_inv n \<Longrightarrow> conn_inv n'"
  by (auto simp: attended_def dest!: filters_inv(1) dest: clients_send_inv split: if_splits prod.splits)

lemma record_line_inv: "conn_inv (record_line p l n) = conn_inv n"
  by (simp add: record_line_def stack_insert_def)

lemma distribute_inv: "distribute (sys, env, k) me l a0 n = Inr n' \<Longrightarrow> conn_inv n \<Longrightarrow> conn_inv n'"
  by (auto simp: distribute_def record_line_inv dest: deliver_reply_inv unattended_inv attended_inv split: if_splits)

lemma from_server_inv:
  assumes "process_from_server (sys, env, k) me n l = Inr (b, n')" "conn_inv n"
  shows "conn_inv n'"
proof (cases "argc l = 0 \<or> n_external_state n = None")
  case True
  then show ?thesis using assms by (auto simp: process_from_server_def split: if_splits)
next
  case False
  let ?n1 = "snd (run_log_filter (ps_filter sys) (ps_filters sys) l FROM_SERVER (n\<lparr>n_last_line_recvd := ps_now sys\<rparr>))"
  have n1: "conn_inv ?n1" by (rule filters_inv(2)) (simp add: assms(2))
  obtain s r s' where s: "n_external_state ?n1 = Some s" "state_handle_data (ps_now sys) s l = Inr (r, s')"
    using assms(1) False by (auto simp: process_from_server_def Let_def split: option.splits)
  have "wf_graph s'" using state_handle_data_safe [OF inv_state [OF n1 s(1)], of "ps_now sys" l] s(2) by simp
  then have n2: "conn_inv (?n1\<lparr>n_external_state := Some s'\<rparr>)" by (rule inv_new_state [OF n1 s(1)])
  show ?thesis
    using assms(1) False s n2
    by (auto simp: process_from_server_def Let_def split: option.splits if_splits
        dest!: react_inv dest: distribute_inv send_args_inv)
qed

lemma forward_line_inv:
  "network_forward_line (sys, env, k) c l priv n = Inr (b, n') \<Longrightarrow> conn_inv n \<Longrightarrow> conn_inv n'"
  by (auto simp: network_forward_line_def Let_def dest!: clients_send_inv apply_refs_inv send_line_inv split: if_splits)

lemma respond_inv: "respond (sys, env, k) a r ap n = Inr n' \<Longrightarrow> conn_inv n \<Longrightarrow> conn_inv n'"
  by (auto simp: respond_def dest: on_client_inv)

lemma from_client_inv:
  assumes "process_from_client (sys, env, k) admin a l n = Inr (b, n')" "conn_inv n"
    and "\<And>i l m m'. admin a l i m = Inr m' \<Longrightarrow> conn_inv m \<Longrightarrow> conn_inv m'"
  shows "conn_inv n'"
proof -
  have "conn_inv m'" if "forward_other (sys, env, k) a l m = Inr m'" "conn_inv m" for l m m'
    using that
    by (auto simp: forward_other_def handle_offline_command_def split: if_splits
        dest: on_client_inv forward_line_inv respond_inv)
  moreover have "conn_inv m'" if "disconnect_client (sys, env, k) a r m = Inr m'" "conn_inv m" for r m m'
    using that by (auto simp: disconnect_client_def dest: on_client_inv)
  ultimately have "conn_inv m" if "act_on_line (sys, env, k) admin a c l' a0 kind n = Inr m" for c l' a0 kind m
    using that assms(2,3)
    by (cases kind)
      (auto simp: act_on_line_def dest!: forward_line_inv dest: on_client_inv respond_inv split: if_split_asm)
  then show ?thesis using assms(1) by (auto simp: process_from_client_def Let_def)
qed

end

end
