(* ===== verification/Proxy_Spec.thy ===== *)
theory Proxy_Spec
  imports Network_Spec
begin

text \<open>
  Properties of the proxy as a whole: the runs of a network with the lines from its server
  and its clients, what happens to a line of a client and to the reply, what clients see of
  the owner's mask, and the learning of passwords.
\<close>

section \<open>Runs\<close>

text \<open>
  A network of the proxy is driven by the main loop of its connection, by lines from the server
  and by lines from clients. Each event may find other surroundings. The administration
  interface, a parameter, is taken to leave the connection intact. Filters go by numbers.
\<close>

definition admin_keeps :: "'c admin_fn \<Rightarrow> bool" where
  "admin_keeps admin \<longleftrightarrow> (\<forall>a l i n n'. admin a l i n = Inr n' \<longrightarrow> conn_inv n \<longrightarrow> conn_inv n')"

inductive proxy_runs :: "network_config \<Rightarrow> 'c proxy_network \<Rightarrow> bool" for nc where
  created: "proxy_runs nc (proxy_network_new nc)"
| clients_set: "proxy_runs nc n \<Longrightarrow> proxy_runs nc (n\<lparr>pn_heap := h, pn_clients := cs\<rparr>)"
| main_loop: "proxy_runs nc n \<Longrightarrow> proxy_system (sys :: ('c, nat) proxy_sys) env \<Longrightarrow> ev_enabled ev n \<Longrightarrow>
    net_step k (proxy_env sys env) ev n = Inr n' \<Longrightarrow> proxy_runs nc n'"
| server_line: "proxy_runs nc n \<Longrightarrow> proxy_system (sys :: ('c, nat) proxy_sys) env \<Longrightarrow>
    process_from_server (sys, env, k) me n l = Inr (b, n') \<Longrightarrow> proxy_runs nc n'"
| client_line: "proxy_runs nc n \<Longrightarrow> proxy_system (sys :: ('c, nat) proxy_sys) env \<Longrightarrow> admin_keeps admin \<Longrightarrow>
    process_from_client (sys, env, k) admin a l n = Inr (b, n') \<Longrightarrow> proxy_runs nc n'"

lemma proxy_new_inv:
  "nc_type nc \<in> {NETWORK_TCP, NETWORK_PROGRAM} \<Longrightarrow> conn_inv (proxy_network_new nc)"
  by (auto simp: proxy_network_new_def irc_network.defs irc_network_new_def conn_inv_def conn_basic_def
      server_known_def resources_def own_sources_def disconnected_def names_set_def)


text \<open>A program without filters and hooks, on a system where every call succeeds.\<close>

definition demo_settings :: ctrlproxy_config where
  "demo_settings = \<lparr>cf_admin_user = None, cf_report_time_always = False, cf_client_charset = None,
     cf_motd_file = None, cf_cache = \<lparr>max_who_age = 0\<rparr>, cf_default_username = None, cf_default_realname = None,
     cf_default_nick = None, cf_learn_nickserv = True\<rparr>"

definition demo_sys :: "(string list, nat) proxy_sys" where
  "demo_sys = \<lparr>ps_now = 100, ps_io = steady_io, ps_hostname = Some ''proxy'', ps_config = demo_settings,
     ps_report_time = [], ps_user_name = ''me'', ps_real_name = None, ps_ctcp = demo_env,
     ps_ctcp_handlers = [], ps_filters = \<lparr>log_filters = [], server_filters = []\<rparr>,
     ps_filter = (\<lambda>_ _ _ n. (True, n)), ps_linestack_insert = (\<lambda>_ _. True), ps_lose_client = (\<lambda>_ n. n),
     ps_netsplit_fuel = 10\<rparr>"

definition demo_os :: "'c dial list \<Rightarrow> ('c, 'c proxy_network) net_env" where
  "demo_os dials =
     \<lparr>e_now = 0, e_io = \<lparr>write_chars = (\<lambda>c t. (IO_NORMAL, length t, c)), flush = (\<lambda>c. (IO_NORMAL, c)),
                       read_line = (\<lambda>c. (IO_AGAIN, [], c))\<rparr>,
      e_hostname = None, e_iconv_open = (\<lambda>_ _. None),
      e_virtual_network_ops = Map.empty, e_getaddrinfo = (\<lambda>_. Some dials), e_ssl_wrap = (\<lambda>c _. Some c),
      e_sock_error = (\<lambda>_. ''error''), e_set_encoding = (\<lambda>_. True), e_set_flags = (\<lambda>_. True),
      e_piped_child = (\<lambda>_. None), cb_get_login_details = (\<lambda>_. Inl BadArgument),
      cb_process_to_server = (\<lambda>_ _. Inl BadArgument), cb_disconnect = None, cb_state_set = None\<rparr>"

interpretation demo: proxy_system demo_sys "demo_os dials" for dials
  by unfold_locales (auto simp: demo_sys_def demo_os_def steady_io_def channel_ok_def calm_def)


section \<open>Commands of clients and their replies\<close>

text \<open>Filters that let everything pass and hooks that do nothing.\<close>

definition transparent :: "('c, 'f) proxy_sys \<Rightarrow> bool" where
  "transparent sys \<longleftrightarrow> (\<forall>f dir l n. ps_filter sys f dir l n = (True, n)) \<and> (\<forall>a n. ps_lose_client sys a n = n)"

lemma transparent_filters:
  assumes "transparent sys"
  shows "run_server_filter (ps_filter sys) fl l dir n = (True, n)" "run_log_filter (ps_filter sys) fl l dir n = (True, n)"
proof -
  have "filter_class_execute (ps_filter sys) ds dir l n = (True, n)" for ds
    using assms by (induction ds) (simp_all add: transparent_def)
  then show "run_server_filter (ps_filter sys) fl l dir n = (True, n)" "run_log_filter (ps_filter sys) fl l dir n = (True, n)"
    by (simp_all add: run_server_filter_def run_log_filter_def)
qed

text \<open>The parts of a network that sending a line does not touch.\<close>

definition sent :: "irc_line \<Rightarrow> 'c proxy_network \<Rightarrow> 'c proxy_network \<Rightarrow> bool" where
  "sent l n n' \<longleftrightarrow>
     (\<exists>tr stk. n' = n\<lparr>n_transport := Some tr, n_lines := n_lines n @ [l\<lparr>origin := None\<rparr>], pn_stack := stk\<rparr>)"

context proxy_system
begin

lemma send_direct_sent:
  assumes "online n" "nc_type (n_config n) \<noteq> NETWORK_VIRTUAL"
  shows "\<exists>ok n'. network_send_line_direct hup (proxy_env sys env) n c l = Inr (ok, n') \<and> sent l n n'"
proof -
  obtain tr where tr: "n_transport n = Some tr" "tr_ok tr" using assms(1) by (auto simp: online_def)
  from conn.transport_send_ok [OF tr(2), of "e_now (proxy_env sys env)" "l\<lparr>origin := None\<rparr>"]
  obtain ret tr' evs where
    "transport_send_line (e_now (proxy_env sys env)) (e_io (proxy_env sys env)) tr (l\<lparr>origin := None\<rparr>) = Inr (ret, tr', evs)"
    "Cb_hangup \<notin> set evs" .
  then have "network_send_line_direct hup (proxy_env sys env) n c l =
      Inr (ret, n\<lparr>n_transport := Some tr', n_lines := n_lines n @ [l\<lparr>origin := None\<rparr>]\<rparr>)"
    using tr(1) assms(2) by (simp add: network_send_line_direct_def Let_def)
  moreover have "sent l n (n\<lparr>n_transport := Some tr', n_lines := n_lines n @ [l\<lparr>origin := None\<rparr>]\<rparr>)"
    unfolding sent_def by (intro exI [of _ tr'] exI [of _ "pn_stack n"]) simp
  ultimately show ?thesis by blast
qed

lemma send_line_sent:
  assumes "transparent sys" "online n" "nc_type (n_config n) \<noteq> NETWORK_VIRTUAL"
  shows "\<exists>ok n'. send_line (sys, env, k) c l n = Inr (ok, n') \<and> sent l n n'"
proof -
  have pts: "\<exists>stk. process_to_server sys n l' = Inr (True, n\<lparr>pn_stack := stk\<rparr>)" for l'
  proof -
    have "process_to_server sys n l' = Inr (True, snd (stack_insert sys l' TO_SERVER n))"
      using assms(2) by (simp add: process_to_server_def transparent_filters [OF assms(1)] online_def)
    moreover have "\<exists>stk. snd (stack_insert sys l' TO_SERVER n) = n\<lparr>pn_stack := stk\<rparr>"
      by (auto simp: stack_insert_def intro: exI [of _ "pn_stack n"])
    ultimately show ?thesis by metis
  qed
  have after: "\<exists>ok n'. network_send_line_direct hup (proxy_env sys env) (n\<lparr>pn_stack := stk\<rparr>) c l = Inr (ok, n') \<and> sent l n n'"
    for stk hup
  proof -
    have "online (n\<lparr>pn_stack := stk\<rparr>)" using assms(2) by (simp add: online_def names_set_def)
    then obtain ok n' where "network_send_line_direct hup (proxy_env sys env) (n\<lparr>pn_stack := stk\<rparr>) c l = Inr (ok, n')"
      "sent l (n\<lparr>pn_stack := stk\<rparr>) n'"
      using send_direct_sent assms(3) by fastforce
    moreover from this(2) have "sent l n n'" by (auto simp: sent_def)
    ultimately show ?thesis by blast
  qed
  have cb: "cb_process_to_server (proxy_env sys env) = process_to_server sys" by (simp add: proxy_env_def)
  have "\<exists>ok n'. bind_res (process_to_server sys n l') (\<lambda>(pass, n1). if \<not> pass then Inr (True, n1)
      else network_send_line_direct hup (proxy_env sys env) n1 c l) = Inr (ok, n') \<and> sent l n n'" for l' hup
    using pts [of l'] after [of hup] by fastforce
  then show ?thesis
    using send_direct_sent [OF assms(2,3)]
    by (simp add: send_line_def network_send_line_def cb Let_def split: option.split)
qed

end

lemma record_known:
  assumes "args l \<noteq> []" "find_query (args l ! 0) = Some c" "q_handle c = Handle_default"
  shows "query_stack_record now q a l =
    Inr (True, q\<lparr>qs_entries := qs_entries q @ [\<lparr>e_query = c, e_userdata = a, e_time = now\<rparr>]\<rparr>, [Ref_userdata a])"
  using assms by (simp add: query_stack_record_def handle_default_def)

lemma match_appended:
  assumes "\<not> list_ex (\<lambda>e. accepts (e_query e) r) es" "accepts c r"
  shows "\<exists>es' cs. match_entries r (es @ [\<lparr>e_query = c, e_userdata = a, e_time = t\<rparr>]) = (Some a, es', cs)"
  using assms by (induction es) (auto simp: query_stack_free_entry_def)

lemma redirect_appended:
  assumes "args r \<noteq> []" "\<not> list_ex (\<lambda>e. accepts (e_query e) (irc_line_respcode r)) (qs_entries q)"
    "accepts c (irc_line_respcode r)"
  shows "\<exists>q' cs. redirect_response (q\<lparr>qs_entries := qs_entries q @ [\<lparr>e_query = c, e_userdata = a, e_time = t\<rparr>]\<rparr>) r =
    Inr (True, Redirect.To_client a, q', cs)"
  using match_appended [OF assms(2,3), of a t] assms(1)
  by (auto simp: redirect_response_def query_stack_match_response_def)


definition demo_client :: "string list irc_client" where
  "demo_client = (irc_client_new 0 (irc_transport_new_iochannel []) None (Some ''proxy'') ''client'')\<lparr>
     cl_state := Some demo_init, cl_authenticated := True, cl_pending := False\<rparr>"


section \<open>Crashes\<close>

lemma privmsg_differs:
  "\<not> base_eq ''PRIVMSG'' ''QUIT''" "\<not> base_eq ''PRIVMSG'' ''PING''" "\<not> base_eq ''PRIVMSG'' ''PONG''"
  "\<not> base_eq ''PRIVMSG'' ''USER''" "\<not> base_eq ''PRIVMSG'' ''PASS''" "\<not> base_eq ''PRIVMSG'' ''CTRLPROXY''"
  "base_eq ''PRIVMSG'' ''PRIVMSG''"
  by code_simp+

text \<open>
  While a network is not connected it has no query stack, and a client that sends a CTCP
  request then stops the program: the request is passed on to the network without asking
  whether it is connected, and the null pointer is followed.
\<close>

theorem offline_ctcp_crashes:
  assumes "pn_heap n a = Some c" "cl_state c = Some cs" "pn_queries n = None"
    and "args l = [''PRIVMSG'', target, CTCP_DELIM # cmd @ [CTCP_DELIM]]" "cmd \<noteq> []" "CHR '' '' \<notin> set cmd"
    and "base_strncmp (CTCP_DELIM # cmd @ [CTCP_DELIM]) (CTCP_DELIM # ''ACTION'') 7 \<noteq> 0"
    and "\<forall>u. cf_admin_user (ps_config (fst p)) = Some u \<longrightarrow> \<not> base_eq target u" "ni_chantypes (n_info n) \<noteq> None"
  shows "process_from_client p admin a l n = Inl NullDeref"
proof -
  let ?l = "l\<lparr>origin := nn_hostmask (s_me cs)\<rparr>"
  let ?x = "CTCP_DELIM # cmd @ [CTCP_DELIM]"
  have a: "arg ?l 0 = Inr (Some ''PRIVMSG'')" "arg ?l 1 = Inr (Some target)" "sarg ?l 2 = Inr ?x" "sarg ?l 0 = Inr ''PRIVMSG''"
    using assms(4) by (simp_all add: arg_def sarg_def)
  have "is_ctcp ?l" "args ?l ! 2 = ?x" using assms(4) by (simp_all add: is_ctcp_def)
  then have k: "line_kind (ps_config (fst p)) ?l ''PRIVMSG'' = Inr Line_ctcp_request"
    using assms(7,8) a(2) privmsg_differs
    by (cases "cf_admin_user (ps_config (fst p))") (simp_all add: line_kind_def)
  have "dropWhile (\<lambda>x. x \<noteq> CHR '' '') (cmd @ [CTCP_DELIM]) = []"
    using assms(6) by (auto simp: dropWhile_eq_Nil_conv)
  then have "get_ctcp_command ?x = Inr (before_last CTCP_DELIM (cmd @ [CTCP_DELIM]))"
    by (simp add: get_ctcp_command_def strchr_def)
  then obtain r q where "ctcp_client_request_record (n_info n) (pn_ctcp_requests n) a ?l = Inr (r, q)"
    using a(2,3) assms(9)
    by (cases "before_last CTCP_DELIM (cmd @ [CTCP_DELIM])") (auto simp: ctcp_client_request_record_def is_channelname_def)
  then show ?thesis
    using assms(1-3) a(1,4) k
    by (simp add: process_from_client_def act_on_line_def network_forward_line_def)
qed

theorem offline_ctcp_crashes_witness:
  "process_from_client (demo_sys, demo_os [], 0) (\<lambda>_ _ _ n. Inr n) 7
     \<lparr>origin = None, args = [''PRIVMSG'', ''bob'', [CTCP_DELIM] @ ''VERSION'' @ [CTCP_DELIM]], endcolon = COLON_UNKNOWN\<rparr>
     ((proxy_network_new demo_config)\<lparr>pn_heap := [7 \<mapsto> demo_client], pn_clients := [7]\<rparr>) = Inl NullDeref"
proof -
  let ?n = "(proxy_network_new demo_config)\<lparr>pn_heap := [7 \<mapsto> demo_client], pn_clients := [7]\<rparr>"
  have a: "base_strncmp (CTCP_DELIM # ''VERSION'' @ [CTCP_DELIM]) (CTCP_DELIM # ''ACTION'') 7 \<noteq> 0" by code_simp
  have n: "pn_heap ?n 7 = Some demo_client" "pn_queries ?n = None" "ni_chantypes (n_info ?n) \<noteq> None"
    by (simp_all add: proxy_network_new_def irc_network.defs irc_network_new_def network_info_init_def)
  have c: "cl_state demo_client = Some demo_init" "cf_admin_user (ps_config demo_sys) = None"
    by (simp_all add: demo_client_def demo_sys_def demo_settings_def)
  show ?thesis by (rule offline_ctcp_crashes [OF n(1) c(1) n(2) _ _ _ a]) (use n(3) c(2) in simp_all)
qed

section \<open>Masks\<close>

text \<open>What replacing a mask may change: nothing but the prefix and the arguments for user and host.\<close>

definition masks_only :: "irc_line \<Rightarrow> irc_line \<Rightarrow> bool" where
  "masks_only l l' \<longleftrightarrow>
     argc l' = argc l \<and> endcolon l' = endcolon l \<and>
     (\<forall>i < argc l. args l' ! i \<noteq> args l ! i \<longrightarrow>
        irc_line_respcode l = RPL_USERHOST \<and> i = 2 \<or>
        irc_line_respcode l \<in> {RPL_WHOREPLY, RPL_WHOISUSER, RPL_WHOWASUSER} \<and> i \<in> {3, 4})"

lemma list_update_differs: "xs[k := v] ! i \<noteq> xs ! i \<Longrightarrow> i = k"
  by (metis nth_list_update_neq)

lemma replace_user_host_masks:
  "replace_user_host new l = Inr (Some l') \<Longrightarrow>
   argc l' = argc l \<and> endcolon l' = endcolon l \<and> origin l' = origin l \<and>
   (\<forall>i < argc l. args l' ! i \<noteq> args l ! i \<longrightarrow> i \<in> {3, 4})"
  by (auto simp: replace_user_host_def) (metis nth_list_update_neq)



section \<open>Passwords\<close>

text \<open>
  The proxy never learns a password from a message to NickServ: the comparison with
  \<open>IDENTIFY\<close> and a blank looks at the first character of the password too and fails, so that
  the stored passwords stay as they are for every password that is not empty.
\<close>

theorem identify_message_not_learnt:
  assumes "args l = [cmd, ''NickServ'', ''IDENTIFY '' @ c # pw]" "c \<noteq> NUL"
  shows "nickserv_learn_message cf TO_SERVER l n = Inr n"
proof -
  have "ircncmp (Some (n_info n)) (''IDENTIFY '' @ c # pw) ''IDENTIFY '' 9 \<noteq> 0"
    using assms(2) by (simp add: ircncmp_cmp_key cmp_key_def char_at_def)
  then show ?thesis
    using assms(1)
    by (auto simp: nickserv_learn_message_def and_res_def or_res_def words_equal_def arg_def irccmp_asserted_def
        nickserv_nick_def)
qed

theorem identify_message_not_learnt_witness:
  "nickserv_learn_message demo_settings TO_SERVER
     \<lparr>origin = None, args = [''PRIVMSG'', ''NickServ'', ''IDENTIFY secret''], endcolon = COLON_UNKNOWN\<rparr>
     (proxy_network_new demo_config) = Inr (proxy_network_new demo_config)"
  by (rule identify_message_not_learnt [of _ "''PRIVMSG''" "CHR ''s''" "''ecret''"]) simp_all

section \<open>Networks by host name\<close>

lemma strcasecmp_refl [simp]: "g_ascii_strcasecmp s s = 0"
  by (induction s) (simp_all add: first_char_def)

lemma find_network_match:
  "find_network ns name = Some n \<Longrightarrow> network_matches g name port n"
  by (auto simp: find_network_def find_Some_iff network_matches_def split: option.splits)

text \<open>
  Looking for a network by host name and port gives one that goes by this name or has
  such a server, creates a network only when there is none, and finds the same network when
  asked again; the networks that were there stay, in their order.
\<close>

theorem find_network_by_hostname_stable:
  assumes "find_network_by_hostname g cf a ns host port True login = Inr (Some (n :: 'c proxy_network), ns')"
  shows "network_matches g host port n \<and> n \<in> set ns' \<and> (ns' = ns \<or> ns' = ns @ [n]) \<and>
    find_network_by_hostname g cf a' ns' host port create login' = Inr (Some n, ns')"
proof (cases "List.find (network_matches g host port) ns")
  case (Some m)
  then show ?thesis using assms find_Some_iff_in [OF Some] by (auto simp: find_network_by_hostname_def)
next
  case None
  let ?nc = "implicit_config a host port login"
  let ?new = "proxy_network_new ?nc :: 'c proxy_network"
  let ?n = "?new\<lparr>n_info := (n_info ?new)\<lparr>ni_charset := cf_client_charset cf\<rparr>\<rparr>"
  have "find_network ns host = None"
  proof (rule ccontr)
    assume "find_network ns host \<noteq> None"
    then obtain m where m: "find_network ns host = Some m" by blast
    then have "m \<in> set ns" by (auto simp: find_network_def dest: find_Some_iff_in)
    then show False using None find_network_match [OF m, of g port] by (auto simp: find_None_iff)
  qed
  moreover have "nc_name ?nc = Some host" by (simp add: implicit_config_def)
  ultimately have eq: "n = ?n" "ns' = ns @ [?n]"
    using assms None by (auto simp: find_network_by_hostname_def load_network_def Let_def split: if_split_asm)
  have m: "network_matches g host port ?n"
    by (simp add: network_matches_def proxy_network_new_def irc_network.defs irc_network_new_def implicit_config_def)
  then have "List.find (network_matches g host port) (ns @ [?n]) = Some ?n"
    using None by (induction ns) (auto split: if_split_asm)
  then show ?thesis using m by (simp add: eq find_network_by_hostname_def)
qed

theorem find_network_by_hostname_stable_witness:
  "\<exists>n :: string list proxy_network.
     find_network_by_hostname (\<lambda>_. None) demo_settings 3 [] ''irc.example.org'' 6667 True None = Inr (Some n, [n]) \<and>
     find_network_by_hostname (\<lambda>_. None) demo_settings 3 [n] ''irc.example.org'' 6667 False None = Inr (Some n, [n])"
proof -
  obtain n :: "string list proxy_network" where n:
    "find_network_by_hostname (\<lambda>_. None) demo_settings 3 [] ''irc.example.org'' 6667 True None = Inr (Some n, [n])"
    by (auto simp: find_network_by_hostname_def load_network_def Let_def)
  then show ?thesis using find_network_by_hostname_stable [OF n] by blast
qed

end
