(* ===== verification/Marshal.thy ===== *)
theory Marshal
  imports State
begin

text \<open>
  The second half of \<open>libirc/linestack.c\<close>: a network state is written to a file and read back.
  The file has one line per value, indented by tabs. Each function of the source works in both
  directions; here each direction has its own definition. Writing appends to the text, reading
  takes lines from its front.
\<close>

section \<open>Lines of text\<close>

text \<open>
  \<open>g_io_channel_read_line\<close>: the line without its terminator, and the text after it. A line ends
  at a line feed, at a carriage return, alone or with a line feed after it, and at a zero byte.
\<close>

definition line_end :: "char \<Rightarrow> bool" where
  "line_end c \<longleftrightarrow> c = CHR 0x0A \<or> c = CHR 0x0D \<or> c = NUL"

definition after_line :: "string \<Rightarrow> string" where
  "after_line t =
     (case dropWhile (\<lambda>c. \<not> line_end c) t of
        [] \<Rightarrow> []
      | c # r \<Rightarrow> if c = CHR 0x0D \<and> first_char r = CHR 0x0A then tl r else r)"

definition split_line :: "string \<Rightarrow> string \<times> string" where
  "split_line t = (takeWhile (\<lambda>c. \<not> line_end c) t, after_line t)"

definition tabs :: "nat \<Rightarrow> string" where
  "tabs level = replicate level (CHR 0x09)"

definition marshall_set :: "nat \<Rightarrow> string \<Rightarrow> string option \<Rightarrow> string \<Rightarrow> string res" where
  "marshall_set level name value t =
     bind_res (guard_res (CHR 0x0A \<notin> set name) AssertFail) (\<lambda>_.
     bind_res (guard_res (case value of None \<Rightarrow> True | Some v \<Rightarrow> CHR 0x0A \<notin> set v) AssertFail) (\<lambda>_.
     Inr (t @ tabs level @ name @ (case value of None \<Rightarrow> [] | Some v \<Rightarrow> '': '' @ v) @ [CHR 0x0A])))"

text \<open>
  The result of reading: whether it succeeded, the value, and the rest of the text. At the end
  of the file nothing is read and the value is not assigned.
\<close>

definition marshall_get :: "nat \<Rightarrow> string \<Rightarrow> string \<Rightarrow> (bool \<times> string option \<times> string) res" where
  "marshall_get level name t =
     (if t = [] then Inr (False, None, [])
      else
        let (line, rest) = split_line t; k = level + length name in
        bind_res (guard_res (is_prefix_of (tabs level) line) AssertFail) (\<lambda>_.
        bind_res (guard_res (is_prefix_of name (drop level line)) AssertFail) (\<lambda>_.
        if char_at line k = CHR '':'' then
          bind_res (guard_res (k + 2 \<le> length line) OutOfBounds) (\<lambda>_. Inr (True, Some (drop (k + 2) line), rest))
        else Inr (True, None, rest))))"

section \<open>Values\<close>

type_synonym push = "nat \<Rightarrow> string \<Rightarrow> string \<Rightarrow> string res"
type_synonym 'a pull = "nat \<Rightarrow> string \<Rightarrow> 'a \<Rightarrow> string \<Rightarrow> (bool \<times> 'a \<times> string) res"

definition push_struct :: push where
  "push_struct level name t = marshall_set level name None t"

definition pull_struct :: "nat \<Rightarrow> string \<Rightarrow> string \<Rightarrow> (bool \<times> string) res" where
  "pull_struct level name t =
     bind_res (marshall_get level name t) (\<lambda>(ok, v, r). Inr (ok \<and> v = None, r))"

definition push_string :: "string option \<Rightarrow> push" where
  "push_string d level name t = marshall_set level name d t"

text \<open>The readers take the value that the variable has before, and leave it when they fail.\<close>

definition pull_string :: "string option pull" where
  "pull_string level name d t =
     bind_res (marshall_get level name t) (\<lambda>(ok, v, r). Inr (ok, if ok then v else d, r))"

definition push_bool :: "bool \<Rightarrow> push" where
  "push_bool b level name t = marshall_set level name (Some (if b then ''true'' else ''false'')) t"

definition pull_bool :: "bool pull" where
  "pull_bool level name b t =
     bind_res (marshall_get level name t) (\<lambda>(ok, v, r).
     if \<not> ok then Inr (False, b, r)
     else
       bind_res (deref v) (\<lambda>val.
       if strcmp val ''true'' = 0 then Inr (True, True, r)
       else if strcmp val ''false'' = 0 then Inr (True, False, r)
       else Inr (False, b, r)))"

definition push_char :: "char \<Rightarrow> push" where
  "push_char c level name t = marshall_set level name (Some (c_str [c])) t"

definition pull_char :: "char pull" where
  "pull_char level name c t =
     bind_res (marshall_get level name t) (\<lambda>(ok, v, r).
     if \<not> ok then Inr (False, c, r) else bind_res (deref v) (\<lambda>d. Inr (True, first_char d, r)))"

text \<open>The number is printed into an array of ten characters.\<close>

definition push_int :: "int \<Rightarrow> push" where
  "push_int i level name t = marshall_set level name (Some (take 9 (show_int i))) t"

definition pull_int :: "int pull" where
  "pull_int level name i t =
     bind_res (marshall_get level name t) (\<lambda>(ok, v, r).
     if \<not> ok then Inr (False, i, r) else bind_res (deref v) (\<lambda>d. Inr (True, atoi d, r)))"

definition push_time :: "int \<Rightarrow> push" where
  "push_time i level name t = marshall_set level name (Some (take 29 (show_int i))) t"

definition pull_time :: "int pull" where
  "pull_time level name i t =
     bind_res (marshall_get level name t) (\<lambda>(ok, v, r).
     if \<not> ok then Inr (False, i, r) else bind_res (deref v) (\<lambda>d. Inr (True, fst (strtol 0 d), r)))"

definition push_modes :: "modes \<Rightarrow> push" where
  "push_modes ms level name t = marshall_set level name (mode2string ms) t"

definition pull_modes :: "modes pull" where
  "pull_modes level name ms t =
     bind_res (marshall_get level name t) (\<lambda>(ok, v, r).
     if \<not> ok then Inr (False, ms, r)
     else bind_res (string2mode v) (\<lambda>(_, ms'). Inr (True, ms', r)))"

section \<open>Users\<close>

definition push_network_nick :: "network_nick \<Rightarrow> push" where
  "push_network_nick n level name t =
     bind_res (push_struct level name t) (\<lambda>t.
     bind_res (push_bool (nn_query n) (level + 1) ''query'' t) (\<lambda>t.
     bind_res (push_modes (nn_modes n) (level + 1) ''modes'' t) (\<lambda>t.
     bind_res (push_string (nn_nick n) (level + 1) ''nick'' t) (\<lambda>t.
     bind_res (guard_res (nn_nick n \<noteq> None) AssertFail) (\<lambda>_.
     bind_res (push_string (nn_fullname n) (level + 1) ''fullname'' t) (\<lambda>t.
     bind_res (push_string (nn_username n) (level + 1) ''username'' t) (\<lambda>t.
     bind_res (push_string (nn_hostname n) (level + 1) ''hostname'' t) (\<lambda>t.
     bind_res (push_string (nn_hostmask n) (level + 1) ''hostmask'' t) (\<lambda>t.
     push_string (nn_server n) (level + 1) ''server'' t)))))))))"

definition pull_network_nick :: "network_nick pull" where
  "pull_network_nick level name n t =
     bind_res (pull_struct level name t) (\<lambda>(_, t).
     bind_res (pull_bool (level + 1) ''query'' (nn_query n) t) (\<lambda>(r1, q, t).
     bind_res (pull_modes (level + 1) ''modes'' (nn_modes n) t) (\<lambda>(r2, ms, t).
     bind_res (pull_string (level + 1) ''nick'' (nn_nick n) t) (\<lambda>(r3, nick, t).
     bind_res (guard_res (nick \<noteq> None) AssertFail) (\<lambda>_.
     bind_res (pull_string (level + 1) ''fullname'' (nn_fullname n) t) (\<lambda>(r4, fullname, t).
     bind_res (pull_string (level + 1) ''username'' (nn_username n) t) (\<lambda>(r5, username, t).
     bind_res (pull_string (level + 1) ''hostname'' (nn_hostname n) t) (\<lambda>(r6, hostname, t).
     bind_res (pull_string (level + 1) ''hostmask'' (nn_hostmask n) t) (\<lambda>(r7, hostmask, t).
     bind_res (pull_string (level + 1) ''server'' (nn_server n) t) (\<lambda>(r8, server, t).
     Inr (r1 \<and> r2 \<and> r3 \<and> r4 \<and> r5 \<and> r6 \<and> r7 \<and> r8,
          n\<lparr>nn_query := q, nn_modes := ms, nn_nick := nick, nn_fullname := fullname, nn_username := username,
            nn_hostname := hostname, nn_hostmask := hostmask, nn_server := server, nn_channel_nicks := []\<rparr>, t)))))))))))"

section \<open>Lists\<close>

definition index_name :: "nat \<Rightarrow> string" where
  "index_name i = ''['' @ show_nat i @ '']''"

fun push_items :: "('x \<Rightarrow> push) \<Rightarrow> nat \<Rightarrow> nat \<Rightarrow> 'x list \<Rightarrow> string \<Rightarrow> string res" where
  "push_items f level i [] t = Inr t"
| "push_items f level i (x # xs) t =
     bind_res (f x (level + 1) (index_name i) t) (push_items f level (Suc i) xs)"

definition push_GList :: "('x \<Rightarrow> push) \<Rightarrow> 'x list \<Rightarrow> push" where
  "push_GList f xs level name t =
     bind_res (push_struct level name t) (\<lambda>t.
     bind_res (push_int (int (length xs)) (level + 1) ''count'' t) (push_items f level 0 xs))"

text \<open>
  Reading \<open>n\<close> items, from number \<open>i\<close> on. An item is read into the value \<open>s\<close> that is being
  built, which holds the list; reading stops at an item that fails. A count that is missing
  is 0.
\<close>

fun pull_items :: "'s pull \<Rightarrow> nat \<Rightarrow> nat \<Rightarrow> nat \<Rightarrow> 's \<Rightarrow> string \<Rightarrow> (bool \<times> 's \<times> string) res" where
  "pull_items f level i 0 s t = Inr (True, s, t)"
| "pull_items f level i (Suc n) s t =
     bind_res (f (level + 1) (index_name i) s t) (\<lambda>(ok, s', t').
     if ok then pull_items f level (Suc i) n s' t' else Inr (False, s', t'))"

definition pull_GList :: "'s pull \<Rightarrow> 's pull" where
  "pull_GList f level name s t =
     bind_res (pull_struct level name t) (\<lambda>(_, t1).
     bind_res (pull_int (level + 1) ''count'' 0 t1) (\<lambda>(_, count, t2).
     pull_items f level 0 (nat count) s t2))"

definition push_nicklist_entry :: "nicklist_entry \<Rightarrow> push" where
  "push_nicklist_entry d level name t =
     bind_res (push_struct level name t) (\<lambda>t.
     bind_res (push_time (be_time_set d) (level + 1) ''time'' t) (\<lambda>t.
     bind_res (push_string (be_hostmask d) (level + 1) ''hostmask'' t) (\<lambda>t.
     push_string (be_by d) (level + 1) ''by'' t)))"

text \<open>\<open>junk\<close> is what the memory of a new entry holds.\<close>

definition pull_nicklist_entry :: "nicklist_entry \<Rightarrow> nicklist pull" where
  "pull_nicklist_entry junk level name nl t =
     bind_res (pull_struct level name t) (\<lambda>(_, t).
     bind_res (pull_time (level + 1) ''time'' (be_time_set junk) t) (\<lambda>(r1, tm, t).
     bind_res (pull_string (level + 1) ''hostmask'' (be_hostmask junk) t) (\<lambda>(r2, hm, t).
     bind_res (pull_string (level + 1) ''by'' (be_by junk) t) (\<lambda>(r3, by_nick, t).
     let ok = r1 \<and> r2 \<and> r3 in
     Inr (ok, if ok then nl @ [\<lparr>be_hostmask = hm, be_by = by_nick, be_time_set = tm\<rparr>] else nl, t)))))"

section \<open>Channels\<close>

definition mode_index_name :: "string \<Rightarrow> nat \<Rightarrow> string" where
  "mode_index_name kind i = kind @ ''['' @ show_nat i @ '']''"

text \<open>The lists and options of the modes, for every mode from number \<open>i\<close> to \<open>MAXMODES\<close>.\<close>

fun push_mode_lists :: "irc_channel_state \<Rightarrow> nat \<Rightarrow> nat list \<Rightarrow> string \<Rightarrow> string res" where
  "push_mode_lists c level [] t = Inr t"
| "push_mode_lists c level (i # is) t =
     bind_res (push_GList push_nicklist_entry (c_chanmode_nicklist c (char_of i)) (level + 1)
                 (mode_index_name ''mode_nicklist'' i) t) (\<lambda>t.
     bind_res (push_string (c_chanmode_option c (char_of i)) (level + 1) (mode_index_name ''mode_option'' i) t)
       (push_mode_lists c level is))"

fun pull_mode_lists ::
    "nicklist_entry \<Rightarrow> nat \<Rightarrow> nat list \<Rightarrow> irc_channel_state \<Rightarrow> string \<Rightarrow> (bool \<times> irc_channel_state \<times> string) res" where
  "pull_mode_lists junk level [] c t = Inr (True, c, t)"
| "pull_mode_lists junk level (i # is) c t =
     bind_res (pull_GList (pull_nicklist_entry junk) (level + 1) (mode_index_name ''mode_nicklist'' i) [] t) (\<lambda>(r1, nl, t).
     bind_res (pull_string (level + 1) (mode_index_name ''mode_option'' i) (c_chanmode_option c (char_of i)) t) (\<lambda>(r2, opt, t).
     bind_res (pull_mode_lists junk level is
                 (c\<lparr>c_chanmode_nicklist := (c_chanmode_nicklist c)(char_of i := nl),
                    c_chanmode_option := (c_chanmode_option c)(char_of i := opt)\<rparr>) t) (\<lambda>(r3, c', t).
     Inr (r1 \<and> r2 \<and> r3, c', t))))"

definition mode_numbers :: "nat list" where
  "mode_numbers = [0..<nat MAXMODES]"

definition push_channel_fields :: "irc_channel_state \<Rightarrow> push" where
  "push_channel_fields c level name t =
     bind_res (push_struct level name t) (\<lambda>t.
     bind_res (push_char (c_mode c) (level + 1) ''mode'' t) (\<lambda>t.
     bind_res (push_modes (c_modes c) (level + 1) ''modes'' t) (\<lambda>t.
     bind_res (push_bool (c_namreply_started c) (level + 1) ''namreply_started'' t) (\<lambda>t.
     bind_res (push_bool (c_banlist_started c) (level + 1) ''banlist_started'' t) (\<lambda>t.
     bind_res (push_bool (c_invitelist_started c) (level + 1) ''invitelist_started'' t) (\<lambda>t.
     bind_res (push_bool (c_exceptlist_started c) (level + 1) ''exceptlist_started'' t) (\<lambda>t.
     bind_res (push_string (Some (c_name c)) (level + 1) ''name'' t) (\<lambda>t.
     bind_res (push_string (c_topic c) (level + 1) ''topic'' t) (\<lambda>t.
     bind_res (push_string (c_topic_set_by c) (level + 1) ''topic_set_by'' t) (\<lambda>t.
     bind_res (push_time (c_topic_set_time c) (level + 1) ''topic_set_time'' t) (\<lambda>t.
     push_mode_lists c level mode_numbers t)))))))))))"

text \<open>A channel without a name would be one whose name is NULL, which the store does not have.\<close>

definition pull_channel_fields :: "nicklist_entry \<Rightarrow> irc_channel_state pull" where
  "pull_channel_fields junk level name c t =
     bind_res (pull_struct level name t) (\<lambda>(_, t).
     bind_res (pull_char (level + 1) ''mode'' (c_mode c) t) (\<lambda>(r1, m, t).
     bind_res (pull_modes (level + 1) ''modes'' (c_modes c) t) (\<lambda>(r2, ms, t).
     bind_res (pull_bool (level + 1) ''namreply_started'' (c_namreply_started c) t) (\<lambda>(r3, ns, t).
     bind_res (pull_bool (level + 1) ''banlist_started'' (c_banlist_started c) t) (\<lambda>(r4, bs, t).
     bind_res (pull_bool (level + 1) ''invitelist_started'' (c_invitelist_started c) t) (\<lambda>(r5, is, t).
     bind_res (pull_bool (level + 1) ''exceptlist_started'' (c_exceptlist_started c) t) (\<lambda>(r6, es, t).
     bind_res (pull_string (level + 1) ''name'' (Some (c_name c)) t) (\<lambda>(r7, nm, t).
     bind_res (deref nm) (\<lambda>nm'.
     bind_res (pull_string (level + 1) ''topic'' (c_topic c) t) (\<lambda>(r8, topic, t).
     bind_res (pull_string (level + 1) ''topic_set_by'' (c_topic_set_by c) t) (\<lambda>(r9, set_by, t).
     bind_res (pull_time (level + 1) ''topic_set_time'' (c_topic_set_time c) t) (\<lambda>(r10, set_time, t).
     bind_res (pull_mode_lists junk level mode_numbers
                 (c\<lparr>c_mode := m, c_modes := ms, c_namreply_started := ns, c_banlist_started := bs,
                    c_invitelist_started := is, c_exceptlist_started := es, c_name := nm', c_topic := topic,
                    c_topic_set_by := set_by, c_topic_set_time := set_time\<rparr>) t) (\<lambda>(r11, c', t).
     Inr (r1 \<and> r2 \<and> r3 \<and> r4 \<and> r5 \<and> r6 \<and> r7 \<and> r8 \<and> r9 \<and> r10 \<and> r11, c', t))))))))))))))"

text \<open>The users of a channel; the name of an item has room for nine characters.\<close>

fun push_members :: "irc_network_state \<Rightarrow> nat \<Rightarrow> nat \<Rightarrow> addr list \<Rightarrow> string \<Rightarrow> string res" where
  "push_members s level i [] t = Inr t"
| "push_members s level i (a # as) t =
     bind_res (live (s_cn s a)) (\<lambda>cn.
     bind_res (get_nick s (cn_global_nick cn)) (\<lambda>nn.
     bind_res (push_struct (level + 2) (take 9 (index_name i)) t) (\<lambda>t.
     bind_res (push_string (nn_nick nn) (level + 3) ''nick'' t) (\<lambda>t.
     bind_res (push_modes (cn_modes cn) (level + 3) ''modes'' t)
       (push_members s level (Suc i) as)))))"

fun pull_members ::
    "addr \<Rightarrow> nat \<Rightarrow> nat \<Rightarrow> nat \<Rightarrow> irc_network_state \<Rightarrow> string \<Rightarrow> (bool \<times> irc_network_state \<times> string) res" where
  "pull_members c level i 0 s t = Inr (True, s, t)"
| "pull_members c level i (Suc n) s t =
     bind_res (pull_struct (level + 2) (take 9 (index_name i)) t) (\<lambda>(_, t).
     bind_res (pull_string (level + 3) ''nick'' None t) (\<lambda>(ok, nick, t).
     if \<not> ok then Inr (False, s, t)
     else
       bind_res (find_add_channel_nick s c nick) (\<lambda>(a, s1).
       bind_res (live (s_cn s1 a)) (\<lambda>cn.
       bind_res (pull_modes (level + 3) ''modes'' (cn_modes cn) t) (\<lambda>(ok', ms, t).
       let s2 = set_cn_obj s1 a (cn\<lparr>cn_modes := ms\<rparr>) in
       if \<not> ok' then Inr (False, s2, t) else pull_members c level (Suc i) n s2 t)))))"

definition push_channel_state :: "irc_network_state \<Rightarrow> addr \<Rightarrow> push" where
  "push_channel_state s a level name t =
     bind_res (get_channel s a) (\<lambda>c.
     bind_res (push_channel_fields c level name t) (\<lambda>t.
     bind_res (push_struct (level + 1) ''nicks'' t) (\<lambda>t.
     bind_res (push_int (int (length (c_nicks c))) (level + 2) ''count'' t)
       (push_members s level 0 (c_nicks c)))))"

text \<open>
  A new channel is allocated and read; its memory first holds \<open>junk_ch\<close>. It is entered into the
  list of channels when all went well.
\<close>

definition pull_channel_state :: "nicklist_entry \<Rightarrow> irc_channel_state \<Rightarrow> irc_network_state pull" where
  "pull_channel_state junk_be junk_ch level name s t =
     bind_res (pull_channel_fields junk_be level name junk_ch t) (\<lambda>(r, ch, t).
     let a = s_next s; s1 = s\<lparr>s_next := Suc a, s_ch := (s_ch s)(a \<mapsto> ch\<lparr>c_network := True, c_nicks := []\<rparr>)\<rparr> in
     bind_res (pull_struct (level + 1) ''nicks'' t) (\<lambda>(_, t).
     bind_res (pull_int (level + 2) ''count'' 0 t) (\<lambda>(_, count, t).
     bind_res (pull_members a level 0 (nat count) s1 t) (\<lambda>(r', s2, t).
     let ok = r \<and> r' in
     Inr (ok, if ok then s2\<lparr>s_channels := s_channels s2 @ [a]\<rparr> else s2, t)))))"

section \<open>Network states\<close>

definition push_nick_p :: "irc_network_state \<Rightarrow> addr \<Rightarrow> push" where
  "push_nick_p s a level name t = bind_res (live (s_nn s a)) (\<lambda>n. push_network_nick n level name t)"

definition pull_nick_p :: "network_nick \<Rightarrow> irc_network_state pull" where
  "pull_nick_p junk_nn level name s t =
     bind_res (pull_network_nick level name junk_nn t) (\<lambda>(ok, n, t).
     let a = s_next s; s1 = s\<lparr>s_next := Suc a, s_nn := (s_nn s)(a \<mapsto> n)\<rparr> in
     Inr (ok, if ok then s1\<lparr>s_nicks := s_nicks s1 @ [a]\<rparr> else s1, t))"

definition push_network_state :: "irc_network_state \<Rightarrow> string res" where
  "push_network_state s =
     bind_res (push_network_nick (s_me s) 0 ''me'' []) (\<lambda>t.
     bind_res (push_GList (push_nick_p s) (s_nicks s) 0 ''nicks'' t) (\<lambda>t.
     bind_res (push_GList (push_channel_state s) (s_channels s) 0 ''channels'' t) (\<lambda>t.
     bind_res (guard_res (nn_nick (s_me s) \<noteq> None) AssertFail) (\<lambda>_. Inr t))))"

text \<open>What new objects hold before they are read; none of it is initialised.\<close>

record junk =
  j_nick :: network_nick
  j_channel :: irc_channel_state
  j_entry :: nicklist_entry

definition pull_network_state :: "junk \<Rightarrow> irc_network_state \<Rightarrow> string \<Rightarrow> (bool \<times> irc_network_state) res" where
  "pull_network_state j s t =
     (let s0 = s\<lparr>s_me := (s_me s)\<lparr>nn_hostmask := None\<rparr>\<rparr> in
      bind_res (pull_network_nick 0 ''me'' (s_me s0) t) (\<lambda>(r1, me, t).
      bind_res (pull_GList (pull_nick_p (j_nick j)) 0 ''nicks'' (s0\<lparr>s_me := me\<rparr>) t) (\<lambda>(r2, s1, t).
      bind_res (pull_GList (pull_channel_state (j_entry j) (j_channel j)) 0 ''channels'' s1 t) (\<lambda>(r3, s2, t).
      bind_res (guard_res (nn_nick (s_me s2) \<noteq> None) AssertFail) (\<lambda>_. Inr (r1 \<and> r2 \<and> r3, s2))))))"

section \<open>What is written is read back\<close>

text \<open>
  \<open>enc w\<close> is what \<open>w\<close> writes. \<open>recodes w p g\<close>: whatever \<open>w\<close> writes, it appends, and \<open>p\<close> reads it,
  leaves the rest of the text alone, and changes the value it reads into by \<open>g\<close>.
\<close>

definition text_ok :: "string \<Rightarrow> bool" where
  "text_ok v \<longleftrightarrow> (\<forall>c\<in>set v. \<not> line_end c)"

definition enc :: "push \<Rightarrow> nat \<Rightarrow> string \<Rightarrow> string" where
  "enc w level name = (case w level name [] of Inl _ \<Rightarrow> [] | Inr e \<Rightarrow> e)"

definition recodes :: "push \<Rightarrow> 'a pull \<Rightarrow> ('a \<Rightarrow> 'a) \<Rightarrow> bool" where
  "recodes w p g \<longleftrightarrow>
     (\<forall>level name t s r. text_ok name \<longrightarrow>
        w level name t = Inr (t @ enc w level name) \<and> p level name s (enc w level name @ r) = Inr (True, g s, r))"

lemma recodesI:
  assumes "\<And>level name t. text_ok name \<Longrightarrow> w level name t = Inr (t @ e level name)"
    and "\<And>level name s r. text_ok name \<Longrightarrow> p level name s (e level name @ r) = Inr (True, g s, r)"
  shows "recodes w p g"
proof -
  have "enc w level name = e level name" if "text_ok name" for level name
    using assms(1) [OF that, of level "[]"] by (simp add: enc_def)
  then show ?thesis using assms by (simp add: recodes_def)
qed

lemma recodesD:
  assumes "recodes w p g" "text_ok name"
  shows "w level name t = Inr (t @ enc w level name)" "p level name s (enc w level name @ r) = Inr (True, g s, r)"
  using assms unfolding recodes_def by blast+

lemma split_line_line:
  assumes "text_ok line"
  shows "split_line (line @ CHR 0x0A # r) = (line, r)"
proof -
  have "takeWhile (\<lambda>c. \<not> line_end c) (line @ CHR 0x0A # r) = line"
    "dropWhile (\<lambda>c. \<not> line_end c) (line @ CHR 0x0A # r) = CHR 0x0A # r"
    using assms by (auto simp: text_ok_def line_end_def intro!: takeWhile_append_stop dropWhile_append_stop)
  then show ?thesis by (simp add: split_line_def after_line_def)
qed

lemma text_ok_append [simp]: "text_ok (a @ b) \<longleftrightarrow> text_ok a \<and> text_ok b"
  by (auto simp: text_ok_def)

lemma text_ok_tabs [simp]: "text_ok (tabs n)" "length (tabs n) = n"
  by (auto simp: tabs_def text_ok_def line_end_def)

lemma is_prefix_of_append [simp]: "is_prefix_of a (a @ b)"
  by (induction a) simp_all

text \<open>One line: the value comes back, also a missing one.\<close>

lemma marshall_get_line:
  assumes "text_ok (tabs level @ name @ suf)" "suf = [] \<and> v = None \<or> (\<exists>x. suf = '': '' @ x \<and> v = Some x)"
  shows "marshall_get level name ((tabs level @ name @ suf) @ CHR 0x0A # r) = Inr (True, v, r)"
proof -
  define line where "line = tabs level @ name @ suf"
  have split: "split_line (line @ CHR 0x0A # r) = (line, r)"
    by (rule split_line_line) (use assms(1) in \<open>simp add: line_def\<close>)
  have pre: "is_prefix_of (tabs level) line" "is_prefix_of name (drop level line)" by (simp_all add: line_def)
  have at: "char_at line (level + length name) = first_char suf" "drop (level + length name + 2) line = drop 2 suf"
    "length line = level + length name + length suf"
    by (cases suf; simp add: line_def char_at_def nth_append)+
  have "marshall_get level name (line @ CHR 0x0A # r) = Inr (True, v, r)"
    using split pre at assms(2) by (auto simp: marshall_get_def)
  then show ?thesis by (simp add: line_def)
qed

lemma recodes_value:
  assumes "case v of None \<Rightarrow> True | Some x \<Rightarrow> text_ok x"
    and "\<And>level name t. w level name t = marshall_set level name v t"
    and "\<And>level name s t r. marshall_get level name t = Inr (True, v, r) \<Longrightarrow> p level name s t = Inr (True, g s, r)"
  shows "recodes w p g"
proof (rule recodesI)
  define suf where "suf = (case v of None \<Rightarrow> [] | Some v \<Rightarrow> '': '' @ v)"
  fix level and name :: string assume name: "text_ok name"
  have nl: "CHR 0x0A \<notin> set x" if "text_ok x" for x using that by (auto simp: text_ok_def line_end_def)
  show "w level name t = Inr (t @ tabs level @ name @ suf @ [CHR 0x0A])" for t
    using nl name assms(1,2) by (simp add: marshall_set_def suf_def split: option.splits)
  have "text_ok suf" using assms(1) by (auto simp: suf_def text_ok_def line_end_def split: option.splits)
  moreover have "suf = [] \<and> v = None \<or> (\<exists>x. suf = '': '' @ x \<and> v = Some x)" by (cases v) (simp_all add: suf_def)
  ultimately have "marshall_get level name ((tabs level @ name @ suf @ [CHR 0x0A]) @ r) = Inr (True, v, r)" for r
    using marshall_get_line [of level name suf v r] name by simp
  then show "p level name s ((tabs level @ name @ suf @ [CHR 0x0A]) @ r) = Inr (True, g s, r)" for s r
    by (rule assms(3))
qed

lemma recodes_string:
  "(case v of None \<Rightarrow> True | Some x \<Rightarrow> text_ok x) \<Longrightarrow> recodes (push_string v) pull_string (\<lambda>_. v)"
  by (rule recodes_value [of v]) (simp_all add: push_string_def pull_string_def)

lemma recodes_bool: "recodes (push_bool b) pull_bool (\<lambda>_. b)"
proof (rule recodes_value [of "Some (if b then ''true'' else ''false'')"])
  show "case Some (if b then ''true'' else ''false'') of None \<Rightarrow> True | Some x \<Rightarrow> text_ok x"
    by (simp add: text_ok_def line_end_def)
qed (simp_all add: push_bool_def pull_bool_def)

lemma digit_no_line_end: "is_digit_of 10 c \<Longrightarrow> \<not> line_end c"
  by (auto simp: line_end_def is_digit_of_def digit_val_def Let_def)

lemma text_ok_number [simp]: "text_ok (show_nat n)" "text_ok (show_int i)"
  using show_nat_digits digit_no_line_end by (auto simp: text_ok_def show_int_def line_end_def [of "CHR ''-''"])

lemma recodes_char: "\<not> line_end c \<or> c = NUL \<Longrightarrow> recodes (push_char c) pull_char (\<lambda>_. c)"
  by (rule recodes_value [of "Some (c_str [c])"])
    (auto simp: push_char_def pull_char_def text_ok_def)

lemma recodes_modes:
  assumes "printable_modes ms" "\<not> ms (CHR 0x0A)" "\<not> ms (CHR 0x0D)"
  shows "recodes (push_modes ms) pull_modes (\<lambda>_. ms)"
proof (rule recodes_value [of "mode2string ms"])
  have "text_ok (mode_letters ms)"
    using assms set_mode_letters [of ms] by (auto simp: text_ok_def line_end_def printable_modes_def)
  then show "case mode2string ms of None \<Rightarrow> True | Some x \<Rightarrow> text_ok x"
    using c_str_mode_letters [OF assms(1)] by (auto simp: mode2string_def text_ok_def line_end_def Let_def)
qed (simp_all add: push_modes_def pull_modes_def mode_string_roundtrip [OF assms(1)])

lemma show_nat_length: "n < 10 ^ k \<Longrightarrow> 0 < k \<Longrightarrow> length (show_nat n) \<le> k"
proof (induction k arbitrary: n)
  case (Suc k)
  show ?case
  proof (cases "n < 10")
    case False
    then have "0 < k" using Suc.prems(1) by (cases k) auto
    moreover have "n div 10 < 10 ^ k" using Suc.prems(1) by (simp add: less_mult_imp_div_less)
    ultimately show ?thesis using Suc.IH [of "n div 10"] False by (simp add: show_nat.simps [of n])
  qed (simp add: show_nat.simps [of n])
qed simp

lemma recodes_count:
  assumes "n < 10 ^ 9"
  shows "recodes (push_int (int n)) pull_int (\<lambda>_. int n)"
proof (rule recodes_value [of "Some (show_int (int n))"])
  have "length (show_nat n) \<le> 9" using show_nat_length [of n 9] assms by simp
  then show "push_int (int n) level name t = marshall_set level name (Some (show_int (int n))) t" for level name t
    by (simp add: push_int_def show_int_def)
  have "atoi (show_int (int n)) = int n" by (rule atoi_show_int) (use assms in simp_all)
  then show "marshall_get level name t = Inr (True, Some (show_int (int n)), r) \<Longrightarrow>
      pull_int level name s t = Inr (True, int n, r)" for level name s t r
    by (simp add: pull_int_def)
qed (simp add: text_ok_number)

text \<open>A structure is a line without a value.\<close>

lemma recodes_struct:
  "recodes push_struct (\<lambda>level name s t. bind_res (pull_struct level name t) (\<lambda>(ok, r). Inr (ok, s, r))) (\<lambda>s. s)"
  by (rule recodes_value [of None]) (simp_all add: push_struct_def pull_struct_def)

lemma struct_read:
  assumes "text_ok name"
  shows "push_struct level name t = Inr (t @ enc push_struct level name)"
    "pull_struct level name (enc push_struct level name @ r) = Inr (True, r)"
proof -
  show "push_struct level name t = Inr (t @ enc push_struct level name)"
    by (rule recodesD(1) [OF recodes_struct assms])
  show "pull_struct level name (enc push_struct level name @ r) = Inr (True, r)"
    using recodesD(2) [OF recodes_struct assms, of level r] by auto
qed

section \<open>Users are read back\<close>

definition storable_text :: "string option \<Rightarrow> bool" where
  "storable_text v = (case v of None \<Rightarrow> True | Some x \<Rightarrow> text_ok x)"

definition storable_modes :: "modes \<Rightarrow> bool" where
  "storable_modes ms \<longleftrightarrow> printable_modes ms \<and> \<not> ms (CHR 0x0A) \<and> \<not> ms (CHR 0x0D)"

definition storable_nick :: "network_nick \<Rightarrow> bool" where
  "storable_nick n \<longleftrightarrow>
     nn_nick n \<noteq> None \<and> storable_modes (nn_modes n) \<and>
     list_all storable_text
       [nn_nick n, nn_fullname n, nn_username n, nn_hostname n, nn_hostmask n, nn_server n]"

text \<open>Everything but the channels and the distance is stored.\<close>

definition stored_nick :: "network_nick \<Rightarrow> network_nick \<Rightarrow> network_nick" where
  "stored_nick n old = n\<lparr>nn_channel_nicks := [], nn_hops := nn_hops old\<rparr>"

lemma field_names [simp]:
  "text_ok ''query''" "text_ok ''modes''" "text_ok ''nick''" "text_ok ''fullname''" "text_ok ''username''"
  "text_ok ''hostname''" "text_ok ''hostmask''" "text_ok ''server''" "text_ok ''count''" "text_ok ''time''" "text_ok ''by''"
  by (simp_all add: text_ok_def line_end_def)

lemma recodes_text: "storable_text v \<Longrightarrow> recodes (push_string v) pull_string (\<lambda>_. v)"
  by (simp add: storable_text_def recodes_string)

lemma recodes_network_nick:
  assumes "storable_nick n"
  shows "recodes (push_network_nick n) pull_network_nick (stored_nick n)"
proof -
  have st: "storable_text (nn_nick n)" "storable_text (nn_fullname n)" "storable_text (nn_username n)"
    "storable_text (nn_hostname n)" "storable_text (nn_hostmask n)" "storable_text (nn_server n)" "\<exists>x. nn_nick n = Some x"
    using assms by (simp_all add: storable_nick_def)
  have "recodes (push_modes (nn_modes n)) pull_modes (\<lambda>_. nn_modes n)"
    by (rule recodes_modes) (use assms in \<open>simp_all add: storable_nick_def storable_modes_def\<close>)
  note f = struct_read recodesD [OF recodes_bool] recodesD [OF this] recodesD [OF recodes_text [OF st(1)]]
    recodesD [OF recodes_text [OF st(2)]] recodesD [OF recodes_text [OF st(3)]] recodesD [OF recodes_text [OF st(4)]]
    recodesD [OF recodes_text [OF st(5)]] recodesD [OF recodes_text [OF st(6)]] st(7)
  let ?e = "\<lambda>level name. enc push_struct level name @ enc (push_bool (nn_query n)) (level + 1) ''query'' @
    enc (push_modes (nn_modes n)) (level + 1) ''modes'' @ enc (push_string (nn_nick n)) (level + 1) ''nick'' @
    enc (push_string (nn_fullname n)) (level + 1) ''fullname'' @ enc (push_string (nn_username n)) (level + 1) ''username'' @
    enc (push_string (nn_hostname n)) (level + 1) ''hostname'' @ enc (push_string (nn_hostmask n)) (level + 1) ''hostmask'' @
    enc (push_string (nn_server n)) (level + 1) ''server''"
  show ?thesis
    by (rule recodesI [of _ ?e]) (simp_all add: push_network_nick_def pull_network_nick_def stored_nick_def f)
qed

section \<open>Lists are read back\<close>

lemma text_ok_index [simp]: "text_ok (index_name i)"
proof -
  have "text_ok ''[''" "text_ok '']''" by (simp_all add: text_ok_def line_end_def)
  then show ?thesis unfolding index_name_def by (simp only: text_ok_append text_ok_number)
qed

lemma items_read:
  assumes "\<forall>x\<in>set xs. recodes (f x) p (g x)"
  shows "\<exists>e. (\<forall>t. push_items f level i xs t = Inr (t @ e)) \<and>
    (\<forall>s r. pull_items p level i (length xs) s (e @ r) = Inr (True, fold g xs s, r))"
  using assms
proof (induction xs arbitrary: i)
  case (Cons x xs)
  then obtain e where e: "\<forall>t. push_items f level (Suc i) xs t = Inr (t @ e)"
    "\<forall>s r. pull_items p level (Suc i) (length xs) s (e @ r) = Inr (True, fold g xs s, r)"
    by fastforce
  have "recodes (f x) p (g x)" using Cons.prems by simp
  note x = recodesD [OF this text_ok_index]
  show ?case by (rule exI [of _ "enc (f x) (level + 1) (index_name i) @ e"]) (use e x in simp)
qed simp

lemma recodes_GList:
  assumes "\<forall>x\<in>set xs. recodes (f x) p (g x)" "length xs < 10 ^ 9"
  shows "recodes (push_GList f xs) (pull_GList p) (fold g xs)"
proof -
  obtain e where e: "\<forall>level t. push_items f level 0 xs t = Inr (t @ e level)"
    "\<forall>level s r. pull_items p level 0 (length xs) s (e level @ r) = Inr (True, fold g xs s, r)"
    using items_read [OF assms(1), of _ 0] by metis
  note c = recodesD [OF recodes_count [OF assms(2)]]
  show ?thesis
    by (rule recodesI [of _ "\<lambda>level name. enc push_struct level name @
          enc (push_int (int (length xs))) (level + 1) ''count'' @ e level"])
      (use e in \<open>simp_all add: push_GList_def pull_GList_def struct_read c\<close>)
qed

lemma show_nat_head: "0 < n \<Longrightarrow> hd (show_nat n) \<noteq> CHR ''0'' \<and> show_nat n \<noteq> []"
proof (induction n rule: show_nat.induct)
  case (1 n)
  show ?case
  proof (cases "n < 10")
    case True
    have "char_of (48 + n) \<noteq> (CHR ''0'' :: char)"
    proof
      assume "char_of (48 + n) = (CHR ''0'' :: char)"
      then have "of_char (char_of (48 + n) :: char) = (48 :: nat)" by simp
      then show False using True \<open>0 < n\<close> by simp
    qed
    then show ?thesis using True by (simp add: show_nat.simps [of n] digit_char_def)
  next
    case False
    then show ?thesis using 1 by (simp add: show_nat.simps [of n])
  qed
qed

lemma strtol_0_show:
  assumes "0 \<le> i" "i \<le> LONG_MAX"
  shows "fst (strtol 0 (show_int i)) = i"
proof (cases "i = 0")
  case True
  moreover have "fst (strtol 0 (show_int 0)) = 0" by code_simp
  ultimately show ?thesis by simp
next
  case False
  then obtain c cs where c: "show_int i = c # cs" "c \<noteq> CHR ''0''"
    using assms(1) show_nat_head [of "nat i"] by (cases "show_nat (nat i)") (auto simp: show_int_def)
  have "is_digit_of 10 c" using show_nat_first [of "nat i"] c(1) assms(1) by (simp add: show_int_def)
  then have "strtol 0 (c # cs) = strtol 10 (c # cs)"
    using digit_not_special [of c] c(2) by (cases cs; cases "tl cs") (auto simp: strtol_def strtol_radix_def Let_def)
  then show ?thesis using strtol_show_int [of i "[]"] assms c(1) by (simp add: LONG_MIN_def)
qed

lemma recodes_time:
  assumes "0 \<le> i" "i \<le> LONG_MAX"
  shows "recodes (push_time i) pull_time (\<lambda>_. i)"
proof (rule recodes_value [of "Some (show_int i)"])
  have "nat i < 10 ^ 29" using assms(2) by (simp add: LONG_MAX_def nat_less_iff)
  then have "length (show_nat (nat i)) \<le> 29" by (rule show_nat_length) simp
  then show "push_time i level name t = marshall_set level name (Some (show_int i)) t" for level name t
    using assms(1) by (simp add: push_time_def show_int_def)
qed (simp_all add: pull_time_def strtol_0_show [OF assms])

definition storable_entry :: "nicklist_entry \<Rightarrow> bool" where
  "storable_entry d \<longleftrightarrow> storable_text (be_hostmask d) \<and> storable_text (be_by d) \<and> 0 \<le> be_time_set d \<and> be_time_set d \<le> LONG_MAX"

lemma recodes_nicklist_entry:
  assumes "storable_entry d"
  shows "recodes (push_nicklist_entry d) (pull_nicklist_entry junk) (\<lambda>nl. nl @ [d])"
proof -
  note f = struct_read recodesD [OF recodes_time] recodesD [OF recodes_text]
  show ?thesis
    by (rule recodesI [of _ "\<lambda>level name. enc push_struct level name @ enc (push_time (be_time_set d)) (level + 1) ''time'' @
          enc (push_string (be_hostmask d)) (level + 1) ''hostmask'' @ enc (push_string (be_by d)) (level + 1) ''by''"])
      (use assms in \<open>simp_all add: push_nicklist_entry_def pull_nicklist_entry_def storable_entry_def f\<close>)
qed

lemma fold_append_items: "fold (\<lambda>d nl. nl @ [d]) ds = (\<lambda>nl. nl @ ds)"
  by (induction ds) (auto simp: fun_eq_iff)

lemma recodes_nicklist:
  assumes "\<forall>d\<in>set ds. storable_entry d" "length ds < 10 ^ 9"
  shows "recodes (push_GList push_nicklist_entry ds) (pull_GList (pull_nicklist_entry junk)) (\<lambda>nl. nl @ ds)"
  using recodes_GList [of ds push_nicklist_entry "pull_nicklist_entry junk" "\<lambda>d nl. nl @ [d]"] assms
    recodes_nicklist_entry by (simp add: fold_append_items)

section \<open>Channels are read back\<close>

definition storable_channel :: "irc_channel_state \<Rightarrow> bool" where
  "storable_channel c \<longleftrightarrow>
     (\<not> line_end (c_mode c) \<or> c_mode c = NUL) \<and> storable_modes (c_modes c) \<and> text_ok (c_name c) \<and>
     storable_text (c_topic c) \<and> storable_text (c_topic_set_by c) \<and> 0 \<le> c_topic_set_time c \<and>
     c_topic_set_time c \<le> LONG_MAX \<and>
     (\<forall>m. (\<forall>d\<in>set (c_chanmode_nicklist c m). storable_entry d) \<and> length (c_chanmode_nicklist c m) < 10 ^ 9 \<and>
          storable_text (c_chanmode_option c m))"

lemma text_ok_mode_index [simp]: "text_ok (mode_index_name ''mode_nicklist'' i)" "text_ok (mode_index_name ''mode_option'' i)"
proof -
  have "text_ok ''[''" "text_ok '']''" "text_ok ''mode_nicklist''" "text_ok ''mode_option''"
    by (simp_all add: text_ok_def line_end_def)
  then show "text_ok (mode_index_name ''mode_nicklist'' i)" "text_ok (mode_index_name ''mode_option'' i)"
    unfolding mode_index_name_def by (simp_all only: text_ok_append text_ok_number)
qed

text \<open>The lists and options of the modes that were written.\<close>

definition with_modes_of :: "irc_channel_state \<Rightarrow> nat list \<Rightarrow> irc_channel_state \<Rightarrow> irc_channel_state" where
  "with_modes_of c is old =
     old\<lparr>c_chanmode_nicklist := (\<lambda>m. if m \<in> char_of ` set is then c_chanmode_nicklist c m else c_chanmode_nicklist old m),
         c_chanmode_option := (\<lambda>m. if m \<in> char_of ` set is then c_chanmode_option c m else c_chanmode_option old m)\<rparr>"

lemma mode_lists_read:
  assumes "storable_channel c"
  shows "\<exists>e. (\<forall>t. push_mode_lists c level is t = Inr (t @ e)) \<and>
    (\<forall>s r. pull_mode_lists junk level is s (e @ r) = Inr (True, with_modes_of c is s, r))"
proof (induction "is")
  case Nil
  show ?case by (simp add: with_modes_of_def)
next
  case (Cons i "is")
  then obtain e where e: "\<forall>t. push_mode_lists c level is t = Inr (t @ e)"
    "\<forall>s r. pull_mode_lists junk level is s (e @ r) = Inr (True, with_modes_of c is s, r)" by blast
  have st: "\<forall>d\<in>set (c_chanmode_nicklist c m). storable_entry d" "length (c_chanmode_nicklist c m) < 10 ^ 9"
    "storable_text (c_chanmode_option c m)" for m
    using assms by (simp_all add: storable_channel_def)
  note f = recodesD [OF recodes_nicklist [OF st(1,2)] text_ok_mode_index(1)]
    recodesD [OF recodes_text [OF st(3)] text_ok_mode_index(2)]
  have w: "with_modes_of c is (s\<lparr>c_chanmode_nicklist := (c_chanmode_nicklist s)(char_of i := c_chanmode_nicklist c (char_of i)),
      c_chanmode_option := (c_chanmode_option s)(char_of i := c_chanmode_option c (char_of i))\<rparr>) = with_modes_of c (i # is) s" for s
    by (auto simp: with_modes_of_def fun_eq_iff)
  show ?case
    by (rule exI [of _ "enc (push_GList push_nicklist_entry (c_chanmode_nicklist c (char_of i))) (level + 1)
          (mode_index_name ''mode_nicklist'' i) @
        enc (push_string (c_chanmode_option c (char_of i))) (level + 1) (mode_index_name ''mode_option'' i) @ e"])
      (use e in \<open>simp add: f w\<close>)
qed

text \<open>What is not stored: the creation time, and whether modes and the lists of modes were received.\<close>

definition stored_channel :: "irc_channel_state \<Rightarrow> irc_channel_state \<Rightarrow> irc_channel_state" where
  "stored_channel c old =
     with_modes_of c mode_numbers (old\<lparr>c_mode := c_mode c, c_modes := c_modes c,
       c_namreply_started := c_namreply_started c, c_banlist_started := c_banlist_started c,
       c_invitelist_started := c_invitelist_started c, c_exceptlist_started := c_exceptlist_started c,
       c_name := c_name c, c_topic := c_topic c, c_topic_set_by := c_topic_set_by c,
       c_topic_set_time := c_topic_set_time c\<rparr>)"

lemma channel_field_names [simp]:
  "text_ok ''mode''" "text_ok ''namreply_started''" "text_ok ''banlist_started''" "text_ok ''invitelist_started''"
  "text_ok ''exceptlist_started''" "text_ok ''name''" "text_ok ''topic''" "text_ok ''topic_set_by''"
  "text_ok ''topic_set_time''" "text_ok ''nicks''"
  by (simp_all add: text_ok_def line_end_def)

lemma recodes_channel_fields:
  assumes "storable_channel c"
  shows "recodes (push_channel_fields c) (pull_channel_fields junk) (stored_channel c)"
proof -
  have st: "\<not> line_end (c_mode c) \<or> c_mode c = NUL" "storable_modes (c_modes c)" "storable_text (Some (c_name c))"
    "storable_text (c_topic c)" "storable_text (c_topic_set_by c)" "0 \<le> c_topic_set_time c" "c_topic_set_time c \<le> LONG_MAX"
    using assms by (simp_all add: storable_channel_def storable_text_def)
  have ms: "recodes (push_modes (c_modes c)) pull_modes (\<lambda>_. c_modes c)"
    by (rule recodes_modes) (use st(2) in \<open>simp_all add: storable_modes_def\<close>)
  obtain e where e: "\<forall>level t. push_mode_lists c level mode_numbers t = Inr (t @ e level)"
    "\<forall>level s r. pull_mode_lists junk level mode_numbers s (e level @ r) = Inr (True, with_modes_of c mode_numbers s, r)"
    using mode_lists_read [OF assms, of _ mode_numbers junk] by metis
  note f = struct_read recodesD [OF recodes_bool] recodesD [OF recodes_char [OF st(1)]] recodesD [OF ms]
    recodesD [OF recodes_text [OF st(3)]] recodesD [OF recodes_text [OF st(4)]] recodesD [OF recodes_text [OF st(5)]]
    recodesD [OF recodes_time [OF st(6,7)]]
  let ?e = "\<lambda>level name. enc push_struct level name @ enc (push_char (c_mode c)) (level + 1) ''mode'' @
    enc (push_modes (c_modes c)) (level + 1) ''modes'' @
    enc (push_bool (c_namreply_started c)) (level + 1) ''namreply_started'' @
    enc (push_bool (c_banlist_started c)) (level + 1) ''banlist_started'' @
    enc (push_bool (c_invitelist_started c)) (level + 1) ''invitelist_started'' @
    enc (push_bool (c_exceptlist_started c)) (level + 1) ''exceptlist_started'' @
    enc (push_string (Some (c_name c))) (level + 1) ''name'' @ enc (push_string (c_topic c)) (level + 1) ''topic'' @
    enc (push_string (c_topic_set_by c)) (level + 1) ''topic_set_by'' @
    enc (push_time (c_topic_set_time c)) (level + 1) ''topic_set_time'' @ e level"
  show ?thesis
    by (rule recodesI [of _ ?e])
      (use e in \<open>simp_all add: push_channel_fields_def pull_channel_fields_def stored_channel_def f\<close>)
qed

section \<open>Properties\<close>

text \<open>The user \<open>n\<close>, read into a new object.\<close>

definition add_nick :: "network_nick \<Rightarrow> network_nick \<Rightarrow> irc_network_state \<Rightarrow> irc_network_state" where
  "add_nick junk n s =
     s\<lparr>s_next := Suc (s_next s), s_nn := (s_nn s)(s_next s \<mapsto> stored_nick n junk), s_nicks := s_nicks s @ [s_next s]\<rparr>"

lemma recodes_nick_p:
  assumes "s_nn s a = Some n" "storable_nick n"
  shows "recodes (push_nick_p s a) (pull_nick_p junk) (add_nick junk n)"
proof (rule recodesI [of _ "enc (push_network_nick n)"])
  fix level and name :: string assume "text_ok name"
  note f = recodesD [OF recodes_network_nick [OF assms(2)] this]
  show "push_nick_p s a level name t = Inr (t @ enc (push_network_nick n) level name)" for t
    using assms(1) f(1) by (simp add: push_nick_p_def)
  show "pull_nick_p junk level name s' (enc (push_network_nick n) level name @ r) = Inr (True, add_nick junk n s', r)" for s' r
    using f(2) by (simp add: pull_nick_p_def add_nick_def Let_def)
qed



end
