(* ===== verification/Linestack.thy ===== *)
theory Linestack
  imports Marshal Hooks Client_State State_Safety
begin

text \<open>
  The first half of \<open>libirc/linestack.c\<close>: the lines of a network are kept in two files, the
  lines themselves and an index of fixed-size records with the offset of each line, its time
  and the number of the last dump of the network state. States can be rebuilt for any point
  in the past from a dump and the lines after it.
\<close>

section \<open>Files\<close>

text \<open>
  An open file: its bytes and the position. The channel buffers, but every function flushes it
  before it reads, so the bytes are those of the file. Writing can fail, as \<open>space\<close> says.
\<close>

record stack_file =
  sf_data :: string
  sf_pos :: nat

definition file_write :: "(stack_file \<Rightarrow> string \<Rightarrow> bool) \<Rightarrow> stack_file \<Rightarrow> string \<Rightarrow> io_status \<times> nat \<times> stack_file" where
  "file_write space f s =
     (if space f s then
        (IO_NORMAL, length s,
         f\<lparr>sf_data := take (sf_pos f) (sf_data f) @ s @ drop (sf_pos f + length s) (sf_data f),
           sf_pos := sf_pos f + length s\<rparr>)
      else (IO_ERROR, 0, f))"

text \<open>Seeking to a negative offset is an error.\<close>

definition seek_set :: "int \<Rightarrow> stack_file \<Rightarrow> stack_file option" where
  "seek_set off f = (if off < 0 then None else Some (f\<lparr>sf_pos := nat off\<rparr>))"

definition seek_end :: "stack_file \<Rightarrow> stack_file" where
  "seek_end f = f\<lparr>sf_pos := length (sf_data f)\<rparr>"

definition read_chars :: "nat \<Rightarrow> stack_file \<Rightarrow> io_status \<times> string \<times> stack_file" where
  "read_chars k f =
     (let s = take k (drop (sf_pos f) (sf_data f)) in
      if s = [] then (IO_EOF, [], f) else (IO_NORMAL, s, f\<lparr>sf_pos := sf_pos f + length s\<rparr>))"

definition read_file_line :: "stack_file \<Rightarrow> io_status \<times> string \<times> stack_file" where
  "read_file_line f =
     (let rest = drop (sf_pos f) (sf_data f); after = after_line rest in
      if rest = [] then (IO_EOF, [], f)
      else (IO_NORMAL, take (length rest - length after) rest, f\<lparr>sf_pos := length (sf_data f) - length after\<rparr>))"

definition file_io :: "(stack_file \<Rightarrow> string \<Rightarrow> bool) \<Rightarrow> stack_file giochannel" where
  "file_io space = \<lparr>write_chars = file_write space, flush = (\<lambda>f. (IO_NORMAL, f)), read_line = read_file_line\<rparr>"

text \<open>
  Numbers of 64 bits as eight bytes, the lowest first. A record that is cut off would be read
  into memory that is not initialised.
\<close>

fun put_bytes :: "nat \<Rightarrow> nat \<Rightarrow> string" where
  "put_bytes 0 v = []"
| "put_bytes (Suc k) v = char_of (v mod 256) # put_bytes k (v div 256)"

fun get_bytes :: "string \<Rightarrow> nat" where
  "get_bytes [] = 0"
| "get_bytes (c # cs) = of_char c + 256 * get_bytes cs"

definition put64 :: "int \<Rightarrow> string" where
  "put64 i = put_bytes 8 (nat (i mod 0x10000000000000000))"

definition get64 :: "string \<Rightarrow> int res" where
  "get64 s = (if length s = 8 then Inr (int (get_bytes s)) else Inl OutOfBounds)"

text \<open>Conversion to a signed number of 64 bits.\<close>

definition to_int64 :: "int \<Rightarrow> int" where
  "to_int64 v = (v + 0x8000000000000000) mod 0x10000000000000000 - 0x8000000000000000"

section \<open>Contexts\<close>

text \<open>\<open>ls_states\<close> are the files in the directory of states, by their number.\<close>

record linestack_context =
  ls_lines :: stack_file
  ls_index :: stack_file
  ls_states :: "int \<rightharpoonup> string"
  ls_count :: int
  ls_last_line_with_state :: int

definition INDEX_RECORD_SIZE :: int where "INDEX_RECORD_SIZE = 24"
definition STATE_DUMP_INTERVAL :: int where "STATE_DUMP_INTERVAL = 1000"

text \<open>The dump replaces the file of that number; its writing is not checked.\<close>

definition file_insert_state :: "linestack_context \<Rightarrow> irc_network_state \<Rightarrow> int \<Rightarrow> (bool \<times> linestack_context) res" where
  "file_insert_state nd state state_id =
     bind_res (push_network_state state) (\<lambda>t.
     Inr (True, nd\<lparr>ls_last_line_with_state := ls_count nd, ls_states := (ls_states nd)(state_id \<mapsto> t)\<rparr>))"

text \<open>Opening the files succeeds; \<open>old\<close> is what the directory holds before.\<close>

definition create_linestack :: "linestack_context \<Rightarrow> bool \<Rightarrow> irc_network_state \<Rightarrow> linestack_context option res" where
  "create_linestack old trunc state =
     (let data = (if trunc
                  then \<lparr>ls_lines = \<lparr>sf_data = [], sf_pos = 0\<rparr>, ls_index = \<lparr>sf_data = [], sf_pos = 0\<rparr>,
                        ls_states = Map.empty, ls_count = 0, ls_last_line_with_state = 0\<rparr>
                  else \<lparr>ls_lines = seek_end (ls_lines old), ls_index = seek_end (ls_index old),
                        ls_states = ls_states old,
                        ls_count = int (length (sf_data (ls_index old))) div INDEX_RECORD_SIZE,
                        ls_last_line_with_state = 0\<rparr>) in
      bind_res (file_insert_state data state 0) (\<lambda>(ok, nd). Inr (if ok then Some nd else None)))"

section \<open>Inserting\<close>

definition linestack_messages :: "string list" where
  "linestack_messages =
     [''NICK'', ''JOIN'', ''QUIT'', ''PART'', ''PRIVMSG'', ''NOTICE'', ''KICK'', ''MODE'', ''TOPIC'', ''353'', ''366'',
      ''331'', ''333'', ''332'', ''324'', ''329'']"

fun write_all :: "(stack_file \<Rightarrow> string \<Rightarrow> bool) \<Rightarrow> string list \<Rightarrow> stack_file \<Rightarrow> bool \<times> stack_file" where
  "write_all space [] f = (True, f)"
| "write_all space (s # ss) f =
     (let (st, _, f') = file_write space f s in
      if st \<noteq> IO_NORMAL then (False, f') else write_all space ss f')"

definition write_index_entry ::
    "(stack_file \<Rightarrow> string \<Rightarrow> bool) \<Rightarrow> stack_file \<Rightarrow> int \<Rightarrow> int \<Rightarrow> int \<Rightarrow> bool \<times> stack_file" where
  "write_index_entry space f offset time state_index =
     write_all space [put64 offset, put64 time, put64 state_index] f"

definition private_text :: "string \<Rightarrow> bool" where
  "private_text a0 \<longleftrightarrow> base_eq a0 ''PRIVMSG'' \<or> base_eq a0 ''NOTICE''"

text \<open>Whether a line is kept.\<close>

definition line_needed :: "data_direction \<Rightarrow> irc_line \<Rightarrow> bool" where
  "line_needed dir l \<longleftrightarrow>
     (case args l of
        [] \<Rightarrow> False
      | a0 # _ \<Rightarrow>
          \<not> (dir = TO_SERVER \<and> \<not> private_text a0) \<and>
          \<not> (private_text a0 \<and> argc l > 2 \<and> first_char (args l ! 2) = CHR 0x01 \<and>
             base_strncmp (args l ! 2) (CHR 0x01 # ''ACTION'') 7 \<noteq> 0) \<and>
          (\<exists>m\<in>set linestack_messages. base_eq m a0))"

definition linestack_insert_line ::
    "(stack_file \<Rightarrow> string \<Rightarrow> bool) \<Rightarrow> int \<Rightarrow> linestack_context \<Rightarrow> irc_line \<Rightarrow> data_direction \<Rightarrow> irc_network_state \<Rightarrow>
     (bool \<times> linestack_context) res" where
  "linestack_insert_line space now nd l dir state =
     (if \<not> line_needed dir l then Inr (True, nd)
      else
        bind_res (guard_res (\<forall>a\<in>set (args l). CHR 0x0A \<notin> set a \<and> CHR 0x0D \<notin> set a) AssertFail) (\<lambda>_.
        bind_res (if ls_count nd \<ge> ls_last_line_with_state nd + STATE_DUMP_INTERVAL
                  then file_insert_state nd state (ls_count nd) else Inr (True, nd)) (\<lambda>(ok, nd1).
        if \<not> ok then Inr (False, nd1)
        else
          let (ok2, idx) = write_index_entry space (ls_index nd1) (int (sf_pos (ls_lines nd1))) now
                             (ls_last_line_with_state nd1);
              nd2 = nd1\<lparr>ls_index := idx\<rparr> in
          if \<not> ok2 then Inr (False, nd2)
          else
            bind_res (irc_send_line (file_io space) None (ls_lines nd2) l) (\<lambda>(status, f).
            let nd3 = nd2\<lparr>ls_lines := f\<rparr> in
            if status \<noteq> IO_NORMAL then Inr (False, nd3)
            else Inr (True, nd3\<lparr>ls_count := ls_count nd3 + 1\<rparr>)))))"

section \<open>Reading\<close>

text \<open>
  One entry: whether it could be read, with the line and the time. A line that has only a
  prefix is NULL; at the end of the file there is no text to parse.
\<close>

definition linestack_read_entry ::
    "linestack_context \<Rightarrow> int \<Rightarrow> ((irc_line option \<times> int) option \<times> linestack_context) res" where
  "linestack_read_entry nd i =
     (case seek_set (to_int64 (i * INDEX_RECORD_SIZE)) (ls_index nd) of
        None \<Rightarrow> Inr (None, nd)
      | Some f0 \<Rightarrow>
          let (st1, b1, f1) = read_chars 8 f0 in
          if st1 \<noteq> IO_NORMAL then Inr (None, nd\<lparr>ls_index := f1\<rparr>)
          else
            bind_res (get64 b1) (\<lambda>offset.
            let (st2, b2, f2) = read_chars 8 f1; nd1 = nd\<lparr>ls_index := f2\<rparr> in
            if st2 \<noteq> IO_NORMAL then Inr (None, nd1)
            else
              bind_res (get64 b2) (\<lambda>time.
              case seek_set (to_int64 offset) (ls_lines nd1) of
                None \<Rightarrow> Inr (None, nd1)
              | Some g0 \<Rightarrow>
                  let (st3, raw, g1) = read_file_line g0; nd2 = nd1\<lparr>ls_lines := g1\<rparr> in
                  if st3 = IO_EOF then Inl NullDeref
                  else Inr (Some (irc_parse_line raw, to_int64 time), nd2))))"

type_synonym 'u traverse_fn = "irc_line option \<Rightarrow> int \<Rightarrow> 'u \<Rightarrow> (bool \<times> 'u) res"

fun traverse_loop ::
    "'u traverse_fn \<Rightarrow> int list \<Rightarrow> linestack_context \<Rightarrow> 'u \<Rightarrow> (bool \<times> linestack_context \<times> 'u) res" where
  "traverse_loop h [] nd u = Inr (True, nd, u)"
| "traverse_loop h (i # is) nd u =
     bind_res (linestack_read_entry nd i) (\<lambda>(e, nd1).
     case e of
       None \<Rightarrow> Inr (False, nd1, u)
     | Some (l, t) \<Rightarrow>
         bind_res (h l t u) (\<lambda>(ret, u1). if ret then traverse_loop h is nd1 u1 else Inr (False, nd1, u1)))"

text \<open>A marker is the number of lines at some time.\<close>

definition linestack_traverse ::
    "linestack_context option \<Rightarrow> int option \<Rightarrow> int option \<Rightarrow> 'u traverse_fn \<Rightarrow> 'u \<Rightarrow>
     (bool \<times> linestack_context option \<times> 'u) res" where
  "linestack_traverse nd lm_from lm_to h u =
     (case nd of
        None \<Rightarrow> Inr (False, None, u)
      | Some nd \<Rightarrow>
          let start = (case lm_from of None \<Rightarrow> 0 | Some i \<Rightarrow> i);
              stop = (case lm_to of None \<Rightarrow> ls_count nd | Some i \<Rightarrow> i) in
          bind_res (traverse_loop h [start..stop - 1] nd u) (\<lambda>(ret, nd1, u1).
          Inr (ret, Some (nd1\<lparr>ls_lines := seek_end (ls_lines nd1), ls_index := seek_end (ls_index nd1)\<rparr>), u1)))"

definition linestack_get_marker :: "linestack_context option \<Rightarrow> int option" where
  "linestack_get_marker nd = map_option ls_count nd"

definition traverse_object_handler :: "string \<Rightarrow> 'u traverse_fn \<Rightarrow> 'u traverse_fn" where
  "traverse_object_handler object h lo t u =
     bind_res (deref lo) (\<lambda>l.
     if argc l < 2 then Inr (True, u)
     else
       let a1 = args l ! 1 in
       if \<not> has_chr a1 (CHR '','') then (if strcmp a1 object = 0 then h lo t u else Inr (True, u))
       else if \<exists>c\<in>set (g_strsplit a1 (CHR '','') 0). strcmp c object = 0 then h lo t u
       else Inr (True, u))"

definition linestack_traverse_object ::
    "linestack_context option \<Rightarrow> string \<Rightarrow> int option \<Rightarrow> int option \<Rightarrow> 'u traverse_fn \<Rightarrow> 'u \<Rightarrow>
     (bool \<times> linestack_context option \<times> 'u) res" where
  "linestack_traverse_object nd object lm_from lm_to h u =
     bind_res (guard_res (nd \<noteq> None) AssertFail) (\<lambda>_.
     linestack_traverse nd lm_from lm_to (traverse_object_handler object h) u)"

section \<open>Sending to a client\<close>

text \<open>\<open>fmt\<close> formats a time. The four functions differ in what they send and whether with the time.\<close>

definition send_stored_line ::
    "int \<Rightarrow> 'c giochannel \<Rightarrow> (int \<Rightarrow> string) \<Rightarrow> bool \<Rightarrow> bool \<Rightarrow> int \<Rightarrow> 'c irc_client traverse_fn" where
  "send_stored_line now io fmt dataonly timed time_offset lo t c =
     bind_res (deref lo) (\<lambda>l.
     if \<not> dataonly \<and> \<not> timed then client_send_line now io c l
     else
       bind_res (sarg l 0) (\<lambda>a0.
       let data = (private_text a0 \<and> argc l > 2) in
       if dataonly \<and> \<not> data then Inr (True, c)
       else if timed \<and> data then
         bind_res (line_prefix_time l (fmt (t + time_offset))) (\<lambda>(_, l'). client_send_line now io c l')
       else client_send_line now io c l))"

definition linestack_send ::
    "int \<Rightarrow> 'c giochannel \<Rightarrow> (int \<Rightarrow> string) \<Rightarrow> linestack_context option \<Rightarrow> int option \<Rightarrow> int option \<Rightarrow> bool \<Rightarrow> bool \<Rightarrow> int \<Rightarrow>
     'c irc_client \<Rightarrow> (bool \<times> linestack_context option \<times> 'c irc_client) res" where
  "linestack_send now io fmt nd mf mt dataonly timed time_offset c =
     linestack_traverse nd mf mt (send_stored_line now io fmt dataonly timed time_offset) c"

definition linestack_send_object ::
    "int \<Rightarrow> 'c giochannel \<Rightarrow> (int \<Rightarrow> string) \<Rightarrow> linestack_context option \<Rightarrow> string \<Rightarrow> int option \<Rightarrow> int option \<Rightarrow> bool \<Rightarrow> bool \<Rightarrow>
     int \<Rightarrow> 'c irc_client \<Rightarrow> (bool \<times> linestack_context option \<times> 'c irc_client) res" where
  "linestack_send_object now io fmt nd object mf mt dataonly timed time_offset c =
     linestack_traverse_object nd object mf mt (send_stored_line now io fmt dataonly timed time_offset) c"

section \<open>States of the past\<close>

definition replay_line :: "int \<Rightarrow> irc_network_state traverse_fn" where
  "replay_line now lo t st =
     bind_res (deref lo) (\<lambda>l. bind_res (state_handle_data now st l) (\<lambda>(_, st'). Inr (True, st')))"

definition linestack_replay ::
    "int \<Rightarrow> linestack_context option \<Rightarrow> int option \<Rightarrow> int option \<Rightarrow> irc_network_state \<Rightarrow>
     (bool \<times> linestack_context option \<times> irc_network_state) res" where
  "linestack_replay now nd mf mt st = linestack_traverse nd mf mt (replay_line now) st"

text \<open>
  The number of the dump before a point: from the index, or the last one. When the index ends
  before that point, its position is left there.
\<close>

definition state_before :: "linestack_context \<Rightarrow> int option \<Rightarrow> (int option \<times> linestack_context) res" where
  "state_before nd to_index =
     (case to_index of
        None \<Rightarrow> Inr (Some (ls_last_line_with_state nd), nd)
      | Some m \<Rightarrow>
          (case seek_set (to_int64 ((m - 1) * INDEX_RECORD_SIZE + 16)) (ls_index nd) of
             None \<Rightarrow> Inr (None, nd)
           | Some f \<Rightarrow>
               let (st, b, f') = read_chars 8 f in
               if st \<noteq> IO_NORMAL then Inr (None, nd\<lparr>ls_index := f'\<rparr>)
               else bind_res (get64 b) (\<lambda>i. Inr (Some i, nd\<lparr>ls_index := seek_end f'\<rparr>))))"

definition linestack_get_state ::
    "junk \<Rightarrow> int \<Rightarrow> linestack_context option \<Rightarrow> int option \<Rightarrow> (irc_network_state option \<times> linestack_context) res" where
  "linestack_get_state j now ctx to_index =
     bind_res (asserted ctx) (\<lambda>nd0.
     bind_res (state_before nd0 to_index) (\<lambda>(si, nd).
     case si of
       None \<Rightarrow> Inr (None, nd)
     | Some state_index \<Rightarrow>
         (case ls_states nd state_index of
            None \<Rightarrow> Inr (None, nd)
          | Some t \<Rightarrow>
              bind_res (network_state_init (Some []) (Some []) (Some [])) (\<lambda>s0.
              bind_res (pull_network_state j s0 t) (\<lambda>(ok, s1).
              if \<not> ok then Inr (None, nd)
              else
                bind_res (linestack_replay now (Some nd) (Some state_index) to_index s1) (\<lambda>(ok2, ctx2, s2).
                bind_res (deref ctx2) (\<lambda>nd2.
                if \<not> ok2 then Inr (None, nd2)
                else
                  bind_res (guard_res (nn_nick (s_me s2) \<noteq> None) AssertFail) (\<lambda>_.
                  bind_res (guard_res (nn_query (s_me s2)) AssertFail) (\<lambda>_. Inr (Some s2, nd2))))))))))"

end
