(* ===== verification/Linestack_Spec.thy ===== *)
theory Linestack_Spec
  imports Linestack
begin

text \<open>
  The two files of a line stack behave like a list of lines with their times: inserting
  appends to it and traversing walks over a part of it. What a marker stands for, and where
  the files and the count come apart.
\<close>

section \<open>Numbers in the index\<close>

lemma length_put_bytes [simp]: "length (put_bytes k v) = k"
  by (induction k arbitrary: v) auto

lemma get_put_bytes: "get_bytes (put_bytes k v) = v mod 256 ^ k"
proof (induction k arbitrary: v)
  case (Suc k)
  have "v mod 256 + 256 * (v div 256 mod 256 ^ k) = v mod (256 * 256 ^ k)"
    by (simp add: mod_mult2_eq)
  then show ?case by (simp add: Suc.IH)
qed simp

lemma length_put64 [simp]: "length (put64 i) = 8"
  by (simp add: put64_def)

lemma get_put64:
  assumes "0 \<le> i" "i < 0x10000000000000000"
  shows "get64 (put64 i) = Inr i"
  using assms by (simp add: get64_def put64_def get_put_bytes)

lemma to_int64_id: "0 \<le> i \<Longrightarrow> i < 0x8000000000000000 \<Longrightarrow> to_int64 i = i"
  by (simp add: to_int64_def)

section \<open>The files as a list of entries\<close>

text \<open>An entry: the text of the line, its time and the number of the dump before it.\<close>

type_synonym entry = "string \<times> int \<times> int"

definition eol :: string where
  "eol = [CHR 0x0D, CHR 0x0A]"

definition line_bytes :: "entry list \<Rightarrow> string" where
  "line_bytes es = concat (map (\<lambda>(s, _). s @ eol) es)"

definition index_record :: "nat \<Rightarrow> int \<Rightarrow> int \<Rightarrow> string" where
  "index_record off t k = put64 (int off) @ put64 t @ put64 k"

fun index_bytes :: "nat \<Rightarrow> entry list \<Rightarrow> string" where
  "index_bytes off [] = []"
| "index_bytes off ((s, t, k) # es) = index_record off t k @ index_bytes (off + length s + 2) es"

definition entry_ok :: "entry \<Rightarrow> bool" where
  "entry_ok e = (case e of (s, t, k) \<Rightarrow> text_ok s \<and> 0 \<le> t \<and> t < 0x8000000000000000 \<and> 0 \<le> k \<and> k < 0x8000000000000000)"

definition represents :: "linestack_context \<Rightarrow> entry list \<Rightarrow> bool" where
  "represents nd es \<longleftrightarrow>
     ls_count nd = int (length es) \<and> sf_data (ls_lines nd) = line_bytes es \<and>
     sf_data (ls_index nd) = index_bytes 0 es \<and> list_all entry_ok es \<and>
     int (length (line_bytes es)) < 0x8000000000000000 \<and> 24 * int (length es) < 0x8000000000000000"

definition at_ends :: "linestack_context \<Rightarrow> bool" where
  "at_ends nd \<longleftrightarrow> sf_pos (ls_lines nd) = length (sf_data (ls_lines nd)) \<and> sf_pos (ls_index nd) = length (sf_data (ls_index nd))"

lemma length_index_record [simp]: "length (index_record off t k) = 24"
  by (simp add: index_record_def)

lemma line_bytes_simps [simp]:
  "line_bytes [] = []" "line_bytes ((s, t, k) # es) = s @ eol @ line_bytes es"
  "line_bytes (es @ es') = line_bytes es @ line_bytes es'"
  by (simp_all add: line_bytes_def)

lemma length_eol [simp]: "length eol = 2"
  by (simp add: eol_def)

lemma index_bytes_append:
  "index_bytes off (es @ es') = index_bytes off es @ index_bytes (off + length (line_bytes es)) es'"
  by (induction off es rule: index_bytes.induct) (simp_all add: add.assoc)

lemma length_index_bytes [simp]: "length (index_bytes off es) = 24 * length es"
  by (induction off es rule: index_bytes.induct) simp_all

text \<open>Where entry \<open>i\<close> is.\<close>

lemma entry_at:
  assumes "i < length es" "es ! i = (s, t, k)"
  shows "\<exists>rest. index_bytes 0 es = index_bytes 0 (take i es) @ index_record (length (line_bytes (take i es))) t k @ rest"
    "\<exists>rest. line_bytes es = line_bytes (take i es) @ s @ eol @ rest"
proof -
  have es: "es = take i es @ (s, t, k) # drop (Suc i) es" using assms id_take_nth_drop by fastforce
  show "\<exists>rest. index_bytes 0 es = index_bytes 0 (take i es) @ index_record (length (line_bytes (take i es))) t k @ rest"
    by (subst es) (auto simp: index_bytes_append)
  show "\<exists>rest. line_bytes es = line_bytes (take i es) @ s @ eol @ rest"
    by (subst es) auto
qed

lemma read_chars_at:
  assumes "sf_data f = a @ b @ r" "sf_pos f = length a" "length b = k" "b \<noteq> []"
  shows "read_chars k f = (IO_NORMAL, b, f\<lparr>sf_pos := length a + k\<rparr>)"
  using assms by (simp add: read_chars_def)

lemma after_line_eol: "text_ok s \<Longrightarrow> after_line (s @ eol @ r) = r"
proof -
  assume "text_ok s"
  then have "dropWhile (\<lambda>c. \<not> line_end c) (s @ CHR 0x0D # CHR 0x0A # r) = CHR 0x0D # CHR 0x0A # r"
    by (intro dropWhile_append_stop) (auto simp: text_ok_def line_end_def)
  then show ?thesis by (simp add: after_line_def eol_def)
qed

lemma read_file_line_at:
  assumes "sf_data f = a @ s @ eol @ r" "sf_pos f = length a" "text_ok s"
  shows "read_file_line f = (IO_NORMAL, s @ eol, f\<lparr>sf_pos := length a + length s + 2\<rparr>)"
  using assms after_line_eol [OF assms(3)] by (simp add: read_file_line_def eol_def)

text \<open>Reading moves the positions and nothing else.\<close>

definition moved :: "linestack_context \<Rightarrow> linestack_context \<Rightarrow> bool" where
  "moved nd nd' \<longleftrightarrow>
     sf_data (ls_lines nd') = sf_data (ls_lines nd) \<and> sf_data (ls_index nd') = sf_data (ls_index nd) \<and>
     ls_states nd' = ls_states nd \<and> ls_count nd' = ls_count nd \<and>
     ls_last_line_with_state nd' = ls_last_line_with_state nd"

lemma moved_refl [simp]: "moved nd nd"
  by (simp add: moved_def)

lemma moved_trans: "moved a b \<Longrightarrow> moved b c \<Longrightarrow> moved a c"
  by (simp add: moved_def)

lemma moved_represents: "moved nd nd' \<Longrightarrow> represents nd' es = represents nd es"
  by (simp add: moved_def represents_def)

definition rewind :: "linestack_context \<Rightarrow> linestack_context" where
  "rewind nd = nd\<lparr>ls_lines := seek_end (ls_lines nd), ls_index := seek_end (ls_index nd)\<rparr>"

lemma rewind_moved:
  assumes "moved nd nd'" "at_ends nd"
  shows "rewind nd' = nd"
proof -
  have "seek_end (ls_lines nd') = ls_lines nd" "seek_end (ls_index nd') = ls_index nd"
    using assms
    by (simp_all add: moved_def at_ends_def seek_end_def stack_file.equality)
  then show ?thesis using assms(1) by (simp add: rewind_def moved_def linestack_context.equality)
qed

lemma read_record:
  assumes idx: "sf_data (ls_index nd) = A @ index_record off t k @ r1" "length A = 24 * i"
    and lines: "sf_data (ls_lines nd) = B @ s @ eol @ r2" "length B = off"
    and ok: "text_ok s" "0 \<le> t" "t < 0x8000000000000000" "int off < 0x8000000000000000" "24 * int i < 0x8000000000000000"
  shows "\<exists>nd'. linestack_read_entry nd (int i) = Inr (Some (irc_parse_line (s @ eol), t), nd') \<and> moved nd nd'"
proof -
  have seek: "to_int64 (int i * INDEX_RECORD_SIZE) = 24 * int i"
    using ok(5) by (simp add: INDEX_RECORD_SIZE_def to_int64_id)
  let ?f0 = "(ls_index nd)\<lparr>sf_pos := 24 * i\<rparr>"
  have pos: "nat (24 * int i) = 24 * i" by simp
  have c1: "read_chars 8 ?f0 = (IO_NORMAL, put64 (int off), ?f0\<lparr>sf_pos := 24 * i + 8\<rparr>)"
    using idx
    by (subst read_chars_at [of _ A "put64 (int off)" "put64 t @ put64 k @ r1"])
      (auto simp: index_record_def simp flip: length_0_conv)
  have c2: "read_chars 8 (?f0\<lparr>sf_pos := 24 * i + 8\<rparr>) = (IO_NORMAL, put64 t, ?f0\<lparr>sf_pos := 24 * i + 16\<rparr>)"
    using idx
    by (subst read_chars_at [of _ "A @ put64 (int off)" "put64 t" "put64 k @ r1"])
      (auto simp: index_record_def simp flip: length_0_conv)
  have c3: "read_file_line ((ls_lines nd)\<lparr>sf_pos := off\<rparr>) =
      (IO_NORMAL, s @ eol, (ls_lines nd)\<lparr>sf_pos := off + length s + 2\<rparr>)"
    using lines ok(1) by (subst read_file_line_at [of _ B s r2]) simp_all
  have o: "to_int64 (int off) = int off" "to_int64 t = t" using ok by (simp_all add: to_int64_id)
  have "linestack_read_entry nd (int i) = Inr (Some (irc_parse_line (s @ eol), t),
      nd\<lparr>ls_index := ?f0\<lparr>sf_pos := 24 * i + 16\<rparr>, ls_lines := (ls_lines nd)\<lparr>sf_pos := off + length s + 2\<rparr>\<rparr>)"
    using c1 c2 c3 o ok get_put64 [of "int off"] get_put64 [of t]
    by (simp add: linestack_read_entry_def seek seek_set_def pos)
  then show ?thesis by (auto simp: moved_def)
qed

lemma read_entry:
  assumes "represents nd es" "i < length es" "es ! i = (s, t, k)"
  shows "\<exists>nd'. linestack_read_entry nd (int i) = Inr (Some (irc_parse_line (s @ eol), t), nd') \<and> moved nd nd'"
proof -
  let ?off = "length (line_bytes (take i es))"
  obtain r1 where r1: "index_bytes 0 es = index_bytes 0 (take i es) @ index_record ?off t k @ r1"
    using entry_at(1) [OF assms(2,3)] by blast
  obtain r2 where r2: "line_bytes es = line_bytes (take i es) @ s @ eol @ r2"
    using entry_at(2) [OF assms(2,3)] by blast
  have "text_ok s" "0 \<le> t" "t < 0x8000000000000000"
    using assms by (auto simp: represents_def list_all_length entry_ok_def)
  moreover have "int ?off < 0x8000000000000000" "24 * int i < 0x8000000000000000"
    using r2 assms(1,2) by (simp_all add: represents_def)
  ultimately show ?thesis
    using read_record [of nd "index_bytes 0 (take i es)" ?off t k r1 i "line_bytes (take i es)" s r2] assms r1 r2
    by (simp add: represents_def)
qed

section \<open>Traversing walks over the list\<close>

fun walk :: "'u traverse_fn \<Rightarrow> entry list \<Rightarrow> 'u \<Rightarrow> (bool \<times> 'u) res" where
  "walk h [] u = Inr (True, u)"
| "walk h ((s, t, k) # es) u =
     bind_res (h (irc_parse_line (s @ eol)) t u) (\<lambda>(ret, u'). if ret then walk h es u' else Inr (False, u'))"

lemma rewind_cong: "moved nd nd' \<Longrightarrow> rewind nd' = rewind nd"
  by (simp add: rewind_def moved_def seek_end_def linestack_context.equality stack_file.equality)

lemma traverse_loop_walk:
  assumes "represents nd es" "a + d \<le> length es"
  shows "bind_res (traverse_loop h [int a..int a + int d - 1] nd u) (\<lambda>(ret, nd1, u1). Inr (ret, rewind nd1, u1)) =
    bind_res (walk h (take d (drop a es)) u) (\<lambda>(ret, u1). Inr (ret, rewind nd, u1))"
  using assms
proof (induction d arbitrary: a nd u)
  case (Suc d)
  obtain s t k where e: "es ! a = (s, t, k)" by (cases "es ! a")
  have a: "a < length es" using Suc.prems(2) by simp
  obtain nd1 where nd1: "linestack_read_entry nd (int a) = Inr (Some (irc_parse_line (s @ eol), t), nd1)" "moved nd nd1"
    using read_entry [OF Suc.prems(1) a e] by blast
  have "represents nd1 es" using moved_represents [OF nd1(2)] Suc.prems(1) by simp
  then have IH: "bind_res (traverse_loop h [int (Suc a)..int (Suc a) + int d - 1] nd1 v)
        (\<lambda>(ret, nd1, u1). Inr (ret, rewind nd1, u1)) =
      bind_res (walk h (take d (drop (Suc a) es)) v) (\<lambda>(ret, u1). Inr (ret, rewind nd1, u1))" for v
    by (rule Suc.IH) (use Suc.prems(2) in simp)
  have up: "[int a..int a + int (Suc d) - 1] = int a # [int (Suc a)..int (Suc a) + int d - 1]"
    by (subst upto_rec1) (simp_all add: add.commute)
  have dr: "take (Suc d) (drop a es) = (s, t, k) # take d (drop (Suc a) es)"
    using a e by (metis Cons_nth_drop_Suc take_Suc_Cons)
  show ?case
    unfolding up dr
    using nd1(1) IH rewind_cong [OF nd1(2)]
    by (cases "h (irc_parse_line (s @ eol)) t u") (auto simp: bind_res_assoc case_prod_unfold)
qed simp

lemma traverse_walk:
  assumes "represents nd es" "at_ends nd" "b \<le> length es" "a \<le> b"
  shows "linestack_traverse (Some nd) (Some (int a)) (Some (int b)) h u =
    bind_res (walk h (take (b - a) (drop a es)) u) (\<lambda>(ret, u'). Inr (ret, Some nd, u'))"
proof -
  have nd: "rewind nd = nd" by (rule rewind_moved [OF moved_refl assms(2)])
  have "bind_res (bind_res (traverse_loop h [int a..int b - 1] nd u) (\<lambda>(ret, nd1, u1). Inr (ret, rewind nd1, u1)))
      (\<lambda>(ret, nd1, u1). Inr (ret, Some nd1, u1)) =
    bind_res (bind_res (walk h (take (b - a) (drop a es)) u) (\<lambda>(ret, u1). Inr (ret, nd, u1)))
      (\<lambda>(ret, nd1, u1). Inr (ret, Some nd1, u1))"
    using traverse_loop_walk [OF assms(1), of a "b - a" h u] assms(3,4) nd by (simp add: of_nat_diff)
  then show ?thesis
    by (simp add: linestack_traverse_def rewind_def bind_res_assoc case_prod_unfold)
qed

text \<open>
  C3. Traversing a stack of lines from one marker to another calls the handler for exactly the
  entries between them, in order, each parsed from its text and with its time, until the
  handler asks to stop, and leaves the stack as it was.
\<close>

theorem linestack_traverse_refines:
  assumes "represents nd es" "at_ends nd" "b \<le> length es" "a \<le> b"
  shows "linestack_traverse (Some nd) (Some (int a)) (Some (int b)) h u =
    bind_res (walk h (take (b - a) (drop a es)) u) (\<lambda>(ret, u'). Inr (ret, Some nd, u'))"
  by (rule traverse_walk [OF assms])

section \<open>Inserting appends to the list\<close>

lemma print_args_chars: "a \<in> set as \<Longrightarrow> c \<in> set a \<Longrightarrow> c \<in> set (print_args colon i as)"
  by (induction colon i as rule: print_args.induct) auto

lemma line_string_chars:
  assumes "irc_line_string l = Inr s" "text_ok s" "a \<in> set (args l)"
  shows "CHR 0x0A \<notin> set a \<and> CHR 0x0D \<notin> set a"
proof -
  have "c \<in> set s" if "c \<in> set a" for c
    using assms(1,3) that print_args_chars [OF assms(3) that]
    by (auto simp: irc_line_string_def split: if_split_asm)
  then show ?thesis using assms(2) by (auto simp: text_ok_def line_end_def)
qed

lemma write_end:
  assumes "sf_pos f = length (sf_data f)"
  shows "file_write (\<lambda>_ _. True) f s =
    (IO_NORMAL, length s, \<lparr>sf_data = sf_data f @ s, sf_pos = length (sf_data f @ s)\<rparr>)"
  using assms by (cases f) (simp add: file_write_def)

lemma index_written:
  assumes "sf_pos f = length (sf_data f)"
  shows "write_index_entry (\<lambda>_ _. True) f (int off) t k =
    (True, \<lparr>sf_data = sf_data f @ index_record off t k, sf_pos = length (sf_data f @ index_record off t k)\<rparr>)"
  using assms by (simp add: write_index_entry_def write_end index_record_def)

lemma line_written:
  assumes "sf_pos f = length (sf_data f)" "irc_line_string l = Inr s"
  shows "irc_send_line (file_io (\<lambda>_ _. True)) None f l =
    Inr (IO_NORMAL, \<lparr>sf_data = sf_data f @ s @ eol, sf_pos = length (sf_data f @ s @ eol)\<rparr>)"
  using assms by (simp add: irc_send_line_def irc_line_string_nl_def file_io_def write_end eol_def)

text \<open>Room for one more entry, and a dump that is due can be written.\<close>

definition room_for :: "string \<Rightarrow> int \<Rightarrow> linestack_context \<Rightarrow> entry list \<Rightarrow> bool" where
  "room_for s now nd es \<longleftrightarrow>
     int (length (line_bytes es) + length s) + 2 < 0x8000000000000000 \<and> 24 * int (length es) + 24 < 0x8000000000000000 \<and>
     0 \<le> now \<and> now < 0x8000000000000000 \<and> 0 \<le> ls_last_line_with_state nd \<and>
     ls_last_line_with_state nd < 0x8000000000000000"

lemma dump_if_due:
  assumes "represents nd es" "at_ends nd" "room_for s now nd es"
    and "ls_count nd < ls_last_line_with_state nd + STATE_DUMP_INTERVAL \<or> push_network_state state = Inr dump"
  shows "\<exists>nd1. (if ls_count nd \<ge> ls_last_line_with_state nd + STATE_DUMP_INTERVAL
      then file_insert_state nd state (ls_count nd) else Inr (True, nd)) = Inr (True, nd1) \<and>
    represents nd1 es \<and> at_ends nd1 \<and> ls_lines nd1 = ls_lines nd \<and> ls_index nd1 = ls_index nd \<and>
    0 \<le> ls_last_line_with_state nd1 \<and> ls_last_line_with_state nd1 < 0x8000000000000000"
  using assms by (auto simp: file_insert_state_def represents_def at_ends_def room_for_def)


definition demo_stack :: linestack_context where
  "demo_stack = \<lparr>ls_lines = \<lparr>sf_data = [], sf_pos = 0\<rparr>, ls_index = \<lparr>sf_data = [], sf_pos = 0\<rparr>,
     ls_states = Map.empty, ls_count = 0, ls_last_line_with_state = 0\<rparr>"

lemma demo_stack_empty: "represents demo_stack []" "at_ends demo_stack"
  by (simp_all add: demo_stack_def represents_def at_ends_def)

definition demo_message :: "string \<Rightarrow> irc_line" where
  "demo_message t = \<lparr>origin = Some ''a!b@c'', args = [''PRIVMSG'', ''#x'', t], endcolon = WITH_COLON\<rparr>"


text \<open>The two files after one line.\<close>

definition demo_entry :: entry where
  "demo_entry = ('':a!b@c PRIVMSG #x :hi'', 5, 0)"

definition demo_filled :: linestack_context where
  "demo_filled = \<lparr>ls_lines = \<lparr>sf_data = line_bytes [demo_entry], sf_pos = length (line_bytes [demo_entry])\<rparr>,
     ls_index = \<lparr>sf_data = index_bytes 0 [demo_entry], sf_pos = length (index_bytes 0 [demo_entry])\<rparr>,
     ls_states = Map.empty, ls_count = 1, ls_last_line_with_state = 0\<rparr>"

lemma demo_filled_one: "represents demo_filled [demo_entry]" "at_ends demo_filled"
  by (simp_all add: demo_filled_def represents_def at_ends_def demo_entry_def entry_ok_def text_ok_def line_end_def)

theorem linestack_traverse_refines_witness:
  "linestack_traverse (Some demo_filled) (Some 0) (Some 1) (\<lambda>l t u. Inr (True, u @ [(l, t)])) [] =
     Inr (True, Some demo_filled, [(Some (demo_message ''hi''), 5)])"
proof -
  have s: "irc_parse_line (fst demo_entry @ eol) = Some (demo_message ''hi'')" "fst (snd demo_entry) = 5"
    by code_simp+
  show ?thesis
    using linestack_traverse_refines [OF demo_filled_one, of 1 0 "\<lambda>l t u. Inr (True, u @ [(l, t)])" "[]"] s
    by (simp add: demo_entry_def)
qed

section \<open>Markers without a state\<close>

text \<open>
  There is no state for the beginning: a marker that was taken before any line was stored
  asks for the index entry before the first one, and no state is returned, although the first
  dump is there.
\<close>

theorem no_state_at_start:
  "linestack_get_state j now (Some nd) (Some 0) = Inr (None, nd)"
  by (simp add: linestack_get_state_def state_before_def INDEX_RECORD_SIZE_def to_int64_def seek_set_def)

text \<open>A marker of an earlier stack, beyond the lines of this one, has no state either.\<close>

lemma no_state_old:
  assumes "represents nd es" "int (length es) < m" "24 * m < 0x8000000000000000"
  shows "\<exists>nd'. linestack_get_state j now (Some nd) (Some m) = Inr (None, nd') \<and> moved nd nd'"
proof -
  let ?p = "(m - 1) * INDEX_RECORD_SIZE + 16"
  have p: "to_int64 ?p = ?p" "0 \<le> ?p" "int (length (sf_data (ls_index nd))) < ?p"
    using assms by (simp_all add: INDEX_RECORD_SIZE_def represents_def to_int64_id)
  then have "length (sf_data (ls_index nd)) < nat ?p" by linarith
  then show ?thesis
    using p by (simp add: linestack_get_state_def state_before_def seek_set_def read_chars_def moved_def)
qed

text \<open>Whatever happens, traversing only moves the positions, and to the ends in the end.\<close>

lemma read_chars_data: "read_chars k f = (st, b, f') \<Longrightarrow> sf_data f' = sf_data f"
  by (auto simp: read_chars_def Let_def split: if_split_asm)

lemma read_file_line_data: "read_file_line f = (st, b, f') \<Longrightarrow> sf_data f' = sf_data f"
  by (auto simp: read_file_line_def Let_def split: if_split_asm)

lemma seek_set_data: "seek_set off f = Some f' \<Longrightarrow> sf_data f' = sf_data f"
  by (auto simp: seek_set_def split: if_split_asm)

lemma bind_partial: "(\<And>x. m = Inr x \<Longrightarrow> safe {} P (f x)) \<Longrightarrow> safe {} P (bind_res m f)"
  by (cases m) simp_all

lemma read_entry_moved:
  assumes "linestack_read_entry nd i = Inr (e, nd')"
  shows "moved nd nd'"
proof -
  have "safe {} (\<lambda>(_, nd'). moved nd nd') (linestack_read_entry nd i)"
    unfolding linestack_read_entry_def
    by (intro vcg bind_partial)
      (auto simp: moved_def dest!: read_chars_data read_file_line_data seek_set_data)
  then show ?thesis using assms by simp
qed

lemma traverse_loop_moved: "traverse_loop h is nd u = Inr (ret, nd', u') \<Longrightarrow> moved nd nd'"
proof (induction "is" arbitrary: nd u)
  case (Cons i "is")
  obtain e nd1 where e: "linestack_read_entry nd i = Inr (e, nd1)" using Cons.prems by auto
  have m: "moved nd nd1" by (rule read_entry_moved [OF e])
  show ?case
  proof (cases e)
    case None
    then show ?thesis using Cons.prems e m by simp
  next
    case (Some lt)
    obtain l t where lt: "lt = (l, t)" by (cases lt)
    obtain r u1 where "h l t u = Inr (r, u1)" using Cons.prems e Some lt by auto
    then show ?thesis
      using Cons.prems e Some lt m moved_trans [OF m Cons.IH] by (auto split: if_split_asm)
  qed
qed simp

lemma traverse_keeps:
  "linestack_traverse (Some nd) a b h u = Inr (ret, ctx, u') \<Longrightarrow> at_ends nd \<Longrightarrow> ctx = Some nd"
  by (auto simp: linestack_traverse_def dest!: traverse_loop_moved dest: rewind_moved [unfolded rewind_def])

section \<open>A failed write\<close>

text \<open>
  When the index entry of a line is written and the line itself is not, because the disk is
  full, the entry stays and is not counted. From then on the numbers are off by one: after two
  more lines the second of them cannot be read, the entry with its number gives the first.
\<close>

theorem failed_write_shifts_lines:
  assumes "represents nd es" "at_ends nd" "ls_count nd + 2 < ls_last_line_with_state nd + STATE_DUMP_INTERVAL"
    and "line_needed dir l1" "irc_line_string l1 = Inr s1" "text_ok s1" "length s1 \<noteq> 6"
    and "line_needed dir l2" "irc_line_string l2 = Inr s2" "text_ok s2" "room_for s2 now nd es"
    and "line_needed dir l3" "irc_line_string l3 = Inr s3" "text_ok s3" "24 * int (length es + 1) < 0x8000000000000000"
  shows "\<exists>nd1 nd2 nd3 nd4.
    linestack_insert_line (\<lambda>_ b. length b = 8) now nd l1 dir st = Inr (False, nd1) \<and>
    linestack_insert_line (\<lambda>_ _. True) now nd1 l2 dir st = Inr (True, nd2) \<and>
    linestack_insert_line (\<lambda>_ _. True) now nd2 l3 dir st = Inr (True, nd3) \<and>
    ls_count nd3 = int (length es) + 2 \<and>
    linestack_read_entry nd3 (int (length es + 1)) = Inr (Some (irc_parse_line (s2 @ eol), now), nd4)"
proof -
  let ?k = "ls_last_line_with_state nd" and ?L = "line_bytes es" and ?I = "index_bytes 0 es"
  let ?r = "\<lambda>off. index_record off now ?k"
  define mk where "mk = (\<lambda>L I c. nd\<lparr>ls_lines := \<lparr>sf_data = L, sf_pos = length L\<rparr>,
    ls_index := \<lparr>sf_data = I, sf_pos = length I\<rparr>, ls_count := c\<rparr>)"
  have nd: "sf_data (ls_lines nd) = ?L" "sf_data (ls_index nd) = ?I" "sf_pos (ls_lines nd) = length ?L"
    "sf_pos (ls_index nd) = length ?I" "ls_count nd = int (length es)"
    using assms(1,2) by (auto simp: represents_def at_ends_def)
  have mk0: "nd = mk ?L ?I (int (length es))"
    using nd by (cases nd; cases "ls_lines nd"; cases "ls_index nd") (simp add: mk_def)
  have g: "\<forall>a\<in>set (args l). CHR 0x0A \<notin> set a \<and> CHR 0x0D \<notin> set a" if "irc_line_string l = Inr s" "text_ok s" for l s
    using line_string_chars [OF that] by blast
  have ins: "linestack_insert_line (\<lambda>_ _. True) now (mk L I c) l dir st = Inr (True, mk (L @ s @ eol) (I @ ?r (length L)) (c + 1))"
    if "line_needed dir l" "irc_line_string l = Inr s" "text_ok s" "c < ?k + STATE_DUMP_INTERVAL" for L I c l s
    using that g [OF that(2,3)] index_written [of "\<lparr>sf_data = I, sf_pos = length I\<rparr>" "length L" now ?k]
      line_written [of "\<lparr>sf_data = L, sf_pos = length L\<rparr>" l s]
    by (simp add: linestack_insert_line_def mk_def)
  have "write_index_entry (\<lambda>_ b. length b = 8) \<lparr>sf_data = ?I, sf_pos = length ?I\<rparr> (int (length ?L)) now ?k =
      (True, \<lparr>sf_data = ?I @ ?r (length ?L), sf_pos = length (?I @ ?r (length ?L))\<rparr>)"
    by (simp add: write_index_entry_def file_write_def index_record_def)
  then have "linestack_insert_line (\<lambda>_ b. length b = 8) now (mk ?L ?I (int (length es))) l1 dir st =
      Inr (False, mk ?L (?I @ ?r (length ?L)) (int (length es)))"
    using assms(3-7) g [OF assms(5,6)] nd(5)
    by (simp add: linestack_insert_line_def mk_def irc_send_line_def irc_line_string_nl_def file_io_def file_write_def)
  moreover note ins [OF assms(8-10), of "int (length es)" ?L "?I @ ?r (length ?L)"]
    ins [OF assms(12-14), of "int (length es) + 1" "?L @ s2 @ eol" "?I @ ?r (length ?L) @ ?r (length ?L)"]
  moreover have "\<exists>nd4. linestack_read_entry (mk (?L @ s2 @ eol @ s3 @ eol)
      (?I @ ?r (length ?L) @ ?r (length ?L) @ ?r (length (?L @ s2 @ eol))) (int (length es) + 2)) (int (length es + 1)) =
      Inr (Some (irc_parse_line (s2 @ eol), now), nd4)"
    using read_record [of "mk (?L @ s2 @ eol @ s3 @ eol) (?I @ ?r (length ?L) @ ?r (length ?L) @ ?r (length (?L @ s2 @ eol)))
        (int (length es) + 2)" "?I @ ?r (length ?L)" "length ?L" now ?k "?r (length (?L @ s2 @ eol))" "length es + 1" ?L s2 "s3 @ eol"]
      assms(10,11,15)
    by (auto simp: mk_def room_for_def)
  moreover have "ls_count (mk L I c) = c" for L I c by (simp add: mk_def)
  ultimately show ?thesis using mk0 assms(3) nd(5) by (auto simp: add.commute)
qed

theorem failed_write_shifts_lines_witness:
  "\<exists>nd1 nd2 nd3 nd4.
     linestack_insert_line (\<lambda>_ b. length b = 8) 5 demo_stack (demo_message ''one'') FROM_SERVER undefined = Inr (False, nd1) \<and>
     linestack_insert_line (\<lambda>_ _. True) 5 nd1 (demo_message ''two'') FROM_SERVER undefined = Inr (True, nd2) \<and>
     linestack_insert_line (\<lambda>_ _. True) 5 nd2 (demo_message ''three'') FROM_SERVER undefined = Inr (True, nd3) \<and>
     linestack_read_entry nd3 1 = Inr (Some (Some (demo_message ''two''), 5), nd4)"
proof -
  have l: "line_needed FROM_SERVER (demo_message ''one'')" "line_needed FROM_SERVER (demo_message ''two'')"
    "line_needed FROM_SERVER (demo_message ''three'')"
    and s: "irc_line_string (demo_message ''one'') = Inr '':a!b@c PRIVMSG #x :one''"
    "irc_line_string (demo_message ''two'') = Inr '':a!b@c PRIVMSG #x :two''"
    "irc_line_string (demo_message ''three'') = Inr '':a!b@c PRIVMSG #x :three''"
    and p: "irc_parse_line ('':a!b@c PRIVMSG #x :two'' @ eol) = Some (demo_message ''two'')"
    by code_simp+
  have t: "text_ok '':a!b@c PRIVMSG #x :one''" "text_ok '':a!b@c PRIVMSG #x :two''" "text_ok '':a!b@c PRIVMSG #x :three''"
    by (simp_all add: text_ok_def line_end_def)
  have "ls_count demo_stack + 2 < ls_last_line_with_state demo_stack + STATE_DUMP_INTERVAL"
    "length '':a!b@c PRIVMSG #x :one'' \<noteq> 6" "room_for '':a!b@c PRIVMSG #x :two'' 5 demo_stack []"
    "24 * int (length ([] :: entry list) + 1) < 0x8000000000000000"
    by (simp_all add: demo_stack_def STATE_DUMP_INTERVAL_def room_for_def)
  from failed_write_shifts_lines [OF demo_stack_empty this(1) l(1) s(1) t(1) this(2) l(2) s(2) t(2) this(3) l(3) s(3) t(3) this(4)]
  show ?thesis unfolding p by simp blast
qed

end
