(* ===== verification/Repl.thy ===== *)
theory Repl
  imports Linestack_Spec
begin

text \<open>
  \<open>src/repl.c\<close> and \<open>src/repl_backends.c\<close>: what a client that connects is sent of what happened
  before. The backends keep, for each network, a marker into its stack of lines.
\<close>

section \<open>Replication\<close>

text \<open>
  What a backend works on: the client, the state and the stack of its network, and the markers
  of the network in the three tables. \<open>rp_matches\<close> are the words of the configuration, NULL
  when there are none.
\<close>

record 'c replication =
  rp_client :: "'c irc_client"
  rp_external_state :: "irc_network_state option"
  rp_linestack :: "linestack_context option"
  rp_matches :: "string list option"
  rp_markers :: "int option"
  rp_lastdisconnect_backlog :: "int option"
  rp_simple_backlog :: "int option"

text \<open>The clock, the channels, how times are shown, and what new memory holds.\<close>

record 'c repl_env =
  re_now :: int
  re_io :: "'c giochannel"
  re_fmt :: "int \<Rightarrow> string"
  re_report_time :: bool
  re_report_time_offset :: int
  re_junk :: junk

type_synonym 'c backend_fn = "'c repl_env \<Rightarrow> 'c replication \<Rightarrow> 'c replication res"
type_synonym 'c replication_backend = "string \<times> 'c backend_fn"

definition send_state :: "'c repl_env \<Rightarrow> irc_network_state option \<Rightarrow> 'c replication \<Rightarrow> 'c replication res" where
  "send_state env st rp =
     (case st of
        None \<Rightarrow> Inr rp
      | Some s \<Rightarrow>
          bind_res (client_send_state (re_now env) (re_io env) s (rp_client rp)) (\<lambda>(_, c). Inr (rp\<lparr>rp_client := c\<rparr>)))"

text \<open>The first word that occurs in the message decides.\<close>

fun any_match :: "string option \<Rightarrow> string list \<Rightarrow> bool res" where
  "any_match text [] = Inr False"
| "any_match text (m # ms) =
     bind_res (deref text) (\<lambda>t. if contains_str t m then Inr True else any_match text ms)"

definition check_highlight :: "'c repl_env \<Rightarrow> string list option \<Rightarrow> 'c irc_client traverse_fn" where
  "check_highlight env matches lo t c =
     bind_res (deref lo) (\<lambda>l.
     bind_res (sarg l 0) (\<lambda>a0.
     if \<not> private_text a0 then Inr (True, c)
     else
       case matches of
         None \<Rightarrow> Inr (True, c)
       | Some ms \<Rightarrow>
           if ms = [] then Inr (True, c)
           else
             bind_res (arg l 2) (\<lambda>a2.
             bind_res (any_match a2 ms) (\<lambda>b.
             if b then client_send_line (re_now env) (re_io env) c l else Inr (True, c)))))"

definition highlight_replicate :: "'c backend_fn" where
  "highlight_replicate env rp =
     bind_res (send_state env (rp_external_state rp) rp) (\<lambda>rp1.
     if rp_linestack rp1 = None then Inr rp1
     else
       bind_res (linestack_traverse (rp_linestack rp1) (rp_markers rp1) None
                   (check_highlight env (rp_matches rp1)) (rp_client rp1)) (\<lambda>(_, ls, c).
       Inr (rp1\<lparr>rp_client := c, rp_linestack := ls, rp_markers := linestack_get_marker ls\<rparr>)))"

definition none_replicate :: "'c backend_fn" where
  "none_replicate env rp = send_state env (rp_external_state rp) rp"

text \<open>The hook for lost clients, and the filter for lines to the server.\<close>

definition lastdisconnect_mark :: "'c replication \<Rightarrow> 'c replication" where
  "lastdisconnect_mark rp =
     (if cl_network (rp_client rp) = None then rp
      else case rp_linestack rp of
        None \<Rightarrow> rp
      | Some ls \<Rightarrow> rp\<lparr>rp_lastdisconnect_backlog := linestack_get_marker (Some ls)\<rparr>)"

definition log_data :: "data_direction \<Rightarrow> irc_line \<Rightarrow> 'c replication \<Rightarrow> (bool \<times> 'c replication) res" where
  "log_data dir l rp =
     (if dir \<noteq> TO_SERVER then Inr (True, rp)
      else
        bind_res (sarg l 0) (\<lambda>a0.
        Inr (True, if private_text a0 \<and> rp_linestack rp \<noteq> None
                   then rp\<lparr>rp_simple_backlog := linestack_get_marker (rp_linestack rp)\<rparr> else rp)))"

text \<open>The state at the marker, then the lines since; failures to send are ignored.\<close>

definition replicate_from :: "int option \<Rightarrow> 'c backend_fn" where
  "replicate_from m env rp =
     (if rp_linestack rp = None then Inr rp
      else
        bind_res (linestack_get_state (re_junk env) (re_now env) (rp_linestack rp) m) (\<lambda>(ns, nd).
        bind_res (send_state env ns (rp\<lparr>rp_linestack := Some nd\<rparr>)) (\<lambda>rp1.
        bind_res (case ns of
                    None \<Rightarrow> Inr ()
                  | Some s \<Rightarrow> bind_res (free_network_state s) (\<lambda>_. Inr ())) (\<lambda>_.
        bind_res (linestack_send (re_now env) (re_io env) (re_fmt env) (rp_linestack rp1) m None False
                    (re_report_time env) (re_report_time_offset env) (rp_client rp1)) (\<lambda>(_, ls, c).
        Inr (rp1\<lparr>rp_client := c, rp_linestack := ls\<rparr>))))))"

definition lastdisconnect_replicate :: "'c backend_fn" where
  "lastdisconnect_replicate env rp = replicate_from (rp_lastdisconnect_backlog rp) env rp"

definition simple_replicate :: "'c backend_fn" where
  "simple_replicate env rp = replicate_from (rp_simple_backlog rp) env rp"

definition backends :: "'c replication_backend list" where
  "backends = [(''none'', none_replicate), (''highlight'', highlight_replicate),
     (''lastdisconnect'', lastdisconnect_replicate), (''simple'', simple_replicate)]"

definition register_replication_backend ::
    "'c replication_backend list \<Rightarrow> 'c replication_backend \<Rightarrow> 'c replication_backend list" where
  "register_replication_backend bs b = bs @ [b]"

definition init_replication :: "'c replication_backend list" where
  "init_replication = foldl register_replication_backend [] backends"

definition repl_find_backend :: "'c replication_backend list \<Rightarrow> string option \<Rightarrow> 'c backend_fn option" where
  "repl_find_backend bs name =
     map_option snd (List.find (\<lambda>b. strcmp (fst b) (case name of None \<Rightarrow> ''none'' | Some n \<Rightarrow> n) = 0) bs)"

definition client_replicate ::
    "'c replication_backend list \<Rightarrow> string option \<Rightarrow> 'c repl_env \<Rightarrow> 'c replication \<Rightarrow> 'c replication res" where
  "client_replicate bs bn env rp =
     (case repl_find_backend bs bn of
        None \<Rightarrow> send_state env (rp_external_state rp) rp
      | Some f \<Rightarrow> if rp_linestack rp = None then send_state env (rp_external_state rp) rp else f env rp)"

section \<open>Properties\<close>

text \<open>
  A network that reconnects starts a new stack of lines, and the marker of the old one stays.
  When it lies beyond the lines of the new stack, a client that connects with the backend
  \<open>lastdisconnect\<close> gets nothing at all, not even the state of the network.
\<close>

theorem old_marker_sends_nothing:
  assumes "rp_linestack rp = Some nd" "represents nd es" "at_ends nd"
    and "rp_lastdisconnect_backlog rp = Some m" "int (length es) < m" "24 * m < 0x8000000000000000"
  shows "lastdisconnect_replicate env rp = Inr rp"
proof -
  obtain nd' where nd': "linestack_get_state (re_junk env) (re_now env) (Some nd) (Some m) = Inr (None, nd')" "moved nd nd'"
    using no_state_old [OF assms(2,5,6)] by blast
  have "[m..ls_count nd' - 1] = []" using nd'(2) assms(2,5) by (simp add: moved_def represents_def)
  then have "linestack_traverse (Some nd') (Some m) None h u = Inr (True, Some nd, u)" for h :: "'a irc_client traverse_fn" and u
    using rewind_moved [OF nd'(2) assms(3)] by (simp add: linestack_traverse_def rewind_def)
  then show ?thesis
    using nd'(1) assms(1,4)
    by (simp add: lastdisconnect_replicate_def replicate_from_def send_state_def linestack_send_def)
qed

definition demo_junk :: junk where
  "demo_junk = \<lparr>j_nick = network_nick_new, j_channel = irc_channel_state_new [],
     j_entry = \<lparr>be_hostmask = None, be_by = None, be_time_set = 0\<rparr>\<rparr>"

definition demo_repl_env :: "string list repl_env" where
  "demo_repl_env = \<lparr>re_now = 0, re_io = \<lparr>write_chars = (\<lambda>c t. (IO_NORMAL, length t, c @ [t])), flush = (\<lambda>c. (IO_NORMAL, c)),
     read_line = (\<lambda>c. (IO_AGAIN, [], c))\<rparr>, re_fmt = (\<lambda>_. []), re_report_time = False, re_report_time_offset = 0,
     re_junk = demo_junk\<rparr>"

definition demo_repl :: "string list replication" where
  "demo_repl = \<lparr>rp_client = irc_client_new 0 (irc_transport_new_iochannel []) None None [], rp_external_state = None,
     rp_linestack = Some demo_stack, rp_matches = None, rp_markers = None, rp_lastdisconnect_backlog = Some 7,
     rp_simple_backlog = None\<rparr>"

theorem old_marker_sends_nothing_witness:
  "rp_linestack demo_repl \<noteq> None \<and> lastdisconnect_replicate demo_repl_env demo_repl = Inr demo_repl"
  using old_marker_sends_nothing [of demo_repl demo_stack "[]" 7 demo_repl_env] demo_stack_empty
  by (simp add: demo_repl_def)

text \<open>Reading the state moves the positions in the files only, and every traversal starts by seeking.\<close>

lemma state_before_moved: "state_before nd m = Inr (so, nd') \<Longrightarrow> moved nd nd'"
  by (auto simp: state_before_def Let_def moved_def seek_end_def split: option.split_asm if_split_asm prod.split_asm
      dest!: read_chars_data seek_set_data)

lemma traverse_moved: "linestack_traverse (Some nd) a b h u = Inr (ret, ctx, u') \<Longrightarrow> \<exists>nd'. ctx = Some nd' \<and> moved nd nd'"
  by (auto simp: linestack_traverse_def moved_def seek_end_def dest!: traverse_loop_moved)

lemma get_state_moved:
  assumes "linestack_get_state j now (Some nd) m = Inr (so, nd')"
  shows "moved nd nd'"
proof -
  obtain si nd1 where si: "state_before nd m = Inr (si, nd1)"
    using assms by (auto simp: linestack_get_state_def)
  then have "moved nd nd1" by (rule state_before_moved)
  moreover have "moved nd1 nd'"
    using assms si
    by (auto simp: linestack_get_state_def linestack_replay_def dest!: traverse_moved
        split: option.split_asm if_split_asm)
  ultimately show ?thesis by (rule moved_trans)
qed

lemma traverse_from:
  assumes "represents nd es" "at_ends nd" "moved nd nd'" "m \<le> length es"
  shows "linestack_traverse (Some nd') (Some (int m)) None h u =
    bind_res (walk h (drop m es) u) (\<lambda>(ret, u'). Inr (ret, Some nd, u'))"
proof -
  have r: "represents nd' es" "rewind nd' = nd" "ls_count nd' = int (length es)"
    using assms by (simp_all add: moved_represents rewind_moved) (simp add: represents_def moved_def)
  have "bind_res (bind_res (traverse_loop h [int m..int (length es) - 1] nd' u) (\<lambda>(ret, nd1, u1). Inr (ret, rewind nd1, u1)))
      (\<lambda>(ret, nd1, u1). Inr (ret, Some nd1, u1)) =
    bind_res (bind_res (walk h (drop m es) u) (\<lambda>(ret, u1). Inr (ret, nd, u1)))
      (\<lambda>(ret, nd1, u1). Inr (ret, Some nd1, u1))"
    using traverse_loop_walk [OF r(1), of m "length es - m" h u] assms(4) r(2) by (simp add: of_nat_diff)
  then show ?thesis
    by (simp add: linestack_traverse_def rewind_def bind_res_assoc case_prod_unfold r(3))
qed

text \<open>What a marker in the present stack promises: the state there, then the lines since, oldest first.\<close>

definition state_then_lines :: "nat \<Rightarrow> entry list \<Rightarrow> 'c backend_fn" where
  "state_then_lines m es env rp =
     bind_res (linestack_get_state (re_junk env) (re_now env) (rp_linestack rp) (Some (int m))) (\<lambda>(ns, _).
     bind_res (send_state env ns rp) (\<lambda>rp1.
     bind_res (case ns of None \<Rightarrow> Inr () | Some s \<Rightarrow> bind_res (free_network_state s) (\<lambda>_. Inr ())) (\<lambda>_.
     bind_res (walk (send_stored_line (re_now env) (re_io env) (re_fmt env) False (re_report_time env)
                (re_report_time_offset env)) (drop m es) (rp_client rp1)) (\<lambda>(_, c).
     Inr (rp\<lparr>rp_client := c\<rparr>)))))"



text \<open>
  The backend \<open>highlight\<close> looks for its words in the third argument of every stored message
  without asking whether there is one. The stack keeps a PRIVMSG or NOTICE without a text in
  either direction; when one is the first that is read and there are words to look for, the
  search reads a NULL text.
\<close>

theorem highlight_needs_text:
  assumes "rp_linestack rp = Some nd" "represents nd ((s, t, k) # es)" "at_ends nd"
    and "rp_external_state rp = None" "rp_markers rp = None" "rp_matches rp = Some (w # ws)"
    and "irc_parse_line (s @ eol) = Some l" "args l = [a0, a1]" "private_text a0"
  shows "line_needed dir l \<and> highlight_replicate env rp = Inl NullDeref"
proof
  have "\<exists>m\<in>set linestack_messages. base_eq m a0"
    using assms(9) by (auto simp: private_text_def linestack_messages_def base_eq_iff)
  then show "line_needed dir l" using assms(8,9) by (simp add: line_needed_def)
  have "ls_count nd = int (Suc (length es))" using assms(2) by (simp add: represents_def)
  then have tr: "linestack_traverse (Some nd) None None h u =
      bind_res (walk h ((s, t, k) # es) u) (\<lambda>(ret, u'). Inr (ret, Some nd, u'))" for h :: "'a irc_client traverse_fn" and u
    using traverse_from [OF assms(2,3) moved_refl, of 0 h u] by (simp add: linestack_traverse_def)
  have "check_highlight env (Some (w # ws)) (Some l) t c = Inl NullDeref" for c
    using assms(8,9) by (simp add: check_highlight_def sarg_def arg_def)
  then show "highlight_replicate env rp = Inl NullDeref"
    using assms(1,4-7) tr by (simp add: highlight_replicate_def send_state_def)
qed

definition demo_textless :: linestack_context where
  "demo_textless = \<lparr>ls_lines = \<lparr>sf_data = ''PRIVMSG #x'' @ eol, sf_pos = 12\<rparr>,
     ls_index = \<lparr>sf_data = index_bytes 0 [(''PRIVMSG #x'', 5, 0)], sf_pos = 24\<rparr>,
     ls_states = Map.empty, ls_count = 1, ls_last_line_with_state = 0\<rparr>"

theorem highlight_needs_text_witness:
  "highlight_replicate demo_repl_env (demo_repl\<lparr>rp_linestack := Some demo_textless, rp_matches := Some [''me'']\<rparr>) = Inl NullDeref"
proof -
  have "represents demo_textless [(''PRIVMSG #x'', 5, 0)]" "at_ends demo_textless"
    by (simp_all add: demo_textless_def represents_def at_ends_def entry_ok_def text_ok_def line_end_def
        eol_def index_record_def)
  moreover have "irc_parse_line (''PRIVMSG #x'' @ eol) = Some \<lparr>origin = None, args = [''PRIVMSG'', ''#x''], endcolon = WITHOUT_COLON\<rparr>"
    "private_text ''PRIVMSG''"
    by code_simp+
  ultimately show ?thesis
    using highlight_needs_text [of "demo_repl\<lparr>rp_linestack := Some demo_textless, rp_matches := Some [''me'']\<rparr>"
        demo_textless "''PRIVMSG #x''" 5 0 "[]" "''me''" "[]"]
    by (simp add: demo_repl_def)
qed

end
