(* ===== verification/Listener.thy ===== *)
theory Listener
  imports Client
begin

text \<open>
  \<open>libirc/listener.c\<close>: connections that have not logged in yet. The first byte tells whether a
  client speaks SOCKS or IRC; lines, passwords and requests are handed to the owner's callbacks,
  and a client that is accepted or refused leaves the list of pending clients.
\<close>

section \<open>Bytes\<close>

text \<open>
  The channel can also be read by bytes. A count is a \<open>gsize\<close>: a negative \<open>gchar\<close>, which is
  signed, becomes a count close to $2^{64}$.
\<close>

record 'c sock_io =
  so_io :: "'c giochannel"
  so_read_chars :: "int \<Rightarrow> 'c \<Rightarrow> io_status \<times> string \<times> 'c"

definition gchar :: "char \<Rightarrow> int" where
  "gchar c = (let v = int (of_char c) in if v < 128 then v else v - 256)"

definition gsize :: "int \<Rightarrow> int" where
  "gsize i = i mod 0x10000000000000000"

text \<open>
  \<open>g_io_channel_read_chars\<close> into an array on the stack: what was read replaces the front of it,
  the rest keeps what it held, and more bytes than the array has room for are written beyond it.
\<close>

definition read_buf :: "'c sock_io \<Rightarrow> string \<Rightarrow> int \<Rightarrow> 'c \<Rightarrow> (io_status \<times> string \<times> 'c) res" where
  "read_buf io buf count c =
     (let (st, s, c') = so_read_chars io (gsize count) c in
      if length s > length buf then Inl OutOfBounds else Inr (st, s @ drop (length s) buf, c'))"

text \<open>An array that is not initialised.\<close>

definition stack_array :: "(nat \<Rightarrow> char) \<Rightarrow> nat \<Rightarrow> string" where
  "stack_array junk n = map junk [0..<n]"

definition set_byte :: "string \<Rightarrow> nat \<Rightarrow> char \<Rightarrow> string res" where
  "set_byte buf i c = (if i < length buf then Inr (buf[i := c]) else Inl OutOfBounds)"

definition get_byte :: "string \<Rightarrow> nat \<Rightarrow> char res" where
  "get_byte buf i = (if i < length buf then Inr (buf ! i) else Inl OutOfBounds)"

section \<open>Pending clients\<close>

definition SOCKS_VERSION :: nat where "SOCKS_VERSION = 5"

definition SOCKS_METHOD_NOAUTH :: int where "SOCKS_METHOD_NOAUTH = 0"
definition SOCKS_METHOD_USERNAME_PW :: int where "SOCKS_METHOD_USERNAME_PW = 2"
definition SOCKS_METHOD_NOACCEPTABLE :: int where "SOCKS_METHOD_NOACCEPTABLE = 255"

definition ATYP_IPV4 :: nat where "ATYP_IPV4 = 1"
definition ATYP_FQDN :: nat where "ATYP_FQDN = 3"
definition ATYP_IPV6 :: nat where "ATYP_IPV6 = 4"

definition CMD_CONNECT :: nat where "CMD_CONNECT = 1"

definition REP_OK :: nat where "REP_OK = 0"
definition REP_GENERAL_FAILURE :: nat where "REP_GENERAL_FAILURE = 1"
definition REP_NET_UNREACHABLE :: nat where "REP_NET_UNREACHABLE = 3"
definition REP_CMD_NOT_SUPPORTED :: nat where "REP_CMD_NOT_SUPPORTED = 7"
definition REP_ATYP_NOT_SUPPORTED :: nat where "REP_ATYP_NOT_SUPPORTED = 8"

datatype client_type = CLIENT_TYPE_UNKNOWN | CLIENT_TYPE_REGULAR | CLIENT_TYPE_SOCKS | CLIENT_TYPE_QUASSEL

datatype socks_state = SOCKS_UNKNOWN | SOCKS_STATE_NEW | SOCKS_STATE_AUTH | SOCKS_STATE_NORMAL

text \<open>The methods of the table, without GSSAPI.\<close>

datatype socks_method = Method_none | Method_username_password

record 'c pending_client =
  pc_connection :: 'c
  pc_type :: client_type
  pc_method :: "socks_method option"
  pc_state :: socks_state

text \<open>The callbacks work on the pending client and on the state \<open>'g\<close> of the owner.\<close>

type_synonym ('c, 'g) pending_fn = "'c pending_client \<Rightarrow> 'g \<Rightarrow> (bool \<times> 'c pending_client \<times> 'g) res"

record ('c, 'g) irc_listener_ops =
  op_handle_client_line :: "irc_line option \<Rightarrow> ('c, 'g) pending_fn"
  op_socks_auth_simple ::
    "string \<Rightarrow> string \<Rightarrow> (bool \<Rightarrow> 'c pending_client \<Rightarrow> bool \<times> 'c pending_client) \<Rightarrow> ('c, 'g) pending_fn"
  op_socks_connect_ipv4 :: "('c, 'g) pending_fn option"
  op_socks_connect_ipv6 :: "('c, 'g) pending_fn option"
  op_socks_connect_fqdn :: "(string \<Rightarrow> nat \<Rightarrow> ('c, 'g) pending_fn) option"

section \<open>SOCKS\<close>

text \<open>Bytes that are written and flushed; whether the writing was accepted.\<close>

definition put_bytes_out :: "'c sock_io \<Rightarrow> string \<Rightarrow> 'c pending_client \<Rightarrow> bool \<times> 'c pending_client" where
  "put_bytes_out io s pc =
     (let (st, _, c1) = write_chars (so_io io) (pc_connection pc) s in
      if st \<noteq> IO_NORMAL then (False, pc\<lparr>pc_connection := c1\<rparr>)
      else (True, pc\<lparr>pc_connection := snd (flush (so_io io) c1)\<rparr>))"

definition listener_socks_reply ::
    "'c sock_io \<Rightarrow> nat \<Rightarrow> nat \<Rightarrow> string \<Rightarrow> nat \<Rightarrow> 'c pending_client \<Rightarrow> bool \<times> 'c pending_client" where
  "listener_socks_reply io err atyp data port pc =
     (let (ok, pc1) = put_bytes_out io
            ([char_of SOCKS_VERSION, char_of err, CHR 0x00, char_of atyp] @ data @
             [char_of (port div 256 mod 256), char_of (port mod 256)]) pc in
      (ok \<and> err = REP_OK, pc1))"

definition listener_socks_error :: "'c sock_io \<Rightarrow> nat \<Rightarrow> 'c pending_client \<Rightarrow> bool \<times> 'c pending_client" where
  "listener_socks_error io err pc = listener_socks_reply io err ATYP_FQDN [CHR 0x00] 0 pc"

definition acceptable :: "socks_method \<Rightarrow> bool" where
  "acceptable m = (case m of Method_none \<Rightarrow> False | Method_username_password \<Rightarrow> True)"

definition socks_methods :: "(int \<times> socks_method) list" where
  "socks_methods = [(SOCKS_METHOD_NOAUTH, Method_none), (SOCKS_METHOD_USERNAME_PW, Method_username_password)]"

definition on_socks_pass_accepted ::
    "'c sock_io \<Rightarrow> bool \<Rightarrow> 'c pending_client \<Rightarrow> bool \<times> 'c pending_client" where
  "on_socks_pass_accepted io accepted pc =
     (let (ok, pc1) = put_bytes_out io [CHR 0x01, if accepted then CHR 0x00 else CHR 0x01] pc in
      if \<not> ok then (False, pc1)
      else if accepted then (True, pc1\<lparr>pc_state := SOCKS_STATE_NORMAL\<rparr>)
      else (False, pc1))"

text \<open>
  A counted string: the length is the byte \<open>n\<close>, the terminator is written at its unsigned value.
\<close>

definition read_counted ::
    "'c sock_io \<Rightarrow> string \<Rightarrow> char \<Rightarrow> 'c \<Rightarrow> (io_status \<times> string \<times> 'c) res" where
  "read_counted io buf n c = read_buf io buf (gchar n) c"

definition terminated :: "string \<Rightarrow> char \<Rightarrow> string res" where
  "terminated buf n = bind_res (set_byte buf (of_char n) (CHR 0x00)) (\<lambda>b. Inr (c_str b))"

definition pass_handle_data ::
    "'c sock_io \<Rightarrow> (nat \<Rightarrow> char) \<Rightarrow> ('c, 'g) irc_listener_ops \<Rightarrow> ('c, 'g) pending_fn" where
  "pass_handle_data io junk ops pc g =
     bind_res (read_buf io (stack_array junk 2) 2 (pc_connection pc)) (\<lambda>(st, header, c1).
     let pc1 = pc\<lparr>pc_connection := c1\<rparr> in
     if st \<noteq> IO_NORMAL then Inr (False, pc1, g)
     else
       bind_res (get_byte header 0) (\<lambda>h0. bind_res (get_byte header 1) (\<lambda>h1.
       if gchar h0 \<noteq> int SOCKS_VERSION \<and> gchar h0 \<noteq> 1 then
         let (ok, pc2) = listener_socks_error io REP_GENERAL_FAILURE pc1 in Inr (ok, pc2, g)
       else
         bind_res (read_counted io (stack_array junk 256) h1 c1) (\<lambda>(st2, uname, c2).
         let pc2 = pc\<lparr>pc_connection := c2\<rparr> in
         if st2 \<noteq> IO_NORMAL then Inr (False, pc2, g)
         else
           bind_res (terminated uname h1) (\<lambda>un.
           bind_res (read_buf io header 1 c2) (\<lambda>(st3, header3, c3).
           let pc3 = pc\<lparr>pc_connection := c3\<rparr> in
           if st3 \<noteq> IO_NORMAL then Inr (False, pc3, g)
           else
             bind_res (get_byte header3 0) (\<lambda>n.
             bind_res (read_counted io (stack_array junk 256) n c3) (\<lambda>(st4, pass, c4).
             let pc4 = pc\<lparr>pc_connection := c4\<rparr> in
             if st4 \<noteq> IO_NORMAL then Inr (False, pc4, g)
             else
               bind_res (terminated pass n) (\<lambda>pw.
               bind_res (op_socks_auth_simple ops un pw (on_socks_pass_accepted io) pc4 g) (\<lambda>(_, pc5, g5).
               Inr (True, pc5, g5)))))))))))"

text \<open>
  One offered method: the first entry of the table with its number that is acceptable. The outer
  loop goes on after a match, so the last offered method that is acceptable is taken. The bound
  is the signed number of methods.
\<close>

definition method_for :: "char \<Rightarrow> socks_method option" where
  "method_for m = map_option snd (List.find (\<lambda>(i, sm). i = gchar m \<and> acceptable sm) socks_methods)"

definition offered_method :: "string \<Rightarrow> int \<Rightarrow> socks_method option res" where
  "offered_method methods n =
     fold_res (\<lambda>i acc. bind_res (get_byte methods i) (\<lambda>m.
       Inr (case method_for m of None \<Rightarrow> acc | Some sm \<Rightarrow> Some sm))) [0..<nat n] None"

definition method_id :: "socks_method option \<Rightarrow> int" where
  "method_id m = (case m of None \<Rightarrow> SOCKS_METHOD_NOACCEPTABLE
     | Some Method_none \<Rightarrow> SOCKS_METHOD_NOAUTH | Some Method_username_password \<Rightarrow> SOCKS_METHOD_USERNAME_PW)"

definition socks_greeting :: "'c sock_io \<Rightarrow> (nat \<Rightarrow> char) \<Rightarrow> ('c, 'g) pending_fn" where
  "socks_greeting io junk pc g =
     bind_res (read_buf io (stack_array junk 2) 1 (pc_connection pc)) (\<lambda>(st, header, c1).
     if st \<noteq> IO_NORMAL then Inr (False, pc\<lparr>pc_connection := c1\<rparr>, g)
     else
       bind_res (get_byte header 0) (\<lambda>n.
       bind_res (read_buf io (stack_array junk 256) (gchar n) c1) (\<lambda>(st2, methods, c2).
       let pc2 = pc\<lparr>pc_connection := c2, pc_method := None\<rparr> in
       if st2 \<noteq> IO_NORMAL then Inr (False, pc2, g)
       else
         bind_res (offered_method methods (gchar n)) (\<lambda>m.
         let (ok, pc3) = put_bytes_out io [char_of SOCKS_VERSION, char_of (nat (method_id m))] (pc2\<lparr>pc_method := m\<rparr>) in
         if \<not> ok then Inr (False, pc3, g)
         else
           case m of
             None \<Rightarrow> Inr (False, pc3, g)
           | Some Method_none \<Rightarrow> Inr (True, pc3\<lparr>pc_state := SOCKS_STATE_NORMAL\<rparr>, g)
           | Some Method_username_password \<Rightarrow> Inr (True, pc3\<lparr>pc_state := SOCKS_STATE_AUTH\<rparr>, g)))))"

text \<open>An operation the owner may lack.\<close>

definition or_unsupported ::
    "'c sock_io \<Rightarrow> ('c, 'g) pending_fn option \<Rightarrow> ('c, 'g) pending_fn" where
  "or_unsupported io f pc g =
     (case f of
        None \<Rightarrow> (let (ok, pc1) = listener_socks_error io REP_ATYP_NOT_SUPPORTED pc in Inr (ok, pc1, g))
      | Some h \<Rightarrow> h pc g)"

text \<open>The name and the port of a request; how the reading went is not looked at.\<close>

definition socks_fqdn ::
    "'c sock_io \<Rightarrow> (nat \<Rightarrow> char) \<Rightarrow> ('c, 'g) irc_listener_ops \<Rightarrow> string \<Rightarrow> ('c, 'g) pending_fn" where
  "socks_fqdn io junk ops header pc g =
     bind_res (read_buf io header 1 (pc_connection pc)) (\<lambda>(_, header1, c1).
     bind_res (get_byte header1 0) (\<lambda>n.
     bind_res (read_counted io (stack_array junk 256) n c1) (\<lambda>(_, buf, c2).
     bind_res (terminated buf n) (\<lambda>hostname.
     bind_res (read_buf io header1 2 c2) (\<lambda>(_, header2, c3).
     bind_res (get_byte header2 0) (\<lambda>p0. bind_res (get_byte header2 1) (\<lambda>p1.
     or_unsupported io (map_option (\<lambda>h. h hostname (256 * of_char p0 + of_char p1)) (op_socks_connect_fqdn ops))
       (pc\<lparr>pc_connection := c3\<rparr>) g)))))))"

definition socks_request ::
    "'c sock_io \<Rightarrow> (nat \<Rightarrow> char) \<Rightarrow> ('c, 'g) irc_listener_ops \<Rightarrow> ('c, 'g) pending_fn" where
  "socks_request io junk ops pc g =
     bind_res (read_buf io (stack_array junk 4) 4 (pc_connection pc)) (\<lambda>(st, header, c1).
     let pc1 = pc\<lparr>pc_connection := c1\<rparr> in
     if st \<noteq> IO_NORMAL then Inr (False, pc1, g)
     else
       bind_res (get_byte header 0) (\<lambda>h0. bind_res (get_byte header 1) (\<lambda>h1. bind_res (get_byte header 3) (\<lambda>h3.
       if gchar h0 \<noteq> int SOCKS_VERSION then
         let (ok, pc2) = listener_socks_error io REP_GENERAL_FAILURE pc1 in Inr (ok, pc2, g)
       else if gchar h1 \<noteq> int CMD_CONNECT then
         let (ok, pc2) = listener_socks_error io REP_CMD_NOT_SUPPORTED pc1 in Inr (ok, pc2, g)
       else if gchar h3 = int ATYP_IPV4 then or_unsupported io (op_socks_connect_ipv4 ops) pc1 g
       else if gchar h3 = int ATYP_IPV6 then or_unsupported io (op_socks_connect_ipv6 ops) pc1 g
       else if gchar h3 = int ATYP_FQDN then socks_fqdn io junk ops header pc1 g
       else or_unsupported io None pc1 g))))"

definition handle_client_socks_data ::
    "'c sock_io \<Rightarrow> (nat \<Rightarrow> char) \<Rightarrow> ('c, 'g) irc_listener_ops \<Rightarrow> ('c, 'g) pending_fn" where
  "handle_client_socks_data io junk ops pc g =
     (case pc_state pc of
        SOCKS_STATE_NEW \<Rightarrow> socks_greeting io junk pc g
      | SOCKS_STATE_AUTH \<Rightarrow>
          (case pc_method pc of
             None \<Rightarrow> Inl NullDeref
           | Some Method_none \<Rightarrow> Inl NullDeref
           | Some Method_username_password \<Rightarrow> pass_handle_data io junk ops pc g)
      | SOCKS_STATE_NORMAL \<Rightarrow> socks_request io junk ops pc g
      | SOCKS_UNKNOWN \<Rightarrow> Inr (True, pc, g))"

section \<open>The first bytes of a client\<close>

text \<open>
  A status that is returned as a truth value: only an error is 0. A text that cannot be
  converted is used as it is.
\<close>

definition handle_client_detect ::
    "'c sock_io \<Rightarrow> giconv \<Rightarrow> (nat \<Rightarrow> char) \<Rightarrow> ('c, 'g) irc_listener_ops \<Rightarrow> ('c, 'g) pending_fn" where
  "handle_client_detect io iconv junk ops pc g =
     bind_res (read_buf io (stack_array junk 2) 1 (pc_connection pc)) (\<lambda>(st, header, c1).
     let pc1 = pc\<lparr>pc_connection := c1\<rparr> in
     if st \<noteq> IO_NORMAL \<and> st \<noteq> IO_AGAIN then Inr (False, pc1, g)
     else
       bind_res (get_byte header 0) (\<lambda>h0.
       if gchar h0 = int SOCKS_VERSION
       then Inr (True, pc1\<lparr>pc_type := CLIENT_TYPE_SOCKS, pc_state := SOCKS_STATE_NEW\<rparr>, g)
       else
         let (st2, raw, c2) = read_line (so_io io) c1;
             pc2 = pc\<lparr>pc_connection := c2, pc_type := CLIENT_TYPE_REGULAR\<rparr> in
         if st2 \<noteq> IO_NORMAL then Inr (st2 \<noteq> IO_ERROR, pc2, g)
         else
           let complete = h0 # raw;
               cvrt = (case iconv of None \<Rightarrow> complete
                       | Some f \<Rightarrow> (case f complete of None \<Rightarrow> complete | Some t \<Rightarrow> t)) in
           op_handle_client_line ops (irc_parse_line cvrt) pc2 g))"

text \<open>The lines of a client, until none can be read or the owner lets go of it.\<close>

fun pending_lines ::
    "nat \<Rightarrow> 'c sock_io \<Rightarrow> giconv \<Rightarrow> ('c, 'g) irc_listener_ops \<Rightarrow> ('c, 'g) pending_fn" where
  "pending_lines 0 io iconv ops pc g = Inl Diverges"
| "pending_lines (Suc k) io iconv ops pc g =
     (let (status, l, c1) = irc_recv_line (so_io io) iconv (pc_connection pc); pc1 = pc\<lparr>pc_connection := c1\<rparr> in
      if status \<noteq> IO_NORMAL then Inr (status = IO_AGAIN, pc1, g)
      else case l of
        None \<Rightarrow> pending_lines k io iconv ops pc1 g
      | Some _ \<Rightarrow>
          bind_res (op_handle_client_line ops l pc1 g) (\<lambda>(ret, pc2, g2).
          if ret then pending_lines k io iconv ops pc2 g2 else Inr (False, pc2, g2)))"

section \<open>Listeners\<close>

text \<open>
  \<open>li_pending\<close> are the pending clients in their list, \<open>li_watches\<close> the watches the main loop
  has for clients; a watch has the number of its client, and no number is used twice.
  \<open>li_incoming\<close> are the sockets that are listened on, with their address and port.
\<close>

record ('c, 'g) irc_listener =
  li_active :: bool
  li_iconv :: giconv
  li_incoming :: "(string \<times> string) list"
  li_pending :: "(addr \<times> 'c pending_client) list"
  li_watches :: "addr list"
  li_next :: addr
  li_owner :: 'g

definition kill_pending_client :: "addr \<Rightarrow> ('c, 'g) irc_listener \<Rightarrow> ('c, 'g) irc_listener" where
  "kill_pending_client a l =
     l\<lparr>li_pending := filter (\<lambda>(b, _). b \<noteq> a) (li_pending l), li_watches := removeAll a (li_watches l)\<rparr>"

text \<open>A callback on one client, its effect on the list, and the client's removal when it returns FALSE.\<close>

definition put_pending :: "addr \<Rightarrow> 'c pending_client \<Rightarrow> ('c, 'g) irc_listener \<Rightarrow> ('c, 'g) irc_listener" where
  "put_pending a pc l = l\<lparr>li_pending := map (\<lambda>(b, q). (b, if b = a then pc else q)) (li_pending l)\<rparr>"

definition on_pending ::
    "addr \<Rightarrow> ('c, 'g) pending_fn \<Rightarrow> 'c pending_client \<Rightarrow> ('c, 'g) irc_listener \<Rightarrow> (bool \<times> ('c, 'g) irc_listener) res" where
  "on_pending a f pc l =
     bind_res (f pc (li_owner l)) (\<lambda>(ret, pc1, g1).
     let l1 = (put_pending a pc1 l)\<lparr>li_owner := g1\<rparr> in
     Inr (if ret then (True, l1) else (False, kill_pending_client a l1)))"

definition handle_client_receive ::
    "nat \<Rightarrow> 'c sock_io \<Rightarrow> (nat \<Rightarrow> char) \<Rightarrow> ('c, 'g) irc_listener_ops \<Rightarrow> gio_condition \<Rightarrow> addr \<Rightarrow>
     ('c, 'g) irc_listener \<Rightarrow> (bool \<times> ('c, 'g) irc_listener) res" where
  "handle_client_receive k io junk ops cond a l =
     bind_res (live (map_of (li_pending l) a)) (\<lambda>pc.
     let hup = (\<lambda>l. if cond_hup cond then Inr (False, kill_pending_client a l) else Inr (True, l));
         then_hup = (\<lambda>r. bind_res r (\<lambda>(ret, l1). if ret then hup l1 else Inr (False, l1))) in
     if cond_in cond then
       case pc_type pc of
         CLIENT_TYPE_UNKNOWN \<Rightarrow> then_hup (on_pending a (handle_client_detect io (li_iconv l) junk ops) pc l)
       | CLIENT_TYPE_REGULAR \<Rightarrow> then_hup (on_pending a (pending_lines k io (li_iconv l) ops) pc l)
       | CLIENT_TYPE_SOCKS \<Rightarrow> on_pending a (handle_client_socks_data io junk ops) pc l
       | CLIENT_TYPE_QUASSEL \<Rightarrow> hup l
     else hup l)"

definition listener_new_pending_client :: "'c \<Rightarrow> ('c, 'g) irc_listener \<Rightarrow> ('c, 'g) irc_listener" where
  "listener_new_pending_client c l =
     l\<lparr>li_pending := li_pending l @ [(li_next l, \<lparr>pc_connection = c, pc_type = CLIENT_TYPE_UNKNOWN, pc_method = None,
         pc_state = SOCKS_UNKNOWN\<rparr>)],
       li_watches := li_watches l @ [li_next l], li_next := Suc (li_next l)\<rparr>"

text \<open>A connection on a socket that is listened on; accepting it can fail.\<close>

definition handle_new_client :: "'c option \<Rightarrow> ('c, 'g) irc_listener \<Rightarrow> bool \<times> ('c, 'g) irc_listener" where
  "handle_new_client accepted l =
     (case accepted of None \<Rightarrow> (True, l) | Some c \<Rightarrow> (True, listener_new_pending_client c l))"

definition NI_MAXHOST :: nat where "NI_MAXHOST = 1025"
definition NI_MAXSERV :: nat where "NI_MAXSERV = 32"

definition listener_add_iochannel ::
    "string option \<Rightarrow> string option \<Rightarrow> ('c, 'g) irc_listener \<Rightarrow> ('c, 'g) irc_listener" where
  "listener_add_iochannel address port l =
     l\<lparr>li_incoming := li_incoming l @
         [(case address of None \<Rightarrow> [] | Some t \<Rightarrow> take (NI_MAXHOST - 1) (c_str t),
           case port of None \<Rightarrow> [] | Some t \<Rightarrow> take (NI_MAXSERV - 1) (c_str t))],
       li_active := True\<rparr>"

text \<open>
  \<open>resolve\<close> gives the addresses of a name, each with its numeric name and port and whether a
  socket could be bound to it and listened on; \<open>None\<close> when the name is unknown.
\<close>

definition listener_start_tcp ::
    "(string option \<Rightarrow> string \<Rightarrow> (string \<times> string \<times> bool) list option) \<Rightarrow> string option \<Rightarrow> string option \<Rightarrow>
     ('c, 'g) irc_listener \<Rightarrow> (bool \<times> ('c, 'g) irc_listener) res" where
  "listener_start_tcp resolve address port l =
     bind_res (guard_res (\<not> li_active l) AssertFail) (\<lambda>_.
     case resolve address (case port of None \<Rightarrow> ''6667'' | Some p \<Rightarrow> p) of
       None \<Rightarrow> Inr (False, l)
     | Some rs \<Rightarrow>
         let l1 = foldl (\<lambda>l (h, p, ok). if ok then listener_add_iochannel (Some h) (Some p) l else l) l rs in
         Inr (li_active l1, l1))"

definition listener_stop :: "('c, 'g) irc_listener \<Rightarrow> bool \<times> ('c, 'g) irc_listener" where
  "listener_stop l = (True, l\<lparr>li_incoming := []\<rparr>)"

end
