(* ===== verification/Login.thy ===== *)
theory Login
  imports Listener Proxy
begin

text \<open>
  \<open>src/listener.c\<close>: the callbacks with which the proxy lets pending clients in, by the IRC
  command PASS or by SOCKS, and the listeners of the configuration; \<open>client_init\<close> of
  \<open>src/client.c\<close>, which makes a client of a connection that was let in.
\<close>

section \<open>Configuration and surroundings\<close>

record allow_rule =
  ar_username :: "string option"
  ar_password :: "string option"

record listener_config =
  lc_network :: "string option"
  lc_password :: "string option"
  lc_address :: "string option"
  lc_port :: "string option"
  lc_allow_rules :: "allow_rule list"

datatype sockaddr = Sockaddr_in string nat | Sockaddr_in6 string nat | Sockaddr_other

text \<open>
  The listener's own settings and what it asks the system: the host of a service, the address of
  a channel's peer and the description made from it, and the local address of a connection.
  \<open>le_config\<close> is NULL for the socket in the file system, \<open>le_unix\<close> says that this is that
  listener. A network is named by its place in the list; ports are as they are in memory.
\<close>

record ('c, 'f) login_env =
  le_proxy :: "('c, 'f) proxy"
  le_io :: "'c sock_io"
  le_iconv :: giconv
  le_config :: "listener_config option"
  le_password :: "string option"
  le_create_implicit :: bool
  le_network :: "addr option"
  le_unix :: bool
  le_getservbyname :: "string \<Rightarrow> int option"
  le_server_addr :: addr
  le_description :: "'c \<Rightarrow> string option"
  le_peer :: "'c \<Rightarrow> string option"
  le_iconv_open :: "string \<Rightarrow> string \<Rightarrow> (string \<Rightarrow> string option) option"
  le_local_name :: "'c proxy_network \<Rightarrow> sockaddr option"

text \<open>The networks, and the clients made so far in their order.\<close>

record 'c login =
  lg_networks :: "'c proxy_network list"
  lg_clients :: "'c irc_client list"

section \<open>Passwords\<close>

text \<open>\<open>strcmp\<close> is given the user's name as it is, also when there is none.\<close>

fun allowed_by :: "string option \<Rightarrow> string \<Rightarrow> allow_rule list \<Rightarrow> bool res" where
  "allowed_by username password [] = Inr False"
| "allowed_by username password (r # rs) =
     (case (ar_username r, ar_password r) of
        (Some u, Some p) \<Rightarrow>
          bind_res (deref username) (\<lambda>un.
          if strcmp u un \<noteq> 0 then allowed_by username password rs
          else if strcmp p password \<noteq> 0 then allowed_by username password rs
          else Inr True)
      | _ \<Rightarrow> allowed_by username password rs)"

definition listener_check_username_password ::
    "listener_config option \<Rightarrow> string option \<Rightarrow> string option \<Rightarrow> string \<Rightarrow> bool res" where
  "listener_check_username_password cfg global_password username password =
     (let global_check =
        (case global_password of None \<Rightarrow> Inr True | Some p \<Rightarrow> Inr (strcmp p password = 0)) in
      case cfg of
        None \<Rightarrow> global_check
      | Some c \<Rightarrow>
          bind_res (allowed_by username password (lc_allow_rules c)) (\<lambda>ok.
          if ok then Inr True
          else case lc_password c of
            Some p \<Rightarrow> Inr (strcmp p password = 0)
          | None \<Rightarrow> global_check))"

definition default_socks_auth_simple ::
    "('c, 'f) login_env \<Rightarrow> string \<Rightarrow> string \<Rightarrow> (bool \<Rightarrow> 'c pending_client \<Rightarrow> bool \<times> 'c pending_client) \<Rightarrow>
     ('c, 'c login) pending_fn" where
  "default_socks_auth_simple le username password on_known pc w =
     bind_res (listener_check_username_password (le_config le) (le_password le) (Some username) password) (\<lambda>ok.
     let (ret, pc1) = on_known ok pc in Inr (ret, pc1, w))"

section \<open>New clients\<close>

definition client_init ::
    "('c, 'f) login_env \<Rightarrow> addr option \<Rightarrow> 'c irc_transport \<Rightarrow> string option \<Rightarrow> string \<Rightarrow> 'c login \<Rightarrow> (bool \<times> 'c login) res" where
  "client_init le n transport peer desc w =
     (let sys = fst (le_proxy le);
          net = (case n of None \<Rightarrow> None | Some i \<Rightarrow> Some (lg_networks w ! i));
          c0 = irc_client_new (ps_now sys) transport peer
                 (case net of None \<Rightarrow> ps_hostname sys | Some x \<Rightarrow> n_name x) desc;
          c1 = c0\<lparr>cl_authenticated := False, cl_network := n\<rparr>;
          w1 = (case n of None \<Rightarrow> w
                | Some i \<Rightarrow> w\<lparr>lg_networks := (lg_networks w)[i := irc_network_ref (lg_networks w ! i)]\<rparr>);
          (ok, tr) = (if n = None then (True, cl_transport c1)
                      else transport_set_charset (le_iconv_open le) (cl_transport c1) (cf_client_charset (ps_config sys)));
          c2 = c1\<lparr>cl_transport := tr\<rparr> in
      if \<not> ok then
        bind_res (client_disconnect (ps_now sys) (ps_io sys) c2 (Some ''Unable to set character set.'')) (\<lambda>c3.
        Inr (False, w1\<lparr>lg_clients := lg_clients w1 @ [c3]\<rparr>))
      else Inr (True, w1\<lparr>lg_clients := lg_clients w1 @ [c2\<lparr>cl_exit_on_close := False\<rparr>]\<rparr>))"

definition client_init_iochannel ::
    "('c, 'f) login_env \<Rightarrow> addr option \<Rightarrow> 'c \<Rightarrow> string \<Rightarrow> 'c login \<Rightarrow> (bool \<times> 'c login) res" where
  "client_init_iochannel le n c desc w =
     client_init le n (irc_transport_new_iochannel c) (le_peer le c) desc w"

text \<open>
  The network of a name, as its place in the list: the network that is found is the first that
  matches, and one that is created is the first as well, for none did.
\<close>

definition network_place :: "('c, 'f) login_env \<Rightarrow> string \<Rightarrow> int \<Rightarrow> 'c proxy_network list \<Rightarrow> addr" where
  "network_place le hostname port ns =
     length (takeWhile (\<lambda>n. \<not> network_matches (le_getservbyname le) hostname port n) ns)"

definition find_network_of ::
    "('c, 'f) login_env \<Rightarrow> string \<Rightarrow> int \<Rightarrow> 'c login \<Rightarrow> (addr option \<times> 'c login) res" where
  "find_network_of le hostname port w =
     bind_res (find_network_by_hostname (le_getservbyname le) (ps_config (fst (le_proxy le))) (le_server_addr le)
                 (lg_networks w) hostname port (le_create_implicit le) None) (\<lambda>(n, ns).
     Inr (map_option (\<lambda>_. network_place le hostname port ns) n, w\<lparr>lg_networks := ns\<rparr>))"

text \<open>A network that is not connected is connected first.\<close>

definition ensure_connected :: "('c, 'f) login_env \<Rightarrow> addr \<Rightarrow> 'c login \<Rightarrow> (bool \<times> 'c login) res" where
  "ensure_connected le i w =
     (case le_proxy le of (sys, env, k) \<Rightarrow>
        let n = lg_networks w ! i in
        if n_state n \<noteq> NOT_CONNECTED then Inr (True, w)
        else
          bind_res (connect_network k (proxy_env sys env) n) (\<lambda>(ok, n1).
          Inr (ok, w\<lparr>lg_networks := (lg_networks w)[i := n1]\<rparr>)))"

text \<open>The address the client is told it is connected from; the ports are in network order already.\<close>

definition socks_answer :: "('c, 'f) login_env \<Rightarrow> 'c proxy_network \<Rightarrow> (nat \<times> string \<times> nat) option" where
  "socks_answer le n =
     (if nc_type (n_config n) = NETWORK_TCP then
        (case le_local_name le n of
           Some (Sockaddr_in d port) \<Rightarrow> Some (ATYP_IPV4, take 4 d, port)
         | Some (Sockaddr_in6 d port) \<Rightarrow> Some (ATYP_IPV6, take 16 d, port)
         | _ \<Rightarrow> None)
      else Some (ATYP_FQDN, char_of (9 :: nat) # ''localhost'', 1025))"

definition default_socks_connect_fqdn ::
    "('c, 'f) login_env \<Rightarrow> string \<Rightarrow> nat \<Rightarrow> ('c, 'c login) pending_fn" where
  "default_socks_connect_fqdn le hostname port pc w =
     (let refuse = (\<lambda>w. let (ok, pc1) = listener_socks_error (le_io le) REP_NET_UNREACHABLE pc in Inr (ok, pc1, w)) in
      bind_res (find_network_of le hostname (int port) w) (\<lambda>(n, w1).
      case n of
        None \<Rightarrow> refuse w1
      | Some i \<Rightarrow>
          bind_res (ensure_connected le i w1) (\<lambda>(ok, w2).
          if \<not> ok then refuse w2
          else
            case socks_answer le (lg_networks w2 ! i) of
              None \<Rightarrow> refuse w2
            | Some (atyp, data, p) \<Rightarrow>
                let (_, pc1) = listener_socks_reply (le_io le) REP_OK atyp data p pc;
                    desc = (case le_description le (pc_connection pc1) of
                              Some d \<Rightarrow> d
                            | None \<Rightarrow> if le_unix le then ''Unix domain socket socks client'' else ''socks client'') in
                bind_res (client_init_iochannel le (Some i) (pc_connection pc1) desc w2) (\<lambda>(_, w3).
                Inr (False, pc1, w3)))))"

section \<open>Lines\<close>

definition irc_sendf :: "'c giochannel \<Rightarrow> giconv \<Rightarrow> 'c \<Rightarrow> string \<Rightarrow> (io_status \<times> 'c) res" where
  "irc_sendf io iconv c text = bind_res (asserted (irc_parse_line text)) (irc_send_line io iconv c)"

text \<open>A line to a pending client, flushed.\<close>

definition tell_pending ::
    "('c, 'f) login_env \<Rightarrow> string \<Rightarrow> 'c pending_client \<Rightarrow> (io_status \<times> 'c pending_client) res" where
  "tell_pending le text pc =
     bind_res (irc_sendf (so_io (le_io le)) (le_iconv le) (pc_connection pc) text) (\<lambda>(st, c1).
     Inr (st, pc\<lparr>pc_connection := snd (flush (so_io (le_io le)) c1)\<rparr>))"

definition pass_error :: "('c, 'f) login_env \<Rightarrow> int \<Rightarrow> string \<Rightarrow> string" where
  "pass_error le code text =
     '':'' @ printf_s (ps_hostname (fst (le_proxy le))) @ '' '' @ show_int code @ '' * :'' @ text"

text \<open>The network after the password, or the listener's own; \<open>Inl\<close> is the reason why there is none.\<close>

definition login_network ::
    "('c, 'f) login_env \<Rightarrow> string option \<Rightarrow> 'c login \<Rightarrow> ((string + addr option) \<times> 'c login) res" where
  "login_network le networkname w =
     (case networkname of
        None \<Rightarrow> Inr (Inr (le_network le), w)
      | Some name \<Rightarrow>
          bind_res (find_network_of le name 6667 w) (\<lambda>(n, w1).
          case n of
            None \<Rightarrow> Inr (Inl ''unable to find network'', w1)
          | Some i \<Rightarrow>
              bind_res (ensure_connected le i w1) (\<lambda>(ok, w2).
              Inr (if ok then Inr (Some i) else Inl ''unable to connect'', w2))))"

definition let_in :: "('c, 'f) login_env \<Rightarrow> string option \<Rightarrow> ('c, 'c login) pending_fn" where
  "let_in le networkname pc w =
     bind_res (login_network le networkname w) (\<lambda>(n, w1).
     case n of
       Inl reason \<Rightarrow>
         bind_res (tell_pending le (pass_error le ERR_PASSWDMISMATCH (''Password error: '' @ reason)) pc) (\<lambda>(_, pc1).
         Inr (False, pc1, w1))
     | Inr i \<Rightarrow>
         bind_res (tell_pending le ''NOTICE AUTH :PASS OK'' pc) (\<lambda>(_, pc1).
         let desc = (if le_unix le then ''Unix domain socket client''
                     else case le_description le (pc_connection pc1) of None \<Rightarrow> [] | Some d \<Rightarrow> d) in
         bind_res (client_init_iochannel le i (pc_connection pc1) desc w1) (\<lambda>(_, w2).
         Inr (False, pc1, w2))))"

definition handle_client_line :: "('c, 'f) login_env \<Rightarrow> irc_line option \<Rightarrow> ('c, 'c login) pending_fn" where
  "handle_client_line le lo pc w =
     (case lo of
        None \<Rightarrow> Inr (True, pc, w)
      | Some l \<Rightarrow>
          (case args l of
             [] \<Rightarrow> Inr (True, pc, w)
           | a0 # _ \<Rightarrow>
               if base_eq a0 ''PASS'' then
                 bind_res (sarg l 1) (\<lambda>a1.
                 let colon = has_chr a1 (CHR '':'');
                     actual_password = takeWhile (\<lambda>c. c \<noteq> CHR '':'') a1;
                     networkname = (if colon then Some (tl (dropWhile (\<lambda>c. c \<noteq> CHR '':'') a1)) else None) in
                 bind_res (listener_check_username_password (le_config le) (le_password le) None actual_password) (\<lambda>ok.
                 if ok then let_in le networkname pc w
                 else
                   bind_res (tell_pending le (pass_error le ERR_PASSWDMISMATCH ''Password mismatch'') pc) (\<lambda>(st, pc1).
                   Inr (st = IO_NORMAL, pc1, w))))
               else
                 bind_res (tell_pending le (pass_error le ERR_NOTREGISTERED
                     ''You are not registered. Did you specify a password?'') pc) (\<lambda>(_, pc1).
                 Inr (True, pc1, w))))"

definition default_listener_ops :: "('c, 'f) login_env \<Rightarrow> ('c, 'c login) irc_listener_ops" where
  "default_listener_ops le =
     \<lparr>op_handle_client_line = handle_client_line le, op_socks_auth_simple = default_socks_auth_simple le,
      op_socks_connect_ipv4 = None, op_socks_connect_ipv6 = None,
      op_socks_connect_fqdn = Some (default_socks_connect_fqdn le)\<rparr>"

end
