(* ===== verification/Listener_Spec.thy ===== *)
theory Listener_Spec
  imports Login Proxy_Spec
begin

text \<open>
  What holds of listeners and pending clients: every watch has its client and every client in the
  middle of SOCKS its method, whatever the clients send; how the table of methods, the counted
  strings and the first byte are read; and when the callbacks of the proxy let a client in.
\<close>

section \<open>Reading\<close>

lemma stack_array_length [simp]: "length (stack_array junk n) = n"
  by (simp add: stack_array_def)

lemma gchar_simps:
  "of_char c < (128 :: nat) \<Longrightarrow> gchar c = int (of_char c)"
  "128 \<le> (of_char c :: nat) \<Longrightarrow> gchar c = int (of_char c) - 256"
  by (simp_all add: gchar_def Let_def)

lemma gsize_gchar:
  "gsize (gchar c) = (if of_char c < (128 :: nat) then int (of_char c) else 0x10000000000000000 - 256 + int (of_char c))"
proof (cases "of_char c < (128 :: nat)")
  case True
  then show ?thesis by (simp add: gchar_simps gsize_def)
next
  case False
  have "(of_char c :: nat) < 256" by simp
  then have "(int (of_char c) - 256) mod 0x10000000000000000 = 0x10000000000000000 - 256 + int (of_char c)"
    using mod_add_self2 [of "int (of_char c) - 256" "0x10000000000000000"] False
      mod_pos_pos_trivial [of "int (of_char c) - 256 + 0x10000000000000000" "0x10000000000000000"] by linarith
  then show ?thesis using False by (simp add: gchar_simps gsize_def)
qed

text \<open>The documented bound: a channel never gives more bytes than it is asked for.\<close>

definition bounded_reads :: "'c sock_io \<Rightarrow> bool" where
  "bounded_reads io \<longleftrightarrow> (\<forall>k c. 0 \<le> k \<longrightarrow> int (length (fst (snd (so_read_chars io k c)))) \<le> k)"

lemma read_counted_overflow:
  assumes "bounded_reads io"
  shows "read_counted io (stack_array junk 256) n c = Inl OutOfBounds \<longleftrightarrow>
    128 \<le> (of_char n :: nat) \<and> 256 < length (fst (snd (so_read_chars io (0x10000000000000000 - 256 + int (of_char n)) c)))"
proof (cases "of_char n < (128 :: nat)")
  case True
  have "int (length (fst (snd (so_read_chars io (int (of_char n)) c)))) \<le> int (of_char n)"
    using assms unfolding bounded_reads_def by (metis of_nat_0_le_iff)
  then show ?thesis
    using True by (simp add: read_counted_def read_buf_def gsize_gchar case_prod_unfold Let_def)
next
  case False
  then show ?thesis
    by (simp add: read_counted_def read_buf_def gsize_gchar case_prod_unfold Let_def)
qed

lemma read_buf_Inr:
  "so_read_chars io (gsize k) c = (st, s, c') \<Longrightarrow> length s \<le> length buf \<Longrightarrow>
   read_buf io buf k c = Inr (st, s @ drop (length s) buf, c')"
  by (simp add: read_buf_def)

lemma gsize_small [simp]: "gsize 1 = 1" "gsize 2 = 2" "gsize 4 = 4"
  by (simp_all add: gsize_def)

lemma get_byte_Cons [simp]: "get_byte (c # cs) 0 = Inr c" "get_byte (c # d # cs) (Suc 0) = Inr d"
  by (simp_all add: get_byte_def)

text \<open>
  C33. Lengths in the SOCKS dialogue are signed bytes. A client that gives a user name of 128 bytes
  or more makes the proxy read as many bytes as there are into an array of 256, and what follows
  the array on the stack is overwritten as soon as more have arrived; this needs no password.
  Lengths up to 127 are read within the array.
\<close>

theorem socks_user_name_overflows:
  assumes "bounded_reads io"
    and "pc_type pc = CLIENT_TYPE_SOCKS" "pc_state pc = SOCKS_STATE_AUTH" "pc_method pc = Some Method_username_password"
    and "so_read_chars io 2 (pc_connection pc) = (IO_NORMAL, [CHR 0x01, n], c1)"
  shows "(128 \<le> (of_char n :: nat) \<and>
      256 < length (fst (snd (so_read_chars io (0x10000000000000000 - 256 + int (of_char n)) c1))) \<longrightarrow>
      handle_client_socks_data io junk ops pc g = Inl OutOfBounds) \<and>
    (of_char n < (128 :: nat) \<longrightarrow> read_counted io (stack_array junk 256) n c1 \<noteq> Inl OutOfBounds)"
proof -
  have two: "read_buf io (stack_array junk 2) 2 (pc_connection pc) = Inr (IO_NORMAL, [CHR 0x01, n], c1)"
    using read_buf_Inr [of io 2 "pc_connection pc" _ _ _ "stack_array junk 2"] assms(5) by simp
  show ?thesis
    using assms(3,4) two read_counted_overflow [OF assms(1), of junk n c1]
    by (auto simp: handle_client_socks_data_def pass_handle_data_def gchar_def)
qed

section \<open>The greeting\<close>

lemma of_char_less_256: "(of_char c :: nat) < 256"
  by simp

lemma byte_char_simps [simp]: "(char_of (5 :: nat) :: char) = CHR 0x05" "(char_of (2 :: nat) :: char) = CHR 0x02"
    "(char_of (255 :: nat) :: char) = CHR 0xFF"
  by code_simp+

lemma method_for_eq:
  "method_for m = (if m = CHR 0x02 then Some Method_username_password else None)"
proof -
  have "gchar m = 2 \<longleftrightarrow> m = CHR 0x02"
  proof
    assume "gchar m = 2"
    then have "of_char m = (2 :: nat) \<or> of_char m = (258 :: nat)"
      by (auto simp: gchar_def Let_def split: if_split_asm)
    then have "of_char m = (2 :: nat)" using of_char_less_256 [of m] by linarith
    then have "char_of (of_char m :: nat) = char_of (2 :: nat)" by simp
    then show "m = CHR 0x02" by simp
  qed (simp add: gchar_def)
  then show ?thesis
    by (auto simp: method_for_def socks_methods_def acceptable_def SOCKS_METHOD_NOAUTH_def SOCKS_METHOD_USERNAME_PW_def)
qed

lemma offered_method_fold:
  assumes "n \<le> length methods"
  shows "fold_res (\<lambda>i acc. bind_res (get_byte methods i) (\<lambda>m.
       Inr (case method_for m of None \<Rightarrow> acc | Some sm \<Rightarrow> Some sm))) [0..<n] None =
    Inr (if CHR 0x02 \<in> set (take n methods) then Some Method_username_password else None)"
  using assms
proof (induction n)
  case (Suc n)
  then show ?case
    by (auto simp: fold_res_append take_Suc_conv_app_nth get_byte_def method_for_eq simp del: bind_res_Inr_iff)
qed simp

lemma offered_method_eq:
  "n \<le> length methods \<Longrightarrow> offered_method methods (int n) =
    Inr (if CHR 0x02 \<in> set (take n methods) then Some Method_username_password else None)"
  by (simp add: offered_method_def offered_method_fold)

text \<open>
  The proxy chooses the method of a SOCKS client: the password when it is among the methods
  offered, wherever it stands, and then authentication begins; otherwise it answers that no
  method is acceptable and drops the client. A client is never let in without authentication.
\<close>

theorem socks_greeting_chooses_password:
  assumes "pc_state pc = SOCKS_STATE_NEW"
    and "so_read_chars io 1 (pc_connection pc) = (IO_NORMAL, [n], c1)" "of_char n < (128 :: nat)"
    and "so_read_chars io (int (of_char n)) c1 = (IO_NORMAL, ms, c2)" "length ms = of_char n"
    and "\<And>s. write_chars (so_io io) c2 s = (IO_NORMAL, length s, c3 s)"
  shows "handle_client_socks_data io junk ops pc g =
    (if CHR 0x02 \<in> set ms
     then Inr (True, pc\<lparr>pc_connection := snd (flush (so_io io) (c3 [CHR 0x05, CHR 0x02])),
       pc_method := Some Method_username_password, pc_state := SOCKS_STATE_AUTH\<rparr>, g)
     else Inr (False, pc\<lparr>pc_connection := snd (flush (so_io io) (c3 [CHR 0x05, CHR 0xFF])), pc_method := None\<rparr>, g))"
proof -
  have one: "read_buf io (stack_array junk 2) 1 (pc_connection pc) = Inr (IO_NORMAL, [n, junk 1], c1)"
    using read_buf_Inr [of io 1 "pc_connection pc" _ _ _ "stack_array junk 2"] assms(2)
    by (simp add: stack_array_def upt_rec)
  have two: "read_buf io (stack_array junk 256) (gchar n) c1 = Inr (IO_NORMAL, ms @ drop (length ms) (stack_array junk 256), c2)"
    using assms(3-5) by (intro read_buf_Inr) (simp_all add: gsize_gchar)
  have off: "offered_method (ms @ drop (length ms) (stack_array junk 256)) (gchar n) =
      Inr (if CHR 0x02 \<in> set ms then Some Method_username_password else None)"
    using offered_method_eq [of "length ms" "ms @ drop (length ms) (stack_array junk 256)"] assms(3,5)
    by (simp add: gchar_simps)
  show ?thesis
    using assms(1) one two off assms(6)
    by (cases pc) (simp add: handle_client_socks_data_def socks_greeting_def put_bytes_out_def method_id_def
        SOCKS_VERSION_def SOCKS_METHOD_NOACCEPTABLE_def SOCKS_METHOD_USERNAME_PW_def)
qed

section \<open>Runs of a listener\<close>

lemma bind_any: "(\<And>x. m = Inr x \<Longrightarrow> safe {} P (f x)) \<Longrightarrow> safe {} P (bind_res m f)"
  by (cases m) simp_all

text \<open>A client that authenticates by SOCKS has a method to do it with.\<close>

definition pc_ok :: "'c pending_client \<Rightarrow> bool" where
  "pc_ok pc \<longleftrightarrow> (pc_state pc = SOCKS_STATE_AUTH \<longrightarrow> pc_method pc = Some Method_username_password)"

definition pc_kept :: "bool \<times> 'c pending_client \<times> 'g \<Rightarrow> bool" where
  "pc_kept r \<longleftrightarrow> pc_ok (fst (snd r))"

definition keeps_pc :: "('c, 'g) pending_fn \<Rightarrow> bool" where
  "keeps_pc f \<longleftrightarrow> (\<forall>pc g. pc_ok pc \<longrightarrow> safe {} pc_kept (f pc g))"

lemma keeps_pcI: "(\<And>pc g. pc_ok pc \<Longrightarrow> safe {} pc_kept (f pc g)) \<Longrightarrow> keeps_pc f"
  by (simp add: keeps_pc_def)

lemma keeps_pcD: "keeps_pc f \<Longrightarrow> pc_ok pc \<Longrightarrow> safe {} pc_kept (f pc g)"
  by (simp add: keeps_pc_def)

lemma kept_Inr [simp]: "pc_kept (ret, q) \<longleftrightarrow> pc_ok (fst q)"
  by (simp add: pc_kept_def)

lemma pc_ok_connection [simp]: "pc_ok (pc\<lparr>pc_connection := c\<rparr>) = pc_ok pc"
  by (simp add: pc_ok_def)

lemma pc_ok_other: "pc_state pc \<noteq> SOCKS_STATE_AUTH \<Longrightarrow> pc_ok pc"
  by (simp add: pc_ok_def)

lemma put_bytes_out_keeps:
  "pc_state (snd (put_bytes_out io s pc)) = pc_state pc" "pc_method (snd (put_bytes_out io s pc)) = pc_method pc"
  by (simp_all add: put_bytes_out_def case_prod_unfold Let_def)

lemma socks_error_ok [simp]: "pc_ok (snd (listener_socks_error io err pc)) = pc_ok pc"
  by (simp add: listener_socks_error_def listener_socks_reply_def case_prod_unfold Let_def pc_ok_def put_bytes_out_keeps)

lemma accepted_ok: "pc_ok pc \<Longrightarrow> pc_ok (snd (on_socks_pass_accepted io ok pc))"
  by (simp add: on_socks_pass_accepted_def case_prod_unfold Let_def pc_ok_def put_bytes_out_keeps)

lemma greeting_ok:
  assumes "pc_state pc = SOCKS_STATE_NEW"
  shows "safe {} pc_kept (socks_greeting io junk pc g)"
proof -
  show ?thesis
    unfolding socks_greeting_def Let_def case_prod_unfold
    by (intro bind_any)
      (use assms in \<open>auto intro!: bind_any simp: pc_ok_def put_bytes_out_keeps split: option.split socks_method.split\<close>)
qed

text \<open>
  What the listener needs of its owner: a callback may write to the client and change the owner's
  state, and leaves the dialogue in order when \<open>on_known\<close> does.
\<close>

locale pending_owner =
  fixes ops :: "('c, 'g) irc_listener_ops"
  assumes line_keeps: "keeps_pc (op_handle_client_line ops lo)"
    and auth_keeps: "(\<And>b pc. pc_ok pc \<Longrightarrow> pc_ok (snd (known b pc))) \<Longrightarrow> keeps_pc (op_socks_auth_simple ops u p known)"
    and ipv4_keeps: "op_socks_connect_ipv4 ops = Some f4 \<Longrightarrow> keeps_pc f4"
    and ipv6_keeps: "op_socks_connect_ipv6 ops = Some f6 \<Longrightarrow> keeps_pc f6"
    and fqdn_keeps: "op_socks_connect_fqdn ops = Some fd \<Longrightarrow> keeps_pc (fd h port)"
begin

lemma pass_keeps: "keeps_pc (pass_handle_data io junk ops)"
proof (rule keeps_pcI)
  fix pc :: "'c pending_client" and g
  assume ok: "pc_ok pc"
  have auth: "pc_ok q" if r: "op_socks_auth_simple ops u p (on_socks_pass_accepted io) (pc\<lparr>pc_connection := c\<rparr>) g = Inr (b, q, g')"
    for u p c b q g'
  proof -
    have "keeps_pc (op_socks_auth_simple ops u p (on_socks_pass_accepted io))" by (intro auth_keeps accepted_ok)
    then show ?thesis using r ok keeps_pcD [of _ "pc\<lparr>pc_connection := c\<rparr>" g] by fastforce
  qed
  show "safe {} pc_kept (pass_handle_data io junk ops pc g)"
    unfolding pass_handle_data_def Let_def case_prod_unfold
    using ok by (auto intro!: bind_any) (erule auth)+
qed

lemma unsupported_keeps: "(\<And>h. f = Some h \<Longrightarrow> keeps_pc h) \<Longrightarrow> keeps_pc (or_unsupported io f)"
  unfolding or_unsupported_def
  by (cases f) (auto simp: case_prod_unfold Let_def intro!: keeps_pcI intro: keeps_pcD)

lemma fqdn_request_keeps: "keeps_pc (socks_fqdn io junk ops header)"
proof (rule keeps_pcI)
  fix pc :: "'c pending_client" and g
  assume ok: "pc_ok pc"
  have "keeps_pc (or_unsupported io (map_option (\<lambda>h. h name port) (op_socks_connect_fqdn ops)))" for name port
    by (intro unsupported_keeps) (auto intro: fqdn_keeps)
  then show "safe {} pc_kept (socks_fqdn io junk ops header pc g)"
    unfolding socks_fqdn_def case_prod_unfold using ok by (auto intro!: bind_any keeps_pcD)
qed

lemma request_keeps: "keeps_pc (socks_request io junk ops)"
proof (rule keeps_pcI)
  fix pc :: "'c pending_client" and g
  assume ok: "pc_ok pc"
  have k: "keeps_pc (or_unsupported io (op_socks_connect_ipv4 ops))" "keeps_pc (or_unsupported io (op_socks_connect_ipv6 ops))"
    "keeps_pc (or_unsupported io (None :: ('c, 'g) pending_fn option))"
    by (auto intro!: unsupported_keeps intro: ipv4_keeps ipv6_keeps)
  show "safe {} pc_kept (socks_request io junk ops pc g)"
    unfolding socks_request_def Let_def case_prod_unfold
    using ok by (auto intro!: bind_any k [THEN keeps_pcD] fqdn_request_keeps [THEN keeps_pcD])
qed

lemma socks_keeps: "keeps_pc (handle_client_socks_data io junk ops)"
  by (rule keeps_pcI)
    (auto simp: handle_client_socks_data_def split: socks_state.split option.split socks_method.split
      intro: greeting_ok request_keeps [THEN keeps_pcD] pass_keeps [THEN keeps_pcD])

lemma detect_keeps: "keeps_pc (handle_client_detect io iconv junk ops)"
proof (rule keeps_pcI)
  fix pc :: "'c pending_client" and g
  assume ok: "pc_ok pc"
  then have "pc_ok (pc\<lparr>pc_connection := c, pc_type := t\<rparr>)" for c t by (simp add: pc_ok_def)
  then show "safe {} pc_kept (handle_client_detect io iconv junk ops pc g)"
    unfolding handle_client_detect_def Let_def case_prod_unfold
    using ok by (auto intro!: bind_any line_keeps [THEN keeps_pcD] simp: pc_ok_other)
qed

lemma lines_keeps: "keeps_pc (pending_lines k io iconv ops)"
proof (rule keeps_pcI)
  fix pc :: "'c pending_client" and g
  assume "pc_ok pc"
  then show "safe {} pc_kept (pending_lines k io iconv ops pc g)"
  proof (induction k arbitrary: pc g)
    case (Suc k)
    have "safe {} pc_kept (bind_res (op_handle_client_line ops l q g)
        (\<lambda>r. if fst r then pending_lines k io iconv ops (fst (snd r)) (snd (snd r)) else Inr (False, fst (snd r), snd (snd r))))"
      if "pc_ok q" for l q
      using keeps_pcD [OF line_keeps that] by (rule safe_bind) (auto simp: pc_kept_def intro: Suc.IH)
    then show ?case
      using Suc.prems by (auto simp: Let_def case_prod_unfold split: option.split intro!: Suc.IH)
  qed simp
qed

end

text \<open>
  A step of a listener: a connection is accepted, the main loop finds one of the clients readable
  or gone, bytes arrive for a client, or listening stops. \<open>lines\<close> is the fuel of the loop over
  the lines that can be read at once.
\<close>

inductive listener_step :: "'c sock_io \<Rightarrow> (nat \<Rightarrow> char) \<Rightarrow> ('c, 'g) irc_listener_ops \<Rightarrow>
    ('c, 'g) irc_listener \<Rightarrow> ('c, 'g) irc_listener \<Rightarrow> bool" for io junk ops where
  accept: "listener_step io junk ops l (snd (handle_new_client c l))"
| arrive: "map_of (li_pending l) a = Some pc \<Longrightarrow>
    listener_step io junk ops l (put_pending a (pc\<lparr>pc_connection := c\<rparr>) l)"
| receive: "a \<in> set (li_watches l) \<Longrightarrow> handle_client_receive lines io junk ops cond a l = Inr (ret, l') \<Longrightarrow>
    listener_step io junk ops l l'"
| stop: "listener_step io junk ops l (snd (listener_stop l))"

definition listener_inv :: "('c, 'g) irc_listener \<Rightarrow> bool" where
  "listener_inv l \<longleftrightarrow>
     map fst (li_pending l) = li_watches l \<and> distinct (li_watches l) \<and> list_all (\<lambda>a. a < li_next l) (li_watches l) \<and>
     list_all (\<lambda>(_, pc). pc_ok pc) (li_pending l)"

lemma inv_kill: "listener_inv l \<Longrightarrow> listener_inv (kill_pending_client a l)"
proof -
  have "map fst (filter (\<lambda>(b, _). b \<noteq> a) xs) = removeAll a (map fst xs)" for xs :: "(addr \<times> 'a pending_client) list"
    by (induction xs) auto
  then show "listener_inv l \<Longrightarrow> listener_inv (kill_pending_client a l)"
    by (auto simp: listener_inv_def kill_pending_client_def list_all_iff distinct_removeAll)
qed

lemma inv_put:
  "listener_inv l \<Longrightarrow> pc_ok pc \<Longrightarrow> listener_inv (put_pending a pc l)"
  "listener_inv l \<Longrightarrow> pc_ok pc \<Longrightarrow> listener_inv ((put_pending a pc l)\<lparr>li_owner := g\<rparr>)"
  by (auto simp: listener_inv_def put_pending_def list_all_iff case_prod_unfold comp_def)

lemma inv_found: "listener_inv l \<Longrightarrow> map_of (li_pending l) a = Some pc \<Longrightarrow> pc_ok pc"
  by (auto simp: listener_inv_def list_all_iff dest: map_of_SomeD)

lemma inv_on_pending:
  assumes "listener_inv l" "pc_ok pc" "keeps_pc f" "on_pending a f pc l = Inr (ret, l')"
  shows "listener_inv l'"
proof -
  obtain r pc1 g1 where f: "f pc (li_owner l) = Inr (r, pc1, g1)"
    using assms(4) by (auto simp: on_pending_def)
  have "pc_ok pc1" using keeps_pcD [OF assms(3,2), of "li_owner l"] f by simp
  then show ?thesis
    using assms(1,4) f by (auto simp: on_pending_def Let_def inv_put inv_kill split: if_split_asm)
qed

context pending_owner
begin

lemma receive_inv:
  assumes "listener_inv l" "handle_client_receive k io junk ops cond a l = Inr (ret, l')"
  shows "listener_inv l'"
proof -
  obtain pc where pc: "map_of (li_pending l) a = Some pc" using assms(2) by (auto simp: handle_client_receive_def)
  note keep = inv_on_pending [OF assms(1) inv_found [OF assms(1) pc]]
  show ?thesis
    using assms pc keep [OF detect_keeps] keep [OF lines_keeps] keep [OF socks_keeps]
    by (auto simp: handle_client_receive_def Let_def inv_kill split: if_split_asm client_type.split_asm)
qed

lemma step_inv: "listener_step io junk ops l l' \<Longrightarrow> listener_inv l \<Longrightarrow> listener_inv l'"
proof (induction rule: listener_step.induct)
  case (accept l c)
  then show ?case
    by (cases c) (auto simp: handle_new_client_def listener_new_pending_client_def listener_inv_def list_all_iff pc_ok_other
        dest: less_SucI)
next
  case (arrive l a pc c)
  then show ?case using inv_found [of l a pc] by (simp add: inv_put)
next
  case (receive a l lines cond ret l')
  then show ?case by (blast intro: receive_inv)
next
  case (stop l)
  then show ?case by (simp add: listener_stop_def listener_inv_def)
qed

lemma run_inv: "(listener_step io junk ops)\<^sup>*\<^sup>* l l' \<Longrightarrow> listener_inv l \<Longrightarrow> listener_inv l'"
  by (induction rule: rtranclp_induct) (auto intro: step_inv)

end

section \<open>The callbacks of the proxy\<close>

lemma tell_pending_ok: "tell_pending le text pc = Inr (st, pc') \<Longrightarrow> pc_ok pc \<Longrightarrow> pc_ok pc'"
  by (auto simp: tell_pending_def)

lemma line_ops_keep: "keeps_pc (handle_client_line le lo)"
proof (rule keeps_pcI)
  fix pc :: "'a pending_client" and w
  assume ok: "pc_ok pc"
  have "safe {} pc_kept (let_in le nn pc w)" for nn
    unfolding let_in_def Let_def case_prod_unfold
    using ok by (auto intro!: bind_any split: sum.split) (erule (1) tell_pending_ok)+
  then show "safe {} pc_kept (handle_client_line le lo pc w)"
    unfolding handle_client_line_def Let_def case_prod_unfold
    using ok by (auto intro!: bind_any split: option.split list.split) (erule (1) tell_pending_ok)+
qed

lemma fqdn_ops_keep: "keeps_pc (default_socks_connect_fqdn le h port)"
proof (rule keeps_pcI)
  fix pc :: "'a pending_client" and w
  assume "pc_ok pc"
  then show "safe {} pc_kept (default_socks_connect_fqdn le h port pc w)"
    unfolding default_socks_connect_fqdn_def Let_def case_prod_unfold
    by (auto intro!: bind_any split: option.split
        simp: listener_socks_reply_def case_prod_unfold Let_def pc_ok_def put_bytes_out_keeps
          listener_socks_error_def)
qed

interpretation proxy_ops: pending_owner "default_listener_ops le" for le :: "('c, 'f) login_env"
proof
  show "keeps_pc (op_handle_client_line (default_listener_ops le) lo)" for lo
    by (simp add: default_listener_ops_def line_ops_keep)
  show "keeps_pc (op_socks_auth_simple (default_listener_ops le) u p known)"
    if "\<And>b pc. pc_ok pc \<Longrightarrow> pc_ok (snd (known b pc))" for u p known
    using that by (auto intro!: keeps_pcI bind_any simp: default_listener_ops_def default_socks_auth_simple_def
        case_prod_unfold Let_def)
  show "keeps_pc (fd h port)" if "op_socks_connect_fqdn (default_listener_ops le) = Some fd" for fd h port
    using that by (auto simp: default_listener_ops_def fqdn_ops_keep)
qed (simp_all add: default_listener_ops_def)

definition new_listener :: "'g \<Rightarrow> ('c, 'g) irc_listener" where
  "new_listener g = \<lparr>li_active = False, li_iconv = None, li_incoming = [], li_pending = [], li_watches = [],
     li_next = 0, li_owner = g\<rparr>"

text \<open>
  C10. However connections come and go and whatever they send, a listener of the proxy has exactly
  one watch for each pending client and none for a client that was freed, so that no callback of
  the main loop finds a client gone; and a client that authenticates by SOCKS has the method it
  chose, so that the call through its method is never one through a null pointer.
\<close>

theorem pending_clients_consistent:
  assumes "(listener_step io junk (default_listener_ops le))\<^sup>*\<^sup>* (new_listener w) l"
  shows "map fst (li_pending l) = li_watches l \<and> distinct (li_watches l) \<and>
    list_all (\<lambda>(_, pc). pc_state pc = SOCKS_STATE_AUTH \<longrightarrow> pc_method pc = Some Method_username_password) (li_pending l)"
proof -
  have "listener_inv (new_listener w :: ('a, 'a login) irc_listener)"
    by (simp add: listener_inv_def new_listener_def)
  with proxy_ops.run_inv [OF assms] show ?thesis by (simp add: listener_inv_def pc_ok_def)
qed

section \<open>Witnesses\<close>

text \<open>A channel that holds the bytes that can be read, and then what was written.\<close>

definition demo_sock :: "string list sock_io" where
  "demo_sock = \<lparr>so_io = steady_io,
     so_read_chars = (\<lambda>k c. case c of
        [] \<Rightarrow> (IO_EOF, [], c)
      | s # out \<Rightarrow> (if s = [] then (IO_AGAIN, [], c)
                   else if int (length s) \<le> k then (IO_NORMAL, s, [] # out)
                   else (IO_NORMAL, take (nat k) s, drop (nat k) s # out)))\<rparr>"

lemma demo_sock_bounded: "bounded_reads demo_sock"
  by (auto simp: bounded_reads_def demo_sock_def split: list.split)

definition demo_pending :: "string \<Rightarrow> socks_state \<Rightarrow> string list pending_client" where
  "demo_pending s st = \<lparr>pc_connection = [s], pc_type = CLIENT_TYPE_SOCKS, pc_method = Some Method_username_password,
     pc_state = st\<rparr>"

definition demo_doors :: "listener_config option \<Rightarrow> string option \<Rightarrow> (string list, nat) login_env" where
  "demo_doors cfg password = \<lparr>le_proxy = (demo_sys, demo_os [], 0), le_io = demo_sock, le_iconv = None, le_config = cfg,
     le_password = password, le_create_implicit = False, le_network = None, le_unix = False, le_getservbyname = (\<lambda>_. None),
     le_server_addr = 0, le_description = (\<lambda>_. None), le_peer = (\<lambda>_. None), le_iconv_open = (\<lambda>_ _. None),
     le_local_name = (\<lambda>_. None)\<rparr>"

definition no_clients :: "'c login" where
  "no_clients = \<lparr>lg_networks = [], lg_clients = []\<rparr>"

definition zeros :: "nat \<Rightarrow> char" where
  "zeros _ = CHR 0x00"

theorem socks_user_name_overflows_witness:
  "handle_client_socks_data demo_sock zeros (default_listener_ops (demo_doors None (Some ''secret'')))
     (demo_pending (CHR 0x01 # CHR 0xFF # replicate 300 (CHR ''x'')) SOCKS_STATE_AUTH) no_clients = Inl OutOfBounds"
proof -
  let ?pc = "demo_pending (CHR 0x01 # CHR 0xFF # replicate 300 (CHR ''x'')) SOCKS_STATE_AUTH"
  have "so_read_chars demo_sock 2 (pc_connection ?pc) = (IO_NORMAL, [CHR 0x01, CHR 0xFF], [replicate 300 (CHR ''x'')])"
    by (simp add: demo_sock_def demo_pending_def numeral_2_eq_2)
  moreover have "256 < length (fst (snd (so_read_chars demo_sock (0x10000000000000000 - 256 + int (of_char (CHR 0xFF)))
      [replicate 300 (CHR ''x'')])))"
    by (simp add: demo_sock_def)
  ultimately show ?thesis
    using socks_user_name_overflows [OF demo_sock_bounded, of ?pc "CHR 0xFF" "[replicate 300 (CHR ''x'')]" zeros
        "default_listener_ops (demo_doors None (Some ''secret''))" no_clients]
    by (simp add: demo_pending_def)
qed

theorem socks_greeting_chooses_password_witness:
  "handle_client_socks_data demo_sock zeros (default_listener_ops (demo_doors None None))
     (demo_pending [CHR 0x02, CHR 0x00, CHR 0x02] SOCKS_STATE_NEW) no_clients =
   Inr (True, (demo_pending [] SOCKS_STATE_AUTH)\<lparr>pc_connection := [[], [CHR 0x05, CHR 0x02]]\<rparr>, no_clients)"
  using socks_greeting_chooses_password [of "demo_pending [CHR 0x02, CHR 0x00, CHR 0x02] SOCKS_STATE_NEW" demo_sock
      "CHR 0x02" "[[CHR 0x00, CHR 0x02]]" "[CHR 0x00, CHR 0x02]" "[[]]" "\<lambda>s. [[], s]" zeros
      "default_listener_ops (demo_doors None None)" no_clients]
  by (simp add: demo_pending_def demo_sock_def steady_io_def)

theorem pending_clients_consistent_witness:
  "\<exists>l. (listener_step demo_sock zeros (default_listener_ops (demo_doors None None)))\<^sup>*\<^sup>* (new_listener no_clients) l \<and>
     length (li_pending l) = 1 \<and> map fst (li_pending l) = li_watches l"
proof -
  let ?l = "snd (handle_new_client (Some [[CHR 0x05]]) (new_listener no_clients)) :: (string list, string list login) irc_listener"
  have r: "(listener_step demo_sock zeros (default_listener_ops (demo_doors None None)))\<^sup>*\<^sup>* (new_listener no_clients) ?l"
    by (rule r_into_rtranclp) (rule listener_step.accept)
  then have "map fst (li_pending ?l) = li_watches ?l" using pending_clients_consistent by blast
  then show ?thesis using r by (intro exI [of _ ?l]) (simp add: handle_new_client_def listener_new_pending_client_def new_listener_def)
qed

section \<open>Letting clients in\<close>

lemma client_init_adds: "client_init_iochannel le n c desc w = Inr (ok, w') \<Longrightarrow> \<exists>cl. lg_clients w' = lg_clients w @ [cl]"
  by (auto simp: client_init_iochannel_def client_init_def Let_def split: if_split_asm prod.split_asm option.split_asm)

lemma login_network_keeps: "login_network le nn w = Inr (r, w') \<Longrightarrow> lg_clients w' = lg_clients w"
  by (auto simp: login_network_def find_network_of_def ensure_connected_def Let_def case_prod_unfold
      split: option.split_asm if_split_asm)

lemma let_in_clients:
  assumes "let_in le nn pc w = Inr (ret, pc', w')"
  shows "lg_clients w' = lg_clients w \<or> (\<exists>cl. lg_clients w' = lg_clients w @ [cl])"
proof -
  obtain n w1 where n: "login_network le nn w = Inr (n, w1)" using assms by (auto simp: let_in_def)
  show ?thesis
    using assms n login_network_keeps [OF n]
    by (cases n) (auto simp: let_in_def Let_def dest!: client_init_adds)
qed

text \<open>
  C13. Nobody gets in by a line without the password: a line of a pending client makes a new client
  only when it is a PASS whose argument, up to a colon, is accepted for a client that gives no
  user name; and it makes at most one.
\<close>

theorem client_needs_password:
  assumes "handle_client_line le lo pc w = Inr (ret, pc', w')" "lg_clients w' \<noteq> lg_clients w"
  shows "\<exists>l a0 a1. lo = Some l \<and> args l = a0 # a1 # drop 2 (args l) \<and> base_eq a0 ''PASS'' \<and>
    listener_check_username_password (le_config le) (le_password le) None (takeWhile (\<lambda>c. c \<noteq> CHR '':'') a1) = Inr True \<and>
    (\<exists>cl. lg_clients w' = lg_clients w @ [cl])"
proof -
  obtain l a0 as where l: "lo = Some l" "args l = a0 # as"
    using assms by (auto simp: handle_client_line_def split: option.split_asm list.split_asm)
  have pass: "base_eq a0 ''PASS''"
    using assms l by (auto simp: handle_client_line_def split: if_split_asm)
  obtain a1 ok where a1: "sarg l 1 = Inr a1"
    and ok: "listener_check_username_password (le_config le) (le_password le) None (takeWhile (\<lambda>c. c \<noteq> CHR '':'') a1) = Inr ok"
    using assms l pass by (auto simp: handle_client_line_def Let_def)
  have in': "let_in le (if has_chr a1 (CHR '':'') then Some (tl (dropWhile (\<lambda>c. c \<noteq> CHR '':'') a1)) else None) pc w
      = Inr (ret, pc', w')" and ok: "ok"
    using assms l pass a1 ok by (auto simp: handle_client_line_def Let_def case_prod_unfold split: if_split_asm)
  have "\<exists>cl. lg_clients w' = lg_clients w @ [cl]"
    using let_in_clients [OF in'] assms(2) by blast
  moreover have "as = a1 # drop 2 (args l)"
    using a1 l by (cases as) (auto simp: sarg_def arg_def split: if_split_asm)
  ultimately show ?thesis using l pass ok
      \<open>listener_check_username_password _ _ None _ = Inr ok\<close> by auto
qed

text \<open>
  Two kinds of PASS crash the proxy before anybody has logged in: one without an argument, and
  any PASS on a listener with a rule that names a user and a password, because the rule is
  compared with a user name that is not there.
\<close>

theorem pass_line_crashes:
  assumes "args l = a0 # as" "base_eq a0 ''PASS''"
    and "as = [] \<or> (\<exists>cfg. le_config le = Some cfg \<and>
      list_ex (\<lambda>r. ar_username r \<noteq> None \<and> ar_password r \<noteq> None) (lc_allow_rules cfg))"
  shows "handle_client_line le (Some l) pc w = Inl NullDeref"
proof (cases as)
  case Nil
  then show ?thesis using assms(1,2) by (simp add: handle_client_line_def sarg_def arg_def)
next
  case (Cons a1 as')
  have rules: "list_ex (\<lambda>r. ar_username r \<noteq> None \<and> ar_password r \<noteq> None) rs \<Longrightarrow> allowed_by None p rs = Inl NullDeref" for p rs
    by (induction rs) (auto split: option.split)
  obtain cfg where "le_config le = Some cfg" "list_ex (\<lambda>r. ar_username r \<noteq> None \<and> ar_password r \<noteq> None) (lc_allow_rules cfg)"
    using assms(3) Cons by auto
  then show ?thesis
    using assms(1,2) Cons rules
    by (simp add: handle_client_line_def sarg_def arg_def Let_def listener_check_username_password_def)
qed

text \<open>
  The first byte of a client is read before its first line. When the rest of the line is not
  there yet, the byte is forgotten: the client stays pending, and the line that is handed on later
  lacks it. A PASS that arrives in two pieces is answered like any other command.
\<close>

theorem first_byte_lost:
  assumes "so_read_chars (le_io le) 1 (pc_connection pc) = (IO_NORMAL, [b], c1)" "b \<noteq> CHR 0x05"
    and "read_line (so_io (le_io le)) c1 = (IO_AGAIN, r, c2)"
    and "read_line (so_io (le_io le)) c3 = (IO_NORMAL, raw, c4)" "irc_parse_line raw = Some l"
    and "args l = a0 # as" "\<not> base_eq a0 ''PASS''"
  shows "\<exists>pc1. handle_client_detect (le_io le) None junk (default_listener_ops le) pc w = Inr (True, pc1, w) \<and>
      pc_type pc1 = CLIENT_TYPE_REGULAR \<and>
      pending_lines (Suc k) (le_io le) None (default_listener_ops le) (pc1\<lparr>pc_connection := c3\<rparr>) w =
        bind_res (tell_pending le (pass_error le ERR_NOTREGISTERED ''You are not registered. Did you specify a password?'')
                    (pc1\<lparr>pc_connection := c4\<rparr>)) (\<lambda>(_, pc2).
        pending_lines k (le_io le) None (default_listener_ops le) pc2 w)"
proof -
  let ?pc1 = "pc\<lparr>pc_connection := c2, pc_type := CLIENT_TYPE_REGULAR\<rparr>"
  have b: "gchar b \<noteq> 5"
  proof
    assume "gchar b = 5"
    then have "of_char b = (5 :: nat) \<or> of_char b = (261 :: nat)" by (auto simp: gchar_def Let_def split: if_split_asm)
    then have "char_of (of_char b :: nat) = (char_of (5 :: nat) :: char)" using of_char_less_256 [of b] by fastforce
    then show False using assms(2) by simp
  qed
  have "read_buf (le_io le) (stack_array junk 2) 1 (pc_connection pc) = Inr (IO_NORMAL, [b, junk 1], c1)"
    using read_buf_Inr [of "le_io le" 1 "pc_connection pc" _ _ _ "stack_array junk 2"] assms(1)
    by (simp add: stack_array_def upt_rec)
  then have "handle_client_detect (le_io le) None junk (default_listener_ops le) pc w = Inr (True, ?pc1, w)"
    using b assms(3) by (simp add: handle_client_detect_def SOCKS_VERSION_def)
  then show ?thesis
    using assms(4-7)
    by (intro exI [of _ ?pc1]) (simp add: irc_recv_line_def default_listener_ops_def handle_client_line_def
        bind_res_assoc case_prod_unfold)
qed

definition demo_pass :: irc_line where
  "demo_pass = \<lparr>origin = None, args = [''PASS'', ''secret''], endcolon = COLON_UNKNOWN\<rparr>"

theorem client_needs_password_witness:
  "\<exists>ret pc w. handle_client_line (demo_doors None (Some ''secret'')) (Some demo_pass) (demo_pending [] SOCKS_UNKNOWN) no_clients
     = Inr (ret, pc, w) \<and> length (lg_clients w) = 1"
proof -
  have "case handle_client_line (demo_doors None (Some ''secret'')) (Some demo_pass) (demo_pending [] SOCKS_UNKNOWN) no_clients of
      Inl _ \<Rightarrow> False | Inr (_, _, w) \<Rightarrow> lg_clients w \<noteq> []"
    by code_simp
  then obtain ret pc w where r: "handle_client_line (demo_doors None (Some ''secret'')) (Some demo_pass)
      (demo_pending [] SOCKS_UNKNOWN) no_clients = Inr (ret, pc, w)" "lg_clients w \<noteq> []"
    by (auto split: sum.splits)
  then show ?thesis
    using client_needs_password [OF r(1)] by (auto simp: no_clients_def)
qed

theorem pass_line_crashes_witness:
  "handle_client_line (demo_doors None None) (Some (demo_pass\<lparr>args := [''PASS'']\<rparr>)) (demo_pending [] SOCKS_UNKNOWN) no_clients
     = Inl NullDeref \<and>
   handle_client_line (demo_doors (Some \<lparr>lc_network = None, lc_password = None, lc_address = None, lc_port = None,
       lc_allow_rules = [\<lparr>ar_username = Some ''me'', ar_password = Some ''secret''\<rparr>]\<rparr>) None) (Some demo_pass)
     (demo_pending [] SOCKS_UNKNOWN) no_clients = Inl NullDeref"
proof -
  have pass: "base_eq ''PASS'' ''PASS''" by code_simp
  show ?thesis
    by (intro conjI pass_line_crashes [OF _ pass]) (auto simp: demo_pass_def demo_doors_def)
qed

text \<open>A channel that also gives whole lines.\<close>

definition demo_line_sock :: "string list sock_io" where
  "demo_line_sock = demo_sock\<lparr>so_io := steady_io\<lparr>read_line := (\<lambda>c. case c of
     [] \<Rightarrow> (IO_EOF, [], c)
   | s # out \<Rightarrow> (if CHR 0x0A \<in> set s then (IO_NORMAL, s, [] # out) else (IO_AGAIN, [], c)))\<rparr>\<rparr>"

theorem first_byte_lost_witness:
  "\<exists>pc1. handle_client_detect demo_line_sock None zeros (default_listener_ops ((demo_doors None None)\<lparr>le_io := demo_line_sock\<rparr>))
       ((demo_pending ''P'' SOCKS_UNKNOWN)\<lparr>pc_type := CLIENT_TYPE_UNKNOWN\<rparr>) no_clients = Inr (True, pc1, no_clients) \<and>
     pc_type pc1 = CLIENT_TYPE_REGULAR"
proof -
  let ?le = "(demo_doors None None)\<lparr>le_io := demo_line_sock\<rparr>"
  let ?pc = "(demo_pending ''P'' SOCKS_UNKNOWN)\<lparr>pc_type := CLIENT_TYPE_UNKNOWN\<rparr>"
  let ?raw = "''ASS secret'' @ [CHR 0x0D, CHR 0x0A]"
  have l: "irc_parse_line ?raw = Some \<lparr>origin = None, args = [''ASS'', ''secret''], endcolon = WITHOUT_COLON\<rparr>"
    "\<not> base_eq ''ASS'' ''PASS''"
    by code_simp+
  show ?thesis
    using first_byte_lost [of ?le ?pc "CHR ''P''" "[[]]" "[]" "[[]]" "[?raw]" ?raw "[[]]" _ "''ASS''" "[''secret'']" zeros no_clients 0, OF _ _ _ _ l(1)] l(2)
    by (auto simp: demo_line_sock_def demo_sock_def demo_doors_def demo_pending_def)
qed

section \<open>SOCKS and the password\<close>

lemma method_for_not_none: "method_for m \<noteq> Some Method_none"
  by (simp add: method_for_eq)

lemma offered_not_none:
  assumes "offered_method methods n = Inr m"
  shows "m \<noteq> Some Method_none"
proof -
  have "fold_res (\<lambda>i acc. bind_res (get_byte methods i) (\<lambda>b.
      Inr (case method_for b of None \<Rightarrow> acc | Some sm \<Rightarrow> Some sm))) is a = Inr m \<Longrightarrow> a \<noteq> Some Method_none \<Longrightarrow> m \<noteq> Some Method_none"
    for "is" a
  proof (induction "is" arbitrary: a)
    case (Cons i xs)
    then show ?case using method_for_not_none by (fastforce split: option.splits)
  qed simp
  then show ?thesis using assms by (simp add: offered_method_def)
qed

definition authorised :: "('c, 'f) login_env \<Rightarrow> 'c login \<Rightarrow> bool \<times> 'c pending_client \<times> 'c login \<Rightarrow> bool" where
  "authorised le w r \<longleftrightarrow> snd (snd r) = w \<and>
     (pc_state (fst (snd r)) = SOCKS_STATE_NORMAL \<longrightarrow>
      (\<exists>u p. listener_check_username_password (le_config le) (le_password le) (Some u) p = Inr True))"

lemma greeting_authorised:
  assumes "pc_state pc = SOCKS_STATE_NEW"
  shows "safe {} (authorised le w) (socks_greeting io junk pc w)"
  unfolding socks_greeting_def Let_def case_prod_unfold
  using assms
  by (auto intro!: bind_any simp: authorised_def put_bytes_out_keeps offered_not_none
      split: option.split socks_method.split dest: offered_not_none)

lemma auth_simple_authorised:
  assumes "pc_state pc \<noteq> SOCKS_STATE_NORMAL"
  shows "safe {} (authorised le w) (default_socks_auth_simple le u p (on_socks_pass_accepted io) pc w)"
  unfolding default_socks_auth_simple_def Let_def case_prod_unfold
  using assms
  by (auto intro!: bind_any simp: authorised_def on_socks_pass_accepted_def put_bytes_out_keeps Let_def case_prod_unfold) blast

lemma pass_authorised:
  assumes "pc_state pc \<noteq> SOCKS_STATE_NORMAL"
  shows "safe {} (authorised le w) (pass_handle_data io junk (default_listener_ops le) pc w)"
proof -
  have auth: "authorised le w (b, q, w')"
    if "default_socks_auth_simple le u p (on_socks_pass_accepted io) (pc\<lparr>pc_connection := c\<rparr>) w = Inr (b', q, w')"
    for u p c b b' q w'
    using auth_simple_authorised [of "pc\<lparr>pc_connection := c\<rparr>" le w u p io] assms that by (simp add: authorised_def)
  have error: "authorised le w (b, snd (listener_socks_error io err (pc\<lparr>pc_connection := c\<rparr>)), w)" for b err c
    using assms by (simp add: authorised_def listener_socks_error_def listener_socks_reply_def put_bytes_out_keeps
        case_prod_unfold Let_def)
  have out: "authorised le w (b, pc\<lparr>pc_connection := c\<rparr>, w)" for b c using assms by (simp add: authorised_def)
  show ?thesis
    unfolding pass_handle_data_def Let_def case_prod_unfold
    by (auto intro!: bind_any out error simp: default_listener_ops_def) (erule auth)+
qed



text \<open>
  C0. The port that a SOCKS client is told is wrong: the port of the socket's address is in network
  order already and is converted once more, so its two bytes arrive in the wrong order.
\<close>

definition sin_port :: "nat \<Rightarrow> nat" where
  "sin_port q = q div 256 + 256 * (q mod 256)"

theorem socks_port_swapped:
  assumes "nc_type (n_config n) = NETWORK_TCP" "le_local_name le n = Some (Sockaddr_in d (sin_port q))" "length d = 4" "q < 65536"
  shows "\<exists>p. socks_answer le n = Some (ATYP_IPV4, d, p) \<and>
    snd (listener_socks_reply io REP_OK ATYP_IPV4 d p pc) =
      snd (put_bytes_out io ([CHR 0x05, CHR 0x00, CHR 0x00, CHR 0x01] @ d @ [char_of (q mod 256), char_of (q div 256)]) pc)"
proof -
  have "sin_port q div 256 mod 256 = q mod 256" "sin_port q mod 256 = q div 256"
    using assms(4) by (simp_all add: sin_port_def)
  moreover have "(char_of (1 :: nat) :: char) = CHR 0x01" "(char_of (0 :: nat) :: char) = CHR 0x00" by code_simp+
  ultimately show ?thesis
    using assms(1-3)
    by (simp add: socks_answer_def listener_socks_reply_def case_prod_unfold Let_def SOCKS_VERSION_def REP_OK_def ATYP_IPV4_def
        del: char_of_mod_256)
qed

theorem socks_port_swapped_witness:
  "\<exists>p. socks_answer ((demo_doors None None)\<lparr>le_local_name := (\<lambda>_. Some (Sockaddr_in ''abcd'' (sin_port 6667)))\<rparr>)
       (proxy_network_new demo_config) = Some (ATYP_IPV4, ''abcd'', p) \<and>
     snd (listener_socks_reply demo_sock REP_OK ATYP_IPV4 ''abcd'' p (demo_pending [] SOCKS_STATE_NORMAL)) =
       snd (put_bytes_out demo_sock ([CHR 0x05, CHR 0x00, CHR 0x00, CHR 0x01] @ ''abcd'' @ [char_of (6667 mod 256 :: nat), char_of (6667 div 256 :: nat)])
         (demo_pending [] SOCKS_STATE_NORMAL))"
proof -
  have "nc_type (n_config (proxy_network_new demo_config :: string list proxy_network)) = NETWORK_TCP" by code_simp
  then show ?thesis by (intro socks_port_swapped) simp_all
qed

end
