(* ===== verification/Gkeyfile.thy ===== *)
theory Gkeyfile
  imports Clib
begin

text \<open>
  The part of GLib's \<open>GKeyFile\<close> that \<open>src/settings.c\<close> uses, as GLib documents it: groups of keys with
  values that are texts, and the conversions of strings, lists of strings, numbers and truth values
  to and from these texts. How the groups are laid out in a file is GLib's matter: a file is the
  structure itself.
\<close>

section \<open>Groups and keys\<close>

type_synonym gkeyfile = "(string \<times> (string \<times> string) list) list"

fun set_assoc :: "'k \<Rightarrow> 'v \<Rightarrow> ('k \<times> 'v) list \<Rightarrow> ('k \<times> 'v) list" where
  "set_assoc k v [] = [(k, v)]"
| "set_assoc k v ((k', v') # kvs) = (if k' = k then (k, v) # kvs else (k', v') # set_assoc k v kvs)"

definition kf_group :: "gkeyfile \<Rightarrow> string \<Rightarrow> (string \<times> string) list" where
  "kf_group kf g = (case map_of kf g of None \<Rightarrow> [] | Some ks \<Rightarrow> ks)"

definition get_value :: "gkeyfile \<Rightarrow> string \<Rightarrow> string \<Rightarrow> string option" where
  "get_value kf g k = map_of (kf_group kf g) k"

definition has_key :: "gkeyfile \<Rightarrow> string \<Rightarrow> string \<Rightarrow> bool" where
  "has_key kf g k \<longleftrightarrow> get_value kf g k \<noteq> None"

definition has_group :: "gkeyfile \<Rightarrow> string \<Rightarrow> bool" where
  "has_group kf g \<longleftrightarrow> map_of kf g \<noteq> None"

text \<open>A name with a bracket or a control character is refused, with a message.\<close>

definition is_group_name :: "string \<Rightarrow> bool" where
  "is_group_name g \<longleftrightarrow> g \<noteq> [] \<and> list_all (\<lambda>c. c \<noteq> CHR ''['' \<and> c \<noteq> CHR '']'' \<and> uchar c \<ge> 32 \<and> uchar c \<noteq> 127) g"

definition set_value :: "gkeyfile \<Rightarrow> string \<Rightarrow> string \<Rightarrow> string \<Rightarrow> gkeyfile" where
  "set_value kf g k v = (if is_group_name g then set_assoc g (set_assoc k v (kf_group kf g)) kf else kf)"

definition remove_key :: "gkeyfile \<Rightarrow> string \<Rightarrow> string \<Rightarrow> gkeyfile" where
  "remove_key kf g k = map (\<lambda>(g', ks). (g', if g' = g then filter (\<lambda>(k', _). k' \<noteq> k) ks else ks)) kf"

definition remove_group :: "gkeyfile \<Rightarrow> string \<Rightarrow> gkeyfile" where
  "remove_group kf g = filter (\<lambda>(g', _). g' \<noteq> g) kf"

definition get_groups :: "gkeyfile \<Rightarrow> string list" where
  "get_groups kf = map fst kf"

section \<open>Values\<close>

text \<open>
  Blanks at the beginning, line ends and backslashes are escaped, in a list the semicolon that ends
  an element as well; \<open>lead\<close> says whether nothing but blanks came before.
\<close>

fun escape_value :: "bool \<Rightarrow> bool \<Rightarrow> string \<Rightarrow> string" where
  "escape_value sep lead [] = []"
| "escape_value sep lead (c # cs) =
     (if c = CHR '' '' then (if lead then [CHR 0x5C, CHR ''s''] else [c]) @ escape_value sep lead cs
      else if c = CHR 0x09 then (if lead then [CHR 0x5C, CHR ''t''] else [c]) @ escape_value sep lead cs
      else if c = CHR 0x0A then [CHR 0x5C, CHR ''n''] @ escape_value sep lead cs
      else if c = CHR 0x0D then [CHR 0x5C, CHR ''r''] @ escape_value sep lead cs
      else if c = CHR 0x5C then [CHR 0x5C, CHR 0x5C] @ escape_value sep False cs
      else if sep \<and> c = CHR '';'' then [CHR 0x5C, c] @ escape_value sep True cs
      else c # escape_value sep False cs)"

definition escaped_char :: "bool \<Rightarrow> char \<Rightarrow> char option" where
  "escaped_char sep c =
     (if c = CHR ''s'' then Some (CHR '' '') else if c = CHR ''t'' then Some (CHR 0x09)
      else if c = CHR ''n'' then Some (CHR 0x0A) else if c = CHR ''r'' then Some (CHR 0x0D)
      else if c = CHR 0x5C then Some c else if sep \<and> c = CHR '';'' then Some c else None)"

text \<open>Reading a string; an unknown escape is an error.\<close>

fun unescape_value :: "string \<Rightarrow> string option" where
  "unescape_value [] = Some []"
| "unescape_value [c] = (if c = CHR 0x5C then None else Some [c])"
| "unescape_value (c # e # cs) =
     (if c = CHR 0x5C then
        (case (escaped_char False e, unescape_value cs) of (Some x, Some r) \<Rightarrow> Some (x # r) | _ \<Rightarrow> None)
      else map_option ((#) c) (unescape_value (e # cs)))"

text \<open>Reading a list: \<open>piece\<close> is the element under way; at the end an empty one does not count.\<close>

fun unescape_list :: "string \<Rightarrow> string \<Rightarrow> string list option" where
  "unescape_list piece [] = Some (if piece = [] then [] else [piece])"
| "unescape_list piece [c] =
     (if c = CHR 0x5C then None
      else if c = CHR '';'' then Some [piece] else Some [piece @ [c]])"
| "unescape_list piece (c # e # cs) =
     (if c = CHR 0x5C then
        (case escaped_char True e of None \<Rightarrow> None | Some x \<Rightarrow> unescape_list (piece @ [x]) cs)
      else if c = CHR '';'' then map_option ((#) piece) (unescape_list [] (e # cs))
      else unescape_list (piece @ [c]) (e # cs))"

definition set_string :: "gkeyfile \<Rightarrow> string \<Rightarrow> string \<Rightarrow> string \<Rightarrow> gkeyfile" where
  "set_string kf g k s = set_value kf g k (escape_value False True s)"

definition get_string :: "gkeyfile \<Rightarrow> string \<Rightarrow> string \<Rightarrow> string option" where
  "get_string kf g k = Option.bind (get_value kf g k) unescape_value"

definition set_string_list :: "gkeyfile \<Rightarrow> string \<Rightarrow> string \<Rightarrow> string list \<Rightarrow> gkeyfile" where
  "set_string_list kf g k ss = set_value kf g k (concat (map (\<lambda>s. escape_value True True s @ '';'') ss))"

definition get_string_list :: "gkeyfile \<Rightarrow> string \<Rightarrow> string \<Rightarrow> string list option" where
  "get_string_list kf g k = Option.bind (get_value kf g k) (unescape_list [])"

definition set_integer :: "gkeyfile \<Rightarrow> string \<Rightarrow> string \<Rightarrow> int \<Rightarrow> gkeyfile" where
  "set_integer kf g k i = set_value kf g k (show_int i)"

text \<open>A value that is not a number of type \<open>int\<close> reads as zero.\<close>

definition get_integer :: "gkeyfile \<Rightarrow> string \<Rightarrow> string \<Rightarrow> int" where
  "get_integer kf g k =
     (case get_value kf g k of
        None \<Rightarrow> 0
      | Some v \<Rightarrow>
          (let (i, r) = strtol 10 v in
           if v = [] \<or> r = v \<or> (r \<noteq> [] \<and> \<not> is_space (first_char r)) \<or> i < - (2 ^ 31) \<or> i \<ge> 2 ^ 31 then 0 else i))"

definition set_boolean :: "gkeyfile \<Rightarrow> string \<Rightarrow> string \<Rightarrow> bool \<Rightarrow> gkeyfile" where
  "set_boolean kf g k b = set_value kf g k (if b then ''true'' else ''false'')"

definition get_boolean :: "gkeyfile \<Rightarrow> string \<Rightarrow> string \<Rightarrow> bool" where
  "get_boolean kf g k \<longleftrightarrow> get_value kf g k \<in> {Some ''true'', Some ''1''}"

section \<open>Laws\<close>

lemma map_of_set_assoc [simp]: "map_of (set_assoc k v kvs) = (map_of kvs)(k \<mapsto> v)"
  by (induction k v kvs rule: set_assoc.induct) auto

lemma kf_group_set: "is_group_name g \<Longrightarrow> kf_group (set_value kf g k v) g' = (if g' = g then set_assoc k v (kf_group kf g) else kf_group kf g')"
  by (simp add: set_value_def kf_group_def)

lemma get_set_value [simp]:
  "is_group_name g \<Longrightarrow> get_value (set_value kf g k v) g' k' = (if g' = g \<and> k' = k then Some v else get_value kf g' k')"
  by (simp add: get_value_def kf_group_set)

lemma map_of_filter_key: "map_of (filter (\<lambda>(k', _). k' \<noteq> k) kvs) = (map_of kvs)(k := None)"
  by (induction kvs) auto

lemma get_remove_key [simp]: "get_value (remove_key kf g k) g' k' = (if g' = g \<and> k' = k then None else get_value kf g' k')"
proof -
  have "map_of (remove_key kf g k) g' = map_option (\<lambda>ks. if g' = g then filter (\<lambda>(k', _). k' \<noteq> k) ks else ks) (map_of kf g')"
    unfolding remove_key_def by (induction kf) auto
  then show ?thesis
    by (cases "map_of kf g'") (auto simp: get_value_def kf_group_def map_of_filter_key)
qed

lemma get_remove_group [simp]: "get_value (remove_group kf g) g' k = (if g' = g then None else get_value kf g' k)"
  by (simp add: get_value_def kf_group_def remove_group_def map_of_filter_key)

text \<open>Strings.\<close>

lemma unescape_escaped:
  "escaped_char False e = Some x \<Longrightarrow> unescape_value (CHR 0x5C # e # cs) = map_option ((#) x) (unescape_value cs)"
  by (cases "unescape_value cs") simp_all

lemma unescape_plain: "c \<noteq> CHR 0x5C \<Longrightarrow> unescape_value (c # cs) = map_option ((#) c) (unescape_value cs)"
  by (cases cs) simp_all

lemma unescape_escape: "unescape_value (escape_value False lead s) = Some s"
  by (induction s arbitrary: lead) (simp_all add: unescape_escaped unescape_plain escaped_char_def)

text \<open>Lists.\<close>

lemma unescape_list_escaped:
  "escaped_char True e = Some x \<Longrightarrow> unescape_list p (CHR 0x5C # e # cs) = unescape_list (p @ [x]) cs"
  by simp

lemma unescape_list_plain:
  "c \<noteq> CHR 0x5C \<Longrightarrow> c \<noteq> CHR '';'' \<Longrightarrow> unescape_list p (c # cs) = unescape_list (p @ [c]) cs"
  by (cases cs) simp_all

lemma unescape_list_end: "unescape_list p (CHR '';'' # cs) = map_option ((#) p) (unescape_list [] cs)"
  by (cases cs) simp_all

lemma unescape_list_piece: "unescape_list p (escape_value True lead s @ r) = unescape_list (p @ s) r"
  by (induction s arbitrary: p lead) (simp_all add: unescape_list_escaped unescape_list_plain escaped_char_def)

lemma unescape_list_escape: "unescape_list [] (concat (map (\<lambda>s. escape_value True True s @ '';'') ss)) = Some ss"
  by (induction ss) (simp_all add: unescape_list_piece unescape_list_end)

lemma get_integer_show:
  assumes "- (2 ^ 31) \<le> i" "i < 2 ^ 31" "get_value kf g k = Some (show_int i)"
  shows "get_integer kf g k = i"
proof -
  have "strtol 10 (show_int i) = (i, [])"
    using strtol_show_int [of i "[]"] assms by (simp add: LONG_MIN_def LONG_MAX_def)
  moreover have "show_int i \<noteq> []" by (simp add: show_int_def)
  ultimately show ?thesis using assms by (simp add: get_integer_def)
qed

text \<open>
  What every type of value promises: a value that was set is read again, also after other keys were
  set or removed, and setting it leaves the other keys as they are.
\<close>

locale keyfile_type =
  fixes setter :: "gkeyfile \<Rightarrow> string \<Rightarrow> string \<Rightarrow> 'v \<Rightarrow> gkeyfile"
    and getter :: "gkeyfile \<Rightarrow> string \<Rightarrow> string \<Rightarrow> 'v"
    and encode :: "'v \<Rightarrow> string"
    and storable :: "'v \<Rightarrow> bool"
  assumes setter: "setter kf g k v = set_value kf g k (encode v)"
    and getter: "storable v \<Longrightarrow> get_value kf g k = Some (encode v) \<Longrightarrow> getter kf g k = v"
begin

lemma get_set: "is_group_name g \<Longrightarrow> storable v \<Longrightarrow> getter (setter kf g k v) g k = v"
  by (simp add: setter getter)

lemma set_frame: "is_group_name g \<Longrightarrow> (g', k') \<noteq> (g, k) \<Longrightarrow> get_value (setter kf g k v) g' k' = get_value kf g' k'"
  by (auto simp: setter)

lemma set_present: "is_group_name g \<Longrightarrow> has_key (setter kf g k v) g k"
  by (simp add: setter has_key_def)

end

interpretation kf_string: keyfile_type "\<lambda>kf g k v. set_string kf g k v" "\<lambda>kf g k. the (get_string kf g k)"
    "escape_value False True" "\<lambda>_. True"
  by unfold_locales (simp_all add: set_string_def get_string_def unescape_escape)

interpretation kf_list: keyfile_type set_string_list "\<lambda>kf g k. the (get_string_list kf g k)"
    "\<lambda>ss. concat (map (\<lambda>s. escape_value True True s @ '';'') ss)" "\<lambda>_. True"
  by unfold_locales (simp_all add: set_string_list_def get_string_list_def unescape_list_escape)

interpretation kf_integer: keyfile_type set_integer get_integer show_int "\<lambda>i. - (2 ^ 31) \<le> i \<and> i < 2 ^ 31"
  by unfold_locales (simp_all add: set_integer_def get_integer_show)

interpretation kf_boolean: keyfile_type set_boolean get_boolean "\<lambda>b. if b then ''true'' else ''false''" "\<lambda>_. True"
  by unfold_locales (simp_all add: set_boolean_def get_boolean_def split: if_split_asm)

lemmas kf_setters = set_string_def set_string_list_def set_integer_def set_boolean_def

end
