(* ===== verification/Keyfile.thy ===== *)
theory Keyfile
  imports Marshal Network
begin

text \<open>
  \<open>src/keyfile.c\<close> and the file of passwords of \<open>src/nickserv.c\<close>: one entry per line, nick name,
  password and network, separated by tabs. What was saved is loaded again, as long as the file
  did not hold more before.
\<close>

section \<open>Reading\<close>

lemma after_line_shorter: "t \<noteq> [] \<Longrightarrow> length (after_line t) < length t"
proof -
  have "length (dropWhile (\<lambda>c. \<not> line_end c) t) \<le> length t" by (rule length_dropWhile_le)
  then show "t \<noteq> [] \<Longrightarrow> length (after_line t) < length t"
    by (auto simp: after_line_def split: list.split)
qed

text \<open>One line: nothing when it has no second field; \<open>*\<close> stands for every network.\<close>

definition parse_entry :: "string \<Rightarrow> keyfile_entry option" where
  "parse_entry line =
     (case g_strsplit line (CHR 0x09) 3 of
        nick # pass # rest \<Rightarrow>
          Some \<lparr>kf_nick = nick, kf_pass = Some pass,
            kf_network = (case rest of [] \<Rightarrow> None | n # _ \<Rightarrow> if strcmp n ''*'' = 0 then None else Some n)\<rparr>
      | _ \<Rightarrow> None)"

text \<open>The file's text is valid in its encoding, so that every line can be read.\<close>

function read_entries :: "char \<Rightarrow> string \<Rightarrow> keyfile_entry list" where
  "read_entries commentchar t =
     (if t = [] then []
      else
        let line = fst (split_line t); rest = snd (split_line t) in
        if first_char t = commentchar then read_entries commentchar rest
        else case parse_entry line of
          None \<Rightarrow> read_entries commentchar rest
        | Some e \<Rightarrow> e # read_entries commentchar rest)"
  by pat_completeness auto
termination
  by (relation "measure (length \<circ> snd)") (auto simp: split_line_def after_line_shorter)

declare read_entries.simps [simp del]

text \<open>A file that cannot be opened is \<open>None\<close>; the entries are appended to the list.\<close>

definition keyfile_read_file ::
    "string option \<Rightarrow> char \<Rightarrow> keyfile_entry list \<Rightarrow> bool \<times> keyfile_entry list" where
  "keyfile_read_file file commentchar nicks =
     (case file of None \<Rightarrow> (False, nicks) | Some t \<Rightarrow> (True, nicks @ read_entries commentchar t))"

section \<open>Writing\<close>

definition keyfile_line :: "keyfile_entry \<Rightarrow> string" where
  "keyfile_line n =
     kf_nick n @ [CHR 0x09] @ printf_s (kf_pass n) @ [CHR 0x09] @
     (case kf_network n of None \<Rightarrow> ''*'' | Some t \<Rightarrow> t) @ [CHR 0x0A]"

text \<open>
  The file is opened without truncating it, so writing replaces its front. \<open>budget\<close> is the number
  of calls of \<open>write\<close> that succeed; the file keeps what was written before one fails.
\<close>

definition overwrite :: "string \<Rightarrow> string \<Rightarrow> string" where
  "overwrite new old = new @ drop (length new) old"

fun write_parts :: "nat \<Rightarrow> string list \<Rightarrow> string \<Rightarrow> bool \<times> string" where
  "write_parts budget [] done_text = (True, done_text)"
| "write_parts 0 (p # ps) done_text = (False, done_text)"
| "write_parts (Suc k) (p # ps) done_text = write_parts k ps (done_text @ p)"

definition keyfile_write_file ::
    "nat \<Rightarrow> keyfile_entry list \<Rightarrow> string \<Rightarrow> string option \<Rightarrow> bool \<times> string option" where
  "keyfile_write_file budget nicks header file =
     (case file of
        None \<Rightarrow> (False, None)
      | Some old \<Rightarrow>
          let (ok, new) = write_parts budget (header # map keyfile_line nicks) [] in
          (ok, Some (overwrite new old)))"

definition NICKSERV_FILE_HEADER :: string where
  "NICKSERV_FILE_HEADER =
     ''# This file contains passwords for NickServ'' @ [CHR 0x0A] @
     ''# It should contain one entry per line, each entry consisting of: '' @ [CHR 0x0A] @
     ''# a nick name, password and network name, separated by tabs.'' @ [CHR 0x0A] @
     ''#'' @ [CHR 0x0A]"

text \<open>
  The file in the directory: \<open>None\<close> when there is none. Without entries it is removed, which may
  fail; \<open>can_open\<close> says whether it can be opened for writing, which creates it.
\<close>

definition nickserv_save ::
    "nat \<Rightarrow> bool \<Rightarrow> bool \<Rightarrow> keyfile_entry list \<Rightarrow> string option \<Rightarrow> bool \<times> string option" where
  "nickserv_save budget can_unlink can_open nicks file =
     (if nicks = [] then
        (case file of None \<Rightarrow> (True, None) | Some t \<Rightarrow> if can_unlink then (True, None) else (False, Some t))
      else if can_open then
        keyfile_write_file budget nicks NICKSERV_FILE_HEADER (Some (case file of None \<Rightarrow> [] | Some t \<Rightarrow> t))
      else (False, file))"

definition nickserv_load :: "string option \<Rightarrow> keyfile_entry list \<Rightarrow> bool \<times> keyfile_entry list" where
  "nickserv_load file nicks = keyfile_read_file file (CHR ''#'') nicks"

section \<open>Saving and loading\<close>

text \<open>Entries that one line can hold.\<close>

definition field_ok :: "string \<Rightarrow> bool" where
  "field_ok s \<longleftrightarrow> text_ok s \<and> CHR 0x09 \<notin> set s"

definition storable_key :: "keyfile_entry \<Rightarrow> bool" where
  "storable_key e \<longleftrightarrow> field_ok (kf_nick e) \<and> first_char (kf_nick e) \<noteq> CHR ''#'' \<and>
     (case kf_pass e of None \<Rightarrow> False | Some p \<Rightarrow> field_ok p) \<and>
     (case kf_network e of None \<Rightarrow> True | Some n \<Rightarrow> text_ok n \<and> n \<noteq> ''*'')"

definition saved_text :: "keyfile_entry list \<Rightarrow> string" where
  "saved_text es = NICKSERV_FILE_HEADER @ concat (map keyfile_line es)"

lemma text_ok_Cons: "text_ok (c # s) \<longleftrightarrow> \<not> line_end c \<and> text_ok s"
  by (simp add: text_ok_def)

lemma read_comment:
  assumes "text_ok l"
  shows "read_entries (CHR ''#'') (CHR ''#'' # l @ CHR 0x0A # r) = read_entries (CHR ''#'') r"
proof -
  have "text_ok (CHR ''#'' # l)" using assms by (simp add: text_ok_def line_end_def)
  then have "split_line ((CHR ''#'' # l) @ CHR 0x0A # r) = (CHR ''#'' # l, r)" by (rule split_line_line)
  then show ?thesis by (simp add: read_entries.simps [of _ "CHR ''#'' # l @ CHR 0x0A # r"] first_char_def)
qed

lemma read_header: "read_entries (CHR ''#'') (NICKSERV_FILE_HEADER @ r) = read_entries (CHR ''#'') r"
proof -
  let ?l1 = "'' This file contains passwords for NickServ''"
  let ?l2 = "'' It should contain one entry per line, each entry consisting of: ''"
  let ?l3 = "'' a nick name, password and network name, separated by tabs.''"
  have ok: "text_ok ?l1" "text_ok ?l2" "text_ok ?l3" "text_ok []" by (simp_all add: text_ok_def line_end_def)
  have "NICKSERV_FILE_HEADER @ r = CHR ''#'' # ?l1 @ CHR 0x0A # CHR ''#'' # ?l2 @ CHR 0x0A # CHR ''#'' # ?l3 @ CHR 0x0A #
      CHR ''#'' # [] @ CHR 0x0A # r"
    by (simp add: NICKSERV_FILE_HEADER_def)
  then show ?thesis
    by (simp only: read_comment [OF ok(1)] read_comment [OF ok(2)] read_comment [OF ok(3)] read_comment [OF ok(4)])
qed

lemma split_n_field:
  assumes "d \<notin> set a"
  shows "split_n d (Suc (Suc k)) (a @ d # s) = a # split_n d (Suc k) s"
proof -
  have "dropWhile (\<lambda>x. x \<noteq> d) (a @ d # s) = d # s" "takeWhile (\<lambda>x. x \<noteq> d) (a @ d # s) = a"
    using assms by (induction a) auto
  then show ?thesis by (simp del: split_n.simps add: split_n.simps(2) [of _ "Suc k"])
qed

lemma parse_entry_fields:
  assumes "CHR 0x09 \<notin> set a" "CHR 0x09 \<notin> set b"
  shows "parse_entry (a @ CHR 0x09 # b @ CHR 0x09 # n) =
    Some \<lparr>kf_nick = a, kf_pass = Some b, kf_network = (if strcmp n ''*'' = 0 then None else Some n)\<rparr>"
  using split_n_field [OF assms(1), of 1] split_n_field [OF assms(2), of 0]
  by (simp add: parse_entry_def g_strsplit_def numeral_3_eq_3 del: split_n.simps) simp

lemma read_entry_line:
  assumes "storable_key e"
  shows "read_entries (CHR ''#'') (keyfile_line e @ r) = e # read_entries (CHR ''#'') r"
proof -
  obtain p where p: "kf_pass e = Some p" "field_ok p" using assms by (auto simp: storable_key_def split: option.split_asm)
  define n where "n = (case kf_network e of None \<Rightarrow> ''*'' | Some t \<Rightarrow> t)"
  define line where "line = kf_nick e @ CHR 0x09 # p @ CHR 0x09 # n"
  have n: "text_ok n" "(if strcmp n ''*'' = 0 then None else Some n) = kf_network e"
  proof -
    have star: "text_ok ''*''" by (simp add: text_ok_def line_end_def)
    have "NUL \<notin> set t" if "text_ok t" for t using that by (auto simp: text_ok_def line_end_def)
    then have eq: "strcmp t ''*'' = 0 \<longleftrightarrow> t = ''*''" if "text_ok t" for t using that star by (simp add: strcmp_eq_0)
    show "text_ok n" "(if strcmp n ''*'' = 0 then None else Some n) = kf_network e"
      using assms star eq by (cases "kf_network e"; simp add: n_def storable_key_def)+
  qed
  have nick: "field_ok (kf_nick e)" "first_char (kf_nick e) \<noteq> CHR ''#''" using assms by (simp_all add: storable_key_def)
  have "parse_entry line = Some e"
    using parse_entry_fields [of "kf_nick e" p n] nick p n by (cases e) (simp add: line_def field_ok_def)
  moreover have "text_ok line"
    using nick(1) p(2) n(1) by (simp add: line_def field_ok_def text_ok_Cons line_end_def)
  then have "split_line (line @ CHR 0x0A # r) = (line, r)" by (rule split_line_line)
  moreover have "keyfile_line e @ r = line @ CHR 0x0A # r"
    using p(1) by (simp add: keyfile_line_def line_def n_def printf_s_def)
  moreover have "first_char (line @ CHR 0x0A # r) \<noteq> CHR ''#''"
    using nick(2) by (cases "kf_nick e") (simp_all add: line_def first_char_def)
  moreover have "line @ CHR 0x0A # r \<noteq> []" by simp
  ultimately show ?thesis
    by (subst read_entries.simps) (simp only: if_False Let_def fst_conv snd_conv option.case)
qed

lemma read_saved: "list_all storable_key es \<Longrightarrow> read_entries (CHR ''#'') (saved_text es) = es"
proof -
  have "list_all storable_key es \<Longrightarrow> read_entries (CHR ''#'') (concat (map keyfile_line es)) = es"
    by (induction es) (simp_all add: read_entry_line, simp add: read_entries.simps)
  then show "list_all storable_key es \<Longrightarrow> read_entries (CHR ''#'') (saved_text es) = es"
    by (simp add: saved_text_def read_header)
qed

lemma write_parts_all: "length ps \<le> budget \<Longrightarrow> write_parts budget ps t = (True, t @ concat ps)"
  by (induction budget ps t rule: write_parts.induct) simp_all

lemma save_text:
  assumes "es \<noteq> []" "length es < budget"
  shows "nickserv_save budget u True es file = (True, Some (overwrite (saved_text es) (case file of None \<Rightarrow> [] | Some t \<Rightarrow> t)))"
  using assms by (simp add: nickserv_save_def keyfile_write_file_def write_parts_all saved_text_def)


text \<open>
  The file is not truncated: when entries at the end of the list are gone, saving writes a
  shorter text over the longer one, and the entries come back at the next start.
\<close>

theorem deleted_passwords_return:
  assumes "list_all storable_key (es @ ds)" "es \<noteq> []" "length es < budget"
  shows "\<exists>t. nickserv_save budget u True es (Some (saved_text (es @ ds))) = (True, Some t) \<and>
    nickserv_load (Some t) [] = (True, es @ ds)"
proof -
  have "saved_text (es @ ds) = saved_text es @ concat (map keyfile_line ds)" by (simp add: saved_text_def)
  then have "overwrite (saved_text es) (saved_text (es @ ds)) = saved_text (es @ ds)" by (simp add: overwrite_def)
  then show ?thesis
    using save_text [OF assms(2,3)] read_saved [OF assms(1)] by (simp add: nickserv_load_def keyfile_read_file_def)
qed

definition demo_key :: "string \<Rightarrow> keyfile_entry" where
  "demo_key n = \<lparr>kf_nick = n, kf_pass = Some ''secret'', kf_network = Some ''oftc''\<rparr>"

lemma demo_key_ok: "storable_key (demo_key ''me'')" "storable_key (demo_key ''you'')"
  by (simp_all add: storable_key_def demo_key_def field_ok_def text_ok_def line_end_def first_char_def)


theorem deleted_passwords_return_witness:
  "\<exists>t. nickserv_save 9 True True [demo_key ''me''] (Some (saved_text [demo_key ''me'', demo_key ''you''])) = (True, Some t) \<and>
     nickserv_load (Some t) [] = (True, [demo_key ''me'', demo_key ''you''])"
  using deleted_passwords_return [of "[demo_key ''me'']" "[demo_key ''you'']" 9 True] demo_key_ok by simp

end
