(* ===== verification/Auto_Away.thy ===== *)
theory Auto_Away
  imports Network Connection_Spec State_Spec
begin

text \<open>
  \<open>src/auto_away.c\<close>: marking the user away when nothing was said for a while or no client is
  attached. The operations give the calls of \<open>network_send_args\<close> that they make, as the place of
  the network in the list of the program and the words of the line.
\<close>

section \<open>State\<close>

record auto_away_config =
  ac_max_idle_time :: int
  ac_client_limit :: int
  ac_enabled :: bool
  ac_message :: "string option"
  ac_nick :: "string option"

record auto_away_data =
  ad_config :: auto_away_config
  ad_max_idle_time :: int
  ad_last_message :: int
  ad_timeout :: bool

type_synonym away_call = "nat \<times> string list"

definition AUTO_AWAY_DEFAULT_TIME :: int where "AUTO_AWAY_DEFAULT_TIME = 10 * 60"

definition away_words :: "auto_away_config \<Rightarrow> string list" where
  "away_words cfg = [''AWAY'', (case ac_message cfg of None \<Rightarrow> ''Auto Away'' | Some m \<Rightarrow> m)]"

section \<open>Operations\<close>

text \<open>Every line to a server passes this filter.\<close>

definition log_data ::
    "int \<Rightarrow> 'c proxy_network list \<Rightarrow> irc_line \<Rightarrow> data_direction \<Rightarrow> auto_away_data \<Rightarrow>
     (away_call list \<times> auto_away_data) res" where
  "log_data now nets l dir d =
     (if dir \<noteq> TO_SERVER then Inr ([], d)
      else bind_res (sarg l 0) (\<lambda>a0.
        let d1 = (if base_eq a0 ''AWAY'' then d\<lparr>ad_last_message := now\<rparr> else d) in
        if base_eq a0 ''PRIVMSG'' \<or> base_eq a0 ''NOTICE'' then
          Inr (map (\<lambda>(i, n). (i, [''AWAY'']))
                 (filter (\<lambda>(i, n). n_state n = MOTD_RECVD \<and> (case n_external_state n of None \<Rightarrow> False | Some s \<Rightarrow> s_is_away s))
                   (enumerate 0 nets)),
               d1\<lparr>ad_last_message := now\<rparr>)
        else Inr ([], d1)))"

text \<open>The calls go through the filter as well.\<close>

definition call_line :: "away_call \<Rightarrow> irc_line" where
  "call_line c = \<lparr>origin = None, args = snd c, endcolon = COLON_UNKNOWN\<rparr>"

definition calls_seen ::
    "int \<Rightarrow> 'c proxy_network list \<Rightarrow> away_call list \<Rightarrow> auto_away_data \<Rightarrow> auto_away_data res" where
  "calls_seen now nets calls d =
     fold_res (\<lambda>c d. bind_res (log_data now nets (call_line c) TO_SERVER d) (\<lambda>(_, d'). Inr d')) calls d"

definition goes_away :: "auto_away_config \<Rightarrow> 'c proxy_network \<Rightarrow> bool" where
  "goes_away cfg n \<longleftrightarrow> n_state n = MOTD_RECVD \<and>
     (case n_external_state n of None \<Rightarrow> False | Some s \<Rightarrow> \<not> s_is_away s) \<and>
     (ac_client_limit cfg < 0 \<or> int (length (pn_clients n)) \<le> ac_client_limit cfg)"

definition check_time ::
    "int \<Rightarrow> 'c proxy_network list \<Rightarrow> auto_away_data \<Rightarrow> (away_call list \<times> auto_away_data) res" where
  "check_time now nets d =
     (if now - ad_last_message d > ad_max_idle_time d then
        let cfg = ad_config d;
            calls = concat (map (\<lambda>(i, n).
              if goes_away cfg n
              then (i, away_words cfg) # (case ac_nick cfg of None \<Rightarrow> [] | Some k \<Rightarrow> [(i, [''NICK'', k])])
              else []) (enumerate 0 nets)) in
        bind_res (calls_seen now nets calls d) (\<lambda>d'. Inr (calls, d'))
      else Inr ([], d))"

text \<open>
  The hooks for clients. The network of a client is its place in the list and its state, or NULL
  for a client that has not chosen one.
\<close>

definition new_client ::
    "int \<Rightarrow> 'c proxy_network list \<Rightarrow> (nat \<times> 'c proxy_network) option \<Rightarrow> auto_away_data \<Rightarrow>
     (bool \<times> away_call list \<times> auto_away_data) res" where
  "new_client now nets c d =
     (let limit = ac_client_limit (ad_config d) in
      if limit < 0 then Inr (True, [], d)
      else bind_res (deref c) (\<lambda>(i, n).
        if limit < int (length (pn_clients n)) + 1
        then bind_res (calls_seen now nets [(i, [''AWAY''])] d) (\<lambda>d'. Inr (True, [(i, [''AWAY''])], d'))
        else Inr (True, [], d)))"

definition lose_client ::
    "int \<Rightarrow> 'c proxy_network list \<Rightarrow> (nat \<times> 'c proxy_network) option \<Rightarrow> auto_away_data \<Rightarrow>
     (away_call list \<times> auto_away_data) res" where
  "lose_client now nets c d =
     (let limit = ac_client_limit (ad_config d) in
      if limit < 0 then Inr ([], d)
      else bind_res (deref c) (\<lambda>(i, n).
        if limit \<ge> int (length (pn_clients n))
        then bind_res (calls_seen now nets [(i, away_words (ad_config d))] d) (\<lambda>d'. Inr ([(i, away_words (ad_config d))], d'))
        else Inr ([], d)))"

text \<open>The second component says whether the check runs each second; it does not for a time that is too low.\<close>

definition auto_away_add :: "int \<Rightarrow> auto_away_config \<Rightarrow> auto_away_data" where
  "auto_away_add now cfg =
     (let t = (if ac_max_idle_time cfg \<noteq> -1 then ac_max_idle_time cfg else AUTO_AWAY_DEFAULT_TIME) in
      \<lparr>ad_config = cfg, ad_max_idle_time = t, ad_last_message = now, ad_timeout = (t \<ge> 30)\<rparr>)"

section \<open>When the user is marked away\<close>

definition is_activity :: "irc_line \<Rightarrow> bool" where
  "is_activity l \<longleftrightarrow> (case args l of [] \<Rightarrow> False | a0 # _ \<Rightarrow> base_eq a0 ''AWAY'' \<or> base_eq a0 ''PRIVMSG'' \<or> base_eq a0 ''NOTICE'')"

lemma log_data_last:
  assumes "log_data now nets l TO_SERVER d = Inr (calls, d')"
  shows "d' = (if is_activity l then d\<lparr>ad_last_message := now\<rparr> else d)"
proof (cases "args l")
  case Nil
  then show ?thesis using assms by (simp add: log_data_def sarg_def arg_def)
next
  case (Cons a0 as)
  then have s: "sarg l 0 = Inr a0" by (simp add: sarg_def arg_def)
  show ?thesis
    using assms Cons unfolding log_data_def s is_activity_def
    by (auto simp: Let_def split: if_split_asm)
qed

lemma calls_seen_last:
  assumes "calls_seen now nets calls d = Inr d'"
  shows "d' = (if list_ex (\<lambda>c. is_activity (call_line c)) calls then d\<lparr>ad_last_message := now\<rparr> else d)"
  using assms unfolding calls_seen_def
proof (induction calls arbitrary: d)
  case (Cons c cs)
  then obtain as d1 where d1: "log_data now nets (call_line c) TO_SERVER d = Inr (as, d1)"
    "fold_res (\<lambda>c d. bind_res (log_data now nets (call_line c) TO_SERVER d) (\<lambda>(_, d'). Inr d')) cs d1 = Inr d'"
    by auto
  show ?case using Cons.IH [OF d1(2)] log_data_last [OF d1(1)] by auto
qed simp

text \<open>
  What happens while the program runs: lines to a server and the timer, each with its time and the
  networks as they are then.
\<close>

datatype 'c away_event = Outgoing irc_line | Tick

definition away_step ::
    "int \<times> 'c proxy_network list \<times> 'c away_event \<Rightarrow> auto_away_data \<Rightarrow> auto_away_data res" where
  "away_step e d =
     (case e of (t, nets, ev) \<Rightarrow>
        bind_res (case ev of Outgoing l \<Rightarrow> log_data t nets l TO_SERVER d | Tick \<Rightarrow> check_time t nets d) (\<lambda>(_, d'). Inr d'))"

definition active_at :: "int \<times> 'c proxy_network list \<times> 'c away_event \<Rightarrow> int option" where
  "active_at e = (case e of (t, _, Outgoing l) \<Rightarrow> if is_activity l then Some t else None | (t, _, Tick) \<Rightarrow> None)"

lemma away_step_last:
  assumes "away_step e d = Inr d'"
  shows "d' = d \<and> active_at e = None \<or> d' = d\<lparr>ad_last_message := fst e\<rparr>"
proof -
  obtain t nets ev where e: "e = (t, nets, ev)" by (cases e)
  show ?thesis
  proof (cases ev)
    case (Outgoing l)
    then show ?thesis using assms e by (auto simp: away_step_def active_at_def dest: log_data_last)
  next
    case Tick
    then have "d' = d \<or> (\<exists>calls. calls_seen t nets calls d = Inr d')"
      using assms e by (auto simp: away_step_def check_time_def Let_def split: if_split_asm)
    then show ?thesis using e Tick by (auto simp: active_at_def dest!: calls_seen_last split: if_split_asm)
  qed
qed

lemma away_steps_last:
  assumes "fold_res away_step h d = Inr d'" "sorted (map fst h)" "\<forall>e \<in> set h. ad_last_message d \<le> fst e"
  shows "ad_max_idle_time d' = ad_max_idle_time d \<and> ad_last_message d \<le> ad_last_message d' \<and>
    (\<forall>e \<in> set h. \<forall>t. active_at e = Some t \<longrightarrow> t \<le> ad_last_message d')"
  using assms
proof (induction h arbitrary: d)
  case (Cons e h)
  from Cons.prems(1) obtain d1 where d1: "away_step e d = Inr d1" "fold_res away_step h d1 = Inr d'" by auto
  note last = away_step_last [OF d1(1)]
  have "\<forall>x \<in> set h. ad_last_message d1 \<le> fst x" using last Cons.prems(2,3) by auto
  then have IH: "ad_max_idle_time d' = ad_max_idle_time d1 \<and> ad_last_message d1 \<le> ad_last_message d' \<and>
      (\<forall>e \<in> set h. \<forall>t. active_at e = Some t \<longrightarrow> t \<le> ad_last_message d')"
    using Cons.IH [OF d1(2)] Cons.prems(2) by simp
  have "t = fst e" if "active_at e = Some t" for t
    using that by (auto simp: active_at_def split: prod.splits away_event.splits if_split_asm)
  then show ?case using IH last Cons.prems(3) by auto
qed simp

text \<open>
  C24. The user is marked away only when idle: whatever lines were sent and however often the timer
  ran since the program started, when the timer marks the user away, then the last message, notice
  or change of the away mark that went to any server is longer ago than the configured time, and
  so is the start.
\<close>

theorem away_only_when_idle:
  assumes "fold_res away_step h (auto_away_add t0 cfg) = Inr d" "sorted (map fst h)" "\<forall>e \<in> set h. t0 \<le> fst e"
    and "check_time now nets d = Inr (calls, d')" "calls \<noteq> []"
  shows "now - t0 > ad_max_idle_time (auto_away_add t0 cfg) \<and>
    (\<forall>e \<in> set h. \<forall>t. active_at e = Some t \<longrightarrow> now - t > ad_max_idle_time (auto_away_add t0 cfg))"
proof -
  have t0: "ad_last_message (auto_away_add t0 cfg) = t0" by (simp add: auto_away_add_def Let_def)
  have "now - ad_last_message d > ad_max_idle_time d"
    using assms(4,5) by (auto simp: check_time_def split: if_split_asm)
  moreover have "ad_max_idle_time d = ad_max_idle_time (auto_away_add t0 cfg) \<and> t0 \<le> ad_last_message d \<and>
      (\<forall>e \<in> set h. \<forall>t. active_at e = Some t \<longrightarrow> t \<le> ad_last_message d)"
    using away_steps_last [OF assms(1,2)] assms(3) t0 by simp
  ultimately show ?thesis by fastforce
qed

lemma calls_seen_total: "\<forall>c \<in> set calls. snd c \<noteq> [] \<Longrightarrow> \<exists>d'. calls_seen now nets calls d = Inr d'"
proof (induction calls arbitrary: d)
  case (Cons c cs)
  obtain a as where "snd c = a # as" using Cons.prems by (cases "snd c") auto
  then have "sarg (call_line c) 0 = Inr a" by (simp add: call_line_def sarg_def arg_def)
  then obtain d1 as' where d1: "log_data now nets (call_line c) TO_SERVER d = Inr (as', d1)"
    by (cases "base_eq a ''PRIVMSG'' \<or> base_eq a ''NOTICE''") (auto simp: log_data_def Let_def)
  then show ?case using Cons by (simp add: calls_seen_def)
qed (simp add: calls_seen_def)

lemma base_strcmp_refl [simp]: "base_strcmp s s = 0"
  by (induction s) (simp_all add: base_strcmp_def)

lemma away_call_active [simp]: "is_activity (call_line (i, away_words cfg))" "is_activity (call_line (i, [''AWAY'']))"
  by (simp_all add: is_activity_def call_line_def away_words_def)

text \<open>
  The timer does not nag: it always ends, and when it has marked the user away on some network, it sends nothing more
  during the configured time, because the filter sees the line that it sent.
\<close>

theorem away_sent_once:
  fixes nets :: "'c proxy_network list"
  assumes "0 \<le> ad_max_idle_time d"
  shows "\<exists>calls d'. check_time now nets d = Inr (calls, d') \<and>
    (calls \<noteq> [] \<longrightarrow> (\<forall>now' (nets' :: 'c proxy_network list). now' \<le> now + ad_max_idle_time d \<longrightarrow> check_time now' nets' d' = Inr ([], d')))"
proof (cases "now - ad_last_message d > ad_max_idle_time d")
  case False
  then show ?thesis by (simp add: check_time_def)
next
  case True
  define one where "one = (\<lambda>(i :: nat, n :: 'c proxy_network). if goes_away (ad_config d) n
      then (i, away_words (ad_config d)) # (case ac_nick (ad_config d) of None \<Rightarrow> [] | Some k \<Rightarrow> [(i, [''NICK'', k])])
      else [])"
  define calls where "calls = concat (map one (enumerate 0 nets))"
  have "\<forall>c \<in> set (one x). snd c \<noteq> []" for x
    by (cases x) (auto simp: one_def away_words_def split: option.splits)
  then have "\<forall>c \<in> set calls. snd c \<noteq> []" by (auto simp: calls_def)
  then obtain d' where d': "calls_seen now nets calls d = Inr d'" using calls_seen_total by blast
  have ck: "check_time now nets d = Inr (calls, d')"
    using True d' by (simp add: check_time_def Let_def calls_def one_def)
  have "list_ex (\<lambda>c. is_activity (call_line c)) (one x)" if "one x \<noteq> []" for x
    using that by (cases x) (simp add: one_def split: if_split_asm)
  then have "list_ex (\<lambda>c. is_activity (call_line c)) calls" if "calls \<noteq> []"
    using that by (fastforce simp: calls_def list_ex_iff)
  then have "d' = d\<lparr>ad_last_message := now\<rparr>" if "calls \<noteq> []"
    using calls_seen_last [OF d'] that by simp
  then show ?thesis using ck by (auto simp: check_time_def)
qed

text \<open>
  The limit on the number of clients is off by one when clients come and go. The leaving client
  is still on the list of its network, so that the user is not marked away when as many clients
  remain as the limit allows; in particular not with a limit of zero, when the last one leaves. The
  new client is on the list already and counted twice, so that the mark is taken back although there
  are not more clients than the limit. A client without a network that leaves brings the program down.
\<close>

theorem client_limit_off_by_one:
  assumes "0 \<le> ac_client_limit (ad_config d)" "a \<in> set (pn_clients n)"
  shows "(int (length (remove1 a (pn_clients n))) = ac_client_limit (ad_config d) \<longrightarrow>
      lose_client now nets (Some (i, n)) d = Inr ([], d)) \<and>
    (int (length (pn_clients n)) = ac_client_limit (ad_config d) \<longrightarrow>
      new_client now nets (Some (i, n)) d = Inr (True, [(i, [''AWAY''])], d\<lparr>ad_last_message := now\<rparr>)) \<and>
    lose_client now nets None d = Inl NullDeref"
proof -
  have "length (pn_clients n) = Suc (length (remove1 a (pn_clients n)))"
    using assms(2) length_pos_if_in_set [of a "pn_clients n"] by (simp add: length_remove1)
  moreover obtain d' where d': "calls_seen now nets [(i, [''AWAY''])] d = Inr d'"
    using calls_seen_total [of "[(i, [''AWAY''])]" now nets d] by auto
  then have "calls_seen now nets [(i, [''AWAY''])] d = Inr (d\<lparr>ad_last_message := now\<rparr>)"
    using calls_seen_last [OF d'] by simp
  ultimately show ?thesis using assms(1) by (auto simp: lose_client_def new_client_def Let_def)
qed

section \<open>Witnesses\<close>

definition demo_away_net :: "string list proxy_network" where
  "demo_away_net = (proxy_network_new demo_config)\<lparr>n_state := MOTD_RECVD, n_external_state := Some demo_init, pn_clients := [7]\<rparr>"

definition demo_away_config :: auto_away_config where
  "demo_away_config = \<lparr>ac_max_idle_time = 60, ac_client_limit = 1, ac_enabled = True, ac_message = None, ac_nick = Some ''off''\<rparr>"

definition demo_history :: "(int \<times> string list proxy_network list \<times> string list away_event) list" where
  "demo_history = [(110, [demo_away_net], Tick), (120, [demo_away_net], Outgoing (demo_line ''me'' [''PRIVMSG'', ''bob'', ''hi''])),
     (130, [demo_away_net], Tick)]"

lemma demo_goes_away: "goes_away demo_away_config demo_away_net"
proof -
  have "\<not> s_is_away demo_init" by code_simp
  then show ?thesis by (simp add: goes_away_def demo_away_config_def demo_away_net_def)
qed

lemma demo_away_check:
  "check_time 200 [demo_away_net] (auto_away_add 120 demo_away_config) =
     Inr ([(0, [''AWAY'', ''Auto Away'']), (0, [''NICK'', ''off''])], auto_away_add 200 demo_away_config)"
proof -
  let ?calls = "[(0, [''AWAY'', ''Auto Away'']), (0, [''NICK'', ''off''])]"
  obtain d where d: "calls_seen 200 [demo_away_net] ?calls (auto_away_add 120 demo_away_config) = Inr d"
    using calls_seen_total [of ?calls 200 "[demo_away_net]" "auto_away_add 120 demo_away_config"] by auto
  have "is_activity (call_line (0, [''AWAY'', ''Auto Away'']))" by (simp add: is_activity_def call_line_def)
  then have "d = auto_away_add 200 demo_away_config"
    using calls_seen_last [OF d] by (simp add: auto_away_add_def Let_def)
  then show ?thesis
    using d demo_goes_away
    by (simp add: check_time_def away_words_def auto_away_add_def demo_away_config_def Let_def)
qed

theorem away_sent_once_witness:
  "check_time 260 [demo_away_net] (auto_away_add 200 demo_away_config) = Inr ([], auto_away_add 200 demo_away_config) \<and>
   check_time 200 [demo_away_net] (auto_away_add 120 demo_away_config) =
     Inr ([(0, [''AWAY'', ''Auto Away'']), (0, [''NICK'', ''off''])], auto_away_add 200 demo_away_config)"
  using away_sent_once [of "auto_away_add 120 demo_away_config" 200 "[demo_away_net]"] demo_away_check
  by (simp add: auto_away_add_def demo_away_config_def Let_def)

theorem client_limit_off_by_one_witness:
  "lose_client 5 [] (Some (0, demo_away_net\<lparr>pn_clients := [7, 8]\<rparr>)) (auto_away_add 0 demo_away_config) =
     Inr ([], auto_away_add 0 demo_away_config) \<and>
   new_client 5 [] (Some (0, demo_away_net)) (auto_away_add 0 demo_away_config) =
     Inr (True, [(0, [''AWAY''])], auto_away_add 5 demo_away_config)"
  using client_limit_off_by_one [of "auto_away_add 0 demo_away_config" 7 "demo_away_net\<lparr>pn_clients := [7, 8]\<rparr>" 5 "[]" 0]
    client_limit_off_by_one [of "auto_away_add 0 demo_away_config" 7 demo_away_net 5 "[]" 0]
  by (simp add: auto_away_add_def demo_away_config_def demo_away_net_def Let_def)

theorem away_only_when_idle_witness:
  "fold_res away_step demo_history (auto_away_add 100 demo_away_config) = Inr (auto_away_add 120 demo_away_config) \<and>
   fst (projr (check_time 200 [demo_away_net] (auto_away_add 120 demo_away_config))) \<noteq> [] \<and>
   active_at (demo_history ! 1) = Some 120 \<and> 200 - 120 > ad_max_idle_time (auto_away_add 100 demo_away_config)"
proof -
  have act: "is_activity (demo_line ''me'' [''PRIVMSG'', ''bob'', ''hi''])" by code_simp
  have "sarg (demo_line ''me'' [''PRIVMSG'', ''bob'', ''hi'']) 0 = Inr ''PRIVMSG''" by code_simp
  then obtain as d where l: "log_data 120 [demo_away_net] (demo_line ''me'' [''PRIVMSG'', ''bob'', ''hi'']) TO_SERVER
      (auto_away_add 100 demo_away_config) = Inr (as, d)" by (simp add: log_data_def Let_def)
  have d: "d = auto_away_add 120 demo_away_config"
    using log_data_last [OF l] act by (simp add: auto_away_add_def Let_def)
  have h: "fold_res away_step demo_history (auto_away_add 100 demo_away_config) = Inr (auto_away_add 120 demo_away_config)"
    using l unfolding d
    by (simp add: demo_history_def away_step_def check_time_def auto_away_add_def demo_away_config_def Let_def)
  have "active_at (demo_history ! 1) = Some 120" "demo_history ! 1 \<in> set demo_history"
    using act by (simp_all add: demo_history_def active_at_def)
  then show ?thesis
    using h demo_away_check away_only_when_idle [OF h _ _ demo_away_check] by (simp add: demo_history_def)
qed

end
