(* ===== verification/Log_Subst.thy ===== *)
theory Log_Subst
  imports Connection
begin

text \<open>
  \<open>src/log_subst.c\<close>: the special characters of the formats for log lines and of the names of log
  files. The text is put together in a buffer whose size is found by a first pass.
\<close>

section \<open>Values\<close>

text \<open>The broken-down time, with the name of the month in the locale.\<close>

record log_time =
  lt_now :: int
  lt_hour :: nat
  lt_min :: nat
  lt_sec :: nat
  lt_mday :: nat
  lt_mon :: nat
  lt_year :: nat
  lt_month_name :: string

record ('c, 'a) subst_context =
  sc_identifier :: string
  sc_network :: "('c, 'a) net"
  sc_time :: log_time

type_synonym ('c, 'a) subst_fn = "('c, 'a) subst_context \<Rightarrow> irc_line \<Rightarrow> bool \<Rightarrow> string option res"

definition show_pad :: "nat \<Rightarrow> nat \<Rightarrow> string" where
  "show_pad k n = (let s = show_nat n in replicate (k - length s) (CHR ''0'') @ s)"

text \<open>A copy, in lower case for the names of files; a NULL string stays one.\<close>

definition dup_case :: "bool \<Rightarrow> string \<Rightarrow> string" where
  "dup_case down s = (if down then map ascii_tolower s else s)"

definition get_hours :: "('c, 'a) subst_fn" where "get_hours sc l cs = Inr (Some (show_pad 2 (lt_hour (sc_time sc))))"
definition get_minutes :: "('c, 'a) subst_fn" where "get_minutes sc l cs = Inr (Some (show_pad 2 (lt_min (sc_time sc))))"
definition get_seconds :: "('c, 'a) subst_fn" where "get_seconds sc l cs = Inr (Some (show_pad 2 (lt_sec (sc_time sc))))"
definition get_seconds_since_1970 :: "('c, 'a) subst_fn" where
  "get_seconds_since_1970 sc l cs = Inr (Some (show_int (lt_now (sc_time sc))))"
definition get_day :: "('c, 'a) subst_fn" where "get_day sc l cs = Inr (Some (show_pad 2 (lt_mday (sc_time sc))))"
definition get_month :: "('c, 'a) subst_fn" where "get_month sc l cs = Inr (Some (show_pad 2 (lt_mon (sc_time sc) + 1)))"
definition get_year :: "('c, 'a) subst_fn" where "get_year sc l cs = Inr (Some (show_pad 4 (lt_year (sc_time sc) + 1900)))"
definition get_monthname :: "('c, 'a) subst_fn" where "get_monthname sc l cs = Inr (Some (lt_month_name (sc_time sc)))"
definition get_percent :: "('c, 'a) subst_fn" where "get_percent sc l cs = Inr (Some ''%'')"
definition get_network :: "('c, 'a) subst_fn" where "get_network sc l cs = Inr (n_name (sc_network sc))"

definition get_identifier :: "('c, 'a) subst_fn" where
  "get_identifier sc l cs = Inr (Some (dup_case cs (sc_identifier sc)))"

text \<open>What follows the exclamation mark of the origin, NULL when there is none.\<close>

definition get_user :: "('c, 'a) subst_fn" where
  "get_user sc l cs =
     Inr (case origin l of
            None \<Rightarrow> None
          | Some h \<Rightarrow> if has_chr h (CHR ''!'') then Some (dup_case cs (tl (dropWhile (\<lambda>c. c \<noteq> CHR ''!'') h))) else None)"

definition get_nick :: "('c, 'a) subst_fn" where
  "get_nick sc l cs =
     (if origin l = None then Inr (Some [])
      else bind_res (line_get_nick l) (\<lambda>n. Inr (Some (dup_case cs n))))"

definition get_server :: "('c, 'a) subst_fn" where
  "get_server sc l cs =
     Inr (Some (case n_current_server (sc_network sc) of
                  None \<Rightarrow> []
                | Some a \<Rightarrow> (case map_of (nc_servers (n_config (sc_network sc))) a of None \<Rightarrow> [] | Some s \<Rightarrow> ts_host s)))"

text \<open>
  The arguments of a mode change, in an array of 512 bytes. The limit given to \<open>strncat\<close> is on what
  is appended, not on the whole.
\<close>

fun append_args :: "nat \<Rightarrow> string list \<Rightarrow> string \<Rightarrow> string res" where
  "append_args i [] buf = Inr buf"
| "append_args i (a # as) buf =
     (let sep = (if i > 0 then '' '' else []); buf1 = buf @ sep @ take 511 a in
      if length buf1 < 512 then append_args (Suc i) as buf1 else Inl OutOfBounds)"

definition get_modechanges :: "('c, 'a) subst_fn" where
  "get_modechanges sc l cs = bind_res (append_args 0 (drop 3 (args l)) []) (\<lambda>s. Inr (Some s))"

section \<open>The table\<close>

datatype ('c, 'a) mapped = Arg nat | Callback "('c, 'a) subst_fn"

definition mappings :: "(string option \<times> char \<times> ('c, 'a) mapped) list" where
  "mappings =
     [(None, CHR ''@'', Callback get_identifier), (None, CHR ''h'', Callback get_hours),
      (None, CHR ''M'', Callback get_minutes), (None, CHR ''s'', Callback get_seconds),
      (None, CHR ''d'', Callback get_day), (None, CHR ''B'', Callback get_month),
      (None, CHR ''Y'', Callback get_year), (None, CHR ''e'', Callback get_seconds_since_1970),
      (None, CHR ''b'', Callback get_monthname), (None, CHR ''n'', Callback get_nick),
      (None, CHR ''u'', Callback get_user), (None, CHR ''N'', Callback get_network),
      (None, CHR ''S'', Callback get_server), (None, CHR ''%'', Callback get_percent),
      (Some ''JOIN'', CHR ''c'', Arg 1), (Some ''PART'', CHR ''c'', Arg 1), (Some ''PART'', CHR ''m'', Arg 2),
      (Some ''KICK'', CHR ''c'', Arg 1), (Some ''KICK'', CHR ''t'', Arg 2), (Some ''KICK'', CHR ''r'', Arg 3),
      (Some ''QUIT'', CHR ''m'', Arg 1), (Some ''NOTICE'', CHR ''t'', Arg 1), (Some ''NOTICE'', CHR ''m'', Arg 2),
      (Some ''PRIVMSG'', CHR ''t'', Arg 1), (Some ''PRIVMSG'', CHR ''m'', Arg 2),
      (Some ''MSG'', CHR ''t'', Arg 1), (Some ''MSG'', CHR ''m'', Arg 2),
      (Some ''TOPIC'', CHR ''c'', Arg 1), (Some ''TOPIC'', CHR ''t'', Arg 2),
      (Some ''MODE'', CHR ''t'', Arg 1), (Some ''MODE'', CHR ''p'', Arg 2), (Some ''MODE'', CHR ''c'', Callback get_modechanges),
      (Some ''NICK'', CHR ''r'', Arg 1),
      (None, CHR ''0'', Arg 0), (None, CHR ''1'', Arg 1), (None, CHR ''2'', Arg 2), (None, CHR ''3'', Arg 3),
      (None, CHR ''4'', Arg 4), (None, CHR ''5'', Arg 5), (None, CHR ''6'', Arg 6), (None, CHR ''7'', Arg 7),
      (None, CHR ''8'', Arg 8), (None, CHR ''9'', Arg 9)]"

text \<open>
  An entry for another command is passed over, and so is one whose argument the line does not have;
  at the end of the table there is nothing to insert.
\<close>

fun find_in ::
    "('c, 'a) subst_context \<Rightarrow> irc_line \<Rightarrow> char \<Rightarrow> bool \<Rightarrow> (string option \<times> char \<times> ('c, 'a) mapped) list \<Rightarrow> string option res" where
  "find_in sc l c cs [] = Inr (Some [])"
| "find_in sc l c cs ((command, subst, what) # ms) =
     bind_res (case command of None \<Rightarrow> Inr True | Some w \<Rightarrow> bind_res (sarg l 0) (\<lambda>a0. Inr (strcmp w a0 = 0))) (\<lambda>applies.
     if \<not> applies \<or> subst \<noteq> c then find_in sc l c cs ms
     else case what of
       Callback f \<Rightarrow> f sc l cs
     | Arg i \<Rightarrow> if i < argc l then Inr (Some (dup_case cs (args l ! i))) else find_in sc l c cs ms)"

definition find_mapping :: "('c, 'a) subst_context \<Rightarrow> irc_line \<Rightarrow> char \<Rightarrow> bool \<Rightarrow> string option res" where
  "find_mapping sc l c cs = find_in sc l c cs mappings"

definition convertslashes :: "string \<Rightarrow> string" where
  "convertslashes s = map (\<lambda>c. if c = CHR ''/'' then CHR ''_'' else c) s"

section \<open>Expansion\<close>

text \<open>
  The first pass looks at every percent sign, also at one that belongs to the sequence before it.
  \<open>None\<close> stands for a position without one.
\<close>

definition subst_text ::
    "('c, 'a) subst_context \<Rightarrow> irc_line \<Rightarrow> bool \<Rightarrow> bool \<Rightarrow> char \<Rightarrow> string res" where
  "subst_text sc l cs noslash c =
     bind_res (find_mapping sc l c cs) (\<lambda>s.
     let t = (case s of None \<Rightarrow> [] | Some t \<Rightarrow> t) in Inr (if noslash then convertslashes t else t))"

fun find_all ::
    "(char \<Rightarrow> string res) \<Rightarrow> string \<Rightarrow> string option list res" where
  "find_all m [] = Inr []"
| "find_all m (c # cs) =
     (if c = CHR ''%'' then
        bind_res (m (first_char cs)) (\<lambda>t. bind_res (find_all m cs) (\<lambda>ts. Inr (Some t # ts)))
      else bind_res (find_all m cs) (\<lambda>ts. Inr (None # ts)))"

definition expanded_size :: "string \<Rightarrow> string option list \<Rightarrow> nat" where
  "expanded_size fmt ss = length fmt + sum_list (map (\<lambda>s. case s of None \<Rightarrow> 0 | Some t \<Rightarrow> length t) ss) + 1"

text \<open>The second pass, into a buffer of \<open>lim\<close> bytes; there is always room for the terminator.\<close>

fun expand_loop :: "nat \<Rightarrow> string \<Rightarrow> string option list \<Rightarrow> string \<Rightarrow> string res" where
  "expand_loop lim [] ss out = bind_res (guard_res (length out < lim) OutOfBounds) (\<lambda>_. Inr out)"
| "expand_loop lim (c # cs) ss out =
     (if c = CHR ''%'' then
        let t = (case ss of Some t # _ \<Rightarrow> t | _ \<Rightarrow> []) in
        bind_res (guard_res (length out + length t < lim) OutOfBounds) (\<lambda>_.
        expand_loop lim (tl cs) (tl (tl ss)) (out @ t))
      else
        bind_res (guard_res (length out < lim) OutOfBounds) (\<lambda>_. expand_loop lim cs (tl ss) (out @ [c])))"

definition custom_subst ::
    "('c, 'a) subst_context \<Rightarrow> string \<Rightarrow> irc_line \<Rightarrow> bool \<Rightarrow> bool \<Rightarrow> string res" where
  "custom_subst sc fmt l cs noslash =
     bind_res (find_all (subst_text sc l cs noslash) fmt) (\<lambda>ss. expand_loop (expanded_size fmt ss) fmt ss [])"

section \<open>What is expanded\<close>

text \<open>The specification: a percent sign and the character after it stand for a text.\<close>

fun expand :: "(char \<Rightarrow> string) \<Rightarrow> string \<Rightarrow> string" where
  "expand g [] = []"
| "expand g (c # cs) = (if c = CHR ''%'' then g (first_char cs) @ expand g (tl cs) else c # expand g cs)"

fun marks :: "(char \<Rightarrow> string) \<Rightarrow> string \<Rightarrow> string option list" where
  "marks g [] = []"
| "marks g (c # cs) = (if c = CHR ''%'' then Some (g (first_char cs)) else None) # marks g cs"

lemma find_all_marks: "(\<And>c. m c = Inr (g c)) \<Longrightarrow> find_all m fmt = Inr (marks g fmt)"
  by (induction fmt) simp_all

lemma marks_tl: "tl (marks g cs) = marks g (tl cs)"
  by (cases cs) simp_all

lemma expanded_size_tl: "expanded_size (tl cs) (marks g (tl cs)) \<le> expanded_size cs (marks g cs)"
  by (cases cs) (simp_all add: expanded_size_def)

lemma expand_loop_expand:
  "length out + expanded_size cs (marks g cs) \<le> lim \<Longrightarrow> expand_loop lim cs (marks g cs) out = Inr (out @ expand g cs)"
proof (induction g cs arbitrary: out rule: expand.induct)
  case (1 g)
  then show ?case by (simp add: expanded_size_def)
next
  case (2 g c cs)
  show ?case
  proof (cases "c = CHR ''%''")
    case True
    then have "length (out @ g (first_char cs)) + expanded_size (tl cs) (marks g (tl cs)) \<le> lim"
      using 2(3) expanded_size_tl [of cs g] by (simp add: expanded_size_def)
    then show ?thesis using 2(1) True by (simp add: marks_tl expanded_size_def)
  next
    case False
    then have "length (out @ [c]) + expanded_size cs (marks g cs) \<le> lim"
      using 2(3) by (simp add: expanded_size_def)
    then show ?thesis using 2(2) False by (simp add: expanded_size_def)
  qed
qed

lemma find_in_total:
  assumes "args l \<noteq> []"
    and "list_all (\<lambda>(w, _, what). case what of Arg _ \<Rightarrow> True | Callback f \<Rightarrow>
      (case w of None \<Rightarrow> True | Some w \<Rightarrow> strcmp w (args l ! 0) = 0) \<longrightarrow> (\<exists>t. f sc l cs = Inr t)) ms"
  shows "\<exists>t. find_in sc l c cs ms = Inr t"
  using assms(2)
proof (induction ms)
  case (Cons m ms)
  obtain w ch what where m: "m = (w, ch, what)" by (cases m)
  have "sarg l 0 = Inr (args l ! 0)" using assms(1) by (simp add: sarg_def arg_def)
  then show ?case using Cons m by (cases what; cases w) auto
qed simp

text \<open>The texts that a line gives; the arguments of a mode change have to fit into their array.\<close>

definition modes_fit :: "irc_line \<Rightarrow> bool" where
  "modes_fit l \<longleftrightarrow> args l \<noteq> [] \<and>
     (strcmp ''MODE'' (args l ! 0) = 0 \<longrightarrow> length (g_strjoinv '' '' (map (take 511) (drop 3 (args l)))) < 512)"

lemma append_args_more:
  "i > 0 \<Longrightarrow> append_args i as buf =
    (let t = buf @ concat (map (\<lambda>a. '' '' @ take 511 a) as) in
     if as = [] \<or> length t < 512 then Inr t else Inl OutOfBounds)"
  by (induction i as buf rule: append_args.induct) (auto simp: Let_def)

lemma join_concat: "g_strjoinv '' '' (a # as) = a @ concat (map (\<lambda>b. '' '' @ b) as)"
  by (induction as arbitrary: a) simp_all

lemma append_args_join:
  "append_args 0 as [] =
    (let t = g_strjoinv '' '' (map (take 511) as) in if length t < 512 then Inr t else Inl OutOfBounds)"
proof (cases as)
  case (Cons a as')
  then show ?thesis
    using append_args_more [of 1 as' "take 511 a"]
    by (auto simp: Let_def join_concat comp_def simp del: g_strjoinv.simps(3))
qed simp

lemma find_mapping_total:
  assumes "modes_fit l"
  shows "\<exists>t. find_mapping sc l c cs = Inr t"
  unfolding find_mapping_def
proof (rule find_in_total)
  show "args l \<noteq> []" using assms by (simp add: modes_fit_def)
  have "\<exists>t. get_nick sc l cs = Inr t" by (cases "origin l") (simp_all add: get_nick_def line_get_nick_def)
  moreover have "strcmp ''MODE'' (args l ! 0) = 0 \<longrightarrow> (\<exists>t. get_modechanges sc l cs = Inr t)"
    using assms by (simp add: modes_fit_def get_modechanges_def append_args_join Let_def)
  ultimately show "list_all (\<lambda>(w, _, what). case what of Arg _ \<Rightarrow> True | Callback f \<Rightarrow>
      (case w of None \<Rightarrow> True | Some w \<Rightarrow> strcmp w (args l ! 0) = 0) \<longrightarrow> (\<exists>t. f sc l cs = Inr t)) mappings"
    by (simp add: mappings_def get_identifier_def get_hours_def get_minutes_def get_seconds_def get_day_def get_month_def
        get_year_def get_seconds_since_1970_def get_monthname_def get_user_def get_network_def get_server_def get_percent_def)
qed

definition expansion :: "('c, 'a) subst_context \<Rightarrow> irc_line \<Rightarrow> bool \<Rightarrow> bool \<Rightarrow> char \<Rightarrow> string" where
  "expansion sc l cs noslash c = (case subst_text sc l cs noslash c of Inl _ \<Rightarrow> [] | Inr t \<Rightarrow> t)"

lemma subst_text_total: "modes_fit l \<Longrightarrow> subst_text sc l cs ns c = Inr (expansion sc l cs ns c)"
  using find_mapping_total [of l sc c cs] by (auto simp: expansion_def subst_text_def Let_def)

lemma custom_subst_total: "modes_fit l \<Longrightarrow> custom_subst sc fmt l cs noslash = Inr (expand (expansion sc l cs noslash) fmt)"
  by (simp add: custom_subst_def find_all_marks [OF subst_text_total] expand_loop_expand)

text \<open>
  C23. The substitution does what it is meant to: for every format and every line whose mode changes
  fit, the two passes give the text in which each percent sign with the character after it is
  replaced by its expansion, and the buffer sized by the first pass is large enough for the second.
\<close>

theorem custom_subst_expands:
  assumes "modes_fit l"
  shows "custom_subst sc fmt l cs noslash = Inr (expand (expansion sc l cs noslash) fmt)"
  by (rule custom_subst_total [OF assms])

lemma expansion_no_slash: "CHR ''/'' \<notin> set (expansion sc l cs True c)"
  by (cases "find_mapping sc l c cs") (auto simp: expansion_def subst_text_def convertslashes_def Let_def)

lemma expand_slashes: "(\<And>c. CHR ''/'' \<notin> set (g c)) \<Longrightarrow> count_list (expand g fmt) (CHR ''/'') \<le> count_list fmt (CHR ''/'')"
proof (induction g fmt rule: expand.induct)
  case (2 g c cs)
  have "count_list (tl cs) (CHR ''/'') \<le> count_list cs (CHR ''/'')" by (cases cs) simp_all
  moreover have "count_list (g x) (CHR ''/'') = 0" for x using 2(3) by (simp add: count_list_0_iff)
  ultimately show ?case using 2 by (auto intro: order_trans)
qed simp

lemma find_all_result:
  "find_all m fmt = Inr ss \<Longrightarrow> ss = marks (\<lambda>c. case m c of Inl _ \<Rightarrow> [] | Inr t \<Rightarrow> t) fmt"
  by (induction fmt arbitrary: ss) (auto split: if_split_asm)

lemma custom_subst_result:
  assumes "custom_subst sc fmt l cs noslash = Inr out"
  shows "out = expand (expansion sc l cs noslash) fmt"
proof -
  have "(\<lambda>c. case subst_text sc l cs noslash c of Inl _ \<Rightarrow> [] | Inr t \<Rightarrow> t) = expansion sc l cs noslash"
    by (simp add: expansion_def fun_eq_iff)
  then show ?thesis
    using assms by (auto simp: custom_subst_def expand_loop_expand dest!: find_all_result)
qed

text \<open>
  Names from the network cannot choose the directory of a log file: in the name of a file, the
  texts that are inserted have no slash, so the name has no more slashes than its format.
\<close>

theorem log_name_no_new_slash:
  assumes "custom_subst sc fmt l cs True = Inr name"
  shows "count_list name (CHR ''/'') \<le> count_list fmt (CHR ''/'')"
  unfolding custom_subst_result [OF assms] by (rule expand_slashes) (rule expansion_no_slash)

lemma find_in_fault:
  assumes "args l \<noteq> []" "list_all (\<lambda>(_, _, what). case what of Arg _ \<Rightarrow> True | Callback f \<Rightarrow> f sc l cs \<in> range Inr \<union> {Inl OutOfBounds}) ms"
  shows "find_in sc l c cs ms \<in> range Inr \<union> {Inl OutOfBounds}"
  using assms(2)
proof (induction ms)
  case (Cons m ms)
  obtain w ch what where m: "m = (w, ch, what)" by (cases m)
  have "sarg l 0 = Inr (args l ! 0)" using assms(1) by (simp add: sarg_def arg_def)
  then show ?case using Cons m by (cases what; cases w) auto
qed simp

lemma subst_text_fault: "args l \<noteq> [] \<Longrightarrow> subst_text sc l cs ns c \<in> range Inr \<union> {Inl OutOfBounds}"
proof -
  assume l: "args l \<noteq> []"
  have "get_nick sc l cs \<in> range Inr" by (cases "origin l") (simp_all add: get_nick_def line_get_nick_def)
  moreover have "get_modechanges sc l cs \<in> range Inr \<union> {Inl OutOfBounds}"
    by (simp add: get_modechanges_def append_args_join Let_def)
  ultimately have "find_mapping sc l c cs \<in> range Inr \<union> {Inl OutOfBounds}"
    unfolding find_mapping_def
    by (intro find_in_fault [OF l])
      (simp add: mappings_def get_identifier_def get_hours_def get_minutes_def get_seconds_def get_day_def get_month_def
        get_year_def get_seconds_since_1970_def get_monthname_def get_user_def get_network_def get_server_def get_percent_def)
  then show ?thesis by (auto simp: subst_text_def Let_def)
qed

lemma find_all_fault:
  assumes "\<And>c. m c \<in> range Inr \<union> {Inl OutOfBounds}" "m x = Inl OutOfBounds"
  shows "find_all m (a @ CHR ''%'' # x # b) = Inl OutOfBounds"
proof (induction a)
  case (Cons c a)
  have "m (first_char (a @ CHR ''%'' # x # b)) \<in> range Inr \<union> {Inl OutOfBounds}" by (rule assms(1))
  then show ?case using Cons by auto
qed (use assms(2) in \<open>simp add: first_char_def\<close>)

text \<open>
  The array for the arguments of a mode change is overrun: a MODE line of the server with
  arguments of 512 characters or more, logged with a format that shows them, as the one for irssi
  does, writes behind it.
\<close>

theorem mode_log_overflows:
  assumes "args l = ''MODE'' # t # p # as" "512 \<le> length (g_strjoinv '' '' (map (take 511) as))"
  shows "custom_subst sc (a @ ''%c'' @ b) l cs ns = Inl OutOfBounds"
proof -
  have "strcmp w ''MODE'' \<noteq> 0" if "w \<in> {''JOIN'', ''PART'', ''KICK'', ''TOPIC''}" for w
    using that by (auto simp: strcmp_eq_0)
  then have "find_mapping sc l (CHR ''c'') cs = get_modechanges sc l cs"
    using assms(1) by (simp add: find_mapping_def mappings_def sarg_def arg_def strcmp_eq_0)
  also have "\<dots> = Inl OutOfBounds"
    using assms by (simp add: get_modechanges_def append_args_join Let_def)
  finally have "subst_text sc l cs ns (CHR ''c'') = Inl OutOfBounds" by (simp add: subst_text_def)
  then have "find_all (subst_text sc l cs ns) (a @ CHR ''%'' # CHR ''c'' # b) = Inl OutOfBounds"
    using assms(1) by (intro find_all_fault subst_text_fault) simp_all
  then show ?thesis by (simp add: custom_subst_def)
qed

section \<open>Witnesses\<close>

definition demo_log_config :: network_config where
  "demo_log_config = \<lparr>nc_name = Some ''oftc/../x'', nc_autoconnect = False, nc_implicit = False, nc_type = NETWORK_TCP,
     nc_servers = [], nc_program_location = [], nc_virtual_name = None, nc_reconnect_interval = 60, nc_nick = None,
     nc_username = None, nc_fullname = None, nc_password = None, nc_autocmd = [], nc_channels = [],
     nc_disable_cache = False, nc_ignore_first_nick = False\<rparr>"

definition demo_subst :: "(string list, unit) subst_context" where
  "demo_subst = \<lparr>sc_identifier = ''#Chan/1'', sc_network = irc_network_new demo_log_config,
     sc_time = \<lparr>lt_now = 0, lt_hour = 7, lt_min = 5, lt_sec = 0, lt_mday = 1, lt_mon = 0, lt_year = 70, lt_month_name = ''Jan''\<rparr>\<rparr>"

definition demo_modes :: irc_line where
  "demo_modes = \<lparr>origin = None, args = [''MODE'', ''#x'', ''+vv'', replicate 511 (CHR ''x''), ''y''], endcolon = WITHOUT_COLON\<rparr>"

definition demo_said :: irc_line where
  "demo_said = \<lparr>origin = Some ''Bob!b@h'', args = [''PRIVMSG'', ''#Chan/1'', ''100%''], endcolon = WITH_COLON\<rparr>"

theorem custom_subst_expands_witness:
  "modes_fit demo_said \<and> custom_subst demo_subst ''%h:%M <%n> %m%%'' demo_said False False = Inr ''07:05 <Bob> 100%%''"
proof -
  have f: "modes_fit demo_said" by code_simp
  have "expand (expansion demo_subst demo_said False False) ''%h:%M <%n> %m%%'' = ''07:05 <Bob> 100%%''" by code_simp
  with custom_subst_expands [OF f, of demo_subst "''%h:%M <%n> %m%%''"] f show ?thesis by simp
qed

theorem log_name_no_new_slash_witness:
  "custom_subst demo_subst ''%N/%@'' demo_said True True = Inr ''oftc_.._x/#chan_1'' \<and>
   count_list ''oftc_.._x/#chan_1'' (CHR ''/'') \<le> count_list ''%N/%@'' (CHR ''/'')"
proof -
  have "custom_subst demo_subst ''%N/%@'' demo_said True True = Inr ''oftc_.._x/#chan_1''" by code_simp
  with log_name_no_new_slash [OF this] show ?thesis by simp
qed

theorem mode_log_overflows_witness: "custom_subst demo_subst ''mode %c'' demo_modes False False = Inl OutOfBounds"
  using mode_log_overflows [of demo_modes "''#x''" "''+vv''" "[replicate 511 (CHR ''x''), ''y'']" demo_subst "''mode ''" "[]"
      False False]
  by (simp add: demo_modes_def)

end
