(* ===== verification/Log_Files.thy ===== *)
theory Log_Files
  imports Clib
begin

text \<open>
  \<open>src/log_support.c\<close>: the table of open log files. Files that were not used for an hour are
  closed when too many are open, and all are closed when the program is told to reopen them.
\<close>

section \<open>The table\<close>

text \<open>
  The table holds at most one entry per path. \<open>lf_file\<close> says whether the entry has an open file;
  \<open>lx_written\<close> is what was written so far, path by path.
\<close>

record log_file_info =
  lf_file :: bool
  lf_last_used :: int

record log_support_context =
  lx_files :: "(string \<times> log_file_info) list"
  lx_num_opened :: int
  lx_written :: "(string \<times> string) list"

definition MAX_OPEN_LOGFILES :: int where "MAX_OPEN_LOGFILES = 300"
definition CLEANUP_THRESHOLD :: int where "CLEANUP_THRESHOLD = 3600"

definition log_support_init :: log_support_context where
  "log_support_init = \<lparr>lx_files = [], lx_num_opened = 0, lx_written = []\<rparr>"

text \<open>\<open>g_hash_table_foreach_remove\<close> with a test that counts what it removes, and asserts.\<close>

fun remove_counted ::
    "(log_file_info \<Rightarrow> bool) \<Rightarrow> (string \<times> log_file_info) list \<Rightarrow> int \<Rightarrow> ((string \<times> log_file_info) list \<times> int) res" where
  "remove_counted out [] n = Inr ([], n)"
| "remove_counted out ((p, fi) # fs) n =
     (if out fi then
        bind_res (guard_res (n - 1 \<ge> 0) AssertFail) (\<lambda>_. remove_counted out fs (n - 1))
      else bind_res (remove_counted out fs n) (\<lambda>(fs', n'). Inr ((p, fi) # fs', n')))"

definition eval_remove :: "int \<Rightarrow> log_file_info \<Rightarrow> bool" where
  "eval_remove now fi \<longleftrightarrow> lf_last_used fi < now - CLEANUP_THRESHOLD"

definition log_support_cleanup :: "int \<Rightarrow> log_support_context \<Rightarrow> log_support_context res" where
  "log_support_cleanup now ctx =
     bind_res (remove_counted (eval_remove now) (lx_files ctx) (lx_num_opened ctx)) (\<lambda>(fs, n).
     Inr (ctx\<lparr>lx_files := fs, lx_num_opened := n\<rparr>))"

definition unconditional_remove :: "log_file_info \<Rightarrow> bool" where
  "unconditional_remove fi = True"

definition log_support_reopen :: "log_support_context \<Rightarrow> log_support_context res" where
  "log_support_reopen ctx =
     bind_res (remove_counted unconditional_remove (lx_files ctx) (lx_num_opened ctx)) (\<lambda>(fs, n).
     Inr (ctx\<lparr>lx_files := fs, lx_num_opened := n\<rparr>))"

text \<open>
  \<open>can_open\<close> says whether the directory of a path can be made and the file be opened. The entry is
  made before that is known.
\<close>

definition put_file :: "string \<Rightarrow> log_file_info \<Rightarrow> (string \<times> log_file_info) list \<Rightarrow> (string \<times> log_file_info) list" where
  "put_file path fi fs = (path, fi) # filter (\<lambda>(p, _). p \<noteq> path) fs"

definition log_support_write ::
    "int \<Rightarrow> (string \<Rightarrow> bool) \<Rightarrow> log_support_context \<Rightarrow> string \<Rightarrow> string \<Rightarrow> (bool \<times> log_support_context) res" where
  "log_support_write now can_open ctx path text =
     bind_res (if lx_num_opened ctx > MAX_OPEN_LOGFILES then log_support_cleanup now ctx else Inr ctx) (\<lambda>ctx1.
     let fi = (case map_of (lx_files ctx1) path of None \<Rightarrow> \<lparr>lf_file = False, lf_last_used = 0\<rparr> | Some fi \<Rightarrow> fi) in
     if \<not> lf_file fi \<and> \<not> can_open path then Inr (False, ctx1\<lparr>lx_files := put_file path fi (lx_files ctx1)\<rparr>)
     else
       Inr (True, ctx1\<lparr>lx_files := put_file path \<lparr>lf_file = True, lf_last_used = now\<rparr> (lx_files ctx1),
         lx_num_opened := lx_num_opened ctx1 + (if lf_file fi then 0 else 1),
         lx_written := lx_written ctx1 @ [(path, text)]\<rparr>))"

section \<open>The number of open files\<close>

inductive log_runs :: "(string \<Rightarrow> bool) \<Rightarrow> log_support_context \<Rightarrow> bool" for can_open where
  created: "log_runs can_open log_support_init"
| written: "log_runs can_open ctx \<Longrightarrow> log_support_write now can_open ctx path text = Inr (ok, ctx') \<Longrightarrow> log_runs can_open ctx'"
| reopened: "log_runs can_open ctx \<Longrightarrow> log_support_reopen ctx = Inr ctx' \<Longrightarrow> log_runs can_open ctx'"

text \<open>The count is right, and every entry has an open file.\<close>

definition log_inv :: "log_support_context \<Rightarrow> bool" where
  "log_inv ctx \<longleftrightarrow> lx_num_opened ctx = int (length (lx_files ctx)) \<and> distinct (map fst (lx_files ctx)) \<and>
     list_all (\<lambda>(_, fi). lf_file fi) (lx_files ctx)"

lemma remove_counted_ok:
  "int (length fs) \<le> n \<Longrightarrow> remove_counted out fs n =
    Inr (filter (\<lambda>(_, fi). \<not> out fi) fs, n - int (length (filter (\<lambda>(_, fi). out fi) fs)))"
  by (induction out fs n rule: remove_counted.induct) auto

lemma filter_count: "length (filter (\<lambda>(_, fi). \<not> out fi) fs) + length (filter (\<lambda>(_, fi). out fi) fs) = length fs"
  by (induction fs) auto

lemma removed_inv:
  assumes "log_inv ctx"
  shows "\<exists>fs n. remove_counted out (lx_files ctx) (lx_num_opened ctx) = Inr (fs, n) \<and>
    log_inv (ctx\<lparr>lx_files := fs, lx_num_opened := n\<rparr>)"
  using assms remove_counted_ok [of "lx_files ctx" "lx_num_opened ctx" out] filter_count [of out "lx_files ctx"]
  by (auto simp: log_inv_def list_all_iff distinct_map_filter)

lemma put_file_count:
  assumes "distinct (map fst fs)"
  shows "length (put_file p fi fs) = (case map_of fs p of None \<Rightarrow> Suc (length fs) | Some _ \<Rightarrow> length fs)"
    and "distinct (map fst (put_file p fi fs))"
proof -
  have none: "map_of xs p = None \<Longrightarrow> filter (\<lambda>(q, _). q \<noteq> p) xs = xs" for xs :: "(string \<times> log_file_info) list"
    by (induction xs) (auto split: if_split_asm)
  have "distinct (map fst xs) \<Longrightarrow> Suc (length (filter (\<lambda>(q, _). q \<noteq> p) xs)) =
      (case map_of xs p of None \<Rightarrow> Suc (length xs) | Some _ \<Rightarrow> length xs)" for xs :: "(string \<times> log_file_info) list"
  proof (induction xs)
    case (Cons x xs)
    have "fst x = p \<Longrightarrow> map_of xs p = None" using Cons.prems by (auto simp: map_of_eq_None_iff)
    then show ?case using Cons none [of xs] by (cases x) (auto split: option.split)
  qed simp
  then show "length (put_file p fi fs) = (case map_of fs p of None \<Rightarrow> Suc (length fs) | Some _ \<Rightarrow> length fs)"
    using assms by (simp add: put_file_def)
  show "distinct (map fst (put_file p fi fs))"
    using assms by (auto simp: put_file_def distinct_map_filter)
qed

lemma write_inv:
  assumes "log_inv ctx" "can_open path"
  shows "\<exists>ctx'. log_support_write now can_open ctx path text = Inr (True, ctx') \<and> log_inv ctx' \<and>
    lx_written ctx' = lx_written ctx @ [(path, text)]"
proof -
  obtain ctx1 where c: "(if lx_num_opened ctx > MAX_OPEN_LOGFILES then log_support_cleanup now ctx else Inr ctx) = Inr ctx1"
    "log_inv ctx1" "lx_written ctx1 = lx_written ctx"
  proof (cases "lx_num_opened ctx > MAX_OPEN_LOGFILES")
    case True
    then show ?thesis using that removed_inv [OF assms(1), of "eval_remove now"] by (auto simp: log_support_cleanup_def)
  next
    case False
    then show ?thesis using that [of ctx] assms(1) by simp
  qed
  note count = put_file_count [of "lx_files ctx1" path]
  have "lf_file fi" if "map_of (lx_files ctx1) path = Some fi" for fi
    using c(2) that by (auto simp: log_inv_def list_all_iff dest!: map_of_SomeD)
  then show ?thesis
    using c assms(2) count
    by (cases "map_of (lx_files ctx1) path") (auto simp: log_support_write_def log_inv_def put_file_def list_all_iff)
qed

text \<open>
  C25. As long as log files can be opened, every text is written to its file, in order; the count of
  open files is the number of files that are open, so that the assertions on it hold when files
  are closed because they were not used or because the program is told to reopen them.
\<close>

theorem log_files_counted:
  assumes "log_runs (\<lambda>_. True) ctx"
  shows "lx_num_opened ctx = int (length (lx_files ctx)) \<and> list_all (\<lambda>(_, fi). lf_file fi) (lx_files ctx) \<and>
    (\<exists>ctx'. log_support_write now (\<lambda>_. True) ctx path text = Inr (True, ctx') \<and>
       lx_written ctx' = lx_written ctx @ [(path, text)]) \<and>
    (\<exists>ctx'. log_support_reopen ctx = Inr ctx' \<and> lx_files ctx' = [] \<and> lx_num_opened ctx' = 0)"
proof -
  have inv: "log_inv ctx"
    using assms
  proof (induction rule: log_runs.induct)
    case created
    then show ?case by (simp add: log_inv_def log_support_init_def)
  next
    case (written ctx now path t ok ctx')
    then show ?case using write_inv [of ctx "\<lambda>_. True" path now t] by auto
  next
    case (reopened ctx ctx')
    then show ?case using removed_inv [of ctx unconditional_remove] by (auto simp: log_support_reopen_def)
  qed
  moreover have "\<exists>ctx'. log_support_reopen ctx = Inr ctx' \<and> lx_files ctx' = [] \<and> lx_num_opened ctx' = 0"
    using inv remove_counted_ok [of "lx_files ctx" "lx_num_opened ctx" unconditional_remove]
    by (auto simp: log_support_reopen_def log_inv_def unconditional_remove_def)
  ultimately show ?thesis
    using write_inv [OF inv, of "\<lambda>_. True" path now "text"] by (auto simp: log_inv_def)
qed

text \<open>
  A log file that cannot be opened is entered into the table all the same and is not counted.
  When the files are closed afterwards, it is counted as one of those, and the assertion on the
  count aborts the program.
\<close>

theorem failed_open_aborts:
  assumes "\<not> can_open path"
  shows "\<exists>ctx. log_support_write now can_open log_support_init path text = Inr (False, ctx) \<and>
    log_support_reopen ctx = Inl AssertFail"
  using assms
  by (simp add: log_support_write_def log_support_init_def MAX_OPEN_LOGFILES_def put_file_def log_support_reopen_def
      unconditional_remove_def)

theorem log_files_counted_witness:
  "\<exists>ctx. log_runs (\<lambda>_. True) ctx \<and> lx_num_opened ctx = 1 \<and> (\<exists>ctx'. log_support_reopen ctx = Inr ctx' \<and> lx_files ctx' = [])"
proof -
  obtain ctx where w: "log_support_write 7 (\<lambda>_. True) log_support_init ''log'' ''hello'' = Inr (True, ctx)" "lx_num_opened ctx = 1"
    by (simp add: log_support_write_def log_support_init_def MAX_OPEN_LOGFILES_def)
  have r: "log_runs (\<lambda>_. True) ctx" by (rule log_runs.written [OF log_runs.created w(1)])
  show ?thesis using r w(2) log_files_counted [OF r] by blast
qed

theorem failed_open_aborts_witness:
  "\<exists>ctx. log_support_write 7 (\<lambda>_. False) log_support_init ''log'' ''hello'' = Inr (False, ctx) \<and>
     log_support_reopen ctx = Inl AssertFail"
  by (rule failed_open_aborts) simp

end
