(* ===== verification/Log_Custom.thy ===== *)
theory Log_Custom
  imports Log_Subst Log_Files Hooks State_Spec
begin

text \<open>
  \<open>src/log_custom.c\<close>: what is written to which log file for the lines of a network. The files are
  those of \<open>Log_Files\<close>, their names and the lines in them come from \<open>Log_Subst\<close>.
\<close>

section \<open>Configuration\<close>

text \<open>The structure \<open>log_file_config\<close>: a format that is NULL turns the logging of its event off.\<close>

record log_file_config =
  lc_logbasedir_is_default :: bool
  lc_logbasedir :: "string option"
  lc_logfilename :: "string option"
  lc_is_irssi :: bool
  lc_nickchange :: "string option"
  lc_join :: "string option"
  lc_part :: "string option"
  lc_topic :: "string option"
  lc_notopic :: "string option"
  lc_msg :: "string option"
  lc_action :: "string option"
  lc_kick :: "string option"
  lc_mode :: "string option"
  lc_quit :: "string option"
  lc_notice :: "string option"

text \<open>The surroundings of a call: the time, the directories that can be written, and the settings.\<close>

record log_world =
  lw_time :: log_time
  lw_can_open :: "string \<Rightarrow> bool"
  lw_config :: log_file_config

definition network_get_info :: "('c, 'a) net \<Rightarrow> irc_network_info option" where
  "network_get_info network = map_option s_info (n_external_state network)"

section \<open>Writing\<close>

definition file_write_line ::
    "log_world \<Rightarrow> ('c, 'a) net \<Rightarrow> string \<Rightarrow> irc_line \<Rightarrow> string \<Rightarrow> log_support_context \<Rightarrow> log_support_context res" where
  "file_write_line w network fmt l identifier ctx =
     (case lc_logfilename (lw_config w) of
        None \<Rightarrow> Inr ctx
      | Some logfilename \<Rightarrow>
          let sc = \<lparr>sc_identifier = identifier, sc_network = network, sc_time = lw_time w\<rparr> in
          bind_res (custom_subst sc fmt l False False) (\<lambda>s.
          bind_res (custom_subst sc logfilename l True True) (\<lambda>n.
          bind_res (log_support_write (lt_now (lw_time w)) (lw_can_open w) ctx n (s @ [CHR 0x0A])) (\<lambda>(_, ctx').
          Inr ctx'))))"

definition file_write_line_target ::
    "log_world \<Rightarrow> ('c, 'a) net \<Rightarrow> string \<Rightarrow> irc_line \<Rightarrow> string \<Rightarrow> log_support_context \<Rightarrow> log_support_context res" where
  "file_write_line_target w network fmt l t ctx =
     (if has_chr t (CHR '','') then fold_res (file_write_line w network fmt l) (g_strsplit t (CHR '','') 0) ctx
      else file_write_line w network fmt l t ctx)"

definition file_write_target ::
    "log_world \<Rightarrow> ('c, 'a) net \<Rightarrow> string option \<Rightarrow> irc_line \<Rightarrow> log_support_context \<Rightarrow> log_support_context res" where
  "file_write_target w network fmt l ctx =
     (case fmt of
        None \<Rightarrow> Inr ctx
      | Some f \<Rightarrow>
          bind_res (bind_res (arg l 0) asserted) (\<lambda>_.
          bind_res (bind_res (arg l 1) asserted) (\<lambda>a1.
          bind_res (deref (n_external_state network)) (\<lambda>s.
          bind_res (asserted (nn_nick (s_me s))) (\<lambda>me.
          if irccmp (network_get_info network) me a1 = 0 then
            bind_res (if origin l \<noteq> None then line_get_nick l else Inr ''_messages_'') (\<lambda>t.
            file_write_line w network f l t ctx)
          else file_write_line_target w network f l a1 ctx)))))"

definition file_write_channel_only ::
    "log_world \<Rightarrow> ('c, 'a) net \<Rightarrow> string option \<Rightarrow> irc_line \<Rightarrow> log_support_context \<Rightarrow> log_support_context res" where
  "file_write_channel_only w network fmt l ctx =
     (case fmt of
        None \<Rightarrow> Inr ctx
      | Some f \<Rightarrow> bind_res (sarg l 1) (\<lambda>a1. file_write_line_target w network f l a1 ctx))"

text \<open>The channels of a user are walked in the order of the list of the user.\<close>

definition file_write_channel_query ::
    "log_world \<Rightarrow> ('c, 'a) net \<Rightarrow> string option \<Rightarrow> irc_line \<Rightarrow> log_support_context \<Rightarrow> log_support_context res" where
  "file_write_channel_query w network fmt l ctx =
     (if origin l = None then Inr ctx
      else case fmt of
        None \<Rightarrow> Inr ctx
      | Some f \<Rightarrow>
          (case n_external_state network of
             None \<Rightarrow> Inr ctx
           | Some s \<Rightarrow>
               bind_res (line_get_nick l) (\<lambda>nick.
               bind_res (find_network_nick s (Some nick)) (\<lambda>r.
               case r of
                 None \<Rightarrow> Inr ctx
               | Some nd \<Rightarrow>
                   bind_res (State.get_nick s nd) (\<lambda>nn.
                   bind_res (if nn_query nn then file_write_line w network f l nick ctx else Inr ctx) (\<lambda>ctx1.
                   fold_res (\<lambda>a ctx2.
                     bind_res (live (s_cn s a)) (\<lambda>cn.
                     bind_res (get_channel s (cn_channel cn)) (\<lambda>ch.
                     file_write_line w network f l (c_name ch) ctx2))) (nn_channel_nicks nn) ctx1))))))"

text \<open>
  The loop over the channels of a KICK. Both of its pointers walk over copies of the list of
  channels; it ends when one of them has no further comma.
\<close>

function kick_loop :: "('x \<Rightarrow> 'x res) \<Rightarrow> string \<Rightarrow> string \<Rightarrow> 'x \<Rightarrow> 'x res" where
  "kick_loop wr p nk ctx =
     bind_res (wr ctx) (\<lambda>ctx'.
     case dropWhile (\<lambda>c. c \<noteq> CHR '','') nk of
       [] \<Rightarrow> Inr ctx'
     | _ # nk' \<Rightarrow>
         (case dropWhile (\<lambda>c. c \<noteq> CHR '','') p of
            [] \<Rightarrow> Inr ctx'
          | _ # p' \<Rightarrow> kick_loop wr p' nk' ctx'))"
  by pat_completeness auto
termination
proof (relation "measure (\<lambda>(_, _, nk, _). length nk)", goal_cases)
  case (2 wr p nk ctx x c nk')
  then show ?case using length_dropWhile_le [of "\<lambda>c. c \<noteq> CHR '',''" nk] by simp
qed simp

declare kick_loop.simps [simp del]

section \<open>The log filter\<close>

text \<open>
  The text of a message that begins with the mark of CTCP is changed in place: its last character
  is cut off while the text after \<open>ACTION\<close> is logged, and the mark is put where it was. The
  line is a copy that later log filters get.
\<close>

definition set_arg2 :: "string \<Rightarrow> irc_line \<Rightarrow> irc_line" where
  "set_arg2 t l = l\<lparr>args := (args l)[2 := t]\<rparr>"

definition log_privmsg ::
    "log_world \<Rightarrow> ('c, 'a) net \<Rightarrow> irc_line \<Rightarrow> string \<Rightarrow> log_support_context \<Rightarrow> (irc_line \<times> log_support_context) res" where
  "log_privmsg w network l a2 ctx =
     (if first_char a2 = CHR 0x01 then
        let t = butlast a2 in
        bind_res (if g_ascii_strncasecmp t (CHR 0x01 # ''ACTION '') 8 = 0
                  then file_write_target w network (lc_action (lw_config w)) (set_arg2 (drop 8 t) l) ctx else Inr ctx) (\<lambda>ctx1.
        Inr (set_arg2 (t @ [CHR 0x01]) l, ctx1))
      else bind_res (file_write_target w network (lc_msg (lw_config w)) l ctx) (\<lambda>ctx1. Inr (l, ctx1)))"

text \<open>An argument that is looked at only when the tests before it succeeded.\<close>

definition has_arg :: "irc_line \<Rightarrow> nat \<Rightarrow> bool res" where
  "has_arg l i = bind_res (arg l i) (\<lambda>a. Inr (a \<noteq> None))"

definition and_then :: "bool res \<Rightarrow> bool res \<Rightarrow> bool res" where
  "and_then a b = bind_res a (\<lambda>x. if x then b else Inr False)"

definition log_custom_data ::
    "log_world \<Rightarrow> ('c, 'a) net \<Rightarrow> irc_line \<Rightarrow> data_direction \<Rightarrow> log_support_context \<Rightarrow>
     (bool \<times> irc_line \<times> log_support_context) res" where
  "log_custom_data w network l dir ctx =
     (let cfg = lw_config w; keep = (\<lambda>r. bind_res r (\<lambda>ctx'. Inr (True, l, ctx'))) in
      case args l of
        [] \<Rightarrow> Inr (True, l, ctx)
      | a0 # _ \<Rightarrow>
          if dir = FROM_SERVER \<and> base_eq a0 ''JOIN'' then keep (file_write_target w network (lc_join cfg) l ctx)
          else if dir = FROM_SERVER \<and> base_eq a0 ''PART'' then keep (file_write_channel_only w network (lc_part cfg) l ctx)
          else
          bind_res (and_then (Inr (base_eq a0 ''PRIVMSG'')) (has_arg l 2)) (\<lambda>msg.
          if msg then
            bind_res (sarg l 2) (\<lambda>a2. bind_res (log_privmsg w network l a2 ctx) (\<lambda>(l', ctx'). Inr (True, l', ctx')))
          else if base_eq a0 ''NOTICE'' then keep (file_write_target w network (lc_notice cfg) l ctx)
          else
          bind_res (and_then (Inr (base_eq a0 ''MODE'')) (and_then (has_arg l 1)
            (bind_res (sarg l 1) (\<lambda>a1. bind_res (asserted (network_get_info network)) (\<lambda>info. is_channelname (Some a1) info))))) (\<lambda>mode.
          if mode \<and> dir = FROM_SERVER then keep (file_write_target w network (lc_mode cfg) l ctx)
          else if base_eq a0 ''QUIT'' then keep (file_write_channel_query w network (lc_quit cfg) l ctx)
          else
          bind_res (and_then (Inr (base_eq a0 ''KICK'')) (and_then (has_arg l 1) (has_arg l 2))) (\<lambda>kick.
          if kick \<and> dir = FROM_SERVER then
            bind_res (sarg l 1) (\<lambda>a1.
            if \<not> has_chr a1 (CHR '','') then keep (file_write_channel_only w network (lc_kick cfg) l ctx)
            else keep (kick_loop (file_write_channel_only w network (lc_kick cfg) l) a1 a1 ctx))
          else
          bind_res (and_then (Inr (base_eq a0 ''TOPIC'' \<and> dir = FROM_SERVER)) (has_arg l 1)) (\<lambda>topic.
          if topic then
            bind_res (has_arg l 2) (\<lambda>set.
            keep (file_write_channel_only w network (if set then lc_topic cfg else lc_notopic cfg) l ctx))
          else
          bind_res (and_then (Inr (base_eq a0 ''NICK'' \<and> dir = FROM_SERVER)) (has_arg l 1)) (\<lambda>nick.
          if nick then keep (file_write_channel_query w network (lc_nickchange cfg) l ctx)
          else Inr (True, l, ctx)))))))"

section \<open>What is logged\<close>

text \<open>A line and the file it goes to, when it is logged under an identifier.\<close>

definition log_entry :: "log_world \<Rightarrow> ('c, 'a) net \<Rightarrow> string \<Rightarrow> string \<Rightarrow> irc_line \<Rightarrow> string \<Rightarrow> string \<times> string" where
  "log_entry w network logfilename fmt l identifier =
     (let sc = \<lparr>sc_identifier = identifier, sc_network = network, sc_time = lw_time w\<rparr> in
      (expand (expansion sc l True True) logfilename, expand (expansion sc l False False) fmt @ [CHR 0x0A]))"

text \<open>The files can be opened, the table of files is right, and the line fits into the buffer for mode changes.\<close>

definition log_ready :: "log_world \<Rightarrow> string \<Rightarrow> irc_line \<Rightarrow> log_support_context \<Rightarrow> bool" where
  "log_ready w logfilename l ctx \<longleftrightarrow> lc_logfilename (lw_config w) = Some logfilename \<and> (\<forall>p. lw_can_open w p) \<and>
     modes_fit l \<and> log_inv ctx"

text \<open>A computation that only adds entries.\<close>

definition logs ::
    "(log_support_context \<Rightarrow> log_support_context res) \<Rightarrow> (string \<times> string) list \<Rightarrow> bool" where
  "logs f es \<longleftrightarrow> (\<forall>ctx. log_inv ctx \<longrightarrow>
     (\<exists>ctx'. f ctx = Inr ctx' \<and> log_inv ctx' \<and> lx_written ctx' = lx_written ctx @ es))"

lemma logsE:
  assumes "logs f es" "log_inv ctx"
  obtains ctx' where "f ctx = Inr ctx'" "log_inv ctx'" "lx_written ctx' = lx_written ctx @ es"
  using assms by (auto simp: logs_def)

lemma logs_none [simp]: "logs Inr []"
  by (simp add: logs_def)

lemma logs_bind:
  assumes "logs f es" "logs g es'"
  shows "logs (\<lambda>ctx. bind_res (f ctx) g) (es @ es')"
  unfolding logs_def
proof (intro allI impI)
  fix ctx assume "log_inv ctx"
  then obtain c1 where 1: "f ctx = Inr c1" "log_inv c1" "lx_written c1 = lx_written ctx @ es" by (rule logsE [OF assms(1)])
  obtain c2 where "g c1 = Inr c2" "log_inv c2" "lx_written c2 = lx_written c1 @ es'" by (rule logsE [OF assms(2) 1(2)])
  with 1 show "\<exists>ctx'. bind_res (f ctx) g = Inr ctx' \<and> log_inv ctx' \<and> lx_written ctx' = lx_written ctx @ es @ es'" by simp
qed

lemma logs_fold:
  "(\<And>x. x \<in> set xs \<Longrightarrow> logs (f x) (es x)) \<Longrightarrow> logs (fold_res f xs) (concat (map es xs))"
proof (induction xs)
  case (Cons x xs)
  have "logs (\<lambda>ctx. bind_res (f x ctx) (fold_res f xs)) (es x @ concat (map es xs))"
    using Cons by (intro logs_bind) simp_all
  then show ?case by (simp add: logs_def)
qed (simp add: logs_def)

lemma logs_line:
  assumes "log_ready w logfilename l ctx0"
  shows "logs (file_write_line w network fmt l identifier) [log_entry w network logfilename fmt l identifier]"
  unfolding logs_def
proof (intro allI impI)
  fix ctx assume inv: "log_inv ctx"
  have r: "lc_logfilename (lw_config w) = Some logfilename" "modes_fit l" "lw_can_open w p" for p
    using assms by (auto simp: log_ready_def)
  define sc where "sc = \<lparr>sc_identifier = identifier, sc_network = network, sc_time = lw_time w\<rparr>"
  obtain ctx' where "log_support_write (lt_now (lw_time w)) (lw_can_open w) ctx (expand (expansion sc l True True) logfilename)
      (expand (expansion sc l False False) fmt @ [CHR 0x0A]) = Inr (True, ctx')" "log_inv ctx'"
      "lx_written ctx' = lx_written ctx @ [log_entry w network logfilename fmt l identifier]"
    using write_inv [where can_open = "lw_can_open w", OF inv r(3), of "lt_now (lw_time w)" "expand (expansion sc l True True) logfilename"
        "expand (expansion sc l False False) fmt @ [CHR 0x0A]"]
    by (simp add: log_entry_def sc_def Let_def) blast
  then show "\<exists>ctx'. file_write_line w network fmt l identifier ctx = Inr ctx' \<and> log_inv ctx' \<and>
      lx_written ctx' = lx_written ctx @ [log_entry w network logfilename fmt l identifier]"
    using r(1) by (simp add: file_write_line_def sc_def Let_def custom_subst_total [OF r(2)])
qed

lemma logs_line_target:
  assumes "log_ready w logfilename l ctx0"
  shows "logs (file_write_line_target w network fmt l t)
    (map (log_entry w network logfilename fmt l) (split_on (CHR '','') t))"
proof (cases "CHR '','' \<in> set t")
  case True
  then have "file_write_line_target w network fmt l t = fold_res (file_write_line w network fmt l) (split_on (CHR '','') t)"
    using has_chr_iff [of t "CHR '',''"] by (auto simp: file_write_line_target_def g_strsplit_def fun_eq_iff)
  moreover have "concat (map (\<lambda>x. [e x]) xs) = map e xs" for e :: "string \<Rightarrow> string \<times> string" and xs
    by (induction xs) simp_all
  ultimately show ?thesis using logs_fold [OF logs_line [OF assms], where xs = "split_on (CHR '','') t"] by simp
next
  case False
  then show ?thesis
    using logs_line [OF assms] has_chr_iff [of t "CHR '',''"] by (simp add: file_write_line_target_def split_on_single logs_def)
qed

lemma split_on_dropWhile:
  "split_on d s = takeWhile (\<lambda>c. c \<noteq> d) s # (case dropWhile (\<lambda>c. c \<noteq> d) s of [] \<Rightarrow> [] | _ # r \<Rightarrow> split_on d r)"
  by (induction s) (auto split: list.split)

lemma logs_kick_loop:
  assumes "logs wr es"
  shows "logs (kick_loop wr p p) (concat (replicate (length (split_on (CHR '','') p)) es))"
proof (induction "length p" arbitrary: p rule: less_induct)
  case less
  show ?case
  proof (cases "dropWhile (\<lambda>c. c \<noteq> CHR '','') p")
    case Nil
    then have "kick_loop wr p p = (\<lambda>ctx. bind_res (wr ctx) Inr)" by (simp only: fun_eq_iff kick_loop.simps [of wr p] list.case) simp
    moreover have "length (split_on (CHR '','') p) = 1" by (subst split_on_dropWhile) (simp add: Nil)
    ultimately show ?thesis using logs_bind [OF assms logs_none] by simp
  next
    case (Cons c r)
    then have "kick_loop wr p p = (\<lambda>ctx. bind_res (wr ctx) (kick_loop wr r r))" by (simp only: fun_eq_iff kick_loop.simps [of wr p] list.case) simp
    moreover have "length (split_on (CHR '','') p) = Suc (length (split_on (CHR '','') r))"
      by (subst split_on_dropWhile) (simp add: Cons)
    moreover have "length r < length p" using length_dropWhile_le [of "\<lambda>c. c \<noteq> CHR '',''" p] Cons by simp
    ultimately show ?thesis using logs_bind [OF assms less [of r]] by simp
  qed
qed

lemmas log_filter_defs = log_custom_data_def has_arg_def and_then_def arg_def sarg_def

definition log_commands :: "string list" where
  "log_commands = [''JOIN'', ''PART'', ''PRIVMSG'', ''NOTICE'', ''MODE'', ''QUIT'', ''KICK'', ''TOPIC'', ''NICK'']"

lemma log_commands_distinct:
  assumes "x \<in> set log_commands" "y \<in> set log_commands"
  shows "base_strcmp x y = 0 \<longleftrightarrow> x = y"
proof -
  have "list_all (\<lambda>x. list_all (\<lambda>y. base_strcmp x y = 0 \<longleftrightarrow> x = y) log_commands) log_commands" by code_simp
  then show ?thesis using assms by (simp only: list_all_iff)
qed

lemmas log_branches = log_filter_defs log_commands_distinct log_commands_def Let_def

lemma logs_keep:
  assumes "logs f es" "log_inv ctx"
  shows "\<exists>ctx'. bind_res (f ctx) (\<lambda>ctx'. Inr (True, l, ctx')) = Inr (True, l, ctx') \<and> log_inv ctx' \<and>
    lx_written ctx' = lx_written ctx @ es"
  using assms by (auto elim!: logsE)

text \<open>
  A KICK from several channels is logged too often: the loop over the channels writes the line
  for all of them each time, so that \<open>k\<close> channels get \<open>k\<close> copies each.
\<close>

theorem kick_logged_squared:
  assumes "log_ready w logfilename l ctx" "lc_kick (lw_config w) = Some fmt"
    and "args l = ''KICK'' # chans # nicks # rest" "CHR '','' \<in> set chans"
  shows "\<exists>ctx'. log_custom_data w network l FROM_SERVER ctx = Inr (True, l, ctx') \<and>
    lx_written ctx' = lx_written ctx @ concat (replicate (length (split_on (CHR '','') chans))
      (map (log_entry w network logfilename fmt l) (split_on (CHR '','') chans)))"
proof -
  have "file_write_channel_only w network (lc_kick (lw_config w)) l = file_write_line_target w network fmt l chans"
    using assms(2,3) by (simp add: file_write_channel_only_def sarg_def arg_def fun_eq_iff)
  then have "log_custom_data w network l FROM_SERVER ctx =
      bind_res (kick_loop (file_write_line_target w network fmt l chans) chans chans ctx) (\<lambda>ctx'. Inr (True, l, ctx'))"
    using assms(3,4) has_chr_iff [of chans "CHR '',''"] by (auto simp: log_branches)
  moreover have "log_inv ctx" using assms(1) by (simp add: log_ready_def)
  ultimately show ?thesis
    using logs_keep [OF logs_kick_loop [OF logs_line_target [OF assms(1)]]] by metis
qed

text \<open>The channels that a user is on.\<close>

definition user_channels :: "irc_network_state \<Rightarrow> network_nick \<Rightarrow> string list" where
  "user_channels s nn = map (\<lambda>a. ch_name s (cn_channel (the (s_cn s a)))) (nn_channel_nicks nn)"

lemma logs_channel_query:
  assumes "log_ready w logfilename l ctx0" "n_external_state network = Some s" "wf_graph s"
    and "line_get_nick l = Inr nick" "find_network_nick s (Some nick) = Inr (Some r)" "lookup_nick s r = Some nn"
  shows "logs (file_write_channel_query w network (Some fmt) l)
    (map (log_entry w network logfilename fmt l) ((if nn_query nn then [nick] else []) @ user_channels s nn))"
proof -
  have o: "origin l \<noteq> None" using assms(4) by (cases "origin l") (simp_all add: line_get_nick_def)
  let ?e = "log_entry w network logfilename fmt l"
  let ?one = "\<lambda>a ctx. bind_res (live (s_cn s a)) (\<lambda>cn. bind_res (get_channel s (cn_channel cn)) (\<lambda>ch.
      file_write_line w network fmt l (c_name ch) ctx))"
  let ?query = "\<lambda>ctx. if nn_query nn then file_write_line w network fmt l nick ctx else Inr ctx"
  have "logs (?one a) [?e (ch_name s (cn_channel (the (s_cn s a))))]" if a: "a \<in> set (nn_channel_nicks nn)" for a
  proof -
    obtain cn where cn: "s_cn s a = Some cn" using a wf_graph_nn(2) [OF assms(3,6)] by auto
    obtain ch where "s_ch s (cn_channel cn) = Some ch" by (rule wf_graph_cn [OF assms(3) cn])
    with cn have "?one a = file_write_line w network fmt l (ch_name s (cn_channel (the (s_cn s a))))"
      by (simp add: get_channel_def ch_name_def fun_eq_iff)
    then show ?thesis using logs_line [OF assms(1)] by (simp only:)
  qed
  then have "logs (fold_res ?one (nn_channel_nicks nn))
      (concat (map (\<lambda>a. [?e (ch_name s (cn_channel (the (s_cn s a))))]) (nn_channel_nicks nn)))"
    by (rule logs_fold)
  moreover have "concat (map (\<lambda>a. [?e (f a)]) xs) = map ?e (map f xs)" for f :: "addr \<Rightarrow> string" and xs
    by (induction xs) (simp_all only: list.map concat.simps append.simps)
  ultimately have ch: "logs (fold_res ?one (nn_channel_nicks nn)) (map ?e (user_channels s nn))"
    by (simp only: user_channels_def)
  have q: "logs ?query (map ?e (if nn_query nn then [nick] else []))"
    using logs_line [OF assms(1), of network fmt nick] logs_none by (cases "nn_query nn") (simp_all only: if_True if_False list.map)
  have "file_write_channel_query w network (Some fmt) l = (\<lambda>ctx. bind_res (?query ctx) (fold_res ?one (nn_channel_nicks nn)))"
    by (rule ext) (simp only: file_write_channel_query_def State.get_nick_def assms(2,4-6) o option.case if_False bind_res_simps live_simps)
  then show ?thesis using logs_bind [OF q ch] by (simp only: map_append)
qed

text \<open>
  A user who leaves the network is logged everywhere he was seen and nowhere else: in the file
  of the conversation with him, when there is one, and once in the file of each channel he is on, in
  the network state as it was before the line is handled.
\<close>

theorem quit_logged_in_channels:
  assumes "log_ready w logfilename l ctx" "lc_quit (lw_config w) = Some fmt" "args l = ''QUIT'' # rest"
    and "n_external_state network = Some s" "wf_graph s" "line_get_nick l = Inr nick"
    and "find_network_nick s (Some nick) = Inr (Some r)" "lookup_nick s r = Some nn"
  shows "\<exists>ctx'. log_custom_data w network l dir ctx = Inr (True, l, ctx') \<and>
    lx_written ctx' = lx_written ctx @
      map (log_entry w network logfilename fmt l) ((if nn_query nn then [nick] else []) @ user_channels s nn)"
proof -
  have "log_custom_data w network l dir ctx =
      bind_res (file_write_channel_query w network (Some fmt) l ctx) (\<lambda>ctx'. Inr (True, l, ctx'))"
    using assms(2,3) by (simp add: log_branches)
  moreover have "log_inv ctx" using assms(1) by (simp add: log_ready_def)
  ultimately show ?thesis
    using logs_keep [OF logs_channel_query [OF assms(1,4-8)]] by metis
qed

text \<open>
  A command without its target brings the logging down: a NOTICE that a client sends without
  arguments fails an assertion, a PRIVMSG reads a pointer behind the end of the arguments, and a
  PART of the server uses a NULL pointer.
\<close>

theorem log_needs_target:
  assumes "lc_notice (lw_config w) = Some f" "lc_part (lw_config w) = Some g"
    and "args l = [''NOTICE'']" "args l' = [''PRIVMSG'']" "args l'' = [''PART'']"
  shows "log_custom_data w network l TO_SERVER ctx = Inl AssertFail \<and>
    log_custom_data w network l' TO_SERVER ctx = Inl OutOfBounds \<and>
    log_custom_data w network l'' FROM_SERVER ctx = Inl NullDeref"
proof (intro conjI)
  show "log_custom_data w network l TO_SERVER ctx = Inl AssertFail"
    using assms(1,3) by (simp add: log_branches file_write_target_def)
  show "log_custom_data w network l' TO_SERVER ctx = Inl OutOfBounds"
    using assms(4) by (simp add: log_branches)
  show "log_custom_data w network l'' FROM_SERVER ctx = Inl NullDeref"
    using assms(2,5) by (simp add: log_branches file_write_channel_only_def)
qed

text \<open>The name of a log file in the default layout: a directory per network, a file per channel or user.\<close>

definition default_log_name :: "string \<Rightarrow> string option \<Rightarrow> string \<Rightarrow> string" where
  "default_log_name base name identifier =
     base @ ''/'' @ convertslashes (case name of None \<Rightarrow> [] | Some t \<Rightarrow> t) @ ''/'' @
     convertslashes (map ascii_tolower identifier)"

lemma expand_plain: "CHR ''%'' \<notin> set b \<Longrightarrow> expand g (b @ r) = b @ expand g r"
  by (induction b) auto

lemma log_entry_default:
  assumes "CHR ''%'' \<notin> set base"
  shows "fst (log_entry w network (base @ ''/%N/%@'') fmt l i) = default_log_name base (n_name network) i"
proof -
  let ?sc = "\<lparr>sc_identifier = i, sc_network = network, sc_time = lw_time w\<rparr>"
  have "find_mapping ?sc l (CHR ''N'') True = Inr (n_name network)"
    by (simp add: find_mapping_def mappings_def get_network_def)
  moreover have "find_mapping ?sc l (CHR ''@'') True = Inr (Some (map ascii_tolower i))"
    by (simp add: find_mapping_def mappings_def get_identifier_def dup_case_def)
  ultimately show ?thesis
    using assms by (simp add: log_entry_def default_log_name_def Let_def expand_plain expansion_def subst_text_def first_char_def)
qed

lemma log_custom_message:
  assumes "args l = [''PRIVMSG'', t, m]" "first_char m \<noteq> CHR 0x01"
  shows "log_custom_data w network l dir ctx =
    bind_res (file_write_target w network (lc_msg (lw_config w)) l ctx) (\<lambda>ctx'. Inr (True, l, ctx'))"
  using assms by (simp add: log_branches log_privmsg_def bind_res_assoc)

lemma logs_target:
  assumes "log_ready w logfilename l ctx0" "args l = a0 # t # rest" "n_external_state network = Some s"
    and "nn_nick (s_me s) = Some me" "lc_msg (lw_config w) = Some fmt"
  shows "irccmp (Some (s_info s)) me t = 0 \<Longrightarrow> line_get_nick l = Inr nick \<Longrightarrow>
      logs (file_write_target w network (lc_msg (lw_config w)) l) [log_entry w network logfilename fmt l nick]"
    and "irccmp (Some (s_info s)) me t \<noteq> 0 \<Longrightarrow> CHR '','' \<notin> set t \<Longrightarrow>
      logs (file_write_target w network (lc_msg (lw_config w)) l) [log_entry w network logfilename fmt l t]"
proof -
  assume c: "irccmp (Some (s_info s)) me t = 0" "line_get_nick l = Inr nick"
  have "origin l \<noteq> None" using c(2) by (cases "origin l") (simp_all add: line_get_nick_def)
  then have "file_write_target w network (lc_msg (lw_config w)) l = file_write_line w network fmt l nick"
    using assms(2-5) c by (simp add: file_write_target_def arg_def network_get_info_def fun_eq_iff)
  then show "logs (file_write_target w network (lc_msg (lw_config w)) l) [log_entry w network logfilename fmt l nick]"
    using logs_line [OF assms(1)] by simp
next
  assume c: "irccmp (Some (s_info s)) me t \<noteq> 0" "CHR '','' \<notin> set t"
  have "file_write_target w network (lc_msg (lw_config w)) l = file_write_line_target w network fmt l t"
    using assms(2-5) c by (simp add: file_write_target_def arg_def network_get_info_def fun_eq_iff)
  then show "logs (file_write_target w network (lc_msg (lw_config w)) l) [log_entry w network logfilename fmt l t]"
    using logs_line_target [OF assms(1), of network fmt t] c(2) by (simp add: split_on_single)
qed

text \<open>
  C26. Both sides of a private conversation are in one log file, in the order in which the lines
  passed: with the default names of log files, what a user writes to us and what we answer to the
  same nick, in whatever case, goes to the file of that nick.
\<close>

theorem private_talk_one_file:
  fixes w :: log_world and network :: "('c, 'a) net"
  assumes "log_ready w (base @ ''/%N/%@'') l1 ctx" "modes_fit l2" "CHR ''%'' \<notin> set base"
    and "lc_msg (lw_config w) = Some fmt" "n_external_state network = Some s" "nn_nick (s_me s) = Some me"
    and "args l1 = [''PRIVMSG'', t, m1]" "irccmp (Some (s_info s)) me t = 0" "line_get_nick l1 = Inr nick"
    and "args l2 = [''PRIVMSG'', nick', m2]" "irccmp (Some (s_info s)) me nick' \<noteq> 0" "CHR '','' \<notin> set nick'"
    and "map ascii_tolower nick' = map ascii_tolower nick" "first_char m1 \<noteq> CHR 0x01" "first_char m2 \<noteq> CHR 0x01"
  shows "\<exists>ctx1 ctx2 e1 e2. log_custom_data w network l1 FROM_SERVER ctx = Inr (True, l1, ctx1) \<and>
    log_custom_data w network l2 TO_SERVER ctx1 = Inr (True, l2, ctx2) \<and>
    lx_written ctx2 = lx_written ctx @ [(default_log_name base (n_name network) nick, e1),
      (default_log_name base (n_name network) nick, e2)]"
proof -
  have inv: "log_inv ctx" and r2: "log_ready w (base @ ''/%N/%@'') l2 ctx"
    using assms(1,2) by (simp_all add: log_ready_def)
  note 1 = logs_target(1) [OF assms(1,7,5,6,4,8,9)] and 2 = logs_target(2) [OF r2 assms(10,5,6,4,11,12)]
  obtain ctx1 where c1: "log_custom_data w network l1 FROM_SERVER ctx = Inr (True, l1, ctx1)" "log_inv ctx1"
      "lx_written ctx1 = lx_written ctx @ [log_entry w network (base @ ''/%N/%@'') fmt l1 nick]"
    using logs_keep [OF 1 inv, of l1] log_custom_message [OF assms(7,14), of w network FROM_SERVER ctx] by auto
  obtain ctx2 where c2: "log_custom_data w network l2 TO_SERVER ctx1 = Inr (True, l2, ctx2)"
      "lx_written ctx2 = lx_written ctx1 @ [log_entry w network (base @ ''/%N/%@'') fmt l2 nick']"
    using logs_keep [OF 2 c1(2), of l2] log_custom_message [OF assms(10,15), of w network TO_SERVER ctx1] by auto
  have "default_log_name base (n_name network) nick' = default_log_name base (n_name network) nick"
    using assms(13) by (simp add: default_log_name_def)
  then have "log_entry w network (base @ ''/%N/%@'') fmt l2 nick' =
      (default_log_name base (n_name network) nick, snd (log_entry w network (base @ ''/%N/%@'') fmt l2 nick'))"
    using log_entry_default [OF assms(3)] by (metis prod.collapse)
  moreover have "log_entry w network (base @ ''/%N/%@'') fmt l1 nick =
      (default_log_name base (n_name network) nick, snd (log_entry w network (base @ ''/%N/%@'') fmt l1 nick))"
    using log_entry_default [OF assms(3)] by (metis prod.collapse)
  ultimately show ?thesis using c1 c2 by (metis append.assoc append_Cons append_Nil)
qed

section \<open>Witnesses\<close>

definition demo_formats :: log_file_config where
  "demo_formats = \<lparr>lc_logbasedir_is_default = False, lc_logbasedir = Some ''/l'', lc_logfilename = Some (''/l'' @ ''/%N/%@''),
     lc_is_irssi = True, lc_nickchange = None, lc_join = None, lc_part = Some ''%n left'', lc_topic = None,
     lc_notopic = None, lc_msg = Some ''<%n> %m'', lc_action = None, lc_kick = Some ''%t kicked'', lc_mode = None,
     lc_quit = Some ''%n quit'', lc_notice = Some ''-%n- %m''\<rparr>"

definition demo_world :: log_world where
  "demo_world = \<lparr>lw_time = sc_time demo_subst, lw_can_open = (\<lambda>_. True), lw_config = demo_formats\<rparr>"

definition demo_log_net :: "(string list, unit) net" where
  "demo_log_net = (irc_network_new demo_log_config)\<lparr>n_external_state := Some demo_joined\<rparr>"

definition demo_kick :: irc_line where
  "demo_kick = demo_line ''op!o@h'' [''KICK'', ''#c,#d'', ''bob'', ''bye'']"

lemma demo_log_ready:
  assumes "modes_fit l"
  shows "log_ready demo_world (''/l'' @ ''/%N/%@'') l log_support_init"
  using assms
  by (simp add: log_ready_def demo_world_def demo_formats_def log_inv_def log_support_init_def)

theorem kick_logged_squared_witness:
  "\<exists>ctx'. log_custom_data demo_world demo_log_net demo_kick FROM_SERVER log_support_init = Inr (True, demo_kick, ctx') \<and>
     length (lx_written ctx') = 4"
proof -
  have "modes_fit demo_kick" by code_simp
  note r = demo_log_ready [OF this]
  have k: "lc_kick (lw_config demo_world) = Some ''%t kicked''" by (simp add: demo_world_def demo_formats_def)
  have a: "args demo_kick = [''KICK'', ''#c,#d'', ''bob'', ''bye'']" by (simp add: demo_kick_def demo_line_def)
  show ?thesis using kick_logged_squared [OF r k a, of demo_log_net] by (auto simp: log_support_init_def)
qed

theorem log_needs_target_witness:
  "log_custom_data demo_world demo_log_net (demo_line ''me'' [''NOTICE'']) TO_SERVER log_support_init = Inl AssertFail \<and>
   log_custom_data demo_world demo_log_net (demo_line ''me'' [''PRIVMSG'']) TO_SERVER log_support_init = Inl OutOfBounds \<and>
   log_custom_data demo_world demo_log_net (demo_line ''me'' [''PART'']) FROM_SERVER log_support_init = Inl NullDeref"
  by (rule log_needs_target [of _ "''-%n- %m''" "''%n left''"]) (simp_all add: demo_world_def demo_formats_def demo_line_def)

lemma demo_bob:
  "wf_graph demo_joined" "find_network_nick demo_joined (Some ''bob'') = Inr (Some (Nick 2))"
  "map_option nn_query (lookup_nick demo_joined (Nick 2)) = Some False"
  "map_option (user_channels demo_joined) (lookup_nick demo_joined (Nick 2)) = Some [''#c'', ''#d'']"
  subgoal by (rule demo_joined_props)
  subgoal by code_simp
  subgoal by code_simp
  subgoal by code_simp
  done

definition demo_quit :: irc_line where "demo_quit = demo_line ''bob!b@h'' [''QUIT'', ''bye'']"
definition demo_to_me :: irc_line where "demo_to_me = demo_line ''Bob!b@h'' [''PRIVMSG'', ''me'', ''hi'']"
definition demo_to_bob :: irc_line where "demo_to_bob = demo_line ''me!user@host'' [''PRIVMSG'', ''bob'', ''hello'']"

theorem quit_logged_in_channels_witness:
  "\<exists>ctx'. log_custom_data demo_world demo_log_net demo_quit FROM_SERVER log_support_init = Inr (True, demo_quit, ctx') \<and>
     lx_written ctx' = map (log_entry demo_world demo_log_net (''/l'' @ ''/%N/%@'') ''%n quit'' demo_quit) [''#c'', ''#d'']"
proof -
  have "modes_fit demo_quit" by code_simp
  note r = demo_log_ready [OF this]
  obtain nn where nn: "lookup_nick demo_joined (Nick 2) = Some nn" "\<not> nn_query nn" "user_channels demo_joined nn = [''#c'', ''#d'']"
    using demo_bob(3,4) by auto
  have q: "lc_quit (lw_config demo_world) = Some ''%n quit''" by (simp add: demo_world_def demo_formats_def)
  have a: "args demo_quit = ''QUIT'' # [''bye'']" "line_get_nick demo_quit = Inr ''bob''" by code_simp+
  have e: "n_external_state demo_log_net = Some demo_joined" by (simp add: demo_log_net_def)
  show ?thesis
    using quit_logged_in_channels [OF r q a(1) e demo_bob(1) a(2) demo_bob(2) nn(1), of FROM_SERVER] nn
    by (simp add: log_support_init_def)
qed

theorem private_talk_one_file_witness:
  "\<exists>ctx1 ctx2 e1 e2.
     log_custom_data demo_world demo_log_net demo_to_me FROM_SERVER log_support_init = Inr (True, demo_to_me, ctx1) \<and>
     log_custom_data demo_world demo_log_net demo_to_bob TO_SERVER ctx1 = Inr (True, demo_to_bob, ctx2) \<and>
     lx_written ctx2 = [(''/l/oftc_.._x/bob'', e1), (''/l/oftc_.._x/bob'', e2)]"
proof -
  have f: "modes_fit demo_to_me" "modes_fit demo_to_bob" by code_simp+
  have m: "lc_msg (lw_config demo_world) = Some ''<%n> %m''" by (simp add: demo_world_def demo_formats_def)
  have e: "n_external_state demo_log_net = Some demo_joined" by (simp add: demo_log_net_def)
  have me: "nn_nick (s_me demo_joined) = Some ''me''" by code_simp
  have i: "irccmp (Some (s_info demo_joined)) ''me'' ''me'' = 0" "irccmp (Some (s_info demo_joined)) ''me'' ''bob'' \<noteq> 0" by code_simp+
  have a: "args demo_to_me = [''PRIVMSG'', ''me'', ''hi'']" "line_get_nick demo_to_me = Inr ''Bob''"
    "args demo_to_bob = [''PRIVMSG'', ''bob'', ''hello'']" by code_simp+
  have d: "default_log_name ''/l'' (n_name demo_log_net) ''Bob'' = ''/l/oftc_.._x/bob''" by code_simp
  have lower: "map ascii_tolower ''bob'' = map ascii_tolower ''Bob''" by code_simp
  have "CHR ''%'' \<notin> set ''/l''" "CHR '','' \<notin> set ''bob''" "first_char ''hi'' \<noteq> CHR 0x01" "first_char ''hello'' \<noteq> CHR 0x01"
    by (simp_all add: first_char_def)
  from private_talk_one_file [OF demo_log_ready [OF f(1)] f(2) this(1) m e me a(1) i(1) a(2,3) i(2) this(2) lower this(3,4)]
  show ?thesis by (simp add: d log_support_init_def)
qed

end
