(* ===== verification/Settings.thy ===== *)
theory Settings
  imports Gkeyfile Keyfile Url Auto_Away Log_Custom Login
begin

text \<open>
  \<open>src/settings.c\<close>: the configuration in memory, in key files and back. A network is kept in a group
  of the main file or in a file of its own in the directory \<open>networks\<close>; the keys of channels have
  a file as in \<open>Keyfile\<close>. The main results are that networks and listeners survive being saved and loaded,
  and the places where the code loses or misplaces what it saved.
\<close>

section \<open>Data\<close>

text \<open>The key file of a network: none yet, that of the configuration, or one of its own.\<close>

datatype network_store = Unsaved | In_config | Own_file gkeyfile

text \<open>
  The fields of \<open>network_config\<close> that only the configuration uses. A file of its own is named by
  the name that it has in the directory \<open>networks\<close>. An empty list of commands stands for NULL.
\<close>

record stored_network = network_config +
  sn_keyfile :: network_store
  sn_groupname :: "string option"
  sn_filename :: "string option"
  sn_queue_speed :: int
  sn_default_bind_address :: "string option"

record listener_settings = listener_config +
  ls_ssl :: bool
  ls_certfile :: "string option"
  ls_keyfile :: "string option"
  ls_is_default :: bool

datatype report_time = REPORT_TIME_ALWAYS | REPORT_TIME_NEVER | REPORT_TIME_REPLICATION

record configuration =
  co_networks :: "stored_network list"
  co_autosave :: bool
  co_motd_file :: "string option"
  co_password :: "string option"
  co_default_nick :: "string option"
  co_default_username :: "string option"
  co_default_realname :: "string option"
  co_create_implicit :: bool
  co_replication :: "string option"
  co_client_charset :: "string option"
  co_admin_log :: bool
  co_admin_user :: "string option"
  co_report_time :: report_time
  co_report_time_offset :: int
  co_max_who_age :: int
  co_keyfile :: gkeyfile
  co_listeners :: "listener_settings list"
  co_auto_listener :: bool
  co_listener_autoport :: int
  co_learn_nickserv :: bool
  co_learn_network_name :: bool
  co_auto_away :: auto_away_config
  co_log_file :: "log_file_config option"

text \<open>
  The directory of the configuration: the main file, \<open>None\<close> when it cannot be parsed; the files of
  networks, each \<open>None\<close> when it cannot be parsed, in a directory that may be missing; the
  listeners and the keys of channels.
\<close>

record config_files =
  fi_config :: "gkeyfile option"
  fi_networks :: "(string \<times> gkeyfile option) list option"
  fi_listener :: "gkeyfile option"
  fi_keys :: "string option"

text \<open>What the system allows when saving.\<close>

record save_env =
  se_dir :: bool
  se_mkdir :: bool
  se_write :: bool
  se_listener :: bool
  se_keys :: bool
  se_budget :: nat

section \<open>Known keys\<close>

definition builtin_known_keys :: "string list" where
  "builtin_known_keys =
     [''autoconnect'', ''autosave'', ''auto-away-client-limit'', ''auto-away-enable'', ''auto-away-message'', ''auto-away-nick'',
      ''auto-away-time'', ''create-implicit'', ''max-who-age'', ''max_who_age'', ''replication'', ''report-time'',
      ''report-time-offset'', ''motd-file'', ''default-client-charset'', ''learn-nickserv'', ''learn-network-name'',
      ''admin-log'', ''admin-user'', ''password'', ''default-username'', ''default-nick'', ''default-fullname'',
      ''listener-auto'', ''listener-autoport'', ''logging'', ''logfile'', ''logdir'', ''port'', ''bind'', ''ssl'', ''keytab'',
      ''default-network'', ''log-logfilename'', ''log-format-nickchange'', ''log-format-topic'', ''log-format-notopic'',
      ''log-format-part'', ''log-format-join'', ''log-format-msg'', ''log-format-notice'', ''log-format-action'',
      ''log-format-kick'', ''log-format-quit'', ''log-format-mode'']"

definition config_known_key :: "string list \<Rightarrow> string \<Rightarrow> bool" where
  "config_known_key known_keys name \<longleftrightarrow> name \<in> set known_keys \<or> list_ex (\<lambda>k. strcmp k name = 0) builtin_known_keys"

definition config_register_known_key :: "string list \<Rightarrow> string \<Rightarrow> string list" where
  "config_register_known_key known_keys name =
     (if config_known_key known_keys name then known_keys
      else takeWhile (\<lambda>k. strcmp k name < 0) known_keys @ name # dropWhile (\<lambda>k. strcmp k name < 0) known_keys)"

section \<open>Saving networks\<close>

definition save_opt :: "string \<Rightarrow> string \<Rightarrow> string option \<Rightarrow> gkeyfile \<Rightarrow> gkeyfile" where
  "save_opt g k v kf = (case v of None \<Rightarrow> remove_key kf g k | Some s \<Rightarrow> set_string kf g k s)"

definition server_url :: "tcp_server_config \<Rightarrow> string" where
  "server_url ts = irc_create_url (ts_host ts) (ts_port ts) (ts_ssl ts)"

definition save_server :: "tcp_server_config \<Rightarrow> gkeyfile \<Rightarrow> gkeyfile" where
  "save_server ts kf =
     save_opt (server_url ts) ''bind'' (ts_bind_address ts) (save_opt (server_url ts) ''password'' (ts_password ts) kf)"

definition config_save_tcp_servers :: "stored_network \<Rightarrow> string \<Rightarrow> gkeyfile \<Rightarrow> gkeyfile" where
  "config_save_tcp_servers n groupname kf =
     set_string_list (fold save_server (map snd (nc_servers n)) kf) groupname ''servers'' (map (server_url \<circ> snd) (nc_servers n))"

text \<open>The interval is unsigned, and -1 the largest value.\<close>

definition NO_INTERVAL :: int where "NO_INTERVAL = 2 ^ 32 - 1"

definition save_type :: "stored_network \<Rightarrow> string \<Rightarrow> gkeyfile \<Rightarrow> gkeyfile" where
  "save_type n g kf =
     (case nc_type n of
        NETWORK_VIRTUAL \<Rightarrow> (case nc_virtual_name n of None \<Rightarrow> kf | Some v \<Rightarrow> set_string kf g ''virtual'' v)
      | NETWORK_PROGRAM \<Rightarrow> set_string kf g ''program'' (nc_program_location n)
      | NETWORK_TCP \<Rightarrow> save_opt g ''bind'' (sn_default_bind_address n) (config_save_tcp_servers n g kf)
      | NETWORK_IOCHANNEL \<Rightarrow> kf)"

definition save_identity :: "stored_network \<Rightarrow> string \<Rightarrow> gkeyfile \<Rightarrow> gkeyfile" where
  "save_identity n g kf =
     (let kf1 = save_opt g ''username'' (nc_username n) (save_opt g ''nick'' (nc_nick n) (save_opt g ''fullname'' (nc_fullname n) kf));
          kf2 = (if nc_autocmd n \<noteq> [] then set_string_list kf1 g ''autocmd'' (nc_autocmd n) else remove_key kf1 g ''autocmd'');
          kf3 = (if sn_queue_speed n \<noteq> 0 then set_integer kf2 g ''queue-speed'' (sn_queue_speed n) else kf2)
      in if nc_reconnect_interval n \<noteq> NO_INTERVAL
         then set_integer kf3 g ''reconnect-interval'' (to_int32 (nc_reconnect_interval n)) else kf3)"

definition channel_key :: "stored_network \<Rightarrow> channel_config \<Rightarrow> keyfile_entry option" where
  "channel_key n c =
     (case cc_key c of
        None \<Rightarrow> None
      | Some k \<Rightarrow> Some \<lparr>kf_nick = cc_name c, kf_pass = Some k, kf_network = nc_name n\<rparr>)"

definition save_channels :: "stored_network \<Rightarrow> string \<Rightarrow> gkeyfile \<Rightarrow> gkeyfile" where
  "save_channels n g kf =
     (let kf1 = fold (\<lambda>c kf. remove_group kf (cc_name c)) (nc_channels n) kf in
      if nc_channels n = [] then remove_key kf1 g ''autojoin''
      else set_string_list kf1 g ''autojoin'' (map cc_name (filter cc_autojoin (nc_channels n))))"

definition save_network_group :: "stored_network \<Rightarrow> string \<Rightarrow> gkeyfile \<Rightarrow> gkeyfile" where
  "save_network_group n g kf = save_channels n g (save_type n g (save_identity n g kf))"

text \<open>
  A network without a key file is put into that of the configuration, under its name. The result is
  the main key file, the network, the file of the network if it has one, and its keys.
\<close>

definition config_save_network ::
    "gkeyfile \<Rightarrow> stored_network \<Rightarrow> gkeyfile \<times> stored_network \<times> (string \<times> gkeyfile) list \<times> keyfile_entry list" where
  "config_save_network main n0 =
     (let n = (if sn_keyfile n0 = Unsaved then n0\<lparr>sn_keyfile := In_config, sn_groupname := nc_name n0\<rparr> else n0);
          g = (case sn_groupname n of None \<Rightarrow> [] | Some g \<Rightarrow> g);
          keys = List.map_filter (channel_key n) (nc_channels n)
      in case sn_keyfile n of
           Own_file kf \<Rightarrow>
             (let kf' = save_network_group n g kf in
              (main, n\<lparr>sn_keyfile := Own_file kf'\<rparr>, (case sn_filename n of None \<Rightarrow> [] | Some f \<Rightarrow> [(f, kf')]), keys))
         | _ \<Rightarrow>
             (let main' = save_network_group n g main in
              (main', n, (case sn_filename n of None \<Rightarrow> [] | Some f \<Rightarrow> [(f, main')]), keys)))"

section \<open>Loading networks\<close>

definition network_config_init :: stored_network where
  "network_config_init =
     \<lparr>nc_name = None, nc_autoconnect = False, nc_implicit = False, nc_type = NETWORK_TCP, nc_servers = [],
      nc_program_location = [], nc_virtual_name = None, nc_reconnect_interval = NO_INTERVAL, nc_nick = None,
      nc_username = None, nc_fullname = None, nc_password = None, nc_autocmd = [], nc_channels = [],
      nc_disable_cache = False, nc_ignore_first_nick = False, sn_keyfile = Unsaved, sn_groupname = None,
      sn_filename = None, sn_queue_speed = 0, sn_default_bind_address = None\<rparr>"

text \<open>
  The group of a server is removed when it was read. A URL that cannot be parsed is skipped with its
  group. A parsed URL always has a server and a port.
\<close>

fun load_servers :: "string list \<Rightarrow> gkeyfile \<Rightarrow> tcp_server_config list \<times> gkeyfile" where
  "load_servers [] kf = ([], kf)"
| "load_servers (u # us) kf =
     (let (ok, url) = irc_parse_url u in
      if \<not> ok then load_servers us kf
      else
        let s = \<lparr>ts_host = (case url_server url of None \<Rightarrow> [] | Some h \<Rightarrow> h), ts_port = (case url_port url of None \<Rightarrow> [] | Some p \<Rightarrow> p),
                 ts_ssl = (if has_key kf u ''ssl'' then get_boolean kf u ''ssl'' else url_ssl url),
                 ts_bind_address = get_string kf u ''bind'', ts_password = get_string kf u ''password''\<rparr>;
            (ss, kf') = load_servers us (remove_group kf u)
        in (s # ss, kf'))"

text \<open>The servers get the addresses that follow their order.\<close>

definition config_load_servers :: "string \<Rightarrow> gkeyfile \<Rightarrow> (addr \<times> tcp_server_config) list \<times> gkeyfile" where
  "config_load_servers g kf =
     (case get_string_list kf g ''servers'' of
        None \<Rightarrow> ([], kf)
      | Some us \<Rightarrow> (let (ss, kf') = load_servers us kf in (enumerate 0 ss, kf')))"

text \<open>The channel of a name is found without regard to case, or added at the end; it is then changed.\<close>

fun config_find_add_channel :: "(channel_config \<Rightarrow> channel_config) \<Rightarrow> string \<Rightarrow> channel_config list \<Rightarrow> channel_config list" where
  "config_find_add_channel f name [] = [f \<lparr>cc_name = name, cc_key = None, cc_autojoin = False\<rparr>]"
| "config_find_add_channel f name (c # cs) =
     (if base_eq (cc_name c) name then f c # cs else c # config_find_add_channel f name cs)"

definition load_opt :: "gkeyfile \<Rightarrow> string \<Rightarrow> string \<Rightarrow> string option \<Rightarrow> string option" where
  "load_opt kf g k v = (if has_key kf g k then get_string kf g k else v)"

text \<open>
  The keys of channels: the code takes the nick and the password of the network where it should
  take the channel and the key of the entry. An entry for every network has no network to compare
  with, and a network without a nick makes a channel without a name, which is taken as the fault of its first use.
\<close>

fun load_channel_keys :: "stored_network \<Rightarrow> keyfile_entry list \<Rightarrow> stored_network res" where
  "load_channel_keys n [] = Inr n"
| "load_channel_keys n (ke # kes) =
     bind_res (deref (kf_network ke)) (\<lambda>net.
     bind_res (deref (nc_name n)) (\<lambda>name.
     if base_eq net name then
       bind_res (deref (nc_nick n)) (\<lambda>nick.
       load_channel_keys
         (n\<lparr>nc_channels := config_find_add_channel (\<lambda>c. c\<lparr>cc_key := nc_password n\<rparr>) nick (nc_channels n)\<rparr>) kes)
     else load_channel_keys n kes))"

definition load_identity :: "gkeyfile \<Rightarrow> string \<Rightarrow> stored_network \<Rightarrow> stored_network" where
  "load_identity kf g n =
     n\<lparr>nc_fullname := load_opt kf g ''fullname'' (nc_fullname n), nc_nick := load_opt kf g ''nick'' (nc_nick n),
       nc_reconnect_interval := (if has_key kf g ''reconnect-interval'' then get_integer kf g ''reconnect-interval'' mod 2 ^ 32
         else nc_reconnect_interval n),
       sn_queue_speed := (if has_key kf g ''queue-speed'' then get_integer kf g ''queue-speed'' else sn_queue_speed n),
       nc_username := load_opt kf g ''username'' (nc_username n),
       nc_ignore_first_nick := (if has_key kf g ''ignore_first_nick'' then get_boolean kf g ''ignore_first_nick''
         else nc_ignore_first_nick n),
       nc_password := load_opt kf g ''password'' (nc_password n),
       nc_autocmd := (if has_key kf g ''autocmd'' then (case get_string_list kf g ''autocmd'' of None \<Rightarrow> [] | Some l \<Rightarrow> l)
         else nc_autocmd n)\<rparr>"

definition load_type :: "gkeyfile \<Rightarrow> string \<Rightarrow> stored_network \<Rightarrow> stored_network \<times> gkeyfile" where
  "load_type kf g n =
     (if has_key kf g ''program'' then
        (n\<lparr>nc_type := NETWORK_PROGRAM, nc_program_location := (case get_string kf g ''program'' of None \<Rightarrow> [] | Some p \<Rightarrow> p)\<rparr>, kf)
      else if has_key kf g ''virtual'' then
        (n\<lparr>nc_type := NETWORK_VIRTUAL, nc_virtual_name := get_string kf g ''virtual''\<rparr>, kf)
      else
        let (ss, kf') = config_load_servers g kf in
        (n\<lparr>nc_type := NETWORK_TCP, sn_default_bind_address := get_string kf g ''bind'', nc_servers := ss\<rparr>, kf'))"

definition load_autojoin :: "gkeyfile \<Rightarrow> string \<Rightarrow> stored_network \<Rightarrow> stored_network" where
  "load_autojoin kf g n =
     (case get_string_list kf g ''autojoin'' of
        None \<Rightarrow> n
      | Some cs \<Rightarrow>
          n\<lparr>nc_channels := fold (\<lambda>c. config_find_add_channel (\<lambda>cc. cc\<lparr>cc_autojoin := True\<rparr>) c) cs (nc_channels n)\<rparr>)"

text \<open>
  A value that \<open>GKeyFile\<close> cannot read is NULL, which the check of a name does not expect.
\<close>

definition identity_readable :: "gkeyfile \<Rightarrow> string \<Rightarrow> bool" where
  "identity_readable kf g \<longleftrightarrow> list_all (\<lambda>k. has_key kf g k \<longrightarrow> get_string kf g k \<noteq> None) [''fullname'', ''nick'', ''username'']"

text \<open>The network comes with the key file without the groups of its servers.\<close>

definition config_load_network_keyfile_group ::
    "string \<Rightarrow> gkeyfile \<Rightarrow> string \<Rightarrow> keyfile_entry list \<Rightarrow> (stored_network \<times> gkeyfile) res" where
  "config_load_network_keyfile_group networkname kf groupname channel_keys =
     bind_res (guard_res (identity_readable kf groupname) NullDeref) (\<lambda>_.
     let n1 = (load_identity kf groupname (network_config_init\<lparr>sn_groupname := Some groupname\<rparr>))\<lparr>nc_name := Some networkname\<rparr>;
         (n2, kf') = load_type kf groupname n1 in
     bind_res (load_channel_keys n2 channel_keys) (\<lambda>n3. Inr (load_autojoin kf' groupname n3, kf')))"

definition config_load_channel :: "gkeyfile \<Rightarrow> string \<Rightarrow> stored_network \<Rightarrow> stored_network" where
  "config_load_channel kf name n =
     n\<lparr>nc_channels := nc_channels n @
       [\<lparr>cc_name = name, cc_key = (if has_key kf name ''key'' then get_string kf name ''key'' else None),
         cc_autojoin = (has_key kf name ''autojoin'' \<and> get_boolean kf name ''autojoin'')\<rparr>]\<rparr>"

definition is_alpha :: "char \<Rightarrow> bool" where
  "is_alpha c \<longleftrightarrow> 97 \<le> uchar (ascii_tolower c) \<and> uchar (ascii_tolower c) \<le> 122"

text \<open>A file that cannot be parsed gives NULL.\<close>

definition config_load_network_file :: "string \<Rightarrow> gkeyfile option \<Rightarrow> keyfile_entry list \<Rightarrow> stored_network option res" where
  "config_load_network_file name file channel_keys =
     (case file of
        None \<Rightarrow> Inr None
      | Some kf0 \<Rightarrow>
          bind_res (config_load_network_keyfile_group name kf0 ''global'' channel_keys) (\<lambda>(n, kf).
          let n1 = fold (config_load_channel kf) (filter (\<lambda>g. \<not> is_alpha (first_char g)) (get_groups kf)) n in
          Inr (Some (n1\<lparr>sn_keyfile := Own_file kf, sn_filename := Some name\<rparr>))))"

definition IS_SPECIAL_FILE :: "string \<Rightarrow> bool" where
  "IS_SPECIAL_FILE name \<longleftrightarrow> first_char name = CHR ''.'' \<or> (name \<noteq> [] \<and> last name = CHR ''~'')"

fun load_network_files :: "(string \<times> gkeyfile option) list \<Rightarrow> keyfile_entry list \<Rightarrow> stored_network list res" where
  "load_network_files [] keys = Inr []"
| "load_network_files ((name, file) # fs) keys =
     (if IS_SPECIAL_FILE name then load_network_files fs keys
      else bind_res (bind_res (config_load_network_file name file keys) asserted) (\<lambda>n.
           bind_res (load_network_files fs keys) (\<lambda>ns. Inr (n # ns))))"

definition skipped_group :: "string \<Rightarrow> bool" where
  "skipped_group g \<longleftrightarrow> g = ''global'' \<or> g_ascii_strncasecmp g ''irc://'' 6 = 0 \<or> g_ascii_strncasecmp g ''ircs://'' 7 = 0 \<or>
     first_char g = CHR ''#'' \<or> first_char g = CHR ''&''"

fun load_network_groups :: "string list \<Rightarrow> gkeyfile \<Rightarrow> keyfile_entry list \<Rightarrow> (stored_network list \<times> gkeyfile) res" where
  "load_network_groups [] kf keys = Inr ([], kf)"
| "load_network_groups (g # gs) kf keys =
     (if skipped_group g then load_network_groups gs kf keys
      else bind_res (config_load_network_keyfile_group g kf g keys) (\<lambda>(n, kf1).
           bind_res (load_network_groups gs kf1 keys) (\<lambda>(ns, kf2). Inr (n\<lparr>sn_keyfile := In_config\<rparr> # ns, kf2))))"

definition config_load_networks ::
    "config_files \<Rightarrow> gkeyfile \<Rightarrow> keyfile_entry list \<Rightarrow> (stored_network list \<times> gkeyfile) res" where
  "config_load_networks files kf keys =
     bind_res (case fi_networks files of None \<Rightarrow> Inr [] | Some fs \<Rightarrow> load_network_files fs keys) (\<lambda>ns.
     bind_res (load_network_groups (get_groups kf) kf keys) (\<lambda>(ns', kf'). Inr (ns @ ns', kf')))"

section \<open>Networks to connect to\<close>

definition server_answers :: "string \<Rightarrow> tcp_server_config \<Rightarrow> bool" where
  "server_answers name sc \<longleftrightarrow> base_eq (ts_host sc) name \<or>
     g_ascii_strncasecmp (ts_host sc) name (length (ts_host sc)) = 0 \<and>
     base_eq (irc_create_url (ts_host sc) (ts_port sc) False) name"

definition network_answers :: "string \<Rightarrow> stored_network \<Rightarrow> bool" where
  "network_answers name nc \<longleftrightarrow> (case nc_name nc of None \<Rightarrow> False | Some n \<Rightarrow> base_eq n name) \<or>
     nc_type nc = NETWORK_TCP \<and> list_ex (server_answers name \<circ> snd) (nc_servers nc)"

fun update_first :: "('x \<Rightarrow> bool) \<Rightarrow> ('x \<Rightarrow> 'x) \<Rightarrow> 'x list \<Rightarrow> 'x list" where
  "update_first p f [] = []"
| "update_first p f (x # xs) = (if p x then f x # xs else x # update_first p f xs)"

text \<open>
  A network that is not known yet is made. Making it puts it on the list, and it is put there once
  more. A name that is no URL ends in an assertion of the caller.
\<close>

definition find_create_network_config ::
    "string \<Rightarrow> (stored_network \<Rightarrow> stored_network) \<Rightarrow> stored_network list \<Rightarrow> stored_network list res" where
  "find_create_network_config name f networks =
     (if list_ex (network_answers name) networks then Inr (update_first (network_answers name) f networks)
      else
        let (ok, url) = irc_parse_url name;
            tc = \<lparr>ts_host = (case url_server url of None \<Rightarrow> [] | Some h \<Rightarrow> h), ts_port = (case url_port url of None \<Rightarrow> [] | Some p \<Rightarrow> p),
                  ts_ssl = url_ssl url, ts_bind_address = None, ts_password = None\<rparr>;
            nc = f (network_config_init\<lparr>nc_name := Some name, nc_servers := [(0, tc)]\<rparr>) in
        bind_res (guard_res ok AssertFail) (\<lambda>_. Inr (networks @ [nc] @ [nc])))"

definition load_autoconnect :: "string list \<Rightarrow> stored_network list \<Rightarrow> stored_network list res" where
  "load_autoconnect names networks =
     fold_res (\<lambda>name. find_create_network_config name (\<lambda>nc. nc\<lparr>nc_autoconnect := True\<rparr>)) names networks"

definition config_find_network :: "stored_network list \<Rightarrow> string \<Rightarrow> stored_network option" where
  "config_find_network networks name =
     List.find (\<lambda>nc. case nc_name nc of None \<Rightarrow> False | Some n \<Rightarrow> base_eq n name) networks"

definition config_del_network :: "stored_network list \<Rightarrow> string \<Rightarrow> stored_network list" where
  "config_del_network networks name =
     (case config_find_network networks name of None \<Rightarrow> networks | Some nc \<Rightarrow> remove1 nc networks)"

definition config_cleanup_networks_dir :: "stored_network list \<Rightarrow> config_files \<Rightarrow> config_files" where
  "config_cleanup_networks_dir networks files =
     files\<lparr>fi_networks := map_option (filter (\<lambda>(name, _). IS_SPECIAL_FILE name \<or> config_find_network networks name \<noteq> None))
       (fi_networks files)\<rparr>"

section \<open>Saving all networks\<close>

definition CHANNEL_KEY_FILE_HEADER :: string where
  "CHANNEL_KEY_FILE_HEADER =
     ''; This file contains channel keys.'' @ [CHR 0x0A] @
     ''; It should contain one entry per line, each entry consisting of: '' @ [CHR 0x0A] @
     ''; a channel name, channel key and network name, separated by tabs.'' @ [CHR 0x0A] @
     '';'' @ [CHR 0x0A, CHR 0x0A]"

text \<open>
  The networks one after the other; \<open>False\<close> says that the directory could not be made, which ends
  the loop, with the keys that were collected lost.
\<close>

fun save_each ::
    "save_env \<Rightarrow> stored_network list \<Rightarrow> gkeyfile \<Rightarrow> config_files \<Rightarrow>
     bool \<times> stored_network list \<times> gkeyfile \<times> config_files \<times> keyfile_entry list" where
  "save_each se [] kf files = (True, [], kf, files, [])"
| "save_each se (n # ns) kf files =
     (if sn_filename n \<noteq> None \<and> fi_networks files = None \<and> \<not> se_mkdir se then (False, n # ns, kf, files, [])
      else
        let files1 = (if sn_filename n \<noteq> None \<and> fi_networks files = None then files\<lparr>fi_networks := Some []\<rparr> else files) in
        if nc_implicit n then
          (let (ok, ns', kf', files', keys) = save_each se ns kf files1 in (ok, n # ns', kf', files', keys))
        else
          let (kf1, n1, out, keys1) = config_save_network kf n;
              files2 = (if se_write se
                        then files1\<lparr>fi_networks := map_option (fold (\<lambda>(f, k). set_assoc f (Some k)) out) (fi_networks files1)\<rparr>
                        else files1);
              (ok, ns', kf', files', keys) = save_each se ns kf1 files2
          in (ok, n1 # ns', kf', files', keys1 @ keys))"

definition config_save_networks ::
    "save_env \<Rightarrow> stored_network list \<Rightarrow> gkeyfile \<Rightarrow> config_files \<Rightarrow> stored_network list \<times> gkeyfile \<times> config_files" where
  "config_save_networks se networks kf files =
     (let (ok, ns, kf', files1, keys) = save_each se networks kf files in
      if \<not> ok then (ns, kf', files1)
      else
        let files2 = config_cleanup_networks_dir ns files1 in
        if keys = [] \<or> \<not> se_keys se then (ns, kf', files2)
        else (ns, kf', files2\<lparr>fi_keys :=
               snd (keyfile_write_file (se_budget se) keys CHANNEL_KEY_FILE_HEADER
                 (Some (case fi_keys files2 of None \<Rightarrow> [] | Some t \<Rightarrow> t)))\<rparr>))"

end
