(* ===== verification/Configuration.thy ===== *)
theory Configuration
  imports Settings
begin

text \<open>
  \<open>src/settings.c\<close>, the rest: listeners, logging, automatic away and the settings of the program, and
  the two functions that load and save all of it.
\<close>

section \<open>Listeners\<close>

definition new_listener :: listener_settings where
  "new_listener = \<lparr>lc_network = None, lc_password = None, lc_address = None, lc_port = None, lc_allow_rules = [], ls_ssl = False,
     ls_certfile = None, ls_keyfile = None, ls_is_default = False\<rparr>"

definition set_opt :: "string \<Rightarrow> string \<Rightarrow> string option \<Rightarrow> gkeyfile \<Rightarrow> gkeyfile" where
  "set_opt g k v kf = (case v of None \<Rightarrow> kf | Some s \<Rightarrow> set_string kf g k s)"

definition save_default_listener :: "listener_settings \<Rightarrow> gkeyfile \<Rightarrow> gkeyfile" where
  "save_default_listener l kf =
     (let kf1 = set_opt ''global'' ''password'' (lc_password l)
                  (set_opt ''global'' ''bind'' (lc_address l) (set_opt ''global'' ''port'' (lc_port l) kf));
          kf2 = (if has_key kf1 ''global'' ''ssl'' \<or> ls_ssl l then set_boolean kf1 ''global'' ''ssl'' (ls_ssl l) else kf1)
      in set_opt ''global'' ''default-network'' (lc_network l) kf2)"

definition listener_group :: "listener_settings \<Rightarrow> string" where
  "listener_group l =
     (let port = (case lc_port l of None \<Rightarrow> [] | Some p \<Rightarrow> p) in
      case lc_address l of None \<Rightarrow> port | Some a \<Rightarrow> a @ '':'' @ port)"

definition save_other_listener :: "listener_settings \<Rightarrow> gkeyfile \<Rightarrow> gkeyfile" where
  "save_other_listener l kf =
     (let g = listener_group l;
          kf1 = set_boolean (set_opt g ''network'' (lc_network l) (set_opt g ''password'' (lc_password l) kf)) g ''ssl'' (ls_ssl l)
      in if ls_ssl l then set_opt g ''keyfile'' (ls_keyfile l) (set_opt g ''certfile'' (ls_certfile l) kf1) else kf1)"

text \<open>The main key file and the file \<open>listener\<close>, which is removed when it would be empty.\<close>

definition config_save_listeners :: "save_env \<Rightarrow> configuration \<Rightarrow> gkeyfile \<Rightarrow> config_files \<Rightarrow> gkeyfile \<times> config_files" where
  "config_save_listeners se cfg kf files =
     (let kf1 = set_opt ''global'' ''password'' (co_password cfg) kf;
          kf2 = (if co_auto_listener cfg
                 then set_integer (set_boolean kf1 ''global'' ''listener-auto'' True) ''global'' ''listener-autoport'' (co_listener_autoport cfg)
                 else kf1);
          kf3 = fold save_default_listener (filter ls_is_default (co_listeners cfg)) kf2;
          others = filter (\<lambda>l. \<not> ls_is_default l) (co_listeners cfg)
      in (kf3, if others = [] then files\<lparr>fi_listener := None\<rparr>
               else if se_listener se then files\<lparr>fi_listener := Some (fold save_other_listener others [])\<rparr> else files))"

text \<open>The files of a certificate are read for a listener with encryption; the program is built with GnuTLS.\<close>

definition load_default_listener :: "gkeyfile \<Rightarrow> listener_settings list" where
  "load_default_listener kf =
     (if has_key kf ''global'' ''port'' then
        let ssl = (has_key kf ''global'' ''ssl'' \<and> get_boolean kf ''global'' ''ssl'') in
        [new_listener\<lparr>lc_port := get_string kf ''global'' ''port'', lc_password := get_string kf ''global'' ''password'',
           lc_address := get_string kf ''global'' ''bind'', ls_ssl := ssl,
           ls_certfile := (if ssl then get_string kf ''global'' ''certfile'' else None),
           ls_keyfile := (if ssl then get_string kf ''global'' ''keyfile'' else None),
           ls_is_default := True, lc_network := get_string kf ''global'' ''default-network''\<rparr>]
      else [])"

definition split_last :: "char \<Rightarrow> string \<Rightarrow> (string \<times> string) option" where
  "split_last d s =
     (if d \<in> set s
      then Some (rev (tl (dropWhile (\<lambda>c. c \<noteq> d) (rev s))), rev (takeWhile (\<lambda>c. c \<noteq> d) (rev s))) else None)"

definition load_other_listener :: "gkeyfile \<Rightarrow> string \<Rightarrow> listener_settings" where
  "load_other_listener kf g =
     (let (address, port) = (case split_last (CHR '':'') g of None \<Rightarrow> (None, g) | Some (a, p) \<Rightarrow> (Some a, p));
          ssl = (has_key kf g ''ssl'' \<and> get_boolean kf g ''ssl'') in
      new_listener\<lparr>lc_port := Some port, lc_address := address, lc_password := get_string kf g ''password'', ls_ssl := ssl,
        ls_certfile := (if ssl then get_string kf g ''certfile'' else None),
        ls_keyfile := (if ssl then get_string kf g ''keyfile'' else None), lc_network := get_string kf g ''network''\<rparr>)"

text \<open>Old names of settings are taken over and removed.\<close>

definition move_password :: "gkeyfile \<Rightarrow> gkeyfile" where
  "move_password kf =
     (if has_key kf ''listener'' ''password'' then
        remove_key (set_opt ''global'' ''password'' (get_string kf ''listener'' ''password'') kf) ''listener'' ''password''
      else kf)"

definition config_load_listeners :: "config_files \<Rightarrow> configuration \<Rightarrow> configuration" where
  "config_load_listeners files cfg =
     (let kf = move_password (co_keyfile cfg);
          (auto, kf1) = (if has_key kf ''global'' ''listener-auto'' then (get_boolean kf ''global'' ''listener-auto'', kf)
            else if has_key kf ''listener'' ''auto'' then (get_boolean kf ''listener'' ''auto'', remove_key kf ''listener'' ''auto'')
            else (co_auto_listener cfg, kf));
          (aport, kf2) = (if has_key kf1 ''global'' ''listener-autoport'' then (get_integer kf1 ''global'' ''listener-autoport'', kf1)
            else if has_key kf1 ''listener'' ''autoport''
              then (get_integer kf1 ''listener'' ''autoport'', remove_key kf1 ''listener'' ''autoport'')
            else (co_listener_autoport cfg, kf1));
          others = (case fi_listener files of None \<Rightarrow> [] | Some lf \<Rightarrow> map (load_other_listener lf) (get_groups lf))
      in cfg\<lparr>co_password := get_string kf ''global'' ''password'', co_auto_listener := auto, co_listener_autoport := aport,
           co_keyfile := kf2, co_listeners := co_listeners cfg @ load_default_listener kf2 @ others\<rparr>)"

definition DEFAULT_SOCKS_PORT :: int where "DEFAULT_SOCKS_PORT = 1080"

definition socks_rule :: "string \<Rightarrow> allow_rule" where
  "socks_rule a =
     (case g_strsplit a (CHR '':'') 2 of
        [] \<Rightarrow> \<lparr>ar_username = None, ar_password = None\<rparr>
      | [u] \<Rightarrow> \<lparr>ar_username = Some u, ar_password = None\<rparr>
      | u # p # _ \<Rightarrow> \<lparr>ar_username = Some u, ar_password = Some p\<rparr>)"

definition config_load_listeners_socks :: "configuration \<Rightarrow> configuration" where
  "config_load_listeners_socks cfg =
     (let kf = co_keyfile cfg in
      case get_string_list kf ''socks'' ''allow'' of
        None \<Rightarrow> cfg
      | Some allows \<Rightarrow>
          let l = new_listener\<lparr>lc_port := (if has_key kf ''socks'' ''port'' then get_string kf ''socks'' ''port''
                    else Some (show_int DEFAULT_SOCKS_PORT)),
                  ls_is_default := (case co_listeners cfg of [] \<Rightarrow> True | l0 # _ \<Rightarrow> \<not> ls_is_default l0),
                  lc_allow_rules := map socks_rule allows\<rparr>
          in cfg\<lparr>co_keyfile := remove_group kf ''socks'', co_listeners := co_listeners cfg @ [l]\<rparr>)"

section \<open>Logging\<close>

definition no_log :: log_file_config where
  "no_log = \<lparr>lc_logbasedir_is_default = False, lc_logbasedir = None, lc_logfilename = None, lc_is_irssi = False, lc_nickchange = None,
     lc_join = None, lc_part = None, lc_topic = None, lc_notopic = None, lc_msg = None, lc_action = None, lc_kick = None,
     lc_mode = None, lc_quit = None, lc_notice = None\<rparr>"

definition config_save_log :: "log_file_config option \<Rightarrow> gkeyfile \<Rightarrow> gkeyfile" where
  "config_save_log data kf =
     (case data of
        None \<Rightarrow> set_string kf ''global'' ''logging'' ''none''
      | Some d \<Rightarrow>
          if lc_is_irssi d then
            let kf1 = set_string kf ''global'' ''logging'' ''irssi'' in
            (case lc_logbasedir d of
               Some dir \<Rightarrow> if lc_logbasedir_is_default d then kf1 else set_string kf1 ''global'' ''logdir'' dir
             | None \<Rightarrow> set_opt ''global'' ''logfile'' (lc_logfilename d) kf1)
          else
            fold (\<lambda>(k, v). set_opt ''global'' k v)
              [(''logfilename'', lc_logfilename d), (''log-format-nickchange'', lc_nickchange d), (''log-format-topic'', lc_topic d),
               (''log-format-notopic'', lc_notopic d), (''log-format-part'', lc_part d), (''log-format-join'', lc_join d),
               (''log-format-msg'', lc_msg d), (''log-format-notice'', lc_notice d), (''log-format-action'', lc_action d),
               (''log-format-kick'', lc_kick d), (''log-format-quit'', lc_quit d), (''log-format-mode'', lc_mode d)] kf)"

definition fetch_formats :: "(string \<Rightarrow> string option) \<Rightarrow> string option \<Rightarrow> log_file_config" where
  "fetch_formats get logfilename =
     no_log\<lparr>lc_logfilename := logfilename, lc_nickchange := get ''nickchange'', lc_topic := get ''topic'', lc_notopic := get ''notopic'',
       lc_part := get ''part'', lc_join := get ''join'', lc_msg := get ''msg'', lc_notice := get ''notice'',
       lc_action := get ''action'', lc_kick := get ''kick'', lc_quit := get ''quit'', lc_mode := get ''mode''\<rparr>"

definition irssi_formats :: log_file_config where
  "irssi_formats =
     no_log\<lparr>lc_is_irssi := True, lc_join := Some ''%h:%M -!- %n [%u] has joined %c'',
       lc_part := Some ''%h:%M -!- %n [%u] has left %c [%m]'', lc_msg := Some ''%h:%M < %n> %m'',
       lc_notice := Some ''%h:%M < %n> %m'', lc_action := Some ''%h:%M  * %n %m'',
       lc_mode := Some ''%h:%M -!- mode/%t [%p %c] by %n'', lc_quit := Some ''%h:%M -!- %n [%u] has quit [%m]'',
       lc_kick := Some ''%h:%M -!- %t has been kicked by %n [%m]'', lc_topic := Some ''%h:%M -!- %n has changed the topic to %t'',
       lc_notopic := Some ''%h:%M -!- %n has removed the topic'', lc_nickchange := Some ''%h:%M -!- %n is now known as %r''\<rparr>"

definition irssi_name :: "string option \<Rightarrow> string option" where
  "irssi_name dir = map_option (\<lambda>d. d @ ''/%N/%@'') dir"

text \<open>The place of the log files for the format of irssi.\<close>

definition irssi_place :: "string \<Rightarrow> gkeyfile \<Rightarrow> log_file_config" where
  "irssi_place config_dir kf =
     (if has_key kf ''global'' ''logfile'' then irssi_formats\<lparr>lc_logfilename := get_string kf ''global'' ''logfile''\<rparr>
      else if has_key kf ''global'' ''logdir'' then
        irssi_formats\<lparr>lc_logbasedir := get_string kf ''global'' ''logdir'', lc_logfilename := irssi_name (get_string kf ''global'' ''logdir'')\<rparr>
      else if has_key kf ''log-irssi'' ''logfile'' then
        irssi_formats\<lparr>lc_logbasedir := get_string kf ''log-irssi'' ''logfile'', lc_logfilename := irssi_name (get_string kf ''log-irssi'' ''logfile'')\<rparr>
      else
        let dir = Some (config_dir @ ''/log_irssi'') in
        irssi_formats\<lparr>lc_logbasedir := dir, lc_logbasedir_is_default := True, lc_logfilename := irssi_name dir\<rparr>)"

text \<open>The logs that are started, in their order; the configuration keeps the last one.\<close>

definition config_load_log :: "string \<Rightarrow> gkeyfile \<Rightarrow> log_file_config list \<times> gkeyfile" where
  "config_load_log config_dir kf =
     (let logging = (if has_key kf ''global'' ''logging'' then get_string kf ''global'' ''logging'' else None);
          (l1, kf1) = (if has_group kf ''log-custom''
            then ([fetch_formats (get_string kf ''log-custom'') (get_string kf ''log-custom'' ''logfilename'')], remove_group kf ''log-custom'')
            else ([], kf));
          l2 = (if logging = Some ''custom''
            then [fetch_formats (\<lambda>k. get_string kf1 ''global'' (''log-format-'' @ k)) (get_string kf1 ''global'' ''logfilename'')] else []);
          (l3, kf2) = (if has_group kf1 ''log-irssi'' \<or> logging = Some ''irssi''
            then ([irssi_place config_dir kf1], remove_group kf1 ''log-irssi'') else ([], kf1))
      in (l1 @ l2 @ l3, kf2))"

section \<open>Automatic away\<close>

definition config_save_auto_away :: "auto_away_config \<Rightarrow> gkeyfile \<Rightarrow> gkeyfile" where
  "config_save_auto_away d kf =
     (let kf1 = (if has_key kf ''global'' ''auto-away-enable'' \<or> ac_enabled d
                 then set_boolean kf ''global'' ''auto-away-enable'' (ac_enabled d) else kf);
          kf2 = set_opt ''global'' ''auto-away-nick'' (ac_nick d) (set_opt ''global'' ''auto-away-message'' (ac_message d) kf1);
          kf3 = (if ac_client_limit d \<noteq> -1 then set_integer kf2 ''global'' ''auto-away-client-limit'' (ac_client_limit d) else kf2)
      in if ac_max_idle_time d \<noteq> -1 then set_integer kf3 ''global'' ''auto-away-time'' (ac_max_idle_time d) else kf3)"

definition get_int_or :: "int \<Rightarrow> gkeyfile \<Rightarrow> string \<Rightarrow> string \<Rightarrow> int" where
  "get_int_or v kf g k = (if has_key kf g k then get_integer kf g k else v)"

definition get_bool_or :: "bool \<Rightarrow> gkeyfile \<Rightarrow> string \<Rightarrow> string \<Rightarrow> bool" where
  "get_bool_or v kf g k = (if has_key kf g k then get_boolean kf g k else v)"

definition config_load_auto_away :: "auto_away_config \<Rightarrow> gkeyfile \<Rightarrow> auto_away_config \<times> gkeyfile" where
  "config_load_auto_away d kf =
     (if has_group kf ''auto-away'' then
        (\<lparr>ac_max_idle_time = get_int_or (-1) kf ''auto-away'' ''time'',
          ac_client_limit = (if has_key kf ''auto-away'' ''client_limit'' then get_integer kf ''auto-away'' ''client_limit''
            else if has_key kf ''auto-away'' ''only_noclient'' then (if get_boolean kf ''auto-away'' ''only_noclient'' then 0 else -1)
            else -1),
          ac_enabled = True, ac_message = get_string kf ''auto-away'' ''message'', ac_nick = get_string kf ''auto-away'' ''nick''\<rparr>,
         remove_group kf ''auto-away'')
      else
        (\<lparr>ac_max_idle_time = get_int_or (-1) kf ''global'' ''auto-away-time'',
          ac_client_limit = get_int_or (-1) kf ''global'' ''auto-away-client-limit'',
          ac_enabled = get_bool_or (ac_enabled d) kf ''global'' ''auto-away-enable'',
          ac_message = get_string kf ''global'' ''auto-away-message'', ac_nick = get_string kf ''global'' ''auto-away-nick''\<rparr>, kf))"

section \<open>The whole configuration\<close>

definition init_configuration :: configuration where
  "init_configuration =
     \<lparr>co_networks = [], co_autosave = False, co_motd_file = None, co_password = None, co_default_nick = None, co_default_username = None,
      co_default_realname = None, co_create_implicit = False, co_replication = None, co_client_charset = None, co_admin_log = False,
      co_admin_user = None, co_report_time = REPORT_TIME_ALWAYS, co_report_time_offset = 0, co_max_who_age = 0, co_keyfile = [],
      co_listeners = [], co_auto_listener = False, co_listener_autoport = 0, co_learn_nickserv = False, co_learn_network_name = False,
      co_auto_away = \<lparr>ac_max_idle_time = 0, ac_client_limit = 0, ac_enabled = False, ac_message = None, ac_nick = None\<rparr>,
      co_log_file = None\<rparr>"

definition save_reports :: "configuration \<Rightarrow> gkeyfile \<Rightarrow> gkeyfile" where
  "save_reports cfg kf =
     set_string kf ''global'' ''report-time''
       (case co_report_time cfg of REPORT_TIME_ALWAYS \<Rightarrow> ''always'' | REPORT_TIME_NEVER \<Rightarrow> ''never'' | REPORT_TIME_REPLICATION \<Rightarrow> ''replication'')"

text \<open>A flag whose default is \<open>True\<close> is written when it has another value or was written before.\<close>

definition save_flag :: "string \<Rightarrow> bool \<Rightarrow> gkeyfile \<Rightarrow> gkeyfile" where
  "save_flag k v kf = (if has_key kf ''global'' k \<or> \<not> v then set_boolean kf ''global'' k v else kf)"

definition save_globals :: "configuration \<Rightarrow> gkeyfile \<Rightarrow> gkeyfile" where
  "save_globals cfg kf =
     (let kf1 = set_opt ''global'' ''admin-user'' (co_admin_user cfg) (set_boolean kf ''global'' ''autosave'' (co_autosave cfg));
          kf2 = save_flag ''admin-log'' (co_admin_log cfg) kf1;
          kf3 = (if has_key kf2 ''global'' ''max_who_age'' then set_integer kf2 ''global'' ''max_who_age'' (co_max_who_age cfg)
                 else if has_key kf2 ''global'' ''max-who-age'' \<or> co_max_who_age cfg \<noteq> 0
                   then set_integer kf2 ''global'' ''max-who-age'' (co_max_who_age cfg) else kf2);
          kf4 = save_flag ''create-implicit'' (co_create_implicit cfg)
                  (save_flag ''learn-network-name'' (co_learn_network_name cfg) (save_flag ''learn-nickserv'' (co_learn_nickserv cfg) kf3));
          kf5 = set_opt ''global'' ''motd-file'' (co_motd_file cfg)
                  (set_opt ''global'' ''replication'' (co_replication cfg)
                    (set_opt ''global'' ''default-client-charset'' (co_client_charset cfg) kf4));
          kf6 = save_opt ''global'' ''default-username'' (co_default_username cfg)
                  (save_opt ''global'' ''default-nick'' (co_default_nick cfg)
                    (save_opt ''global'' ''default-fullname'' (co_default_realname cfg) (save_reports cfg kf5)))
      in if co_report_time_offset cfg \<noteq> 0 \<or> has_key kf6 ''global'' ''report-time-offset''
         then set_integer kf6 ''global'' ''report-time-offset'' (co_report_time_offset cfg) else kf6)"

definition save_autoconnect :: "stored_network list \<Rightarrow> gkeyfile \<Rightarrow> gkeyfile" where
  "save_autoconnect networks kf =
     (let names = map (\<lambda>nc. case nc_name nc of None \<Rightarrow> [] | Some n \<Rightarrow> n) (filter nc_autoconnect networks) in
      if names \<noteq> [] then set_string_list kf ''global'' ''autoconnect'' names else kf)"

definition save_configuration :: "save_env \<Rightarrow> configuration \<Rightarrow> config_files \<Rightarrow> configuration \<times> config_files" where
  "save_configuration se cfg files =
     (if \<not> se_dir se then (cfg, files)
      else
        let kf1 = save_globals cfg (co_keyfile cfg);
            (ns, kf2, files1) = config_save_networks se (co_networks cfg) kf1 files;
            (kf3, files2) = config_save_listeners se cfg kf2 files1;
            kf4 = save_autoconnect ns (config_save_auto_away (co_auto_away cfg) (config_save_log (co_log_file cfg) kf3))
        in (cfg\<lparr>co_networks := ns, co_keyfile := kf4\<rparr>, if se_write se then files2\<lparr>fi_config := Some kf4\<rparr> else files2))"

definition load_report_time :: "gkeyfile \<Rightarrow> report_time \<Rightarrow> report_time res" where
  "load_report_time kf r =
     (if \<not> has_key kf ''global'' ''report-time'' then Inr r
      else bind_res (deref (get_string kf ''global'' ''report-time'')) (\<lambda>s.
        Inr (if base_eq s ''never'' \<or> base_eq s ''false'' then REPORT_TIME_NEVER
             else if base_eq s ''always'' then REPORT_TIME_ALWAYS
             else if base_eq s ''replication'' \<or> base_eq s ''true'' then REPORT_TIME_REPLICATION else r)))"

text \<open>Names that are set have to be readable, as for a network.\<close>

definition load_name :: "gkeyfile \<Rightarrow> string \<Rightarrow> string option res" where
  "load_name kf k =
     (if has_key kf ''global'' k then bind_res (deref (get_string kf ''global'' k)) (\<lambda>s. Inr (Some s)) else Inr None)"

definition load_charset :: "gkeyfile \<Rightarrow> string option \<times> gkeyfile" where
  "load_charset kf =
     (if has_key kf ''client'' ''charset'' then (get_string kf ''client'' ''charset'', remove_key kf ''client'' ''charset'')
      else if has_key kf ''global'' ''client-charset''
        then (get_string kf ''global'' ''client-charset'', remove_key kf ''global'' ''client-charset'')
      else (get_string kf ''global'' ''default-client-charset'', kf))"

definition load_admin :: "gkeyfile \<Rightarrow> configuration \<Rightarrow> configuration" where
  "load_admin kf cfg =
     (let (user, kf1) = (if has_key kf ''admin'' ''without_privmsg''
            then (if get_boolean kf ''admin'' ''without_privmsg'' then None else Some ''ctrlproxy'', remove_key kf ''admin'' ''without_privmsg'')
            else (co_admin_user cfg, kf));
          user1 = (if has_key kf1 ''global'' ''admin-user'' then get_string kf1 ''global'' ''admin-user'' else user)
      in cfg\<lparr>co_admin_user := user1,
           co_admin_log := (\<not> (has_key kf1 ''admin'' ''log'' \<and> \<not> get_boolean kf1 ''admin'' ''log'') \<and>
             \<not> (has_key kf1 ''global'' ''admin-log'' \<and> \<not> get_boolean kf1 ''global'' ''admin-log'')),
           co_keyfile := remove_key kf1 ''admin'' ''log''\<rparr>)"

definition load_globals :: "string \<Rightarrow> gkeyfile \<Rightarrow> configuration \<Rightarrow> configuration res" where
  "load_globals motd kf cfg =
     bind_res (load_report_time kf (co_report_time cfg)) (\<lambda>rt.
     bind_res (load_name kf ''default-username'') (\<lambda>username.
     bind_res (load_name kf ''default-fullname'') (\<lambda>realname.
     bind_res (load_name kf ''default-nick'') (\<lambda>nick.
     let (charset, kf1) = load_charset kf in
     Inr (load_admin kf1 (cfg\<lparr>co_autosave := \<not> (has_key kf ''global'' ''autosave'' \<and> \<not> get_boolean kf ''global'' ''autosave''),
       co_max_who_age := (if has_key kf ''global'' ''max_who_age'' then get_integer kf ''global'' ''max_who_age''
         else get_int_or (co_max_who_age cfg) kf ''global'' ''max-who-age''),
       co_replication := get_string kf ''global'' ''replication'', co_report_time := rt,
       co_report_time_offset := get_int_or 0 kf ''global'' ''report-time-offset'',
       co_motd_file := (if has_key kf ''global'' ''motd-file'' then get_string kf ''global'' ''motd-file'' else Some motd),
       co_client_charset := charset, co_learn_nickserv := get_bool_or True kf ''global'' ''learn-nickserv'',
       co_learn_network_name := get_bool_or True kf ''global'' ''learn-network-name'',
       co_create_implicit := get_bool_or True kf ''global'' ''create-implicit'',
       co_default_username := username, co_default_realname := realname, co_default_nick := nick\<rparr>))))))"

text \<open>
  The result is \<open>None\<close> when the main file cannot be parsed. \<open>motd\<close> is the file with the message of
  the day that is used when none is set. The check for unknown keys expects the group \<open>global\<close>.
\<close>

definition load_configuration :: "string \<Rightarrow> string \<Rightarrow> config_files \<Rightarrow> configuration option res" where
  "load_configuration dir motd files =
     (case fi_config files of
        None \<Rightarrow> Inr None
      | Some kf \<Rightarrow>
          bind_res (load_globals motd kf init_configuration) (\<lambda>cfg1.
          let cfg2 = config_load_listeners_socks (config_load_listeners files cfg1);
              (logs, kf3) = config_load_log dir (co_keyfile cfg2);
              (away, kf4) = config_load_auto_away (co_auto_away cfg2) kf3;
              keys = (case fi_keys files of None \<Rightarrow> [] | Some t \<Rightarrow> snd (keyfile_read_file (Some t) (CHR '';'') [])) in
          bind_res (config_load_networks files kf4 keys) (\<lambda>(ns, kf5).
          bind_res (guard_res (has_group kf5 ''global'') NullDeref) (\<lambda>_.
          bind_res (load_autoconnect (case get_string_list kf5 ''global'' ''autoconnect'' of None \<Rightarrow> [] | Some l \<Rightarrow> l) ns) (\<lambda>ns'.
          Inr (Some (cfg2\<lparr>co_networks := ns', co_keyfile := kf5, co_auto_away := away,
            co_log_file := (if logs = [] then None else Some (last logs))\<rparr>)))))))"

end
