(* ===== verification/Admin.thy ===== *)
theory Admin
  imports Configuration Repl
begin

text \<open>
  \<open>src/admin.c\<close>: the commands of the administration interface that read and change settings, the way a
  command is found and called, and the virtual network on which a user can talk to it. The
  commands that work on networks and listeners are entries of the table that the model is given.
\<close>

section \<open>State\<close>

text \<open>The settings, the level of the log, and the texts that were sent to the user.\<close>

record admin_state =
  as_config :: configuration
  as_log_level :: int
  as_out :: "string list"

text \<open>Files that exist, and the names of replication backends.\<close>

record admin_env =
  ae_exists :: "string \<Rightarrow> bool"
  ae_backend :: "string option \<Rightarrow> bool"
  ae_hostname :: string

definition admin_out :: "string \<Rightarrow> admin_state \<Rightarrow> admin_state" where
  "admin_out msg s = s\<lparr>as_out := as_out s @ [msg]\<rparr>"

abbreviation on_config :: "(configuration \<Rightarrow> configuration) \<Rightarrow> admin_state \<Rightarrow> admin_state" where
  "on_config f s \<equiv> s\<lparr>as_config := f (as_config s)\<rparr>"

abbreviation on_away :: "(auto_away_config \<Rightarrow> auto_away_config) \<Rightarrow> admin_state \<Rightarrow> admin_state" where
  "on_away f \<equiv> on_config (\<lambda>c. c\<lparr>co_auto_away := f (co_auto_away c)\<rparr>)"

type_synonym setting_get = "admin_state \<Rightarrow> string option"
type_synonym setting_set = "admin_env \<Rightarrow> string option \<Rightarrow> admin_state \<Rightarrow> (bool \<times> admin_state) res"

section \<open>Settings\<close>

definition flag_text :: "bool \<Rightarrow> string option" where
  "flag_text b = Some (if b then ''true'' else ''false'')"

definition interpret_boolean :: "(bool \<Rightarrow> admin_state \<Rightarrow> admin_state) \<Rightarrow> setting_set" where
  "interpret_boolean store env value s =
     (case value of
        None \<Rightarrow> Inr (False, admin_out ''Boolean settings can't be unset.'' s)
      | Some v \<Rightarrow>
          if base_eq v ''true'' then Inr (True, store True s)
          else if base_eq v ''false'' then Inr (True, store False s)
          else Inr (False, admin_out (''Invalid boolean value `'' @ v @ [CHR 0x27]) s))"

definition autosave_set :: setting_set where "autosave_set = interpret_boolean (\<lambda>b. on_config (\<lambda>c. c\<lparr>co_autosave := b\<rparr>))"
definition autosave_get :: setting_get where "autosave_get s = flag_text (co_autosave (as_config s))"
definition admin_log_set :: setting_set where "admin_log_set = interpret_boolean (\<lambda>b. on_config (\<lambda>c. c\<lparr>co_admin_log := b\<rparr>))"
definition admin_log_get :: setting_get where "admin_log_get s = flag_text (co_admin_log (as_config s))"
definition learn_network_name_set :: setting_set where
  "learn_network_name_set = interpret_boolean (\<lambda>b. on_config (\<lambda>c. c\<lparr>co_learn_network_name := b\<rparr>))"
definition learn_network_name_get :: setting_get where "learn_network_name_get s = flag_text (co_learn_network_name (as_config s))"
definition learn_nickserv_set :: setting_set where
  "learn_nickserv_set = interpret_boolean (\<lambda>b. on_config (\<lambda>c. c\<lparr>co_learn_nickserv := b\<rparr>))"
definition learn_nickserv_get :: setting_get where "learn_nickserv_get s = flag_text (co_learn_nickserv (as_config s))"
definition auto_away_enable_set :: setting_set where
  "auto_away_enable_set = interpret_boolean (\<lambda>b. on_away (\<lambda>a. a\<lparr>ac_enabled := b\<rparr>))"
definition auto_away_enable_get :: setting_get where "auto_away_enable_get s = flag_text (ac_enabled (co_auto_away (as_config s)))"

text \<open>\<open>g_file_test\<close> refuses a NULL name.\<close>

definition motd_file_set :: setting_set where
  "motd_file_set env value s =
     (case value of
        Some v \<Rightarrow> if ae_exists env v then Inr (True, on_config (\<lambda>c. c\<lparr>co_motd_file := Some v\<rparr>) s)
                  else Inr (False, admin_out (v @ '': file does not exist'') s)
      | None \<Rightarrow> Inr (False, admin_out ''(null): file does not exist'' s))"
definition motd_file_get :: setting_get where "motd_file_get s = co_motd_file (as_config s)"

definition report_time_get :: setting_get where
  "report_time_get s = Some (case co_report_time (as_config s) of
     REPORT_TIME_ALWAYS \<Rightarrow> ''always'' | REPORT_TIME_NEVER \<Rightarrow> ''never'' | REPORT_TIME_REPLICATION \<Rightarrow> ''replication'')"

definition report_time_set :: setting_set where
  "report_time_set env value s =
     bind_res (deref value) (\<lambda>v.
     if base_eq v ''never'' \<or> base_eq v ''false'' then Inr (True, on_config (\<lambda>c. c\<lparr>co_report_time := REPORT_TIME_NEVER\<rparr>) s)
     else if base_eq v ''always'' then Inr (True, on_config (\<lambda>c. c\<lparr>co_report_time := REPORT_TIME_ALWAYS\<rparr>) s)
     else if base_eq v ''replication'' \<or> base_eq v ''true''
       then Inr (True, on_config (\<lambda>c. c\<lparr>co_report_time := REPORT_TIME_REPLICATION\<rparr>) s)
     else Inr (False, s))"

definition replication_get :: setting_get where "replication_get s = co_replication (as_config s)"

definition replication_set :: setting_set where
  "replication_set env value s =
     (if \<not> ae_backend env value then Inr (False, admin_out (''No such replication backend `'' @ printf_s value @ [CHR 0x27]) s)
      else Inr (True, on_config (\<lambda>c. c\<lparr>co_replication := value\<rparr>) s))"

definition admin_user_get :: setting_get where "admin_user_get s = co_admin_user (as_config s)"

text \<open>The test is the wrong way round.\<close>

definition admin_user_set :: setting_set where
  "admin_user_set env value s =
     bind_res (deref value) (\<lambda>v.
     Inr (True, on_config (\<lambda>c. c\<lparr>co_admin_user := (if length v = 0 then Some v else None)\<rparr>) s))"

text \<open>Numbers that are out of range or no numbers give the value for a setting that is not set.\<close>

definition int_or :: "int \<Rightarrow> int \<Rightarrow> string option \<Rightarrow> int" where
  "int_or unset lo value =
     (case value of None \<Rightarrow> unset | Some v \<Rightarrow> (case g_ascii_string_to_signed v lo G_MAXINT of None \<Rightarrow> unset | Some i \<Rightarrow> i))"

definition show_unless :: "int \<Rightarrow> int \<Rightarrow> string option" where
  "show_unless unset i = (if i = unset then None else Some (show_int i))"

definition max_who_age_get :: setting_get where "max_who_age_get s = show_unless 0 (co_max_who_age (as_config s))"
definition max_who_age_set :: setting_set where
  "max_who_age_set env value s = Inr (True, on_config (\<lambda>c. c\<lparr>co_max_who_age := int_or 0 0 value\<rparr>) s)"
definition auto_away_time_get :: setting_get where
  "auto_away_time_get s = show_unless 0 (ac_max_idle_time (co_auto_away (as_config s)))"
definition auto_away_time_set :: setting_set where
  "auto_away_time_set env value s = Inr (True, on_away (\<lambda>a. a\<lparr>ac_max_idle_time := int_or (-1) (-1) value\<rparr>) s)"
definition auto_away_client_limit_get :: setting_get where
  "auto_away_client_limit_get s = Some (show_int (ac_client_limit (co_auto_away (as_config s))))"
definition auto_away_client_limit_set :: setting_set where
  "auto_away_client_limit_set env value s = Inr (True, on_away (\<lambda>a. a\<lparr>ac_client_limit := int_or (-1) (-1) value\<rparr>) s)"
definition report_time_offset_get :: setting_get where
  "report_time_offset_get s = show_unless 0 (co_report_time_offset (as_config s))"
definition report_time_offset_set :: setting_set where
  "report_time_offset_set env value s = Inr (True, on_config (\<lambda>c. c\<lparr>co_report_time_offset := int_or 0 0 value\<rparr>) s)"

definition auto_away_message_get :: setting_get where "auto_away_message_get s = ac_message (co_auto_away (as_config s))"
definition auto_away_message_set :: setting_set where
  "auto_away_message_set env value s = Inr (True, on_away (\<lambda>a. a\<lparr>ac_message := value\<rparr>) s)"
definition auto_away_nick_get :: setting_get where "auto_away_nick_get s = ac_nick (co_auto_away (as_config s))"
definition auto_away_nick_set :: setting_set where
  "auto_away_nick_set env value s = Inr (True, on_away (\<lambda>a. a\<lparr>ac_nick := value\<rparr>) s)"

text \<open>Settings of the default listener: the first one that is marked as such.\<close>

definition default_get :: "(listener_settings \<Rightarrow> string option) \<Rightarrow> setting_get" where
  "default_get f s = (case List.find ls_is_default (co_listeners (as_config s)) of None \<Rightarrow> None | Some l \<Rightarrow> f l)"

definition default_set :: "(string option \<Rightarrow> listener_settings \<Rightarrow> listener_settings) \<Rightarrow> setting_set" where
  "default_set f env value s =
     (if list_ex ls_is_default (co_listeners (as_config s))
      then Inr (True, on_config (\<lambda>c. c\<lparr>co_listeners := update_first ls_is_default (f value) (co_listeners c)\<rparr>) s)
      else Inr (False, s))"

definition port_get :: setting_get where "port_get = default_get lc_port"
definition port_set :: setting_set where "port_set = default_set (\<lambda>v l. l\<lparr>lc_port := v\<rparr>)"
definition bind_get :: setting_get where "bind_get = default_get lc_address"
definition bind_set :: setting_set where "bind_set = default_set (\<lambda>v l. l\<lparr>lc_address := v\<rparr>)"
definition password_get :: setting_get where "password_get = default_get lc_password"
definition password_set :: setting_set where "password_set = default_set (\<lambda>v l. l\<lparr>lc_password := v\<rparr>)"
definition default_network_get :: setting_get where "default_network_get = default_get lc_network"
definition default_network_set :: setting_set where "default_network_set = default_set (\<lambda>v l. l\<lparr>lc_network := v\<rparr>)"

definition default_client_charset_get :: setting_get where "default_client_charset_get s = co_client_charset (as_config s)"
definition default_client_charset_set :: setting_set where
  "default_client_charset_set env value s = Inr (True, on_config (\<lambda>c. c\<lparr>co_client_charset := value\<rparr>) s)"

text \<open>Names: the length of the value is taken before anything else.\<close>

definition name_set :: "string \<Rightarrow> (string \<Rightarrow> configuration \<Rightarrow> configuration) \<Rightarrow> setting_set" where
  "name_set what store env value s =
     bind_res (deref value) (\<lambda>v.
     if length v = 0 then Inr (False, admin_out (what @ '' can't be empty.'') s)
     else if has_chr v (CHR '' '') then Inr (False, admin_out (what @ '' can't contain spaces.'') s)
     else if first_char v = CHR '':'' then Inr (False, admin_out (what @ '' can't start with semicolon.'') s)
     else Inr (True, on_config (store v) s))"

definition default_nick_get :: setting_get where "default_nick_get s = co_default_nick (as_config s)"
definition default_nick_set :: setting_set where "default_nick_set = name_set ''Nick name'' (\<lambda>v c. c\<lparr>co_default_nick := Some v\<rparr>)"
definition default_username_get :: setting_get where "default_username_get s = co_default_username (as_config s)"
definition default_username_set :: setting_set where
  "default_username_set = name_set ''Username'' (\<lambda>v c. c\<lparr>co_default_username := Some v\<rparr>)"
definition default_fullname_get :: setting_get where "default_fullname_get s = co_default_realname (as_config s)"
definition default_fullname_set :: setting_set where
  "default_fullname_set env value s =
     bind_res (deref value) (\<lambda>v.
     if length v = 0 then Inr (False, admin_out ''Fullname can't be empty'' s)
     else Inr (True, on_config (\<lambda>c. c\<lparr>co_default_realname := Some v\<rparr>) s))"

definition logging_get :: setting_get where
  "logging_get s = Some (case co_log_file (as_config s) of
     None \<Rightarrow> ''none'' | Some d \<Rightarrow> if lc_is_irssi d then ''irssi'' else ''custom'')"
definition logging_set :: setting_set where "logging_set env value s = Inr (False, s)"
definition log_level_get :: setting_get where "log_level_get s = Some (show_int (as_log_level s))"
definition log_level_set :: setting_set where
  "log_level_set env value s =
     (case value of
        None \<Rightarrow> Inr (False, s)
      | Some v \<Rightarrow>
          (case g_ascii_string_to_signed v 0 5 of
             None \<Rightarrow> Inr (False, admin_out (''Invalid log level '' @ [CHR 0x27] @ v @ [CHR 0x27] @ '' (must be 0-5)'') s)
           | Some x \<Rightarrow> Inr (True, admin_out (''Log level changed to '' @ show_int x) (s\<lparr>as_log_level := x\<rparr>))))"

definition settings :: "(string \<times> setting_get \<times> setting_set) list" where
  "settings =
     [(''admin-log'', admin_log_get, admin_log_set), (''admin-user'', admin_user_get, admin_user_set),
      (''auto-away-enable'', auto_away_enable_get, auto_away_enable_set),
      (''auto-away-client-limit'', auto_away_client_limit_get, auto_away_client_limit_set),
      (''auto-away-message'', auto_away_message_get, auto_away_message_set), (''auto-away-nick'', auto_away_nick_get, auto_away_nick_set),
      (''auto-away-time'', auto_away_time_get, auto_away_time_set), (''autosave'', autosave_get, autosave_set),
      (''bind'', bind_get, bind_set), (''default-client-charset'', default_client_charset_get, default_client_charset_set),
      (''default-network'', default_network_get, default_network_set),
      (''learn-network-name'', learn_network_name_get, learn_network_name_set), (''learn-nickserv'', learn_nickserv_get, learn_nickserv_set),
      (''log_level'', log_level_get, log_level_set), (''logging'', logging_get, logging_set), (''max_who_age'', max_who_age_get, max_who_age_set),
      (''motd-file'', motd_file_get, motd_file_set), (''password'', password_get, password_set), (''port'', port_get, port_set),
      (''report-time'', report_time_get, report_time_set), (''report-time-offset'', report_time_offset_get, report_time_offset_set),
      (''replication'', replication_get, replication_set), (''default-nick'', default_nick_get, default_nick_set),
      (''default-username'', default_username_get, default_username_set), (''default-fullname'', default_fullname_get, default_fullname_set)]"

section \<open>Commands\<close>

text \<open>The words of a command; behind the last one is the NULL pointer.\<close>

definition word_at :: "string list \<Rightarrow> nat \<Rightarrow> string option res" where
  "word_at argv i =
     (if i < length argv then Inr (Some (argv ! i)) else if i = length argv then Inr None else Inl OutOfBounds)"

type_synonym admin_handler = "string list \<Rightarrow> admin_state \<Rightarrow> admin_state res"

definition cmd_unset :: "admin_env \<Rightarrow> admin_handler" where
  "cmd_unset env argv s =
     bind_res (word_at argv 1) (\<lambda>a1.
     case a1 of
       None \<Rightarrow> Inr (admin_out ''Usage: unset <setting>'' s)
     | Some name \<Rightarrow>
         fold_res (\<lambda>(n, getter, store) s. if base_eq n name then bind_res (store env None s) (\<lambda>(_, s'). Inr s') else Inr s) settings s)"

text \<open>
  Without arguments, all settings are listed. For one that is not set, the call of \<open>printf\<close> is given
  the entry of the table and not its name, so that it follows a pointer that was not passed.
\<close>

definition show_setting :: "string \<times> setting_get \<times> setting_set \<Rightarrow> admin_state \<Rightarrow> admin_state res" where
  "show_setting e s =
     (case e of (n, get, _) \<Rightarrow>
        (case get s of None \<Rightarrow> Inl BadArgument | Some v \<Rightarrow> Inr (admin_out (n @ '' = '' @ v) s)))"

definition cmd_set :: "admin_env \<Rightarrow> admin_handler" where
  "cmd_set env argv s =
     bind_res (word_at argv 1) (\<lambda>a1.
     case a1 of
       None \<Rightarrow> fold_res show_setting settings s
     | Some name \<Rightarrow>
         (case List.find (\<lambda>(n, _, _). base_eq n name) settings of
            None \<Rightarrow> Inr (admin_out (''Unknown setting `'' @ name @ [CHR 0x27]) s)
          | Some (n, getter, store) \<Rightarrow>
              bind_res (word_at argv 2) (\<lambda>a2.
              case a2 of
                Some v \<Rightarrow> bind_res (store env (Some v) s) (\<lambda>(_, s'). Inr s')
              | None \<Rightarrow> Inr (admin_out (printf_s (getter s)) s))))"

definition cmd_echo :: admin_handler where
  "cmd_echo argv s = bind_res (word_at argv 1) (\<lambda>a1. Inr (admin_out (printf_s a1) s))"

text \<open>The table is kept sorted; an equal name goes in front.\<close>

definition register_admin_command :: "string \<times> admin_handler \<Rightarrow> (string \<times> admin_handler) list \<Rightarrow> (string \<times> admin_handler) list" where
  "register_admin_command cmd cs =
     takeWhile (\<lambda>(n, _). base_strcmp (fst cmd) n > 0) cs @ cmd # dropWhile (\<lambda>(n, _). base_strcmp (fst cmd) n > 0) cs"

definition no_command :: string where
  "no_command = ''Please specify a command. Use the 'help' command to get a list of available commands''"

definition process_cmd :: "(string \<times> admin_handler) list \<Rightarrow> string option \<Rightarrow> admin_state \<Rightarrow> (bool \<times> admin_state) res" where
  "process_cmd admin_commands cmd s =
     (case cmd of
        None \<Rightarrow> Inr (True, admin_out no_command s)
      | Some c \<Rightarrow>
          (case g_strsplit c (CHR '' '') 0 of
             [] \<Rightarrow> Inr (True, admin_out no_command s)
           | a0 # as \<Rightarrow>
               (case List.find (\<lambda>(n, _). base_eq n a0) admin_commands of
                  Some (_, handler) \<Rightarrow> bind_res (handler (a0 # as) s) (\<lambda>s'. Inr (True, s'))
                | None \<Rightarrow>
                    Inr (True, admin_out (''Can't find command '' @ [CHR 0x27] @ a0 @ [CHR 0x27] @
                      ''. Type 'help' for a list of available commands. '') s))))"

text \<open>A line of a client; the reply to one without a command is the second component.\<close>

definition admin_process_command ::
    "(string \<times> admin_handler) list \<Rightarrow> irc_line \<Rightarrow> nat \<Rightarrow> admin_state \<Rightarrow> (bool \<times> (int \<times> string list) option \<times> admin_state) res" where
  "admin_process_command admin_commands l cmdoffset s =
     bind_res (arg l cmdoffset) (\<lambda>a.
     case a of
       None \<Rightarrow> bind_res (sarg l 0) (\<lambda>a0. Inr (True, Some (ERR_NEEDMOREPARAMS, [a0, ''Not enough parameters'']), s))
     | Some _ \<Rightarrow>
         bind_res (process_cmd admin_commands (Some (g_strjoinv '' '' (drop cmdoffset (args l)))) s) (\<lambda>(ret, s').
         Inr (ret, None, s')))"

section \<open>The administration network\<close>

text \<open>What the network receives, as lines or as replies with a number.\<close>

datatype admin_recv = Recv_args "string option" "string option list" | Recv_response int "string option list"

definition ADMIN_CHANNEL :: string where "ADMIN_CHANNEL = ''#ctrlproxy''"

definition admin_net_init :: "irc_network_state \<Rightarrow> admin_recv list" where
  "admin_net_init s =
     [Recv_args (nn_hostmask (s_me s)) [Some ''JOIN'', Some ADMIN_CHANNEL],
      Recv_response RPL_TOPIC [Some ADMIN_CHANNEL, Some ''CtrlProxy administration channel | Type `help' for more information''],
      Recv_response RPL_NAMREPLY [Some ''='', Some ADMIN_CHANNEL, Some (''@ctrlproxy '' @ printf_s (nn_nick (s_me s)))],
      Recv_response RPL_ENDOFNAMES [Some ADMIN_CHANNEL, Some ''End of /NAMES list.'']]"

definition names_me :: "irc_network_state \<Rightarrow> string \<Rightarrow> bool res" where
  "names_me s a = bind_res (irccmp_asserted (s_info s) (Some a) (nn_nick (s_me s))) (\<lambda>d. Inr (d = 0))"

definition names_admin :: "irc_network_state \<Rightarrow> string \<Rightarrow> bool" where
  "names_admin s a \<longleftrightarrow> irccmp (Some (s_info s)) a ''ctrlproxy'' = 0"

definition admin_message ::
    "(string \<times> admin_handler) list \<Rightarrow> irc_network_state \<Rightarrow> irc_line \<Rightarrow> admin_state \<Rightarrow> (bool \<times> admin_recv list \<times> admin_state) res" where
  "admin_message cs s l st =
     bind_res (sarg l 0) (\<lambda>a0.
     bind_res (names_me s a0) (\<lambda>me.
     bind_res (arg l 1) (\<lambda>a1.
     if me then Inr (True, [Recv_args (nn_hostmask (s_me s)) [Some a0, a1]], st)
     else
       bind_res (irccmp_asserted (s_info s) a1 (Some ADMIN_CHANNEL)) (\<lambda>d1.
       bind_res (if d1 \<noteq> 0 then irccmp_asserted (s_info s) a1 (Some ''ctrlproxy'') else Inr 0) (\<lambda>d2.
       if d1 \<noteq> 0 \<and> d2 \<noteq> 0 then Inr (True, [Recv_response ERR_NOSUCHNICK [a1, Some ''No such nick/channel'']], st)
       else bind_res (arg l 2) (\<lambda>a2. bind_res (process_cmd cs a2 st) (\<lambda>(ret, st'). Inr (ret, [], st'))))))))"

definition admin_ison :: "irc_network_state \<Rightarrow> irc_line \<Rightarrow> admin_recv list res" where
  "admin_ison s l =
     bind_res (arg l 1) (\<lambda>a1.
     if a1 = None then bind_res (sarg l 0) (\<lambda>a0. Inr [Recv_response ERR_NEEDMOREPARAMS [Some a0, Some ''Not enough params'']])
     else
       bind_res (map_res (\<lambda>a. if names_admin s a then Inr [a] else bind_res (names_me s a) (\<lambda>b. Inr (if b then [a] else []))) (tl (args l))) (\<lambda>found.
       Inr [Recv_response RPL_ISON [Some (list_make_string (concat found))]]))"

definition admin_userhost :: "admin_env \<Rightarrow> irc_network_state \<Rightarrow> irc_line \<Rightarrow> admin_recv list res" where
  "admin_userhost env s l =
     bind_res (arg l 1) (\<lambda>a1.
     if a1 = None then bind_res (sarg l 0) (\<lambda>a0. Inr [Recv_response ERR_NEEDMOREPARAMS [Some a0, Some ''Not enough params'']])
     else
       bind_res (map_res (\<lambda>a. bind_res (names_me s a) (\<lambda>b.
         Inr ((if base_eq a ''ctrlproxy'' then [a @ ''=+ctrlproxy@'' @ ae_hostname env] else []) @
              (if b then [a @ ''=+'' @ printf_s (nn_username (s_me s)) @ ''@'' @ printf_s (nn_hostname (s_me s))] else [])))) (tl (args l))) (\<lambda>found.
       Inr [Recv_response RPL_USERHOST [Some (list_make_string (concat found))]]))"

definition admin_who :: "admin_env \<Rightarrow> irc_network_state \<Rightarrow> irc_line \<Rightarrow> admin_recv list res" where
  "admin_who env s l =
     bind_res (sarg l 1) (\<lambda>a1.
     let admin = (if strcmp a1 ADMIN_CHANNEL = 0 \<or> strcmp a1 ''ctrlproxy'' = 0
           then [Recv_response RPL_WHOREPLY [Some ADMIN_CHANNEL, Some ''ctrlproxy'', Some (ae_hostname env), Some (ae_hostname env),
                   Some ''ctrlproxy'', Some ''H'', Some ''0 CtrlProxy user'']] else []) in
     bind_res (if irccmp (Some (s_info s)) a1 ADMIN_CHANNEL = 0 then Inr True else names_me s a1) (\<lambda>me.
     Inr (admin @
       (if me then [Recv_response RPL_WHOREPLY [Some ADMIN_CHANNEL, nn_username (s_me s), nn_hostname (s_me s), Some (ae_hostname env),
                      nn_nick (s_me s), Some ''H'', Some (''0 '' @ printf_s (nn_fullname (s_me s)))]] else []) @
       [Recv_response RPL_ENDOFWHO [Some a1, Some ''End of /WHO list.'']])))"

definition admin_to_server ::
    "admin_env \<Rightarrow> (string \<times> admin_handler) list \<Rightarrow> irc_network_state \<Rightarrow> irc_line \<Rightarrow> admin_state \<Rightarrow>
     (bool \<times> admin_recv list \<times> admin_state) res" where
  "admin_to_server env cs s l st =
     (let reply = (\<lambda>r. bind_res r (\<lambda>rs. Inr (True, rs, st))) in
      bind_res (sarg l 0) (\<lambda>a0.
      if base_eq a0 ''PRIVMSG'' \<or> base_eq a0 ''NOTICE'' then admin_message cs s l st
      else if base_eq a0 ''ISON'' then reply (admin_ison s l)
      else if base_eq a0 ''USERHOST'' then reply (admin_userhost env s l)
      else if base_eq a0 ''QUIT'' \<or> base_eq a0 ''MODE'' then reply (Inr [])
      else if base_eq a0 ''WHO'' then reply (admin_who env s l)
      else if base_eq a0 ''JOIN'' then
        reply (bind_res (sarg l 1) (\<lambda>a1.
          Inr (if strcmp a1 ADMIN_CHANNEL \<noteq> 0 then [Recv_response ERR_NOSUCHCHANNEL [Some a1, Some ''No such channel'']] else [])))
      else if base_eq a0 ''PART'' then
        reply (bind_res (sarg l 1) (\<lambda>a1.
          Inr (if strcmp a1 ADMIN_CHANNEL \<noteq> 0 then [Recv_response ERR_NOTONCHANNEL [Some a1, Some ''You're not on that channel'']]
               else Recv_args (nn_hostmask (s_me s)) [Some ''PART'', Some a1] # admin_net_init s)))
      else if base_eq a0 ''WHOIS'' then
        reply (bind_res (arg l 1) (\<lambda>a1. Inr [Recv_response RPL_ENDOFWHOIS [a1, Some ''End of /WHOIS list.'']]))
      else if base_eq a0 ''AWAY'' then
        reply (bind_res (arg l 1) (\<lambda>a1.
          Inr [if (case a1 of None \<Rightarrow> False | Some t \<Rightarrow> t \<noteq> []) then Recv_response RPL_NOWAWAY [Some ''You are now marked as being away'']
               else Recv_response RPL_UNAWAY [Some ''You are no longer marked as being away'']]))
      else reply (Inr [Recv_response ERR_UNKNOWNCOMMAND [Some a0, Some ''Unknown command'']])))"

end
