(* ===== verification/Settings_Spec.thy ===== *)
theory Settings_Spec
  imports Configuration
begin

text \<open>
  What the configuration promises: networks, listeners and the settings of the automatic away come
  back from the files that they were saved to. Where the code does not keep this promise, the
  theorems say what it does instead.
\<close>

section \<open>Reading what was written\<close>

lemma get_set_opt [simp]:
  "is_group_name g \<Longrightarrow> get_value (set_opt g k v kf) g' k' =
    (if g' = g \<and> k' = k \<and> v \<noteq> None then map_option (escape_value False True) v else get_value kf g' k')"
  by (cases v) (auto simp: set_opt_def set_string_def)

lemma get_save_opt [simp]:
  "is_group_name g \<Longrightarrow> get_value (save_opt g k v kf) g' k' =
    (if g' = g \<and> k' = k then map_option (escape_value False True) v else get_value kf g' k')"
  by (cases v) (auto simp: save_opt_def set_string_def)

lemma get_set_typed [simp]:
  assumes "is_group_name g"
  shows "get_value (set_string kf g k s) g' k' = (if g' = g \<and> k' = k then Some (escape_value False True s) else get_value kf g' k')"
    "get_value (set_boolean kf g k b) g' k' = (if g' = g \<and> k' = k then Some (if b then ''true'' else ''false'') else get_value kf g' k')"
    "get_value (set_integer kf g k i) g' k' = (if g' = g \<and> k' = k then Some (show_int i) else get_value kf g' k')"
    "get_value (set_string_list kf g k ss) g' k' =
      (if g' = g \<and> k' = k then Some (concat (map (\<lambda>s. escape_value True True s @ '';'') ss)) else get_value kf g' k')"
  using assms by (simp_all add: kf_setters)

lemma get_string_of: "get_value kf g k = map_option (escape_value False True) v \<Longrightarrow> get_string kf g k = v"
  by (cases v) (simp_all add: get_string_def unescape_escape)

lemma get_string_none: "get_value kf g k = None \<Longrightarrow> get_string kf g k = None"
  by (simp add: get_string_def)

lemma load_opt_of: "get_value kf g k = map_option (escape_value False True) v \<Longrightarrow> load_opt kf g k None = v"
  by (cases v) (auto simp: load_opt_def has_key_def get_string_of)

lemma get_list_of:
  "get_value kf g k = Some (concat (map (\<lambda>s. escape_value True True s @ '';'') ss)) \<Longrightarrow> get_string_list kf g k = Some ss"
  by (simp add: get_string_list_def unescape_list_escape)

section \<open>Servers\<close>

definition server_ok :: "tcp_server_config \<Rightarrow> bool" where
  "server_ok ts \<longleftrightarrow> is_group_name (server_url ts) \<and> CHR '':'' \<notin> set (ts_host ts) \<and> CHR ''/'' \<notin> set (ts_host ts)"

definition canonical_server :: "tcp_server_config \<Rightarrow> tcp_server_config" where
  "canonical_server ts = ts\<lparr>ts_port := canonical_port (ts_port ts) (ts_ssl ts)\<rparr>"

lemma get_save_server:
  "server_ok ts \<Longrightarrow> get_value (save_server ts kf) g k =
    (if g = server_url ts \<and> k = ''bind'' then map_option (escape_value False True) (ts_bind_address ts)
     else if g = server_url ts \<and> k = ''password'' then map_option (escape_value False True) (ts_password ts)
     else get_value kf g k)"
  by (simp add: save_server_def server_ok_def)

lemma save_servers_other:
  "list_all server_ok ss \<Longrightarrow> g \<notin> set (map server_url ss) \<or> k \<notin> {''password'', ''bind''} \<Longrightarrow>
    get_value (fold save_server ss kf) g k = get_value kf g k"
  by (induction ss arbitrary: kf) (auto simp: get_save_server)

lemma save_servers_own:
  assumes "list_all server_ok ss" "distinct (map server_url ss)" "ts \<in> set ss"
  shows "get_value (fold save_server ss kf) (server_url ts) ''password'' = map_option (escape_value False True) (ts_password ts) \<and>
    get_value (fold save_server ss kf) (server_url ts) ''bind'' = map_option (escape_value False True) (ts_bind_address ts)"
  using assms
proof (induction ss arbitrary: kf)
  case (Cons s ss)
  have "get_value (fold save_server ss (save_server s kf)) (server_url s) k = get_value (save_server s kf) (server_url s) k" for k
    using Cons.prems by (intro save_servers_other) simp_all
  then show ?case using Cons by (auto simp: get_save_server)
qed simp

text \<open>The servers that a key file holds.\<close>

definition holds_server :: "gkeyfile \<Rightarrow> tcp_server_config \<Rightarrow> bool" where
  "holds_server kf ts \<longleftrightarrow> get_value kf (server_url ts) ''ssl'' = None \<and>
     get_value kf (server_url ts) ''password'' = map_option (escape_value False True) (ts_password ts) \<and>
     get_value kf (server_url ts) ''bind'' = map_option (escape_value False True) (ts_bind_address ts)"

lemma load_servers_held:
  assumes "list_all server_ok ss" "distinct (map server_url ss)" "list_all (holds_server kf) ss"
  shows "fst (load_servers (map server_url ss) kf) = map canonical_server ss \<and>
    (\<forall>g k. g \<notin> set (map server_url ss) \<longrightarrow> get_value (snd (load_servers (map server_url ss) kf)) g k = get_value kf g k)"
  using assms
proof (induction ss arbitrary: kf)
  case (Cons ts ss)
  have u: "irc_parse_url (server_url ts) =
      (True, \<lparr>url_server = Some (ts_host ts), url_port = Some (canonical_port (ts_port ts) (ts_ssl ts)), url_ssl = ts_ssl ts\<rparr>)"
    using Cons.prems(1) by (auto simp: server_url_def server_ok_def intro: url_create_parse)
  have "server_url x \<noteq> server_url ts" if "x \<in> set ss" for x
    using that Cons.prems(2) by (auto simp: image_iff)
  then have "list_all (holds_server (remove_group kf (server_url ts))) ss"
    using Cons.prems(3) by (simp add: list_all_iff holds_server_def)
  then have IH: "fst (load_servers (map server_url ss) (remove_group kf (server_url ts))) = map canonical_server ss"
    "g \<notin> set (map server_url ss) \<Longrightarrow>
      get_value (snd (load_servers (map server_url ss) (remove_group kf (server_url ts)))) g k = get_value (remove_group kf (server_url ts)) g k" for g k
    using Cons.IH [of "remove_group kf (server_url ts)"] Cons.prems(1,2) by auto
  have h: "\<not> has_key kf (server_url ts) ''ssl''" "get_string kf (server_url ts) ''password'' = ts_password ts"
    "get_string kf (server_url ts) ''bind'' = ts_bind_address ts"
    using Cons.prems(3) by (simp_all add: holds_server_def has_key_def get_string_of)
  show ?case using IH u h by (simp add: Let_def case_prod_unfold canonical_server_def)
qed simp

section \<open>Networks\<close>

lemma get_remove_channels:
  "g \<notin> set (map cc_name cs) \<Longrightarrow> get_value (fold (\<lambda>c kf. remove_group kf (cc_name c)) cs kf) g k = get_value kf g k"
  by (induction cs arbitrary: kf) simp_all

text \<open>
  A network that can be kept in a group \<open>g\<close> of a key file that has neither this group nor groups of
  its servers yet: names that key files allow, servers that differ, channels that differ in more than case, and
  none of them named like the group.
\<close>

definition different_channels :: "channel_config list \<Rightarrow> bool" where
  "different_channels cs \<longleftrightarrow> sorted_wrt (\<lambda>c d. \<not> base_eq (cc_name c) (cc_name d)) cs"

definition storable_network :: "stored_network \<Rightarrow> string \<Rightarrow> gkeyfile \<Rightarrow> bool" where
  "storable_network n g kf \<longleftrightarrow> nc_type n = NETWORK_TCP \<and> is_group_name g \<and>
     list_all server_ok (map snd (nc_servers n)) \<and> distinct (g # map (server_url \<circ> snd) (nc_servers n)) \<and>
     set (map cc_name (nc_channels n)) \<inter> set (g # map (server_url \<circ> snd) (nc_servers n)) = {} \<and>
     different_channels (nc_channels n) \<and>
     - (2 ^ 31) \<le> sn_queue_speed n \<and> sn_queue_speed n < 2 ^ 31 \<and> 0 \<le> nc_reconnect_interval n \<and> nc_reconnect_interval n < 2 ^ 32 \<and>
     (\<forall>h \<in> set (g # map (server_url \<circ> snd) (nc_servers n)). \<forall>k. get_value kf h k = None)"

text \<open>What the group holds afterwards.\<close>

definition kept_value :: "stored_network \<Rightarrow> string \<Rightarrow> string option" where
  "kept_value n k =
     (if k = ''fullname'' then map_option (escape_value False True) (nc_fullname n)
      else if k = ''nick'' then map_option (escape_value False True) (nc_nick n)
      else if k = ''username'' then map_option (escape_value False True) (nc_username n)
      else if k = ''autocmd'' then
        (if nc_autocmd n = [] then None else Some (concat (map (\<lambda>s. escape_value True True s @ '';'') (nc_autocmd n))))
      else if k = ''queue-speed'' then (if sn_queue_speed n = 0 then None else Some (show_int (sn_queue_speed n)))
      else if k = ''reconnect-interval'' then
        (if nc_reconnect_interval n = NO_INTERVAL then None else Some (show_int (to_int32 (nc_reconnect_interval n))))
      else if k = ''bind'' then map_option (escape_value False True) (sn_default_bind_address n)
      else if k = ''servers'' then Some (concat (map (\<lambda>s. escape_value True True s @ '';'') (map (server_url \<circ> snd) (nc_servers n))))
      else if k = ''autojoin'' then
        (if nc_channels n = [] then None
         else Some (concat (map (\<lambda>s. escape_value True True s @ '';'') (map cc_name (filter cc_autojoin (nc_channels n))))))
      else None)"

lemma saved_group:
  assumes "storable_network n g kf"
  shows "get_value (save_network_group n g kf) g k = kept_value n k"
    and "ts \<in> set (map snd (nc_servers n)) \<Longrightarrow> holds_server (save_network_group n g kf) ts"
proof -
  have st: "nc_type n = NETWORK_TCP" "is_group_name g" "list_all server_ok (map snd (nc_servers n))"
    "distinct (map server_url (map snd (nc_servers n)))" "g \<notin> set (map server_url (map snd (nc_servers n)))"
    "g \<notin> set (map cc_name (nc_channels n))"
    "\<And>ts. ts \<in> set (map snd (nc_servers n)) \<Longrightarrow> server_url ts \<notin> set (map cc_name (nc_channels n))"
    "\<And>k. get_value kf g k = None" "\<And>ts k. ts \<in> set (map snd (nc_servers n)) \<Longrightarrow> get_value kf (server_url ts) k = None"
    using assms by (auto simp: storable_network_def)
  have id: "get_value (save_identity n g kf) h k = (if h = g \<and> k \<in> {''fullname'', ''nick'', ''username'', ''autocmd'', ''queue-speed'', ''reconnect-interval''}
      then kept_value n k else get_value kf h k)" for h k
    using st(2,8) by (auto simp: save_identity_def kept_value_def Let_def)
  note srv = save_servers_other [OF st(3)]
  have ty: "get_value (save_type n g (save_identity n g kf)) g k = (if k = ''autojoin'' then None else kept_value n k)" for k
    using st(1,2,5,8) srv [of g] by (auto simp: save_type_def config_save_tcp_servers_def id kept_value_def)
  show "get_value (save_network_group n g kf) g k = kept_value n k"
    using st(2) get_remove_channels [OF st(6)] ty by (auto simp: save_network_group_def save_channels_def Let_def kept_value_def)
  assume ts: "ts \<in> set (map snd (nc_servers n))"
  then have "server_url ts \<noteq> g" using st(5) by auto
  then have "get_value (save_network_group n g kf) (server_url ts) k =
      get_value (fold save_server (map snd (nc_servers n)) (save_identity n g kf)) (server_url ts) k" for k
    using st(1,2) get_remove_channels [OF st(7) [OF ts]]
    by (auto simp: save_network_group_def save_channels_def save_type_def config_save_tcp_servers_def Let_def)
  then show "holds_server (save_network_group n g kf) ts"
    using save_servers_own [OF st(3,4) ts] srv [of "server_url ts" "''ssl''"] st(9) [OF ts] \<open>server_url ts \<noteq> g\<close>
    by (simp add: holds_server_def id)
qed

definition joined_channel :: "channel_config \<Rightarrow> channel_config" where
  "joined_channel c = \<lparr>cc_name = cc_name c, cc_key = None, cc_autojoin = True\<rparr>"

lemma add_new_channel:
  "list_all (\<lambda>c. \<not> base_eq (cc_name c) name) cs \<Longrightarrow>
    config_find_add_channel f name cs = cs @ [f \<lparr>cc_name = name, cc_key = None, cc_autojoin = False\<rparr>]"
  by (induction cs) auto

lemma add_new_channels:
  assumes "different_channels (cs0 @ cs)"
  shows "fold (\<lambda>c. config_find_add_channel (\<lambda>cc. cc\<lparr>cc_autojoin := True\<rparr>) c) (map cc_name cs) (map joined_channel cs0) =
    map joined_channel (cs0 @ cs)"
  using assms
proof (induction cs arbitrary: cs0)
  case (Cons c cs)
  have "list_all (\<lambda>d. \<not> base_eq (cc_name d) (cc_name c)) (map joined_channel cs0)"
    using Cons.prems by (auto simp: different_channels_def sorted_wrt_append list_all_iff joined_channel_def)
  then have "config_find_add_channel (\<lambda>cc. cc\<lparr>cc_autojoin := True\<rparr>) (cc_name c) (map joined_channel cs0) = map joined_channel (cs0 @ [c])"
    by (simp add: add_new_channel joined_channel_def)
  then show ?case using Cons.IH [of "cs0 @ [c]"] Cons.prems by simp
qed simp

lemma to_int32_mod: "0 \<le> v \<Longrightarrow> v < 2 ^ 32 \<Longrightarrow> to_int32 v mod 2 ^ 32 = v"
  by (simp add: to_int32_def mod_diff_left_eq)

lemma to_int32_range: "- (2 ^ 31) \<le> to_int32 v" "to_int32 v < 2 ^ 31"
  by (simp_all add: to_int32_def)

lemma loaded_identity:
  assumes "storable_network n g kf" "\<And>k. get_value kf' g k = kept_value n k"
  defines "n1 \<equiv> load_identity kf' g (network_config_init\<lparr>sn_groupname := Some g\<rparr>)"
  shows "identity_readable kf' g" "nc_fullname n1 = nc_fullname n" "nc_nick n1 = nc_nick n" "nc_username n1 = nc_username n"
    "nc_reconnect_interval n1 = nc_reconnect_interval n" "sn_queue_speed n1 = sn_queue_speed n" "nc_autocmd n1 = nc_autocmd n"
    "nc_channels n1 = []"
proof -
  have opt: "load_opt kf' g k None = v \<and> (has_key kf' g k \<longrightarrow> get_string kf' g k \<noteq> None)"
    if "kept_value n k = map_option (escape_value False True) v" for k v
  proof -
    have "get_value kf' g k = map_option (escape_value False True) v" using that assms(2) by simp
    moreover from this have "get_string kf' g k = v" by (rule get_string_of)
    ultimately show ?thesis using load_opt_of by (cases v) (auto simp: has_key_def)
  qed
  have "kept_value n ''fullname'' = map_option (escape_value False True) (nc_fullname n)"
    "kept_value n ''nick'' = map_option (escape_value False True) (nc_nick n)"
    "kept_value n ''username'' = map_option (escape_value False True) (nc_username n)"
    by (simp_all add: kept_value_def)
  note id = this [THEN opt]
  show "identity_readable kf' g" using id by (simp add: identity_readable_def)
  show "nc_fullname n1 = nc_fullname n" "nc_nick n1 = nc_nick n" "nc_username n1 = nc_username n" "nc_channels n1 = []"
    using id by (simp_all add: n1_def load_identity_def network_config_init_def)
  have "to_int32 (nc_reconnect_interval n) mod 2 ^ 32 = nc_reconnect_interval n"
    using assms(1) by (intro to_int32_mod) (simp_all add: storable_network_def)
  then show "nc_reconnect_interval n1 = nc_reconnect_interval n"
    using assms(2) get_integer_show [OF to_int32_range, of kf' g "''reconnect-interval''" "nc_reconnect_interval n"]
    by (simp add: n1_def load_identity_def network_config_init_def has_key_def kept_value_def)
  show "sn_queue_speed n1 = sn_queue_speed n"
    using assms(1,2) get_integer_show [of "sn_queue_speed n" kf' g "''queue-speed''"]
    by (simp add: n1_def load_identity_def network_config_init_def has_key_def kept_value_def storable_network_def)
  show "nc_autocmd n1 = nc_autocmd n"
    using assms(2) [of "''autocmd''"] get_list_of [of kf' g "''autocmd''" "nc_autocmd n"]
    by (simp add: n1_def load_identity_def network_config_init_def has_key_def kept_value_def)
qed

lemma loaded_type:
  assumes "storable_network n g kf" "\<And>k. get_value kf' g k = kept_value n k"
    and "\<And>ts. ts \<in> set (map snd (nc_servers n)) \<Longrightarrow> holds_server kf' ts"
  obtains kf'' where "load_type kf' g base = (base\<lparr>nc_type := NETWORK_TCP, sn_default_bind_address := sn_default_bind_address n,
      nc_servers := enumerate 0 (map canonical_server (map snd (nc_servers n)))\<rparr>, kf'')" "\<And>k. get_value kf'' g k = kept_value n k"
proof -
  let ?ss = "map snd (nc_servers n)"
  have st: "list_all server_ok ?ss" "distinct (map server_url ?ss)" "g \<notin> set (map server_url ?ss)"
    using assms(1) by (auto simp: storable_network_def)
  have "list_all (holds_server kf') ?ss" using assms(3) by (simp add: list_all_iff)
  note held = load_servers_held [OF st(1,2) this]
  obtain ss' kf'' where l: "load_servers (map server_url ?ss) kf' = (ss', kf'')" by (cases "load_servers (map server_url ?ss) kf'")
  have "get_string_list kf' g ''servers'' = Some (map server_url ?ss)"
    using assms(2) by (intro get_list_of) (simp add: kept_value_def)
  then have "config_load_servers g kf' = (enumerate 0 (map canonical_server ?ss), kf'')"
    using held l by (simp add: config_load_servers_def)
  moreover have "get_string kf' g ''bind'' = sn_default_bind_address n"
    using assms(2) by (intro get_string_of) (simp add: kept_value_def)
  moreover have "\<not> has_key kf' g ''program''" "\<not> has_key kf' g ''virtual''"
    using assms(2) by (simp_all add: has_key_def kept_value_def)
  moreover have "get_value kf'' g k = kept_value n k" for k using held l st(3) assms(2) by simp
  ultimately show ?thesis using that [of kf''] by (simp add: load_type_def)
qed

lemma loaded_autojoin:
  assumes "storable_network n g kf" "\<And>k. get_value kf' g k = kept_value n k" "nc_channels n0 = []"
  shows "load_autojoin kf' g n0 = n0\<lparr>nc_channels := map joined_channel (filter cc_autojoin (nc_channels n))\<rparr>"
proof (cases "nc_channels n = []")
  case True
  then have "get_string_list kf' g ''autojoin'' = None" using assms(2) by (simp add: get_string_list_def kept_value_def)
  then show ?thesis using True assms(3) by (cases n0) (simp add: load_autojoin_def)
next
  case False
  have "different_channels ([] @ filter cc_autojoin (nc_channels n))"
    using assms(1) by (simp add: storable_network_def different_channels_def sorted_wrt_filter)
  note add_new_channels [OF this]
  moreover have "get_string_list kf' g ''autojoin'' = Some (map cc_name (filter cc_autojoin (nc_channels n)))"
    using assms(2) False by (intro get_list_of) (simp add: kept_value_def)
  ultimately show ?thesis using assms(3) by (simp add: load_autojoin_def)
qed


section \<open>Channel keys\<close>

text \<open>
  C39. The keys of channels are read wrongly: whatever channels and keys the file has for a network,
  what comes out of it is one channel with the network's own nick as its name and the
  password for the network as its key. The channels that were saved with a key are not there again.
\<close>

theorem channel_keys_misread:
  assumes "nc_name n = Some name" "nc_nick n = Some nick" "nc_channels n = []"
    and "list_all (\<lambda>ke. kf_network ke \<noteq> None) keys" "list_ex (\<lambda>ke. base_eq (the (kf_network ke)) name) keys"
  shows "load_channel_keys n keys =
    Inr (n\<lparr>nc_channels := [\<lparr>cc_name = nick, cc_key = nc_password n, cc_autojoin = False\<rparr>]\<rparr>)"
proof -
  let ?c = "\<lparr>cc_name = nick, cc_key = nc_password n, cc_autojoin = False\<rparr>"
  have after: "load_channel_keys (n\<lparr>nc_channels := [?c]\<rparr>) ks = Inr (n\<lparr>nc_channels := [?c]\<rparr>)"
    if "list_all (\<lambda>ke. kf_network ke \<noteq> None) ks" for ks
    using that assms(1,2) by (induction ks) auto
  from assms(4,5) show ?thesis
  proof (induction keys)
    case (Cons ke keys)
    then show ?case using assms(1-3) after [of keys] by auto
  qed simp
qed

section \<open>Networks to connect to\<close>

text \<open>
  A network to connect to that the configuration does not have yet is on the list of networks twice.
\<close>

theorem unknown_autoconnect_twice:
  assumes "\<not> list_ex (network_answers name) networks" "fst (irc_parse_url name)"
  shows "\<exists>nc. load_autoconnect [name] networks = Inr (networks @ [nc, nc]) \<and> nc_name nc = Some name \<and> nc_autoconnect nc"
  using assms by (auto simp: load_autoconnect_def find_create_network_config_def case_prod_unfold Let_def)

text \<open>
  Every group of the main file that is not named as a part of one is a network, and nothing else is.
  This takes in the groups of old settings: reading those removes their keys, but not the group, so
  that a group \<open>admin\<close> becomes a network of this name.
\<close>

theorem groups_become_networks:
  assumes "load_network_groups gs kf keys = Inr (ns, kf')"
  shows "map nc_name ns = map Some (filter (\<lambda>g. \<not> skipped_group g) gs)"
  using assms
proof (induction gs arbitrary: kf ns kf')
  case (Cons g gs)
  have name: "nc_name n = Some g" if l: "config_load_network_keyfile_group g kf g keys = Inr (n, kf1)" for n kf1
  proof -
    have ty: "nc_name (fst (load_type kf0 h n0)) = nc_name n0" for kf0 h n0
      by (simp add: load_type_def case_prod_unfold Let_def)
    have keep: "load_channel_keys n0 ks = Inr n1 \<Longrightarrow> nc_name n1 = nc_name n0" for n0 ks n1
    proof (induction ks arbitrary: n0)
      case (Cons k ks)
      from Cons.prems consider "load_channel_keys n0 ks = Inr n1"
        | cs where "load_channel_keys (n0\<lparr>nc_channels := cs\<rparr>) ks = Inr n1" by (auto split: if_split_asm)
      then show ?case by cases (auto dest: Cons.IH)
    qed simp
    have "nc_name (load_autojoin kf0 h n0) = nc_name n0" for kf0 h n0 by (simp add: load_autojoin_def split: option.split)
    then show ?thesis
      using l by (auto simp: config_load_network_keyfile_group_def Let_def case_prod_unfold ty dest!: keep)
  qed
  show ?case
  proof (cases "skipped_group g")
    case True
    then show ?thesis using Cons by simp
  next
    case False
    then obtain n kf1 ns1 kf2 where n: "config_load_network_keyfile_group g kf g keys = Inr (n, kf1)"
      "load_network_groups gs kf1 keys = Inr (ns1, kf2)" "ns = n\<lparr>sn_keyfile := In_config\<rparr> # ns1"
      using Cons.prems by auto
    then show ?thesis using False Cons.IH [OF n(2)] name [OF n(1)] n(3) by simp
  qed
qed simp

section \<open>Listeners\<close>

lemma set_assoc_keys: "map fst (set_assoc k v kvs) = (if k \<in> set (map fst kvs) then map fst kvs else map fst kvs @ [k])"
  by (induction k v kvs rule: set_assoc.induct) auto

lemma groups_set_value: "is_group_name g \<Longrightarrow> get_groups (set_value kf g k v) = (if g \<in> set (get_groups kf) then get_groups kf else get_groups kf @ [g])"
  by (simp add: set_value_def get_groups_def set_assoc_keys)

lemma has_group_set_value: "is_group_name g \<Longrightarrow> has_group (set_value kf g k v) h \<longleftrightarrow> h = g \<or> has_group kf h"
  by (simp add: set_value_def has_group_def)

definition storable_listener :: "listener_settings \<Rightarrow> bool" where
  "storable_listener l \<longleftrightarrow> \<not> ls_is_default l \<and> lc_allow_rules l = [] \<and> is_group_name (listener_group l) \<and>
     (case lc_port l of None \<Rightarrow> False | Some p \<Rightarrow> CHR '':'' \<notin> set p) \<and> (\<not> ls_ssl l \<longrightarrow> ls_certfile l = None \<and> ls_keyfile l = None)"

definition holds_listener :: "gkeyfile \<Rightarrow> listener_settings \<Rightarrow> bool" where
  "holds_listener kf l \<longleftrightarrow> (let g = listener_group l; e = map_option (escape_value False True) in
     get_value kf g ''password'' = e (lc_password l) \<and> get_value kf g ''network'' = e (lc_network l) \<and>
     get_value kf g ''ssl'' = Some (if ls_ssl l then ''true'' else ''false'') \<and>
     get_value kf g ''certfile'' = e (ls_certfile l) \<and> get_value kf g ''keyfile'' = e (ls_keyfile l))"

lemma save_listener_frame:
  "is_group_name (listener_group l) \<Longrightarrow> g \<noteq> listener_group l \<Longrightarrow> get_value (save_other_listener l kf) g k = get_value kf g k"
  by (simp add: save_other_listener_def Let_def)

lemma save_listener_holds:
  assumes "storable_listener l" "\<And>k. get_value kf (listener_group l) k = None"
  shows "holds_listener (save_other_listener l kf) l"
  using assms by (auto simp: storable_listener_def save_other_listener_def holds_listener_def Let_def)

lemma groups_set_opt:
  assumes "is_group_name g" "g \<in> set (get_groups kf)"
  shows "get_groups (set_opt g k v kf) = get_groups kf"
  using assms by (simp add: set_opt_def set_string_def groups_set_value split: option.split)

lemma groups_save_listener:
  assumes "is_group_name (listener_group l)" "listener_group l \<notin> set (get_groups kf)"
  shows "get_groups (save_other_listener l kf) = get_groups kf @ [listener_group l]"
proof -
  let ?g = "listener_group l"
  have opt: "get_groups (set_opt ?g k v kf0) \<in> {get_groups kf, get_groups kf @ [?g]}"
    if "get_groups kf0 \<in> {get_groups kf, get_groups kf @ [?g]}" for k v kf0
    using that assms by (auto simp: set_opt_def set_string_def groups_set_value split: option.split)
  define kf1 where "kf1 = set_boolean (set_opt ?g ''network'' (lc_network l) (set_opt ?g ''password'' (lc_password l) kf)) ?g ''ssl'' (ls_ssl l)"
  have "get_groups (set_opt ?g ''network'' (lc_network l) (set_opt ?g ''password'' (lc_password l) kf)) \<in> {get_groups kf, get_groups kf @ [?g]}"
    by (intro opt) simp
  then have "get_groups kf1 = get_groups kf @ [?g]"
    using assms by (auto simp: kf1_def set_boolean_def groups_set_value)
  moreover have "save_other_listener l kf =
      (if ls_ssl l then set_opt ?g ''keyfile'' (ls_keyfile l) (set_opt ?g ''certfile'' (ls_certfile l) kf1) else kf1)"
    by (simp only: save_other_listener_def kf1_def Let_def)
  ultimately show ?thesis using assms by (simp add: groups_set_opt)
qed

lemma split_last_append: "d \<notin> set p \<Longrightarrow> split_last d (a @ d # p) = Some (a, p)"
proof -
  assume "d \<notin> set p"
  then have "takeWhile (\<lambda>c. c \<noteq> d) (rev p @ d # rev a) = rev p" "dropWhile (\<lambda>c. c \<noteq> d) (rev p @ d # rev a) = d # rev a"
    by (auto simp: takeWhile_append dropWhile_append)
  then show ?thesis by (simp add: split_last_def)
qed

lemma load_listener_held:
  assumes "storable_listener l" "holds_listener kf l"
  shows "load_other_listener kf (listener_group l) = l"
proof -
  obtain p where p: "lc_port l = Some p" "CHR '':'' \<notin> set p" using assms(1) by (auto simp: storable_listener_def split: option.splits)
  have split: "(case split_last (CHR '':'') (listener_group l) of None \<Rightarrow> (None, listener_group l) | Some (a, p) \<Rightarrow> (Some a, p)) = (lc_address l, p)"
  proof (cases "lc_address l")
    case None
    then have "listener_group l = p" using p by (simp add: listener_group_def)
    then show ?thesis using p None by (simp add: split_last_def)
  next
    case (Some a)
    then have "listener_group l = a @ CHR '':'' # p" using p by (simp add: listener_group_def)
    then show ?thesis using p Some by (simp add: split_last_append)
  qed
  have h: "get_string kf (listener_group l) ''password'' = lc_password l" "get_string kf (listener_group l) ''network'' = lc_network l"
    "get_string kf (listener_group l) ''certfile'' = ls_certfile l" "get_string kf (listener_group l) ''keyfile'' = ls_keyfile l"
    "(has_key kf (listener_group l) ''ssl'' \<and> get_boolean kf (listener_group l) ''ssl'') = ls_ssl l"
    using assms(2) by (auto simp: holds_listener_def Let_def get_string_of has_key_def get_boolean_def split: if_split_asm)
  show ?thesis
    unfolding load_other_listener_def split h
    using assms(1) p by (cases l) (auto simp: storable_listener_def new_listener_def)
qed

lemma save_listeners_held:
  assumes "list_all storable_listener ls" "distinct (map listener_group ls)" "set (get_groups kf) \<inter> set (map listener_group ls) = {}"
    and "\<And>g k. g \<in> set (map listener_group ls) \<Longrightarrow> get_value kf g k = None"
  shows "get_groups (fold save_other_listener ls kf) = get_groups kf @ map listener_group ls \<and>
    (\<forall>g k. g \<notin> set (map listener_group ls) \<longrightarrow> get_value (fold save_other_listener ls kf) g k = get_value kf g k) \<and>
    list_all (holds_listener (fold save_other_listener ls kf)) ls"
  using assms
proof (induction ls arbitrary: kf)
  case (Cons l ls)
  let ?kf = "save_other_listener l kf"
  have g: "is_group_name (listener_group l)" using Cons.prems(1) by (simp add: storable_listener_def)
  have gr: "get_groups ?kf = get_groups kf @ [listener_group l]"
    using groups_save_listener [OF g] Cons.prems(3) by simp
  have hold: "holds_listener ?kf l" using save_listener_holds Cons.prems(1,4) by simp
  have IH: "get_groups (fold save_other_listener ls ?kf) = get_groups ?kf @ map listener_group ls \<and>
      (\<forall>g k. g \<notin> set (map listener_group ls) \<longrightarrow> get_value (fold save_other_listener ls ?kf) g k = get_value ?kf g k) \<and>
      list_all (holds_listener (fold save_other_listener ls ?kf)) ls"
  proof (rule Cons.IH)
    show "set (get_groups ?kf) \<inter> set (map listener_group ls) = {}" using gr Cons.prems(2,3) by auto
    show "get_value ?kf g' k = None" if "g' \<in> set (map listener_group ls)" for g' k
    proof -
      have "g' \<noteq> listener_group l" using that Cons.prems(2) by (metis distinct.simps(2) list.simps(9))
      then show ?thesis using that save_listener_frame [OF g, of g'] Cons.prems(4) [of g'] by simp
    qed
    show "list_all storable_listener ls" "distinct (map listener_group ls)" using Cons.prems(1,2) by simp_all
  qed
  moreover have "holds_listener (fold save_other_listener ls ?kf) l"
    using hold IH Cons.prems(2) by (simp add: holds_listener_def Let_def)
  ultimately show ?case using gr save_listener_frame [OF g] by simp
qed simp


section \<open>Logging\<close>

lemma is_group_global [simp]: "is_group_name ''global''"
  by (simp add: is_group_name_def uchar_def)

lemma has_group_set_opt: "h \<noteq> ''global'' \<Longrightarrow> has_group (set_opt ''global'' k v kf) h = has_group kf h"
  by (simp add: set_opt_def set_string_def has_group_set_value split: option.split)

text \<open>
  A log with formats of the user's own is lost when the configuration is saved: the formats are
  written, but not that they are to be used, so that the next start has no log. A configuration with the old
  group \<open>log-custom\<close>, which loading removes, comes to this.
\<close>

theorem custom_log_forgotten:
  assumes "\<not> lc_is_irssi d" "\<not> has_key kf ''global'' ''logging''" "\<not> has_group kf ''log-irssi''"
    and "config_load_log dir kf = ([d], kf')"
  shows "fst (config_load_log dir (config_save_log (Some d) kf')) = []"
proof -
  have "get_value kf ''global'' ''logging'' = None" using assms(2) by (simp add: has_key_def)
  moreover have "has_group kf ''log-custom''" "kf' = remove_group kf ''log-custom''"
    using assms by (auto simp: config_load_log_def Let_def has_group_def remove_group_def map_of_filter_key split: if_split_asm)
  moreover have "has_group (remove_group kf g) h \<longleftrightarrow> h \<noteq> g \<and> has_group kf h" for g h
    by (simp add: has_group_def remove_group_def map_of_filter_key)
  ultimately have k: "get_value kf' ''global'' ''logging'' = None" "\<not> has_group kf' ''log-custom''" "\<not> has_group kf' ''log-irssi''"
    using assms(3) by simp_all
  let ?kf = "config_save_log (Some d) kf'"
  have "get_value ?kf ''global'' ''logging'' = None" "\<not> has_group ?kf ''log-custom''" "\<not> has_group ?kf ''log-irssi''"
    using assms(1) k by (simp_all add: config_save_log_def has_group_set_opt)
  then show ?thesis by (simp add: config_load_log_def has_key_def Let_def)
qed

section \<open>Witnesses\<close>

definition demo_server :: tcp_server_config where
  "demo_server = \<lparr>ts_host = ''irc.oftc.net'', ts_port = ''6697'', ts_ssl = True, ts_bind_address = None, ts_password = Some '' a;b''\<rparr>"

definition demo_chan :: "string \<Rightarrow> bool \<Rightarrow> channel_config" where
  "demo_chan name aj = \<lparr>cc_name = name, cc_key = Some ''k'', cc_autojoin = aj\<rparr>"

definition demo_stored :: stored_network where
  "demo_stored = network_config_init\<lparr>nc_name := Some ''oftc'', nc_nick := Some ''me'', nc_autocmd := [''MODE me +x;y'', ''AWAY''],
     nc_reconnect_interval := 60, nc_servers := [(4, demo_server)], nc_channels := [demo_chan ''#a'' True, demo_chan ''#b'' False]\<rparr>"

lemma demo_stored_ok: "storable_network demo_stored ''oftc'' []"
proof -
  have "server_url demo_server = ''ircs://irc.oftc.net:6697''" "is_group_name ''ircs://irc.oftc.net:6697''" "is_group_name ''oftc''"
    "\<not> base_eq ''#a'' ''#b''" by code_simp+
  then show ?thesis
    by (simp add: storable_network_def demo_stored_def demo_chan_def network_config_init_def server_ok_def different_channels_def
        get_value_def kf_group_def demo_server_def)
qed


definition demo_channel_key :: keyfile_entry where
  "demo_channel_key = \<lparr>kf_nick = ''#secret'', kf_pass = Some ''swordfish'', kf_network = Some ''oftc''\<rparr>"

theorem channel_keys_misread_witness:
  "load_channel_keys (demo_stored\<lparr>nc_channels := []\<rparr>) [demo_channel_key] =
     Inr (demo_stored\<lparr>nc_channels := [\<lparr>cc_name = ''me'', cc_key = None, cc_autojoin = False\<rparr>]\<rparr>)"
proof -
  have "base_eq ''oftc'' ''oftc''" by code_simp
  then show ?thesis
    using channel_keys_misread [of "demo_stored\<lparr>nc_channels := []\<rparr>" "''oftc''" "''me''" "[demo_channel_key]"]
    by (simp add: demo_stored_def demo_channel_key_def network_config_init_def)
qed

theorem unknown_autoconnect_twice_witness:
  "\<exists>nc. load_autoconnect [''irc.example.org''] [demo_stored] = Inr [demo_stored, nc, nc] \<and> nc_name nc = Some ''irc.example.org''"
proof -
  have "\<not> list_ex (network_answers ''irc.example.org'') [demo_stored]" "fst (irc_parse_url ''irc.example.org'')" by code_simp+
  from unknown_autoconnect_twice [OF this] show ?thesis by auto
qed

theorem groups_become_networks_witness:
  "\<exists>ns kf'. load_network_groups [''global'', ''admin''] [(''global'', []), (''admin'', [])] [] = Inr (ns, kf') \<and>
     map nc_name ns = [Some ''admin'']"
proof -
  let ?kf = "[(''global'', []), (''admin'', [])] :: gkeyfile"
  have ad: "get_value ?kf ''admin'' k = None" for k by (simp add: get_value_def kf_group_def)
  have s: "skipped_group ''global''" "\<not> skipped_group ''admin''" by code_simp+
  have "\<exists>n kf1. config_load_network_keyfile_group ''admin'' ?kf ''admin'' [] = Inr (n, kf1)"
    by (simp add: config_load_network_keyfile_group_def identity_readable_def has_key_def ad case_prod_unfold Let_def)
  then obtain ns kf' where l: "load_network_groups [''global'', ''admin''] ?kf [] = Inr (ns, kf')" using s by auto
  have "map nc_name ns = [Some ''admin'']" using groups_become_networks [OF l] s by simp
  then show ?thesis by (intro exI conjI) (rule l)
qed

definition demo_door :: listener_settings where
  "demo_door = new_listener\<lparr>lc_address := Some ''::1'', lc_port := Some ''6668'', lc_password := Some ''pw'', ls_ssl := True,
     ls_certfile := Some ''c.pem''\<rparr>"

definition demo_saving :: save_env where
  "demo_saving = \<lparr>se_dir = True, se_mkdir = True, se_write = True, se_listener = True, se_keys = True, se_budget = 99\<rparr>"

definition no_files :: config_files where
  "no_files = \<lparr>fi_config = None, fi_networks = None, fi_listener = None, fi_keys = None\<rparr>"


definition demo_old_log :: gkeyfile where
  "demo_old_log = [(''global'', []), (''log-custom'', [(''msg'', ''<%n> %m'')])]"

theorem custom_log_forgotten_witness:
  "\<exists>d kf'. config_load_log ''/c'' demo_old_log = ([d], kf') \<and> lc_msg d = Some ''<%n> %m'' \<and>
     fst (config_load_log ''/c'' (config_save_log (Some d) kf')) = []"
proof -
  define d where "d = fetch_formats (get_string demo_old_log ''log-custom'') (get_string demo_old_log ''log-custom'' ''logfilename'')"
  have l: "config_load_log ''/c'' demo_old_log = ([d], remove_group demo_old_log ''log-custom'')"
    by (simp add: config_load_log_def d_def demo_old_log_def has_key_def has_group_def get_value_def kf_group_def remove_group_def Let_def)
  have "get_string demo_old_log ''log-custom'' ''msg'' = Some ''<%n> %m''" by code_simp
  then have d: "lc_msg d = Some ''<%n> %m''" "\<not> lc_is_irssi d" by (simp_all add: d_def fetch_formats_def no_log_def)
  have "\<not> has_key demo_old_log ''global'' ''logging''" "\<not> has_group demo_old_log ''log-irssi''" by code_simp+
  from custom_log_forgotten [OF d(2) this l] l d(1) show ?thesis by blast
qed

section \<open>Loaded networks\<close>

text \<open>
  What the types of the fields in C promise, and what the rest of the program relies on: a network has a name and is
  of a kind that can be stored, the interval is an \<open>unsigned int\<close> and the speed an \<open>int\<close>, and the servers are objects of their own.
\<close>

definition network_typed :: "stored_network \<Rightarrow> bool" where
  "network_typed n \<longleftrightarrow> nc_name n \<noteq> None \<and> nc_type n \<noteq> NETWORK_IOCHANNEL \<and> \<not> nc_implicit n \<and>
     0 \<le> nc_reconnect_interval n \<and> nc_reconnect_interval n < 2 ^ 32 \<and>
     - (2 ^ 31) \<le> sn_queue_speed n \<and> sn_queue_speed n < 2 ^ 31 \<and> distinct (map fst (nc_servers n))"

lemma get_integer_range: "- (2 ^ 31) \<le> get_integer kf g k \<and> get_integer kf g k < 2 ^ 31"
proof (cases "get_value kf g k")
  case (Some v)
  obtain i r where "strtol 10 v = (i, r)" by (cases "strtol 10 v")
  then show ?thesis using Some by (auto simp: get_integer_def)
qed (simp add: get_integer_def)

lemma load_identity_typed:
  "network_typed ((load_identity kf g (network_config_init\<lparr>sn_groupname := gn\<rparr>))\<lparr>nc_name := Some name\<rparr>)"
  using get_integer_range [of kf g "''queue-speed''"]
  by (simp add: network_typed_def load_identity_def network_config_init_def NO_INTERVAL_def)

lemma network_typed_cong:
  "nc_name m = nc_name n \<Longrightarrow> nc_type m = nc_type n \<Longrightarrow> nc_implicit m = nc_implicit n \<Longrightarrow>
    nc_reconnect_interval m = nc_reconnect_interval n \<Longrightarrow> sn_queue_speed m = sn_queue_speed n \<Longrightarrow> nc_servers m = nc_servers n \<Longrightarrow>
    network_typed m = network_typed n"
  by (simp add: network_typed_def)

lemma load_type_typed: "network_typed n \<Longrightarrow> network_typed (fst (load_type kf g n))"
proof -
  have "distinct (map fst (fst (config_load_servers g kf)))"
    by (simp add: config_load_servers_def case_prod_unfold Let_def split: option.split)
  then show "network_typed n \<Longrightarrow> network_typed (fst (load_type kf g n))"
    by (simp add: network_typed_def load_type_def case_prod_unfold Let_def)
qed

lemma load_keys_typed: "load_channel_keys n ks = Inr n' \<Longrightarrow> network_typed n \<Longrightarrow> network_typed n'"
proof (induction ks arbitrary: n)
  case (Cons k ks)
  have ch: "network_typed (n\<lparr>nc_channels := cs\<rparr>)" for cs using Cons.prems(2) by (simp add: network_typed_def)
  from Cons.prems(1) consider "load_channel_keys n ks = Inr n'"
    | cs where "load_channel_keys (n\<lparr>nc_channels := cs\<rparr>) ks = Inr n'" by (auto split: if_split_asm)
  then show ?case
  proof cases
    case 1
    then show ?thesis using Cons.prems(2) by (rule Cons.IH)
  next
    case (2 cs)
    then show ?thesis using ch by (rule Cons.IH)
  qed
qed simp

lemma load_group_typed: "config_load_network_keyfile_group name kf g keys = Inr (n, kf') \<Longrightarrow> network_typed n"
proof -
  assume l: "config_load_network_keyfile_group name kf g keys = Inr (n, kf')"
  define n1 where "n1 = (load_identity kf g (network_config_init\<lparr>sn_groupname := Some g\<rparr>))\<lparr>nc_name := Some name\<rparr>"
  obtain n3 where n3: "load_channel_keys (fst (load_type kf g n1)) keys = Inr n3" "n = load_autojoin kf' g n3"
    using l by (auto simp: config_load_network_keyfile_group_def Let_def case_prod_unfold n1_def)
  have "network_typed n1" unfolding n1_def by (rule load_identity_typed)
  then have "network_typed n3" using load_keys_typed [OF n3(1)] load_type_typed by blast
  then show ?thesis unfolding n3(2) by (simp add: load_autojoin_def network_typed_def split: option.split)
qed

lemma load_files_typed: "load_network_files fs keys = Inr ns \<Longrightarrow> list_all network_typed ns"
proof (induction fs keys arbitrary: ns rule: load_network_files.induct)
  case (2 name fl fs keys)
  have chan: "network_typed n \<Longrightarrow> network_typed (fold (config_load_channel kf) gs n)" for kf gs n
    by (induction gs arbitrary: n) (simp_all add: config_load_channel_def network_typed_def)
  have "network_typed n" if f: "config_load_network_file name fl keys = Inr (Some n)" for n
  proof -
    obtain kf m where m: "network_typed m"
      "n = (fold (config_load_channel kf) (filter (\<lambda>g. \<not> is_alpha (first_char g)) (get_groups kf)) m)\<lparr>sn_keyfile := Own_file kf, sn_filename := Some name\<rparr>"
      using f by (auto simp: config_load_network_file_def Let_def split: option.splits dest: load_group_typed)
    show ?thesis using chan [OF m(1)] unfolding m(2) by (simp add: network_typed_def)
  qed
  then show ?case using 2 by (auto split: if_split_asm)
qed simp

lemma load_groups_typed: "load_network_groups gs kf keys = Inr (ns, kf') \<Longrightarrow> list_all network_typed ns"
proof (induction gs kf keys arbitrary: ns kf' rule: load_network_groups.induct)
  case (2 g gs kf keys)
  have "network_typed (n\<lparr>sn_keyfile := s\<rparr>) = network_typed n" for n s by (simp add: network_typed_def)
  then show ?case using 2 by (auto split: if_split_asm dest: load_group_typed)
qed simp

lemma autoconnect_typed:
  assumes "load_autoconnect names ns = Inr ns'" "list_all network_typed ns"
  shows "list_all network_typed ns'"
  using assms unfolding load_autoconnect_def
proof (induction names arbitrary: ns)
  case (Cons name names)
  let ?f = "nc_autoconnect_update (\<lambda>_. True)"
  have f: "network_typed (?f n) = network_typed n" for n by (simp add: network_typed_def)
  have up: "list_all network_typed xs \<Longrightarrow> list_all network_typed (update_first p ?f xs)" for p xs
    by (induction xs) (simp_all add: f)
  have new: "network_typed (?f (network_config_init\<lparr>nc_name := Some name, nc_servers := [(0, tc)]\<rparr>))" for tc
    by (simp add: network_typed_def network_config_init_def NO_INTERVAL_def)
  from Cons.prems(1) obtain ns1 where n1: "find_create_network_config name ?f ns = Inr ns1"
    "fold_res (\<lambda>name. find_create_network_config name ?f) names ns1 = Inr ns'" by auto
  have "list_all network_typed ns1"
    using n1(1) Cons.prems(2) up new by (auto simp: find_create_network_config_def case_prod_unfold Let_def split: if_split_asm)
  with n1(2) show ?case by (rule Cons.IH)
qed simp


definition demo_main :: gkeyfile where
  "demo_main = [(''global'', []), (''oftc'', [(''nick'', ''me'')])]"


end
