(* ===== verification/Admin_Spec.thy ===== *)
theory Admin_Spec
  imports Admin Settings_Spec
begin

text \<open>
  What the administration interface promises about settings, and where it does not keep it.
\<close>

section \<open>Setting and reading\<close>

definition setting_names :: "string list" where
  "setting_names =
     [''admin-log'', ''admin-user'', ''auto-away-enable'', ''auto-away-client-limit'', ''auto-away-message'', ''auto-away-nick'',
      ''auto-away-time'', ''autosave'', ''bind'', ''default-client-charset'', ''default-network'', ''learn-network-name'',
      ''learn-nickserv'', ''log_level'', ''logging'', ''max_who_age'', ''motd-file'', ''password'', ''port'', ''report-time'',
      ''report-time-offset'', ''replication'', ''default-nick'', ''default-username'', ''default-fullname'']"

lemma setting_names_distinct:
  "distinct setting_names" "\<forall>x \<in> set setting_names. \<forall>y \<in> set setting_names. base_strcmp x y = 0 \<longleftrightarrow> x = y"
proof -
  show "distinct setting_names" by (simp add: setting_names_def)
  have "list_all (\<lambda>x. map ascii_tolower (c_str x) = x) setting_names" by code_simp
  then show "\<forall>x \<in> set setting_names. \<forall>y \<in> set setting_names. base_strcmp x y = 0 \<longleftrightarrow> x = y"
    unfolding list_all_iff base_eq_iff by simp
qed

lemma settings_names: "map fst settings = setting_names"
  by (simp add: settings_def setting_names_def)

lemma find_by_name:
  assumes "distinct (map fst es)" "(n, v) \<in> set es" "\<And>e. e \<in> set es \<Longrightarrow> P e \<longleftrightarrow> fst e = n"
  shows "List.find P es = Some (n, v)"
  using assms
proof (induction es)
  case (Cons e es)
  then show ?case by (cases "fst e = n") (auto simp: image_iff)
qed simp

lemma settings_distinct:
  assumes "(name, getter, store) \<in> set settings"
  shows "List.find (\<lambda>(n, _, _). base_eq n name) settings = Some (name, getter, store)"
proof (rule find_by_name)
  have n: "x \<in> set settings \<Longrightarrow> fst x \<in> set setting_names" for x
    unfolding settings_names [symmetric] by simp
  show "distinct (map fst settings)" using setting_names_distinct(1) by (simp only: settings_names)
  show "(name, getter, store) \<in> set settings" by (rule assms)
  show "(case e of (n, _, _) \<Rightarrow> base_eq n name) \<longleftrightarrow> fst e = name" if "e \<in> set settings" for e
    using setting_names_distinct(2) n [OF that] n [OF assms] by (simp add: case_prod_unfold)
qed

text \<open>
  Texts of values as they are shown again: truth values and times of reports in small letters, numbers without leading
  zeros, and more than zero.
\<close>

definition flag_settings :: "string list" where
  "flag_settings = [''admin-log'', ''auto-away-enable'', ''autosave'', ''learn-network-name'', ''learn-nickserv'']"

definition number_settings :: "string list" where
  "number_settings = [''auto-away-client-limit'', ''auto-away-time'', ''max_who_age'', ''report-time-offset'', ''log_level'']"

definition canonical_value :: "string \<Rightarrow> string \<Rightarrow> bool" where
  "canonical_value name v \<longleftrightarrow> (name \<in> set flag_settings \<longrightarrow> v \<in> {''true'', ''false''}) \<and>
     (name \<in> set number_settings \<longrightarrow> (\<exists>i. 0 < i \<and> i \<le> G_MAXINT \<and> v = show_int i)) \<and>
     (name = ''report-time'' \<longrightarrow> v \<in> {''always'', ''never'', ''replication''}) \<and> name \<notin> {''admin-user'', ''logging''}"

lemma string_to_signed_show:
  assumes "0 < i" "i \<le> G_MAXINT"
  shows "g_ascii_string_to_signed (show_int i) lo hi = (if lo \<le> i \<and> i \<le> hi then Some i else None)"
proof -
  have l: "strtol 10 (show_int i) = (i, [])"
    using strtol_show_int [of i "[]"] assms by (simp add: LONG_MIN_def LONG_MAX_def G_MAXINT_def)
  have "show_int i = show_nat (nat i)" using assms(1) by (simp add: show_int_def)
  then have "is_digit_of 10 (first_char (show_int i))" "show_int i \<noteq> []" using show_nat_first by simp_all
  then show ?thesis using l digit_not_special by (auto simp: g_ascii_string_to_signed_def)
qed

lemma find_update_first:
  "list_ex P xs \<Longrightarrow> (\<And>x. P (f x) = P x) \<Longrightarrow> List.find P (update_first P f xs) = map_option f (List.find P xs)"
  by (induction xs) auto

lemma find_list_ex: "list_ex P xs \<Longrightarrow> \<exists>x. List.find P xs = Some x"
  by (induction xs) auto

lemma default_set_get:
  assumes "default_set f env v s = Inr (True, s')" "\<And>v l. ls_is_default (f v l) = ls_is_default l" "\<And>v l. g (f v l) = v"
  shows "default_get g s' = v"
proof -
  have "list_ex ls_is_default (co_listeners (as_config s))"
    "s' = on_config (\<lambda>c. c\<lparr>co_listeners := update_first ls_is_default (f v) (co_listeners c)\<rparr>) s"
    using assms(1) by (auto simp: default_set_def split: if_split_asm)
  then show ?thesis
    using find_list_ex assms(2,3) by (fastforce simp: default_get_def find_update_first)
qed

lemma flag_set_get:
  assumes "interpret_boolean store env (Some v) s = Inr (True, s')" "v \<in> {''true'', ''false''}" "\<And>b. get (store b s) = flag_text b"
  shows "get s' = Some v"
proof -
  have "base_eq ''true'' ''true''" "base_eq ''false'' ''false''" "\<not> base_eq ''false'' ''true''" by code_simp+
  then show ?thesis using assms by (auto simp: interpret_boolean_def flag_text_def)
qed

text \<open>A setting that shows what it was set to.\<close>

definition keeps_value :: "string \<Rightarrow> setting_get \<Rightarrow> setting_set \<Rightarrow> bool" where
  "keeps_value name getter store \<longleftrightarrow>
     (\<forall>env v s s'. canonical_value name v \<longrightarrow> store env (Some v) s = Inr (True, s') \<longrightarrow> getter s' = Some v)"

lemma keeps_flag:
  assumes "name \<in> set flag_settings" "store = interpret_boolean st" "\<And>b s. getter (st b s) = flag_text b"
  shows "keeps_value name getter store"
  unfolding keeps_value_def
proof (intro allI impI)
  fix env v s s'
  assume c: "canonical_value name v" "store env (Some v) s = Inr (True, s')"
  have "v \<in> {''true'', ''false''}" using c(1) assms(1) by (simp add: canonical_value_def)
  then show "getter s' = Some v" using flag_set_get [OF c(2) [unfolded assms(2)]] assms(3) by blast
qed

lemma keeps_default:
  assumes "store = default_set f" "getter = default_get g" "\<And>v l. ls_is_default (f v l) = ls_is_default l" "\<And>v l. g (f v l) = v"
  shows "keeps_value name getter store"
  unfolding keeps_value_def assms(1,2) using default_set_get [OF _ assms(3,4)] by blast

lemma keeps_number:
  assumes "name \<in> set number_settings"
    and "\<And>env i s s'. 0 < i \<Longrightarrow> i \<le> G_MAXINT \<Longrightarrow> store env (Some (show_int i)) s = Inr (True, s') \<Longrightarrow> getter s' = Some (show_int i)"
  shows "keeps_value name getter store"
  using assms by (auto simp: keeps_value_def canonical_value_def)

lemma settings_keep_flags:
  "keeps_value ''admin-log'' admin_log_get admin_log_set" "keeps_value ''auto-away-enable'' auto_away_enable_get auto_away_enable_set"
  "keeps_value ''autosave'' autosave_get autosave_set" "keeps_value ''learn-network-name'' learn_network_name_get learn_network_name_set"
  "keeps_value ''learn-nickserv'' learn_nickserv_get learn_nickserv_set"
  subgoal by (rule keeps_flag [OF _ admin_log_set_def]) (simp_all add: flag_settings_def admin_log_get_def)
  subgoal by (rule keeps_flag [OF _ auto_away_enable_set_def]) (simp_all add: flag_settings_def auto_away_enable_get_def)
  subgoal by (rule keeps_flag [OF _ autosave_set_def]) (simp_all add: flag_settings_def autosave_get_def)
  subgoal by (rule keeps_flag [OF _ learn_network_name_set_def]) (simp_all add: flag_settings_def learn_network_name_get_def)
  subgoal by (rule keeps_flag [OF _ learn_nickserv_set_def]) (simp_all add: flag_settings_def learn_nickserv_get_def)
  done

lemma settings_keep_defaults:
  "keeps_value ''bind'' bind_get bind_set" "keeps_value ''port'' port_get port_set"
  "keeps_value ''password'' password_get password_set" "keeps_value ''default-network'' default_network_get default_network_set"
  subgoal by (rule keeps_default [OF bind_set_def bind_get_def]) simp_all
  subgoal by (rule keeps_default [OF port_set_def port_get_def]) simp_all
  subgoal by (rule keeps_default [OF password_set_def password_get_def]) simp_all
  subgoal by (rule keeps_default [OF default_network_set_def default_network_get_def]) simp_all
  done

lemma settings_keep_numbers:
  "keeps_value ''auto-away-client-limit'' auto_away_client_limit_get auto_away_client_limit_set"
  "keeps_value ''auto-away-time'' auto_away_time_get auto_away_time_set" "keeps_value ''max_who_age'' max_who_age_get max_who_age_set"
  "keeps_value ''report-time-offset'' report_time_offset_get report_time_offset_set" "keeps_value ''log_level'' log_level_get log_level_set"
  subgoal by (rule keeps_number)
    (auto simp: number_settings_def auto_away_client_limit_get_def auto_away_client_limit_set_def int_or_def string_to_signed_show)
  subgoal by (rule keeps_number)
    (auto simp: number_settings_def auto_away_time_get_def auto_away_time_set_def int_or_def string_to_signed_show show_unless_def)
  subgoal by (rule keeps_number)
    (auto simp: number_settings_def max_who_age_get_def max_who_age_set_def int_or_def string_to_signed_show show_unless_def)
  subgoal by (rule keeps_number)
    (auto simp: number_settings_def report_time_offset_get_def report_time_offset_set_def int_or_def string_to_signed_show show_unless_def)
  subgoal by (rule keeps_number)
    (auto simp: number_settings_def log_level_get_def log_level_set_def string_to_signed_show admin_out_def split: if_split_asm)
  done

lemma settings_keep_texts:
  "keeps_value ''auto-away-message'' auto_away_message_get auto_away_message_set"
  "keeps_value ''auto-away-nick'' auto_away_nick_get auto_away_nick_set"
  "keeps_value ''default-client-charset'' default_client_charset_get default_client_charset_set"
  "keeps_value ''motd-file'' motd_file_get motd_file_set" "keeps_value ''replication'' replication_get replication_set"
  "keeps_value ''default-nick'' default_nick_get default_nick_set" "keeps_value ''default-username'' default_username_get default_username_set"
  "keeps_value ''default-fullname'' default_fullname_get default_fullname_set"
  by (auto simp: keeps_value_def auto_away_message_get_def auto_away_message_set_def auto_away_nick_get_def auto_away_nick_set_def
      default_client_charset_get_def default_client_charset_set_def motd_file_get_def motd_file_set_def replication_get_def
      replication_set_def default_nick_get_def default_nick_set_def default_username_get_def default_username_set_def name_set_def
      default_fullname_get_def default_fullname_set_def split: if_split_asm)

lemma setting_keeps_report_time: "keeps_value ''report-time'' report_time_get report_time_set"
proof -
  have v: "canonical_value ''report-time'' v \<Longrightarrow> v \<in> {''always'', ''never'', ''replication''}" for v by (simp add: canonical_value_def)
  have "base_eq ''always'' ''always''" "\<not> base_eq ''always'' ''never''" "\<not> base_eq ''always'' ''false''" "base_eq ''never'' ''never''"
    "\<not> base_eq ''replication'' ''never''" "\<not> base_eq ''replication'' ''false''" "\<not> base_eq ''replication'' ''always''"
    "base_eq ''replication'' ''replication''" by code_simp+
  then show ?thesis by (auto simp: keeps_value_def report_time_get_def report_time_set_def dest!: v)
qed

lemma settings_keep:
  assumes "(name, getter, store) \<in> set settings" "name \<notin> {''admin-user'', ''logging''}"
  shows "keeps_value name getter store"
proof -
  have "list_all (\<lambda>(n, g, st). n \<in> {''admin-user'', ''logging''} \<or> keeps_value n g st) settings"
    unfolding settings_def
    by (simp add: settings_keep_flags settings_keep_defaults settings_keep_numbers settings_keep_texts setting_keeps_report_time)
  then show ?thesis using assms by (auto simp: list_all_iff)
qed


text \<open>
  Setting the user of the administration interface removes it: the test for an empty name is the
  wrong way round, and no name that is set gives a user.
\<close>

theorem admin_user_not_settable:
  assumes "v \<noteq> []"
  shows "\<exists>s'. cmd_set env [''SET'', ''admin-user'', v] s = Inr s' \<and> co_admin_user (as_config s') = None"
proof -
  have "(''admin-user'', admin_user_get, admin_user_set) \<in> set settings" by (simp add: settings_def)
  from settings_distinct [OF this] show ?thesis using assms by (simp add: cmd_set_def word_at_def admin_user_set_def)
qed

lemma unset_one:
  assumes "(name, getter, store) \<in> set settings"
  shows "cmd_unset env [''UNSET'', name] s = bind_res (store env None s) (\<lambda>(_, s'). Inr s')"
proof -
  let ?f = "\<lambda>(n, getter, store) s. if base_eq n name then bind_res (store env None s) (\<lambda>(_, s'). Inr s') else Inr s"
  obtain xs ys where xy: "settings = xs @ (name, getter, store) # ys" using split_list [OF assms(1)] by blast
  have "distinct (map fst settings)" using setting_names_distinct(1) by (simp only: settings_names)
  then have no: "x \<in> set xs \<union> set ys \<Longrightarrow> fst x \<noteq> name" for x by (auto simp: xy)
  have n: "x \<in> set settings \<Longrightarrow> fst x \<in> set setting_names" for x unfolding settings_names [symmetric] by simp
  have ne: "\<not> base_eq (fst x) name" if "x \<in> set xs \<union> set ys" for x
    using setting_names_distinct(2) n [of x] n [OF assms(1)] no [OF that] that by (simp add: xy)
  have skip: "(\<And>x. x \<in> set zs \<Longrightarrow> \<not> base_eq (fst x) name) \<Longrightarrow> fold_res ?f zs s = Inr s" for zs s
    by (induction zs) (auto simp: case_prod_unfold)
  have "base_eq name name" by (rule word_eq.eqn_refl)
  then have "cmd_unset env [''UNSET'', name] s = bind_res (bind_res (store env None s) (\<lambda>(_, s'). Inr s')) (fold_res ?f ys)"
    using skip [of xs] ne by (simp add: cmd_unset_def word_at_def xy fold_res_append)
  also have "\<dots> = bind_res (store env None s) (\<lambda>(_, s'). Inr s')"
    using skip [of ys] ne by (cases "store env None s") (auto simp: case_prod_unfold)
  finally show ?thesis .
qed

text \<open>
  \<open>UNSET\<close> brings the program down for the settings that cannot be unset: their functions use the NULL pointer that they are given.
\<close>

theorem unset_name_crashes:
  assumes "name \<in> {''admin-user'', ''report-time'', ''default-nick'', ''default-username'', ''default-fullname''}"
  shows "cmd_unset env [''UNSET'', name] s = Inl NullDeref"
proof -
  have "\<exists>g st. (name, g, st) \<in> set settings \<and> st env None s = Inl NullDeref"
    using assms
    by (elim insertE emptyE) (auto simp: settings_def admin_user_set_def report_time_set_def default_nick_set_def default_username_set_def
        default_fullname_set_def name_set_def)
  then show ?thesis by (auto simp: unset_one)
qed

lemma has_group_setters:
  assumes "h \<noteq> ''global''"
  shows "has_group (set_opt ''global'' k v kf) h = has_group kf h" "has_group (set_boolean kf ''global'' k b) h = has_group kf h"
    "has_group (set_integer kf ''global'' k i) h = has_group kf h"
  using assms by (simp_all add: has_group_set_opt kf_setters has_group_set_value)

text \<open>
  C40. A setting that was taken back returns: \<open>UNSET\<close> removes the limit on clients for the automatic away, but saving the
  configuration leaves the old value in the file, and the next start reads it.
\<close>

theorem unset_limit_returns:
  assumes "get_value kf ''global'' ''auto-away-client-limit'' = Some (show_int k)" "- (2 ^ 31) \<le> k" "k < 2 ^ 31"
    and "\<not> has_group kf ''auto-away''"
  shows "\<exists>s'. cmd_unset env [''UNSET'', ''auto-away-client-limit''] s = Inr s' \<and>
    ac_client_limit (co_auto_away (as_config s')) = -1 \<and>
    ac_client_limit (fst (config_load_auto_away d (config_save_auto_away (co_auto_away (as_config s')) kf))) = k"
proof -
  let ?s = "on_away (\<lambda>a. a\<lparr>ac_client_limit := -1\<rparr>) s"
  let ?kf = "config_save_auto_away (co_auto_away (as_config ?s)) kf"
  have "(''auto-away-client-limit'', auto_away_client_limit_get, auto_away_client_limit_set) \<in> set settings" by (simp add: settings_def)
  then have u: "cmd_unset env [''UNSET'', ''auto-away-client-limit''] s = Inr ?s"
    by (simp add: unset_one auto_away_client_limit_set_def int_or_def)
  have g: "get_value ?kf ''global'' ''auto-away-client-limit'' = Some (show_int k)"
    using assms(1) by (simp add: config_save_auto_away_def Let_def)
  have "\<not> has_group ?kf ''auto-away''"
    using assms(4) by (simp add: config_save_auto_away_def Let_def has_group_setters)
  then have "ac_client_limit (fst (config_load_auto_away d ?kf)) = k"
    using g get_integer_show [OF assms(2,3) g] by (simp add: config_load_auto_away_def get_int_or_def has_key_def)
  then show ?thesis using u by simp
qed

lemma process_set:
  assumes "g_strsplit c (CHR '' '') 0 = ''SET'' # name # v # rest" "(name, getter, store) \<in> set settings"
  shows "process_cmd [(''SET'', cmd_set env)] (Some c) s = bind_res (store env (Some v) s) (\<lambda>(_, s'). Inr (True, s'))"
proof -
  have "base_eq ''SET'' ''SET''" by (rule word_eq.eqn_refl)
  then have "process_cmd [(''SET'', cmd_set env)] (Some c) s = bind_res (cmd_set env (''SET'' # name # v # rest) s) (\<lambda>s'. Inr (True, s'))"
    by (simp add: process_cmd_def assms(1))
  also have "cmd_set env (''SET'' # name # v # rest) s = bind_res (store env (Some v) s) (\<lambda>(_, s'). Inr s')"
    by (simp add: cmd_set_def word_at_def settings_distinct [OF assms(2)])
  finally show ?thesis by (simp add: bind_res_assoc case_prod_unfold)
qed

text \<open>
  A value ends at the first blank: of a message of several words that a user sets for the automatic away, the first word is kept,
  and nothing is said about the rest.
\<close>

theorem set_value_cut:
  assumes "CHR '' '' \<notin> set v" "c = ''SET'' @ '' '' @ ''auto-away-message'' @ '' '' @ v @ '' '' @ w"
  shows "\<exists>s'. process_cmd [(''SET'', cmd_set env)] (Some c) s = Inr (True, s') \<and>
    ac_message (co_auto_away (as_config s')) = Some v \<and> as_out s' = as_out s"
proof -
  have t: "c = ''SET'' @ CHR '' '' # ''auto-away-message'' @ CHR '' '' # v @ CHR '' '' # w" using assms(2) by simp
  have n: "CHR '' '' \<notin> set ''SET''" "CHR '' '' \<notin> set ''auto-away-message''" by simp_all
  have "split_on (CHR '' '') c = ''SET'' # ''auto-away-message'' # v # split_on (CHR '' '') w"
    unfolding t by (simp only: split_on_append [OF n(1)] split_on_append [OF n(2)] split_on_append [OF assms(1)])
  moreover have "c \<noteq> []" using t by simp
  ultimately have sp: "g_strsplit c (CHR '' '') 0 = ''SET'' # ''auto-away-message'' # v # split_on (CHR '' '') w"
    unfolding g_strsplit_def by simp
  have "(''auto-away-message'', auto_away_message_get, auto_away_message_set) \<in> set settings" by (simp add: settings_def)
  from process_set [OF sp this] show ?thesis by (simp add: auto_away_message_set_def)
qed

section \<open>The administration network\<close>

text \<open>
  Any client of the administration network can bring the program down: a WHO, a JOIN or a PART without an
  argument uses the NULL pointer behind the command.
\<close>

theorem admin_network_needs_argument:
  assumes "args l = [a0]" "a0 \<in> {''WHO'', ''JOIN'', ''PART''}"
  shows "admin_to_server env cs s l st = Inl NullDeref"
proof -
  have b: "list_all (\<lambda>a. list_all (\<lambda>b. base_strcmp a b = 0 \<longleftrightarrow> a = b)
      [''PRIVMSG'', ''NOTICE'', ''ISON'', ''USERHOST'', ''QUIT'', ''MODE'', ''WHO'', ''JOIN'', ''PART'']) [''WHO'', ''JOIN'', ''PART'']" by code_simp
  have "sarg l 0 = Inr a0" "sarg l 1 = Inl NullDeref" using assms(1) by (simp_all add: sarg_def arg_def)
  with assms(2) b show ?thesis by (auto simp: admin_to_server_def admin_who_def)
qed

section \<open>Witnesses\<close>

definition demo_admin :: admin_state where
  "demo_admin = \<lparr>as_config = init_configuration\<lparr>co_admin_user := Some ''ctrlproxy''\<rparr>, as_log_level = 3, as_out = []\<rparr>"

definition demo_admin_env :: admin_env where
  "demo_admin_env = \<lparr>ae_exists = (\<lambda>_. False), ae_backend = (\<lambda>_. True), ae_hostname = ''host''\<rparr>"


theorem admin_user_not_settable_witness:
  "\<exists>s'. cmd_set demo_admin_env [''SET'', ''admin-user'', ''root''] demo_admin = Inr s' \<and> co_admin_user (as_config s') = None"
  by (rule admin_user_not_settable) simp

theorem unset_name_crashes_witness: "cmd_unset demo_admin_env [''UNSET'', ''report-time''] demo_admin = Inl NullDeref"
  by (rule unset_name_crashes) simp

theorem unset_limit_returns_witness:
  "\<exists>s'. cmd_unset demo_admin_env [''UNSET'', ''auto-away-client-limit''] demo_admin = Inr s' \<and>
     ac_client_limit (fst (config_load_auto_away (co_auto_away init_configuration)
       (config_save_auto_away (co_auto_away (as_config s')) (set_integer [] ''global'' ''auto-away-client-limit'' 2)))) = 2"
proof -
  let ?kf = "set_integer [] ''global'' ''auto-away-client-limit'' 2"
  have "get_value ?kf ''global'' ''auto-away-client-limit'' = Some (show_int 2)" by simp
  moreover have "\<not> has_group ?kf ''auto-away''" by (simp add: has_group_setters) (simp add: has_group_def)
  ultimately show ?thesis
    using unset_limit_returns [of ?kf 2 demo_admin_env demo_admin "co_auto_away init_configuration"] by auto
qed

theorem set_value_cut_witness:
  "\<exists>s'. process_cmd [(''SET'', cmd_set demo_admin_env)]
       (Some (''SET'' @ '' '' @ ''auto-away-message'' @ '' '' @ ''gone'' @ '' '' @ ''fishing'')) demo_admin = Inr (True, s') \<and>
     ac_message (co_auto_away (as_config s')) = Some ''gone''"
proof -
  have "CHR '' '' \<notin> set ''gone''" by simp
  from set_value_cut [OF this refl, where w = "''fishing''" and env = demo_admin_env and s = demo_admin] show ?thesis by (elim exE conjE) (intro exI conjI)
qed

theorem admin_network_needs_argument_witness:
  "admin_to_server demo_admin_env [] demo_init (demo_line ''me'' [''WHO'']) demo_admin = Inl NullDeref"
  by (rule admin_network_needs_argument [of _ "''WHO''"]) (simp_all add: demo_line_def)

end
