(* ===== verification/Admin_Networks.thy ===== *)
theory Admin_Networks
  imports Admin Proxy_Spec
begin

text \<open>
  \<open>src/admin.c\<close>: the commands of the administration interface that work on networks. They see the
  networks of the program and the list of networks in its configuration. A network and the
  configuration that its \<open>private_data\<close> points to are created together and have one address here;
  the configuration is an object of the list too, so a change through the network shows there.
\<close>

section \<open>State\<close>

record 'c network_admin =
  na_networks :: "(addr \<times> 'c proxy_network) list"
  na_configs :: "(addr \<times> stored_network) list"
  na_next :: addr
  na_out :: "string list"

type_synonym 'c network_handler = "string list \<Rightarrow> 'c network_admin \<Rightarrow> 'c network_admin res"

definition tell :: "string \<Rightarrow> 'c network_admin \<Rightarrow> 'c network_admin" where
  "tell msg s = s\<lparr>na_out := na_out s @ [msg]\<rparr>"

definition quoted :: "string \<Rightarrow> string" where
  "quoted name = ''`'' @ name @ [CHR 0x27]"

definition find_entry :: "string \<Rightarrow> (addr \<times> 'c proxy_network) list \<Rightarrow> (addr \<times> 'c proxy_network) option" where
  "find_entry name nets = List.find (\<lambda>(_, n). find_network [n] name \<noteq> None) nets"

definition put_network :: "addr \<Rightarrow> 'c proxy_network \<Rightarrow> 'c network_admin \<Rightarrow> 'c network_admin" where
  "put_network a n s = s\<lparr>na_networks := map (\<lambda>(b, m). if b = a then (b, n) else (b, m)) (na_networks s)\<rparr>"

section \<open>Networks\<close>

text \<open>The new configuration is in the list before the network is loaded.\<close>

definition add_network_helper :: "ctrlproxy_config \<Rightarrow> string \<Rightarrow> 'c network_admin \<Rightarrow> 'c network_admin res" where
  "add_network_helper cf name s =
     (if find_entry name (na_networks s) \<noteq> None then Inr (tell (''Network with name '' @ quoted name @ '' already exists'') s)
      else
        let a = na_next s; nc = network_config_init\<lparr>nc_name := Some name\<rparr> in
        bind_res (load_network cf (map snd (na_networks s)) (network_config.truncate nc)) (\<lambda>(n, ns).
        Inr (tell (''Network '' @ quoted name @ '' added. Use ADDSERVER to add a server to this network.'')
          (s\<lparr>na_networks := (if length ns = length (na_networks s) then na_networks s else na_networks s @ [(a, n)]),
             na_configs := na_configs s @ [(a, nc)], na_next := Suc a\<rparr>))))"

definition rename_network_helper :: "string \<Rightarrow> string \<Rightarrow> 'c network_admin \<Rightarrow> 'c network_admin" where
  "rename_network_helper oldname newname s =
     (case find_entry oldname (na_networks s) of
        None \<Rightarrow> tell (''Network with name '' @ quoted oldname @ '' does not exist'') s
      | Some (a, n) \<Rightarrow>
          if find_entry newname (na_networks s) \<noteq> None then tell (''Network with name '' @ quoted newname @ '' already exists'') s
          else put_network a (n\<lparr>n_name := Some newname\<rparr>) s)"

text \<open>\<open>config_del_network\<close> on configurations that have addresses: the first one of that name.\<close>

definition del_config :: "string \<Rightarrow> (addr \<times> stored_network) list \<Rightarrow> (addr \<times> stored_network) list" where
  "del_config name cs =
     (case List.find (\<lambda>(_, nc). config_find_network [nc] name \<noteq> None) cs of None \<Rightarrow> cs | Some c \<Rightarrow> remove1 c cs)"

definition del_network_helper ::
    "nat \<Rightarrow> ('c, 'f) proxy_sys \<Rightarrow> ('c, 'c proxy_network) net_env \<Rightarrow> string \<Rightarrow> 'c network_admin \<Rightarrow> 'c network_admin res" where
  "del_network_helper k sys env name s =
     (case find_entry name (na_networks s) of
        None \<Rightarrow> Inr (tell (''No such network '' @ quoted name) s)
      | Some (a, n) \<Rightarrow>
          bind_res (disconnect_network k env n) (\<lambda>(_, n1).
          bind_res (unload_network sys n1) (\<lambda>_.
          Inr (tell (''Network '' @ quoted name @ '' deleted'')
            (s\<lparr>na_networks := filter (\<lambda>(b, _). b \<noteq> a) (na_networks s), na_configs := del_config name (na_configs s)\<rparr>)))))"

definition server_text :: "'c proxy_network \<Rightarrow> addr \<times> tcp_server_config \<Rightarrow> string" where
  "server_text n sv =
     ''  '' @ ts_host (snd sv) @ '':'' @ ts_port (snd sv) @ (if n_current_server n = Some (fst sv) then '' (Current)'' else '''')"

definition info_network_helper :: "string \<Rightarrow> 'c network_admin \<Rightarrow> 'c network_admin res" where
  "info_network_helper name s =
     (case find_entry name (na_networks s) of
        None \<Rightarrow> Inr (tell (''No such network '' @ quoted name) s)
      | Some (a, n) \<Rightarrow>
          let nc = n_config n;
              kind = (case nc_type nc of
                  NETWORK_TCP \<Rightarrow> ''Servers:'' # map (server_text n) (nc_servers nc)
                | NETWORK_VIRTUAL \<Rightarrow> [''Virtual network'']
                | NETWORK_PROGRAM \<Rightarrow> [''Interface to '' @ nc_program_location nc]
                | NETWORK_IOCHANNEL \<Rightarrow> []) in
          bind_res (heap_values (pn_heap n) (pn_clients n)) (\<lambda>cs.
          Inr (fold tell (kind @ (if pn_clients n = [] then [''No clients connected'']
            else ''Clients:'' # map (\<lambda>c. ''  '' @ cl_description c) cs)) s)))"

definition state_text :: "'c proxy_network \<Rightarrow> string" where
  "state_text n = printf_s (n_name n) @
     (case n_state n of
        CONNECTING \<Rightarrow> '': Connect in progress''
      | CONNECTED \<Rightarrow> '': Connected, logging in''
      | NOT_CONNECTED \<Rightarrow> '': Not connected'' @ (case n_last_disconnect_reason n of None \<Rightarrow> '''' | Some r \<Rightarrow> '': '' @ r)
      | RECONNECT_PENDING \<Rightarrow> '': Reconnecting''
      | _ \<Rightarrow> '': connected'')"

definition list_networks_helper :: "'c network_admin \<Rightarrow> 'c network_admin" where
  "list_networks_helper s = fold (\<lambda>(_, n). tell (state_text n)) (na_networks s) s"

section \<open>Commands\<close>

text \<open>A command with one word, without which the given text is sent.\<close>

definition with_word :: "string list \<Rightarrow> nat \<Rightarrow> string \<Rightarrow> 'c network_admin \<Rightarrow> (string \<Rightarrow> 'c network_admin res) \<Rightarrow> 'c network_admin res" where
  "with_word argv i missing s f =
     bind_res (word_at argv i) (\<lambda>w. case w of None \<Rightarrow> Inr (tell missing s) | Some name \<Rightarrow> f name)"

definition cmd_add_network :: "ctrlproxy_config \<Rightarrow> 'c network_handler" where
  "cmd_add_network cf argv s = with_word argv 1 ''No name specified'' s (\<lambda>name. add_network_helper cf name s)"

definition cmd_del_network :: "nat \<Rightarrow> ('c, 'f) proxy_sys \<Rightarrow> ('c, 'c proxy_network) net_env \<Rightarrow> 'c network_handler" where
  "cmd_del_network k sys env argv s = with_word argv 1 ''Not enough parameters'' s (\<lambda>name. del_network_helper k sys env name s)"

definition cmd_list_networks :: "'c network_handler" where
  "cmd_list_networks argv s = Inr (list_networks_helper s)"

definition network_usage :: string where
  "network_usage = ''Usage: network [list|add <name>|del <name>]''"

definition cmd_network ::
    "nat \<Rightarrow> ('c, 'f) proxy_sys \<Rightarrow> ('c, 'c proxy_network) net_env \<Rightarrow> ctrlproxy_config \<Rightarrow> 'c network_handler" where
  "cmd_network k sys env cf argv s =
     with_word argv 1 network_usage s (\<lambda>what.
     if base_eq what ''list'' then Inr (list_networks_helper s)
     else if base_eq what ''add'' then with_word argv 2 ''Usage: network add <name>'' s (\<lambda>name. add_network_helper cf name s)
     else if base_eq what ''rename'' then
       with_word argv 2 ''Usage: network rename <oldname> <newname>'' s (\<lambda>oldname.
       with_word argv 3 ''Usage: network rename <oldname> <newname>'' s (\<lambda>newname. Inr (rename_network_helper oldname newname s)))
     else if base_eq what ''del'' \<or> base_eq what ''delete'' \<or> base_eq what ''remove'' then
       with_word argv 2 ''Usage: network del <name>'' s (\<lambda>name. del_network_helper k sys env name s)
     else if base_eq what ''info'' then with_word argv 2 ''Usage: network info <name>'' s (\<lambda>name. info_network_helper name s)
     else Inr (tell network_usage s))"

text \<open>The host is cut at its first colon, and what follows is the port.\<close>

definition DEFAULT_IRC_PORT :: string where "DEFAULT_IRC_PORT = ''6667''"

definition new_server :: "string \<Rightarrow> string option \<Rightarrow> tcp_server_config" where
  "new_server word password =
     (let rest = dropWhile (\<lambda>c. c \<noteq> CHR '':'') word in
      \<lparr>ts_host = takeWhile (\<lambda>c. c \<noteq> CHR '':'') word, ts_port = (if rest = [] then DEFAULT_IRC_PORT else tl rest), ts_ssl = False,
       ts_bind_address = None, ts_password = password\<rparr>)"

definition append_server :: "addr \<times> tcp_server_config \<Rightarrow> 'a network_config_scheme \<Rightarrow> 'a network_config_scheme" where
  "append_server sv nc = nc\<lparr>nc_servers := nc_servers nc @ [sv]\<rparr>"

definition cmd_add_server :: "'c network_handler" where
  "cmd_add_server argv s =
     with_word argv 1 ''Not enough parameters'' s (\<lambda>name.
     with_word argv 2 ''Not enough parameters'' s (\<lambda>host.
     case find_entry name (na_networks s) of
       None \<Rightarrow> Inr (tell (''No such network '' @ [CHR 0x27] @ name @ [CHR 0x27]) s)
     | Some (a, n) \<Rightarrow>
         if nc_type (n_config n) \<noteq> NETWORK_TCP then Inr (tell ''Not a TCP/IP network!'' s)
         else
           bind_res (word_at argv 3) (\<lambda>password.
           let sv = (na_next s, new_server host password) in
           Inr (tell (''Server added to '' @ quoted name)
             (put_network a (n\<lparr>n_config := append_server sv (n_config n)\<rparr>)
               (s\<lparr>na_configs := map (\<lambda>(b, nc). if b = a then (b, append_server sv nc) else (b, nc)) (na_configs s),
                  na_next := Suc (na_next s)\<rparr>))))))"

text \<open>Leaving the current server for the next one.\<close>

definition reconnect_next :: "nat \<Rightarrow> ('c, 'c proxy_network) net_env \<Rightarrow> 'c proxy_network \<Rightarrow> 'c proxy_network res" where
  "reconnect_next k env n =
     bind_res (disconnect_network k env n) (\<lambda>(_, n1).
     bind_res (connect_network k env (irc_network_select_next_server n1)) (\<lambda>(_, n2). Inr n2))"

definition cmd_connect_network :: "nat \<Rightarrow> ('c, 'c proxy_network) net_env \<Rightarrow> 'c network_handler" where
  "cmd_connect_network k env argv s =
     with_word argv 1 ''No network specified'' s (\<lambda>name.
     case find_entry name (na_networks s) of
       None \<Rightarrow> Inr (tell (''No such network '' @ quoted name) s)
     | Some (a, n) \<Rightarrow>
         (case n_state n of
            NOT_CONNECTED \<Rightarrow>
              bind_res (connect_network k env n) (\<lambda>(_, n1). Inr (put_network a n1 (tell (''Connecting to '' @ quoted name) s)))
          | RECONNECT_PENDING \<Rightarrow>
              bind_res (reconnect_next k env n) (\<lambda>n1. Inr (put_network a n1 (tell (''Forcing reconnect to '' @ quoted name) s)))
          | MOTD_RECVD \<Rightarrow> Inr (tell (''Already connected to '' @ quoted name) s)
          | _ \<Rightarrow> Inr (tell (''Connect to '' @ quoted name @ '' already in progress'') s)))"

text \<open>The network of the handle, when no name is given; it may be NULL.\<close>

definition current_entry :: "addr option \<Rightarrow> 'c network_admin \<Rightarrow> (addr \<times> 'c proxy_network) option" where
  "current_entry h s = Option.bind h (\<lambda>a. List.find (\<lambda>(b, _). b = a) (na_networks s))"

definition cmd_disconnect_network ::
    "(string \<Rightarrow> bool) \<Rightarrow> nat \<Rightarrow> ('c, 'c proxy_network) net_env \<Rightarrow> addr option \<Rightarrow> 'c network_handler" where
  "cmd_disconnect_network not_disconnectable k env h argv s =
     bind_res (word_at argv 1) (\<lambda>a1.
     case (case a1 of Some name \<Rightarrow> find_entry name (na_networks s) | None \<Rightarrow> current_entry h s) of
       None \<Rightarrow> Inr (tell (if a1 = None then ''Usage: DISCONNECT <network>'' else ''Can't find active network with that name'') s)
     | Some (a, n) \<Rightarrow>
         if n_state n = NOT_CONNECTED then Inr (tell (''Already disconnected from '' @ quoted (printf_s (n_name n))) s)
         else
           bind_res (if nc_type (n_config n) = NETWORK_VIRTUAL then bind_res (deref (n_ops n)) (\<lambda>ops. Inr (not_disconnectable ops))
                     else Inr False) (\<lambda>fixed.
           if fixed then Inr (tell (''Built-in network '' @ quoted (printf_s (n_name n)) @ '' can't be disconnected'') s)
           else bind_res (disconnect_network k env n) (\<lambda>(_, n1).
             Inr (put_network a n1 (tell (''Disconnecting from '' @ quoted (printf_s (n_name n))) s)))))"

definition cmd_next_server :: "nat \<Rightarrow> ('c, 'c proxy_network) net_env \<Rightarrow> addr option \<Rightarrow> 'c network_handler" where
  "cmd_next_server k env h argv s =
     bind_res (word_at argv 1) (\<lambda>a1.
     case (case a1 of Some name \<Rightarrow> find_entry name (na_networks s) | None \<Rightarrow> current_entry h s) of
       None \<Rightarrow> Inr (tell (case a1 of None \<Rightarrow> ''No current network'' | Some name \<Rightarrow> name @ '': Not connected'') s)
     | Some (a, n) \<Rightarrow>
         let name = (case a1 of None \<Rightarrow> printf_s (n_name n) | Some name \<Rightarrow> name) in
         bind_res (reconnect_next k env n) (\<lambda>n1. Inr (put_network a n1 (tell (name @ '': Reconnecting'') s))))"

definition dump_joined_channels :: "addr option \<Rightarrow> 'c network_handler" where
  "dump_joined_channels h argv s =
     bind_res (word_at argv 1) (\<lambda>a1.
     case (case a1 of Some name \<Rightarrow> find_entry name (na_networks s) | None \<Rightarrow> current_entry h s) of
       None \<Rightarrow> Inr (tell (case a1 of None \<Rightarrow> ''No network specified and no current network.''
                                  | Some name \<Rightarrow> ''Can't find network '' @ [CHR 0x27] @ name @ [CHR 0x27]) s)
     | Some (a, n) \<Rightarrow>
         (case n_external_state n of
            None \<Rightarrow> Inr (tell (''Network '' @ [CHR 0x27] @ printf_s (n_name n) @ [CHR 0x27] @ '' not connected'') s)
          | Some st \<Rightarrow>
              bind_res (map_res (\<lambda>c. live (s_ch st c)) (s_channels st)) (\<lambda>chs.
              Inr (fold tell (map c_name chs) s))))"

section \<open>Names of networks\<close>

definition goes_by :: "string \<Rightarrow> 'c proxy_network \<Rightarrow> bool" where
  "goes_by name n \<longleftrightarrow> (case n_name n of None \<Rightarrow> False | Some x \<Rightarrow> base_eq x name)"

definition folded_name :: "'c proxy_network \<Rightarrow> string" where
  "folded_name n = map ascii_tolower (c_str (the (n_name n)))"

lemma goes_by_iff: "n_name n \<noteq> None \<Longrightarrow> goes_by name n \<longleftrightarrow> folded_name n = map ascii_tolower (c_str name)"
  by (auto simp: goes_by_def folded_name_def base_eq_iff)

lemma find_entry_eq: "find_entry name nets = List.find (\<lambda>(_, n). goes_by name n) nets"
  unfolding find_entry_def find_network_def goes_by_def base_strcmp_def
  by (rule arg_cong [where f = "\<lambda>P. List.find P nets"]) (auto split: option.split)

text \<open>The lookup agrees with \<open>find_network\<close> on the networks themselves.\<close>

lemma find_entry_network: "map_option snd (find_entry name nets) = find_network (map snd nets) name"
proof (induction nets)
  case (Cons x nets)
  then show ?case
    by (cases x) (simp add: find_entry_eq find_network_def goes_by_def base_strcmp_def split: option.split)
qed (simp add: find_entry_def find_network_def)

lemma find_entry_None: "find_entry name nets = None \<longleftrightarrow> (\<forall>x \<in> set nets. \<not> goes_by name (snd x))"
  unfolding find_entry_eq by (induction nets) auto

lemma find_in_set: "List.find P xs = Some x \<Longrightarrow> x \<in> set xs \<and> P x"
  by (induction xs) (auto split: if_split_asm)

lemma find_entry_Some: "find_entry name nets = Some (a, n) \<Longrightarrow> (a, n) \<in> set nets \<and> goes_by name n"
  unfolding find_entry_eq by (induction nets) (auto split: if_split_asm)

lemma find_entry_append: "find_entry name nets = None \<Longrightarrow> goes_by name n \<Longrightarrow> find_entry name (nets @ [(a, n)]) = Some (a, n)"
  unfolding find_entry_eq by (induction nets) (auto split: if_split_asm)

text \<open>
  The networks of the program: different objects, all of them older than the next one, with names
  that differ in more than the case of letters.
\<close>

definition networks_ok :: "'c network_admin \<Rightarrow> bool" where
  "networks_ok s \<longleftrightarrow> distinct (map fst (na_networks s)) \<and>
     list_all (\<lambda>a. a < na_next s) (map fst (na_networks s) @ map fst (na_configs s)) \<and>
     list_all (\<lambda>x. n_name (snd x) \<noteq> None) (na_networks s) \<and> distinct (map (folded_name \<circ> snd) (na_networks s))"

lemma tell_simps [simp]:
  "na_networks (tell m s) = na_networks s" "na_configs (tell m s) = na_configs s" "na_next (tell m s) = na_next s"
  by (simp_all add: tell_def)

lemma fold_tell_simps [simp]:
  "na_networks (fold tell ms s) = na_networks s" "na_configs (fold tell ms s) = na_configs s" "na_next (fold tell ms s) = na_next s"
  by (induction ms arbitrary: s) simp_all

lemma list_networks_simps [simp]:
  "na_networks (list_networks_helper s) = na_networks s" "na_configs (list_networks_helper s) = na_configs s"
  "na_next (list_networks_helper s) = na_next s"
proof -
  have "list_networks_helper s = fold tell (map (state_text \<circ> snd) (na_networks s)) s"
    by (simp add: list_networks_helper_def fold_map comp_def case_prod_unfold)
  then show "na_networks (list_networks_helper s) = na_networks s" "na_configs (list_networks_helper s) = na_configs s"
    "na_next (list_networks_helper s) = na_next s" by simp_all
qed

lemma networks_ok_tell [simp]: "networks_ok (tell m s) = networks_ok s"
  by (simp add: networks_ok_def)

lemma put_network_simps [simp]:
  "na_configs (put_network a n s) = na_configs s" "na_next (put_network a n s) = na_next s"
  "map fst (na_networks (put_network a n s)) = map fst (na_networks s)"
  by (auto simp: put_network_def)

lemma in_put_network:
  "(b, m) \<in> set (na_networks (put_network a n s)) \<longleftrightarrow>
     (if b = a then m = n \<and> a \<in> fst ` set (na_networks s) else (b, m) \<in> set (na_networks s))"
  by (auto simp: put_network_def image_iff split: if_split_asm intro: bexI [rotated])

text \<open>What \<open>load_network\<close> makes of a name that no network has.\<close>

definition fresh_network :: "ctrlproxy_config \<Rightarrow> network_config \<Rightarrow> 'c proxy_network" where
  "fresh_network cf nc = (let n = proxy_network_new nc in n\<lparr>n_info := (n_info n)\<lparr>ni_charset := cf_client_charset cf\<rparr>\<rparr>)"

lemma add_network_new:
  assumes "find_entry name (na_networks s) = None"
  shows "add_network_helper cf name s =
    Inr (tell (''Network '' @ quoted name @ '' added. Use ADDSERVER to add a server to this network.'')
      (s\<lparr>na_networks := na_networks s @
            [(na_next s, fresh_network cf (network_config.truncate (network_config_init\<lparr>nc_name := Some name\<rparr>)))],
         na_configs := na_configs s @ [(na_next s, network_config_init\<lparr>nc_name := Some name\<rparr>)], na_next := Suc (na_next s)\<rparr>))"
proof -
  define nc where "nc = network_config_init\<lparr>nc_name := Some name\<rparr>"
  have nm: "nc_name (network_config.truncate nc) = Some name" by (simp add: nc_def network_config.defs)
  have "find_network (map snd (na_networks s)) name = None" using assms find_entry_network [of name "na_networks s"] by simp
  then have l: "load_network cf (map snd (na_networks s)) (network_config.truncate nc) =
      Inr (fresh_network cf (network_config.truncate nc), map snd (na_networks s) @ [fresh_network cf (network_config.truncate nc)])"
    unfolding load_network_def nm by (simp add: fresh_network_def Let_def)
  have "length (map snd (na_networks s) @ [fresh_network cf (network_config.truncate nc)]) \<noteq> length (na_networks s)" by simp
  then show ?thesis
    unfolding add_network_helper_def Let_def nc_def [symmetric] l assms
    by (simp only: simp_thms if_False bind_res_simps prod.case)
qed

lemma fresh_network_simps [simp]:
  "n_name (fresh_network cf nc) = nc_name nc" "n_config (fresh_network cf nc) = nc" "n_state (fresh_network cf nc) = NOT_CONNECTED"
  by (simp_all add: fresh_network_def proxy_network_new_def irc_network.defs irc_network_new_def Let_def)

lemma older_Suc: "list_all (\<lambda>a. a < n) xs \<Longrightarrow> list_all (\<lambda>a. a < Suc n) xs" for n :: nat
  by (auto simp: list_all_iff less_Suc_eq)

lemma networks_ok_add:
  assumes "networks_ok s" "add_network_helper cf name s = Inr s'"
  shows "networks_ok s'"
proof (cases "find_entry name (na_networks s)")
  case None
  let ?n = "fresh_network cf (network_config.truncate (network_config_init\<lparr>nc_name := Some name\<rparr>)) :: 'a proxy_network"
  have nm: "n_name ?n = Some name" by (simp add: network_config.defs)
  have "folded_name n \<noteq> folded_name ?n" if "(a, n) \<in> set (na_networks s)" for a n
    using None that assms(1) nm
    by (fastforce simp: find_entry_None networks_ok_def list_all_iff goes_by_iff folded_name_def)
  then have "folded_name ?n \<notin> set (map (folded_name \<circ> snd) (na_networks s))" by fastforce
  moreover have "na_next s \<notin> set (map fst (na_networks s))" using assms(1) by (fastforce simp: networks_ok_def list_all_iff)
  ultimately show ?thesis
    using assms nm unfolding add_network_new [OF None] by (auto simp: networks_ok_def older_Suc)
next
  case (Some x)
  then show ?thesis using assms by (auto simp: add_network_helper_def)
qed

lemma distinct_update:
  "distinct (map f xs) \<Longrightarrow> distinct (map fst xs) \<Longrightarrow> \<forall>x \<in> set xs. f x \<noteq> v \<Longrightarrow> distinct (map (\<lambda>x. if fst x = a then v else f x) xs)"
proof (induction xs)
  case (Cons x xs)
  have IH: "distinct (map (\<lambda>x. if fst x = a then v else f x) xs)" using Cons by simp
  show ?case
  proof (cases "fst x = a")
    case True
    then have "\<forall>y \<in> set xs. fst y \<noteq> a" using Cons.prems(2) by (auto simp: image_iff)
    then show ?thesis using IH True Cons.prems(3) by auto
  next
    case False
    then show ?thesis using IH Cons.prems(1,3) by (auto simp: image_iff)
  qed
qed simp

lemma networks_ok_rename:
  assumes "networks_ok s"
  shows "networks_ok (rename_network_helper oldname newname s)"
proof (cases "find_entry oldname (na_networks s) = None \<or> find_entry newname (na_networks s) \<noteq> None")
  case True
  then show ?thesis using assms by (auto simp: rename_network_helper_def split: option.split)
next
  case False
  then have new: "find_entry newname (na_networks s) = None" by blast
  with False obtain a n where old: "find_entry oldname (na_networks s) = Some (a, n)"
    by (cases "find_entry oldname (na_networks s)") auto
  note e = old new
  let ?n = "n\<lparr>n_name := Some newname\<rparr>"
  have other: "folded_name m \<noteq> folded_name ?n" if "(b, m) \<in> set (na_networks s)" for b m
    using e(2) that assms by (fastforce simp: find_entry_None networks_ok_def list_all_iff goes_by_iff folded_name_def)
  have "map (folded_name \<circ> snd) (na_networks (put_network a ?n s)) =
      map (\<lambda>x. if fst x = a then folded_name ?n else (folded_name \<circ> snd) x) (na_networks s)"
    by (simp add: put_network_def case_prod_unfold comp_def)
  moreover have "distinct (map (\<lambda>x. if fst x = a then folded_name ?n else (folded_name \<circ> snd) x) (na_networks s))"
    using assms other by (intro distinct_update) (auto simp: networks_ok_def comp_def)
  ultimately have "distinct (map (folded_name \<circ> snd) (na_networks (put_network a ?n s)))" by simp
  moreover have "list_all (\<lambda>x. n_name (snd x) \<noteq> None) (na_networks (put_network a ?n s))"
    using assms by (auto simp: list_all_iff networks_ok_def in_put_network split: if_split_asm)
  ultimately have "networks_ok (put_network a ?n s)" using assms by (simp add: networks_ok_def)
  then show ?thesis using e by (simp add: rename_network_helper_def)
qed

lemma del_config_subset: "set (del_config name cs) \<subseteq> set cs"
  by (simp add: del_config_def set_remove1_subset split: option.split)

lemma networks_ok_del:
  assumes "networks_ok s" "del_network_helper k sys env name s = Inr s'"
  shows "networks_ok s'"
proof (cases "find_entry name (na_networks s)")
  case None
  then show ?thesis using assms by (auto simp: del_network_helper_def)
next
  case (Some x)
  obtain a n where x: "x = (a, n)" by (cases x)
  have "na_networks s' = filter (\<lambda>(b, _). b \<noteq> a) (na_networks s)" "na_configs s' = del_config name (na_configs s)" "na_next s' = na_next s"
    using assms(2) Some x by (auto simp: del_network_helper_def)
  moreover have "distinct (map fst (filter P xs))" "distinct (map (folded_name \<circ> snd) (filter P xs))"
    if "distinct (map fst xs)" "distinct (map (folded_name \<circ> snd) xs)" for P and xs :: "(addr \<times> 'a proxy_network) list"
    using that by (simp_all add: distinct_map_filter)
  moreover have "list_all Q ys" if "list_all Q xs" "set ys \<subseteq> set xs" for Q and xs ys :: "'x list"
    using that by (auto simp: list_all_iff)
  ultimately show ?thesis
    using assms(1) del_config_subset [of name "na_configs s"] unfolding networks_ok_def
    by (auto simp: list_all_iff dest!: set_mp [OF del_config_subset])
qed

lemma info_network_same:
  "info_network_helper name s = Inr s' \<Longrightarrow> na_networks s' = na_networks s \<and> na_configs s' = na_configs s \<and> na_next s' = na_next s"
  by (auto simp: info_network_helper_def Let_def split: option.split_asm)

lemma with_word_cases:
  assumes "with_word argv i missing s f = Inr s'"
  obtains "s' = tell missing s" | w where "f w = Inr s'"
  using assms by (auto simp: with_word_def split: option.split_asm)

text \<open>
  C0. Networks keep different names: whatever is asked of the command \<open>NETWORK\<close>, no two networks have
  names that differ at most in the case of letters, and each keeps its own address.
\<close>

theorem network_names_distinct:
  assumes "networks_ok s" "cmd_network k sys env cf argv s = Inr s'"
  shows "networks_ok s'"
proof -
  have same: "networks_ok t" if "na_networks t = na_networks s" "na_configs t = na_configs s" "na_next t = na_next s" for t :: "'a network_admin"
    using that assms(1) by (simp add: networks_ok_def)
  show ?thesis
    using assms(2) unfolding cmd_network_def
    by (elim with_word_cases)
      (auto split: if_split_asm elim!: with_word_cases
        intro: same networks_ok_add [OF assms(1)] networks_ok_rename [OF assms(1)] networks_ok_del [OF assms(1)] simp: assms(1)
        dest: info_network_same)
qed

text \<open>
  C0. A network that is added and given a server will be saved: the configuration has an entry with its
  name and the server, and it is the one that the new network works with.
\<close>

theorem added_network_configured:
  assumes "networks_ok s" "find_entry name (na_networks s) = None"
  shows "\<exists>s1 s2 nc n. cmd_network k sys env cf [''NETWORK'', ''ADD'', name] s = Inr s1 \<and>
    cmd_add_server [''ADDSERVER'', name, host] s1 = Inr s2 \<and> na_configs s2 = na_configs s @ [(na_next s, nc)] \<and>
    nc_name nc = Some name \<and> map snd (nc_servers nc) = [new_server host None] \<and>
    find_entry name (na_networks s2) = Some (na_next s, n) \<and> n_config n = network_config.truncate nc \<and> n_state n = NOT_CONNECTED"
proof -
  define c where "c = network_config_init\<lparr>nc_name := Some name\<rparr>"
  define m :: "'a proxy_network" where "m = fresh_network cf (network_config.truncate c)"
  define s1 where "s1 = tell (''Network '' @ quoted name @ '' added. Use ADDSERVER to add a server to this network.'')
    (s\<lparr>na_networks := na_networks s @ [(na_next s, m)], na_configs := na_configs s @ [(na_next s, c)], na_next := Suc (na_next s)\<rparr>)"
  define sv where "sv = (Suc (na_next s), new_server host None)"
  have m: "n_name m = Some name" "n_config m = network_config.truncate c" "n_state m = NOT_CONNECTED"
    by (simp_all add: m_def c_def network_config.defs)
  have "base_eq ''ADD'' ''add''" "\<not> base_eq ''ADD'' ''list''" by code_simp+
  then have s1: "cmd_network k sys env cf [''NETWORK'', ''ADD'', name] s = Inr s1"
    using add_network_new [OF assms(2), of cf]
    by (simp add: cmd_network_def with_word_def word_at_def s1_def m_def c_def del: append.simps)
  have found: "find_entry name (na_networks s @ [(a, n)]) = Some (a, n)" if "goes_by name n" for a n
    using find_entry_append [OF assms(2)] that by simp
  have gb: "goes_by name (m\<lparr>n_config := x\<rparr>)" "goes_by name m" for x using m(1) by (simp_all add: goes_by_def)
  have "\<forall>a \<in> fst ` set (na_networks s) \<union> fst ` set (na_configs s). a < na_next s"
    using assms(1) by (simp add: networks_ok_def list_all_iff)
  then have fresh: "na_next s \<notin> fst ` set (na_networks s)" "na_next s \<notin> fst ` set (na_configs s)" by blast+
  have keep: "map (\<lambda>(b, x). if b = na_next s then (b, f x) else (b, x)) xs = xs" if "na_next s \<notin> fst ` set xs" for f and xs :: "(addr \<times> 'x) list"
    using that by (induction xs) auto
  let ?n = "m\<lparr>n_config := append_server sv (n_config m)\<rparr>"
  define s2 where "s2 = tell (''Server added to '' @ quoted name) (put_network (na_next s) ?n
    (s1\<lparr>na_configs := map (\<lambda>(b, nc). if b = na_next s then (b, append_server sv nc) else (b, nc)) (na_configs s1), na_next := Suc (na_next s1)\<rparr>))"
  have "find_entry name (na_networks s1) = Some (na_next s, m)" using found [OF gb(2)] by (simp add: s1_def)
  moreover have "nc_type (n_config m) = NETWORK_TCP" by (simp add: m(2) c_def network_config.defs network_config_init_def)
  ultimately have s2: "cmd_add_server [''ADDSERVER'', name, host] s1 = Inr s2"
    unfolding s2_def sv_def by (simp add: cmd_add_server_def with_word_def word_at_def Let_def s1_def del: append.simps)
  have configs: "na_configs s2 = na_configs s @ [(na_next s, append_server sv c)]"
    using keep [OF fresh(2)] by (simp add: s2_def s1_def)
  have entry: "find_entry name (na_networks s2) = Some (na_next s, ?n)"
    using keep [OF fresh(1), of "\<lambda>_. ?n"] found [OF gb(1)] by (simp add: s2_def s1_def put_network_def)
  have rest: "nc_name (append_server sv c) = Some name" "map snd (nc_servers (append_server sv c)) = [new_server host None]"
    "n_config ?n = network_config.truncate (append_server sv c)" "n_state ?n = NOT_CONNECTED"
    by (simp_all add: m append_server_def network_config.defs c_def sv_def network_config_init_def)
  show ?thesis
    by (rule exI [of _ s1], rule exI [of _ s2], rule exI [of _ "append_server sv c"], rule exI [of _ ?n])
      (intro conjI s1 s2 configs entry rest)
qed

text \<open>
  C0. Renaming a network is forgotten by the configuration: it keeps the old name, so that deleting the
  network under its new name leaves the configuration as it was, and the next start has the
  network again.
\<close>

theorem renamed_network_stays_configured:
  assumes "find_entry oldname (na_networks s) = Some (a, n)" "find_entry newname (na_networks s) = None"
    and "n_state n = NOT_CONNECTED" "pn_clients n = []" "config_find_network (map snd (na_configs s)) newname = None"
  shows "\<exists>s1 s2. cmd_network k sys env cf [''NETWORK'', ''rename'', oldname, newname] s = Inr s1 \<and>
    cmd_network k sys env cf [''NETWORK'', ''del'', newname] s1 = Inr s2 \<and>
    a \<notin> fst ` set (na_networks s2) \<and> na_configs s2 = na_configs s"
proof -
  let ?n = "n\<lparr>n_name := Some newname\<rparr>"
  let ?s1 = "put_network a ?n s"
  have b: "base_eq ''rename'' ''rename''" "\<not> base_eq ''rename'' ''list''" "\<not> base_eq ''rename'' ''add''" "base_eq ''del'' ''del''"
    "\<not> base_eq ''del'' ''list''" "\<not> base_eq ''del'' ''add''" "\<not> base_eq ''del'' ''rename''" by code_simp+
  then have s1: "cmd_network k sys env cf [''NETWORK'', ''rename'', oldname, newname] s = Inr ?s1"
    using assms(1,2) by (simp add: cmd_network_def with_word_def word_at_def rename_network_helper_def del: append.simps)
  have "(a, n) \<in> set (na_networks s)" using find_entry_Some [OF assms(1)] by simp
  then have "(a, ?n) \<in> set (na_networks ?s1)" "goes_by newname ?n" by (force simp: in_put_network goes_by_def)+
  then have "find_entry newname (na_networks ?s1) \<noteq> None" unfolding find_entry_None by (metis snd_conv)
  then obtain b m where f: "find_entry newname (na_networks ?s1) = Some (b, m)" by (cases "find_entry newname (na_networks ?s1)") auto
  then have bm: "(b, m) \<in> set (na_networks ?s1)" "goes_by newname m" using find_entry_Some by fast+
  then have "b = a" "m = ?n" using assms(2) by (auto simp: in_put_network find_entry_None split: if_split_asm)
  have "del_config newname (na_configs s) = na_configs s"
  proof -
    have "List.find (\<lambda>(_, nc). config_find_network [nc] newname \<noteq> None) cs = None"
      if "config_find_network (map snd cs) newname = None" for cs :: "(addr \<times> stored_network) list"
      using that by (induction cs) (auto simp: config_find_network_def split: if_split_asm option.split_asm)
    then show ?thesis using assms(5) by (simp add: del_config_def)
  qed
  then have "\<exists>s2. del_network_helper k sys env newname ?s1 = Inr s2 \<and> a \<notin> fst ` set (na_networks s2) \<and> na_configs s2 = na_configs s"
    using f \<open>b = a\<close> \<open>m = ?n\<close> assms(3,4)
    by (auto simp: del_network_helper_def disconnect_network_def unload_network_def)
  then show ?thesis using s1 b by (auto simp: cmd_network_def with_word_def word_at_def)
qed

section \<open>Connections\<close>

lemma current_entry_in: "current_entry h s = Some (a, n) \<Longrightarrow> (a, n) \<in> set (na_networks s)"
  by (auto simp: current_entry_def dest: find_in_set split: bind_split_asm)

definition chosen_entry :: "addr option \<Rightarrow> string option \<Rightarrow> 'c network_admin \<Rightarrow> (addr \<times> 'c proxy_network) option" where
  "chosen_entry h a1 s = (case a1 of Some name \<Rightarrow> find_entry name (na_networks s) | None \<Rightarrow> current_entry h s)"

lemma chosen_entry_in: "chosen_entry h a1 s = Some (a, n) \<Longrightarrow> (a, n) \<in> set (na_networks s)"
  by (auto simp: chosen_entry_def dest: current_entry_in find_entry_Some split: option.split_asm)

text \<open>A network whose connection is not in order afterwards was not in order before.\<close>

definition conn_kept :: "'c network_admin \<Rightarrow> 'c network_admin \<Rightarrow> bool" where
  "conn_kept s s' \<longleftrightarrow>
     list_all (\<lambda>(a, n'). conn_inv n' \<or> list_ex (\<lambda>(b, n). b = a \<and> \<not> conn_inv n) (na_networks s)) (na_networks s')"

lemma conn_keptI:
  assumes "\<And>a n'. (a, n') \<in> set (na_networks s') \<Longrightarrow> conn_inv n' \<or> (\<exists>n. (a, n) \<in> set (na_networks s) \<and> \<not> conn_inv n)"
  shows "conn_kept s s'"
  using assms unfolding conn_kept_def list_all_iff list_ex_iff by fast

lemma conn_kept_sub: "set (na_networks s') \<subseteq> set (na_networks s) \<Longrightarrow> conn_kept s s'"
  by (rule conn_keptI) blast

lemma conn_kept_same [simp]: "na_networks s' = na_networks s \<Longrightarrow> conn_kept s s'"
  by (rule conn_kept_sub) simp

lemma conn_kept_put:
  assumes "(a, n) \<in> set (na_networks s)" "conn_inv n \<Longrightarrow> conn_inv n'" "na_networks s1 = na_networks s"
  shows "conn_kept s (put_network a n' s1)"
proof (rule conn_keptI)
  fix b m
  assume "(b, m) \<in> set (na_networks (put_network a n' s1))"
  then have "b = a \<and> m = n' \<or> (b, m) \<in> set (na_networks s)" using assms(3) by (auto simp: in_put_network split: if_split_asm)
  then show "conn_inv m \<or> (\<exists>n. (b, n) \<in> set (na_networks s) \<and> \<not> conn_inv n)" using assms(1,2) by blast
qed

lemmas conn_inv_parts = conn_inv_def conn_basic_def server_known_def resources_def own_sources_def disconnected_def names_set_def online_def

lemma conn_inv_renamed [simp]: "conn_inv (n\<lparr>n_name := x\<rparr>) = conn_inv n" for n :: "'c proxy_network"
  by (simp add: conn_inv_parts cong: irc_network_connection_state.case_cong)

lemma conn_inv_fresh: "nc_type nc \<in> {NETWORK_TCP, NETWORK_PROGRAM} \<Longrightarrow> conn_inv (fresh_network cf nc)"
  using proxy_new_inv [of nc] by (simp add: fresh_network_def Let_def conn_inv_parts cong: irc_network_connection_state.case_cong)

lemma conn_inv_server: "conn_inv n \<Longrightarrow> conn_inv (n\<lparr>n_config := append_server sv (n_config n)\<rparr>)" for n :: "'c proxy_network"
  by (simp add: conn_inv_parts append_server_def cong: irc_network_connection_state.case_cong)

context proxy_system
begin

lemma connect_keeps:
  assumes "conn_inv n" "n_state n = NOT_CONNECTED" "connect_network k (proxy_env sys env) n = Inr (b, n')"
  shows "conn_inv n'"
  using conn.net_step_ok [OF assms(1), of Ev_connect k] assms(2,3) by (simp add: ev_enabled_def net_step_def)

lemma disconnect_keeps:
  assumes "conn_inv n" "disconnect_network k (proxy_env sys env) n = Inr (b, n')"
  shows "conn_inv n' \<and> n_state n' = NOT_CONNECTED"
proof (cases "n_state n = NOT_CONNECTED")
  case True
  then show ?thesis using assms by (simp add: disconnect_network_def)
next
  case False
  then have "close_server k (proxy_env sys env) n = Inr (b, n')" using assms(2) by (simp add: disconnect_network_def)
  moreover have "safe {} (\<lambda>(_, m). conn_inv m \<and> n_state m = NOT_CONNECTED \<and> n_next_source m = n_next_source n)
      (close_server k (proxy_env sys env) n)"
    unfolding close_server_def by (rule conn.close_server_ok [OF assms(1)])
  ultimately show ?thesis by simp
qed

lemma reconnect_next_keeps:
  assumes "conn_inv n" "reconnect_next k (proxy_env sys env) n = Inr n'"
  shows "conn_inv n'"
proof -
  from assms(2) obtain b n1 b2 where n1: "disconnect_network k (proxy_env sys env) n = Inr (b, n1)"
    "connect_network k (proxy_env sys env) (irc_network_select_next_server n1) = Inr (b2, n')"
    by (auto simp: reconnect_next_def)
  note d = disconnect_keeps [OF assms(1) n1(1)]
  then have "conn_inv (irc_network_select_next_server n1)"
    using conn.net_step_ok [of n1 Ev_next_server k] by (simp add: ev_enabled_def net_step_def)
  moreover have "n_state (irc_network_select_next_server n1) = NOT_CONNECTED"
    using d by (simp add: irc_network_select_next_server_def)
  ultimately show ?thesis using connect_keeps n1(2) by blast
qed

lemma cmd_network_keeps:
  assumes "cmd_network k sys (proxy_env sys env) cf argv s = Inr s'"
  shows "conn_kept s s'"
proof -
  have add: "conn_kept s t" if "add_network_helper cf name s = Inr t" for name t
  proof (cases "find_entry name (na_networks s)")
    case None
    have "conn_inv (fresh_network cf (network_config.truncate (network_config_init\<lparr>nc_name := Some name\<rparr>)))"
      by (rule conn_inv_fresh) (simp add: network_config.defs network_config_init_def)
    then show ?thesis using that unfolding add_network_new [OF None] by (intro conn_keptI) auto
  qed (use that in \<open>auto simp: add_network_helper_def\<close>)
  have rename: "conn_kept s (rename_network_helper x y s)" for x y
    by (auto simp: rename_network_helper_def intro: conn_kept_put dest: find_entry_Some split: option.split)
  have del: "conn_kept s t" if "del_network_helper k sys (proxy_env sys env) name s = Inr t" for name t
    using that by (auto simp: del_network_helper_def intro!: conn_kept_sub split: option.split_asm)
  have info: "conn_kept s t" if "info_network_helper name s = Inr t" for name t
    using info_network_same [OF that] by simp
  show ?thesis
    using assms unfolding cmd_network_def
    by (elim with_word_cases) (auto split: if_split_asm elim!: with_word_cases intro: add rename del info)
qed

lemma kept_put_told:
  "reconnect_next k (proxy_env sys env) n = Inr n1 \<Longrightarrow> (a, n) \<in> set (na_networks s) \<Longrightarrow> conn_kept s (put_network a n1 (tell m s))"
  "disconnect_network k (proxy_env sys env) n = Inr (b, n1) \<Longrightarrow> (a, n) \<in> set (na_networks s) \<Longrightarrow> conn_kept s (put_network a n1 (tell m s))"
  "connect_network k (proxy_env sys env) n = Inr (b, n1) \<Longrightarrow> n_state n = NOT_CONNECTED \<Longrightarrow> (a, n) \<in> set (na_networks s) \<Longrightarrow>
    conn_kept s (put_network a n1 (tell m s))"
  using reconnect_next_keeps disconnect_keeps connect_keeps by (blast intro: conn_kept_put tell_simps)+

lemmas kept_told =
  kept_put_told(1) [OF _ find_entry_Some [THEN conjunct1]] kept_put_told(1) [OF _ current_entry_in]
  kept_put_told(2) [OF _ find_entry_Some [THEN conjunct1]] kept_put_told(2) [OF _ current_entry_in]
  kept_put_told(3) [OF _ _ find_entry_Some [THEN conjunct1]]

lemma cmd_connect_keeps: "cmd_connect_network k (proxy_env sys env) argv s = Inr s' \<Longrightarrow> conn_kept s s'"
  unfolding cmd_connect_network_def
  by (elim with_word_cases)
    (auto split: option.split_asm irc_network_connection_state.split_asm intro: kept_told simp del: append.simps)

lemma cmd_disconnect_keeps:
  assumes "cmd_disconnect_network nd k (proxy_env sys env) h argv s = Inr s'"
  shows "conn_kept s s'"
proof -
  obtain a1 where a1: "word_at argv 1 = Inr a1" using assms by (auto simp: cmd_disconnect_network_def)
  show ?thesis
  proof (cases "chosen_entry h a1 s")
    case (Some x)
    obtain a n where x: "x = (a, n)" by (cases x)
    then have "(a, n) \<in> set (na_networks s)" using chosen_entry_in Some by simp
    then show ?thesis
      using assms a1 Some x
      by (auto simp: cmd_disconnect_network_def chosen_entry_def [symmetric] intro: kept_put_told split: if_split_asm simp del: append.simps)
  qed (use assms a1 in \<open>auto simp: cmd_disconnect_network_def chosen_entry_def [symmetric] simp del: append.simps\<close>)
qed

lemma cmd_next_server_keeps:
  assumes "cmd_next_server k (proxy_env sys env) h argv s = Inr s'"
  shows "conn_kept s s'"
proof -
  obtain a1 where a1: "word_at argv 1 = Inr a1" using assms by (auto simp: cmd_next_server_def)
  show ?thesis
  proof (cases "chosen_entry h a1 s")
    case (Some x)
    obtain a n where x: "x = (a, n)" by (cases x)
    then have "(a, n) \<in> set (na_networks s)" using chosen_entry_in Some by simp
    then show ?thesis
      using assms a1 Some x
      by (auto simp: cmd_next_server_def chosen_entry_def [symmetric] Let_def intro: kept_put_told simp del: append.simps)
  qed (use assms a1 in \<open>auto simp: cmd_next_server_def chosen_entry_def [symmetric] simp del: append.simps\<close>)
qed

end

lemma kept_add_server:
  assumes "find_entry w (na_networks s) = Some (a, n)"
  shows "conn_kept s (tell t (put_network a (n\<lparr>n_config := append_server sv (n_config n)\<rparr>) (s\<lparr>na_configs := cs, na_next := i\<rparr>)))"
  using conn_kept_put [OF find_entry_Some [OF assms, THEN conjunct1] conn_inv_server [of n sv], of "s\<lparr>na_configs := cs, na_next := i\<rparr>"]
  by (simp add: conn_kept_def)

lemma cmd_add_server_keeps: "cmd_add_server argv s = Inr s' \<Longrightarrow> conn_kept s s'"
  unfolding cmd_add_server_def Let_def
  by (elim with_word_cases)
    (auto split: option.split_asm if_split_asm elim!: with_word_cases intro: kept_add_server simp del: append.simps)

text \<open>
  C0. The administration interface leaves connections in order: with the callbacks of the proxy, every network
  that is connected over TCP or to a program and whose state agrees with what it holds is so after any of
  the commands on networks, and networks that are added begin so.
\<close>

theorem admin_keeps_connections:
  assumes "proxy_system sys env"
    and "handler \<in> {cmd_connect_network k (proxy_env sys env), cmd_disconnect_network nd k (proxy_env sys env) h,
      cmd_next_server k (proxy_env sys env) h, cmd_add_server, cmd_network k sys (proxy_env sys env) cf}"
    and "handler argv s = Inr s'"
  shows "conn_kept s s'"
  using assms(2,3) cmd_add_server_keeps proxy_system.cmd_connect_keeps [OF assms(1)] proxy_system.cmd_disconnect_keeps [OF assms(1)]
    proxy_system.cmd_next_server_keeps [OF assms(1)] proxy_system.cmd_network_keeps [OF assms(1)]
  by (elim insertE emptyE) simp_all

section \<open>Witnesses\<close>

definition no_networks :: "string list network_admin" where
  "no_networks = \<lparr>na_networks = [], na_configs = [], na_next = 0, na_out = []\<rparr>"

definition one_network :: "string list network_admin" where
  "one_network = \<lparr>na_networks = [(0, proxy_network_new demo_config)],
     na_configs = [(0, network_config_init\<lparr>nc_name := nc_name demo_config\<rparr>)], na_next = 1, na_out = []\<rparr>"

abbreviation demo_surroundings :: "(string list, string list proxy_network) net_env" where
  "demo_surroundings \<equiv> proxy_env demo_sys (demo_os [Connected_at_once []])"

lemma no_networks_ok: "networks_ok no_networks" "find_entry name (na_networks no_networks) = None"
  by (simp_all add: networks_ok_def no_networks_def find_entry_def)

theorem network_names_distinct_witness:
  "\<exists>s'. cmd_network 0 demo_sys demo_surroundings demo_settings [''NETWORK'', ''ADD'', ''oftc''] no_networks = Inr s' \<and>
     map (n_name \<circ> snd) (na_networks s') = [Some ''oftc''] \<and> networks_ok s'"
proof -
  have "base_eq ''ADD'' ''add''" "\<not> base_eq ''ADD'' ''list''" by code_simp+
  then obtain s' where s': "cmd_network 0 demo_sys demo_surroundings demo_settings [''NETWORK'', ''ADD'', ''oftc''] no_networks = Inr s'"
    "map (n_name \<circ> snd) (na_networks s') = [Some ''oftc'']"
    using add_network_new [OF no_networks_ok(2), of demo_settings "''oftc''"]
    by (simp add: cmd_network_def with_word_def word_at_def no_networks_def network_config.defs)
  from network_names_distinct [OF no_networks_ok(1) s'(1)] s' show ?thesis by (intro exI [of _ s'] conjI)
qed

theorem added_network_configured_witness:
  "\<exists>s1 s2 nc. cmd_network 0 demo_sys demo_surroundings demo_settings [''NETWORK'', ''ADD'', ''oftc''] no_networks = Inr s1 \<and>
     cmd_add_server [''ADDSERVER'', ''oftc'', ''irc.oftc.net:6668''] s1 = Inr s2 \<and> na_configs s2 = [(0, nc)] \<and>
     nc_name nc = Some ''oftc'' \<and>
     map snd (nc_servers nc) =
       [\<lparr>ts_host = ''irc.oftc.net'', ts_port = ''6668'', ts_ssl = False, ts_bind_address = None, ts_password = None\<rparr>]"
proof -
  have sv: "new_server ''irc.oftc.net:6668'' None =
      \<lparr>ts_host = ''irc.oftc.net'', ts_port = ''6668'', ts_ssl = False, ts_bind_address = None, ts_password = None\<rparr>"
    by (simp add: new_server_def Let_def)
  obtain s1 s2 nc where r: "cmd_network 0 demo_sys demo_surroundings demo_settings [''NETWORK'', ''ADD'', ''oftc''] no_networks = Inr s1"
    "cmd_add_server [''ADDSERVER'', ''oftc'', ''irc.oftc.net:6668''] s1 = Inr s2"
    "na_configs s2 = na_configs no_networks @ [(na_next no_networks, nc)]" "nc_name nc = Some ''oftc''"
    "map snd (nc_servers nc) = [new_server ''irc.oftc.net:6668'' None]"
    using added_network_configured [OF no_networks_ok(1) no_networks_ok(2) [of "''oftc''"], of 0 demo_sys demo_surroundings demo_settings
        "''irc.oftc.net:6668''"] by (elim exE conjE) simp
  have "na_configs s2 = [(0, nc)]" using r(3) by (simp add: no_networks_def)
  then show ?thesis using r sv by (intro exI [of _ s1] exI [of _ s2] exI [of _ nc] conjI) simp_all
qed

theorem renamed_network_stays_configured_witness:
  "\<exists>s1 s2. cmd_network 0 demo_sys demo_surroundings demo_settings [''NETWORK'', ''rename'', ''net'', ''oftc''] one_network = Inr s1 \<and>
     cmd_network 0 demo_sys demo_surroundings demo_settings [''NETWORK'', ''del'', ''oftc''] s1 = Inr s2 \<and>
     na_configs s2 = na_configs one_network"
proof -
  let ?n = "proxy_network_new demo_config :: string list proxy_network"
  have b: "base_eq ''net'' ''net''" "\<not> base_eq ''net'' ''oftc''" by code_simp+
  have n: "n_name ?n = Some ''net''" "n_state ?n = NOT_CONNECTED" "pn_clients ?n = []" "nc_name demo_config = Some ''net''"
    by (simp_all add: proxy_network_new_def irc_network.defs irc_network_new_def demo_config_def)
  have "find_entry ''net'' (na_networks one_network) = Some (0, ?n)" "find_entry ''oftc'' (na_networks one_network) = None"
    "config_find_network (map snd (na_configs one_network)) ''oftc'' = None"
    using b n by (simp_all add: find_entry_eq goes_by_def one_network_def config_find_network_def)
  from renamed_network_stays_configured [OF this(1,2) n(2,3) this(3), of 0 demo_sys demo_surroundings demo_settings]
  obtain s1 s2 where "cmd_network 0 demo_sys demo_surroundings demo_settings [''NETWORK'', ''rename'', ''net'', ''oftc''] one_network = Inr s1"
    "cmd_network 0 demo_sys demo_surroundings demo_settings [''NETWORK'', ''del'', ''oftc''] s1 = Inr s2"
    "na_configs s2 = na_configs one_network" by (elim exE conjE)
  then show ?thesis by (intro exI [of _ s1] exI [of _ s2] conjI)
qed

theorem admin_keeps_connections_witness:
  "\<exists>s'. cmd_connect_network 0 demo_surroundings [''CONNECT'', ''net''] one_network = Inr s' \<and>
     map (n_state \<circ> snd) (na_networks s') = [LOGIN_SENT] \<and> conn_kept one_network s'"
proof -
  have "case cmd_connect_network 0 demo_surroundings [''CONNECT'', ''net''] one_network of
      Inl _ \<Rightarrow> False | Inr s \<Rightarrow> map (n_state \<circ> snd) (na_networks s) = [LOGIN_SENT]" by code_simp
  then obtain s' where s': "cmd_connect_network 0 demo_surroundings [''CONNECT'', ''net''] one_network = Inr s'"
    "map (n_state \<circ> snd) (na_networks s') = [LOGIN_SENT]" by (auto split: sum.splits)
  have "conn_kept one_network s'"
    using admin_keeps_connections [of demo_sys "demo_os [Connected_at_once []]" "cmd_connect_network 0 demo_surroundings" 0 "\<lambda>_. False" None
        demo_settings "[''CONNECT'', ''net'']" one_network s'] demo.proxy_system_axioms s'(1) by simp
  then show ?thesis using s' by (intro exI [of _ s'] conjI)
qed

end
