(* ===== verification/Spec2Isabelle.thy ===== *)
theory Spec2Isabelle
  imports State_Spec Redirect Hooks Url Cache Ctcp Connection_Spec Proxy_Spec Repl Listener_Spec Admin_Spec Admin_Networks
begin

text \<open>
  A verification of the core of ctrlproxy, an IRC proxy written in C. The proxy keeps a
  connection to each IRC network, tracks the state of the network from the lines the server
  sends, and serves any number of clients from it.

  \<^bold>\<open>Parts of the program and how they interact.\<close> \<open>libirc/line.c\<close> turns text into lines and back;
  everything else works on lines. \<open>libirc/connection.c\<close> keeps the connection to a server, over
  the transports of \<open>libirc/transport.c\<close>, and calls \<open>src/network.c\<close> back for every line, for the
  login details and when the connection is lost. A line from the server is handed to
  \<open>state_handle_data\<close> of \<open>libirc/state.c\<close>, which updates channels, users and modes; 005 lines
  go on to \<open>libirc/isupport.c\<close>, which records what the network says about itself and answers
  how names compare and which characters are channel or status prefixes. The line then
  passes the filters of \<open>src/hooks.c\<close>, numerics are given to the client whose command
  they answer by the query stack of \<open>libirc/redirect.c\<close> and \<open>src/redirect.c\<close>, and lines are
  kept on disk by \<open>libirc/linestack.c\<close>. Clients enter through \<open>libirc/listener.c\<close> and
  \<open>src/listener.c\<close>, become objects of \<open>libirc/client.c\<close>, are brought up to date by \<open>src/repl.c\<close>,
  and their lines are processed by \<open>src/client.c\<close>: answered from the state by \<open>src/cache.c\<close>, by
  the program, or forwarded to the server.

  \<^bold>\<open>Theories.\<close>
  \<^item> \<open>Prelude\<close>: the faults that end a C program, results \<open>fault + 'a\<close>, the predicate
    \<open>safe F P m\<close> (no fault of \<open>F\<close>, and \<open>P\<close> of the value) with one rule per kind of step in the
    collection \<open>vcg\<close>.
  \<^item> \<open>Clib\<close>: the functions of the C library and of GLib that the sources use, by their
    documented behaviour: strings are lists of characters up to the terminator, \<open>char\<close> is
    signed, \<open>strchr\<close> finds the terminator, \<open>strtol\<close> saturates, \<open>atoi\<close> is reduced to 32 bits.
  \<^item> \<open>Numerics\<close>: the reply codes of \<open>libirc/irc.h\<close>.
  \<^item> \<open>Util\<close> (\<open>libirc/util.c\<close>): comparison of words and of names; the locale \<open>name_eq\<close> states
    what a search by name needs of a comparison, and is interpreted on \<open>base_strcmp\<close>, on
    \<open>irccmp\<close> (in \<open>Isupport\<close>) and on the comparison of a network state (in \<open>State_Spec\<close>).
  \<^item> \<open>Line\<close> (\<open>libirc/line.c\<close>): record \<open>irc_line\<close>, parser, printer, and the functions on lines.
  \<^item> \<open>Url\<close> (\<open>libirc/url.c\<close>).
  \<^item> \<open>Isupport\<close> (\<open>libirc/isupport.c\<close>): the record of network information, reading and writing
    005 tokens, name comparison, prefix and mode tables.
  \<^item> \<open>Nicks\<close> (\<open>libirc/state.c\<close>): mode sets, the identity of a user, ban lists.
  \<^item> \<open>State\<close> (\<open>libirc/state.c\<close>): the graph of channels, users and channel records in an explicit
    store; \<open>find_*\<close>, \<open>find_add_*\<close> and \<open>free_*\<close> functions. An address that is not in the store
    is freed memory; reading it is the fault \<open>UseAfterFree\<close>.
  \<^item> \<open>State_Inv\<close>: the invariant \<open>wf_graph\<close> and its preservation, and that freeing ends.
  \<^item> \<open>State_Handlers\<close>: the thirty handlers, the command table, the dispatcher.
  \<^item> \<open>State_Safety\<close>: every handler is memory safe; the step relation \<open>tracks\<close>, reachability.
  \<^item> \<open>State_Spec\<close>: what JOIN, PART, QUIT and the lookups do.
  \<^item> \<open>Redirect\<close> (\<open>libirc/redirect.c\<close>, \<open>src/redirect.c\<close>): the table of commands, the query stack;
    locale \<open>request_list\<close> for the selection among outstanding requests.
  \<^item> \<open>Hooks\<close> (\<open>src/hooks.c\<close>): filter chains; locale \<open>veto_chain\<close> for chains that stop at the
    first refusal, interpreted on the filters and on the new-client hooks.

  \<^item> \<open>Transport\<close> (\<open>libirc/transport.c\<close>, \<open>libirc/transport_ioc.c\<close>): the queue of lines that wait for
    the channel, its watches, charsets, and the runs of a transport. A channel \<open>'c giochannel\<close> is
    a parameter: what writing, flushing and reading a line give.
  \<^item> \<open>Client\<close>, \<open>Client_State\<close>, \<open>Client_Spec\<close>, \<open>Client_Names\<close> (\<open>libirc/client.c\<close>): the client object and
    its registration, sending states, state differences, name lists and netsplits.
  \<^item> \<open>Cache\<close> (\<open>src/cache.c\<close>) and \<open>Ctcp\<close> (\<open>src/ctcp.c\<close>, \<open>src/ctcp_redirect.c\<close>).
  \<^item> \<open>Connection\<close> (\<open>libirc/connection.c\<close>): the state machine of a server connection with its timers
    as sources of the main loop; \<open>Connection_Spec\<close> states in the locale \<open>network_env\<close> what a
    connection needs of its surroundings and callbacks, and proves its invariant \<open>conn_inv\<close> over
    every event.
  \<^item> \<open>Forward\<close> and \<open>Proxy\<close> (\<open>src/client.c\<close>), \<open>Network\<close> (\<open>src/network.c\<close>, \<open>src/nickserv.c\<close>): the
    proxy between clients and network. \<open>proxy_env\<close> fills the callbacks of the connection with the
    functions of \<open>src/network.c\<close>. \<open>Network_Spec\<close> shows in the locale \<open>proxy_system\<close>, which speaks
    about the system, the filters and the hooks only, that these callbacks keep the contract of
    the connection (\<open>network_env\<close> is a sublocale), and \<open>Proxy_Spec\<close> holds the properties that span
    connection, state, query stack and clients.
  \<^item> \<open>Marshal\<close> and \<open>Linestack\<close> (\<open>libirc/linestack.c\<close>): the text format of stored states, and the
    files of lines and index; \<open>Linestack_Spec\<close> relates the files to the list of lines they
    represent and proves that inserting and traversing refine the operations on that list.
  \<^item> \<open>Repl\<close> (\<open>src/repl.c\<close>, \<open>src/repl_backends.c\<close>): what a client that connects is sent.
  \<^item> \<open>Listener\<close> (\<open>libirc/listener.c\<close>) and \<open>Login\<close> (\<open>src/listener.c\<close>): pending clients, the SOCKS
    dialogue over byte buffers, and passwords; \<open>Listener_Spec\<close> has the locale \<open>pending_owner\<close> for
    the callbacks of a listener, interpreted on those of the proxy, and the runs of a listener.
  \<^item> \<open>Keyfile\<close> (\<open>src/keyfile.c\<close> and the password file of \<open>src/nickserv.c\<close>): entries separated by tabs.
  \<^item> \<open>Log_Files\<close> (\<open>src/log_support.c\<close>), \<open>Log_Subst\<close> (\<open>src/log_subst.c\<close>) and \<open>Log_Custom\<close>
    (\<open>src/log_custom.c\<close>): open log files, variables in formats and file names, and what is logged where.
  \<^item> \<open>Auto_Away\<close> (\<open>src/auto_away.c\<close>): the timer, the filter and the hooks of the automatic away.
  \<^item> \<open>Gkeyfile\<close>: key files of GLib by their documented behaviour; the locale \<open>keyfile_type\<close> states
    that a typed value is read back from its text, and is interpreted on strings, lists, integers and
    truth values. \<open>Settings\<close> and \<open>Configuration\<close> (\<open>src/settings.c\<close>): networks, and listeners, logs and
    global settings, saved to and loaded from files; \<open>Settings_Spec\<close> holds their properties.
  \<^item> \<open>Admin\<close> (\<open>src/admin.c\<close>): settings, commands and the administration network; \<open>Admin_Spec\<close>
    has their properties. \<open>Admin_Networks\<close>: the commands on networks, over the list of networks of the
    program and that of its configuration, with the callbacks of the proxy.

  \<^bold>\<open>Conventions.\<close> A pointer that may be NULL is an option; following it is \<open>deref\<close> (fault
  \<open>NullDeref\<close>) or, after a \<open>g_assert\<close>, \<open>asserted\<close> (fault \<open>AssertFail\<close>). The argument array of
  a line is a list; reading one past the terminator is \<open>OutOfBounds\<close>. \<open>time(NULL)\<close> is an
  argument \<open>now\<close>. Allocation does not fail, as in GLib. Log messages are not modelled: they do
  not change the state.

  \<^bold>\<open>What the theorems show.\<close> Lines survive printing and parsing; parsed lines survive being
  sent on. Names compare as their case-folded forms. The tracker keeps its object graph
  intact for every line a server can send, follows no dangling pointer, and ends; freeing it
  frees everything. JOIN, PART and QUIT change exactly what they name. Replies go to the
  oldest command they answer and references to clients are balanced. Filters run in the
  order of their priority up to the first veto. Lines handed to a transport are written in
  order, none lost or doubled, and waiting lines are written once the channel is ready. A
  connection, with the callbacks of the proxy and whatever clients send, keeps its state,
  timers, watches and transport in agreement. A command that was forwarded is answered to its
  sender, and a client sees its own mask. Stored lines are read back as they were stored, and
  replication sends exactly those since its marker. Pending clients and watches agree, and no
  client gets in without an accepted password, by line or by SOCKS. Log formats are expanded as a
  direct reading of them says, open log files are counted, and both sides of a conversation are in
  one file. A user is marked away only when idle. Networks, listeners and passwords that are saved
  are loaded again, whatever is loaded is well formed, and a setting that is changed is shown.
  Commands on networks keep connections in order and names different.
  Several theorems prove faults of the code on concrete kinds of input (kind \<open>error\<close>).

  \<^bold>\<open>Fuel.\<close> The two freeing functions call each other and loop; they take fuel, and running out
  is the fault \<open>Diverges\<close>. The wrappers pass \<open>s_next s + 5\<close>: on a well-formed graph a list of
  records has at most \<open>s_next s\<close> elements, and the nesting of calls is at most three, so the
  fuel is enough (\<open>State_Inv\<close>).

  The loop of a netsplit takes \<open>ps_netsplit_fuel\<close> rounds; \<open>Client_Names\<close> shows that one per user
  is enough. A connection is given the depth \<open>k\<close> of hangups that are reported while another is
  handled; the invariant holds for every depth. Reading the lines that a channel has ready takes
  as fuel their number (\<open>receive_lines\<close>, \<open>pending_lines\<close>).

  \<^bold>\<open>Parameters.\<close> Channels, sockets, name lookup, TLS wrapping, pipes and character set conversion
  are library and system calls: their outcomes are arguments (\<open>giochannel\<close>, \<open>sock_io\<close>, the
  fields of \<open>net_env\<close> and \<open>login_env\<close>), and what the theorems need of them is a hypothesis or an
  assumption of a locale. Files of the line stack are byte lists with a position. Memory that
  is not initialised is a parameter (\<open>junk\<close>).

  \<^bold>\<open>Not modelled.\<close> The bodies of the system calls above, \<open>strftime\<close>, GSSAPI and TLS; messages of the
  program itself (\<open>src/log.c\<close>); the text of key files, which GLib reads and writes; the questions of
  \<open>src/gen_config.c\<close>; the commands of the administration interface on listeners, backlogs, clients
  and help, which are entries of the table of commands that \<open>Admin\<close> is given; the start of the
  program, the daemon, and the Python bindings.
\<close>

end
